(* ===== verification/Prelude.thy ===== *)
theory Prelude
  imports Complex_Main "HOL-Library.Word"
begin

text \<open>
  Shared vocabulary of the development.

  \<^item> \<open>byte\<close> is the C++ \<open>uint8_t\<close>; \<open>u32\<close> and \<open>u64\<close> are the widths of
    the \<open>int\<close>/\<open>uint32_t\<close> and \<open>size_t\<close>/\<open>int64_t\<close> atomics whose
    arithmetic wraps.
  \<^item> \<open>outcome\<close> is what a call does to its caller: \<open>Wait\<close> (it blocks on a
    condition variable), \<open>Ret r\<close> (it returns \<open>r\<close>) or \<open>UB\<close> (it runs into
    undefined behaviour: an index out of range or a division by zero).

  The named collections gather the unfolding rules of one component each, so that a
  component's proofs read \<open>simp add: pq_defs\<close>.
\<close>

type_synonym byte = "8 word"
type_synonym u32 = "32 word"
type_synonym u64 = "64 word"

datatype 'a outcome = Wait | Ret 'a | UB

named_theorems pkt_defs \<open>unfolding rules of class Packet\<close>
named_theorems pq_defs \<open>unfolding rules of class PacketQueue\<close>
named_theorems fr_defs \<open>unfolding rules of class Frame\<close>
named_theorems fq_defs \<open>unfolding rules of class FrameQueue\<close>
named_theorems clk_defs \<open>unfolding rules of class Clock\<close>
named_theorems sync_defs \<open>unfolding rules of class StreamSyncManager\<close>

subsection \<open>C++ helpers the sources share\<close>

definition std_clamp :: "'a::linorder \<Rightarrow> 'a \<Rightarrow> 'a \<Rightarrow> 'a" where
  "std_clamp v lo hi = (if v < lo then lo else if hi < v then hi else v)"

lemma std_clamp_bounds: "lo \<le> hi \<Longrightarrow> lo \<le> std_clamp v lo hi \<and> std_clamp v lo hi \<le> hi"
  by (auto simp: std_clamp_def)

lemma std_clamp_id: "lo \<le> v \<Longrightarrow> v \<le> hi \<Longrightarrow> std_clamp v lo hi = v"
  by (auto simp: std_clamp_def)

lemma std_clamp_mono: "lo \<le> hi \<Longrightarrow> v \<le> w \<Longrightarrow> std_clamp v lo hi \<le> std_clamp w lo hi"
  by (auto simp: std_clamp_def)

text \<open>The conversion of a floating-point value to an integer type truncates towards zero.\<close>

definition trunc_to_int :: "real \<Rightarrow> int" where
  "trunc_to_int x = (if 0 \<le> x then \<lfloor>x\<rfloor> else \<lceil>x\<rceil>)"

lemma trunc_to_int_of_int [simp]: "trunc_to_int (of_int n) = n"
  by (simp add: trunc_to_int_def)

lemma trunc_to_int_nonneg: "0 \<le> x \<Longrightarrow> 0 \<le> trunc_to_int x"
  by (simp add: trunc_to_int_def)

lemma trunc_to_int_le: "0 \<le> x \<Longrightarrow> of_int (trunc_to_int x) \<le> x"
  by (simp add: trunc_to_int_def)

lemma trunc_to_int_gt: "0 \<le> x \<Longrightarrow> x < of_int (trunc_to_int x) + 1"
  by (simp add: trunc_to_int_def)

text \<open>The decimal digits of a number.\<close>

fun dec_string :: "nat \<Rightarrow> string" where
  "dec_string n = (if n < 10 then [char_of (48 + n)] else dec_string (n div 10) @ [char_of (48 + n mod 10)])"

declare dec_string.simps [simp del]

subsection \<open>Lists and words\<close>

lemma sum_list_append_single [simp]:
  "sum_list (map f (xs @ [x])) = sum_list (map f xs) + (f x :: 'b::comm_monoid_add)"
  by simp

lemma map_nth_upt_eq: "n \<le> length xs \<Longrightarrow> map ((!) xs) [0..<n] = take n xs"
  by (rule nth_equalityI) auto

lemma word_add_of_nat_neq:
  fixes w :: "'a::len word"
  assumes "0 < k" and "k < 2 ^ LENGTH('a)"
  shows "w + of_nat k \<noteq> w"
proof -
  have "(of_nat k :: 'a word) \<noteq> 0"
    using assms by (simp add: of_nat_eq_0_iff word_of_nat_eq_0_iff nat_dvd_not_less)
  then show ?thesis by simp
qed

end
