(* ===== verification/Queue_Interface.thy ===== *)
theory Queue_Interface
  imports Prelude
begin

text \<open>
  What the clients of the two queue classes rely on, stated once.

  A \<open>fifo_store\<close> has a content (a list), an operation \<open>put\<close> that may refuse and an
  operation \<open>get\<close> that may find nothing; \<open>stored x\<close> is what the queue keeps of an
  element \<open>x\<close> it accepts (the queue classes keep a copy).  A \<open>bounded_fifo\<close> also
  has a capacity.  The lemmas about arbitrary sequences of calls are proved in the locales
  and reach the queue classes through the interpretations in \<open>PacketQueues\<close> and
  \<open>FrameQueues\<close>.
\<close>

datatype 'a qop = Put 'a | Get

text \<open>
  A sequence of non-blocking calls: the elements taken out, the elements accepted, the
  final queue.
\<close>

fun fifo_run :: "('a \<Rightarrow> 's \<Rightarrow> 's option) \<Rightarrow> ('s \<Rightarrow> ('b \<times> 's) option) \<Rightarrow> 'a qop list \<Rightarrow> 's
    \<Rightarrow> 'b list \<times> 'a list \<times> 's" where
  "fifo_run put get [] s = ([], [], s)"
| "fifo_run put get (Put x # ops) s =
     (case put x s of
        None \<Rightarrow> fifo_run put get ops s
      | Some s1 \<Rightarrow> (case fifo_run put get ops s1 of (taken, acc, s2) \<Rightarrow> (taken, x # acc, s2)))"
| "fifo_run put get (Get # ops) s =
     (case get s of
        None \<Rightarrow> fifo_run put get ops s
      | Some (y, s1) \<Rightarrow> (case fifo_run put get ops s1 of (taken, acc, s2) \<Rightarrow> (y # taken, acc, s2)))"

text \<open>A property that every accepted call keeps holds after any sequence of calls.\<close>

lemma fifo_run_keeps:
  assumes "\<And>x t t'. P t \<Longrightarrow> put x t = Some t' \<Longrightarrow> P t'"
    and "\<And>y t t'. P t \<Longrightarrow> get t = Some (y, t') \<Longrightarrow> P t'"
  shows "P s \<Longrightarrow> fifo_run put get ops s = (taken, acc, s') \<Longrightarrow> P s'"
proof (induction ops arbitrary: s taken acc)
  case Nil
  then show ?case by simp
next
  case (Cons op ops)
  then show ?case
    by (cases op) (auto split: option.splits prod.splits dest: assms(1) assms(2))
qed

locale fifo_store =
  fixes content :: "'s \<Rightarrow> 'b list"
    and inv :: "'s \<Rightarrow> bool"
    and stored :: "'a \<Rightarrow> 'b"
    and put :: "'a \<Rightarrow> 's \<Rightarrow> 's option"
    and get :: "'s \<Rightarrow> ('b \<times> 's) option"
  assumes put_content: "inv s \<Longrightarrow> put x s = Some s' \<Longrightarrow> content s' = content s @ [stored x]"
    and put_inv: "inv s \<Longrightarrow> put x s = Some s' \<Longrightarrow> inv s'"
    and get_content: "inv s \<Longrightarrow> get s = Some (y, s') \<Longrightarrow> content s = y # content s'"
    and get_inv: "inv s \<Longrightarrow> get s = Some (y, s') \<Longrightarrow> inv s'"
begin

lemma run_fifo:
  "inv s \<Longrightarrow> fifo_run put get ops s = (taken, acc, s')
    \<Longrightarrow> content s @ map stored acc = taken @ content s' \<and> inv s'"
proof (induction ops arbitrary: s taken acc)
  case Nil
  then show ?case by simp
next
  case (Cons op ops)
  show ?case
  proof (cases op)
    case (Put x)
    show ?thesis
    proof (cases "put x s")
      case None
      with Put Cons show ?thesis by simp
    next
      case (Some s1)
      with Put Cons.prems obtain acc1 where
        r: "fifo_run put get ops s1 = (taken, acc1, s')" and acc: "acc = x # acc1"
        by (auto split: prod.splits)
      show ?thesis
        using Cons.IH [OF put_inv [OF Cons.prems(1) Some] r] put_content [OF Cons.prems(1) Some] acc
        by simp
    qed
  next
    case Get
    show ?thesis
    proof (cases "get s")
      case None
      with Get Cons show ?thesis by simp
    next
      case (Some p)
      obtain y s1 where p: "p = (y, s1)" by (cases p)
      with Some have g: "get s = Some (y, s1)" by simp
      with Get Cons.prems obtain taken1 where
        r: "fifo_run put get ops s1 = (taken1, acc, s')" and t: "taken = y # taken1"
        by (auto split: prod.splits)
      show ?thesis
        using Cons.IH [OF get_inv [OF Cons.prems(1) g] r] get_content [OF Cons.prems(1) g] t
        by simp
    qed
  qed
qed

end

locale bounded_fifo = fifo_store content inv stored put get
  for content :: "'s \<Rightarrow> 'b list" and inv and stored :: "'a \<Rightarrow> 'b" and put and get +
  fixes cap :: "'s \<Rightarrow> int"
  assumes put_room: "inv s \<Longrightarrow> put x s = Some s' \<Longrightarrow> int (length (content s)) < cap s"
    and put_cap: "put x s = Some s' \<Longrightarrow> cap s' = cap s"
    and get_cap: "get s = Some (y, s') \<Longrightarrow> cap s' = cap s"
begin

lemma put_bounded:
  "inv s \<Longrightarrow> put x s = Some s' \<Longrightarrow> int (length (content s')) \<le> cap s'"
  using put_content [of s x s'] put_room [of s x s'] put_cap [of x s s'] by simp

lemma get_bounded:
  "inv s \<Longrightarrow> int (length (content s)) \<le> cap s \<Longrightarrow> get s = Some (y, s')
    \<Longrightarrow> int (length (content s')) \<le> cap s'"
  using get_content [of s y s'] get_cap [of s y s'] by simp

lemma run_bounded:
  assumes "inv s" and "int (length (content s)) \<le> cap s"
    and "fifo_run put get ops s = (taken, acc, s')"
  shows "int (length (content s')) \<le> cap s' \<and> cap s' = cap s"
proof -
  let ?P = "\<lambda>t. inv t \<and> int (length (content t)) \<le> cap t \<and> cap t = cap s"
  have "?P s'"
  proof (rule fifo_run_keeps [where P = ?P and put = put and get = get])
    show "?P t'" if "?P t" and "put x t = Some t'" for x t t'
      using that put_inv put_bounded put_cap by metis
    show "?P t'" if "?P t" and "get t = Some (y, t')" for y t t'
      using that get_inv get_bounded get_cap by metis
  qed (use assms in auto)
  then show ?thesis by simp
qed

end

end
