(* ===== verification/Packets.thy ===== *)
theory Packets
  imports Prelude
begin

text \<open>
  Class \<open>Packet\<close> (\<open>src/src/base/packet.h\<close>, \<open>packet.cpp\<close>): an owned pointer to an
  \<open>AVPacket\<close> and a serial number.  The pointer is an option (\<open>None\<close> is \<open>nullptr\<close>).

  FFmpeg's packet functions are a parameter of the model, the record \<open>packet_api\<close>:
  \<open>av_packet_ref\<close> takes the destination and the source and gives the return code and the
  new destination.  That \<open>av_packet_alloc\<close> runs out of memory is not modelled (the class
  does not test for it).
\<close>

record av_packet =
  pkt_data :: "byte list option"
  pkt_size :: int
  pkt_pts :: int
  pkt_dts :: int
  pkt_duration :: int
  pkt_stream_index :: int
  pkt_flags :: u32

record packet_api =
  av_packet_alloc :: av_packet
  av_packet_ref :: "av_packet \<Rightarrow> av_packet \<Rightarrow> int \<times> av_packet"
  av_packet_unref :: "av_packet \<Rightarrow> av_packet"

record Packet =
  pk_packet :: "av_packet option"
  pk_serial :: u32

definition AV_NOPTS_VALUE :: int where
  "AV_NOPTS_VALUE = - (2 ^ 63)"

definition AV_PKT_FLAG_KEY :: u32 where
  "AV_PKT_FLAG_KEY = 1"

text \<open>
  What FFmpeg documents: \<open>av_packet_alloc\<close> gives a blank packet, and \<open>av_packet_ref\<close>,
  when it succeeds, copies the properties of the source.
\<close>

definition packet_api_ok :: "packet_api \<Rightarrow> bool" where
  "packet_api_ok api \<longleftrightarrow>
     pkt_size (av_packet_alloc api) = 0 \<and> pkt_duration (av_packet_alloc api) = 0
     \<and> (\<forall>d s. 0 \<le> fst (av_packet_ref api d s)
            \<and> pkt_size (snd (av_packet_ref api d s)) = pkt_size s
            \<and> pkt_duration (snd (av_packet_ref api d s)) = pkt_duration s)"

subsection \<open>Construction, copy and move\<close>

definition Packet_new :: "packet_api \<Rightarrow> Packet" where
  "Packet_new api = \<lparr>pk_packet = Some (av_packet_alloc api), pk_serial = 0\<rparr>"

text \<open>The return code of \<open>av_packet_ref\<close> is ignored by this constructor.\<close>

definition Packet_of :: "packet_api \<Rightarrow> av_packet option \<Rightarrow> Packet" where
  "Packet_of api pkt =
     (case pkt of
        None \<Rightarrow> Packet_new api
      | Some src \<Rightarrow> (Packet_new api)\<lparr>pk_packet := Some (snd (av_packet_ref api (av_packet_alloc api) src))\<rparr>)"

definition Packet_copy :: "packet_api \<Rightarrow> Packet \<Rightarrow> Packet" where
  "Packet_copy api other =
     (case pk_packet other of
        None \<Rightarrow> \<lparr>pk_packet = Some (av_packet_alloc api), pk_serial = pk_serial other\<rparr>
      | Some src \<Rightarrow>
          (case av_packet_ref api (av_packet_alloc api) src of
             (ret, p) \<Rightarrow> \<lparr>pk_packet = (if ret < 0 then None else Some p), pk_serial = pk_serial other\<rparr>))"

text \<open>Copy assignment between two distinct objects.\<close>

definition Packet_assign :: "packet_api \<Rightarrow> Packet \<Rightarrow> Packet \<Rightarrow> Packet" where
  "Packet_assign api this other =
     (let own = (case pk_packet this of
                   Some p \<Rightarrow> av_packet_unref api p
                 | None \<Rightarrow> av_packet_alloc api);
          own' = (case pk_packet other of
                   Some src \<Rightarrow> snd (av_packet_ref api own src)
                 | None \<Rightarrow> own)
      in \<lparr>pk_packet = Some own', pk_serial = pk_serial other\<rparr>)"

text \<open>A move gives the new object and what is left in the source.\<close>

definition Packet_moved_from :: Packet where
  "Packet_moved_from = \<lparr>pk_packet = None, pk_serial = 0\<rparr>"

definition Packet_move :: "Packet \<Rightarrow> Packet \<times> Packet" where
  "Packet_move other = (\<lparr>pk_packet = pk_packet other, pk_serial = pk_serial other\<rparr>, Packet_moved_from)"

definition Packet_move_assign :: "Packet \<Rightarrow> Packet \<Rightarrow> Packet \<times> Packet" where
  "Packet_move_assign this other =
     (this\<lparr>pk_packet := pk_packet other, pk_serial := pk_serial other\<rparr>, Packet_moved_from)"

definition Packet_unref :: "packet_api \<Rightarrow> Packet \<Rightarrow> Packet" where
  "Packet_unref api p = p\<lparr>pk_packet := map_option (av_packet_unref api) (pk_packet p)\<rparr>"

definition Packet_clone :: "packet_api \<Rightarrow> Packet \<Rightarrow> Packet" where
  "Packet_clone api p = Packet_copy api p"

subsection \<open>Accessors\<close>

definition Packet_get :: "Packet \<Rightarrow> av_packet option" where
  "Packet_get p = pk_packet p"

definition Packet_isValid :: "Packet \<Rightarrow> bool" where
  "Packet_isValid p \<longleftrightarrow> pk_packet p \<noteq> None"

definition Packet_isEmpty :: "Packet \<Rightarrow> bool" where
  "Packet_isEmpty p = (case pk_packet p of None \<Rightarrow> True | Some a \<Rightarrow> pkt_data a = None \<or> pkt_size a = 0)"

definition Packet_setSerial :: "u32 \<Rightarrow> Packet \<Rightarrow> Packet" where
  "Packet_setSerial s p = p\<lparr>pk_serial := s\<rparr>"

definition Packet_serial :: "Packet \<Rightarrow> u32" where
  "Packet_serial p = pk_serial p"

definition Packet_data :: "Packet \<Rightarrow> byte list option" where
  "Packet_data p = (case pk_packet p of None \<Rightarrow> None | Some a \<Rightarrow> pkt_data a)"

definition Packet_size :: "Packet \<Rightarrow> int" where
  "Packet_size p = (case pk_packet p of None \<Rightarrow> 0 | Some a \<Rightarrow> pkt_size a)"

definition Packet_pts :: "Packet \<Rightarrow> int" where
  "Packet_pts p = (case pk_packet p of None \<Rightarrow> AV_NOPTS_VALUE | Some a \<Rightarrow> pkt_pts a)"

definition Packet_dts :: "Packet \<Rightarrow> int" where
  "Packet_dts p = (case pk_packet p of None \<Rightarrow> AV_NOPTS_VALUE | Some a \<Rightarrow> pkt_dts a)"

definition Packet_duration :: "Packet \<Rightarrow> int" where
  "Packet_duration p = (case pk_packet p of None \<Rightarrow> 0 | Some a \<Rightarrow> pkt_duration a)"

definition Packet_streamIndex :: "Packet \<Rightarrow> int" where
  "Packet_streamIndex p = (case pk_packet p of None \<Rightarrow> -1 | Some a \<Rightarrow> pkt_stream_index a)"

definition Packet_flags :: "Packet \<Rightarrow> u32" where
  "Packet_flags p = (case pk_packet p of None \<Rightarrow> 0 | Some a \<Rightarrow> pkt_flags a)"

definition Packet_setPts :: "int \<Rightarrow> Packet \<Rightarrow> Packet" where
  "Packet_setPts v p = p\<lparr>pk_packet := map_option (\<lambda>a. a\<lparr>pkt_pts := v\<rparr>) (pk_packet p)\<rparr>"

definition Packet_setDts :: "int \<Rightarrow> Packet \<Rightarrow> Packet" where
  "Packet_setDts v p = p\<lparr>pk_packet := map_option (\<lambda>a. a\<lparr>pkt_dts := v\<rparr>) (pk_packet p)\<rparr>"

definition Packet_setDuration :: "int \<Rightarrow> Packet \<Rightarrow> Packet" where
  "Packet_setDuration v p = p\<lparr>pk_packet := map_option (\<lambda>a. a\<lparr>pkt_duration := v\<rparr>) (pk_packet p)\<rparr>"

definition Packet_setStreamIndex :: "int \<Rightarrow> Packet \<Rightarrow> Packet" where
  "Packet_setStreamIndex v p = p\<lparr>pk_packet := map_option (\<lambda>a. a\<lparr>pkt_stream_index := v\<rparr>) (pk_packet p)\<rparr>"

definition Packet_setFlags :: "u32 \<Rightarrow> Packet \<Rightarrow> Packet" where
  "Packet_setFlags v p = p\<lparr>pk_packet := map_option (\<lambda>a. a\<lparr>pkt_flags := v\<rparr>) (pk_packet p)\<rparr>"

lemmas packet_accessor_defs [pkt_defs] =
  Packet_isValid_def Packet_isEmpty_def Packet_serial_def Packet_setSerial_def Packet_data_def
  Packet_size_def Packet_pts_def Packet_dts_def Packet_duration_def Packet_streamIndex_def
  Packet_flags_def Packet_setPts_def Packet_setDts_def Packet_setDuration_def
  Packet_setStreamIndex_def Packet_setFlags_def Packet_get_def

lemma Packet_move_fst [simp]: "fst (Packet_move p) = p"
  by (simp add: Packet_move_def)

lemma Packet_invalid_zero:
  "\<not> Packet_isValid p \<Longrightarrow> Packet_size p = 0"
  "\<not> Packet_isValid p \<Longrightarrow> Packet_duration p = 0"
  by (simp_all add: pkt_defs)

subsection \<open>A copy keeps what the queue statistics count\<close>

lemma Packet_copy_serial [simp]: "Packet_serial (Packet_copy api p) = Packet_serial p"
  by (simp add: Packet_copy_def Packet_serial_def split: option.split prod.split)

lemma Packet_copy_size:
  assumes "packet_api_ok api"
  shows "Packet_size (Packet_copy api p) = Packet_size p"
    and "Packet_duration (Packet_copy api p) = Packet_duration p"
proof -
  have "\<not> fst (av_packet_ref api (av_packet_alloc api) a) < 0
      \<and> pkt_size (snd (av_packet_ref api (av_packet_alloc api) a)) = pkt_size a
      \<and> pkt_duration (snd (av_packet_ref api (av_packet_alloc api) a)) = pkt_duration a" for a
    using assms by (simp add: packet_api_ok_def not_less)
  moreover have "pkt_size (av_packet_alloc api) = 0" "pkt_duration (av_packet_alloc api) = 0"
    using assms by (simp_all add: packet_api_ok_def)
  ultimately show "Packet_size (Packet_copy api p) = Packet_size p"
    and "Packet_duration (Packet_copy api p) = Packet_duration p"
    by (auto simp: Packet_copy_def Packet_size_def Packet_duration_def case_prod_beta
        split: option.split)
qed

end
