(* ===== verification/PacketQueues.thy ===== *)
theory PacketQueues
  imports Queue_Interface Packets
begin

text \<open>
  Class \<open>PacketQueue\<close> (\<open>src/src/base/packet_queue.h\<close>, \<open>packet_queue.cpp\<close>): a bounded
  deque of packets with an abort flag, a serial number and two running totals.

  Each public method runs under the queue's mutex, so a call is one atomic step.  A blocking
  method evaluates its wait predicate when it holds the mutex: \<open>Wait\<close> says that the caller
  stays blocked and the queue is as it was; the flag \<open>expired\<close> says whether the timeout of a
  timed wait has run out.  \<open>serial_\<close> is an \<open>atomic<int>\<close> and wraps at 32 bits, the totals
  are 64-bit atomics.  \<open>PacketQueue_notifies\<close> lists the condition variables a call signals.
\<close>

record PacketQueue =
  pq_queue :: "Packet list"
  pq_aborted :: bool
  pq_serial :: u32
  pq_maxPacketCount :: nat
  pq_size :: u64
  pq_duration :: u64

datatype pq_error = InvalidArgument

record Statistics =
  st_count :: nat
  st_size :: u64
  st_duration :: u64
  st_serial :: u32
  st_aborted :: bool

definition PacketQueue_new :: "int \<Rightarrow> PacketQueue" where
  "PacketQueue_new n = \<lparr>pq_queue = [], pq_aborted = False, pq_serial = 0,
     pq_maxPacketCount = nat (max 1 n), pq_size = 0, pq_duration = 0\<rparr>"

definition PacketQueue_canPush :: "PacketQueue \<Rightarrow> bool" where
  "PacketQueue_canPush q \<longleftrightarrow> pq_aborted q \<or> length (pq_queue q) < pq_maxPacketCount q"

definition PacketQueue_canPop :: "PacketQueue \<Rightarrow> bool" where
  "PacketQueue_canPop q \<longleftrightarrow> pq_aborted q \<or> pq_queue q \<noteq> []"

definition PacketQueue_updateStatisticsOnPush :: "Packet \<Rightarrow> PacketQueue \<Rightarrow> PacketQueue" where
  "PacketQueue_updateStatisticsOnPush pkt q =
     (if Packet_isValid pkt
      then q\<lparr>pq_size := pq_size q + of_int (Packet_size pkt),
             pq_duration := pq_duration q + of_int (Packet_duration pkt)\<rparr>
      else q)"

definition PacketQueue_updateStatisticsOnPop :: "Packet \<Rightarrow> PacketQueue \<Rightarrow> PacketQueue" where
  "PacketQueue_updateStatisticsOnPop pkt q =
     (if Packet_isValid pkt
      then q\<lparr>pq_size := pq_size q - of_int (Packet_size pkt),
             pq_duration := pq_duration q - of_int (Packet_duration pkt)\<rparr>
      else q)"

definition PacketQueue_push ::
    "packet_api \<Rightarrow> Packet \<Rightarrow> int \<Rightarrow> bool \<Rightarrow> PacketQueue \<Rightarrow> bool outcome \<times> PacketQueue" where
  "PacketQueue_push api pkt timeoutMs expired q =
     (let proceed =
        (if pq_aborted q then (Ret False, q)
         else (Ret True, PacketQueue_updateStatisticsOnPush pkt
                (q\<lparr>pq_queue := pq_queue q @ [Packet_copy api pkt]\<rparr>)))
      in if timeoutMs < 0 then (if PacketQueue_canPush q then proceed else (Wait, q))
         else if timeoutMs = 0 then (if PacketQueue_canPush q then proceed else (Ret False, q))
         else if PacketQueue_canPush q then proceed
         else if expired then (Ret False, q)
         else (Wait, q))"

text \<open>The result of \<open>pop\<close> is \<open>None\<close> for \<open>false\<close> and the packet moved out otherwise.\<close>

definition PacketQueue_pop ::
    "int \<Rightarrow> bool \<Rightarrow> PacketQueue \<Rightarrow> Packet option outcome \<times> PacketQueue" where
  "PacketQueue_pop timeoutMs expired q =
     (let proceed =
        (case pq_queue q of
           [] \<Rightarrow> if pq_aborted q then (Ret None, q) else (UB, q)
         | p # rest \<Rightarrow>
             (let pkt = fst (Packet_move p)
              in (Ret (Some pkt), PacketQueue_updateStatisticsOnPop pkt (q\<lparr>pq_queue := rest\<rparr>))))
      in if timeoutMs < 0 then (if PacketQueue_canPop q then proceed else (Wait, q))
         else if timeoutMs = 0 then (if PacketQueue_canPop q then proceed else (Ret None, q))
         else if PacketQueue_canPop q then proceed
         else if expired then (Ret None, q)
         else (Wait, q))"

definition PacketQueue_tryPop :: "PacketQueue \<Rightarrow> Packet option outcome \<times> PacketQueue" where
  "PacketQueue_tryPop q = PacketQueue_pop 0 False q"

definition PacketQueue_front :: "packet_api \<Rightarrow> Packet \<Rightarrow> PacketQueue \<Rightarrow> Packet option" where
  "PacketQueue_front api pkt q =
     (case pq_queue q of [] \<Rightarrow> None | p # _ \<Rightarrow> Some (Packet_assign api pkt p))"

definition PacketQueue_flush :: "PacketQueue \<Rightarrow> PacketQueue" where
  "PacketQueue_flush q =
     q\<lparr>pq_queue := [], pq_size := 0, pq_duration := 0, pq_serial := pq_serial q + 1\<rparr>"

definition PacketQueue_start :: "PacketQueue \<Rightarrow> PacketQueue" where
  "PacketQueue_start q = q\<lparr>pq_aborted := False, pq_serial := pq_serial q + 1\<rparr>"

definition PacketQueue_abort :: "PacketQueue \<Rightarrow> PacketQueue" where
  "PacketQueue_abort q = q\<lparr>pq_aborted := True\<rparr>"

definition PacketQueue_destroy :: "PacketQueue \<Rightarrow> PacketQueue" where
  "PacketQueue_destroy q = (PacketQueue_abort q)\<lparr>pq_queue := []\<rparr>"

definition PacketQueue_setMaxPacketCount :: "nat \<Rightarrow> PacketQueue \<Rightarrow> pq_error + PacketQueue" where
  "PacketQueue_setMaxPacketCount maxCount q =
     (if maxCount = 0 then Inl InvalidArgument else Inr (q\<lparr>pq_maxPacketCount := maxCount\<rparr>))"

definition PacketQueue_isAborted :: "PacketQueue \<Rightarrow> bool" where
  "PacketQueue_isAborted q = pq_aborted q"

definition PacketQueue_packetCount :: "PacketQueue \<Rightarrow> nat" where
  "PacketQueue_packetCount q = length (pq_queue q)"

definition PacketQueue_packetSize :: "PacketQueue \<Rightarrow> u64" where
  "PacketQueue_packetSize q = pq_size q"

definition PacketQueue_packetDuration :: "PacketQueue \<Rightarrow> u64" where
  "PacketQueue_packetDuration q = pq_duration q"

definition PacketQueue_maxPacketCount :: "PacketQueue \<Rightarrow> nat" where
  "PacketQueue_maxPacketCount q = pq_maxPacketCount q"

definition PacketQueue_serial :: "PacketQueue \<Rightarrow> u32" where
  "PacketQueue_serial q = pq_serial q"

definition PacketQueue_isFull :: "PacketQueue \<Rightarrow> bool" where
  "PacketQueue_isFull q \<longleftrightarrow> pq_maxPacketCount q \<le> length (pq_queue q)"

definition PacketQueue_isEmpty :: "PacketQueue \<Rightarrow> bool" where
  "PacketQueue_isEmpty q \<longleftrightarrow> pq_queue q = []"

definition PacketQueue_getStatistics :: "PacketQueue \<Rightarrow> Statistics" where
  "PacketQueue_getStatistics q = \<lparr>st_count = length (pq_queue q), st_size = pq_size q,
     st_duration = pq_duration q, st_serial = pq_serial q, st_aborted = pq_aborted q\<rparr>"

lemmas packet_queue_defs [pq_defs] =
  PacketQueue_canPush_def PacketQueue_canPop_def PacketQueue_updateStatisticsOnPush_def
  PacketQueue_updateStatisticsOnPop_def PacketQueue_push_def PacketQueue_pop_def
  PacketQueue_flush_def PacketQueue_start_def PacketQueue_abort_def PacketQueue_tryPop_def
  PacketQueue_setMaxPacketCount_def PacketQueue_isAborted_def PacketQueue_packetCount_def
  PacketQueue_serial_def PacketQueue_isFull_def PacketQueue_isEmpty_def Let_def

subsection \<open>Sequences of calls\<close>

datatype pq_op =
    Push Packet int bool
  | Pop int bool
  | Flush
  | Start
  | Abort
  | SetMax nat

fun pq_step :: "packet_api \<Rightarrow> pq_op \<Rightarrow> PacketQueue \<Rightarrow> PacketQueue" where
  "pq_step api (Push pkt t e) q = snd (PacketQueue_push api pkt t e q)"
| "pq_step api (Pop t e) q = snd (PacketQueue_pop t e q)"
| "pq_step api Flush q = PacketQueue_flush q"
| "pq_step api Start q = PacketQueue_start q"
| "pq_step api Abort q = PacketQueue_abort q"
| "pq_step api (SetMax n) q =
     (case PacketQueue_setMaxPacketCount n q of Inl _ \<Rightarrow> q | Inr q' \<Rightarrow> q')"

definition pq_run :: "packet_api \<Rightarrow> pq_op list \<Rightarrow> PacketQueue \<Rightarrow> PacketQueue" where
  "pq_run api ops q = fold (pq_step api) ops q"

datatype notification = NotifyOnePush | NotifyAllPush | NotifyOnePop | NotifyAllPop

fun PacketQueue_notifies :: "packet_api \<Rightarrow> pq_op \<Rightarrow> PacketQueue \<Rightarrow> notification set" where
  "PacketQueue_notifies api (Push pkt t e) q =
     (if fst (PacketQueue_push api pkt t e q) = Ret True then {NotifyOnePop} else {})"
| "PacketQueue_notifies api (Pop t e) q =
     (case fst (PacketQueue_pop t e q) of Ret (Some _) \<Rightarrow> {NotifyOnePush} | _ \<Rightarrow> {})"
| "PacketQueue_notifies api Flush q = {NotifyAllPush, NotifyAllPop}"
| "PacketQueue_notifies api Start q = {NotifyAllPush, NotifyAllPop}"
| "PacketQueue_notifies api Abort q = {NotifyAllPush, NotifyAllPop}"
| "PacketQueue_notifies api (SetMax n) q = (if n = 0 then {} else {NotifyAllPush})"

text \<open>Some calls of \<open>pop\<close> in a row, with their timeouts: the results, in order.\<close>

fun PacketQueue_pops :: "(int \<times> bool) list \<Rightarrow> PacketQueue \<Rightarrow> Packet option outcome list" where
  "PacketQueue_pops [] q = []"
| "PacketQueue_pops ((t, e) # ts) q =
     (case PacketQueue_pop t e q of (r, q') \<Rightarrow> r # PacketQueue_pops ts q')"

text \<open>The non-blocking use of the queue, as an instance of the queue interface.\<close>

definition PacketQueue_put :: "packet_api \<Rightarrow> Packet \<Rightarrow> PacketQueue \<Rightarrow> PacketQueue option" where
  "PacketQueue_put api pkt q =
     (case PacketQueue_push api pkt 0 False q of (Ret True, q') \<Rightarrow> Some q' | _ \<Rightarrow> None)"

definition PacketQueue_take :: "PacketQueue \<Rightarrow> (Packet \<times> PacketQueue) option" where
  "PacketQueue_take q =
     (case PacketQueue_tryPop q of (Ret (Some p), q') \<Rightarrow> Some (p, q') | _ \<Rightarrow> None)"

definition pq_totals_ok :: "PacketQueue \<Rightarrow> bool" where
  "pq_totals_ok q \<longleftrightarrow>
     pq_size q = sum_list (map (\<lambda>p. of_int (Packet_size p)) (pq_queue q))
     \<and> pq_duration q = sum_list (map (\<lambda>p. of_int (Packet_duration p)) (pq_queue q))"

subsection \<open>Each call keeps the running totals\<close>

lemma pq_totals_new: "pq_totals_ok (PacketQueue_new n)"
  by (simp add: pq_totals_ok_def PacketQueue_new_def)

lemma pq_totals_push:
  "packet_api_ok api \<Longrightarrow> pq_totals_ok q \<Longrightarrow> pq_totals_ok (snd (PacketQueue_push api pkt t e q))"
  by (auto simp: pq_totals_ok_def pq_defs Packet_copy_size Packet_invalid_zero)

lemma pq_totals_pop: "pq_totals_ok q \<Longrightarrow> pq_totals_ok (snd (PacketQueue_pop t e q))"
  by (auto simp: pq_totals_ok_def pq_defs Packet_invalid_zero split: list.split)

lemma pq_totals_step: "packet_api_ok api \<Longrightarrow> pq_totals_ok q \<Longrightarrow> pq_totals_ok (pq_step api op q)"
  by (cases op)
    (auto simp: pq_totals_push pq_totals_pop, auto simp: pq_totals_ok_def pq_defs)

lemma pq_run_keeps:
  assumes "\<And>op q. P q \<Longrightarrow> P (pq_step api op q)"
  shows "P q \<Longrightarrow> P (pq_run api ops q)"
  by (induction ops arbitrary: q) (simp_all add: pq_run_def assms)

lemma pq_serial_step:
  "pq_serial (pq_step api op q) = pq_serial q + (if op \<in> {Flush, Start} then 1 else 0)"
  by (cases op) (auto simp: pq_defs split: list.split)

lemma pq_serial_run:
  "pq_serial (pq_run api ops q)
     = pq_serial q + of_nat (length (filter (\<lambda>op. op \<in> {Flush, Start}) ops))"
  by (induction ops arbitrary: q) (auto simp: pq_run_def pq_serial_step)

subsection \<open>The queue interface\<close>

lemma PacketQueue_put_Some:
  "PacketQueue_put api pkt q = Some q' \<longleftrightarrow>
     \<not> pq_aborted q \<and> length (pq_queue q) < pq_maxPacketCount q
     \<and> q' = PacketQueue_updateStatisticsOnPush pkt (q\<lparr>pq_queue := pq_queue q @ [Packet_copy api pkt]\<rparr>)"
  by (auto simp: PacketQueue_put_def pq_defs)

lemma PacketQueue_take_Some:
  "PacketQueue_take q = Some (p, q') \<longleftrightarrow>
     (\<exists>rest. pq_queue q = p # rest
       \<and> q' = PacketQueue_updateStatisticsOnPop p (q\<lparr>pq_queue := rest\<rparr>))"
  by (auto simp: PacketQueue_take_def pq_defs split: list.splits)

lemma pq_update_frame [simp]:
  "pq_queue (PacketQueue_updateStatisticsOnPush p q) = pq_queue q"
  "pq_queue (PacketQueue_updateStatisticsOnPop p q) = pq_queue q"
  "pq_maxPacketCount (PacketQueue_updateStatisticsOnPush p q) = pq_maxPacketCount q"
  "pq_maxPacketCount (PacketQueue_updateStatisticsOnPop p q) = pq_maxPacketCount q"
  by (simp_all add: pq_defs)

interpretation pq: bounded_fifo pq_queue "\<lambda>_. True" "Packet_copy api" "PacketQueue_put api"
    PacketQueue_take "\<lambda>q. int (pq_maxPacketCount q)" for api
  by unfold_locales (auto simp: PacketQueue_put_Some PacketQueue_take_Some)

subsection \<open>After an abort\<close>

lemma pop_nonempty:
  "pq_queue q = p # rest \<Longrightarrow>
     PacketQueue_pop t e q = (Ret (Some p), PacketQueue_updateStatisticsOnPop p (q\<lparr>pq_queue := rest\<rparr>))"
  by (simp add: pq_defs)

lemma pop_aborted_empty:
  "pq_aborted q \<Longrightarrow> pq_queue q = [] \<Longrightarrow> PacketQueue_pop t e q = (Ret None, q)"
  by (simp add: pq_defs)

lemma pops_aborted_empty:
  "pq_aborted q \<Longrightarrow> pq_queue q = [] \<Longrightarrow> PacketQueue_pops ts q = replicate (length ts) (Ret None)"
  by (induction ts) (auto simp: pop_aborted_empty)

lemma pops_aborted:
  "pq_aborted q \<Longrightarrow> length (pq_queue q) \<le> length ts \<Longrightarrow>
     PacketQueue_pops ts q = map (\<lambda>p. Ret (Some p)) (pq_queue q)
       @ replicate (length ts - length (pq_queue q)) (Ret None)"
proof (induction ts arbitrary: q)
  case Nil
  then show ?case by simp
next
  case (Cons te ts)
  show ?case
  proof (cases "pq_queue q")
    case Nil
    with Cons.prems pops_aborted_empty show ?thesis by force
  next
    case (Cons p rest)
    let ?q = "PacketQueue_updateStatisticsOnPop p (q\<lparr>pq_queue := rest\<rparr>)"
    have "pq_aborted ?q" using Cons.prems by (simp add: pq_defs)
    with Cons.IH [of ?q] Cons.prems \<open>pq_queue q = p # rest\<close> show ?thesis
      by (cases te) (simp add: pop_nonempty)
  qed
qed

subsection \<open>Properties\<close>


definition plain_packet :: "int \<Rightarrow> int \<Rightarrow> av_packet" where
  "plain_packet sz dur = \<lparr>pkt_data = Some [], pkt_size = sz, pkt_pts = 0, pkt_dts = 0,
     pkt_duration = dur, pkt_stream_index = 0, pkt_flags = 0\<rparr>"

definition sample_api :: packet_api where
  "sample_api = \<lparr>av_packet_alloc = plain_packet 0 0, av_packet_ref = (\<lambda>d s. (0, s)),
     av_packet_unref = (\<lambda>_. plain_packet 0 0)\<rparr>"

lemma sample_api_ok: "packet_api_ok sample_api"
  by (simp add: packet_api_ok_def sample_api_def plain_packet_def)

definition sample_packet :: "int \<Rightarrow> int \<Rightarrow> Packet" where
  "sample_packet sz dur = \<lparr>pk_packet = Some (plain_packet sz dur), pk_serial = 0\<rparr>"


text \<open>
  C4: any sequence of non-blocking pushes and pops is first in, first out: what was in the
  queue followed by (copies of) the accepted packets is what was taken out followed by what is
  left; nothing is lost, duplicated or reordered.
\<close>

theorem PacketQueue_fifo:
  assumes "fifo_run (PacketQueue_put api) PacketQueue_take ops q = (taken, acc, q')"
  shows "pq_queue q @ map (Packet_copy api) acc = taken @ pq_queue q'"
  using pq.run_fifo [OF _ assms] by simp

theorem PacketQueue_fifo_witness:
  "(case fifo_run (PacketQueue_put sample_api) PacketQueue_take
        [Put (sample_packet 1 0), Put (sample_packet 2 0), Get] (PacketQueue_new 2) of
      (taken, acc, q') \<Rightarrow> map (Packet_copy sample_api) acc = taken @ pq_queue q')"
  using PacketQueue_fifo [of sample_api "[Put (sample_packet 1 0), Put (sample_packet 2 0), Get]"
      "PacketQueue_new 2"]
  by (auto simp: PacketQueue_new_def split: prod.splits)

text \<open>
  A queue that starts within its capacity never holds more than \<open>maxPacketCount\<close>
  packets, whatever non-blocking calls are made, and the capacity is at least one.
\<close>

theorem PacketQueue_bounded:
  assumes "fifo_run (PacketQueue_put api) PacketQueue_take ops (PacketQueue_new n) = (taken, acc, q')"
  shows "PacketQueue_packetCount q' \<le> nat (max 1 n) \<and> PacketQueue_maxPacketCount q' = nat (max 1 n)"
proof -
  have "int (length (pq_queue (PacketQueue_new n))) \<le> int (pq_maxPacketCount (PacketQueue_new n))"
    by (simp add: PacketQueue_new_def)
  from pq.run_bounded [OF _ this assms] show ?thesis
    by (simp add: PacketQueue_packetCount_def PacketQueue_maxPacketCount_def)
      (simp add: PacketQueue_new_def)
qed

theorem PacketQueue_bounded_witness:
  "(case fifo_run (PacketQueue_put sample_api) PacketQueue_take
        [Put (sample_packet 1 0), Put (sample_packet 2 0), Put (sample_packet 3 0)] (PacketQueue_new 2) of
      (taken, acc, q') \<Rightarrow> PacketQueue_packetCount q' \<le> 2)"
  using PacketQueue_bounded [of sample_api
      "[Put (sample_packet 1 0), Put (sample_packet 2 0), Put (sample_packet 3 0)]" 2]
  by (auto split: prod.splits)

text \<open>
  \<open>abort\<close> releases every caller.  On an aborted queue no \<open>push\<close> and no \<open>pop\<close>
  blocks, whatever its timeout: \<open>push\<close> returns false and changes nothing, and consecutive
  \<open>pop\<close> calls return the packets that were queued, in order, and then false.
\<close>

theorem PacketQueue_abort_drains:
  assumes "length (pq_queue q) \<le> length ts"
  shows "PacketQueue_push api pkt t e (PacketQueue_abort q) = (Ret False, PacketQueue_abort q)
       \<and> PacketQueue_pops ts (PacketQueue_abort q)
           = map (\<lambda>p. Ret (Some p)) (pq_queue q) @ replicate (length ts - length (pq_queue q)) (Ret None)"
proof -
  have "pq_aborted (PacketQueue_abort q)" "pq_queue (PacketQueue_abort q) = pq_queue q"
    by (simp_all add: PacketQueue_abort_def)
  then show ?thesis
    using assms pops_aborted [of "PacketQueue_abort q" ts] by (simp add: pq_defs)
qed

theorem PacketQueue_abort_drains_witness:
  "PacketQueue_pops [(-1, False), (-1, False)]
     (PacketQueue_abort ((PacketQueue_new 4)\<lparr>pq_queue := [sample_packet 3 0]\<rparr>))
   = [Ret (Some (sample_packet 3 0)), Ret None]"
  using PacketQueue_abort_drains [of "(PacketQueue_new 4)\<lparr>pq_queue := [sample_packet 3 0]\<rparr>"
      "[(-1, False), (-1, False)]"]
  by simp

text \<open>
  no wake-up is missed.  Whenever a call makes \<open>canPush\<close> (or \<open>canPop\<close>) true that was
  false before, it signals the condition variable on which the blocked pushers (poppers) wait.
\<close>

theorem PacketQueue_no_lost_wakeup:
  "(PacketQueue_canPush (pq_step api op q) \<and> PacketQueue_notifies api op q \<inter> {NotifyOnePush, NotifyAllPush} = {}
       \<longrightarrow> PacketQueue_canPush q)
   \<and> (PacketQueue_canPop (pq_step api op q) \<and> PacketQueue_notifies api op q \<inter> {NotifyOnePop, NotifyAllPop} = {}
       \<longrightarrow> PacketQueue_canPop q)"
  by (cases op) (auto simp: pq_defs split: list.splits if_splits)

theorem PacketQueue_no_lost_wakeup_witness:
  "\<not> PacketQueue_canPush ((PacketQueue_new 1)\<lparr>pq_queue := [sample_packet 3 0]\<rparr>)
   \<and> PacketQueue_canPush (pq_step sample_api (Pop 0 False) ((PacketQueue_new 1)\<lparr>pq_queue := [sample_packet 3 0]\<rparr>))
   \<and> PacketQueue_notifies sample_api (Pop 0 False) ((PacketQueue_new 1)\<lparr>pq_queue := [sample_packet 3 0]\<rparr>)
        \<inter> {NotifyOnePush, NotifyAllPush} \<noteq> {}"
proof -
  let ?q = "(PacketQueue_new 1)\<lparr>pq_queue := [sample_packet 3 0]\<rparr>"
  have full: "\<not> PacketQueue_canPush ?q"
    and room: "PacketQueue_canPush (pq_step sample_api (Pop 0 False) ?q)"
    by (simp_all add: pq_defs PacketQueue_new_def)
  with PacketQueue_no_lost_wakeup [of sample_api "Pop 0 False" ?q] show ?thesis by auto
qed

text \<open>
  serial numbers tell stale packets.  A packet stamped with the queue's serial number
  before a series of calls that flushes or restarts the queue at least once, and fewer than
  \<open>2^32\<close> times, carries a serial number different from the queue's.
\<close>

theorem PacketQueue_stale_serial:
  assumes "0 < length (filter (\<lambda>op. op \<in> {Flush, Start}) ops)"
    and "length (filter (\<lambda>op. op \<in> {Flush, Start}) ops) < 2 ^ 32"
  shows "PacketQueue_serial (pq_run api ops q)
           \<noteq> Packet_serial (Packet_setSerial (PacketQueue_serial q) pkt)"
  using word_add_of_nat_neq [of "length (filter (\<lambda>op. op \<in> {Flush, Start}) ops)" "pq_serial q"] assms
  by (simp add: PacketQueue_serial_def pq_serial_run pkt_defs)

theorem PacketQueue_stale_serial_witness:
  "PacketQueue_serial (pq_run sample_api [Flush] (PacketQueue_new 2))
     \<noteq> Packet_serial (Packet_setSerial (PacketQueue_serial (PacketQueue_new 2)) (sample_packet 3 0))"
  using PacketQueue_stale_serial [of "[Flush]" sample_api "PacketQueue_new 2" "sample_packet 3 0"]
  by simp

end
