(* ===== verification/Doubles.thy ===== *)
theory Doubles
  imports Prelude
begin

text \<open>
  C++ \<open>double\<close> values: NaN, the two infinities and the numbers, with the rules of IEEE 754
  for the special values (NaN is absorbing and compares false with everything, \<open>inf - inf\<close>,
  \<open>0 * inf\<close>, \<open>0 / 0\<close> and \<open>inf / inf\<close> are NaN, a number divided by zero is an
  infinity).  Numbers are exact: rounding, overflow to infinity and the sign of zero are not
  represented.
\<close>

datatype double = NaN | MInf | Fin real | PInf

definition isnan :: "double \<Rightarrow> bool" where
  "isnan a \<longleftrightarrow> a = NaN"

fun d_sgn :: "double \<Rightarrow> real" where
  "d_sgn NaN = 0"
| "d_sgn MInf = -1"
| "d_sgn (Fin x) = sgn x"
| "d_sgn PInf = 1"

definition d_inf :: "real \<Rightarrow> double" where
  "d_inf s = (if 0 < s then PInf else if s < 0 then MInf else NaN)"

fun d_neg :: "double \<Rightarrow> double" where
  "d_neg NaN = NaN"
| "d_neg MInf = PInf"
| "d_neg (Fin x) = Fin (- x)"
| "d_neg PInf = MInf"

fun d_add :: "double \<Rightarrow> double \<Rightarrow> double" where
  "d_add (Fin x) (Fin y) = Fin (x + y)"
| "d_add NaN _ = NaN"
| "d_add _ NaN = NaN"
| "d_add (Fin _) b = b"
| "d_add a (Fin _) = a"
| "d_add a b = (if a = b then a else NaN)"

definition d_sub :: "double \<Rightarrow> double \<Rightarrow> double" where
  "d_sub a b = d_add a (d_neg b)"

fun d_mul :: "double \<Rightarrow> double \<Rightarrow> double" where
  "d_mul (Fin x) (Fin y) = Fin (x * y)"
| "d_mul a b = d_inf (d_sgn a * d_sgn b)"

fun d_div :: "double \<Rightarrow> double \<Rightarrow> double" where
  "d_div (Fin x) (Fin y) = (if y = 0 then d_inf (sgn x) else Fin (x / y))"
| "d_div NaN _ = NaN"
| "d_div _ NaN = NaN"
| "d_div (Fin _) b = Fin 0"
| "d_div a (Fin y) = (if 0 \<le> y then a else d_neg a)"
| "d_div a b = NaN"

fun d_lt :: "double \<Rightarrow> double \<Rightarrow> bool" where
  "d_lt (Fin x) (Fin y) \<longleftrightarrow> x < y"
| "d_lt NaN _ \<longleftrightarrow> False"
| "d_lt _ NaN \<longleftrightarrow> False"
| "d_lt MInf b \<longleftrightarrow> b \<noteq> MInf"
| "d_lt PInf b \<longleftrightarrow> False"
| "d_lt (Fin x) b \<longleftrightarrow> b = PInf"

definition d_le :: "double \<Rightarrow> double \<Rightarrow> bool" where
  "d_le a b \<longleftrightarrow> d_lt a b \<or> (a = b \<and> \<not> isnan a)"

definition d_abs :: "double \<Rightarrow> double" where
  "d_abs a = (case a of NaN \<Rightarrow> NaN | Fin x \<Rightarrow> Fin \<bar>x\<bar> | _ \<Rightarrow> PInf)"

text \<open>\<open>std::min\<close>, \<open>std::max\<close> and \<open>std::clamp\<close>, by comparisons as the library defines them.\<close>

definition d_min :: "double \<Rightarrow> double \<Rightarrow> double" where
  "d_min a b = (if d_lt b a then b else a)"

definition d_max :: "double \<Rightarrow> double \<Rightarrow> double" where
  "d_max a b = (if d_lt a b then b else a)"

definition d_clamp :: "double \<Rightarrow> double \<Rightarrow> double \<Rightarrow> double" where
  "d_clamp v lo hi = (if d_lt v lo then lo else if d_lt hi v then hi else v)"

definition is_number :: "double \<Rightarrow> bool" where
  "is_number a \<longleftrightarrow> (case a of Fin _ \<Rightarrow> True | _ \<Rightarrow> False)"

lemma is_number_simps [simp]:
  "is_number (Fin x)" "\<not> is_number NaN" "\<not> is_number PInf" "\<not> is_number MInf"
  by (simp_all add: is_number_def)

lemma is_numberE: "is_number a \<Longrightarrow> (\<And>x. a = Fin x \<Longrightarrow> P) \<Longrightarrow> P"
  by (cases a) auto

lemma d_inf_0 [simp]: "d_inf 0 = NaN"
  by (simp add: d_inf_def)

subsection \<open>On numbers the operations are those of the reals\<close>

lemma d_sub_Fin [simp]: "d_sub (Fin x) (Fin y) = Fin (x - y)"
  by (simp add: d_sub_def)

lemma d_div_Fin [simp]: "y \<noteq> 0 \<Longrightarrow> d_div (Fin x) (Fin y) = Fin (x / y)"
  by simp

lemma d_le_Fin [simp]: "d_le (Fin x) (Fin y) \<longleftrightarrow> x \<le> y"
  by (auto simp: d_le_def isnan_def)

lemma d_abs_Fin [simp]: "d_abs (Fin x) = Fin \<bar>x\<bar>"
  by (simp add: d_abs_def)

lemma d_min_Fin [simp]: "d_min (Fin x) (Fin y) = Fin (min x y)"
  by (auto simp: d_min_def min_def)

lemma d_max_Fin [simp]: "d_max (Fin x) (Fin y) = Fin (max x y)"
  by (auto simp: d_max_def max_def)

lemma d_clamp_Fin [simp]: "d_clamp (Fin v) (Fin lo) (Fin hi) = Fin (std_clamp v lo hi)"
  by (simp add: d_clamp_def std_clamp_def)

lemma isnan_simps [simp]: "isnan NaN" "\<not> isnan (Fin x)" "\<not> isnan PInf" "\<not> isnan MInf"
  by (simp_all add: isnan_def)

subsection \<open>NaN is absorbing and unordered\<close>

lemma d_NaN [simp]:
  "d_add a NaN = NaN" "d_sub NaN a = NaN" "d_sub a NaN = NaN" "d_div a NaN = NaN"
  "d_mul NaN a = NaN" "d_mul a NaN = NaN" "d_neg NaN = NaN" "d_abs NaN = NaN"
  by (cases a; simp add: d_sub_def d_inf_def d_abs_def)+

lemma d_lt_NaN [simp]: "\<not> d_lt a NaN"
  by (cases a) simp_all

lemma d_clamp_NaN [simp]: "d_clamp NaN lo hi = NaN"
  by (simp add: d_clamp_def)

lemma d_max_zero_bound: "\<not> d_lt (d_max (Fin x) a) (Fin x)"
  by (cases a) (auto simp: d_max_def)

text \<open>The conversion of a \<open>double\<close> to \<open>int\<close>, undefined when it does not fit.\<close>

definition double_to_int :: "double \<Rightarrow> int outcome" where
  "double_to_int d =
     (case d of Fin x \<Rightarrow> if - (2 ^ 31) \<le> trunc_to_int x \<and> trunc_to_int x < 2 ^ 31 then Ret (trunc_to_int x) else UB | _ \<Rightarrow> UB)"

end
