(* ===== verification/MediaFormats.thy ===== *)
theory MediaFormats
  imports Doubles "HOL-Library.Sublist"
begin

text \<open>
  The public enumerations (\<open>src/src/include/decodersdk/common_define.h\<close>) and the helper
  functions of \<open>src/src/utils/common_utils.h\<close> and \<open>common_utils.cpp\<close>: the conversions
  between the public enumerations and FFmpeg's, the floating-point comparisons, the test for a
  real-time URL.  FFmpeg's enumerations are integers (an \<open>AVFrame\<close> stores its format as an
  \<open>int\<close>); the enumerators the sources use are named, with the values of the vendored headers.
  The constructors carry a prefix because the C++ scoped enumerations share names.
\<close>

subsection \<open>Public enumerations\<close>

datatype MediaType = MT_kMediaTypeUnknown | MT_kMediaTypeVideo | MT_kMediaTypeAudio

datatype HWAccelType =
    HW_kNone | HW_kAuto | HW_kDxva2 | HW_kD3d11va | HW_kCuda | HW_kVaapi | HW_kVdpau | HW_kQsv
  | HW_kVideoToolBox

datatype ImageFormat =
    IF_kNV12 | IF_kNV21 | IF_kYUV420P | IF_kYUV422P | IF_kYUV444P | IF_kRGB24 | IF_kBGR24
  | IF_kRGBA | IF_kBGRA | IF_kDxva2 | IF_kD3d11va | IF_kCuda | IF_kVaapi | IF_kVdpau | IF_kQsv
  | IF_kVideoToolBox | IF_kUnknown

datatype AudioSampleFormat =
    SF_kFmtU8 | SF_kFmtS16 | SF_kFmtS32 | SF_kFmtFlt | SF_kFmtDbl | SF_kFmtU8P | SF_kFmtS16P
  | SF_kFmtS32P | SF_kFmtFltP | SF_kFmtDblP | SF_kFmtS64 | SF_kFmtS64P | SF_kUnknown

datatype RtspTransport = RT_kTcp | RT_kUdp | RT_kUdpMulticast

subsection \<open>FFmpeg enumerators\<close>

type_synonym AVPixelFormat = int
type_synonym AVSampleFormat = int
type_synonym AVMediaType = int

abbreviation (input) "AV_PIX_FMT_NONE \<equiv> (-1 :: AVPixelFormat)"
abbreviation (input) "AV_PIX_FMT_NV12 \<equiv> (23 :: AVPixelFormat)"
abbreviation (input) "AV_PIX_FMT_NV21 \<equiv> (24 :: AVPixelFormat)"
abbreviation (input) "AV_PIX_FMT_YUV420P \<equiv> (0 :: AVPixelFormat)"
abbreviation (input) "AV_PIX_FMT_YUV422P \<equiv> (4 :: AVPixelFormat)"
abbreviation (input) "AV_PIX_FMT_YUV444P \<equiv> (5 :: AVPixelFormat)"
abbreviation (input) "AV_PIX_FMT_RGB24 \<equiv> (2 :: AVPixelFormat)"
abbreviation (input) "AV_PIX_FMT_BGR24 \<equiv> (3 :: AVPixelFormat)"
abbreviation (input) "AV_PIX_FMT_RGBA \<equiv> (26 :: AVPixelFormat)"
abbreviation (input) "AV_PIX_FMT_BGRA \<equiv> (28 :: AVPixelFormat)"
abbreviation (input) "AV_PIX_FMT_DXVA2_VLD \<equiv> (51 :: AVPixelFormat)"
abbreviation (input) "AV_PIX_FMT_D3D11 \<equiv> (171 :: AVPixelFormat)"
abbreviation (input) "AV_PIX_FMT_CUDA \<equiv> (117 :: AVPixelFormat)"
abbreviation (input) "AV_PIX_FMT_VAAPI \<equiv> (44 :: AVPixelFormat)"
abbreviation (input) "AV_PIX_FMT_VDPAU \<equiv> (98 :: AVPixelFormat)"
abbreviation (input) "AV_PIX_FMT_QSV \<equiv> (114 :: AVPixelFormat)"
abbreviation (input) "AV_PIX_FMT_VIDEOTOOLBOX \<equiv> (157 :: AVPixelFormat)"

abbreviation (input) "AV_SAMPLE_FMT_NONE \<equiv> (-1 :: AVSampleFormat)"
abbreviation (input) "AV_SAMPLE_FMT_U8 \<equiv> (0 :: AVSampleFormat)"
abbreviation (input) "AV_SAMPLE_FMT_S16 \<equiv> (1 :: AVSampleFormat)"
abbreviation (input) "AV_SAMPLE_FMT_S32 \<equiv> (2 :: AVSampleFormat)"
abbreviation (input) "AV_SAMPLE_FMT_FLT \<equiv> (3 :: AVSampleFormat)"
abbreviation (input) "AV_SAMPLE_FMT_DBL \<equiv> (4 :: AVSampleFormat)"
abbreviation (input) "AV_SAMPLE_FMT_U8P \<equiv> (5 :: AVSampleFormat)"
abbreviation (input) "AV_SAMPLE_FMT_S16P \<equiv> (6 :: AVSampleFormat)"
abbreviation (input) "AV_SAMPLE_FMT_S32P \<equiv> (7 :: AVSampleFormat)"
abbreviation (input) "AV_SAMPLE_FMT_FLTP \<equiv> (8 :: AVSampleFormat)"
abbreviation (input) "AV_SAMPLE_FMT_DBLP \<equiv> (9 :: AVSampleFormat)"
abbreviation (input) "AV_SAMPLE_FMT_S64 \<equiv> (10 :: AVSampleFormat)"
abbreviation (input) "AV_SAMPLE_FMT_S64P \<equiv> (11 :: AVSampleFormat)"

abbreviation (input) "AVMEDIA_TYPE_UNKNOWN \<equiv> (-1 :: AVMediaType)"
abbreviation (input) "AVMEDIA_TYPE_VIDEO \<equiv> (0 :: AVMediaType)"
abbreviation (input) "AVMEDIA_TYPE_AUDIO \<equiv> (1 :: AVMediaType)"

subsection \<open>Conversions\<close>

fun imageFormat2AVPixelFormat :: "ImageFormat \<Rightarrow> AVPixelFormat" where
  "imageFormat2AVPixelFormat IF_kNV12 = AV_PIX_FMT_NV12"
| "imageFormat2AVPixelFormat IF_kNV21 = AV_PIX_FMT_NV21"
| "imageFormat2AVPixelFormat IF_kYUV420P = AV_PIX_FMT_YUV420P"
| "imageFormat2AVPixelFormat IF_kYUV422P = AV_PIX_FMT_YUV422P"
| "imageFormat2AVPixelFormat IF_kYUV444P = AV_PIX_FMT_YUV444P"
| "imageFormat2AVPixelFormat IF_kRGB24 = AV_PIX_FMT_RGB24"
| "imageFormat2AVPixelFormat IF_kBGR24 = AV_PIX_FMT_BGR24"
| "imageFormat2AVPixelFormat IF_kRGBA = AV_PIX_FMT_RGBA"
| "imageFormat2AVPixelFormat IF_kBGRA = AV_PIX_FMT_BGRA"
| "imageFormat2AVPixelFormat IF_kDxva2 = AV_PIX_FMT_DXVA2_VLD"
| "imageFormat2AVPixelFormat IF_kD3d11va = AV_PIX_FMT_D3D11"
| "imageFormat2AVPixelFormat IF_kCuda = AV_PIX_FMT_CUDA"
| "imageFormat2AVPixelFormat IF_kVaapi = AV_PIX_FMT_VAAPI"
| "imageFormat2AVPixelFormat IF_kVdpau = AV_PIX_FMT_VDPAU"
| "imageFormat2AVPixelFormat IF_kQsv = AV_PIX_FMT_QSV"
| "imageFormat2AVPixelFormat IF_kVideoToolBox = AV_PIX_FMT_VIDEOTOOLBOX"
| "imageFormat2AVPixelFormat IF_kUnknown = AV_PIX_FMT_NONE"

definition avPixelFormat2ImageFormat :: "AVPixelFormat \<Rightarrow> ImageFormat" where
  "avPixelFormat2ImageFormat format =
     (if format = AV_PIX_FMT_NV12 then IF_kNV12
      else if format = AV_PIX_FMT_NV21 then IF_kNV21
      else if format = AV_PIX_FMT_YUV420P then IF_kYUV420P
      else if format = AV_PIX_FMT_YUV422P then IF_kYUV422P
      else if format = AV_PIX_FMT_YUV444P then IF_kYUV444P
      else if format = AV_PIX_FMT_RGB24 then IF_kRGB24
      else if format = AV_PIX_FMT_BGR24 then IF_kBGR24
      else if format = AV_PIX_FMT_RGBA then IF_kRGBA
      else if format = AV_PIX_FMT_BGRA then IF_kBGRA
      else if format = AV_PIX_FMT_DXVA2_VLD then IF_kDxva2
      else if format = AV_PIX_FMT_D3D11 then IF_kD3d11va
      else if format = AV_PIX_FMT_CUDA then IF_kCuda
      else if format = AV_PIX_FMT_VAAPI then IF_kVaapi
      else if format = AV_PIX_FMT_VDPAU then IF_kVdpau
      else if format = AV_PIX_FMT_QSV then IF_kQsv
      else if format = AV_PIX_FMT_VIDEOTOOLBOX then IF_kVideoToolBox
      else IF_kUnknown)"

fun audioSampleFormat2AVSampleFormat :: "AudioSampleFormat \<Rightarrow> AVSampleFormat" where
  "audioSampleFormat2AVSampleFormat SF_kFmtU8 = AV_SAMPLE_FMT_U8"
| "audioSampleFormat2AVSampleFormat SF_kFmtS16 = AV_SAMPLE_FMT_S16"
| "audioSampleFormat2AVSampleFormat SF_kFmtS32 = AV_SAMPLE_FMT_S32"
| "audioSampleFormat2AVSampleFormat SF_kFmtFlt = AV_SAMPLE_FMT_FLT"
| "audioSampleFormat2AVSampleFormat SF_kFmtDbl = AV_SAMPLE_FMT_DBL"
| "audioSampleFormat2AVSampleFormat SF_kFmtU8P = AV_SAMPLE_FMT_U8P"
| "audioSampleFormat2AVSampleFormat SF_kFmtS16P = AV_SAMPLE_FMT_S16P"
| "audioSampleFormat2AVSampleFormat SF_kFmtS32P = AV_SAMPLE_FMT_S32P"
| "audioSampleFormat2AVSampleFormat SF_kFmtFltP = AV_SAMPLE_FMT_FLTP"
| "audioSampleFormat2AVSampleFormat SF_kFmtDblP = AV_SAMPLE_FMT_DBLP"
| "audioSampleFormat2AVSampleFormat SF_kFmtS64 = AV_SAMPLE_FMT_S64"
| "audioSampleFormat2AVSampleFormat SF_kFmtS64P = AV_SAMPLE_FMT_S64P"
| "audioSampleFormat2AVSampleFormat SF_kUnknown = AV_SAMPLE_FMT_NONE"

definition avSampleFormat2AudioSampleFormat :: "AVSampleFormat \<Rightarrow> AudioSampleFormat" where
  "avSampleFormat2AudioSampleFormat format =
     (if format = AV_SAMPLE_FMT_U8 then SF_kFmtU8
      else if format = AV_SAMPLE_FMT_S16 then SF_kFmtS16
      else if format = AV_SAMPLE_FMT_S32 then SF_kFmtS32
      else if format = AV_SAMPLE_FMT_FLT then SF_kFmtFlt
      else if format = AV_SAMPLE_FMT_DBL then SF_kFmtDbl
      else if format = AV_SAMPLE_FMT_U8P then SF_kFmtU8P
      else if format = AV_SAMPLE_FMT_S16P then SF_kFmtS16P
      else if format = AV_SAMPLE_FMT_S32P then SF_kFmtS32P
      else if format = AV_SAMPLE_FMT_FLTP then SF_kFmtFltP
      else if format = AV_SAMPLE_FMT_DBLP then SF_kFmtDblP
      else if format = AV_SAMPLE_FMT_S64 then SF_kFmtS64
      else if format = AV_SAMPLE_FMT_S64P then SF_kFmtS64P
      else SF_kUnknown)"

definition avMediaType2MediaType :: "AVMediaType \<Rightarrow> MediaType" where
  "avMediaType2MediaType type =
     (if type = AVMEDIA_TYPE_VIDEO then MT_kMediaTypeVideo
      else if type = AVMEDIA_TYPE_AUDIO then MT_kMediaTypeAudio
      else MT_kMediaTypeUnknown)"

fun mediaType2AVMediaType :: "MediaType \<Rightarrow> AVMediaType" where
  "mediaType2AVMediaType MT_kMediaTypeVideo = AVMEDIA_TYPE_VIDEO"
| "mediaType2AVMediaType MT_kMediaTypeAudio = AVMEDIA_TYPE_AUDIO"
| "mediaType2AVMediaType MT_kMediaTypeUnknown = AVMEDIA_TYPE_UNKNOWN"

fun rtspTransport2Str :: "RtspTransport \<Rightarrow> string" where
  "rtspTransport2Str RT_kTcp = ''tcp''"
| "rtspTransport2Str RT_kUdp = ''udp''"
| "rtspTransport2Str RT_kUdpMulticast = ''udp_multicast''"

subsection \<open>Comparisons of floating-point numbers\<close>

definition DOUBLEEPSILON :: double where
  "DOUBLEEPSILON = Fin (1 / 10 ^ 12)"

definition utils_equal :: "double \<Rightarrow> double \<Rightarrow> double \<Rightarrow> bool" where
  "utils_equal a b epsilon \<longleftrightarrow> d_lt (d_abs (d_sub a b)) epsilon"

definition utils_greater :: "double \<Rightarrow> double \<Rightarrow> double \<Rightarrow> bool" where
  "utils_greater a b epsilon \<longleftrightarrow> d_lt b a \<and> d_lt epsilon (d_sub a b)"

definition utils_greaterAndEqual :: "double \<Rightarrow> double \<Rightarrow> double \<Rightarrow> bool" where
  "utils_greaterAndEqual a b epsilon \<longleftrightarrow> utils_greater a b epsilon \<or> utils_equal a b epsilon"

subsection \<open>Updating an atomic variable\<close>

text \<open>
  \<open>atomicUpdateIfNotEqual\<close>: the loop retries a weak compare-exchange.  Each attempt is an
  element of the list: \<open>None\<close> is an attempt that succeeds, \<open>Some v\<close> one that fails and
  reads \<open>v\<close>.  The result is the function's return value and what was stored, if anything.
\<close>

fun atomicUpdateIfNotEqual :: "'a \<Rightarrow> 'a \<Rightarrow> nat \<Rightarrow> nat \<Rightarrow> 'a option list \<Rightarrow> (bool \<times> 'a option) option" where
  "atomicUpdateIfNotEqual current newValue retry maxRetry attempts =
     (if current \<noteq> newValue \<and> retry < maxRetry
      then (case attempts of
              [] \<Rightarrow> None
            | None # _ \<Rightarrow> Some (True, Some newValue)
            | Some v # rest \<Rightarrow> atomicUpdateIfNotEqual v newValue (Suc retry) maxRetry rest)
      else Some (retry < maxRetry, None))"

declare atomicUpdateIfNotEqual.simps [simp del]

subsection \<open>Sleeping, error texts and paths\<close>

text \<open>The time at which \<open>highPrecisionSleep\<close> returns at the earliest, in nanoseconds of the steady clock.\<close>

definition highPrecisionSleep :: "double \<Rightarrow> int \<Rightarrow> int outcome" where
  "highPrecisionSleep ms startTime =
     (case double_to_int (d_mul ms (Fin 1000)) of Ret us \<Rightarrow> Ret (startTime + us * 1000) | Wait \<Rightarrow> Wait | UB \<Rightarrow> UB)"

text \<open>\<open>make_error_string\<close>: what FFmpeg writes into the buffer of 64 bytes, which is read up to the first zero.\<close>

definition avErr2Str :: "(int \<Rightarrow> string) \<Rightarrow> int \<Rightarrow> string" where
  "avErr2Str make_error_string errnum =
     (let buf = make_error_string errnum
      in takeWhile (\<lambda>c. c \<noteq> CHR 0x00) (take 64 (buf @ replicate 64 (CHR 0x00))))"

text \<open>The conversions of Windows give a text with its final zero, or nothing when they fail.\<close>

definition convertPathForFFmpeg :: "bool \<Rightarrow> (string \<Rightarrow> 'w option) \<Rightarrow> ('w \<Rightarrow> string option) \<Rightarrow> string \<Rightarrow> string" where
  "convertPathForFFmpeg windows toWide toUtf8 path =
     (if \<not> windows then path
      else case toWide path of
             None \<Rightarrow> path
           | Some widePath \<Rightarrow>
               (case toUtf8 widePath of
                  None \<Rightarrow> path
                | Some utf8Path \<Rightarrow> if utf8Path \<noteq> [] \<and> last utf8Path = CHR 0x00 then butlast utf8Path else utf8Path))"

text \<open>A sleep of \<open>2 ^ 31\<close> microseconds, 35 minutes and 48 seconds, or more is undefined.\<close>

lemma highPrecisionSleep_defined:
  assumes "0 \<le> ms"
  shows "highPrecisionSleep (Fin ms) t = (if ms * 1000 < 2 ^ 31 then Ret (t + trunc_to_int (ms * 1000) * 1000) else UB)"
  using assms by (auto simp: highPrecisionSleep_def double_to_int_def trunc_to_int_def floor_less_iff)

lemma avErr2Str_text:
  assumes "make_error_string errnum = msg @ [CHR 0x00]" and "CHR 0x00 \<notin> set msg" and "length msg < 64"
  shows "avErr2Str make_error_string errnum = msg"
proof -
  have "take 64 ((msg @ [CHR 0x00]) @ replicate 64 (CHR 0x00)) = msg @ replicate (64 - length msg) (CHR 0x00)"
    using assms(3) by (simp flip: replicate_Suc add: take_Cons' Suc_diff_Suc)
  moreover have "takeWhile (\<lambda>c. c \<noteq> CHR 0x00) (msg @ replicate n (CHR 0x00)) = msg" for n
    using assms(2) by (induction msg) (auto simp: takeWhile_replicate)
  ultimately show ?thesis by (simp only: avErr2Str_def Let_def assms(1))
qed

subsection \<open>Real-time URLs\<close>

text \<open>\<open>::tolower\<close> in the C locale, byte by byte.\<close>

definition c_tolower :: "char \<Rightarrow> char" where
  "c_tolower c = (let n = of_char c :: nat in if 65 \<le> n \<and> n \<le> 90 then char_of (n + 32) else c)"

text \<open>\<open>std::string::find\<close>: the first position at which the pattern occurs.\<close>

fun std_find :: "string \<Rightarrow> string \<Rightarrow> nat option" where
  "std_find [] pat = (if pat = [] then Some 0 else None)"
| "std_find (c # s) pat =
     (if take (length pat) (c # s) = pat then Some 0 else map_option Suc (std_find s pat))"

definition realtimePrefixes :: "string list" where
  "realtimePrefixes = [''rtsp://'', ''rtmp://'', ''udp://'', ''tcp://'', ''srt://'', ''mms://'']"

definition isRealtime :: "string \<Rightarrow> bool" where
  "isRealtime url =
     (let u = map c_tolower url
      in if list_ex (\<lambda>prefix. std_find u prefix = Some 0) realtimePrefixes then True
         else if (std_find u ''http://'' = Some 0 \<or> std_find u ''https://'' = Some 0)
              \<and> (std_find u ''.m3u8'' \<noteq> None \<or> std_find u ''/live/'' \<noteq> None
                   \<or> std_find u ''stream'' \<noteq> None)
         then True
         else False)"

subsection \<open>Lemmas\<close>

lemma take_eq_iff_prefix: "take (length pat) s = pat \<longleftrightarrow> prefix pat s"
  by (metis append_eq_conv_conj prefix_def take_is_prefix)

lemma std_find_prefix: "std_find s pat = Some 0 \<longleftrightarrow> prefix pat s"
  by (cases s) (auto simp: take_eq_iff_prefix)

lemma std_find_None: "std_find s pat = None \<longleftrightarrow> \<not> sublist pat s"
  by (induction s) (auto simp: take_eq_iff_prefix sublist_Cons_right)

lemma c_tolower_idem [simp]: "c_tolower (c_tolower c) = c_tolower c"
proof (cases "65 \<le> (of_char c :: nat) \<and> (of_char c :: nat) \<le> 90")
  case True
  then have "of_char (c_tolower c) = (of_char c :: nat) + 32"
    by (simp add: c_tolower_def Let_def)
  with True show ?thesis by (simp add: c_tolower_def [of "c_tolower c"] Let_def)
next
  case False
  then show ?thesis by (auto simp: c_tolower_def Let_def)
qed

lemma utils_equal_Fin [simp]: "utils_equal (Fin a) (Fin b) (Fin e) \<longleftrightarrow> \<bar>a - b\<bar> < e"
  by (simp add: utils_equal_def)

lemma utils_greater_Fin [simp]: "utils_greater (Fin a) (Fin b) (Fin e) \<longleftrightarrow> b < a \<and> e < a - b"
  by (simp add: utils_greater_def)

subsection \<open>Properties\<close>

text \<open>
  the conversions between the public enumerations and FFmpeg's lose nothing: converting a
  public value to FFmpeg's enumeration and back gives the value, for image formats, sample
  formats and media types, unknown included; in the other direction a value that is not
  mapped to unknown is recovered.
\<close>

theorem format_conversions_roundtrip:
  "avPixelFormat2ImageFormat (imageFormat2AVPixelFormat f) = f
   \<and> avSampleFormat2AudioSampleFormat (audioSampleFormat2AVSampleFormat g) = g
   \<and> avMediaType2MediaType (mediaType2AVMediaType m) = m
   \<and> (avPixelFormat2ImageFormat p = IF_kUnknown \<or> imageFormat2AVPixelFormat (avPixelFormat2ImageFormat p) = p)
   \<and> (avSampleFormat2AudioSampleFormat s = SF_kUnknown
        \<or> audioSampleFormat2AVSampleFormat (avSampleFormat2AudioSampleFormat s) = s)"
proof (intro conjI)
  show "avPixelFormat2ImageFormat (imageFormat2AVPixelFormat f) = f"
    by (cases f) (simp_all add: avPixelFormat2ImageFormat_def)
  show "avSampleFormat2AudioSampleFormat (audioSampleFormat2AVSampleFormat g) = g"
    by (cases g) (simp_all add: avSampleFormat2AudioSampleFormat_def)
  show "avMediaType2MediaType (mediaType2AVMediaType m) = m"
    by (cases m) (simp_all add: avMediaType2MediaType_def)
  show "avPixelFormat2ImageFormat p = IF_kUnknown \<or> imageFormat2AVPixelFormat (avPixelFormat2ImageFormat p) = p"
    by (simp add: avPixelFormat2ImageFormat_def)
  show "avSampleFormat2AudioSampleFormat s = SF_kUnknown
        \<or> audioSampleFormat2AVSampleFormat (avSampleFormat2AudioSampleFormat s) = s"
    by (simp add: avSampleFormat2AudioSampleFormat_def)
qed

text \<open>
  \<open>isRealtime\<close> decides exactly this: ignoring case, the URL starts with one of the six
  streaming schemes, or it starts with http or https and contains a playlist suffix, a live
  path or the word stream.
\<close>

theorem isRealtime_iff:
  "isRealtime url \<longleftrightarrow>
     (\<exists>p \<in> {''rtsp://'', ''rtmp://'', ''udp://'', ''tcp://'', ''srt://'', ''mms://''}.
        prefix p (map c_tolower url))
     \<or> (prefix ''http://'' (map c_tolower url) \<or> prefix ''https://'' (map c_tolower url))
       \<and> (\<exists>w \<in> {''.m3u8'', ''/live/'', ''stream''}. sublist w (map c_tolower url))"
  by (simp add: isRealtime_def realtimePrefixes_def std_find_prefix std_find_None Let_def)

end
