(* ===== verification/Frames.thy ===== *)
theory Frames
  imports MediaFormats Packets
begin

unbundle bit_operations_syntax

text \<open>
  Class \<open>Frame\<close> (\<open>src/src/base/frame.h\<close>, \<open>frame.cpp\<close>): an owned pointer to an
  \<open>AVFrame\<close> (\<open>None\<close> is \<open>nullptr\<close>) with the serial number, duration, time stamp,
  media type and SEI payloads the SDK attaches.  The branches for libavutil 59, the vendored
  version, are the ones modelled.

  FFmpeg's frame functions are the parameter \<open>frame_api\<close>; \<open>av_frame_ref\<close> gives the return
  code and the new destination.  Its functions on side data, dictionaries and buffer sizes are the
  parameter \<open>frame_queries\<close>.
\<close>

type_synonym AVRational = "int \<times> int"

record UserSEIData =
  sei_uuid :: "byte list"
  sei_payload :: "byte list"

record AVChannelLayout =
  chl_nb_channels :: int
  chl_mask :: u64

record av_frame =
  fm_data :: "byte list option list"
  fm_linesize :: "int list"
  fm_width :: int
  fm_height :: int
  fm_format :: int
  fm_pts :: int
  fm_pkt_dts :: int
  fm_duration :: int
  fm_time_base :: AVRational
  fm_sample_aspect_ratio :: AVRational
  fm_quality :: int
  fm_repeat_pict :: int
  fm_flags :: u32
  fm_pict_type :: int
  fm_colorspace :: int
  fm_color_range :: int
  fm_chroma_location :: int
  fm_best_effort_timestamp :: int
  fm_sample_rate :: int
  fm_nb_samples :: int
  fm_ch_layout :: AVChannelLayout
  fm_hw_frames_ctx :: bool
  fm_side_data :: "(int \<times> byte list) list"
  fm_metadata :: "(string \<times> string) list option"

record frame_api =
  av_frame_alloc :: av_frame
  av_frame_ref :: "av_frame \<Rightarrow> av_frame \<Rightarrow> int \<times> av_frame"
  av_frame_unref :: "av_frame \<Rightarrow> av_frame"

record frame_queries =
  av_frame_get_side_data :: "av_frame \<Rightarrow> int \<Rightarrow> byte list option"
  av_frame_new_side_data :: "av_frame \<Rightarrow> int \<Rightarrow> int \<Rightarrow> byte list option \<times> av_frame"
  av_dict_get :: "(string \<times> string) list \<Rightarrow> string \<Rightarrow> string option"
  av_dict_set :: "(string \<times> string) list option \<Rightarrow> string \<Rightarrow> string \<Rightarrow> (string \<times> string) list option"
  av_image_get_buffer_size :: "AVPixelFormat \<Rightarrow> int \<Rightarrow> int \<Rightarrow> int \<Rightarrow> int"
  av_samples_get_buffer_size :: "int \<Rightarrow> int \<Rightarrow> AVSampleFormat \<Rightarrow> int \<Rightarrow> int"

record Frame =
  fr_frame :: "av_frame option"
  fr_serial :: u32
  fr_duration :: double
  fr_pts :: double
  fr_mediaType :: AVMediaType
  fr_userSEIDataList :: "UserSEIData list"

definition AV_NUM_DATA_POINTERS :: int where
  "AV_NUM_DATA_POINTERS = 8"

definition AV_FRAME_FLAG_KEY :: u32 where "AV_FRAME_FLAG_KEY = 2"
definition AV_FRAME_FLAG_INTERLACED :: u32 where "AV_FRAME_FLAG_INTERLACED = 8"
definition AV_FRAME_FLAG_TOP_FIELD_FIRST :: u32 where "AV_FRAME_FLAG_TOP_FIELD_FIRST = 16"

subsection \<open>Construction, copy, move and release\<close>

definition Frame_new :: Frame where
  "Frame_new = \<lparr>fr_frame = None, fr_serial = 0, fr_duration = Fin 0, fr_pts = Fin 0,
     fr_mediaType = AVMEDIA_TYPE_UNKNOWN, fr_userSEIDataList = []\<rparr>"

definition Frame_ensureAllocated :: "frame_api \<Rightarrow> Frame \<Rightarrow> Frame" where
  "Frame_ensureAllocated api f =
     (case fr_frame f of None \<Rightarrow> f\<lparr>fr_frame := Some (av_frame_alloc api)\<rparr> | Some _ \<Rightarrow> f)"

definition Frame_unref :: "frame_api \<Rightarrow> Frame \<Rightarrow> Frame" where
  "Frame_unref api f = f\<lparr>fr_frame := map_option (av_frame_unref api) (fr_frame f)\<rparr>"

definition Frame_release :: "Frame \<Rightarrow> Frame" where
  "Frame_release f = f\<lparr>fr_frame := None\<rparr>"

text \<open>A new reference to the source's buffers in a freshly allocated frame, or nothing.\<close>

definition Frame_ref :: "frame_api \<Rightarrow> av_frame option \<Rightarrow> av_frame option" where
  "Frame_ref api src =
     (case src of
        None \<Rightarrow> None
      | Some s \<Rightarrow> (case av_frame_ref api (av_frame_alloc api) s of
                     (ret, d) \<Rightarrow> if ret \<noteq> 0 then None else Some d))"

definition Frame_of :: "frame_api \<Rightarrow> av_frame option \<Rightarrow> Frame" where
  "Frame_of api srcFrame = Frame_new\<lparr>fr_frame := Frame_ref api srcFrame\<rparr>"

definition Frame_copy :: "frame_api \<Rightarrow> Frame \<Rightarrow> Frame" where
  "Frame_copy api other =
     \<lparr>fr_frame = Frame_ref api (fr_frame other), fr_serial = fr_serial other,
      fr_duration = fr_duration other, fr_pts = fr_pts other, fr_mediaType = fr_mediaType other,
      fr_userSEIDataList = fr_userSEIDataList other\<rparr>"

text \<open>Copy assignment between distinct objects: the old frame is released first.\<close>

definition Frame_assign :: "frame_api \<Rightarrow> Frame \<Rightarrow> Frame \<Rightarrow> Frame" where
  "Frame_assign api this other =
     (Frame_release this)\<lparr>fr_serial := fr_serial other, fr_duration := fr_duration other,
        fr_pts := fr_pts other, fr_mediaType := fr_mediaType other,
        fr_userSEIDataList := fr_userSEIDataList other,
        fr_frame := Frame_ref api (fr_frame other)\<rparr>"

text \<open>
  A move gives the new object and what is left in the source: a null pointer, the scalar
  fields as they were, and an emptied vector.
\<close>

definition Frame_moved_from :: "Frame \<Rightarrow> Frame" where
  "Frame_moved_from other = other\<lparr>fr_frame := None, fr_userSEIDataList := []\<rparr>"

definition Frame_move :: "Frame \<Rightarrow> Frame \<times> Frame" where
  "Frame_move other =
     (\<lparr>fr_frame = fr_frame other, fr_serial = fr_serial other, fr_duration = fr_duration other,
       fr_pts = fr_pts other, fr_mediaType = fr_mediaType other,
       fr_userSEIDataList = fr_userSEIDataList other\<rparr>, Frame_moved_from other)"

definition Frame_move_assign :: "Frame \<Rightarrow> Frame \<Rightarrow> Frame \<times> Frame" where
  "Frame_move_assign this other =
     ((Frame_release this)\<lparr>fr_frame := fr_frame other, fr_serial := fr_serial other,
        fr_duration := fr_duration other, fr_pts := fr_pts other,
        fr_mediaType := fr_mediaType other, fr_userSEIDataList := fr_userSEIDataList other\<rparr>,
      Frame_moved_from other)"

subsection \<open>Fields of the class\<close>

definition Frame_get :: "Frame \<Rightarrow> av_frame option" where
  "Frame_get f = fr_frame f"

definition Frame_isValid :: "Frame \<Rightarrow> bool" where
  "Frame_isValid f \<longleftrightarrow> fr_frame f \<noteq> None"

definition Frame_serial :: "Frame \<Rightarrow> u32" where
  "Frame_serial f = fr_serial f"

definition Frame_setSerial :: "u32 \<Rightarrow> Frame \<Rightarrow> Frame" where
  "Frame_setSerial s f = f\<lparr>fr_serial := s\<rparr>"

definition Frame_durationByFps :: "Frame \<Rightarrow> double" where
  "Frame_durationByFps f = fr_duration f"

definition Frame_setDurationByFps :: "double \<Rightarrow> Frame \<Rightarrow> Frame" where
  "Frame_setDurationByFps d f = f\<lparr>fr_duration := d\<rparr>"

definition Frame_isInHardware :: "Frame \<Rightarrow> bool" where
  "Frame_isInHardware f = (case fr_frame f of None \<Rightarrow> False | Some a \<Rightarrow> fm_hw_frames_ctx a)"

definition Frame_setSecPts :: "double \<Rightarrow> Frame \<Rightarrow> Frame" where
  "Frame_setSecPts p f = f\<lparr>fr_pts := p\<rparr>"

definition Frame_secPts :: "Frame \<Rightarrow> double" where
  "Frame_secPts f = fr_pts f"

definition Frame_mediaType :: "Frame \<Rightarrow> AVMediaType" where
  "Frame_mediaType f = fr_mediaType f"

definition Frame_setMediaType :: "AVMediaType \<Rightarrow> Frame \<Rightarrow> Frame" where
  "Frame_setMediaType t f = f\<lparr>fr_mediaType := t\<rparr>"

definition Frame_userSEIDataList :: "Frame \<Rightarrow> UserSEIData list" where
  "Frame_userSEIDataList f = fr_userSEIDataList f"

definition Frame_setUserSEIDataList :: "UserSEIData list \<Rightarrow> Frame \<Rightarrow> Frame" where
  "Frame_setUserSEIDataList l f = f\<lparr>fr_userSEIDataList := l\<rparr>"

subsection \<open>Properties of the AVFrame\<close>

text \<open>The getters give a default on a null frame, the setters do nothing to it.\<close>

definition on_frame :: "'a \<Rightarrow> (av_frame \<Rightarrow> 'a) \<Rightarrow> Frame \<Rightarrow> 'a" where
  "on_frame d g f = (case fr_frame f of None \<Rightarrow> d | Some a \<Rightarrow> g a)"

definition upd_frame :: "(av_frame \<Rightarrow> av_frame) \<Rightarrow> Frame \<Rightarrow> Frame" where
  "upd_frame u f = f\<lparr>fr_frame := map_option u (fr_frame f)\<rparr>"

definition Frame_width :: "Frame \<Rightarrow> int" where
  "Frame_width f = on_frame 0 fm_width f"

definition Frame_setWidth :: "int \<Rightarrow> Frame \<Rightarrow> Frame" where
  "Frame_setWidth v f = upd_frame (\<lambda>a. a\<lparr>fm_width := v\<rparr>) f"

definition Frame_height :: "Frame \<Rightarrow> int" where
  "Frame_height f = on_frame 0 fm_height f"

definition Frame_setHeight :: "int \<Rightarrow> Frame \<Rightarrow> Frame" where
  "Frame_setHeight v f = upd_frame (\<lambda>a. a\<lparr>fm_height := v\<rparr>) f"

definition Frame_pixelFormat :: "Frame \<Rightarrow> AVPixelFormat" where
  "Frame_pixelFormat f = on_frame AV_PIX_FMT_NONE fm_format f"

definition Frame_setPixelFormat :: "AVPixelFormat \<Rightarrow> Frame \<Rightarrow> Frame" where
  "Frame_setPixelFormat v f = upd_frame (\<lambda>a. a\<lparr>fm_format := v\<rparr>) f"

definition Frame_avPts :: "Frame \<Rightarrow> int" where
  "Frame_avPts f = on_frame AV_NOPTS_VALUE fm_pts f"

definition Frame_setAvPts :: "int \<Rightarrow> Frame \<Rightarrow> Frame" where
  "Frame_setAvPts v f = upd_frame (\<lambda>a. a\<lparr>fm_pts := v\<rparr>) f"

definition Frame_pktDts :: "Frame \<Rightarrow> int" where
  "Frame_pktDts f = on_frame AV_NOPTS_VALUE fm_pkt_dts f"

definition Frame_setPktDts :: "int \<Rightarrow> Frame \<Rightarrow> Frame" where
  "Frame_setPktDts v f = upd_frame (\<lambda>a. a\<lparr>fm_pkt_dts := v\<rparr>) f"

definition Frame_timeBase :: "Frame \<Rightarrow> AVRational" where
  "Frame_timeBase f = on_frame (0, 1) fm_time_base f"

definition Frame_setTimeBase :: "AVRational \<Rightarrow> Frame \<Rightarrow> Frame" where
  "Frame_setTimeBase v f = upd_frame (\<lambda>a. a\<lparr>fm_time_base := v\<rparr>) f"

definition Frame_sampleAspectRatio :: "Frame \<Rightarrow> AVRational" where
  "Frame_sampleAspectRatio f = on_frame (0, 1) fm_sample_aspect_ratio f"

definition Frame_setSampleAspectRatio :: "AVRational \<Rightarrow> Frame \<Rightarrow> Frame" where
  "Frame_setSampleAspectRatio v f = upd_frame (\<lambda>a. a\<lparr>fm_sample_aspect_ratio := v\<rparr>) f"

definition Frame_quality :: "Frame \<Rightarrow> int" where
  "Frame_quality f = on_frame 0 fm_quality f"

definition Frame_setQuality :: "int \<Rightarrow> Frame \<Rightarrow> Frame" where
  "Frame_setQuality v f = upd_frame (\<lambda>a. a\<lparr>fm_quality := v\<rparr>) f"

definition Frame_repeatPict :: "Frame \<Rightarrow> int" where
  "Frame_repeatPict f = on_frame 0 fm_repeat_pict f"

definition Frame_setRepeatPict :: "int \<Rightarrow> Frame \<Rightarrow> Frame" where
  "Frame_setRepeatPict v f = upd_frame (\<lambda>a. a\<lparr>fm_repeat_pict := v\<rparr>) f"

definition Frame_pictType :: "Frame \<Rightarrow> int" where
  "Frame_pictType f = on_frame 0 fm_pict_type f"

definition Frame_setPictType :: "int \<Rightarrow> Frame \<Rightarrow> Frame" where
  "Frame_setPictType v f = upd_frame (\<lambda>a. a\<lparr>fm_pict_type := v\<rparr>) f"

definition Frame_colorspace :: "Frame \<Rightarrow> int" where
  "Frame_colorspace f = on_frame 2 fm_colorspace f"

definition Frame_setColorspace :: "int \<Rightarrow> Frame \<Rightarrow> Frame" where
  "Frame_setColorspace v f = upd_frame (\<lambda>a. a\<lparr>fm_colorspace := v\<rparr>) f"

definition Frame_colorRange :: "Frame \<Rightarrow> int" where
  "Frame_colorRange f = on_frame 0 fm_color_range f"

definition Frame_setColorRange :: "int \<Rightarrow> Frame \<Rightarrow> Frame" where
  "Frame_setColorRange v f = upd_frame (\<lambda>a. a\<lparr>fm_color_range := v\<rparr>) f"

definition Frame_chromaLocation :: "Frame \<Rightarrow> int" where
  "Frame_chromaLocation f = on_frame 0 fm_chroma_location f"

definition Frame_setChromaLocation :: "int \<Rightarrow> Frame \<Rightarrow> Frame" where
  "Frame_setChromaLocation v f = upd_frame (\<lambda>a. a\<lparr>fm_chroma_location := v\<rparr>) f"

definition Frame_bestEffortTimestamp :: "Frame \<Rightarrow> int" where
  "Frame_bestEffortTimestamp f = on_frame AV_NOPTS_VALUE fm_best_effort_timestamp f"

definition Frame_setBestEffortTimestamp :: "int \<Rightarrow> Frame \<Rightarrow> Frame" where
  "Frame_setBestEffortTimestamp v f = upd_frame (\<lambda>a. a\<lparr>fm_best_effort_timestamp := v\<rparr>) f"

definition Frame_sampleRate :: "Frame \<Rightarrow> int" where
  "Frame_sampleRate f = on_frame 0 fm_sample_rate f"

definition Frame_setSampleRate :: "int \<Rightarrow> Frame \<Rightarrow> Frame" where
  "Frame_setSampleRate v f = upd_frame (\<lambda>a. a\<lparr>fm_sample_rate := v\<rparr>) f"

definition Frame_sampleFormat :: "Frame \<Rightarrow> AVSampleFormat" where
  "Frame_sampleFormat f = on_frame AV_SAMPLE_FMT_NONE fm_format f"

definition Frame_setSampleFormat :: "AVSampleFormat \<Rightarrow> Frame \<Rightarrow> Frame" where
  "Frame_setSampleFormat v f = upd_frame (\<lambda>a. a\<lparr>fm_format := v\<rparr>) f"

definition Frame_interlacedFrame :: "Frame \<Rightarrow> int" where
  "Frame_interlacedFrame f = on_frame 0 (\<lambda>a. if fm_flags a AND AV_FRAME_FLAG_INTERLACED \<noteq> 0 then 1 else 0) f"

definition Frame_setInterlacedFrame :: "int \<Rightarrow> Frame \<Rightarrow> Frame" where
  "Frame_setInterlacedFrame v f = upd_frame (\<lambda>a. a\<lparr>fm_flags :=
     (if v \<noteq> 0 then fm_flags a OR AV_FRAME_FLAG_INTERLACED else fm_flags a AND NOT AV_FRAME_FLAG_INTERLACED)\<rparr>) f"

definition Frame_topFieldFirst :: "Frame \<Rightarrow> int" where
  "Frame_topFieldFirst f = on_frame 0 (\<lambda>a. if fm_flags a AND AV_FRAME_FLAG_TOP_FIELD_FIRST \<noteq> 0 then 1 else 0) f"

definition Frame_setTopFieldFirst :: "int \<Rightarrow> Frame \<Rightarrow> Frame" where
  "Frame_setTopFieldFirst v f = upd_frame (\<lambda>a. a\<lparr>fm_flags :=
     (if v \<noteq> 0 then fm_flags a OR AV_FRAME_FLAG_TOP_FIELD_FIRST else fm_flags a AND NOT AV_FRAME_FLAG_TOP_FIELD_FIRST)\<rparr>) f"

definition Frame_keyFrame :: "Frame \<Rightarrow> int" where
  "Frame_keyFrame f = on_frame 0 (\<lambda>a. if fm_flags a AND AV_FRAME_FLAG_KEY \<noteq> 0 then 1 else 0) f"

definition Frame_setKeyFrame :: "int \<Rightarrow> Frame \<Rightarrow> Frame" where
  "Frame_setKeyFrame v f = upd_frame (\<lambda>a. a\<lparr>fm_flags :=
     (if v \<noteq> 0 then fm_flags a OR AV_FRAME_FLAG_KEY else fm_flags a AND NOT AV_FRAME_FLAG_KEY)\<rparr>) f"

definition Frame_nbSamples :: "Frame \<Rightarrow> int" where
  "Frame_nbSamples f = on_frame 0 fm_nb_samples f"

text \<open>The 64-bit argument is narrowed to an \<open>int\<close>.\<close>

definition Frame_setNbSamples :: "int \<Rightarrow> Frame \<Rightarrow> Frame" where
  "Frame_setNbSamples v f = upd_frame (\<lambda>a. a\<lparr>fm_nb_samples := sint (of_int v :: u32)\<rparr>) f"

definition Frame_channelLayout :: "Frame \<Rightarrow> AVChannelLayout" where
  "Frame_channelLayout f = on_frame \<lparr>chl_nb_channels = 0, chl_mask = 0\<rparr> fm_ch_layout f"

definition Frame_setChannelLayout :: "AVChannelLayout \<Rightarrow> Frame \<Rightarrow> Frame" where
  "Frame_setChannelLayout l f = upd_frame (\<lambda>a. a\<lparr>fm_ch_layout := l\<rparr>) f"

definition Frame_channels :: "Frame \<Rightarrow> int" where
  "Frame_channels f = on_frame 0 (\<lambda>a. chl_nb_channels (fm_ch_layout a)) f"

text \<open>
  The plane index is compared with the number of planes only; a negative index reads in front
  of the array.
\<close>

definition Frame_data :: "int \<Rightarrow> Frame \<Rightarrow> byte list option outcome" where
  "Frame_data plane f =
     (case fr_frame f of
        None \<Rightarrow> Ret None
      | Some a \<Rightarrow>
          if plane < AV_NUM_DATA_POINTERS
          then (if 0 \<le> plane \<and> nat plane < length (fm_data a) then Ret (fm_data a ! nat plane) else UB)
          else Ret None)"

definition Frame_linesize :: "int \<Rightarrow> Frame \<Rightarrow> int outcome" where
  "Frame_linesize plane f =
     (case fr_frame f of
        None \<Rightarrow> Ret 0
      | Some a \<Rightarrow>
          if plane < AV_NUM_DATA_POINTERS
          then (if 0 \<le> plane \<and> nat plane < length (fm_linesize a) then Ret (fm_linesize a ! nat plane) else UB)
          else Ret 0)"

subsection \<open>Side data, metadata and buffer sizes\<close>

definition Frame_getSideData :: "frame_queries \<Rightarrow> int \<Rightarrow> Frame \<Rightarrow> byte list option" where
  "Frame_getSideData qs type f = on_frame None (\<lambda>a. av_frame_get_side_data qs a type) f"

definition Frame_newSideData :: "frame_queries \<Rightarrow> int \<Rightarrow> int \<Rightarrow> Frame \<Rightarrow> byte list option \<times> Frame" where
  "Frame_newSideData qs type sz f =
     (case fr_frame f of
        None \<Rightarrow> (None, f)
      | Some a \<Rightarrow> (case av_frame_new_side_data qs a type sz of (d, a1) \<Rightarrow> (d, f\<lparr>fr_frame := Some a1\<rparr>)))"

definition Frame_metadata :: "Frame \<Rightarrow> (string \<times> string) list option" where
  "Frame_metadata f = on_frame None fm_metadata f"

definition Frame_getMetadata :: "frame_queries \<Rightarrow> string \<Rightarrow> Frame \<Rightarrow> string option" where
  "Frame_getMetadata qs key f =
     on_frame None (\<lambda>a. case fm_metadata a of None \<Rightarrow> None | Some d \<Rightarrow> av_dict_get qs d key) f"

definition Frame_setMetadata :: "frame_queries \<Rightarrow> string \<Rightarrow> string \<Rightarrow> Frame \<Rightarrow> Frame" where
  "Frame_setMetadata qs key val f = upd_frame (\<lambda>a. a\<lparr>fm_metadata := av_dict_set qs (fm_metadata a) key val\<rparr>) f"

definition Frame_getBufferSize :: "frame_queries \<Rightarrow> Frame \<Rightarrow> int" where
  "Frame_getBufferSize qs f =
     on_frame 0 (\<lambda>_. av_image_get_buffer_size qs (Frame_pixelFormat f) (Frame_width f) (Frame_height f) 1) f"

definition Frame_getAudioBufferSize :: "frame_queries \<Rightarrow> Frame \<Rightarrow> int" where
  "Frame_getAudioBufferSize qs f =
     on_frame 0 (\<lambda>_. av_samples_get_buffer_size qs (Frame_channels f) (Frame_nbSamples f) (Frame_sampleFormat f) 1) f"

lemmas frame_property_defs [fr_defs] =
  Frame_width_def Frame_setWidth_def Frame_height_def Frame_setHeight_def Frame_pixelFormat_def
  Frame_setPixelFormat_def Frame_avPts_def Frame_setAvPts_def Frame_pktDts_def
  Frame_setPktDts_def Frame_timeBase_def Frame_setTimeBase_def Frame_sampleAspectRatio_def
  Frame_setSampleAspectRatio_def Frame_quality_def Frame_setQuality_def Frame_repeatPict_def
  Frame_setRepeatPict_def Frame_pictType_def Frame_setPictType_def Frame_colorspace_def
  Frame_setColorspace_def Frame_colorRange_def Frame_setColorRange_def Frame_chromaLocation_def
  Frame_setChromaLocation_def Frame_bestEffortTimestamp_def Frame_setBestEffortTimestamp_def
  Frame_sampleRate_def Frame_setSampleRate_def Frame_sampleFormat_def Frame_setSampleFormat_def
  Frame_interlacedFrame_def Frame_setInterlacedFrame_def Frame_topFieldFirst_def
  Frame_setTopFieldFirst_def Frame_keyFrame_def Frame_setKeyFrame_def Frame_nbSamples_def
  Frame_setNbSamples_def Frame_channelLayout_def Frame_setChannelLayout_def Frame_channels_def
  on_frame_def upd_frame_def

lemmas frame_field_defs [fr_defs] =
  Frame_get_def Frame_isValid_def Frame_serial_def Frame_setSerial_def Frame_durationByFps_def
  Frame_setDurationByFps_def Frame_isInHardware_def Frame_setSecPts_def Frame_secPts_def
  Frame_mediaType_def Frame_setMediaType_def Frame_userSEIDataList_def Frame_setUserSEIDataList_def
  Frame_release_def Frame_unref_def Frame_ensureAllocated_def

subsection \<open>Lemmas\<close>

lemma Frame_move_fst [simp]: "fst (Frame_move f) = f"
  by (simp add: Frame_move_def)

lemma Frame_move_snd [simp]: "snd (Frame_move f) = Frame_moved_from f"
  by (simp add: Frame_move_def)

lemma Frame_move_assign_fst [simp]: "fst (Frame_move_assign g f) = f"
  by (cases f) (simp add: Frame_move_assign_def Frame_release_def)

lemma Frame_assign_eq_copy: "Frame_assign api g f = Frame_copy api f"
  by (simp add: Frame_assign_def Frame_copy_def Frame_release_def)

lemma Frame_moved_from_invalid [simp]: "\<not> Frame_isValid (Frame_moved_from f)"
  by (simp add: Frame_moved_from_def Frame_isValid_def)

text \<open>The three flag masks are the single bits 1, 3 and 4.\<close>

lemma frame_flag_exp:
  "AV_FRAME_FLAG_KEY = 2 ^ 1" "AV_FRAME_FLAG_INTERLACED = 2 ^ 3"
  "AV_FRAME_FLAG_TOP_FIELD_FIRST = 2 ^ 4"
  by (simp_all add: AV_FRAME_FLAG_KEY_def AV_FRAME_FLAG_INTERLACED_def
      AV_FRAME_FLAG_TOP_FIELD_FIRST_def)

lemma frame_flag_test:
  "(w AND AV_FRAME_FLAG_KEY \<noteq> 0) = bit w 1"
  "(w AND AV_FRAME_FLAG_INTERLACED \<noteq> 0) = bit w 3"
  "(w AND AV_FRAME_FLAG_TOP_FIELD_FIRST \<noteq> 0) = bit w 4"
  unfolding frame_flag_exp and_exp_eq_0_iff_not_bit by (rule not_not)+

lemma frame_flag_bits:
  "bit AV_FRAME_FLAG_KEY n \<longleftrightarrow> n = 1"
  "bit AV_FRAME_FLAG_INTERLACED n \<longleftrightarrow> n = 3"
  "bit AV_FRAME_FLAG_TOP_FIELD_FIRST n \<longleftrightarrow> n = 4"
  unfolding frame_flag_exp by (auto simp only: bit_exp_iff possible_bit_word len_num1 len_bit0)

subsection \<open>Properties\<close>

text \<open>
  The key-frame, interlaced and top-field-first flags share one word and do not disturb
  each other: setting one of them on a frame with an \<open>AVFrame\<close> makes its getter return it
  as 0 or 1 and leaves what the other two getters return.
\<close>

theorem Frame_flags_independent:
  assumes "Frame_isValid f"
  shows "Frame_keyFrame (Frame_setKeyFrame v f) = (if v \<noteq> 0 then 1 else 0)
       \<and> Frame_interlacedFrame (Frame_setKeyFrame v f) = Frame_interlacedFrame f
       \<and> Frame_topFieldFirst (Frame_setKeyFrame v f) = Frame_topFieldFirst f
       \<and> Frame_interlacedFrame (Frame_setInterlacedFrame v f) = (if v \<noteq> 0 then 1 else 0)
       \<and> Frame_keyFrame (Frame_setInterlacedFrame v f) = Frame_keyFrame f
       \<and> Frame_topFieldFirst (Frame_setInterlacedFrame v f) = Frame_topFieldFirst f
       \<and> Frame_topFieldFirst (Frame_setTopFieldFirst v f) = (if v \<noteq> 0 then 1 else 0)
       \<and> Frame_keyFrame (Frame_setTopFieldFirst v f) = Frame_keyFrame f
       \<and> Frame_interlacedFrame (Frame_setTopFieldFirst v f) = Frame_interlacedFrame f"
proof -
  obtain a where "fr_frame f = Some a"
    using assms by (auto simp: Frame_isValid_def)
  then show ?thesis
    by (simp add: fr_defs frame_flag_test frame_flag_bits bit_simps)
qed

definition blank_av_frame :: av_frame where
  "blank_av_frame = \<lparr>fm_data = replicate 8 None, fm_linesize = replicate 8 0, fm_width = 0,
     fm_height = 0, fm_format = -1, fm_pts = AV_NOPTS_VALUE, fm_pkt_dts = AV_NOPTS_VALUE,
     fm_duration = 0, fm_time_base = (0, 1), fm_sample_aspect_ratio = (0, 1), fm_quality = 0,
     fm_repeat_pict = 0, fm_flags = 0, fm_pict_type = 0, fm_colorspace = 2, fm_color_range = 0,
     fm_chroma_location = 0, fm_best_effort_timestamp = AV_NOPTS_VALUE, fm_sample_rate = 0,
     fm_nb_samples = 0, fm_ch_layout = \<lparr>chl_nb_channels = 0, chl_mask = 0\<rparr>,
     fm_hw_frames_ctx = False, fm_side_data = [], fm_metadata = None\<rparr>"

definition sample_frame :: "u32 \<Rightarrow> Frame" where
  "sample_frame n = Frame_new\<lparr>fr_frame := Some blank_av_frame, fr_serial := n\<rparr>"

theorem Frame_flags_independent_witness:
  "Frame_isValid (Frame_setInterlacedFrame 1 (sample_frame 0))
   \<and> Frame_keyFrame (Frame_setKeyFrame 5 (Frame_setInterlacedFrame 1 (sample_frame 0))) = 1"
proof -
  have v: "Frame_isValid (Frame_setInterlacedFrame 1 (sample_frame 0))"
    by (simp add: fr_defs sample_frame_def)
  show ?thesis using v Frame_flags_independent [OF v, of 5] by simp
qed

end
