(* ===== verification/EventDispatchers.thy ===== *)
theory EventDispatchers
  imports Prelude
begin

text \<open>
  Event types (\<open>src/src/include/decodersdk/common_define.h\<close>,
  \<open>src/src/api/common_define.cpp\<close>) and class \<open>EventDispatcher\<close>
  (\<open>src/src/event_system/event_dispatcher.h\<close>, \<open>event_dispatcher.cpp\<close>) over the vendored
  eventpp library: a list of nodes per event type, called in order, and a queue of events for
  the other threads.

  A callback is an identifier; \<open>throws\<close> says which callback throws on which event, and the
  calls made are returned as a list.  eventpp requires that a handle passed to \<open>remove\<close> belong
  to that list; a live handle of another list is \<open>UB\<close> here.  A thread is a number.
\<close>

datatype EventType =
    EV_kStreamOpened | EV_kStreamClosed | EV_kStreamOpening | EV_kStreamOpenFailed
    | EV_kStreamClose | EV_kStreamReadData | EV_kStreamReadError | EV_kStreamReadRecovery
    | EV_kStreamEnded | EV_kStreamLooped | EV_kDecodeStarted | EV_kDecodeStopped
    | EV_kDecodePaused | EV_kCreateDecoderSuccess | EV_kCreateDecoderFailed | EV_kDestoryDecoder
    | EV_kDecodeFirstFrame | EV_kDecodeError | EV_kDecodeRecovery | EV_kSeekStarted
    | EV_kSeekSuccess | EV_kSeekFailed | EV_kRecordingStarted | EV_kRecordingStopped
    | EV_kRecordingError

fun event_code :: "EventType \<Rightarrow> u32" where
  "event_code EV_kStreamOpened = 1"
| "event_code EV_kStreamClosed = 2"
| "event_code EV_kStreamOpening = 3"
| "event_code EV_kStreamOpenFailed = 4"
| "event_code EV_kStreamClose = 5"
| "event_code EV_kStreamReadData = 6"
| "event_code EV_kStreamReadError = 7"
| "event_code EV_kStreamReadRecovery = 8"
| "event_code EV_kStreamEnded = 9"
| "event_code EV_kStreamLooped = 10"
| "event_code EV_kDecodeStarted = 20"
| "event_code EV_kDecodeStopped = 21"
| "event_code EV_kDecodePaused = 22"
| "event_code EV_kCreateDecoderSuccess = 23"
| "event_code EV_kCreateDecoderFailed = 24"
| "event_code EV_kDestoryDecoder = 25"
| "event_code EV_kDecodeFirstFrame = 26"
| "event_code EV_kDecodeError = 27"
| "event_code EV_kDecodeRecovery = 28"
| "event_code EV_kSeekStarted = 40"
| "event_code EV_kSeekSuccess = 41"
| "event_code EV_kSeekFailed = 42"
| "event_code EV_kRecordingStarted = 60"
| "event_code EV_kRecordingStopped = 61"
| "event_code EV_kRecordingError = 62"

definition allEventTypes :: "EventType list" where
  "allEventTypes =
    [EV_kStreamOpened, EV_kStreamClosed, EV_kStreamOpening, EV_kStreamOpenFailed
     , EV_kStreamClose, EV_kStreamReadData, EV_kStreamReadError, EV_kStreamReadRecovery
     , EV_kStreamEnded, EV_kStreamLooped, EV_kDecodeStarted, EV_kDecodeStopped, EV_kDecodePaused
     , EV_kCreateDecoderSuccess, EV_kCreateDecoderFailed, EV_kDestoryDecoder
     , EV_kDecodeFirstFrame, EV_kDecodeError, EV_kDecodeRecovery, EV_kSeekStarted
     , EV_kSeekSuccess, EV_kSeekFailed, EV_kRecordingStarted, EV_kRecordingStopped
     , EV_kRecordingError]"

fun getEventTypeName :: "EventType \<Rightarrow> string" where
  "getEventTypeName EV_kStreamOpened = ''kStreamOpened''"
| "getEventTypeName EV_kStreamClosed = ''kStreamClosed''"
| "getEventTypeName EV_kStreamOpening = ''kStreamOpening''"
| "getEventTypeName EV_kStreamOpenFailed = ''kStreamOpenFailed''"
| "getEventTypeName EV_kStreamClose = ''kStreamClose''"
| "getEventTypeName EV_kStreamReadData = ''kStreamReadData''"
| "getEventTypeName EV_kStreamReadError = ''kStreamReadError''"
| "getEventTypeName EV_kStreamReadRecovery = ''kStreamReadRecovery''"
| "getEventTypeName EV_kStreamEnded = ''kStreamEnded''"
| "getEventTypeName EV_kStreamLooped = ''kStreamLooped''"
| "getEventTypeName EV_kDecodeStarted = ''kDecodeStarted''"
| "getEventTypeName EV_kDecodeStopped = ''kDecodeStopped''"
| "getEventTypeName EV_kDecodePaused = ''kDecodePaused''"
| "getEventTypeName EV_kCreateDecoderSuccess = ''kCreateDecoderSuccess''"
| "getEventTypeName EV_kCreateDecoderFailed = ''kCreateDecoderFailed''"
| "getEventTypeName EV_kDestoryDecoder = ''kDestoryDecoder''"
| "getEventTypeName EV_kDecodeFirstFrame = ''kDecodeFirstFrame''"
| "getEventTypeName EV_kDecodeError = ''kDecodeError''"
| "getEventTypeName EV_kDecodeRecovery = ''kDecodeRecovery''"
| "getEventTypeName EV_kSeekStarted = ''kSeekStarted''"
| "getEventTypeName EV_kSeekSuccess = ''kSeekSuccess''"
| "getEventTypeName EV_kSeekFailed = ''kSeekFailed''"
| "getEventTypeName EV_kRecordingStarted = ''kRecordingStarted''"
| "getEventTypeName EV_kRecordingStopped = ''kRecordingStopped''"
| "getEventTypeName EV_kRecordingError = ''kRecordingError''"

datatype ConnectionType = CT_kAuto | CT_kDirect | CT_kQueued

record ('cb, 'a) EventDispatcher =
  ed_lists :: "EventType \<Rightarrow> (nat \<times> 'cb) list option"
  ed_nextNode :: nat
  ed_asyncQueue :: "(EventType \<times> 'a) list"
  ed_asyncProcessingActive :: bool
  ed_stopAsyncProcessing :: bool
  ed_mainThreadId :: nat
  ed_handleMap :: "u64 \<rightharpoonup> nat"
  ed_incredNum :: u64

subsection \<open>The eventpp lists\<close>

definition ed_nodes :: "('cb, 'a) EventDispatcher \<Rightarrow> EventType \<Rightarrow> (nat \<times> 'cb) list" where
  "ed_nodes d e = (case ed_lists d e of None \<Rightarrow> [] | Some ns \<Rightarrow> ns)"

definition appendListener ::
    "EventType \<Rightarrow> 'cb \<Rightarrow> ('cb, 'a) EventDispatcher \<Rightarrow> nat \<times> ('cb, 'a) EventDispatcher" where
  "appendListener e cb d =
     (ed_nextNode d,
      d\<lparr>ed_lists := (ed_lists d)(e := Some (ed_nodes d e @ [(ed_nextNode d, cb)])),
        ed_nextNode := Suc (ed_nextNode d)\<rparr>)"

definition removeListener ::
    "EventType \<Rightarrow> nat \<Rightarrow> ('cb, 'a) EventDispatcher \<Rightarrow> bool outcome \<times> ('cb, 'a) EventDispatcher" where
  "removeListener e node d =
     (case ed_lists d e of
        None \<Rightarrow> (Ret False, d)
      | Some ns \<Rightarrow>
          if node \<in> set (map fst ns)
          then (Ret True, d\<lparr>ed_lists := (ed_lists d)(e := Some (filter (\<lambda>n. fst n \<noteq> node) ns))\<rparr>)
          else if list_ex (\<lambda>e'. node \<in> set (map fst (ed_nodes d e'))) allEventTypes then (UB, d)
          else (Ret False, d))"

text \<open>
  A dispatch calls the callbacks in order and ends at the first one that throws: the calls made,
  and whether an exception leaves the dispatch.
\<close>

fun call_listeners :: "('cb \<Rightarrow> EventType \<Rightarrow> 'a \<Rightarrow> bool) \<Rightarrow> EventType \<Rightarrow> 'a \<Rightarrow> (nat \<times> 'cb) list
    \<Rightarrow> ('cb \<times> EventType \<times> 'a) list \<times> bool" where
  "call_listeners throws e args [] = ([], False)"
| "call_listeners throws e args ((n, cb) # ns) =
     (if throws cb e args then ([(cb, e, args)], True)
      else case call_listeners throws e args ns of (calls, ex) \<Rightarrow> ((cb, e, args) # calls, ex))"

definition ed_dispatch :: "('cb \<Rightarrow> EventType \<Rightarrow> 'a \<Rightarrow> bool) \<Rightarrow> EventType \<Rightarrow> 'a \<Rightarrow> ('cb, 'a) EventDispatcher
    \<Rightarrow> ('cb \<times> EventType \<times> 'a) list \<times> bool" where
  "ed_dispatch throws e args d = call_listeners throws e args (ed_nodes d e)"

text \<open>Dispatching the events taken from the queue, in order; an exception ends it.\<close>

fun dispatch_all :: "('cb \<Rightarrow> EventType \<Rightarrow> 'a \<Rightarrow> bool) \<Rightarrow> (EventType \<times> 'a) list \<Rightarrow> ('cb, 'a) EventDispatcher
    \<Rightarrow> ('cb \<times> EventType \<times> 'a) list \<times> bool" where
  "dispatch_all throws [] d = ([], False)"
| "dispatch_all throws ((e, args) # evs) d =
     (case ed_dispatch throws e args d of
        (calls, True) \<Rightarrow> (calls, True)
      | (calls, False) \<Rightarrow> (case dispatch_all throws evs d of (calls', ex) \<Rightarrow> (calls @ calls', ex)))"

subsection \<open>The dispatcher\<close>

definition EventDispatcher_new :: "nat \<Rightarrow> ('cb, 'a) EventDispatcher" where
  "EventDispatcher_new threadId =
     \<lparr>ed_lists = (\<lambda>_. None), ed_nextNode = 0, ed_asyncQueue = [], ed_asyncProcessingActive = False,
      ed_stopAsyncProcessing = False, ed_mainThreadId = threadId, ed_handleMap = Map.empty, ed_incredNum = 0\<rparr>"

definition EventDispatcher_addEventListener ::
    "EventType \<Rightarrow> 'cb \<Rightarrow> ('cb, 'a) EventDispatcher \<Rightarrow> u64 \<times> ('cb, 'a) EventDispatcher" where
  "EventDispatcher_addEventListener e callback d =
     (let (realHandle, d1) = appendListener e callback d;
          handle = ed_incredNum d1;
          d2 = d1\<lparr>ed_incredNum := ed_incredNum d1 + 1\<rparr>
      in (handle, case ed_handleMap d2 handle of
                    None \<Rightarrow> d2\<lparr>ed_handleMap := (ed_handleMap d2)(handle \<mapsto> realHandle)\<rparr>
                  | Some _ \<Rightarrow> d2))"

definition EventDispatcher_removeEventListener ::
    "EventType \<Rightarrow> u64 \<Rightarrow> ('cb, 'a) EventDispatcher \<Rightarrow> bool outcome \<times> ('cb, 'a) EventDispatcher" where
  "EventDispatcher_removeEventListener e handle d =
     (case ed_handleMap d handle of
        None \<Rightarrow> (Ret False, d)
      | Some realHandle \<Rightarrow> removeListener e realHandle (d\<lparr>ed_handleMap := (ed_handleMap d)(handle := None)\<rparr>))"

fun add_global :: "EventType list \<Rightarrow> 'cb \<Rightarrow> ('cb, 'a) EventDispatcher
    \<Rightarrow> (EventType \<times> u64) list \<times> ('cb, 'a) EventDispatcher" where
  "add_global [] callback d = ([], d)"
| "add_global (e # es) callback d =
     (let (h, d1) = EventDispatcher_addEventListener e callback d;
          (hs, d2) = add_global es callback d1
      in ((e, h) # hs, d2))"

definition EventDispatcher_addGlobalEventListener ::
    "'cb \<Rightarrow> ('cb, 'a) EventDispatcher \<Rightarrow> (EventType \<times> u64) list \<times> ('cb, 'a) EventDispatcher" where
  "EventDispatcher_addGlobalEventListener callback d = add_global allEventTypes callback d"

fun remove_global :: "(EventType \<times> u64) list \<Rightarrow> ('cb, 'a) EventDispatcher \<Rightarrow> unit outcome \<times> ('cb, 'a) EventDispatcher" where
  "remove_global [] d = (Ret (), d)"
| "remove_global ((e, h) # hs) d =
     (case EventDispatcher_removeEventListener e h d of
        (UB, d1) \<Rightarrow> (UB, d1)
      | (_, d1) \<Rightarrow> remove_global hs d1)"

definition EventDispatcher_removeGlobalEventListener ::
    "(EventType \<times> u64) list \<Rightarrow> ('cb, 'a) EventDispatcher \<Rightarrow> bool outcome \<times> ('cb, 'a) EventDispatcher" where
  "EventDispatcher_removeGlobalEventListener handle d =
     (if handle = [] then (Ret False, d)
      else case remove_global handle d of
             (Ret _, d1) \<Rightarrow> (Ret True, d1) | (Wait, d1) \<Rightarrow> (Wait, d1) | (UB, d1) \<Rightarrow> (UB, d1))"

definition EventDispatcher_isMainThread :: "nat \<Rightarrow> ('cb, 'a) EventDispatcher \<Rightarrow> bool" where
  "EventDispatcher_isMainThread this_thread d \<longleftrightarrow> this_thread = ed_mainThreadId d"

definition EventDispatcher_determineConnectionType ::
    "nat \<Rightarrow> ConnectionType \<Rightarrow> ('cb, 'a) EventDispatcher \<Rightarrow> ConnectionType" where
  "EventDispatcher_determineConnectionType this_thread requested d =
     (if requested = CT_kAuto
      then if EventDispatcher_isMainThread this_thread d then CT_kDirect else CT_kQueued
      else requested)"

text \<open>A \<open>std::exception\<close> of a listener is logged and ends here.\<close>

definition EventDispatcher_triggerEventSync ::
    "('cb \<Rightarrow> EventType \<Rightarrow> 'a \<Rightarrow> bool) \<Rightarrow> EventType \<Rightarrow> 'a \<Rightarrow> ('cb, 'a) EventDispatcher \<Rightarrow> ('cb \<times> EventType \<times> 'a) list" where
  "EventDispatcher_triggerEventSync throws e args d = fst (ed_dispatch throws e args d)"

definition EventDispatcher_triggerEventAsync ::
    "EventType \<Rightarrow> 'a \<Rightarrow> ('cb, 'a) EventDispatcher \<Rightarrow> ('cb, 'a) EventDispatcher" where
  "EventDispatcher_triggerEventAsync e args d = d\<lparr>ed_asyncQueue := ed_asyncQueue d @ [(e, args)]\<rparr>"

definition EventDispatcher_triggerEvent ::
    "('cb \<Rightarrow> EventType \<Rightarrow> 'a \<Rightarrow> bool) \<Rightarrow> nat \<Rightarrow> EventType \<Rightarrow> 'a \<Rightarrow> ConnectionType \<Rightarrow> ('cb, 'a) EventDispatcher
      \<Rightarrow> ('cb \<times> EventType \<times> 'a) list \<times> ('cb, 'a) EventDispatcher" where
  "EventDispatcher_triggerEvent throws this_thread e args connectType d =
     (case EventDispatcher_determineConnectionType this_thread connectType d of
        CT_kAuto \<Rightarrow> (EventDispatcher_triggerEventSync throws e args d, d)
      | CT_kDirect \<Rightarrow> (EventDispatcher_triggerEventSync throws e args d, d)
      | CT_kQueued \<Rightarrow> ([], EventDispatcher_triggerEventAsync e args d))"

text \<open>
  \<open>process\<close> of the queue: the queued events are moved out and dispatched.  The result is the
  return value (\<open>None\<close> when an exception leaves the call), the calls made and the dispatcher.
\<close>

definition EventDispatcher_processAsyncEvents ::
    "('cb \<Rightarrow> EventType \<Rightarrow> 'a \<Rightarrow> bool) \<Rightarrow> ('cb, 'a) EventDispatcher
      \<Rightarrow> bool option \<times> ('cb \<times> EventType \<times> 'a) list \<times> ('cb, 'a) EventDispatcher" where
  "EventDispatcher_processAsyncEvents throws d =
     (if ed_asyncQueue d = [] then (Some False, [], d)
      else case dispatch_all throws (ed_asyncQueue d) d of
             (calls, ex) \<Rightarrow> (if ex then None else Some True, calls, d\<lparr>ed_asyncQueue := []\<rparr>))"

definition EventDispatcher_startAsyncProcessing :: "('cb, 'a) EventDispatcher \<Rightarrow> ('cb, 'a) EventDispatcher" where
  "EventDispatcher_startAsyncProcessing d =
     (if ed_asyncProcessingActive d then d
      else d\<lparr>ed_stopAsyncProcessing := False, ed_asyncProcessingActive := True\<rparr>)"

definition EventDispatcher_stopAsyncProcessing :: "('cb, 'a) EventDispatcher \<Rightarrow> ('cb, 'a) EventDispatcher" where
  "EventDispatcher_stopAsyncProcessing d =
     (if \<not> ed_asyncProcessingActive d then d
      else d\<lparr>ed_stopAsyncProcessing := True, ed_asyncProcessingActive := False\<rparr>)"

definition EventDispatcher_isAsyncProcessingActive :: "('cb, 'a) EventDispatcher \<Rightarrow> bool" where
  "EventDispatcher_isAsyncProcessingActive d = ed_asyncProcessingActive d"

text \<open>
  One iteration of \<open>asyncProcessingLoop\<close> (\<open>None\<close>: the loop has ended); an exception is logged
  and the loop goes on.
\<close>

definition EventDispatcher_asyncProcessingLoop ::
    "('cb \<Rightarrow> EventType \<Rightarrow> 'a \<Rightarrow> bool) \<Rightarrow> ('cb, 'a) EventDispatcher
      \<Rightarrow> (('cb \<times> EventType \<times> 'a) list \<times> ('cb, 'a) EventDispatcher) option" where
  "EventDispatcher_asyncProcessingLoop throws d =
     (if ed_stopAsyncProcessing d then None
      else if ed_asyncQueue d = [] then Some ([], d)
      else case EventDispatcher_processAsyncEvents throws d of (_, calls, d1) \<Rightarrow> Some (calls, d1))"


subsection \<open>Lemmas\<close>

lemma allEventTypes_complete: "e \<in> set allEventTypes"
  by (cases e) (simp_all add: allEventTypes_def)

definition ed_wf :: "('cb, 'a) EventDispatcher \<Rightarrow> bool" where
  "ed_wf d \<longleftrightarrow> (\<forall>e. \<forall>n \<in> set (ed_nodes d e). fst n < ed_nextNode d)"

definition no_throw :: "('cb \<Rightarrow> EventType \<Rightarrow> 'a \<Rightarrow> bool) \<Rightarrow> ('cb, 'a) EventDispatcher \<Rightarrow> EventType \<times> 'a \<Rightarrow> bool" where
  "no_throw throws d ev \<longleftrightarrow> list_all (\<lambda>n. \<not> throws (snd n) (fst ev) (snd ev)) (ed_nodes d (fst ev))"

definition calls_of :: "('cb, 'a) EventDispatcher \<Rightarrow> EventType \<times> 'a \<Rightarrow> ('cb \<times> EventType \<times> 'a) list" where
  "calls_of d ev = map (\<lambda>n. (snd n, fst ev, snd ev)) (ed_nodes d (fst ev))"

lemma call_listeners_ok:
  "list_all (\<lambda>n. \<not> throws (snd n) e a) ns \<Longrightarrow>
     call_listeners throws e a ns = (map (\<lambda>n. (snd n, e, a)) ns, False)"
  by (induction ns) auto

lemma call_listeners_throw:
  "list_all (\<lambda>n. \<not> throws (snd n) e a) ns \<Longrightarrow> throws cb e a \<Longrightarrow>
     call_listeners throws e a (ns @ (k, cb) # ms) = (map (\<lambda>n. (snd n, e, a)) ns @ [(cb, e, a)], True)"
  by (induction ns) auto

lemma dispatch_all_append:
  "list_all (no_throw throws d) evs \<Longrightarrow>
     dispatch_all throws (evs @ later) d =
       (case dispatch_all throws later d of (calls, ex) \<Rightarrow> (concat (map (calls_of d) evs) @ calls, ex))"
proof (induction evs)
  case Nil
  then show ?case by (simp split: prod.splits)
next
  case (Cons ev evs)
  obtain e a where ev: "ev = (e, a)" by (cases ev)
  have "ed_dispatch throws e a d = (calls_of d ev, False)"
    using Cons.prems call_listeners_ok [of throws e a "ed_nodes d e"]
    by (simp add: ev no_throw_def ed_dispatch_def calls_of_def)
  with Cons ev show ?case by (simp split: prod.splits)
qed

lemma filter_last_fresh:
  "\<forall>n \<in> set ns. fst n < (k :: nat) \<Longrightarrow> filter (\<lambda>n. fst n \<noteq> k) (ns @ [(k, cb)]) = ns"
  by (induction ns) auto

lemma ed_nodes_upd: "ed_nodes (d\<lparr>ed_lists := (ed_lists d)(e := Some ns)\<rparr>) e' = (if e' = e then ns else ed_nodes d e')"
  by (simp add: ed_nodes_def)

subsection \<open>Properties\<close>

text \<open>
  registering and removing a listener are inverse.  \<open>addEventListener\<close> adds the callback
  at the end of the list of its event and changes no other list; \<open>removeEventListener\<close> with
  the same event and the handle it returned returns true and gives back the former lists and the
  former handles, and a second removal with that handle returns false.
\<close>

theorem EventDispatcher_add_remove:
  assumes "ed_wf d" "ed_handleMap d (ed_incredNum d) = None"
    and "EventDispatcher_addEventListener e cb d = (h, d1)"
    and "EventDispatcher_removeEventListener e h d1 = (r, d2)"
  shows "map snd (ed_nodes d1 e) = map snd (ed_nodes d e) @ [cb]
       \<and> (e' = e \<or> ed_nodes d1 e' = ed_nodes d e')
       \<and> r = Ret True \<and> ed_nodes d2 = ed_nodes d \<and> ed_handleMap d2 = ed_handleMap d
       \<and> EventDispatcher_removeEventListener e h d2 = (Ret False, d2)"
proof -
  let ?ns = "ed_nodes d e @ [(ed_nextNode d, cb)]"
  let ?lists = "(ed_lists d)(e := Some ?ns)"
  have h: "h = ed_incredNum d"
    and d1: "d1 = d\<lparr>ed_lists := ?lists, ed_nextNode := Suc (ed_nextNode d),
               ed_incredNum := ed_incredNum d + 1, ed_handleMap := (ed_handleMap d)(h \<mapsto> ed_nextNode d)\<rparr>"
    using assms(2,3) by (auto simp: EventDispatcher_addEventListener_def appendListener_def Let_def)
  have restored: "filter (\<lambda>n. fst n \<noteq> ed_nextNode d) ?ns = ed_nodes d e"
    using assms(1) by (intro filter_last_fresh) (simp add: ed_wf_def)
  have handles: "(ed_handleMap d)(h := None) = ed_handleMap d" using assms(2) h by (simp add: fun_upd_idem)
  have d2: "r = Ret True" "d2 = d1\<lparr>ed_handleMap := ed_handleMap d,
      ed_lists := (ed_lists d)(e := Some (ed_nodes d e))\<rparr>"
    using assms(4) restored handles
    by (auto simp: EventDispatcher_removeEventListener_def removeListener_def d1)
  have "ed_nodes d2 = ed_nodes d" by (auto simp: d2(2) d1 ed_nodes_def fun_eq_iff)
  moreover have "EventDispatcher_removeEventListener e h d2 = (Ret False, d2)"
    using assms(2) h by (simp add: EventDispatcher_removeEventListener_def d2(2))
  ultimately show ?thesis using d2 by (simp add: d1 ed_nodes_def)
qed

theorem EventDispatcher_add_remove_witness:
  "let (h, d1) = EventDispatcher_addEventListener EV_kSeekStarted (7 :: nat) (EventDispatcher_new 0 :: (nat, int) EventDispatcher);
       (r, d2) = EventDispatcher_removeEventListener EV_kSeekStarted h d1
   in map snd (ed_nodes d1 EV_kSeekStarted) = [7] \<and> r = Ret True"
proof -
  let ?d = "EventDispatcher_new 0 :: (nat, int) EventDispatcher"
  obtain h d1 where a: "EventDispatcher_addEventListener EV_kSeekStarted (7 :: nat) ?d = (h, d1)" by fastforce
  obtain r d2 where b: "EventDispatcher_removeEventListener EV_kSeekStarted h d1 = (r, d2)" by fastforce
  have w: "ed_wf ?d" "ed_handleMap ?d (ed_incredNum ?d) = None" "ed_nodes ?d EV_kSeekStarted = []"
    by (simp_all add: ed_wf_def ed_nodes_def EventDispatcher_new_def)
  from EventDispatcher_add_remove [OF w(1,2) a b] w(3) show ?thesis by (simp add: a b)
qed

text \<open>
  a removal with the wrong event type makes a listener permanent: when no listener was ever
  registered for the event given, \<open>removeEventListener\<close> returns false but forgets the handle,
  so the listener stays registered and no later removal finds it.
\<close>

theorem EventDispatcher_remove_wrong_type:
  assumes "ed_handleMap d h = Some node" "ed_lists d wrong = None"
    and "EventDispatcher_removeEventListener wrong h d = (r, d')"
  shows "r = Ret False \<and> ed_lists d' = ed_lists d
       \<and> EventDispatcher_removeEventListener e h d' = (Ret False, d')"
  using assms by (auto simp: EventDispatcher_removeEventListener_def removeListener_def)

theorem EventDispatcher_remove_wrong_type_witness:
  "let (h, d1) = EventDispatcher_addEventListener EV_kSeekStarted (7 :: nat) (EventDispatcher_new 0 :: (nat, int) EventDispatcher);
       (r, d2) = EventDispatcher_removeEventListener EV_kSeekFailed h d1
   in r = Ret False \<and> EventDispatcher_removeEventListener EV_kSeekStarted h d2 = (Ret False, d2)"
proof -
  let ?d = "EventDispatcher_new 0 :: (nat, int) EventDispatcher"
  obtain h d1 where a: "EventDispatcher_addEventListener EV_kSeekStarted (7 :: nat) ?d = (h, d1)" by fastforce
  obtain r d2 where b: "EventDispatcher_removeEventListener EV_kSeekFailed h d1 = (r, d2)" by fastforce
  have "ed_handleMap d1 h = Some 0" "ed_lists d1 EV_kSeekFailed = None"
    using a by (auto simp: EventDispatcher_addEventListener_def appendListener_def EventDispatcher_new_def Let_def)
  from EventDispatcher_remove_wrong_type [OF this b] show ?thesis by (simp add: a b)
qed


definition sample_dispatcher :: "(nat, int) EventDispatcher" where
  "sample_dispatcher = (EventDispatcher_new 0)\<lparr>
     ed_lists := [EV_kSeekStarted \<mapsto> [(0, 7), (2, 8)], EV_kSeekFailed \<mapsto> [(1, 9)]],
     ed_asyncQueue := [(EV_kSeekStarted, 1), (EV_kSeekFailed, 2), (EV_kSeekStarted, 3)]\<rparr>"


text \<open>
  an exception loses events.  When a listener of a queued event throws, the calls before it
  have been made, the call of \<open>process\<close> ends with the exception, and every event queued behind
  is dropped without being delivered: the queue is empty.
\<close>

theorem EventDispatcher_exception_loses_events:
  assumes "ed_asyncQueue d = before @ (e, a) # behind" "list_all (no_throw throws d) before"
    and "ed_nodes d e = ns @ (k, cb) # ms" "list_all (\<lambda>n. \<not> throws (snd n) e a) ns" "throws cb e a"
  shows "EventDispatcher_processAsyncEvents throws d
           = (None, concat (map (calls_of d) before) @ map (\<lambda>n. (snd n, e, a)) ns @ [(cb, e, a)],
              d\<lparr>ed_asyncQueue := []\<rparr>)"
proof -
  have "dispatch_all throws ((e, a) # behind) d = (map (\<lambda>n. (snd n, e, a)) ns @ [(cb, e, a)], True)"
    using call_listeners_throw [of throws e a ns cb k ms] assms(3-5) by (simp add: ed_dispatch_def)
  with dispatch_all_append [OF assms(2), of "(e, a) # behind"] show ?thesis
    by (simp add: EventDispatcher_processAsyncEvents_def assms(1))
qed

theorem EventDispatcher_exception_loses_events_witness:
  "EventDispatcher_processAsyncEvents (\<lambda>cb e a. cb = 9) sample_dispatcher
     = (None, [(7, EV_kSeekStarted, 1), (8, EV_kSeekStarted, 1), (9, EV_kSeekFailed, 2)],
        sample_dispatcher\<lparr>ed_asyncQueue := []\<rparr>)"
  using EventDispatcher_exception_loses_events [of sample_dispatcher "[(EV_kSeekStarted, 1)]" EV_kSeekFailed 2
      "[(EV_kSeekStarted, 3)]" "\<lambda>cb e a. cb = 9" "[]" 1 9 "[]"]
  by (simp add: no_throw_def calls_of_def sample_dispatcher_def ed_nodes_def)

text \<open>
  \<open>allEventTypes\<close> lists every event type exactly once, and different event types have
  different names and different codes.
\<close>

theorem event_types_complete:
  "set allEventTypes = UNIV \<and> distinct allEventTypes
   \<and> inj getEventTypeName \<and> inj event_code"
proof (intro conjI)
  show "set allEventTypes = UNIV" using allEventTypes_complete by auto
  show "distinct allEventTypes" by (simp add: allEventTypes_def)
  have n: "distinct (map getEventTypeName allEventTypes)" "distinct (map event_code allEventTypes)"
    by (simp_all add: allEventTypes_def)
  have u: "set allEventTypes = UNIV" using allEventTypes_complete by auto
  show "inj getEventTypeName" "inj event_code" using n u by (simp_all add: distinct_map)
qed

end
