(* ===== verification/Recorders.thy ===== *)
theory Recorders
  imports PacketQueues MediaFormats Frames EventDispatchers
begin

text \<open>
  Class \<open>RealTimeStreamRecorder\<close> (\<open>src/src/recorder/real_time_stream_recorder.h\<close>,
  \<open>real_time_stream_recorder.cpp\<close>): the table of container formats, the checks before a
  recording, the mapping of streams, the adjustment of time stamps and the recording loop.

  The muxer is FFmpeg's.  What its calls return is an argument: \<open>mux_results\<close> for the calls
  that set up the output, \<open>mux_api\<close> for \<open>av_rescale_q\<close> and for the result of writing a
  packet.  \<open>mapping_alloc\<close> says whether \<open>av_malloc_array\<close> succeeds.  The time stamps are
  unbounded integers: their differences are assumed to fit in 64 bits.  The
  recording thread is the sequence of its loop iterations.
\<close>

datatype ContainerFormat = CF_MP4 | CF_AVI | CF_MKV | CF_MOV | CF_FLV | CF_TS | CF_WEBM | CF_OGV | CF_UNKNOWN

record ContainerFormatInfo =
  cf_format :: ContainerFormat
  cf_formatName :: string
  cf_extension :: string
  cf_description :: string
  cf_supportVideo :: bool
  cf_supportAudio :: bool
  cf_supportedVideoCodecs :: "string list"
  cf_supportedAudioCodecs :: "string list"

fun getFormatInfoMap :: "ContainerFormat \<Rightarrow> ContainerFormatInfo" where
  "getFormatInfoMap CF_MP4 = ContainerFormatInfo.make CF_MP4 ''mp4'' ''mp4'' ''MPEG-4 Part 14'' True True
     [''h264'', ''h265'', ''hevc'', ''mpeg4'', ''av1''] [''aac'', ''mp3'', ''ac3'', ''eac3'', ''opus'']"
| "getFormatInfoMap CF_AVI = ContainerFormatInfo.make CF_AVI ''avi'' ''avi'' ''Audio Video Interleave'' True True
     [''h264'', ''mpeg4'', ''mjpeg'', ''rawvideo''] [''mp3'', ''ac3'', ''pcm_s16le'', ''pcm_s24le'']"
| "getFormatInfoMap CF_MKV = ContainerFormatInfo.make CF_MKV ''matroska'' ''mkv'' ''Matroska'' True True
     [''h264'', ''h265'', ''hevc'', ''vp8'', ''vp9'', ''av1'', ''mpeg4'']
     [''aac'', ''mp3'', ''ac3'', ''eac3'', ''opus'', ''vorbis'', ''flac'', ''pcm_s16le'']"
| "getFormatInfoMap CF_MOV = ContainerFormatInfo.make CF_MOV ''mov'' ''mov'' ''QuickTime'' True True
     [''h264'', ''h265'', ''hevc'', ''mpeg4'', ''prores''] [''aac'', ''mp3'', ''ac3'', ''pcm_s16le'', ''pcm_s24le'']"
| "getFormatInfoMap CF_FLV = ContainerFormatInfo.make CF_FLV ''flv'' ''flv'' ''Flash Video'' True True
     [''h264'', ''flv1''] [''aac'', ''mp3'', ''pcm_s16le'']"
| "getFormatInfoMap CF_TS = ContainerFormatInfo.make CF_TS ''mpegts'' ''ts'' ''MPEG Transport Stream'' True True
     [''h264'', ''h265'', ''hevc'', ''mpeg2video''] [''aac'', ''mp3'', ''ac3'', ''eac3'']"
| "getFormatInfoMap CF_WEBM = ContainerFormatInfo.make CF_WEBM ''webm'' ''webm'' ''WebM'' True True
     [''vp8'', ''vp9'', ''av1''] [''vorbis'', ''opus'']"
| "getFormatInfoMap CF_OGV = ContainerFormatInfo.make CF_OGV ''ogg'' ''ogv'' ''Ogg Video'' True True
     [''theora'', ''vp8''] [''vorbis'', ''opus'', ''flac'']"
| "getFormatInfoMap CF_UNKNOWN = ContainerFormatInfo.make CF_UNKNOWN [] [] ''Unknown Format'' False False [] []"

definition containerFormats :: "ContainerFormat list" where
  "containerFormats = [CF_MP4, CF_AVI, CF_MKV, CF_MOV, CF_FLV, CF_TS, CF_WEBM, CF_OGV, CF_UNKNOWN]"

definition getSupportedFormats :: "ContainerFormatInfo list" where
  "getSupportedFormats = map getFormatInfoMap (filter (\<lambda>f. f \<noteq> CF_UNKNOWN) containerFormats)"

text \<open>
  \<open>std::filesystem::path::extension\<close>: the file name is what follows the last slash; its
  extension starts at its last dot, unless that dot is its first character or the name is
  \<open>..\<close>.
\<close>

definition path_filename :: "string \<Rightarrow> string" where
  "path_filename p = rev (takeWhile (\<lambda>c. c \<noteq> CHR ''/'') (rev p))"

definition path_extension :: "string \<Rightarrow> string" where
  "path_extension p =
     (let name = path_filename p;
          ext = rev (takeWhile (\<lambda>c. c \<noteq> CHR ''.'') (rev name))
      in if CHR ''.'' \<notin> set name \<or> name = ''..'' \<or> length name = length ext + 1 then []
         else CHR ''.'' # ext)"

text \<open>The table is searched for an entry with the extension; the extensions are distinct.\<close>

definition detectContainerFormat :: "string \<Rightarrow> ContainerFormat" where
  "detectContainerFormat filePath =
     (let ext = map c_tolower (path_extension filePath);
          ext = (if ext \<noteq> [] \<and> hd ext = CHR ''.'' then tl ext else ext)
      in case find (\<lambda>f. cf_extension (getFormatInfoMap f) = ext) containerFormats of
           Some f \<Rightarrow> f | None \<Rightarrow> CF_UNKNOWN)"

record in_stream =
  st_codec_type :: AVMediaType
  st_codec_name :: string
  st_time_base :: AVRational

definition is_av :: "in_stream \<Rightarrow> bool" where
  "is_av st \<longleftrightarrow> st_codec_type st = AVMEDIA_TYPE_VIDEO \<or> st_codec_type st = AVMEDIA_TYPE_AUDIO"

definition unsupportedCodecs :: "ContainerFormatInfo \<Rightarrow> in_stream list \<Rightarrow> string list" where
  "unsupportedCodecs info sts =
     concat (map (\<lambda>st.
       if st_codec_type st = AVMEDIA_TYPE_VIDEO
       then (if st_codec_name st \<in> set (cf_supportedVideoCodecs info) then [] else [''Video: '' @ st_codec_name st])
       else if st_codec_type st = AVMEDIA_TYPE_AUDIO
       then (if st_codec_name st \<in> set (cf_supportedAudioCodecs info) then [] else [''Audio: '' @ st_codec_name st])
       else []) sts)"

fun join :: "string \<Rightarrow> string list \<Rightarrow> string" where
  "join sep [] = []"
| "join sep [x] = x"
| "join sep (x # xs) = x @ sep @ join sep xs"

text \<open>The error message, or success.\<close>

definition validateFormatCompatibility ::
    "ContainerFormat \<Rightarrow> in_stream list option \<Rightarrow> string + unit" where
  "validateFormatCompatibility format inputFormatCtx =
     (if format = CF_UNKNOWN then Inl ''Unknown container format''
      else case inputFormatCtx of
             None \<Rightarrow> Inl ''Input format context is null''
           | Some sts \<Rightarrow>
               let info = getFormatInfoMap format;
                   hasVideo = list_ex (\<lambda>st. st_codec_type st = AVMEDIA_TYPE_VIDEO) sts;
                   hasAudio = list_ex (\<lambda>st. st_codec_type st = AVMEDIA_TYPE_AUDIO) sts;
                   bad = unsupportedCodecs info sts
               in if hasVideo \<and> \<not> cf_supportVideo info
                  then Inl (cf_description info @ '' format does not support video streams'')
                  else if hasAudio \<and> \<not> cf_supportAudio info
                  then Inl (cf_description info @ '' format does not support audio streams'')
                  else if bad \<noteq> []
                  then Inl (''Unsupported codecs for '' @ cf_description info @ '' format: '' @ join '', '' bad)
                  else Inr ())"

subsection \<open>The recorder\<close>

text \<open>An output context: the time bases of its streams (set when the header is written).\<close>

record out_ctx =
  oc_streams :: "AVRational list"
  oc_header :: bool

record Recorder =
  rc_isRecording :: bool
  rc_shouldStop :: bool
  rc_output :: "out_ctx option"
  rc_input :: "in_stream list option"
  rc_outputPath :: string
  rc_video :: PacketQueue
  rc_audio :: PacketQueue
  rc_streamMapping :: "int list option"
  rc_streamCount :: int
  rc_firstPts :: "AVMediaType \<rightharpoonup> int"
  rc_firstDts :: "AVMediaType \<rightharpoonup> int"
  rc_currentFormat :: ContainerFormat

record RecordingEventArgs =
  re_outputPath :: string
  re_format :: string
  re_description :: string
  re_errorCode :: int

record mux_results =
  mx_alloc_output :: bool
  mx_new_stream :: "nat \<Rightarrow> bool"
  mx_copy_params :: "nat \<Rightarrow> int"
  mx_nofile :: bool
  mx_avio_open :: int
  mx_write_header :: int
  mx_time_base :: "nat \<Rightarrow> AVRational"

record mux_api =
  mx_rescale :: "int \<Rightarrow> AVRational \<Rightarrow> AVRational \<Rightarrow> int"
  mx_write_frame :: "av_packet \<Rightarrow> int"

definition Recorder_new :: Recorder where
  "Recorder_new = \<lparr>rc_isRecording = False, rc_shouldStop = False, rc_output = None, rc_input = None,
     rc_outputPath = [], rc_video = PacketQueue_new 1000, rc_audio = PacketQueue_new 1000,
     rc_streamMapping = None, rc_streamCount = 0, rc_firstPts = Map.empty, rc_firstDts = Map.empty,
     rc_currentFormat = CF_UNKNOWN\<rparr>"

text \<open>
  The loop that creates one output stream per video or audio stream; \<open>n\<close> is the number of
  streams created so far.  It fails at the first call that fails.
\<close>

fun create_streams :: "mux_results \<Rightarrow> in_stream list \<Rightarrow> nat \<Rightarrow> nat \<times> bool" where
  "create_streams mx [] n = (n, True)"
| "create_streams mx (st # sts) n =
     (if \<not> is_av st then create_streams mx sts n
      else if \<not> mx_new_stream mx n then (n, False)
      else if mx_copy_params mx n < 0 then (Suc n, False)
      else create_streams mx sts (Suc n))"

definition Recorder_initOutputContext ::
    "mux_results \<Rightarrow> string \<Rightarrow> in_stream list \<Rightarrow> Recorder \<Rightarrow> bool \<times> Recorder" where
  "Recorder_initOutputContext mx outputPath sts r =
     (if \<not> mx_alloc_output mx then (False, r\<lparr>rc_output := None\<rparr>)
      else
        let (n, ok) = create_streams mx sts 0;
            ctx = \<lparr>oc_streams = map (mx_time_base mx) [0..<n], oc_header = False\<rparr>;
            r1 = r\<lparr>rc_output := Some ctx\<rparr>
        in if \<not> ok then (False, r1)
           else if \<not> mx_nofile mx \<and> mx_avio_open mx < 0 then (False, r1)
           else if mx_write_header mx < 0 then (False, r1)
           else (True, r1\<lparr>rc_output := Some (ctx\<lparr>oc_header := True\<rparr>), rc_outputPath := outputPath\<rparr>))"

fun stream_mapping :: "in_stream list \<Rightarrow> int \<Rightarrow> int list" where
  "stream_mapping [] outputStreamIndex = []"
| "stream_mapping (st # sts) outputStreamIndex =
     (if is_av st then outputStreamIndex # stream_mapping sts (outputStreamIndex + 1)
      else -1 # stream_mapping sts outputStreamIndex)"

definition Recorder_createStreamMapping :: "bool \<Rightarrow> in_stream list \<Rightarrow> Recorder \<Rightarrow> bool \<times> Recorder" where
  "Recorder_createStreamMapping mapping_alloc sts r =
     (let r1 = r\<lparr>rc_streamCount := int (length sts)\<rparr>
      in if \<not> mapping_alloc then (False, r1\<lparr>rc_streamMapping := None\<rparr>)
         else (True, r1\<lparr>rc_streamMapping := Some (stream_mapping sts 0)\<rparr>))"

definition Recorder_cleanup :: "Recorder \<Rightarrow> Recorder" where
  "Recorder_cleanup r =
     r\<lparr>rc_output := None, rc_input := None, rc_streamMapping := None,
       rc_video := PacketQueue_flush (rc_video r), rc_audio := PacketQueue_flush (rc_audio r),
       rc_firstPts := Map.empty, rc_firstDts := Map.empty, rc_outputPath := [],
       rc_streamCount := 0, rc_currentFormat := CF_UNKNOWN\<rparr>"

text \<open>The events are the ones handed to the dispatcher.\<close>

definition Recorder_startRecording ::
    "mux_results \<Rightarrow> bool \<Rightarrow> string \<Rightarrow> in_stream list option \<Rightarrow> Recorder
      \<Rightarrow> bool \<times> (EventType \<times> RecordingEventArgs) list \<times> Recorder" where
  "Recorder_startRecording mx mapping_alloc outputPath inputFormatCtx r =
     (if rc_isRecording r then (False, [], r)
      else case inputFormatCtx of
             None \<Rightarrow> (False, [], r)
           | Some sts \<Rightarrow>
               let r1 = r\<lparr>rc_currentFormat := detectContainerFormat outputPath\<rparr>
               in if rc_currentFormat r1 = CF_UNKNOWN then (False, [], r1)
                  else case validateFormatCompatibility (rc_currentFormat r1) inputFormatCtx of
                    Inl _ \<Rightarrow> (False, [], r1)
                  | Inr _ \<Rightarrow>
                      let (ok, r2) = Recorder_initOutputContext mx outputPath sts (r1\<lparr>rc_input := Some sts\<rparr>)
                      in if \<not> ok then (False, [], r2)
                         else let (ok, r3) = Recorder_createStreamMapping mapping_alloc sts r2
                              in if \<not> ok then (False, [], Recorder_cleanup r3)
                                 else (True,
                                   [(EV_kRecordingStarted,
                                     \<lparr>re_outputPath = rc_outputPath r3,
                                      re_format = cf_extension (getFormatInfoMap (rc_currentFormat r3)),
                                      re_description = ''Recording Started'', re_errorCode = 0\<rparr>)],
                                   r3\<lparr>rc_video := PacketQueue_start (rc_video r3),
                                      rc_audio := PacketQueue_start (rc_audio r3),
                                      rc_shouldStop := False, rc_isRecording := True\<rparr>))"

definition Recorder_stopRecording :: "Recorder \<Rightarrow> bool \<times> (EventType \<times> RecordingEventArgs) list \<times> Recorder" where
  "Recorder_stopRecording r =
     (if \<not> rc_isRecording r then (False, [], r)
      else
        let r1 = r\<lparr>rc_shouldStop := True, rc_video := PacketQueue_abort (rc_video r),
                   rc_audio := PacketQueue_abort (rc_audio r)\<rparr>;
            r2 = (Recorder_cleanup r1)\<lparr>rc_isRecording := False\<rparr>
        in (True,
            [(EV_kRecordingStopped,
              \<lparr>re_outputPath = rc_outputPath r2, re_format = ''mp4'',
               re_description = ''Recording Stopped'', re_errorCode = 0\<rparr>)], r2))"

definition Recorder_isRecording :: "Recorder \<Rightarrow> bool" where
  "Recorder_isRecording r = rc_isRecording r"

definition Recorder_getRecordingPath :: "Recorder \<Rightarrow> string" where
  "Recorder_getRecordingPath r = rc_outputPath r"

definition Recorder_writePacket :: "packet_api \<Rightarrow> Packet \<Rightarrow> AVMediaType \<Rightarrow> Recorder \<Rightarrow> bool outcome \<times> Recorder" where
  "Recorder_writePacket api packet mediaType r =
     (if \<not> rc_isRecording r then (Ret False, r)
      else if mediaType = AVMEDIA_TYPE_VIDEO
      then (case PacketQueue_push api packet 0 False (rc_video r) of (res, q) \<Rightarrow> (res, r\<lparr>rc_video := q\<rparr>))
      else if mediaType = AVMEDIA_TYPE_AUDIO
      then (case PacketQueue_push api packet 0 False (rc_audio r) of (res, q) \<Rightarrow> (res, r\<lparr>rc_audio := q\<rparr>))
      else (Ret False, r))"

text \<open>The adjustment of the time stamps of a packet (the part of \<open>processPacket\<close> from the
  relative time stamps on).\<close>

definition adjust_timestamps ::
    "mux_api \<Rightarrow> AVRational \<Rightarrow> AVRational \<Rightarrow> int \<Rightarrow> int \<Rightarrow> int \<Rightarrow> av_packet \<Rightarrow> av_packet" where
  "adjust_timestamps mx inTb outTb outStreamIndex firstPts firstDts pkt =
     (let pts = (if pkt_pts pkt \<noteq> AV_NOPTS_VALUE
                 then mx_rescale mx (max 0 (pkt_pts pkt - firstPts)) inTb outTb else pkt_pts pkt);
          dts = (if pkt_dts pkt \<noteq> AV_NOPTS_VALUE
                 then mx_rescale mx (max 0 (pkt_dts pkt - firstDts)) inTb outTb else pkt_dts pkt);
          dur = (if pkt_duration pkt > 0 then mx_rescale mx (pkt_duration pkt) inTb outTb else pkt_duration pkt);
          dts' = (if dts \<noteq> AV_NOPTS_VALUE \<and> pts \<noteq> AV_NOPTS_VALUE \<and> dts > pts then pts else dts)
      in pkt\<lparr>pkt_stream_index := outStreamIndex, pkt_pts := pts, pkt_dts := dts', pkt_duration := dur\<rparr>)"

text \<open>The first time stamps of a media type are kept.\<close>

definition keep_first :: "AVMediaType \<Rightarrow> av_packet \<Rightarrow> Recorder \<Rightarrow> Recorder" where
  "keep_first mediaType pkt r =
     (if rc_firstPts r mediaType \<noteq> None then r
      else
        let firstPts = (if pkt_pts pkt \<noteq> AV_NOPTS_VALUE then pkt_pts pkt else 0);
            firstDts = (if pkt_dts pkt \<noteq> AV_NOPTS_VALUE then pkt_dts pkt else firstPts)
        in r\<lparr>rc_firstPts := (rc_firstPts r)(mediaType \<mapsto> firstPts),
             rc_firstDts := (case rc_firstDts r mediaType of
                               None \<Rightarrow> (rc_firstDts r)(mediaType \<mapsto> firstDts) | Some _ \<Rightarrow> rc_firstDts r)\<rparr>)"

text \<open>
  \<open>write_out\<close> is the part of \<open>processPacket\<close> after the streams are known: the result, the
  packet handed to the muxer if one was, and the events.  \<open>operator[]\<close> of a map gives 0 for
  a missing key.
\<close>

definition write_out ::
    "packet_api \<Rightarrow> mux_api \<Rightarrow> AVMediaType \<Rightarrow> AVRational \<Rightarrow> AVRational \<Rightarrow> int \<Rightarrow> av_packet \<Rightarrow> Recorder
      \<Rightarrow> bool \<times> av_packet list \<times> (EventType \<times> RecordingEventArgs) list" where
  "write_out api mx mediaType inTb outTb oi pkt r =
     (let fp = (case rc_firstPts r mediaType of None \<Rightarrow> 0 | Some x \<Rightarrow> x);
          fd = (case rc_firstDts r mediaType of None \<Rightarrow> 0 | Some x \<Rightarrow> x);
          (ret, temp) = av_packet_ref api (av_packet_alloc api) pkt
      in if ret < 0 then (False, [], [])
         else
           let w = adjust_timestamps mx inTb outTb oi fp fd temp;
               code = mx_write_frame mx w
           in if code < 0
              then (False, [w], [(EV_kRecordingError, \<lparr>re_outputPath = rc_outputPath r, re_format = ''mp4'',
                      re_description = ''Recording Error'', re_errorCode = code\<rparr>)])
              else (True, [w], []))"

definition Recorder_processPacket ::
    "packet_api \<Rightarrow> mux_api \<Rightarrow> Packet \<Rightarrow> AVMediaType \<Rightarrow> bool \<Rightarrow> Recorder
      \<Rightarrow> bool outcome \<times> av_packet list \<times> (EventType \<times> RecordingEventArgs) list \<times> bool \<times> Recorder" where
  "Recorder_processPacket api mx packet mediaType hasKeyFrame r =
     (case (rc_output r, rc_input r, rc_streamMapping r, Packet_get packet) of
        (Some out, Some sts, Some mapping, Some pkt) \<Rightarrow>
          if pkt_stream_index pkt \<ge> rc_streamCount r then (Ret False, [], [], hasKeyFrame, r)
          else if mediaType = AVMEDIA_TYPE_VIDEO \<and> \<not> hasKeyFrame \<and> pkt_flags pkt AND AV_PKT_FLAG_KEY = 0
          then (Ret False, [], [], hasKeyFrame, r)
          else
            let hasKeyFrame' = (hasKeyFrame \<or> mediaType = AVMEDIA_TYPE_VIDEO);
                si = pkt_stream_index pkt
            in if si < 0 \<or> nat si \<ge> length mapping \<or> nat si \<ge> length sts then (UB, [], [], hasKeyFrame', r)
               else
                 let oi = mapping ! nat si
                 in if oi < 0 then (Ret False, [], [], hasKeyFrame', r)
                    else if nat oi \<ge> length (oc_streams out) then (UB, [], [], hasKeyFrame', r)
                    else
                      let r1 = keep_first mediaType pkt r;
                          (ok, ws, evs) = write_out api mx mediaType (st_time_base (sts ! nat si))
                                            (oc_streams out ! nat oi) oi pkt r1
                      in (Ret ok, ws, evs, hasKeyFrame', r1)
      | _ \<Rightarrow> (Ret False, [], [], hasKeyFrame, r))"

text \<open>
  One iteration of \<open>recordingLoop\<close>: a video packet, then, once a key frame has been seen, an
  audio packet.  Each \<open>pop\<close> waits at most a millisecond, so that an empty queue gives nothing.
  The written packets and the events are collected.
\<close>

record rec_loop =
  rl_rec :: Recorder
  rl_hasKeyFrame :: bool
  rl_written :: "av_packet list"
  rl_events :: "(EventType \<times> RecordingEventArgs) list"

definition rec_take :: "packet_api \<Rightarrow> mux_api \<Rightarrow> AVMediaType \<Rightarrow> Packet \<Rightarrow> rec_loop \<Rightarrow> unit outcome \<times> rec_loop" where
  "rec_take api mx mediaType p l =
     (case Recorder_processPacket api mx p mediaType (rl_hasKeyFrame l) (rl_rec l) of
        (res, ws, evs, k, r) \<Rightarrow>
          (case res of UB \<Rightarrow> UB | Wait \<Rightarrow> Wait | Ret _ \<Rightarrow> Ret (),
           l\<lparr>rl_rec := r, rl_hasKeyFrame := k, rl_written := rl_written l @ ws,
             rl_events := rl_events l @ evs\<rparr>))"

definition rec_video :: "packet_api \<Rightarrow> mux_api \<Rightarrow> rec_loop \<Rightarrow> unit outcome \<times> rec_loop" where
  "rec_video api mx l =
     (case PacketQueue_pop 1 True (rc_video (rl_rec l)) of
        (Ret (Some p), q) \<Rightarrow> rec_take api mx AVMEDIA_TYPE_VIDEO p (l\<lparr>rl_rec := (rl_rec l)\<lparr>rc_video := q\<rparr>\<rparr>)
      | (_, q) \<Rightarrow> (Ret (), l\<lparr>rl_rec := (rl_rec l)\<lparr>rc_video := q\<rparr>\<rparr>))"

definition rec_audio :: "packet_api \<Rightarrow> mux_api \<Rightarrow> rec_loop \<Rightarrow> unit outcome \<times> rec_loop" where
  "rec_audio api mx l =
     (if \<not> rl_hasKeyFrame l then (Ret (), l)
      else case PacketQueue_pop 1 True (rc_audio (rl_rec l)) of
        (Ret (Some p), q) \<Rightarrow> rec_take api mx AVMEDIA_TYPE_AUDIO p (l\<lparr>rl_rec := (rl_rec l)\<lparr>rc_audio := q\<rparr>\<rparr>)
      | (_, q) \<Rightarrow> (Ret (), l\<lparr>rl_rec := (rl_rec l)\<lparr>rc_audio := q\<rparr>\<rparr>))"

definition Recorder_recordingLoop :: "packet_api \<Rightarrow> mux_api \<Rightarrow> rec_loop \<Rightarrow> unit outcome \<times> rec_loop" where
  "Recorder_recordingLoop api mx l =
     (if rc_shouldStop (rl_rec l) then (Ret (), l)
      else case rec_video api mx l of
             (Ret _, l1) \<Rightarrow> rec_audio api mx l1
           | (res, l1) \<Rightarrow> (res, l1))"


fun rec_iterate :: "nat \<Rightarrow> packet_api \<Rightarrow> mux_api \<Rightarrow> rec_loop \<Rightarrow> unit outcome \<times> rec_loop" where
  "rec_iterate 0 api mx l = (Ret (), l)"
| "rec_iterate (Suc n) api mx l =
     (case Recorder_recordingLoop api mx l of
        (Ret _, l1) \<Rightarrow> rec_iterate n api mx l1
      | (res, l1) \<Rightarrow> (res, l1))"

subsection \<open>Streams and their mapping\<close>

definition rec_ok :: "Recorder \<Rightarrow> bool" where
  "rec_ok r \<longleftrightarrow> (\<exists>out sts. rc_output r = Some out \<and> rc_input r = Some sts
     \<and> rc_streamMapping r = Some (stream_mapping sts 0) \<and> rc_streamCount r = int (length sts)
     \<and> length (oc_streams out) = length (filter is_av sts))"

lemma create_streams_count: "create_streams mx sts n = (m, True) \<Longrightarrow> m = n + length (filter is_av sts)"
  by (induction sts arbitrary: n) (auto split: if_splits, fastforce)

lemma length_stream_mapping [simp]: "length (stream_mapping sts k) = length sts"
  by (induction sts arbitrary: k) auto

lemma stream_mapping_range:
  "i < length sts \<Longrightarrow> stream_mapping sts k ! i =
     (if is_av (sts ! i) then k + int (length (filter is_av (take i sts))) else -1)"
proof (induction sts arbitrary: k i)
  case Nil
  then show ?case by simp
next
  case (Cons st sts)
  then show ?case by (cases i) auto
qed

lemma filter_take_less:
  "i < length xs \<Longrightarrow> P (xs ! i) \<Longrightarrow> length (filter P (take i xs)) < length (filter P xs)"
proof -
  assume "i < length xs" "P (xs ! i)"
  then have "filter P xs = filter P (take i xs) @ xs ! i # filter P (drop (Suc i) xs)"
    by (metis (no_types) id_take_nth_drop filter.simps(2) filter_append)
  then show ?thesis by simp
qed

lemma mapping_in_range:
  assumes "i < length sts" "stream_mapping sts 0 ! i \<ge> 0"
  shows "nat (stream_mapping sts 0 ! i) < length (filter is_av sts)"
  using assms filter_take_less [of i sts is_av] by (auto simp: stream_mapping_range split: if_splits)

lemma startRecording_ok:
  assumes "Recorder_startRecording mx ma path (Some sts) r = (True, evs, r')"
  shows "rec_ok r'" "rc_isRecording r'" "\<not> rc_shouldStop r'" "rc_outputPath r' = path"
proof -
  obtain n where n: "create_streams mx sts 0 = (n, True)"
    using assms
    by (auto simp: Recorder_startRecording_def Recorder_initOutputContext_def Let_def
        split: if_splits sum.splits prod.splits)
  note c = create_streams_count [OF n]
  show "rec_ok r'" "rc_isRecording r'" "\<not> rc_shouldStop r'" "rc_outputPath r' = path"
    using assms n c
    by (auto simp: Recorder_startRecording_def Recorder_initOutputContext_def Let_def rec_ok_def
        Recorder_createStreamMapping_def split: if_splits sum.splits)
qed

subsection \<open>Processing packets\<close>

definition index_ok :: "Packet \<Rightarrow> bool" where
  "index_ok p \<longleftrightarrow> (case Packet_get p of None \<Rightarrow> True | Some pkt \<Rightarrow> 0 \<le> pkt_stream_index pkt)"

lemma keep_first_frame [simp]:
  "rc_output (keep_first m pkt r) = rc_output r" "rc_input (keep_first m pkt r) = rc_input r"
  "rc_streamMapping (keep_first m pkt r) = rc_streamMapping r"
  "rc_streamCount (keep_first m pkt r) = rc_streamCount r"
  "rc_video (keep_first m pkt r) = rc_video r" "rc_audio (keep_first m pkt r) = rc_audio r"
  "rc_shouldStop (keep_first m pkt r) = rc_shouldStop r"
  by (simp_all add: keep_first_def Let_def)

text \<open>
  A call either writes nothing and leaves the recorder as it is, or comes through to
  \<open>write_out\<close> with a stream of the output.
\<close>

definition is_key :: "Packet \<Rightarrow> bool" where
  "is_key p \<longleftrightarrow> (case Packet_get p of None \<Rightarrow> False | Some pkt \<Rightarrow> pkt_flags pkt AND AV_PKT_FLAG_KEY \<noteq> 0)"

lemma processPacket_cases:
  assumes "Recorder_processPacket api mx p m k r = (res, ws, evs, k', r')"
  shows "(k' \<longleftrightarrow> k \<or> m = AVMEDIA_TYPE_VIDEO \<and> is_key p \<and> k') \<and>
     (ws = [] \<and> r' = r
     \<or> (\<exists>pkt inTb outTb oi out. Packet_get p = Some pkt \<and> r' = keep_first m pkt r
          \<and> rc_output r = Some out \<and> 0 \<le> oi \<and> nat oi < length (oc_streams out)
          \<and> (m = AVMEDIA_TYPE_VIDEO \<longrightarrow> k')
          \<and> write_out api mx m inTb outTb oi pkt (keep_first m pkt r) = (res = Ret True, ws, evs)))"
proof -
  consider out sts mapping pkt where "rc_output r = Some out" "rc_input r = Some sts"
      "rc_streamMapping r = Some mapping" "Packet_get p = Some pkt"
    | "rc_output r = None \<or> rc_input r = None \<or> rc_streamMapping r = None \<or> Packet_get p = None"
    by (metis option.exhaust)
  then show ?thesis
  proof cases
    case 1
    note eq = assms [unfolded Recorder_processPacket_def 1 Let_def, simplified]
    show ?thesis
    proof (cases "ws = [] \<and> r' = r")
      case True
      then show ?thesis using eq 1(4) by (auto simp: is_key_def split: if_splits prod.splits)
    next
      case False
      let ?si = "nat (pkt_stream_index pkt)"
      let ?oi = "mapping ! ?si"
      have r': "r' = keep_first m pkt r" and oi: "0 \<le> ?oi" "nat ?oi < length (oc_streams out)"
        and w: "write_out api mx m (st_time_base (sts ! ?si)) (oc_streams out ! nat ?oi) ?oi pkt (keep_first m pkt r)
            = (res = Ret True, ws, evs)"
        and k: "k' \<longleftrightarrow> k \<or> m = AVMEDIA_TYPE_VIDEO" "m = AVMEDIA_TYPE_VIDEO \<Longrightarrow> \<not> k \<Longrightarrow> is_key p"
        using eq False 1(4) by (auto simp: is_key_def not_less not_le split: if_splits prod.splits)
      show ?thesis
      proof (intro conjI disjI2 exI)
        show "k' \<longleftrightarrow> k \<or> m = AVMEDIA_TYPE_VIDEO \<and> is_key p \<and> k'" using k by auto
        show "m = AVMEDIA_TYPE_VIDEO \<longrightarrow> k'" using k(1) by simp
      qed (rule 1(4) r' 1(1) oi w)+
    qed
  next
    case 2
    with assms show ?thesis
      by (auto simp: Recorder_processPacket_def split: option.splits)
  qed
qed


lemma processPacket_keeps:
  assumes "Recorder_processPacket api mx p m k r = (res, ws, evs, k', r')"
  shows "rec_ok r' = rec_ok r" "rc_video r' = rc_video r" "rc_audio r' = rc_audio r"
    "rc_shouldStop r' = rc_shouldStop r"
  using processPacket_cases [OF assms] by (auto simp: rec_ok_def)

lemma processPacket_no_ub:
  assumes "rec_ok r" "index_ok p"
  shows "fst (Recorder_processPacket api mx p m k r) \<noteq> UB"
proof -
  obtain out sts where o: "rc_output r = Some out" "rc_input r = Some sts"
    "rc_streamMapping r = Some (stream_mapping sts 0)" "rc_streamCount r = int (length sts)"
    "length (oc_streams out) = length (filter is_av sts)"
    using assms(1) by (auto simp: rec_ok_def)
  show ?thesis
  proof (cases "Packet_get p")
    case None
    then show ?thesis by (simp add: Recorder_processPacket_def o)
  next
    case (Some pkt)
    let ?si = "pkt_stream_index pkt"
    have si: "0 \<le> ?si" using assms(2) Some by (simp add: index_ok_def)
    show ?thesis
    proof (cases "?si < int (length sts)")
      case True
      then have i: "nat ?si < length sts" using si by linarith
      note m = mapping_in_range [OF i]
      show ?thesis
        using Some si i m True by (auto simp: Recorder_processPacket_def o Let_def split: prod.splits)
    next
      case False
      then show ?thesis using Some by (simp add: Recorder_processPacket_def o)
    qed
  qed
qed

subsection \<open>The recording loop\<close>

definition loop_ok :: "rec_loop \<Rightarrow> bool" where
  "loop_ok l \<longleftrightarrow> rec_ok (rl_rec l) \<and> list_all index_ok (pq_queue (rc_video (rl_rec l)))
     \<and> list_all index_ok (pq_queue (rc_audio (rl_rec l))) \<and> (\<not> rl_hasKeyFrame l \<longrightarrow> rl_written l = [])"

lemma pop_timed:
  "PacketQueue_pop 1 True q =
     (case pq_queue q of [] \<Rightarrow> (Ret None, q)
      | p # rest \<Rightarrow> (Ret (Some p), PacketQueue_updateStatisticsOnPop p (q\<lparr>pq_queue := rest\<rparr>)))"
  by (cases "pq_queue q") (auto simp: pq_defs)

lemma rec_take_ok:
  assumes "loop_ok l" "index_ok p" "m \<noteq> AVMEDIA_TYPE_VIDEO \<longrightarrow> rl_hasKeyFrame l"
    and "rec_take api mx m p l = (res, l')"
  shows "res = Ret () \<and> loop_ok l'" and "rl_hasKeyFrame l \<longrightarrow> rl_hasKeyFrame l'"
    and "rl_hasKeyFrame l' \<longrightarrow> rl_hasKeyFrame l \<or> m = AVMEDIA_TYPE_VIDEO \<and> is_key p"
    and "rc_video (rl_rec l') = rc_video (rl_rec l)" "rc_audio (rl_rec l') = rc_audio (rl_rec l)"
    and "rc_shouldStop (rl_rec l') = rc_shouldStop (rl_rec l)"
proof -
  obtain r0 ws evs k' r' where p: "Recorder_processPacket api mx p m (rl_hasKeyFrame l) (rl_rec l) = (r0, ws, evs, k', r')"
    by (cases "Recorder_processPacket api mx p m (rl_hasKeyFrame l) (rl_rec l)")
  have l': "l' = l\<lparr>rl_rec := r', rl_hasKeyFrame := k', rl_written := rl_written l @ ws,
      rl_events := rl_events l @ evs\<rparr>"
    and res: "res = (case r0 of UB \<Rightarrow> UB | Wait \<Rightarrow> Wait | Ret _ \<Rightarrow> Ret ())"
    using assms(4) by (auto simp: rec_take_def p)
  note keep = processPacket_keeps [OF p] and c = processPacket_cases [OF p]
  have "r0 \<noteq> UB" using processPacket_no_ub [of "rl_rec l" p api mx m "rl_hasKeyFrame l"] assms(1,2) p
    by (simp add: loop_ok_def)
  moreover have "r0 \<noteq> Wait" using p by (auto simp: Recorder_processPacket_def Let_def split: option.splits if_splits prod.splits)
  ultimately have "res = Ret ()" using res by (cases r0) auto
  moreover have "ws = []" if "\<not> k'" using c that assms(3) by auto
  ultimately show "res = Ret () \<and> loop_ok l'"
    using assms(1) keep c by (auto simp: loop_ok_def l')
  show "rl_hasKeyFrame l \<longrightarrow> rl_hasKeyFrame l'" "rl_hasKeyFrame l' \<longrightarrow> rl_hasKeyFrame l \<or> m = AVMEDIA_TYPE_VIDEO \<and> is_key p"
    using c by (auto simp: l')
  show "rc_video (rl_rec l') = rc_video (rl_rec l)" "rc_audio (rl_rec l') = rc_audio (rl_rec l)"
    "rc_shouldStop (rl_rec l') = rc_shouldStop (rl_rec l)"
    using keep by (simp_all add: l')
qed

lemma rec_video_ok:
  assumes "loop_ok l" "rec_video api mx l = (res, l')"
  shows "res = Ret () \<and> loop_ok l'" and "rl_hasKeyFrame l \<longrightarrow> rl_hasKeyFrame l'"
    and "rl_hasKeyFrame l' \<longrightarrow> rl_hasKeyFrame l \<or> list_ex is_key (pq_queue (rc_video (rl_rec l)))"
    and "pq_queue (rc_video (rl_rec l')) = tl (pq_queue (rc_video (rl_rec l)))"
    and "rc_audio (rl_rec l') = rc_audio (rl_rec l)"
    and "rc_shouldStop (rl_rec l') = rc_shouldStop (rl_rec l)"
proof -
  let ?q = "rc_video (rl_rec l)"
  have "(res = Ret () \<and> loop_ok l') \<and> (rl_hasKeyFrame l \<longrightarrow> rl_hasKeyFrame l')
    \<and> (rl_hasKeyFrame l' \<longrightarrow> rl_hasKeyFrame l \<or> list_ex is_key (pq_queue ?q))
    \<and> pq_queue (rc_video (rl_rec l')) = tl (pq_queue ?q)
    \<and> rc_audio (rl_rec l') = rc_audio (rl_rec l) \<and> rc_shouldStop (rl_rec l') = rc_shouldStop (rl_rec l)"
  proof (cases "pq_queue ?q")
    case Nil
    with assms show ?thesis by (auto simp: rec_video_def pop_timed)
  next
    case (Cons p rest)
    define l1 where "l1 = l\<lparr>rl_rec := (rl_rec l)\<lparr>rc_video := PacketQueue_updateStatisticsOnPop p (?q\<lparr>pq_queue := rest\<rparr>)\<rparr>\<rparr>"
    have t: "rec_take api mx AVMEDIA_TYPE_VIDEO p l1 = (res, l')"
      using assms(2) Cons by (simp add: rec_video_def pop_timed l1_def)
    have "loop_ok l1" "index_ok p" using assms(1) Cons by (auto simp: loop_ok_def l1_def rec_ok_def)
    from rec_take_ok [OF this _ t] Cons show ?thesis by (auto simp: l1_def)
  qed
  then show "res = Ret () \<and> loop_ok l'" "rl_hasKeyFrame l \<longrightarrow> rl_hasKeyFrame l'"
    "rl_hasKeyFrame l' \<longrightarrow> rl_hasKeyFrame l \<or> list_ex is_key (pq_queue (rc_video (rl_rec l)))"
    "pq_queue (rc_video (rl_rec l')) = tl (pq_queue (rc_video (rl_rec l)))"
    "rc_audio (rl_rec l') = rc_audio (rl_rec l)" "rc_shouldStop (rl_rec l') = rc_shouldStop (rl_rec l)"
    by blast+
qed

lemma rec_audio_ok:
  assumes "loop_ok l" "rec_audio api mx l = (res, l')"
  shows "(res = Ret () \<and> loop_ok l') \<and> rl_hasKeyFrame l' = rl_hasKeyFrame l
     \<and> rc_video (rl_rec l') = rc_video (rl_rec l) \<and> (rl_hasKeyFrame l \<or> l' = l)"
proof (cases "rl_hasKeyFrame l \<and> pq_queue (rc_audio (rl_rec l)) \<noteq> []")
  case True
  let ?q = "rc_audio (rl_rec l)"
  obtain p rest where q: "pq_queue ?q = p # rest" using True by (cases "pq_queue ?q") auto
  define l1 where "l1 = l\<lparr>rl_rec := (rl_rec l)\<lparr>rc_audio := PacketQueue_updateStatisticsOnPop p (?q\<lparr>pq_queue := rest\<rparr>)\<rparr>\<rparr>"
  have t: "rec_take api mx AVMEDIA_TYPE_AUDIO p l1 = (res, l')"
    using assms(2) q True by (simp add: rec_audio_def pop_timed l1_def)
  have "loop_ok l1" "index_ok p" using assms(1) q by (auto simp: loop_ok_def l1_def rec_ok_def)
  from rec_take_ok [OF this _ t] True show ?thesis by (auto simp: l1_def)
next
  case False
  with assms show ?thesis by (cases "rl_hasKeyFrame l") (auto simp: rec_audio_def pop_timed)
qed


lemma step_keeps_key:
  assumes "loop_ok l" "Recorder_recordingLoop api mx l = (res, l')" "rl_hasKeyFrame l"
  shows "rl_hasKeyFrame l'"
proof (cases "rc_shouldStop (rl_rec l)")
  case True
  with assms show ?thesis by (auto simp: Recorder_recordingLoop_def)
next
  case False
  obtain r1 l1 where v: "rec_video api mx l = (r1, l1)" by fastforce
  note a = rec_video_ok [OF assms(1) v]
  have "rec_audio api mx l1 = (res, l')"
    using assms(2) False v a(1) by (simp add: Recorder_recordingLoop_def)
  with rec_audio_ok [OF _ this] a assms(3) show ?thesis by auto
qed

lemma loop_step_ok:
  assumes "loop_ok l" "Recorder_recordingLoop api mx l = (res, l')"
  shows "res = Ret () \<and> loop_ok l'
     \<and> (rl_hasKeyFrame l' \<longrightarrow> rl_hasKeyFrame l \<or> list_ex is_key (pq_queue (rc_video (rl_rec l))))
     \<and> set (pq_queue (rc_video (rl_rec l'))) \<subseteq> set (pq_queue (rc_video (rl_rec l)))
     \<and> (rl_hasKeyFrame l' \<or> rc_audio (rl_rec l') = rc_audio (rl_rec l))"
proof (cases "rc_shouldStop (rl_rec l)")
  case True
  with assms show ?thesis by (auto simp: Recorder_recordingLoop_def)
next
  case False
  obtain r1 l1 where v: "rec_video api mx l = (r1, l1)" by fastforce
  note a = rec_video_ok [OF assms(1) v]
  have "rec_audio api mx l1 = (res, l')"
    using assms(2) False v a(1) by (simp add: Recorder_recordingLoop_def)
  from rec_audio_ok [OF _ this] a have b: "res = Ret () \<and> loop_ok l'" "rl_hasKeyFrame l' = rl_hasKeyFrame l1"
    "rc_video (rl_rec l') = rc_video (rl_rec l1)" "rl_hasKeyFrame l1 \<or> l' = l1" by auto
  have "set (tl xs) \<subseteq> set xs" for xs :: "Packet list" by (cases xs) auto
  with a b show ?thesis by auto
qed

lemma iterate_keeps_key:
  "loop_ok l \<Longrightarrow> rec_iterate n api mx l = (res, l') \<Longrightarrow> rl_hasKeyFrame l \<Longrightarrow> rl_hasKeyFrame l'"
proof (induction n arbitrary: l)
  case 0
  then show ?case by auto
next
  case (Suc n)
  obtain r1 l1 where s: "Recorder_recordingLoop api mx l = (r1, l1)" by fastforce
  with Suc.prems Suc.IH [of l1] loop_step_ok [OF Suc.prems(1) s] step_keeps_key [OF Suc.prems(1) s]
  show ?case by simp
qed

lemma iterate_ok:
  "loop_ok l \<Longrightarrow> rec_iterate n api mx l = (res, l') \<Longrightarrow>
     res = Ret () \<and> loop_ok l'
     \<and> (rl_hasKeyFrame l' \<longrightarrow> rl_hasKeyFrame l \<or> list_ex is_key (pq_queue (rc_video (rl_rec l))))
     \<and> (rl_hasKeyFrame l' \<or> rc_audio (rl_rec l') = rc_audio (rl_rec l))"
proof (induction n arbitrary: l)
  case 0
  then show ?case by auto
next
  case (Suc n)
  obtain r1 l1 where s: "Recorder_recordingLoop api mx l = (r1, l1)" by fastforce
  note a = loop_step_ok [OF Suc.prems(1) s]
  have it: "rec_iterate n api mx l1 = (res, l')" using Suc.prems(2) s a by simp
  note b = Suc.IH [OF _ it]
  have mono: "rl_hasKeyFrame l1 \<longrightarrow> rl_hasKeyFrame l'"
    using it a iterate_keeps_key by blast
  have "list_ex is_key (pq_queue (rc_video (rl_rec l)))" if "list_ex is_key (pq_queue (rc_video (rl_rec l1)))"
    using that a by (auto simp: list_ex_iff)
  with a b mono show ?case by metis
qed

subsection \<open>File extensions\<close>

lemma path_extension_dot:
  assumes "CHR ''/'' \<notin> set ext" "CHR ''.'' \<notin> set ext" "ext \<noteq> []"
    and "name \<noteq> []" "CHR ''/'' \<notin> set name" "dir = [] \<or> last dir = CHR ''/''"
  shows "path_extension (dir @ name @ CHR ''.'' # ext) = CHR ''.'' # ext"
proof -
  have "takeWhile (\<lambda>c. c \<noteq> CHR ''/'') (rev dir) = []"
    using assms(6) by (cases dir rule: rev_cases) auto
  then have "takeWhile (\<lambda>c. c \<noteq> CHR ''/'') (rev (name @ CHR ''.'' # ext) @ rev dir) = rev (name @ CHR ''.'' # ext)"
    using assms(1,5) by (subst takeWhile_append2) auto
  then have f: "path_filename (dir @ name @ CHR ''.'' # ext) = name @ CHR ''.'' # ext"
    by (simp add: path_filename_def)
  have "takeWhile (\<lambda>c. c \<noteq> CHR ''.'') (rev ext @ CHR ''.'' # rev name) = rev ext"
    using assms(2) by (subst takeWhile_append2) auto
  moreover have "name @ CHR ''.'' # ext \<noteq> ''..''"
    using assms(3,4) by (cases name; cases ext; auto simp: Cons_eq_append_conv append_eq_Cons_conv)
  ultimately show ?thesis
    using assms(4) by (simp add: path_extension_def f Let_def)
qed

lemma find_extension:
  "f \<noteq> CF_UNKNOWN \<Longrightarrow>
     find (\<lambda>g. cf_extension (getFormatInfoMap g) = cf_extension (getFormatInfoMap f)) containerFormats = Some f"
  by (cases f) (simp_all add: containerFormats_def ContainerFormatInfo.defs)

subsection \<open>Properties\<close>



definition sample_mux :: mux_results where
  "sample_mux = \<lparr>mx_alloc_output = True, mx_new_stream = (\<lambda>_. True), mx_copy_params = (\<lambda>_. 0), mx_nofile = False,
     mx_avio_open = 0, mx_write_header = 0, mx_time_base = (\<lambda>_. (1, 90000))\<rparr>"

definition plain_mux_api :: mux_api where
  "plain_mux_api = \<lparr>mx_rescale = (\<lambda>a b c. a), mx_write_frame = (\<lambda>_. 0)\<rparr>"

definition sample_streams :: "in_stream list" where
  "sample_streams = [\<lparr>st_codec_type = AVMEDIA_TYPE_VIDEO, st_codec_name = ''h264'', st_time_base = (1, 1000)\<rparr>,
     \<lparr>st_codec_type = 3, st_codec_name = ''srt'', st_time_base = (1, 1000)\<rparr>,
     \<lparr>st_codec_type = AVMEDIA_TYPE_AUDIO, st_codec_name = ''aac'', st_time_base = (1, 1000)\<rparr>]"

definition sample_recorder :: Recorder where
  "sample_recorder = snd (snd (Recorder_startRecording sample_mux True ''r.mp4'' (Some sample_streams) Recorder_new))"

lemma sample_recorder_started:
  "Recorder_startRecording sample_mux True ''r.mp4'' (Some sample_streams) Recorder_new
     = (True, [(EV_kRecordingStarted, \<lparr>re_outputPath = ''r.mp4'', re_format = ''mp4'',
          re_description = ''Recording Started'', re_errorCode = 0\<rparr>)], sample_recorder)"
  by (simp add: sample_recorder_def Recorder_startRecording_def detectContainerFormat_def path_extension_def
      path_filename_def containerFormats_def ContainerFormatInfo.defs validateFormatCompatibility_def
      unsupportedCodecs_def sample_streams_def Recorder_initOutputContext_def sample_mux_def is_av_def Let_def
      Recorder_createStreamMapping_def Recorder_new_def c_tolower_def)


text \<open>
  a recording that was started never indexes outside the stream tables, writes nothing before
  a video key frame has been taken from the video queue, and takes no audio packet before it.
\<close>

theorem Recorder_waits_for_key_frame:
  assumes "Recorder_startRecording mx ma path (Some sts) r = (True, evs, r1)"
    and "list_all index_ok vq" "list_all index_ok aq"
    and "rec_iterate n api mxa \<lparr>rl_rec = r1\<lparr>rc_video := (rc_video r1)\<lparr>pq_queue := vq\<rparr>,
           rc_audio := (rc_audio r1)\<lparr>pq_queue := aq\<rparr>\<rparr>, rl_hasKeyFrame = False, rl_written = [], rl_events = []\<rparr> = (res, l)"
  shows "res = Ret ()
       \<and> (list_ex is_key vq \<or> rl_written l = [] \<and> pq_queue (rc_audio (rl_rec l)) = aq)"
proof -
  let ?l = "\<lparr>rl_rec = r1\<lparr>rc_video := (rc_video r1)\<lparr>pq_queue := vq\<rparr>,
           rc_audio := (rc_audio r1)\<lparr>pq_queue := aq\<rparr>\<rparr>, rl_hasKeyFrame = False, rl_written = [], rl_events = []\<rparr>"
  have ok: "loop_ok ?l"
    using startRecording_ok(1) [OF assms(1)] assms(2,3) by (auto simp: loop_ok_def rec_ok_def)
  from iterate_ok [OF ok assms(4)] have i: "res = Ret ()" "loop_ok l"
    "rl_hasKeyFrame l \<longrightarrow> list_ex is_key vq" "rl_hasKeyFrame l \<or> pq_queue (rc_audio (rl_rec l)) = aq" by auto
  then show ?thesis by (auto simp: loop_ok_def)
qed

theorem Recorder_waits_for_key_frame_witness:
  "\<exists>res l. rec_iterate 5 sample_api plain_mux_api
        \<lparr>rl_rec = sample_recorder\<lparr>rc_video := (rc_video sample_recorder)\<lparr>pq_queue := []\<rparr>,
           rc_audio := (rc_audio sample_recorder)\<lparr>pq_queue := [sample_packet 3 40]\<rparr>\<rparr>,
         rl_hasKeyFrame = False, rl_written = [], rl_events = []\<rparr> = (res, l)
     \<and> res = Ret () \<and> rl_written l = [] \<and> pq_queue (rc_audio (rl_rec l)) = [sample_packet 3 40]"
proof -
  let ?l = "\<lparr>rl_rec = sample_recorder\<lparr>rc_video := (rc_video sample_recorder)\<lparr>pq_queue := []\<rparr>,
           rc_audio := (rc_audio sample_recorder)\<lparr>pq_queue := [sample_packet 3 40]\<rparr>\<rparr>,
         rl_hasKeyFrame = False, rl_written = [], rl_events = []\<rparr>"
  obtain res l where e: "rec_iterate 5 sample_api plain_mux_api ?l = (res, l)" by fastforce
  have "index_ok (sample_packet 3 40)"
    by (simp add: index_ok_def sample_packet_def plain_packet_def Packet_get_def)
  from Recorder_waits_for_key_frame [OF sample_recorder_started _ _ e] this e show ?thesis by auto
qed

text \<open>
  what \<open>stopRecording\<close> reports and loses.  Stopping a recording drops every packet that is
  still queued, and the event it sends carries an empty path and the format mp4, whatever was
  recorded; the recorder is ready for a new recording.
\<close>

theorem Recorder_stop:
  assumes "Recorder_isRecording r"
  shows "\<exists>r'. Recorder_stopRecording r
           = (True, [(EV_kRecordingStopped, \<lparr>re_outputPath = [], re_format = ''mp4'',
                       re_description = ''Recording Stopped'', re_errorCode = 0\<rparr>)], r')
         \<and> \<not> Recorder_isRecording r' \<and> pq_queue (rc_video r') = [] \<and> pq_queue (rc_audio r') = []
         \<and> rc_output r' = None \<and> Recorder_getRecordingPath r' = []"
  using assms
  by (simp add: Recorder_stopRecording_def Recorder_cleanup_def Let_def PacketQueue_flush_def
      Recorder_isRecording_def Recorder_getRecordingPath_def)

theorem Recorder_stop_witness:
  "\<exists>r'. Recorder_stopRecording sample_recorder
           = (True, [(EV_kRecordingStopped, \<lparr>re_outputPath = [], re_format = ''mp4'',
                       re_description = ''Recording Stopped'', re_errorCode = 0\<rparr>)], r')"
  using Recorder_stop [of sample_recorder] startRecording_ok(2) [OF sample_recorder_started]
  by (auto simp: Recorder_isRecording_def)

text \<open>
  the compatibility check accepts exactly the inputs whose video streams all have a codec of
  the container's video list and whose audio streams all have one of its audio list.
\<close>

theorem validateFormatCompatibility_iff:
  "validateFormatCompatibility format (Some sts) = Inr () \<longleftrightarrow>
     format \<noteq> CF_UNKNOWN
     \<and> list_all (\<lambda>st. if st_codec_type st = AVMEDIA_TYPE_VIDEO
                       then st_codec_name st \<in> set (cf_supportedVideoCodecs (getFormatInfoMap format))
                       else if st_codec_type st = AVMEDIA_TYPE_AUDIO
                       then st_codec_name st \<in> set (cf_supportedAudioCodecs (getFormatInfoMap format))
                       else True) sts"
proof -
  have u: "unsupportedCodecs info ss = [] \<longleftrightarrow>
      list_all (\<lambda>st. if st_codec_type st = AVMEDIA_TYPE_VIDEO
                       then st_codec_name st \<in> set (cf_supportedVideoCodecs info)
                       else if st_codec_type st = AVMEDIA_TYPE_AUDIO
                       then st_codec_name st \<in> set (cf_supportedAudioCodecs info) else True) ss" for info ss
    by (induction ss) (simp_all add: unsupportedCodecs_def)
  have s: "cf_supportVideo (getFormatInfoMap format) \<and> cf_supportAudio (getFormatInfoMap format)"
    if "format \<noteq> CF_UNKNOWN"
    using that by (cases format) (simp_all add: ContainerFormatInfo.defs)
  show ?thesis
    using s u [of "getFormatInfoMap format" sts]
    by (cases "format = CF_UNKNOWN") (simp_all add: validateFormatCompatibility_def Let_def)
qed

text \<open>
  The container format is recognised from the extension, ignoring case: a path whose last
  component is a non-empty name, a dot and an extension of the table has that table entry's format.
\<close>

theorem detectContainerFormat_extension:
  assumes "map c_tolower ext = cf_extension (getFormatInfoMap f)" "f \<noteq> CF_UNKNOWN"
    and "name \<noteq> []" "CHR ''/'' \<notin> set name" "dir = [] \<or> last dir = CHR ''/''"
  shows "detectContainerFormat (dir @ name @ CHR ''.'' # ext) = f"
proof -
  have l: "c_tolower (CHR ''/'') = CHR ''/''" "c_tolower (CHR ''.'') = CHR ''.''"
    by (simp_all add: c_tolower_def)
  have t: "CHR ''/'' \<notin> set (cf_extension (getFormatInfoMap f))" "CHR ''.'' \<notin> set (cf_extension (getFormatInfoMap f))"
    "cf_extension (getFormatInfoMap f) \<noteq> []"
    using assms(2) by (cases f; simp add: ContainerFormatInfo.defs)+
  have e: "CHR ''/'' \<notin> set ext" "CHR ''.'' \<notin> set ext" "ext \<noteq> []"
  proof -
    have i: "c_tolower c \<in> set (cf_extension (getFormatInfoMap f))" if "c \<in> set ext" for c
      using that assms(1) by (metis image_eqI list.set_map)
    show "CHR ''/'' \<notin> set ext" using i [of "CHR ''/''"] t(1) l(1) by metis
    show "CHR ''.'' \<notin> set ext" using i [of "CHR ''.''"] t(2) l(2) by metis
    show "ext \<noteq> []" using assms(1) t(3) by force
  qed
  have "path_extension (dir @ name @ CHR ''.'' # ext) = CHR ''.'' # ext"
    using path_extension_dot [OF e assms(3-5)] .
  then show ?thesis
    using assms(1,2) l find_extension [OF assms(2)] by (simp add: detectContainerFormat_def)
qed

theorem detectContainerFormat_extension_witness:
  "detectContainerFormat ''/tmp/a.b/rec.1.MkV'' = CF_MKV"
proof -
  have "map c_tolower ''MkV'' = cf_extension (getFormatInfoMap CF_MKV)" by code_simp
  from detectContainerFormat_extension [OF this, of "''rec.1''" "''/tmp/a.b/''"] show ?thesis by simp
qed

end
