(* ===== verification/Transition_Systems.thy ===== *)
theory Transition_Systems
  imports Prelude
begin

text \<open>
  Labelled transition systems, for the components in which several threads take turns: their
  executions, and what follows from an invariant of the initial states that every step keeps.
\<close>

inductive exec :: "('s \<Rightarrow> 'l \<Rightarrow> 's \<Rightarrow> bool) \<Rightarrow> 's \<Rightarrow> 'l list \<Rightarrow> 's \<Rightarrow> bool"
  for step :: "'s \<Rightarrow> 'l \<Rightarrow> 's \<Rightarrow> bool" where
  exec_refl: "exec step s [] s"
| exec_step: "step s l s' \<Longrightarrow> exec step s' ls s'' \<Longrightarrow> exec step s (l # ls) s''"

inductive_cases exec_NilE: "exec step s [] s'"
inductive_cases exec_ConsE: "exec step s (l # ls) s'"

lemma exec_append: "exec step s ls s' \<Longrightarrow> exec step s' ls' s'' \<Longrightarrow> exec step s (ls @ ls') s''"
  by (induction rule: exec.induct) (auto intro: exec.intros)

lemma exec_single: "step s l s' \<Longrightarrow> exec step s [l] s'"
  by (auto intro: exec.intros)

lemma exec_mono:
  assumes "exec step s ls s'" and "\<And>s l s'. step s l s' \<Longrightarrow> step' s l s'"
  shows "exec step' s ls s'"
  using assms(1) by (induction rule: exec.induct) (auto intro: exec.intros assms(2))

text \<open>A state is stuck when no step leaves it.\<close>

definition stuck :: "('s \<Rightarrow> 'l \<Rightarrow> 's \<Rightarrow> bool) \<Rightarrow> 's \<Rightarrow> bool" where
  "stuck step s \<longleftrightarrow> (\<forall>l s'. \<not> step s l s')"

locale inductive_invariant =
  fixes init :: "'s \<Rightarrow> bool"
    and step :: "'s \<Rightarrow> 'l \<Rightarrow> 's \<Rightarrow> bool"
    and inv :: "'s \<Rightarrow> bool"
  assumes init_inv: "init s \<Longrightarrow> inv s"
    and step_inv: "inv s \<Longrightarrow> step s l s' \<Longrightarrow> inv s'"
begin

lemma exec_keeps: "exec step s ls s' \<Longrightarrow> inv s \<Longrightarrow> inv s'"
  by (induction rule: exec.induct) (auto intro: step_inv)

lemma reachable_inv: "init s \<Longrightarrow> exec step s ls s' \<Longrightarrow> inv s'"
  using exec_keeps init_inv by blast

end

text \<open>
  A system whose labels are lists of outputs, with a counter of the state that each step raises
  by the number of outputs of one kind.
\<close>

locale counting_system = inductive_invariant init step inv
  for init :: "'s \<Rightarrow> bool" and step :: "'s \<Rightarrow> 'e list \<Rightarrow> 's \<Rightarrow> bool" and inv :: "'s \<Rightarrow> bool" +
  fixes counter :: "'s \<Rightarrow> int"
    and counted :: "'e \<Rightarrow> bool"
  assumes step_counts: "inv s \<Longrightarrow> step s es s' \<Longrightarrow> counter s' = counter s + int (length (filter counted es))"
begin

lemma exec_counts:
  "exec step s ls s' \<Longrightarrow> inv s \<Longrightarrow> counter s' = counter s + int (length (filter counted (concat ls)))"
  by (induction rule: exec.induct) (auto dest: step_inv simp: step_counts)

end

end
