(* ===== verification/Demuxers.thy ===== *)
theory Demuxers
  imports Recorders Transition_Systems
begin

text \<open>
  Class \<open>Demuxer\<close> (\<open>src/src/demuxer/demuxer.h\<close>, \<open>demuxer.cpp\<close>): opening and closing a
  stream, the demultiplexing thread with its two loops, seeking, looping, pausing, recording and
  pre-buffering.

  The results of the FFmpeg calls are arguments: \<open>open_calls\<close> for opening, \<open>io_calls\<close> for
  what one turn of the loop may call.  The thread is its program counter and the local
  variables of the loop; \<open>Demuxer_demuxLoop\<close> is its next piece of work: one turn of
  the loop up to the next point where it can block (a wait for the end of a pause, a push to a
  full queue).  A call that joins the thread is \<open>Wait\<close> until the thread has ended, and is
  made again then.  Events and the pre-buffer callback are collected in order.  Times are
  in nanoseconds.  That an allocation fails is not modelled.  A double is exact, so the
  conversion of a seek position has no rounding.
\<close>

datatype LoopMode = LM_kNone | LM_kSingle | LM_kInfinite

record PreBufferConfig =
  pb_enablePreBuffer :: bool
  pb_videoPreBufferFrames :: u32
  pb_audioPreBufferPackets :: u32
  pb_requireBothStreams :: bool
  pb_autoStartAfterPreBuffer :: bool

text \<open>The fields of \<open>Config\<close> the demuxer reads.\<close>

record demux_config =
  cfg_decodeMediaType :: byte
  cfg_rtspTransport :: RtspTransport
  cfg_preBufferConfig :: PreBufferConfig

definition kVideo :: byte where "kVideo = 1"
definition kAudio :: byte where "kAudio = 2"

record PreBufferProgress =
  pp_videoBufferedFrames :: nat
  pp_audioBufferedPackets :: nat
  pp_videoRequiredFrames :: nat
  pp_audioRequiredPackets :: nat
  pp_videoProgressPercent :: double
  pp_audioProgressPercent :: double
  pp_isVideoReady :: bool
  pp_isAudioReady :: bool
  pp_isOverallReady :: bool

text \<open>What is sent out: stream events, loop events, events of the recorder, and the call of the
  pre-buffer callback.\<close>

datatype demux_event =
    StreamEvent EventType string string "int option"
  | LoopEvent EventType u32 u32 string
  | RecordEvent EventType RecordingEventArgs
  | PreBufferCallback

text \<open>An \<open>AVFormatContext\<close>: whether its I/O context is seekable, its duration, its streams.\<close>

record format_ctx =
  fc_seekable :: bool
  fc_duration :: int
  fc_streams :: "in_stream list"

record open_calls =
  oc_open_input :: "string \<Rightarrow> (string \<times> string) list \<Rightarrow> int \<times> format_ctx"
  oc_find_stream_info :: int
  oc_avio_seek :: int
  oc_best_video :: int
  oc_best_audio :: int

record io_calls =
  io_read :: "int \<times> av_packet"
  io_feof :: bool
  io_now :: int
  io_seek_frame :: "int \<Rightarrow> int"
  io_avio_seek :: int

datatype demux_pc = DP_Loop | DP_Wait | DP_Read | DP_Push AVMediaType Packet | DP_Ended

record demux_thread =
  dt_pc :: demux_pc
  dt_occuredErrorTime :: "int option"
  dt_readFirstPacket :: bool
  dt_isEof :: "bool option"

record Demuxer =
  dm_isOpened :: bool
  dm_isStarted :: bool
  dm_url :: string
  dm_isRealTime :: bool
  dm_formatContext :: "format_ctx option"
  dm_videoPacketQueue :: "PacketQueue option"
  dm_audioPacketQueue :: "PacketQueue option"
  dm_videoStreamIndex :: int
  dm_audioStreamIndex :: int
  dm_thread :: "demux_thread option"
  dm_requestInterruption :: bool
  dm_isPaused :: bool
  dm_seekMsPos :: int
  dm_recorder :: Recorder
  dm_preBufferVideoFrames :: u32
  dm_preBufferAudioPackets :: u32
  dm_requireBothStreams :: bool
  dm_preBufferEnabled :: bool
  dm_preBufferReady :: bool
  dm_preBufferReadyCallback :: bool
  dm_loopMode :: LoopMode
  dm_maxLoops :: u32
  dm_currentLoopCount :: u32

definition Demuxer_new :: Demuxer where
  "Demuxer_new =
     \<lparr>dm_isOpened = False, dm_isStarted = False, dm_url = [], dm_isRealTime = False,
      dm_formatContext = None, dm_videoPacketQueue = None, dm_audioPacketQueue = None,
      dm_videoStreamIndex = -1, dm_audioStreamIndex = -1, dm_thread = None,
      dm_requestInterruption = False, dm_isPaused = False, dm_seekMsPos = -1,
      dm_recorder = Recorder_new, dm_preBufferVideoFrames = 0, dm_preBufferAudioPackets = 0,
      dm_requireBothStreams = False, dm_preBufferEnabled = False, dm_preBufferReady = False,
      dm_preBufferReadyCallback = False, dm_loopMode = LM_kNone, dm_maxLoops = -1,
      dm_currentLoopCount = 0\<rparr>"

subsection \<open>Accessors\<close>

definition Demuxer_streamIndex :: "AVMediaType \<Rightarrow> Demuxer \<Rightarrow> int" where
  "Demuxer_streamIndex mediaType d =
     (if mediaType = AVMEDIA_TYPE_VIDEO then dm_videoStreamIndex d
      else if mediaType = AVMEDIA_TYPE_AUDIO then dm_audioStreamIndex d
      else -1)"

definition Demuxer_packetQueue :: "AVMediaType \<Rightarrow> Demuxer \<Rightarrow> PacketQueue option" where
  "Demuxer_packetQueue mediaType d =
     (if mediaType = AVMEDIA_TYPE_VIDEO then dm_videoPacketQueue d
      else if mediaType = AVMEDIA_TYPE_AUDIO then dm_audioPacketQueue d
      else None)"

definition Demuxer_hasVideo :: "Demuxer \<Rightarrow> bool" where
  "Demuxer_hasVideo d \<longleftrightarrow> dm_videoStreamIndex d \<ge> 0"

definition Demuxer_hasAudio :: "Demuxer \<Rightarrow> bool" where
  "Demuxer_hasAudio d \<longleftrightarrow> dm_audioStreamIndex d \<ge> 0"

definition Demuxer_isPaused :: "Demuxer \<Rightarrow> bool" where
  "Demuxer_isPaused d = dm_isPaused d"

definition Demuxer_isRealTime :: "Demuxer \<Rightarrow> bool" where
  "Demuxer_isRealTime d = dm_isRealTime d"

definition Demuxer_url :: "Demuxer \<Rightarrow> string" where
  "Demuxer_url d = dm_url d"

definition Demuxer_isPreBufferReady :: "Demuxer \<Rightarrow> bool" where
  "Demuxer_isPreBufferReady d = dm_preBufferReady d"

definition Demuxer_getLoopMode :: "Demuxer \<Rightarrow> LoopMode" where
  "Demuxer_getLoopMode d = dm_loopMode d"

definition Demuxer_getCurrentLoopCount :: "Demuxer \<Rightarrow> int" where
  "Demuxer_getCurrentLoopCount d = sint (dm_currentLoopCount d)"

definition Demuxer_isRecording :: "Demuxer \<Rightarrow> bool" where
  "Demuxer_isRecording d = Recorder_isRecording (dm_recorder d)"

definition map_queues :: "(PacketQueue \<Rightarrow> PacketQueue) \<Rightarrow> Demuxer \<Rightarrow> Demuxer" where
  "map_queues f d =
     d\<lparr>dm_videoPacketQueue := map_option f (dm_videoPacketQueue d),
       dm_audioPacketQueue := map_option f (dm_audioPacketQueue d)\<rparr>"

definition set_queue :: "AVMediaType \<Rightarrow> PacketQueue \<Rightarrow> Demuxer \<Rightarrow> Demuxer" where
  "set_queue mediaType q d =
     (if mediaType = AVMEDIA_TYPE_VIDEO then d\<lparr>dm_videoPacketQueue := Some q\<rparr>
      else d\<lparr>dm_audioPacketQueue := Some q\<rparr>)"

text \<open>An update of an atomic variable by \<open>atomicUpdateIfNotEqual\<close> without contention.\<close>

definition atomic_set :: "'a \<Rightarrow> 'a \<Rightarrow> 'a" where
  "atomic_set current newValue =
     (case atomicUpdateIfNotEqual current newValue 0 100 [None] of
        Some (_, Some v) \<Rightarrow> v | _ \<Rightarrow> current)"

definition Demuxer_setLoopMode :: "LoopMode \<Rightarrow> u32 \<Rightarrow> Demuxer \<Rightarrow> Demuxer" where
  "Demuxer_setLoopMode mode maxLoops d =
     (let d1 = d\<lparr>dm_loopMode := atomic_set (dm_loopMode d) mode,
                dm_maxLoops := atomic_set (dm_maxLoops d) maxLoops\<rparr>
      in if mode = LM_kNone then d1\<lparr>dm_currentLoopCount := atomic_set (dm_currentLoopCount d1) 0\<rparr> else d1)"

definition Demuxer_resetLoopCount :: "Demuxer \<Rightarrow> Demuxer" where
  "Demuxer_resetLoopCount d = d\<lparr>dm_currentLoopCount := atomic_set (dm_currentLoopCount d) 0\<rparr>"

subsection \<open>Pre-buffering\<close>

definition progress_part :: "PacketQueue option \<Rightarrow> u32 \<Rightarrow> nat \<times> bool \<times> double" where
  "progress_part q required =
     (case q of
        None \<Rightarrow> (0, False, Fin 0)
      | Some q \<Rightarrow>
          let n = PacketQueue_packetCount q
          in (n, n \<ge> unat required,
              if unat required > 0 then d_min (Fin 1) (d_div (Fin (of_nat n)) (Fin (of_nat (unat required))))
              else Fin 1))"

definition Demuxer_getPreBufferProgress :: "Demuxer \<Rightarrow> PreBufferProgress" where
  "Demuxer_getPreBufferProgress d =
     (let (nv, readyV, percentV) = progress_part (dm_videoPacketQueue d) (dm_preBufferVideoFrames d);
          (na, readyA, percentA) = progress_part (dm_audioPacketQueue d) (dm_preBufferAudioPackets d)
      in \<lparr>pp_videoBufferedFrames = nv, pp_audioBufferedPackets = na,
          pp_videoRequiredFrames = unat (dm_preBufferVideoFrames d),
          pp_audioRequiredPackets = unat (dm_preBufferAudioPackets d),
          pp_videoProgressPercent = percentV, pp_audioProgressPercent = percentA,
          pp_isVideoReady = readyV, pp_isAudioReady = readyA,
          pp_isOverallReady = (if dm_requireBothStreams d then readyV \<and> readyA else readyV \<or> readyA)\<rparr>)"

definition stream_ready :: "int \<Rightarrow> u32 \<Rightarrow> PacketQueue option \<Rightarrow> bool" where
  "stream_ready index required q \<longleftrightarrow>
     index \<ge> 0 \<and> required > 0
     \<and> (case q of None \<Rightarrow> False | Some q \<Rightarrow> PacketQueue_packetCount q \<ge> unat required)"

definition Demuxer_checkPreBufferStatus :: "Demuxer \<Rightarrow> demux_event list \<times> Demuxer" where
  "Demuxer_checkPreBufferStatus d =
     (if \<not> dm_preBufferEnabled d \<or> dm_preBufferReady d then ([], d)
      else
        let videoReady = stream_ready (dm_videoStreamIndex d) (dm_preBufferVideoFrames d) (dm_videoPacketQueue d);
            audioReady = stream_ready (dm_audioStreamIndex d) (dm_preBufferAudioPackets d) (dm_audioPacketQueue d);
            ready = (if dm_requireBothStreams d then videoReady \<and> audioReady else videoReady \<or> audioReady)
        in if ready
           then (if dm_preBufferReadyCallback d then [PreBufferCallback] else [], d\<lparr>dm_preBufferReady := True\<rparr>)
           else ([], d))"

definition Demuxer_clearPreBufferCallback :: "Demuxer \<Rightarrow> Demuxer" where
  "Demuxer_clearPreBufferCallback d =
     d\<lparr>dm_preBufferReadyCallback := False, dm_preBufferEnabled := False, dm_preBufferReady := False\<rparr>"

definition Demuxer_setPreBufferConfig :: "u32 \<Rightarrow> u32 \<Rightarrow> bool \<Rightarrow> bool \<Rightarrow> Demuxer \<Rightarrow> Demuxer" where
  "Demuxer_setPreBufferConfig videoFrames audioPackets requireBoth onPreBufferReady d =
     d\<lparr>dm_preBufferVideoFrames := videoFrames, dm_preBufferAudioPackets := audioPackets,
       dm_requireBothStreams := requireBoth,
       dm_preBufferEnabled := (videoFrames > 0 \<or> audioPackets > 0),
       dm_preBufferReady := False, dm_preBufferReadyCallback := onPreBufferReady\<rparr>"

subsection \<open>Handing packets on\<close>

text \<open>An end packet is pushed without waiting; what the push returns is ignored.\<close>

definition push_end :: "packet_api \<Rightarrow> AVMediaType \<Rightarrow> av_packet \<Rightarrow> Demuxer \<Rightarrow> Demuxer" where
  "push_end api mediaType pkt d =
     (case Demuxer_packetQueue mediaType d of
        None \<Rightarrow> d
      | Some q \<Rightarrow>
          if Demuxer_streamIndex mediaType d \<ge> 0
          then let endPacket = Packet_setSerial (PacketQueue_serial q)
                     (Packet_of api (Some (pkt\<lparr>pkt_stream_index := Demuxer_streamIndex mediaType d\<rparr>)))
               in set_queue mediaType (snd (PacketQueue_push api endPacket 0 False q)) d
          else d)"

definition Demuxer_handleEndOfFile :: "packet_api \<Rightarrow> av_packet \<Rightarrow> Demuxer \<Rightarrow> Demuxer" where
  "Demuxer_handleEndOfFile api pkt d =
     push_end api AVMEDIA_TYPE_AUDIO pkt (push_end api AVMEDIA_TYPE_VIDEO pkt d)"

text \<open>The part of \<open>distributePacket\<close> after the push: recording, then the pre-buffer check.\<close>

definition dist_finish :: "packet_api \<Rightarrow> AVMediaType \<Rightarrow> Packet \<Rightarrow> Demuxer \<Rightarrow> demux_event list \<times> Demuxer" where
  "dist_finish api mediaType packet d =
     Demuxer_checkPreBufferStatus
       (if Recorder_isRecording (dm_recorder d)
        then d\<lparr>dm_recorder := snd (Recorder_writePacket api packet mediaType (dm_recorder d))\<rparr>
        else d)"

text \<open>The blocking push: on a full queue the thread stays at it, with the packet it stamped.\<close>

definition dist_push :: "packet_api \<Rightarrow> AVMediaType \<Rightarrow> Packet \<Rightarrow> Demuxer \<Rightarrow> demux_pc \<times> demux_event list \<times> Demuxer" where
  "dist_push api mediaType packet d =
     (case Demuxer_packetQueue mediaType d of
        None \<Rightarrow> (DP_Loop, dist_finish api mediaType packet d)
      | Some q \<Rightarrow>
          (case PacketQueue_push api packet (-1) False q of
             (Wait, _) \<Rightarrow> (DP_Push mediaType packet, [], d)
           | (_, q') \<Rightarrow> (DP_Loop, dist_finish api mediaType packet (set_queue mediaType q' d))))"

definition dist_to :: "packet_api \<Rightarrow> AVMediaType \<Rightarrow> Packet \<Rightarrow> Demuxer \<Rightarrow> demux_pc \<times> demux_event list \<times> Demuxer" where
  "dist_to api mediaType packet d =
     (case Demuxer_packetQueue mediaType d of
        None \<Rightarrow> (DP_Loop, dist_finish api mediaType packet d)
      | Some q \<Rightarrow>
          if dm_isPaused d then (DP_Loop, dist_finish api mediaType packet d)
          else dist_push api mediaType (Packet_setSerial (PacketQueue_serial q) packet) d)"

definition Demuxer_distributePacket :: "packet_api \<Rightarrow> av_packet \<Rightarrow> Demuxer \<Rightarrow> demux_pc \<times> demux_event list \<times> Demuxer" where
  "Demuxer_distributePacket api pkt d =
     (let packet = Packet_of api (Some pkt)
      in if pkt_stream_index pkt = dm_videoStreamIndex d then dist_to api AVMEDIA_TYPE_VIDEO packet d
         else if pkt_stream_index pkt = dm_audioStreamIndex d then dist_to api AVMEDIA_TYPE_AUDIO packet d
         else (DP_Loop, Demuxer_checkPreBufferStatus d))"

subsection \<open>Seeking and looping\<close>

definition int64_range :: "int \<Rightarrow> bool" where
  "int64_range n \<longleftrightarrow> - (2 ^ 63) \<le> n \<and> n < 2 ^ 63"

text \<open>The conversion of a double that does not fit is undefined.\<close>

definition Demuxer_seek :: "double \<Rightarrow> Demuxer \<Rightarrow> bool outcome \<times> Demuxer" where
  "Demuxer_seek position d =
     (if dm_formatContext d = None \<or> dm_isRealTime d \<or> \<not> utils_greaterAndEqual position (Fin 0) DOUBLEEPSILON
      then (Ret False, d)
      else case d_mul position (Fin 1000) of
             Fin x \<Rightarrow> if int64_range (trunc_to_int x) then (Ret True, d\<lparr>dm_seekMsPos := trunc_to_int x\<rparr>) else (UB, d)
           | _ \<Rightarrow> (UB, d))"

definition AV_TIME_BASE :: int where "AV_TIME_BASE = 1000000"

definition Demuxer_handleSeekRequest :: "io_calls \<Rightarrow> Demuxer \<Rightarrow> bool \<times> Demuxer" where
  "Demuxer_handleSeekRequest io d =
     (if dm_seekMsPos d < 0 then (False, d)
      else
        let d1 = d\<lparr>dm_seekMsPos := -1\<rparr>;
            position = of_int (dm_seekMsPos d) * (1 / 1000) :: real;
            timestamp = trunc_to_int (position * of_int AV_TIME_BASE)
        in if io_seek_frame io timestamp < 0 then (False, d1)
           else (True, map_queues PacketQueue_flush d1))"

definition Demuxer_handleLoopPlayback :: "io_calls \<Rightarrow> Demuxer \<Rightarrow> bool \<times> demux_event list \<times> Demuxer" where
  "Demuxer_handleLoopPlayback io d =
     (if dm_loopMode d = LM_kNone then (False, [], d)
      else if dm_loopMode d = LM_kSingle \<and> sint (dm_maxLoops d) > 0
              \<and> sint (dm_currentLoopCount d) \<ge> sint (dm_maxLoops d)
      then (False, [], d)
      else case Demuxer_handleSeekRequest io (d\<lparr>dm_seekMsPos := 0\<rparr>) of
             (False, d1) \<Rightarrow> (False, [], d1)
           | (True, d1) \<Rightarrow>
               (case dm_formatContext d1 of
                  Some fc \<Rightarrow>
                    if fc_seekable fc \<and> io_avio_seek io < 0 then (False, [], d1)
                    else let d2 = d1\<lparr>dm_currentLoopCount := dm_currentLoopCount d1 + 1\<rparr>
                         in (True, [LoopEvent EV_kStreamLooped (dm_currentLoopCount d2) (dm_maxLoops d2) ''Stream Looped''], d2)
                | None \<Rightarrow> (False, [], d1)))"

subsection \<open>The demultiplexing thread\<close>

definition kReadErrorMaxInterval :: int where "kReadErrorMaxInterval = 3"

definition AVERROR_EOF :: int where "AVERROR_EOF = -541478725"
definition AVERROR_EAGAIN :: int where "AVERROR_EAGAIN = -11"

text \<open>\<open>duration_cast\<close> to seconds truncates; for the comparison with a positive number of seconds
  it agrees with \<open>div\<close>.\<close>

definition Demuxer_handleReadError :: "io_calls \<Rightarrow> demux_thread \<Rightarrow> Demuxer \<Rightarrow> int \<times> demux_event list \<times> demux_thread" where
  "Demuxer_handleReadError io t d =
     (let since = (case dt_occuredErrorTime t of None \<Rightarrow> io_now io | Some s \<Rightarrow> s)
      in if (io_now io - since) div 1000000000 \<ge> kReadErrorMaxInterval
         then (-2, [StreamEvent EV_kStreamReadError (dm_url d) ''Stream Read Error'' None],
               t\<lparr>dt_occuredErrorTime := None\<rparr>)
         else (-1, [], t\<lparr>dt_occuredErrorTime := Some since\<rparr>))"

definition Demuxer_readAndProcessPacket ::
    "packet_api \<Rightarrow> io_calls \<Rightarrow> bool \<Rightarrow> demux_thread \<Rightarrow> Demuxer
      \<Rightarrow> int \<times> demux_event list \<times> demux_thread \<times> Demuxer" where
  "Demuxer_readAndProcessPacket api io isEof t d =
     (let (ret, pkt) = io_read io
      in if ret \<ge> 0
         then (0, if dt_readFirstPacket t then []
                  else [StreamEvent EV_kStreamReadData (dm_url d) ''Stream Read Data'' None],
               t\<lparr>dt_occuredErrorTime := None, dt_readFirstPacket := True\<rparr>, d)
         else if ret = AVERROR_EOF \<or> io_feof io
         then let d1 = (if isEof then d else Demuxer_handleEndOfFile api pkt d)
              in if dm_isRealTime d1
                 then (case Demuxer_handleReadError io t d1 of (r, evs, t1) \<Rightarrow> (r, evs, t1, d1))
                 else (1, [], t, d1)
         else if ret = AVERROR_EAGAIN then (-1, [], t, d)
         else (case Demuxer_handleReadError io t d of (r, evs, t1) \<Rightarrow> (r, evs, t1, d)))"

definition queue_empty :: "PacketQueue option \<Rightarrow> bool" where
  "queue_empty q = (case q of None \<Rightarrow> True | Some q \<Rightarrow> PacketQueue_isEmpty q)"

text \<open>The body of \<open>fileStreamDemuxLoop\<close> from the read on.\<close>

definition file_read ::
    "packet_api \<Rightarrow> io_calls \<Rightarrow> demux_thread \<Rightarrow> Demuxer \<Rightarrow> demux_event list \<times> demux_thread \<times> Demuxer" where
  "file_read api io t d =
     (case Demuxer_readAndProcessPacket api io (case dt_isEof t of Some b \<Rightarrow> b | None \<Rightarrow> False) t d of
        (result, evs, t1, d1) \<Rightarrow>
          if result = 1
          then let t2 = t1\<lparr>dt_isEof := Some True, dt_pc := DP_Loop\<rparr>
               in if queue_empty (dm_videoPacketQueue d1) \<and> queue_empty (dm_audioPacketQueue d1)
                  then (case Demuxer_handleLoopPlayback io d1 of
                          (_, evs2, d2) \<Rightarrow>
                            (evs @ StreamEvent EV_kStreamEnded (dm_url d1) ''Stream Ended'' None # evs2,
                             t2\<lparr>dt_isEof := None\<rparr>, d2))
                  else (evs, t2, d1)
          else if result = -2 then (evs, t1\<lparr>dt_pc := DP_Ended\<rparr>, d1)
          else if result = -1 then (evs, t1\<lparr>dt_pc := DP_Loop\<rparr>, d1)
          else (case Demuxer_distributePacket api (snd (io_read io)) d1 of
                  (pc, evs2, d2) \<Rightarrow> (evs @ evs2, t1\<lparr>dt_isEof := None, dt_pc := pc\<rparr>, d2)))"

text \<open>
  One turn of \<open>fileStreamDemuxLoop\<close> from its head: the seek request, then the pause, then the
  read.
\<close>

definition Demuxer_fileStreamDemuxLoop ::
    "packet_api \<Rightarrow> io_calls \<Rightarrow> demux_thread \<Rightarrow> Demuxer \<Rightarrow> demux_event list \<times> demux_thread \<times> Demuxer" where
  "Demuxer_fileStreamDemuxLoop api io t d =
     (if dm_requestInterruption d then ([], t\<lparr>dt_pc := DP_Ended\<rparr>, d)
      else case Demuxer_handleSeekRequest io d of
             (True, d1) \<Rightarrow> ([], t\<lparr>dt_pc := DP_Loop\<rparr>, d1)
           | (False, d1) \<Rightarrow>
               if dm_isPaused d1 then ([], t\<lparr>dt_pc := DP_Wait\<rparr>, d1)
               else file_read api io t d1)"

text \<open>\<open>handleFileStreamPause\<close>: the wait, evaluated when the thread runs.\<close>

definition Demuxer_handleFileStreamPause :: "demux_thread \<Rightarrow> Demuxer \<Rightarrow> demux_thread" where
  "Demuxer_handleFileStreamPause t d =
     (if dm_isPaused d \<and> \<not> dm_requestInterruption d then t
      else if dm_requestInterruption d then t\<lparr>dt_pc := DP_Ended\<rparr>
      else t\<lparr>dt_pc := DP_Read\<rparr>)"

definition Demuxer_realTimeStreamDemuxLoop ::
    "packet_api \<Rightarrow> io_calls \<Rightarrow> demux_thread \<Rightarrow> Demuxer \<Rightarrow> demux_event list \<times> demux_thread \<times> Demuxer" where
  "Demuxer_realTimeStreamDemuxLoop api io t d =
     (if dm_requestInterruption d then ([], t\<lparr>dt_pc := DP_Ended\<rparr>, d)
      else
        case Demuxer_readAndProcessPacket api io False t
               (if dm_seekMsPos d > 0 then d\<lparr>dm_seekMsPos := -1\<rparr> else d) of
          (result, evs, t1, d1) \<Rightarrow>
            if result = 1 \<or> result = -1 then (evs, t1\<lparr>dt_pc := DP_Loop\<rparr>, d1)
            else if result = -2 then (evs, t1\<lparr>dt_pc := DP_Ended\<rparr>, d1)
            else (case Demuxer_distributePacket api (snd (io_read io)) d1 of
                    (pc, evs2, d2) \<Rightarrow> (evs @ evs2, t1\<lparr>dt_pc := pc\<rparr>, d2)))"

definition Demuxer_demuxLoop ::
    "packet_api \<Rightarrow> io_calls \<Rightarrow> demux_thread \<Rightarrow> Demuxer \<Rightarrow> demux_event list \<times> demux_thread \<times> Demuxer" where
  "Demuxer_demuxLoop api io t d =
     (case dt_pc t of
        DP_Loop \<Rightarrow> if dm_isRealTime d then Demuxer_realTimeStreamDemuxLoop api io t d
                   else Demuxer_fileStreamDemuxLoop api io t d
      | DP_Wait \<Rightarrow> ([], Demuxer_handleFileStreamPause t d, d)
      | DP_Read \<Rightarrow> file_read api io t d
      | DP_Push mediaType packet \<Rightarrow>
          (case dist_push api mediaType packet d of (pc, evs, d1) \<Rightarrow> (evs, t\<lparr>dt_pc := pc\<rparr>, d1))
      | DP_Ended \<Rightarrow> ([], t, d))"

text \<open>The thread of a demuxer makes its next piece of work.\<close>

definition thread_turn :: "packet_api \<Rightarrow> io_calls \<Rightarrow> Demuxer \<Rightarrow> demux_event list \<times> Demuxer" where
  "thread_turn api io d =
     (case dm_thread d of
        None \<Rightarrow> ([], d)
      | Some t \<Rightarrow> (case Demuxer_demuxLoop api io t d of (evs, t1, d1) \<Rightarrow> (evs, d1\<lparr>dm_thread := Some t1\<rparr>)))"

subsection \<open>Opening, closing, pausing\<close>

definition Demuxer_start :: "Demuxer \<Rightarrow> Demuxer" where
  "Demuxer_start d =
     (if dm_isStarted d then d
      else (map_queues PacketQueue_start d)
             \<lparr>dm_requestInterruption := False, dm_isStarted := True,
              dm_thread := Some \<lparr>dt_pc = DP_Loop, dt_occuredErrorTime = None,
                                 dt_readFirstPacket = False, dt_isEof = None\<rparr>\<rparr>)"

definition Demuxer_stop :: "Demuxer \<Rightarrow> unit outcome \<times> Demuxer" where
  "Demuxer_stop d =
     (if \<not> dm_isStarted d then (Ret (), d)
      else
        let d1 = (map_queues PacketQueue_abort d)\<lparr>dm_requestInterruption := True\<rparr>
        in case dm_thread d1 of
             Some t \<Rightarrow> if dt_pc t = DP_Ended then (Ret (), d1\<lparr>dm_thread := None, dm_isStarted := False\<rparr>)
                       else (Wait, d1)
           | None \<Rightarrow> (Ret (), d1\<lparr>dm_isStarted := False\<rparr>))"

definition Demuxer_closeInternal :: "Demuxer \<Rightarrow> bool outcome \<times> demux_event list \<times> Demuxer" where
  "Demuxer_closeInternal d =
     (case Demuxer_stop d of
        (Ret _, d1) \<Rightarrow>
          if \<not> dm_isOpened d1 then (Ret True, [], d1)
          else
            let d2 = (Demuxer_clearPreBufferCallback
                       (d1\<lparr>dm_formatContext := None, dm_videoPacketQueue := None, dm_audioPacketQueue := None\<rparr>))
                     \<lparr>dm_videoStreamIndex := -1, dm_audioStreamIndex := -1, dm_url := [],
                      dm_isRealTime := False, dm_isOpened := False\<rparr>
            in (Ret True, [StreamEvent EV_kStreamClose (dm_url d2) ''Stream Close'' None], d2)
      | (Wait, d1) \<Rightarrow> (Wait, [], d1)
      | (UB, d1) \<Rightarrow> (UB, [], d1))"

definition Demuxer_stopRecording :: "Demuxer \<Rightarrow> bool \<times> demux_event list \<times> Demuxer" where
  "Demuxer_stopRecording d =
     (case Recorder_stopRecording (dm_recorder d) of
        (ok, evs, r) \<Rightarrow> (ok, map (\<lambda>(e, a). RecordEvent e a) evs, d\<lparr>dm_recorder := r\<rparr>))"

definition Demuxer_startRecording ::
    "mux_results \<Rightarrow> bool \<Rightarrow> string \<Rightarrow> Demuxer \<Rightarrow> bool \<times> demux_event list \<times> Demuxer" where
  "Demuxer_startRecording mx mapping_alloc outputPath d =
     (if \<not> dm_isRealTime d then (False, [], d)
      else case dm_formatContext d of
             None \<Rightarrow> (False, [], d)
           | Some fc \<Rightarrow>
               (case Recorder_startRecording mx mapping_alloc outputPath (Some (fc_streams fc)) (dm_recorder d) of
                  (ok, evs, r) \<Rightarrow> (ok, map (\<lambda>(e, a). RecordEvent e a) evs, d\<lparr>dm_recorder := r\<rparr>)))"

definition Demuxer_close :: "Demuxer \<Rightarrow> bool outcome \<times> demux_event list \<times> Demuxer" where
  "Demuxer_close d =
     (let (evs, d1) = (if Demuxer_isRecording d then snd (Demuxer_stopRecording d) else ([], d));
          (res, evs2, d2) = Demuxer_closeInternal d1
      in (res, evs @ evs2, d2))"

text \<open>The dictionary of options handed to \<open>avformat_open_input\<close>.\<close>

definition open_options :: "bool \<Rightarrow> RtspTransport \<Rightarrow> (string \<times> string) list" where
  "open_options isRealTime transport =
     [(''timeout'', ''2000000''), (''max_delay'', ''0''), (''buffer_size'', ''1048576''),
      (''analyzeduration'', ''1000000'')]
     @ (if isRealTime
        then [(''rtsp_transport'', rtspTransport2Str transport), (''fflags'', ''nobuffer''),
              (''stimeout'', ''2000000'')]
        else [])"

text \<open>The part of \<open>openInternal\<close> from the choice of the streams to the start of the thread.\<close>

definition opened_state ::
    "open_calls \<Rightarrow> format_ctx \<Rightarrow> string \<Rightarrow> demux_config \<Rightarrow> bool \<Rightarrow> Demuxer \<Rightarrow> Demuxer" where
  "opened_state oc fc url config callback d =
     (let media = cfg_decodeMediaType config;
          d1 = d\<lparr>dm_formatContext := Some fc, dm_videoStreamIndex := oc_best_video oc,
                 dm_audioStreamIndex := oc_best_audio oc,
                 dm_videoPacketQueue := (if oc_best_video oc \<ge> 0 \<and> media AND kVideo \<noteq> 0
                                         then Some (PacketQueue_new 1000) else dm_videoPacketQueue d),
                 dm_audioPacketQueue := (if oc_best_audio oc \<ge> 0 \<and> media AND kAudio \<noteq> 0
                                         then Some (PacketQueue_new 1000) else dm_audioPacketQueue d),
                 dm_url := url, dm_isRealTime := isRealtime url, dm_isOpened := True\<rparr>;
          pb = cfg_preBufferConfig config;
          d2 = (if pb_enablePreBuffer pb
                then Demuxer_setPreBufferConfig (pb_videoPreBufferFrames pb) (pb_audioPreBufferPackets pb)
                       (pb_requireBothStreams pb) callback d1
                else d1)
      in Demuxer_start d2)"

text \<open>The part of \<open>openInternal\<close> after a stream that was open has been closed.\<close>

definition open_stream ::
    "open_calls \<Rightarrow> string \<Rightarrow> demux_config \<Rightarrow> bool \<Rightarrow> Demuxer \<Rightarrow> bool \<times> demux_event list \<times> Demuxer" where
  "open_stream oc url config callback d =
     (let opening = StreamEvent EV_kStreamOpening url ''Stream Opening'' None;
          failed = StreamEvent EV_kStreamOpenFailed url ''Stream Open Failed'' None;
          (ret, fc) = oc_open_input oc url (open_options (isRealtime url) (cfg_rtspTransport config))
      in if ret \<noteq> 0 then (False, [opening, failed], d\<lparr>dm_formatContext := None\<rparr>)
         else if oc_find_stream_info oc < 0 then (False, [opening, failed], d\<lparr>dm_formatContext := None\<rparr>)
         else if fc_seekable fc \<and> oc_avio_seek oc < 0 then (False, [opening], d\<lparr>dm_formatContext := Some fc\<rparr>)
         else
           let totalTime = (if fc_duration fc \<noteq> AV_NOPTS_VALUE
                            then Some (sint (word_of_int (trunc_to_int (of_int (fc_duration fc) / of_int AV_TIME_BASE)) :: u32))
                            else None)
           in (True, [opening, StreamEvent EV_kStreamOpened url ''Stream Opened'' totalTime],
               opened_state oc fc url config callback d))"

definition Demuxer_openInternal ::
    "open_calls \<Rightarrow> string \<Rightarrow> demux_config \<Rightarrow> bool \<Rightarrow> Demuxer \<Rightarrow> bool outcome \<times> demux_event list \<times> Demuxer" where
  "Demuxer_openInternal oc url config callback d =
     (if dm_isOpened d
      then case Demuxer_closeInternal d of
             (Ret _, evs, d1) \<Rightarrow>
               (case open_stream oc url config callback d1 of (ok, evs2, d2) \<Rightarrow> (Ret ok, evs @ evs2, d2))
           | (res, evs, d1) \<Rightarrow> (res, evs, d1)
      else case open_stream oc url config callback d of (ok, evs, d1) \<Rightarrow> (Ret ok, evs, d1))"

definition Demuxer_open ::
    "open_calls \<Rightarrow> string \<Rightarrow> demux_config \<Rightarrow> bool \<Rightarrow> Demuxer \<Rightarrow> bool outcome \<times> demux_event list \<times> Demuxer" where
  "Demuxer_open oc url config callback d = Demuxer_openInternal oc url config callback d"

definition Demuxer_pauseInternal :: "Demuxer \<Rightarrow> bool \<times> Demuxer" where
  "Demuxer_pauseInternal d =
     (if \<not> dm_isOpened d \<or> \<not> dm_isStarted d then (False, d)
      else if dm_isPaused d then (True, d)
      else (True, d\<lparr>dm_isPaused := True\<rparr>))"

definition Demuxer_resumeInternal :: "Demuxer \<Rightarrow> bool \<times> Demuxer" where
  "Demuxer_resumeInternal d =
     (if \<not> dm_isOpened d \<or> \<not> dm_isStarted d then (False, d)
      else if \<not> dm_isPaused d then (True, d)
      else (True, (if dm_isRealTime d then map_queues PacketQueue_flush d else d)\<lparr>dm_isPaused := False\<rparr>))"

definition Demuxer_pause :: "Demuxer \<Rightarrow> bool \<times> Demuxer" where
  "Demuxer_pause d = Demuxer_pauseInternal d"

definition Demuxer_resume :: "Demuxer \<Rightarrow> bool \<times> Demuxer" where
  "Demuxer_resume d = Demuxer_resumeInternal d"

subsection \<open>The threads together\<close>

text \<open>
  \<open>dm_play\<close>: what happens to an open stream while it is played: a turn of the thread, a
  decoder that pops a packet, a seek, a pause, a resume, work of the recorder.  \<open>dm_step\<close>
  adds the calls that open and close the stream and the ones that configure it.
\<close>

inductive dm_play :: "packet_api \<Rightarrow> Demuxer \<Rightarrow> demux_event list \<Rightarrow> Demuxer \<Rightarrow> bool" for api where
  turn: "thread_turn api io d = (evs, d') \<Longrightarrow> dm_play api d evs d'"
| pop: "Demuxer_packetQueue m d = Some q \<Longrightarrow> PacketQueue_pop tmo ex q = (Ret r, q') \<Longrightarrow>
    dm_play api d [] (set_queue m q' d)"
| seek: "Demuxer_seek pos d = (Ret b, d') \<Longrightarrow> dm_play api d [] d'"
| pause: "Demuxer_pause d = (b, d') \<Longrightarrow> dm_play api d [] d'"
| resume: "Demuxer_resume d = (b, d') \<Longrightarrow> dm_play api d [] d'"
| recorder: "dm_play api d [] (d\<lparr>dm_recorder := r\<rparr>)"

inductive dm_step :: "packet_api \<Rightarrow> Demuxer \<Rightarrow> demux_event list \<Rightarrow> Demuxer \<Rightarrow> bool" for api where
  play: "dm_play api d evs d' \<Longrightarrow> dm_step api d evs d'"
| opens: "Demuxer_open oc url config cb d = (Ret b, evs, d') \<Longrightarrow> dm_step api d evs d'"
| open_waits: "Demuxer_open oc url config cb d = (Wait, evs, d') \<Longrightarrow> dm_step api d evs d'"
| closes: "Demuxer_close d = (res, evs, d') \<Longrightarrow> dm_step api d evs d'"
| loop_mode: "dm_step api d [] (Demuxer_setLoopMode mode n d)"
| reset_loops: "dm_step api d [] (Demuxer_resetLoopCount d)"
| start_recording: "Demuxer_startRecording mx ma path d = (b, evs, d') \<Longrightarrow> dm_step api d evs d'"
| stop_recording: "Demuxer_stopRecording d = (b, evs, d') \<Longrightarrow> dm_step api d evs d'"

subsection \<open>What the operations leave alone\<close>

definition dm_core :: "Demuxer \<Rightarrow> Demuxer" where
  "dm_core d = d\<lparr>dm_videoPacketQueue := None, dm_audioPacketQueue := None, dm_recorder := Recorder_new,
     dm_preBufferReady := False, dm_thread := None, dm_seekMsPos := 0\<rparr>"

lemma dm_core_sel:
  "dm_isOpened (dm_core d) = dm_isOpened d" "dm_isStarted (dm_core d) = dm_isStarted d"
  "dm_url (dm_core d) = dm_url d" "dm_isRealTime (dm_core d) = dm_isRealTime d"
  "dm_formatContext (dm_core d) = dm_formatContext d" "dm_videoStreamIndex (dm_core d) = dm_videoStreamIndex d"
  "dm_audioStreamIndex (dm_core d) = dm_audioStreamIndex d" "dm_requestInterruption (dm_core d) = dm_requestInterruption d"
  "dm_isPaused (dm_core d) = dm_isPaused d" "dm_loopMode (dm_core d) = dm_loopMode d"
  "dm_maxLoops (dm_core d) = dm_maxLoops d" "dm_currentLoopCount (dm_core d) = dm_currentLoopCount d"
  "dm_requireBothStreams (dm_core d) = dm_requireBothStreams d" "dm_preBufferVideoFrames (dm_core d) = dm_preBufferVideoFrames d"
  "dm_preBufferAudioPackets (dm_core d) = dm_preBufferAudioPackets d" "dm_preBufferEnabled (dm_core d) = dm_preBufferEnabled d"
  by (simp_all add: dm_core_def)

lemma dm_coreD:
  assumes "dm_core d' = dm_core d"
  shows "dm_isOpened d' = dm_isOpened d" "dm_isStarted d' = dm_isStarted d" "dm_url d' = dm_url d"
    "dm_isRealTime d' = dm_isRealTime d" "dm_formatContext d' = dm_formatContext d"
    "dm_videoStreamIndex d' = dm_videoStreamIndex d" "dm_audioStreamIndex d' = dm_audioStreamIndex d"
    "dm_requestInterruption d' = dm_requestInterruption d" "dm_isPaused d' = dm_isPaused d"
    "dm_loopMode d' = dm_loopMode d" "dm_maxLoops d' = dm_maxLoops d"
    "dm_currentLoopCount d' = dm_currentLoopCount d"
    "dm_requireBothStreams d' = dm_requireBothStreams d"
    "dm_preBufferVideoFrames d' = dm_preBufferVideoFrames d"
    "dm_preBufferAudioPackets d' = dm_preBufferAudioPackets d"
    "dm_preBufferEnabled d' = dm_preBufferEnabled d"
  using assms by (metis dm_core_sel)+

lemma dm_core_upd [simp]:
  "dm_core (d\<lparr>dm_videoPacketQueue := v\<rparr>) = dm_core d" "dm_core (d\<lparr>dm_audioPacketQueue := v\<rparr>) = dm_core d"
  "dm_core (d\<lparr>dm_recorder := r\<rparr>) = dm_core d" "dm_core (d\<lparr>dm_preBufferReady := b\<rparr>) = dm_core d"
  "dm_core (d\<lparr>dm_thread := t\<rparr>) = dm_core d" "dm_core (d\<lparr>dm_seekMsPos := s\<rparr>) = dm_core d"
  by (simp_all add: dm_core_def)

lemma core_queues [simp]: "dm_core (set_queue m q d) = dm_core d" "dm_core (map_queues f d) = dm_core d"
  by (simp_all add: set_queue_def map_queues_def)

lemma core_end [simp]: "dm_core (Demuxer_handleEndOfFile api pkt d) = dm_core d"
  by (simp add: Demuxer_handleEndOfFile_def push_end_def Let_def split: option.split)

lemma core_preBuffer [simp]: "dm_core (snd (Demuxer_checkPreBufferStatus d)) = dm_core d"
  by (simp add: Demuxer_checkPreBufferStatus_def Let_def)

lemma core_finish [simp]: "dm_core (snd (dist_finish api m p d)) = dm_core d"
  by (simp add: dist_finish_def)

lemma core_push [simp]: "dm_core (snd (snd (dist_push api m p d))) = dm_core d"
  by (simp add: dist_push_def split: option.split outcome.split prod.split)

lemma core_distribute [simp]: "dm_core (snd (snd (Demuxer_distributePacket api pkt d))) = dm_core d"
  by (simp add: Demuxer_distributePacket_def dist_to_def Let_def split: option.split)

lemma core_seekRequest [simp]: "dm_core (snd (Demuxer_handleSeekRequest io d)) = dm_core d"
  by (simp add: Demuxer_handleSeekRequest_def Let_def)

lemma core_readAndProcess [simp]:
  "dm_core (snd (snd (snd (Demuxer_readAndProcessPacket api io e t d)))) = dm_core d"
  by (simp add: Demuxer_readAndProcessPacket_def Let_def split: prod.split)

subsection \<open>Serial numbers\<close>

definition q_ok :: "PacketQueue \<Rightarrow> bool" where
  "q_ok q \<longleftrightarrow> list_all (\<lambda>p. pk_serial p = pq_serial q) (pq_queue q)"

definition queues_ok :: "Demuxer \<Rightarrow> bool" where
  "queues_ok d \<longleftrightarrow> pred_option q_ok (dm_videoPacketQueue d) \<and> pred_option q_ok (dm_audioPacketQueue d)"

definition pc_ok :: "demux_pc \<Rightarrow> Demuxer \<Rightarrow> bool" where
  "pc_ok pc d = (case pc of DP_Push m p \<Rightarrow> pred_option (\<lambda>q. pk_serial p = pq_serial q) (Demuxer_packetQueue m d)
                 | _ \<Rightarrow> True)"

definition thread_ok :: "Demuxer \<Rightarrow> bool" where
  "thread_ok d = (case dm_thread d of None \<Rightarrow> True | Some t \<Rightarrow> pc_ok (dt_pc t) d)"

definition dm_inv :: "Demuxer \<Rightarrow> bool" where
  "dm_inv d \<longleftrightarrow>
     (dm_isOpened d \<or> \<not> dm_isStarted d \<and> dm_videoPacketQueue d = None \<and> dm_audioPacketQueue d = None)
     \<and> (dm_isStarted d \<or> dm_thread d = None)
     \<and> (dm_isRealTime d \<or> queues_ok d \<and> thread_ok d)"

lemma pk_serial_copy [simp]: "pk_serial (Packet_copy api p) = pk_serial p"
  by (simp add: Packet_copy_def split: option.split prod.split)

lemma push_keeps:
  "pq_serial (snd (PacketQueue_push api p tmo ex q)) = pq_serial q"
  "pk_serial p = pq_serial q \<Longrightarrow> q_ok q \<Longrightarrow> q_ok (snd (PacketQueue_push api p tmo ex q))"
  by (auto simp: pq_defs q_ok_def)

lemma pop_keeps:
  "pq_serial (snd (PacketQueue_pop tmo ex q)) = pq_serial q"
  "q_ok q \<Longrightarrow> q_ok (snd (PacketQueue_pop tmo ex q))"
  by (auto simp: pq_defs q_ok_def split: list.split)

lemma flush_ok [simp]: "q_ok (PacketQueue_flush q)"
  by (simp add: pq_defs q_ok_def)

lemma flush_queues_ok [simp]: "queues_ok (map_queues PacketQueue_flush d)"
  by (simp add: queues_ok_def map_queues_def option.pred_map comp_def option.pred_True)

lemma queues_ok_at: "queues_ok d \<Longrightarrow> Demuxer_packetQueue m d = Some q \<Longrightarrow> q_ok q"
  by (auto simp: queues_ok_def Demuxer_packetQueue_def split: if_splits)

lemma queues_ok_set: "queues_ok d \<Longrightarrow> q_ok q \<Longrightarrow> queues_ok (set_queue m q d)"
  by (auto simp: queues_ok_def set_queue_def)

lemma packetQueue_set:
  "Demuxer_packetQueue m d = Some q0 \<Longrightarrow>
     Demuxer_packetQueue m' (set_queue m q d) = (if m' = m then Some q else Demuxer_packetQueue m' d)"
  by (auto simp: Demuxer_packetQueue_def set_queue_def split: if_splits)

lemma pc_ok_simple [simp]: "pc_ok DP_Loop d" "pc_ok DP_Wait d" "pc_ok DP_Read d" "pc_ok DP_Ended d"
  by (simp_all add: pc_ok_def)

text \<open>The operations that keep the queues.\<close>

definition same_queues :: "Demuxer \<Rightarrow> Demuxer \<Rightarrow> bool" where
  "same_queues d' d \<longleftrightarrow> dm_videoPacketQueue d' = dm_videoPacketQueue d
     \<and> dm_audioPacketQueue d' = dm_audioPacketQueue d"

lemma same_queuesD:
  "same_queues d' d \<Longrightarrow> queues_ok d' = queues_ok d" "same_queues d' d \<Longrightarrow> pc_ok pc d' = pc_ok pc d"
  "same_queues d' d \<Longrightarrow> Demuxer_packetQueue m d' = Demuxer_packetQueue m d"
  by (auto simp: same_queues_def queues_ok_def pc_ok_def Demuxer_packetQueue_def split: demux_pc.split)

lemma finish_same: "same_queues (snd (dist_finish api m p d)) d"
  by (simp add: same_queues_def dist_finish_def Demuxer_checkPreBufferStatus_def Let_def)

lemma preBuffer_same: "same_queues (snd (Demuxer_checkPreBufferStatus d)) d"
  by (simp add: same_queues_def Demuxer_checkPreBufferStatus_def Let_def)

lemma finish_ok: "queues_ok d \<Longrightarrow> queues_ok (snd (dist_finish api m p d))"
  by (simp add: same_queuesD(1) [OF finish_same])

lemma end_ok: "queues_ok d \<Longrightarrow> queues_ok (Demuxer_handleEndOfFile api pkt d)"
proof -
  have "queues_ok (push_end api m pkt d)" if "queues_ok d" for m d
    using that by (auto simp: push_end_def Let_def Packet_setSerial_def PacketQueue_serial_def
        intro!: queues_ok_set push_keeps(2) dest: queues_ok_at split: option.split)
  then show "queues_ok d \<Longrightarrow> queues_ok (Demuxer_handleEndOfFile api pkt d)"
    by (simp add: Demuxer_handleEndOfFile_def)
qed

lemma push_ok:
  assumes "queues_ok d" "pred_option (\<lambda>q. pk_serial p = pq_serial q) (Demuxer_packetQueue m d)"
    and "dist_push api m p d = (pc, evs, d')"
  shows "queues_ok d' \<and> pc_ok pc d'"
proof (cases "Demuxer_packetQueue m d")
  case None
  then show ?thesis using assms finish_ok [of d api m p] by (auto simp: dist_push_def)
next
  case (Some q)
  obtain r q' where e: "PacketQueue_push api p (-1) False q = (r, q')" by fastforce
  have q': "q_ok q'" "pq_serial q' = pq_serial q"
    using push_keeps(1) [of api p "-1" False q] push_keeps(2) [of p q api "-1" False] queues_ok_at [OF assms(1) Some] assms(2) e Some by auto
  show ?thesis
    using assms Some e queues_ok_set [OF assms(1) q'(1), of m] finish_ok [of "set_queue m q' d" api m p]
    by (cases r) (auto simp: dist_push_def pc_ok_def)
qed

lemma distribute_ok:
  assumes "queues_ok d" and "Demuxer_distributePacket api pkt d = (pc, evs, d')"
  shows "queues_ok d' \<and> pc_ok pc d'"
proof -
  have to: "queues_ok d' \<and> pc_ok pc d'" if "dist_to api m p d = (pc, evs, d')" for m p
  proof (cases "Demuxer_packetQueue m d")
    case None
    with that assms(1) finish_ok [of d api m p] show ?thesis by (auto simp: dist_to_def)
  next
    case (Some q)
    with that assms(1) finish_ok [of d api m p]
      push_ok [of d "Packet_setSerial (PacketQueue_serial q) p" m api pc evs d'] show ?thesis
      by (auto simp: dist_to_def Packet_setSerial_def PacketQueue_serial_def split: if_splits)
  qed
  show ?thesis
    using assms to same_queuesD(1) [OF preBuffer_same, of d]
    by (auto simp: Demuxer_distributePacket_def Let_def split: if_splits)
qed

lemma seekRequest_ok: "queues_ok d \<Longrightarrow> queues_ok (snd (Demuxer_handleSeekRequest io d))"
  by (auto simp: Demuxer_handleSeekRequest_def Let_def queues_ok_def map_queues_def option.pred_map
      comp_def option.pred_True)

lemma loopPlayback_ok: "queues_ok d \<Longrightarrow> queues_ok (snd (snd (Demuxer_handleLoopPlayback io d)))"
  using seekRequest_ok [of "d\<lparr>dm_seekMsPos := 0\<rparr>" io]
  by (auto simp: Demuxer_handleLoopPlayback_def Let_def queues_ok_def split: prod.split option.split bool.split)

lemma readAndProcess_ok:
  "queues_ok d \<Longrightarrow> queues_ok (snd (snd (snd (Demuxer_readAndProcessPacket api io e t d))))"
  by (auto simp: Demuxer_readAndProcessPacket_def Let_def end_ok split: prod.split)

lemma core_count:
  assumes "dm_core x = dm_core d"
  shows "dm_core x = (dm_core d)\<lparr>dm_currentLoopCount := dm_currentLoopCount x\<rparr>"
proof -
  have "dm_currentLoopCount x = dm_currentLoopCount (dm_core d)"
    using dm_coreD(12) [OF assms] by (simp add: dm_core_sel)
  with assms show ?thesis by simp
qed

lemma file_read_ok:
  assumes "queues_ok d" "file_read api io t d = (evs, t', d')"
  shows "queues_ok d' \<and> pc_ok (dt_pc t') d'"
proof -
  obtain r evs1 t1 d1 where e: "Demuxer_readAndProcessPacket api io
      (case dt_isEof t of Some b \<Rightarrow> b | None \<Rightarrow> False) t d = (r, evs1, t1, d1)"
    by (metis prod_cases4)
  have q: "queues_ok d1" using readAndProcess_ok [OF assms(1)] e by (metis snd_conv)
  obtain b evs2 d2 where l: "Demuxer_handleLoopPlayback io d1 = (b, evs2, d2)" by (metis prod_cases3)
  have l2: "queues_ok d2" using loopPlayback_ok [OF q, of io] l by simp
  obtain pc evs3 d3 where di: "Demuxer_distributePacket api (snd (io_read io)) d1 = (pc, evs3, d3)"
    by (metis prod_cases3)
  note d3 = distribute_ok [OF q di]
  show ?thesis using assms(2) q l2 d3
    by (auto simp: file_read_def e l di Let_def split: if_splits)
qed

lemma core_loopPlayback:
  "dm_core (snd (snd (Demuxer_handleLoopPlayback io d)))
     = (dm_core d)\<lparr>dm_currentLoopCount := dm_currentLoopCount (snd (snd (Demuxer_handleLoopPlayback io d)))\<rparr>"
proof -
  obtain b d1 where s: "Demuxer_handleSeekRequest io (d\<lparr>dm_seekMsPos := 0\<rparr>) = (b, d1)" by fastforce
  then have c: "dm_core d1 = dm_core d" using core_seekRequest [of io "d\<lparr>dm_seekMsPos := 0\<rparr>"] by simp
  show ?thesis
  proof (cases "snd (snd (Demuxer_handleLoopPlayback io d)) = d1\<lparr>dm_currentLoopCount := dm_currentLoopCount d1 + 1\<rparr>")
    case True
    moreover have "dm_core (d1\<lparr>dm_currentLoopCount := n\<rparr>) = (dm_core d1)\<lparr>dm_currentLoopCount := n\<rparr>" for n
      by (simp add: dm_core_def)
    ultimately show ?thesis by (simp add: c)
  next
    case False
    then have "snd (snd (Demuxer_handleLoopPlayback io d)) \<in> {d, d1}"
      by (auto simp: Demuxer_handleLoopPlayback_def s Let_def split: option.splits bool.splits)
    with c show ?thesis by (auto intro: core_count)
  qed
qed

lemma file_read_core:
  assumes "file_read api io t d = (evs, t', d')"
  shows "dm_core d' = (dm_core d)\<lparr>dm_currentLoopCount := dm_currentLoopCount d'\<rparr>"
proof -
  obtain r evs1 t1 d1 where e: "Demuxer_readAndProcessPacket api io
      (case dt_isEof t of Some b \<Rightarrow> b | None \<Rightarrow> False) t d = (r, evs1, t1, d1)"
    by (metis prod_cases4)
  have c: "dm_core d1 = dm_core d" using core_readAndProcess e by (metis snd_conv)
  obtain b evs2 d2 where l: "Demuxer_handleLoopPlayback io d1 = (b, evs2, d2)" by (metis prod_cases3)
  note c2 = core_loopPlayback [of io d1, unfolded l snd_conv c]
  obtain pc evs3 d3 where di: "Demuxer_distributePacket api (snd (io_read io)) d1 = (pc, evs3, d3)"
    by (metis prod_cases3)
  have c3: "dm_core d3 = dm_core d" using core_distribute [of api "snd (io_read io)" d1] di c by simp
  have "d' = d1 \<or> d' = d2 \<or> d' = d3"
    using assms by (auto simp: file_read_def e l di Let_def split: if_splits)
  then show ?thesis using core_count [OF c] core_count [OF c3] c2 by metis
qed

lemma turn_core:
  assumes "thread_turn api io d = (evs, d')"
  shows "dm_core d' = (dm_core d)\<lparr>dm_currentLoopCount := dm_currentLoopCount d'\<rparr>"
proof -
  show ?thesis
  proof (cases "dm_thread d")
    case None
    with assms have "d' = d" by (simp add: thread_turn_def)
    then show ?thesis by (auto intro: core_count)
  next
    case (Some t)
    obtain evs1 t1 d1 where e: "Demuxer_demuxLoop api io t d = (evs1, t1, d1)" by (metis prod_cases3)
    have d': "d' = d1\<lparr>dm_thread := Some t1\<rparr>" using assms by (simp add: thread_turn_def Some e)
    have "dm_core d1 = (dm_core d)\<lparr>dm_currentLoopCount := dm_currentLoopCount d1\<rparr>"
    proof (cases "dt_pc t")
      case DP_Loop
      show ?thesis
      proof (cases "dm_isRealTime d")
        case True
        let ?d = "if dm_seekMsPos d > 0 then d\<lparr>dm_seekMsPos := -1\<rparr> else d"
        obtain r evs2 t2 d2 where r: "Demuxer_readAndProcessPacket api io False t ?d = (r, evs2, t2, d2)"
          by (metis prod_cases4)
        have c: "dm_core d2 = dm_core d" using core_readAndProcess [of api io False t ?d] r by simp
        obtain pc evs3 d3 where di: "Demuxer_distributePacket api (snd (io_read io)) d2 = (pc, evs3, d3)"
          by (metis prod_cases3)
        have c3: "dm_core d3 = dm_core d" using core_distribute [of api "snd (io_read io)" d2] di c by simp
        have "d1 = d \<or> d1 = d2 \<or> d1 = d3"
          using e True DP_Loop
          by (auto simp: Demuxer_demuxLoop_def Demuxer_realTimeStreamDemuxLoop_def r di split: if_splits)
        with c c3 show ?thesis by (auto intro: core_count)
      next
        case False
        obtain b d2 where s: "Demuxer_handleSeekRequest io d = (b, d2)" by fastforce
        have c: "dm_core d2 = dm_core d" using core_seekRequest [of io d] s by simp
        have "d1 = d \<or> d1 = d2 \<or> file_read api io t d2 = (evs1, t1, d1)"
          using e False DP_Loop
          by (auto simp: Demuxer_demuxLoop_def Demuxer_fileStreamDemuxLoop_def s split: if_splits bool.splits)
        with c show ?thesis by (metis core_count file_read_core)
      qed
    next
      case (DP_Push m p)
      obtain pc where "dist_push api m p d = (pc, evs1, d1)"
        using e by (auto simp: Demuxer_demuxLoop_def DP_Push split: prod.splits)
      then have "dm_core d1 = dm_core d" by (metis core_push snd_conv)
      then show ?thesis by (rule core_count)
    qed (use e in \<open>auto simp: Demuxer_demuxLoop_def intro: core_count dest: file_read_core\<close>)
    then show ?thesis by (simp add: d')
  qed
qed

lemma turn_ok:
  assumes "thread_turn api io d = (evs, d')" "queues_ok d" "thread_ok d" "\<not> dm_isRealTime d"
  shows "queues_ok d' \<and> thread_ok d'"
proof (cases "dm_thread d")
  case None
  with assms show ?thesis by (simp add: thread_turn_def)
next
  case (Some t)
  obtain evs1 t1 d1 where e: "Demuxer_demuxLoop api io t d = (evs1, t1, d1)" by (metis prod_cases3)
  have d': "d' = d1\<lparr>dm_thread := Some t1\<rparr>" using assms(1) by (simp add: thread_turn_def Some e)
  have pc: "pc_ok (dt_pc t) d" using assms(3) by (simp add: thread_ok_def Some)
  have "queues_ok d1 \<and> pc_ok (dt_pc t1) d1"
  proof (cases "dt_pc t")
    case DP_Loop
    obtain b d2 where s: "Demuxer_handleSeekRequest io d = (b, d2)" by fastforce
    have q: "queues_ok d2" using seekRequest_ok [OF assms(2), of io] s by simp
    have "d1 = d \<and> dt_pc t1 = DP_Ended \<or> d1 = d2 \<and> dt_pc t1 \<in> {DP_Loop, DP_Wait}
        \<or> file_read api io t d2 = (evs1, t1, d1)"
      using e assms(4) DP_Loop
      by (auto simp: Demuxer_demuxLoop_def Demuxer_fileStreamDemuxLoop_def s split: if_splits bool.splits)
    with q assms(2) file_read_ok [OF q] show ?thesis by auto
  next
    case (DP_Push m p)
    obtain pc where "dist_push api m p d = (pc, evs1, d1)" "dt_pc t1 = pc"
      using e by (auto simp: Demuxer_demuxLoop_def DP_Push split: prod.splits)
    with push_ok [OF assms(2)] pc show ?thesis by (auto simp: DP_Push pc_ok_def)
  next
    case DP_Read
    with e file_read_ok [OF assms(2)] show ?thesis by (auto simp: Demuxer_demuxLoop_def)
  next
    case DP_Wait
    with e assms(2) show ?thesis
      by (auto simp: Demuxer_demuxLoop_def Demuxer_handleFileStreamPause_def)
  next
    case DP_Ended
    with e assms(2) show ?thesis by (auto simp: Demuxer_demuxLoop_def)
  qed
  moreover have "same_queues d' d1" by (simp add: d' same_queues_def)
  ultimately show ?thesis by (auto simp: same_queuesD thread_ok_def d')
qed

lemma dm_inv_same:
  assumes "dm_inv d" "same_queues d' d" "dm_thread d' = dm_thread d" "dm_isOpened d' = dm_isOpened d"
    "dm_isStarted d' = dm_isStarted d" "dm_isRealTime d' = dm_isRealTime d"
  shows "dm_inv d'"
  using assms same_queuesD [OF assms(2)]
  by (auto simp: dm_inv_def thread_ok_def same_queues_def split: option.splits)

lemma dm_inv_play:
  assumes "dm_inv d" "dm_play api d evs d'"
  shows "dm_inv d'"
  using assms(2)
proof cases
  case (turn io)
  note c = turn_core [OF turn]
  have f: "dm_isOpened d' = dm_isOpened d" "dm_isStarted d' = dm_isStarted d" "dm_isRealTime d' = dm_isRealTime d"
    using arg_cong [OF c, of dm_isOpened] arg_cong [OF c, of dm_isStarted] arg_cong [OF c, of dm_isRealTime]
    by (simp_all add: dm_core_sel)
  show ?thesis
  proof (cases "dm_thread d = None")
    case True
    with turn have "d' = d" by (simp add: thread_turn_def)
    with assms(1) show ?thesis by simp
  next
    case False
    with assms(1) turn_ok [OF turn] f show ?thesis by (auto simp: dm_inv_def)
  qed
next
  case (pop m q tmo ex r q')
  have q': "pq_serial q' = pq_serial q" "q_ok q \<Longrightarrow> q_ok q'"
    using pop_keeps(1) [of tmo ex q] pop_keeps(2) [of q tmo ex] pop(4) by auto
  have s: "dm_thread d' = dm_thread d" "dm_isOpened d' = dm_isOpened d" "dm_isRealTime d' = dm_isRealTime d"
    "dm_isStarted d' = dm_isStarted d"
    by (simp_all add: pop set_queue_def)
  have o: "dm_isOpened d" using assms(1) pop(3) by (auto simp: dm_inv_def Demuxer_packetQueue_def split: if_splits)
  have pc: "pc_ok pc d' = pc_ok pc d" for pc
    using packetQueue_set [OF pop(3), of _ q'] q' pop(3)
    by (auto simp: pc_ok_def pop(2) split: demux_pc.split)
  show ?thesis
    using assms(1) s o pc queues_ok_set [of d q' m] q' queues_ok_at [OF _ pop(3)]
    by (auto simp: dm_inv_def thread_ok_def pop(2) split: option.splits)
next
  case (resume b)
  show ?thesis
  proof (cases "dm_isRealTime d \<and> d' \<noteq> d")
    case True
    then have "dm_isOpened d" "d' = (map_queues PacketQueue_flush d)\<lparr>dm_isPaused := False\<rparr>"
      using resume by (auto simp: Demuxer_resume_def Demuxer_resumeInternal_def split: if_splits)
    with True assms(1) show ?thesis by (simp add: dm_inv_def map_queues_def)
  next
    case False
    then have "d' = d \<or> d' = d\<lparr>dm_isPaused := False\<rparr>"
      using resume by (auto simp: Demuxer_resume_def Demuxer_resumeInternal_def split: if_splits)
    then show ?thesis using assms(1) by (auto intro: dm_inv_same simp: same_queues_def)
  qed
next
  case (pause b)
  then have "d' = d \<or> d' = d\<lparr>dm_isPaused := True\<rparr>"
    by (auto simp: Demuxer_pause_def Demuxer_pauseInternal_def split: if_splits)
  then show ?thesis using assms(1) by (auto intro: dm_inv_same simp: same_queues_def)
next
  case (seek pos b)
  then have "\<exists>s. d' = d \<or> d' = d\<lparr>dm_seekMsPos := s\<rparr>"
    by (auto simp: Demuxer_seek_def split: if_splits double.splits)
  then show ?thesis using assms(1) by (auto intro: dm_inv_same simp: same_queues_def)
next
  case (recorder r)
  then show ?thesis using assms(1) by (auto intro: dm_inv_same simp: same_queues_def)
qed

lemma stop_cases:
  assumes "Demuxer_stop d = (res, d')"
  shows "d' = d \<and> \<not> dm_isStarted d \<and> res = Ret ()
    \<or> res = Wait \<and> d' = (map_queues PacketQueue_abort d)\<lparr>dm_requestInterruption := True\<rparr>
    \<or> res = Ret () \<and> d' = (map_queues PacketQueue_abort d)
        \<lparr>dm_requestInterruption := True, dm_thread := None, dm_isStarted := False\<rparr>"
  using assms
  by (auto simp: Demuxer_stop_def Let_def map_queues_def split: if_splits option.splits)

lemma abort_inv:
  assumes "dm_inv d" "dm_isOpened d"
  shows "dm_inv ((map_queues PacketQueue_abort d)\<lparr>dm_requestInterruption := True\<rparr>)"
proof -
  have q: "q_ok (PacketQueue_abort q) = q_ok q" "pq_serial (PacketQueue_abort q) = pq_serial q" for q
    by (simp_all add: pq_defs q_ok_def)
  then show ?thesis
    using assms
    by (auto simp: dm_inv_def queues_ok_def map_queues_def thread_ok_def pc_ok_def option.pred_map comp_def
        Demuxer_packetQueue_def split: option.splits demux_pc.splits)
qed

lemma closeInternal_inv:
  assumes "dm_inv d" "Demuxer_closeInternal d = (res, evs, d')"
  shows "dm_inv d'" "res = Wait \<or> res = Ret True \<and> \<not> dm_isOpened d'"
proof -
  obtain r d1 where s: "Demuxer_stop d = (r, d1)" by fastforce
  have "dm_inv d' \<and> (res = Wait \<or> res = Ret True \<and> \<not> dm_isOpened d')"
  proof (cases "dm_isOpened d")
    case False
    then have "d1 = d" "r = Ret ()" using s assms(1) by (auto simp: dm_inv_def Demuxer_stop_def)
    with False assms show ?thesis by (auto simp: Demuxer_closeInternal_def s)
  next
    case True
    have o: "dm_isOpened d1" using stop_cases [OF s] True by (auto simp: map_queues_def)
    from stop_cases [OF s] consider "r = Wait" "d1 = (map_queues PacketQueue_abort d)\<lparr>dm_requestInterruption := True\<rparr>"
      | "r = Ret ()" "dm_thread d1 = None" "\<not> dm_isStarted d1"
      using assms(1) by (auto simp: dm_inv_def)
    then show ?thesis
    proof cases
      case 1
      with abort_inv [OF assms(1) True] assms(2) show ?thesis by (auto simp: Demuxer_closeInternal_def s)
    next
      case 2
      with assms(2) o show ?thesis
        by (auto simp: Demuxer_closeInternal_def s Let_def Demuxer_clearPreBufferCallback_def dm_inv_def
            queues_ok_def thread_ok_def)
    qed
  qed
  then show "dm_inv d'" "res = Wait \<or> res = Ret True \<and> \<not> dm_isOpened d'" by auto
qed

lemma opened_state_sel:
  "dm_isOpened (opened_state oc fc url config cb d)"
  "dm_isStarted (opened_state oc fc url config cb d)"
  "dm_isRealTime (opened_state oc fc url config cb d) = isRealtime url"
  "dm_formatContext (opened_state oc fc url config cb d) = Some fc"
  "dm_url (opened_state oc fc url config cb d) = url"
  "dm_isPaused (opened_state oc fc url config cb d) = dm_isPaused d"
  "dm_seekMsPos (opened_state oc fc url config cb d) = dm_seekMsPos d"
  "dm_videoStreamIndex (opened_state oc fc url config cb d) = oc_best_video oc"
  "dm_audioStreamIndex (opened_state oc fc url config cb d) = oc_best_audio oc"
  by (simp_all add: opened_state_def Demuxer_start_def Demuxer_setPreBufferConfig_def map_queues_def Let_def)

lemma opened_state_fresh:
  assumes "\<not> dm_isStarted d" "dm_videoPacketQueue d = None" "dm_audioPacketQueue d = None"
  shows "dm_videoPacketQueue (opened_state oc fc url config cb d)
       = (if oc_best_video oc \<ge> 0 \<and> cfg_decodeMediaType config AND kVideo \<noteq> 0
          then Some (PacketQueue_start (PacketQueue_new 1000)) else None)"
    and "dm_audioPacketQueue (opened_state oc fc url config cb d)
       = (if oc_best_audio oc \<ge> 0 \<and> cfg_decodeMediaType config AND kAudio \<noteq> 0
          then Some (PacketQueue_start (PacketQueue_new 1000)) else None)"
    and "dm_thread (opened_state oc fc url config cb d)
       = Some \<lparr>dt_pc = DP_Loop, dt_occuredErrorTime = None, dt_readFirstPacket = False, dt_isEof = None\<rparr>"
    and "\<not> dm_requestInterruption (opened_state oc fc url config cb d)"
  using assms
  by (simp_all add: opened_state_def Demuxer_start_def Demuxer_setPreBufferConfig_def map_queues_def Let_def)

lemma open_stream_inv:
  assumes "dm_inv d" "\<not> dm_isOpened d" "open_stream oc url config cb d = (ok, evs, d')"
  shows "dm_inv d'"
proof -
  have n: "\<not> dm_isStarted d" "dm_videoPacketQueue d = None" "dm_audioPacketQueue d = None" "dm_thread d = None"
    using assms(1,2) by (auto simp: dm_inv_def)
  have new: "q_ok (PacketQueue_start (PacketQueue_new k))" for k
    by (simp add: q_ok_def PacketQueue_start_def PacketQueue_new_def)
  obtain ret fc where e: "oc_open_input oc url (open_options (isRealtime url) (cfg_rtspTransport config)) = (ret, fc)"
    by fastforce
  show ?thesis
  proof (cases ok)
    case False
    then have "same_queues d' d \<and> dm_thread d' = dm_thread d \<and> dm_isOpened d' = dm_isOpened d
        \<and> dm_isStarted d' = dm_isStarted d \<and> dm_isRealTime d' = dm_isRealTime d"
      using assms(3) by (auto simp: open_stream_def e Let_def same_queues_def split: if_splits)
    then show ?thesis using dm_inv_same [OF assms(1)] by blast
  next
    case True
    then have "d' = opened_state oc fc url config cb d"
      using assms(3) by (auto simp: open_stream_def e Let_def split: if_splits)
    then show ?thesis using new
      by (simp add: dm_inv_def queues_ok_def thread_ok_def opened_state_sel opened_state_fresh [OF n(1-3)])
  qed
qed

lemma dm_inv_step:
  assumes "dm_inv d" "dm_step api d evs d'"
  shows "dm_inv d'"
proof -
  have opened: "dm_inv d'" if o: "Demuxer_open oc url config cb d = (res, evs, d')" for oc url config cb res
  proof (cases "dm_isOpened d")
    case True
    obtain r evs1 d1 where c: "Demuxer_closeInternal d = (r, evs1, d1)" by (metis prod_cases3)
    note ci = closeInternal_inv [OF assms(1) c]
    show ?thesis using ci o True
      by (auto simp: Demuxer_open_def Demuxer_openInternal_def c dest: open_stream_inv split: prod.splits)
  next
    case False
    with o show ?thesis
      by (auto simp: Demuxer_open_def Demuxer_openInternal_def dest: open_stream_inv [OF assms(1)] split: prod.splits)
  qed
  have rec: "dm_inv (d\<lparr>dm_recorder := r\<rparr>)" for r
    by (rule dm_inv_same [OF assms(1)]) (simp_all add: same_queues_def)
  show ?thesis using assms(2)
  proof cases
    case play
    with assms(1) show ?thesis by (rule dm_inv_play)
  next
    case (closes res)
    obtain r d1 evs1 evs2 where d1: "d1 = d \<or> d1 = d\<lparr>dm_recorder := r\<rparr>"
      "Demuxer_closeInternal d1 = (res, evs2, d')"
      using closes by (auto simp: Demuxer_close_def Demuxer_stopRecording_def split: if_splits prod.splits)
    then have "dm_inv d1" using rec assms(1) by auto
    with d1 show ?thesis by (blast dest: closeInternal_inv)
  next
    case (start_recording mx ma path b)
    then have "\<exists>r. d' = d \<or> d' = d\<lparr>dm_recorder := r\<rparr>"
      by (auto simp: Demuxer_startRecording_def split: if_splits prod.splits option.splits)
    with rec assms(1) show ?thesis by auto
  next
    case (stop_recording b)
    then have "\<exists>r. d' = d\<lparr>dm_recorder := r\<rparr>"
      by (auto simp: Demuxer_stopRecording_def split: prod.splits)
    with rec show ?thesis by auto
  next
    case (loop_mode mode n)
    show ?thesis
      by (rule dm_inv_same [OF assms(1)]) (simp_all add: loop_mode Demuxer_setLoopMode_def Let_def same_queues_def)
  next
    case reset_loops
    show ?thesis
      by (rule dm_inv_same [OF assms(1)]) (simp_all add: reset_loops Demuxer_resetLoopCount_def same_queues_def)
  qed (auto intro: opened)
qed

interpretation serials: inductive_invariant "\<lambda>d. d = Demuxer_new" "dm_step api" dm_inv for api
proof unfold_locales
  show "\<And>s. s = Demuxer_new \<Longrightarrow> dm_inv s"
    by (simp add: Demuxer_new_def dm_inv_def queues_ok_def thread_ok_def)
qed (rule dm_inv_step)

subsection \<open>Counting loops\<close>

fun is_loop :: "demux_event \<Rightarrow> bool" where
  "is_loop (LoopEvent _ _ _ _) = True"
| "is_loop _ = False"

definition may_loop :: "Demuxer \<Rightarrow> bool" where
  "may_loop d \<longleftrightarrow> dm_loopMode d \<noteq> LM_kNone
     \<and> \<not> (dm_loopMode d = LM_kSingle \<and> sint (dm_maxLoops d) > 0 \<and> sint (dm_currentLoopCount d) \<ge> sint (dm_maxLoops d))"

text \<open>One more loop was counted and reported, or none.\<close>

definition loops_once :: "Demuxer \<Rightarrow> demux_event list \<Rightarrow> Demuxer \<Rightarrow> bool" where
  "loops_once d evs d' \<longleftrightarrow>
     dm_currentLoopCount d' = dm_currentLoopCount d \<and> filter is_loop evs = []
     \<or> may_loop d \<and> dm_currentLoopCount d' = dm_currentLoopCount d + 1 \<and> length (filter is_loop evs) = 1"

lemma loops_once_none:
  assumes "dm_core d' = dm_core d" "filter is_loop evs = []"
  shows "loops_once d evs d'"
  by (simp add: loops_once_def assms(2) dm_coreD(12) [OF assms(1)])

lemma may_loop_core:
  assumes "dm_core d' = dm_core d"
  shows "may_loop d' = may_loop d"
  by (simp add: may_loop_def dm_coreD(10-12) [OF assms])

lemma finish_no_loop: "filter is_loop (fst (dist_finish api m p d)) = []"
  by (simp add: dist_finish_def Demuxer_checkPreBufferStatus_def Let_def)

lemma push_no_loop: "filter is_loop (fst (snd (dist_push api m p d))) = []"
  by (simp add: dist_push_def finish_no_loop split: option.split outcome.split prod.split)

lemma distribute_no_loop: "filter is_loop (fst (snd (Demuxer_distributePacket api pkt d))) = []"
  by (simp add: Demuxer_distributePacket_def dist_to_def Let_def finish_no_loop push_no_loop
      Demuxer_checkPreBufferStatus_def split: option.split)

lemma read_no_loop: "filter is_loop (fst (snd (Demuxer_readAndProcessPacket api io e t d))) = []"
  by (simp add: Demuxer_readAndProcessPacket_def Demuxer_handleReadError_def Let_def split: prod.split)

lemma loopPlayback_loops:
  assumes "Demuxer_handleLoopPlayback io d = (b, evs, d')"
  shows "loops_once d evs d'"
proof -
  obtain b d1 where s: "Demuxer_handleSeekRequest io (d\<lparr>dm_seekMsPos := 0\<rparr>) = (b, d1)" by fastforce
  then have "dm_core d1 = dm_core d" using core_seekRequest [of io "d\<lparr>dm_seekMsPos := 0\<rparr>"] by simp
  then have c: "dm_currentLoopCount d1 = dm_currentLoopCount d" by (rule dm_coreD)
  have "may_loop d \<or> d' = d \<and> evs = []"
    using assms by (auto simp: Demuxer_handleLoopPlayback_def may_loop_def split: if_splits)
  then show ?thesis
    using assms c
    by (auto simp: Demuxer_handleLoopPlayback_def s loops_once_def Let_def split: if_splits option.splits bool.splits)
qed

lemma file_read_loops:
  assumes "file_read api io t d = (evs, t', d')"
  shows "loops_once d evs d'"
proof -
  obtain r evs1 t1 d1 where e: "Demuxer_readAndProcessPacket api io
      (case dt_isEof t of Some b \<Rightarrow> b | None \<Rightarrow> False) t d = (r, evs1, t1, d1)"
    by (metis prod_cases4)
  have c: "dm_core d1 = dm_core d" "filter is_loop evs1 = []"
    using core_readAndProcess read_no_loop e by (metis snd_conv fst_conv)+
  obtain b evs2 d2 where l: "Demuxer_handleLoopPlayback io d1 = (b, evs2, d2)" by (metis prod_cases3)
  have l2: "loops_once d evs2 d2"
    using loopPlayback_loops [OF l] may_loop_core [OF c(1)] dm_coreD(12) [OF c(1)] by (simp add: loops_once_def)
  obtain pc evs3 d3 where di: "Demuxer_distributePacket api (snd (io_read io)) d1 = (pc, evs3, d3)"
    by (metis prod_cases3)
  have c3: "dm_core d3 = dm_core d" "filter is_loop evs3 = []"
    using core_distribute [of api "snd (io_read io)" d1] distribute_no_loop [of api "snd (io_read io)" d1] di c(1)
    by simp_all
  have "d' = d1 \<and> evs = evs1 \<or> d' = d3 \<and> evs = evs1 @ evs3
      \<or> d' = d2 \<and> evs = evs1 @ StreamEvent EV_kStreamEnded (dm_url d1) ''Stream Ended'' None # evs2"
    using assms by (auto simp: file_read_def e l di Let_def split: if_splits)
  then show ?thesis
    using loops_once_none [OF c] loops_once_none [OF c3] l2 c(2) by (auto simp: loops_once_def)
qed

lemma turn_loops:
  assumes "thread_turn api io d = (evs, d')"
  shows "loops_once d evs d'"
proof (cases "dm_thread d")
  case None
  with assms show ?thesis by (auto simp: thread_turn_def loops_once_def)
next
  case (Some t)
  obtain t1 d1 where e: "Demuxer_demuxLoop api io t d = (evs, t1, d1)" and d': "d' = d1\<lparr>dm_thread := Some t1\<rparr>"
    using assms by (auto simp: thread_turn_def Some split: prod.splits)
  have "loops_once d evs d1"
  proof (cases "dt_pc t")
    case DP_Loop
    show ?thesis
    proof (cases "dm_isRealTime d")
      case True
      let ?d = "if dm_seekMsPos d > 0 then d\<lparr>dm_seekMsPos := -1\<rparr> else d"
      obtain r evs2 t2 d2 where r: "Demuxer_readAndProcessPacket api io False t ?d = (r, evs2, t2, d2)"
        by (metis prod_cases4)
      have c: "dm_core d2 = dm_core d" "filter is_loop evs2 = []"
        using core_readAndProcess [of api io False t ?d] read_no_loop [of api io False t ?d] r by simp_all
      obtain pc evs3 d3 where di: "Demuxer_distributePacket api (snd (io_read io)) d2 = (pc, evs3, d3)"
        by (metis prod_cases3)
      have c3: "dm_core d3 = dm_core d" "filter is_loop evs3 = []"
        using core_distribute [of api "snd (io_read io)" d2] distribute_no_loop [of api "snd (io_read io)" d2] di c(1)
        by simp_all
      have "d1 = d \<and> evs = [] \<or> d1 = d2 \<and> evs = evs2 \<or> d1 = d3 \<and> evs = evs2 @ evs3"
        using e True DP_Loop
        by (auto simp: Demuxer_demuxLoop_def Demuxer_realTimeStreamDemuxLoop_def r di split: if_splits)
      with c c3 show ?thesis by (auto intro: loops_once_none)
    next
      case False
      obtain b d2 where s: "Demuxer_handleSeekRequest io d = (b, d2)" by fastforce
      have c: "dm_core d2 = dm_core d" using core_seekRequest [of io d] s by simp
      have "d1 = d \<and> evs = [] \<or> d1 = d2 \<and> evs = [] \<or> file_read api io t d2 = (evs, t1, d1)"
        using e False DP_Loop
        by (auto simp: Demuxer_demuxLoop_def Demuxer_fileStreamDemuxLoop_def s split: if_splits bool.splits)
      with c file_read_loops [of api io t d2 evs t1 d1] may_loop_core [OF c] dm_coreD(12) [OF c]
      show ?thesis by (auto simp: loops_once_def)
    qed
  next
    case (DP_Push m p)
    obtain pc where "dist_push api m p d = (pc, evs, d1)"
      using e by (auto simp: Demuxer_demuxLoop_def DP_Push split: prod.splits)
    then have "dm_core d1 = dm_core d" "filter is_loop evs = []"
      by (metis core_push snd_conv, metis push_no_loop fst_conv snd_conv)
    then show ?thesis by (rule loops_once_none)
  qed (use e in \<open>auto simp: Demuxer_demuxLoop_def loops_once_def dest: file_read_loops\<close>)
  then show ?thesis by (simp add: loops_once_def d')
qed

text \<open>A stream that is played at most \<open>m\<close> more times: the loop counter and the reported loops.\<close>

definition loops_limited :: "int \<Rightarrow> Demuxer \<Rightarrow> bool" where
  "loops_limited m d \<longleftrightarrow> dm_loopMode d = LM_kSingle \<and> sint (dm_maxLoops d) = m \<and> 0 < m
     \<and> sint (dm_currentLoopCount d) \<le> m"

lemma sint_Suc:
  fixes a b :: u32
  assumes "sint a < sint b"
  shows "sint (a + 1) = sint a + 1"
proof -
  have "sint b < 2 ^ 31" using sint_lt [of b] by simp
  moreover have "- (2 ^ 31) \<le> sint a" using sint_ge [of a] by simp
  ultimately show ?thesis
    using assms by (simp add: sint_word_ariths signed_take_bit_int_eq_self)
qed

lemma play_config:
  assumes "dm_play api d evs d'"
  shows "dm_loopMode d' = dm_loopMode d \<and> dm_maxLoops d' = dm_maxLoops d
    \<and> loops_once d evs d'"
  using assms
proof cases
  case (turn io)
  note c = turn_core [OF turn]
  show ?thesis
    using arg_cong [OF c, of dm_loopMode] arg_cong [OF c, of dm_maxLoops] turn_loops [OF turn]
    by (simp add: dm_core_sel)
qed (auto simp: loops_once_def set_queue_def Demuxer_seek_def Demuxer_pause_def Demuxer_pauseInternal_def
    Demuxer_resume_def Demuxer_resumeInternal_def map_queues_def split: if_splits double.splits)

interpretation loops: counting_system "loops_limited m" "dm_play api" "loops_limited m"
    "\<lambda>d. sint (dm_currentLoopCount d)" is_loop for m api
proof unfold_locales
  fix d evs d'
  assume l: "loops_limited m d" and p: "dm_play api d evs d'"
  note c = play_config [OF p]
  have s: "sint (dm_currentLoopCount d + 1) = sint (dm_currentLoopCount d) + 1" if "may_loop d"
    using that l by (intro sint_Suc [of _ "dm_maxLoops d"]) (auto simp: may_loop_def loops_limited_def)
  show "loops_limited m d'"
    using l c s by (auto simp: loops_limited_def loops_once_def may_loop_def)
  show "sint (dm_currentLoopCount d') = sint (dm_currentLoopCount d) + int (length (filter is_loop evs))"
    using c s by (auto simp: loops_once_def)
qed simp

subsection \<open>Turns of the thread\<close>

fun turns :: "packet_api \<Rightarrow> io_calls list \<Rightarrow> Demuxer \<Rightarrow> demux_event list \<times> Demuxer" where
  "turns api [] d = ([], d)"
| "turns api (io # ios) d =
     (case thread_turn api io d of (evs, d1) \<Rightarrow> (case turns api ios d1 of (evs2, d2) \<Rightarrow> (evs @ evs2, d2)))"

definition hard_error :: "io_calls \<Rightarrow> bool" where
  "hard_error io \<longleftrightarrow> fst (io_read io) < 0 \<and> fst (io_read io) \<noteq> AVERROR_EOF \<and> fst (io_read io) \<noteq> AVERROR_EAGAIN
     \<and> \<not> io_feof io"

definition at_head :: "Demuxer \<Rightarrow> demux_thread \<Rightarrow> bool" where
  "at_head d t \<longleftrightarrow> dm_thread d = Some t \<and> dt_pc t = DP_Loop \<and> \<not> dm_requestInterruption d
     \<and> \<not> dm_isPaused d \<and> dm_seekMsPos d < 0"

lemma dt_pc_same [simp]: "dt_pc t = pc \<Longrightarrow> t\<lparr>dt_pc := pc\<rparr> = t"
  by (cases t) simp

lemma dt_swap [simp]: "t\<lparr>dt_pc := pc, dt_occuredErrorTime := e\<rparr> = t\<lparr>dt_occuredErrorTime := e, dt_pc := pc\<rparr>"
  by (cases t) simp

lemma three_seconds: "kReadErrorMaxInterval \<le> x div 1000000000 \<longleftrightarrow> 3000000000 \<le> x"
proof -
  have "x = 1000000000 * (x div 1000000000) + x mod 1000000000" by simp
  moreover have "0 \<le> x mod 1000000000" "x mod 1000000000 < 1000000000" by simp_all
  ultimately show ?thesis unfolding kReadErrorMaxInterval_def by linarith
qed

lemma hard_error_read:
  "hard_error io \<Longrightarrow> Demuxer_readAndProcessPacket api io b t d
     = (case Demuxer_handleReadError io t d of (r, evs, t1) \<Rightarrow> (r, evs, t1, d))"
  by (cases "io_read io") (auto simp: hard_error_def Demuxer_readAndProcessPacket_def)

lemma error_turn:
  assumes "at_head d t" "hard_error io"
  shows "thread_turn api io d =
    (case Demuxer_handleReadError io t d of
       (r, evs, t1) \<Rightarrow> (evs, d\<lparr>dm_thread := Some (t1\<lparr>dt_pc := (if r = -2 then DP_Ended else DP_Loop)\<rparr>)\<rparr>))"
proof -
  obtain r evs t1 where h: "Demuxer_handleReadError io t d = (r, evs, t1)" by (metis prod_cases3)
  have r: "r = -2 \<or> r = -1"
    using h by (auto simp: Demuxer_handleReadError_def Let_def split: if_splits)
  have s: "Demuxer_handleSeekRequest io d = (False, d)"
    using assms(1) by (simp add: at_head_def Demuxer_handleSeekRequest_def)
  show ?thesis
  proof (cases "dm_isRealTime d")
    case True
    with assms r show ?thesis
      by (auto simp: thread_turn_def at_head_def Demuxer_demuxLoop_def Demuxer_realTimeStreamDemuxLoop_def
          hard_error_read h)
  next
    case False
    with assms r show ?thesis
      by (auto simp: thread_turn_def at_head_def Demuxer_demuxLoop_def Demuxer_fileStreamDemuxLoop_def s
          file_read_def hard_error_read h)
  qed
qed

lemma errors_below_limit:
  assumes "at_head d t" "dt_occuredErrorTime t = Some s" "list_all hard_error ios"
    and "\<forall>io \<in> set ios. io_now io - s < 3000000000"
  shows "turns api ios d = ([], d)"
  using assms(3,4)
proof (induction ios)
  case Nil
  then show ?case by simp
next
  case (Cons io ios)
  have "Demuxer_handleReadError io t d = (-1, [], t)"
    using Cons.prems assms(2) by (cases t) (simp add: Demuxer_handleReadError_def three_seconds)
  then have "thread_turn api io d = ([], d\<lparr>dm_thread := Some t\<rparr>)"
    using error_turn [OF assms(1), of io api] Cons.prems assms(1) by (simp add: at_head_def)
  also have "d\<lparr>dm_thread := Some t\<rparr> = d" using assms(1) by (simp add: at_head_def)
  finally show ?case using Cons by simp
qed

subsection \<open>At the end of a file\<close>

lemma checkPreBuffer_cases:
  assumes "Demuxer_checkPreBufferStatus d = (evs, d')"
  shows "evs = [] \<and> d' = d \<or> \<not> dm_preBufferReady d \<and> d' = d\<lparr>dm_preBufferReady := True\<rparr>
      \<and> evs = (if dm_preBufferReadyCallback d then [PreBufferCallback] else [])"
proof -
  have "Demuxer_checkPreBufferStatus d = ([], d) \<or> \<not> dm_preBufferReady d \<and> Demuxer_checkPreBufferStatus d
      = (if dm_preBufferReadyCallback d then [PreBufferCallback] else [], d\<lparr>dm_preBufferReady := True\<rparr>)"
    unfolding Demuxer_checkPreBufferStatus_def Let_def by presburger
  with assms show ?thesis by auto
qed

definition is_ended :: "demux_event \<Rightarrow> bool" where
  "is_ended e = (case e of StreamEvent ty _ _ _ \<Rightarrow> ty = EV_kStreamEnded | _ \<Rightarrow> False)"

text \<open>A file stream with a video queue that has been read to its end and whose packets, the end
  packet included, have been taken.\<close>

definition at_end :: "Demuxer \<Rightarrow> bool" where
  "at_end d \<longleftrightarrow> (\<exists>t q. at_head d t \<and> dt_isEof t = Some True \<and> \<not> dm_isRealTime d \<and> dm_loopMode d = LM_kNone
     \<and> 0 \<le> dm_videoStreamIndex d \<and> dm_videoPacketQueue d = Some q \<and> pq_queue q = [] \<and> \<not> pq_aborted q
     \<and> 0 < pq_maxPacketCount q \<and> dm_audioPacketQueue d = None)"

lemma eof_turn:
  assumes "at_head d t" "\<not> dm_isRealTime d" "fst (io_read io) = AVERROR_EOF"
  shows "thread_turn api io d =
    (case file_read api io t d of (evs, t1, d1) \<Rightarrow> (evs, d1\<lparr>dm_thread := Some t1\<rparr>))"
  using assms
  by (simp add: thread_turn_def at_head_def Demuxer_demuxLoop_def Demuxer_fileStreamDemuxLoop_def
      Demuxer_handleSeekRequest_def)

lemma eof_read:
  fixes io :: io_calls
  assumes "fst (io_read io) = AVERROR_EOF" "\<not> dm_isRealTime d"
  shows "Demuxer_readAndProcessPacket api io e t d =
    (1, [], t, if e then d else Demuxer_handleEndOfFile api (snd (io_read io)) d)"
proof -
  have "\<not> dm_isRealTime (Demuxer_handleEndOfFile api p d)" for p
    using dm_coreD(4) [OF core_end] assms(2) by simp
  then show ?thesis
    using assms by (cases "io_read io") (simp add: Demuxer_readAndProcessPacket_def AVERROR_EOF_def)
qed

lemma is_ended_simps [simp]:
  "is_ended (StreamEvent ty u x n) \<longleftrightarrow> ty = EV_kStreamEnded"
  by (simp add: is_ended_def)

lemma ended_again:
  fixes io :: io_calls
  assumes "at_end d" "fst (io_read io) = AVERROR_EOF"
  shows "\<exists>d'. exec (dm_play api) d [[StreamEvent EV_kStreamEnded (dm_url d) ''Stream Ended'' None], [], []] d' \<and> at_end d'"
proof -
  obtain t q where a: "at_head d t" "dt_isEof t = Some True" "\<not> dm_isRealTime d" "dm_loopMode d = LM_kNone"
    "0 \<le> dm_videoStreamIndex d" "dm_videoPacketQueue d = Some q" "pq_queue q = []" "\<not> pq_aborted q"
    "0 < pq_maxPacketCount q" "dm_audioPacketQueue d = None"
    using assms(1) unfolding at_end_def by blast
  have h: "dm_thread d = Some t" "dt_pc t = DP_Loop" using a(1) by (auto simp: at_head_def)
  let ?d1 = "d\<lparr>dm_thread := Some (t\<lparr>dt_isEof := None\<rparr>)\<rparr>"
  let ?t1 = "t\<lparr>dt_isEof := None\<rparr>"
  have t1: "t\<lparr>dt_isEof := Some True, dt_pc := DP_Loop, dt_isEof := None\<rparr> = ?t1"
    "?t1\<lparr>dt_isEof := Some True, dt_pc := DP_Loop\<rparr> = t"
    using h(2) a(2) by (cases t; simp)+
  have f: "file_read api io t d = ([StreamEvent EV_kStreamEnded (dm_url d) ''Stream Ended'' None], ?t1, d)"
    using a t1(1) eof_read [OF assms(2) a(3), of api True t]
    by (simp add: file_read_def queue_empty_def PacketQueue_isEmpty_def Demuxer_handleLoopPlayback_def)
  have s1: "thread_turn api io d = ([StreamEvent EV_kStreamEnded (dm_url d) ''Stream Ended'' None], ?d1)"
    using eof_turn [OF a(1,3) assms(2), of api] f by simp
  obtain q1 p where q1: "push_end api AVMEDIA_TYPE_VIDEO (snd (io_read io)) ?d1 = ?d1\<lparr>dm_videoPacketQueue := Some q1\<rparr>"
    "pq_queue q1 = [p]" "\<not> pq_aborted q1" "0 < pq_maxPacketCount q1"
    using a by (simp add: push_end_def Demuxer_packetQueue_def Demuxer_streamIndex_def Let_def set_queue_def
        PacketQueue_push_def PacketQueue_canPush_def PacketQueue_updateStatisticsOnPush_def)
  let ?d2 = "d\<lparr>dm_videoPacketQueue := Some q1\<rparr>"
  have e: "Demuxer_handleEndOfFile api (snd (io_read io)) ?d1 = ?d1\<lparr>dm_videoPacketQueue := Some q1\<rparr>"
    using q1(1) a(10) by (simp add: Demuxer_handleEndOfFile_def push_end_def [of _ AVMEDIA_TYPE_AUDIO] Demuxer_packetQueue_def)
  have f2: "file_read api io ?t1 ?d1 = ([], t, ?d1\<lparr>dm_videoPacketQueue := Some q1\<rparr>)"
    using a t1(2) eof_read [OF assms(2), of ?d1 api False ?t1] e q1(2)
    by (simp add: file_read_def queue_empty_def PacketQueue_isEmpty_def)
  have d2: "?d1\<lparr>dm_videoPacketQueue := Some q1, dm_thread := Some t\<rparr> = ?d2"
    using h(1) by simp
  have "at_head ?d1 ?t1" using a(1) by (simp add: at_head_def)
  from eof_turn [OF this _ assms(2), of api] have s2: "thread_turn api io ?d1 = ([], ?d2)"
    using f2 a(3) d2 by simp
  obtain q2 where q2: "PacketQueue_pop 0 False q1 = (Ret (Some p), q2)" "pq_queue q2 = []" "\<not> pq_aborted q2"
    "0 < pq_maxPacketCount q2"
    using q1 by (simp add: pq_defs)
  have "Demuxer_packetQueue AVMEDIA_TYPE_VIDEO ?d2 = Some q1" by (simp add: Demuxer_packetQueue_def)
  from dm_play.pop [OF this q2(1)] have s3: "dm_play api ?d2 [] (set_queue AVMEDIA_TYPE_VIDEO q2 ?d2)" .
  have "at_end (set_queue AVMEDIA_TYPE_VIDEO q2 ?d2)"
    unfolding at_end_def using a q2 by (intro exI [of _ t] exI [of _ q2]) (simp add: set_queue_def at_head_def)
  moreover have "exec (dm_play api) d [[StreamEvent EV_kStreamEnded (dm_url d) ''Stream Ended'' None], [], []]
      (set_queue AVMEDIA_TYPE_VIDEO q2 ?d2)"
    by (rule exec_step [OF dm_play.turn [OF s1] exec_step [OF dm_play.turn [OF s2] exec_single [of "dm_play api", OF s3]]])
  ultimately show ?thesis by blast
qed

subsection \<open>Samples\<close>

definition sample_open :: open_calls where
  "sample_open = \<lparr>oc_open_input = (\<lambda>url options. (0, \<lparr>fc_seekable = True, fc_duration = 5000000,
       fc_streams = [\<lparr>st_codec_type = AVMEDIA_TYPE_VIDEO, st_codec_name = ''h264'', st_time_base = (1, 90000)\<rparr>]\<rparr>)),
     oc_find_stream_info = 0, oc_avio_seek = 0, oc_best_video = 0, oc_best_audio = -1\<rparr>"

definition sample_config :: demux_config where
  "sample_config = \<lparr>cfg_decodeMediaType = 3, cfg_rtspTransport = RT_kTcp,
     cfg_preBufferConfig = \<lparr>pb_enablePreBuffer = False, pb_videoPreBufferFrames = 0,
       pb_audioPreBufferPackets = 0, pb_requireBothStreams = False, pb_autoStartAfterPreBuffer = True\<rparr>\<rparr>"

definition sample_io :: "int \<Rightarrow> int \<Rightarrow> io_calls" where
  "sample_io ret now = \<lparr>io_read = (ret, plain_packet 3 40), io_feof = False, io_now = now,
     io_seek_frame = (\<lambda>_. 0), io_avio_seek = 0\<rparr>"

definition sample_demuxer :: Demuxer where
  "sample_demuxer = snd (snd (Demuxer_open sample_open ''a.mp4'' sample_config False Demuxer_new))"

lemma sample_url: "\<not> isRealtime ''a.mp4''"
  by (simp add: isRealtime_def realtimePrefixes_def c_tolower_def Let_def)

lemma sample_opens:
  "Demuxer_open sample_open ''a.mp4'' sample_config False Demuxer_new
     = (Ret True, [StreamEvent EV_kStreamOpening ''a.mp4'' ''Stream Opening'' None,
                   StreamEvent EV_kStreamOpened ''a.mp4'' ''Stream Opened'' (Some 5)], sample_demuxer)"
  by (simp add: sample_demuxer_def Demuxer_open_def Demuxer_openInternal_def Demuxer_new_def open_stream_def
      sample_open_def AV_NOPTS_VALUE_def AV_TIME_BASE_def trunc_to_int_def)

lemma sample_demuxer_eq:
  "sample_demuxer = opened_state sample_open (snd (oc_open_input sample_open [] [])) ''a.mp4'' sample_config False Demuxer_new"
  by (simp add: sample_demuxer_def Demuxer_open_def Demuxer_openInternal_def Demuxer_new_def open_stream_def
      sample_open_def)

lemma sample_sel:
  "dm_isRealTime sample_demuxer = False" "dm_isPaused sample_demuxer = False" "dm_seekMsPos sample_demuxer = -1"
  "dm_formatContext sample_demuxer \<noteq> None" "dm_requestInterruption sample_demuxer = False"
  "dm_videoStreamIndex sample_demuxer = 0" "dm_audioStreamIndex sample_demuxer = -1"
  "dm_isOpened sample_demuxer" "dm_isStarted sample_demuxer"
  "dm_videoPacketQueue sample_demuxer = Some (PacketQueue_start (PacketQueue_new 1000))"
  "dm_audioPacketQueue sample_demuxer = None"
  "dm_thread sample_demuxer = Some \<lparr>dt_pc = DP_Loop, dt_occuredErrorTime = None, dt_readFirstPacket = False, dt_isEof = None\<rparr>"
  by (simp_all add: sample_demuxer_eq opened_state_sel opened_state_fresh sample_url Demuxer_new_def
      sample_open_def sample_config_def kVideo_def kAudio_def)

lemma sample_loop: "dm_loopMode sample_demuxer = LM_kNone" "dm_recorder sample_demuxer = Recorder_new"
  "dm_preBufferEnabled sample_demuxer = False"
  by (simp_all add: sample_demuxer_eq opened_state_def Demuxer_new_def sample_open_def sample_config_def
      Demuxer_start_def map_queues_def Let_def)

lemma sample_turn:
  "\<exists>evs d' q p. thread_turn sample_api (sample_io 0 0) sample_demuxer = (evs, d') \<and> \<not> dm_isRealTime d'
     \<and> dm_videoPacketQueue d' = Some q \<and> p \<in> set (pq_queue q)"
  by (simp add: thread_turn_def sample_sel Demuxer_demuxLoop_def Demuxer_fileStreamDemuxLoop_def
      Demuxer_handleSeekRequest_def file_read_def Demuxer_readAndProcessPacket_def sample_io_def
      Demuxer_distributePacket_def plain_packet_def dist_to_def Demuxer_packetQueue_def dist_push_def
      PacketQueue_push_def PacketQueue_canPush_def PacketQueue_start_def PacketQueue_new_def Let_def
      dist_finish_def set_queue_def sample_loop Recorder_isRecording_def Recorder_new_def
      Demuxer_checkPreBufferStatus_def PacketQueue_updateStatisticsOnPush_def)

subsection \<open>Properties\<close>

text \<open>
  C6: packets and serial numbers agree.  Whatever calls are made on a demuxer and however its
  thread and the consumers of its queues take turns, every packet that waits in a queue of a
  file stream carries the queue's current serial number: a decoder that discards packets by
  their serial number discards no packet of the current position.
\<close>

theorem Demuxer_serials:
  assumes "exec (dm_step api) Demuxer_new ls d" "\<not> Demuxer_isRealTime d"
    and "Demuxer_packetQueue m d = Some q" "p \<in> set (pq_queue q)"
  shows "Packet_serial p = PacketQueue_serial q"
proof -
  have "dm_inv d" using serials.reachable_inv [OF refl assms(1)] .
  then have "queues_ok d" using assms(2) by (simp add: dm_inv_def Demuxer_isRealTime_def)
  then have "q_ok q" using assms(3) by (rule queues_ok_at)
  with assms(4) show ?thesis
    by (simp add: q_ok_def list_all_iff Packet_serial_def PacketQueue_serial_def)
qed

theorem Demuxer_serials_witness:
  "\<exists>ls d q p. exec (dm_step sample_api) Demuxer_new ls d \<and> Demuxer_packetQueue AVMEDIA_TYPE_VIDEO d = Some q
     \<and> p \<in> set (pq_queue q) \<and> Packet_serial p = PacketQueue_serial q"
proof -
  obtain evs d q p where t: "thread_turn sample_api (sample_io 0 0) sample_demuxer = (evs, d)" "\<not> dm_isRealTime d"
    "dm_videoPacketQueue d = Some q" "p \<in> set (pq_queue q)"
    using sample_turn by blast
  obtain ls where ls: "exec (dm_step sample_api) Demuxer_new ls d"
    by (rule that) (rule exec_step [OF dm_step.opens [OF sample_opens]
          exec_single [of "dm_step sample_api", OF dm_step.play [OF dm_play.turn [OF t(1)]]]])
  have q: "Demuxer_packetQueue AVMEDIA_TYPE_VIDEO d = Some q" using t(3) by (simp add: Demuxer_packetQueue_def)
  from Demuxer_serials [OF ls _ q t(4)] t q ls show ?thesis by (auto simp: Demuxer_isRealTime_def)
qed





text \<open>
  C9: read errors.  A thread whose reads all fail goes on without a word until three seconds
  have passed since the first of the failures, and ends, with one event, at the first failure
  after that.
\<close>

theorem Demuxer_read_errors:
  assumes "at_head d t" "dt_occuredErrorTime t = None" "list_all hard_error (io0 # ios @ [io])"
    and "\<forall>i \<in> set ios. io_now i - io_now io0 < 3000000000" "3000000000 \<le> io_now io - io_now io0"
  shows "turns api (io0 # ios) d = ([], d\<lparr>dm_thread := Some (t\<lparr>dt_occuredErrorTime := Some (io_now io0)\<rparr>)\<rparr>)
    \<and> turns api (io0 # ios @ [io]) d
        = ([StreamEvent EV_kStreamReadError (Demuxer_url d) ''Stream Read Error'' None],
           d\<lparr>dm_thread := Some (t\<lparr>dt_pc := DP_Ended\<rparr>)\<rparr>)"
proof -
  let ?t = "t\<lparr>dt_occuredErrorTime := Some (io_now io0)\<rparr>"
  let ?d = "d\<lparr>dm_thread := Some ?t\<rparr>"
  have pc: "dt_pc t = DP_Loop" using assms(1) by (simp add: at_head_def)
  have h: "at_head ?d ?t" using assms(1) by (simp add: at_head_def)
  have "Demuxer_handleReadError io0 t d = (-1, [], ?t)"
    using assms(2) by (simp add: Demuxer_handleReadError_def three_seconds)
  then have first: "thread_turn api io0 d = ([], ?d)"
    using error_turn [OF assms(1), of io0 api] assms(3) pc by simp
  have mid: "turns api ios ?d = ([], ?d)"
    by (rule errors_below_limit [OF h]) (use assms(3,4) in auto)
  have "Demuxer_handleReadError io ?t ?d = (-2, [StreamEvent EV_kStreamReadError (dm_url d) ''Stream Read Error'' None], t)"
    using assms(2,5) by (cases t) (simp add: Demuxer_handleReadError_def three_seconds)
  then have last: "thread_turn api io ?d = ([StreamEvent EV_kStreamReadError (dm_url d) ''Stream Read Error'' None],
      d\<lparr>dm_thread := Some (t\<lparr>dt_pc := DP_Ended\<rparr>)\<rparr>)"
    using error_turn [OF h, of io api] assms(3) by simp
  have app: "turns api (xs @ [y]) x = (fst (turns api xs x) @ fst (thread_turn api y (snd (turns api xs x))),
      snd (thread_turn api y (snd (turns api xs x))))" for xs y x
    by (induction xs arbitrary: x) (simp_all split: prod.split)
  show ?thesis using first mid last app [of ios io ?d] by (simp add: Demuxer_url_def)
qed

theorem Demuxer_read_errors_witness:
  "\<exists>d. turns sample_api [sample_io (-5) 7, sample_io (-5) 2000000007, sample_io (-5) 3000000007] sample_demuxer
     = ([StreamEvent EV_kStreamReadError (Demuxer_url sample_demuxer) ''Stream Read Error'' None], d)"
  using Demuxer_read_errors [of sample_demuxer _ "sample_io (-5) 7" "[sample_io (-5) 2000000007]"
      "sample_io (-5) 3000000007" sample_api]
  by (auto simp: at_head_def sample_sel hard_error_def sample_io_def AVERROR_EOF_def AVERROR_EAGAIN_def)

text \<open>
  the end of a file is reported again and again.  A file stream that does not loop, whose
  video queue has been emptied after its end was read, can go on to send the event \<open>kStreamEnded\<close>
  any number of times, as long as the decoder takes the end packets that are pushed in between.
\<close>

theorem Demuxer_ended_repeats:
  assumes "at_end d"
  shows "\<exists>ls d'. exec (dm_play api) d ls d' \<and> at_end d' \<and> length (filter is_ended (concat ls)) = n"
proof (induction n)
  case 0
  from assms show ?case by (intro exI [of _ "[]"]) (auto intro: exec_refl)
next
  case (Suc n)
  then obtain ls d' where e: "exec (dm_play api) d ls d'" "at_end d'" "length (filter is_ended (concat ls)) = n"
    by blast
  have "fst (io_read (sample_io AVERROR_EOF 0)) = AVERROR_EOF" by (simp add: sample_io_def)
  from ended_again [OF e(2) this, of api] obtain d'' where
    "exec (dm_play api) d' [[StreamEvent EV_kStreamEnded (dm_url d') ''Stream Ended'' None], [], []] d''" "at_end d''"
    by blast
  with exec_append [OF e(1)] e(3) show ?case
    by (intro exI [of _ "ls @ [[StreamEvent EV_kStreamEnded (dm_url d') ''Stream Ended'' None], [], []]"] exI [of _ d''])
      simp
qed

theorem Demuxer_ended_repeats_witness:
  "\<exists>ls d'. exec (dm_play sample_api)
       (sample_demuxer\<lparr>dm_thread := Some \<lparr>dt_pc = DP_Loop, dt_occuredErrorTime = None,
          dt_readFirstPacket = True, dt_isEof = Some True\<rparr>\<rparr>) ls d'
     \<and> length (filter is_ended (concat ls)) = 3"
proof -
  have "at_end (sample_demuxer\<lparr>dm_thread := Some \<lparr>dt_pc = DP_Loop, dt_occuredErrorTime = None,
          dt_readFirstPacket = True, dt_isEof = Some True\<rparr>\<rparr>)"
    by (simp add: at_end_def at_head_def sample_sel sample_loop PacketQueue_start_def PacketQueue_new_def)
  from Demuxer_ended_repeats [OF this, of sample_api 3] show ?thesis by blast
qed

text \<open>
  the pre-buffer check.  It reports readiness exactly when the streams it needs are present
  and have buffered the packets asked for, calls the callback at that moment and never again; and
  when both streams are asked for and one of them is missing, or nothing is asked of it, it never
  becomes ready, although \<open>getPreBufferProgress\<close> reports that it is once the other stream is.
\<close>

theorem Demuxer_preBuffer:
  assumes "Demuxer_checkPreBufferStatus d = (evs, d')"
  shows "(dm_preBufferReady d' \<longrightarrow> Demuxer_checkPreBufferStatus d' = ([], d'))
    \<and> (PreBufferCallback \<in> set evs \<longleftrightarrow> dm_preBufferReady d' \<and> \<not> dm_preBufferReady d \<and> dm_preBufferReadyCallback d)
    \<and> (dm_requireBothStreams d \<and> (dm_audioStreamIndex d < 0 \<or> dm_preBufferAudioPackets d = 0) \<longrightarrow> d' = d)
    \<and> (dm_preBufferAudioPackets d = 0 \<and> dm_audioPacketQueue d = Some qa \<and> dm_videoPacketQueue d = Some qv
         \<and> unat (dm_preBufferVideoFrames d) \<le> PacketQueue_packetCount qv
         \<longrightarrow> pp_isOverallReady (Demuxer_getPreBufferProgress d))"
proof (intro conjI impI)
  note c = checkPreBuffer_cases [OF assms]
  show "Demuxer_checkPreBufferStatus d' = ([], d')" if "dm_preBufferReady d'"
    using that by (simp add: Demuxer_checkPreBufferStatus_def)
  show "PreBufferCallback \<in> set evs \<longleftrightarrow> dm_preBufferReady d' \<and> \<not> dm_preBufferReady d \<and> dm_preBufferReadyCallback d"
    using c by auto
  show "d' = d" if "dm_requireBothStreams d \<and> (dm_audioStreamIndex d < 0 \<or> dm_preBufferAudioPackets d = 0)"
  proof -
    have "\<not> stream_ready (dm_audioStreamIndex d) (dm_preBufferAudioPackets d) (dm_audioPacketQueue d)"
      using that by (auto simp: stream_ready_def)
    then have "Demuxer_checkPreBufferStatus d = ([], d)"
      using that by (simp add: Demuxer_checkPreBufferStatus_def Let_def)
    with assms show ?thesis by simp
  qed
  show "pp_isOverallReady (Demuxer_getPreBufferProgress d)"
    if "dm_preBufferAudioPackets d = 0 \<and> dm_audioPacketQueue d = Some qa \<and> dm_videoPacketQueue d = Some qv
         \<and> unat (dm_preBufferVideoFrames d) \<le> PacketQueue_packetCount qv"
    using that by (simp add: Demuxer_getPreBufferProgress_def progress_part_def Let_def)
qed

theorem Demuxer_preBuffer_witness:
  "Demuxer_checkPreBufferStatus
     (sample_demuxer\<lparr>dm_preBufferEnabled := True, dm_requireBothStreams := True, dm_preBufferVideoFrames := 5\<rparr>)
   = ([], sample_demuxer\<lparr>dm_preBufferEnabled := True, dm_requireBothStreams := True, dm_preBufferVideoFrames := 5\<rparr>)"
proof -
  let ?d = "sample_demuxer\<lparr>dm_preBufferEnabled := True, dm_requireBothStreams := True, dm_preBufferVideoFrames := 5\<rparr>"
  obtain evs d' where e: "Demuxer_checkPreBufferStatus ?d = (evs, d')" by fastforce
  from Demuxer_preBuffer [OF e] have "d' = ?d" "PreBufferCallback \<notin> set evs" by (auto simp: sample_sel)
  moreover have "set evs \<subseteq> {PreBufferCallback}" using checkPreBuffer_cases [OF e] by auto
  ultimately show ?thesis using e by (cases evs) auto
qed

text \<open>
  opening and closing.  Closing a stream whose thread has ended frees everything that belongs
  to it, and opening the next one starts a thread on fresh, empty queues with serial number 1
  for the chosen streams; the pause flag and a pending seek request are carried over from the
  stream that was closed, and the event of the close names no stream.
\<close>

theorem Demuxer_close_open:
  assumes "dm_isOpened d" "dm_isStarted d" "dm_thread d = Some t" "dt_pc t = DP_Ended" "\<not> Demuxer_isRecording d"
    and "Demuxer_open oc url config cb d1 = (Ret True, evs, d2)" "Demuxer_close d = (res, cevs, d1)"
  shows "res = Ret True \<and> cevs = [StreamEvent EV_kStreamClose [] ''Stream Close'' None]
    \<and> dm_formatContext d1 = None \<and> Demuxer_packetQueue m d1 = None \<and> \<not> dm_isOpened d1 \<and> dm_thread d1 = None
    \<and> Demuxer_isPaused d2 = Demuxer_isPaused d \<and> dm_seekMsPos d2 = dm_seekMsPos d
    \<and> Demuxer_url d2 = url \<and> dm_isOpened d2
    \<and> (\<forall>q. Demuxer_packetQueue m d2 = Some q \<longrightarrow>
         pq_queue q = [] \<and> PacketQueue_serial q = 1 \<and> \<not> PacketQueue_isAborted q \<and> 0 \<le> Demuxer_streamIndex m d2)
    \<and> (\<exists>t'. dm_thread d2 = Some t' \<and> dt_pc t' = DP_Loop)"
proof -
  let ?d1 = "(Demuxer_clearPreBufferCallback ((map_queues PacketQueue_abort d)
      \<lparr>dm_requestInterruption := True, dm_thread := None, dm_isStarted := False,
       dm_formatContext := None, dm_videoPacketQueue := None, dm_audioPacketQueue := None\<rparr>))
      \<lparr>dm_videoStreamIndex := -1, dm_audioStreamIndex := -1, dm_url := [], dm_isRealTime := False, dm_isOpened := False\<rparr>"
  have s: "Demuxer_stop d = (Ret (), (map_queues PacketQueue_abort d)
      \<lparr>dm_requestInterruption := True, dm_thread := None, dm_isStarted := False\<rparr>)"
    using assms(2-4) by (simp add: Demuxer_stop_def Let_def map_queues_def)
  have c: "Demuxer_close d = (Ret True, [StreamEvent EV_kStreamClose [] ''Stream Close'' None], ?d1)"
    using assms(1,5) s
    by (simp add: Demuxer_close_def Demuxer_closeInternal_def Let_def map_queues_def Demuxer_clearPreBufferCallback_def)
  have d1: "d1 = ?d1" "res = Ret True" "cevs = [StreamEvent EV_kStreamClose [] ''Stream Close'' None]"
    using assms(7) c by auto
  have f: "\<not> dm_isOpened d1" "\<not> dm_isStarted d1" "dm_videoPacketQueue d1 = None" "dm_audioPacketQueue d1 = None"
    "dm_thread d1 = None" "dm_formatContext d1 = None" "dm_isPaused d1 = dm_isPaused d" "dm_seekMsPos d1 = dm_seekMsPos d"
    by (simp_all add: d1(1) map_queues_def Demuxer_clearPreBufferCallback_def)
  obtain fc where d2: "d2 = opened_state oc fc url config cb d1"
    using assms(6) f(1)
    by (auto simp: Demuxer_open_def Demuxer_openInternal_def open_stream_def Let_def split: prod.splits if_splits)
  show ?thesis
    using f d1(2,3) opened_state_fresh [OF f(2-4), of oc fc url config cb]
    by (auto simp: d2 opened_state_sel Demuxer_isPaused_def Demuxer_url_def Demuxer_packetQueue_def
        Demuxer_streamIndex_def PacketQueue_start_def PacketQueue_new_def PacketQueue_serial_def
        PacketQueue_isAborted_def split: if_splits)
qed

theorem Demuxer_close_open_witness:
  "\<exists>res cevs d1 evs d2. Demuxer_close (sample_demuxer\<lparr>dm_isPaused := True, dm_thread := Some \<lparr>dt_pc = DP_Ended,
        dt_occuredErrorTime = None, dt_readFirstPacket = True, dt_isEof = None\<rparr>\<rparr>) = (res, cevs, d1)
     \<and> Demuxer_open sample_open ''a.mp4'' sample_config False d1 = (Ret True, evs, d2) \<and> Demuxer_isPaused d2"
proof -
  let ?t = "\<lparr>dt_pc = DP_Ended, dt_occuredErrorTime = None, dt_readFirstPacket = True, dt_isEof = None\<rparr>"
  let ?d = "sample_demuxer\<lparr>dm_isPaused := True, dm_thread := Some ?t\<rparr>"
  obtain res cevs d1 where c: "Demuxer_close ?d = (res, cevs, d1)" by (metis prod_cases3)
  have rec: "\<not> Demuxer_isRecording ?d"
    by (simp add: Demuxer_isRecording_def Recorder_isRecording_def sample_loop Recorder_new_def)
  have "\<not> dm_isOpened d1"
    using c rec by (auto simp: Demuxer_close_def Demuxer_closeInternal_def Demuxer_stop_def sample_sel Let_def map_queues_def
        Demuxer_clearPreBufferCallback_def)
  then obtain evs d2 where o: "Demuxer_open sample_open ''a.mp4'' sample_config False d1 = (Ret True, evs, d2)"
    by (simp add: Demuxer_open_def Demuxer_openInternal_def open_stream_def sample_open_def)
  have "Demuxer_isPaused ?d" by (simp add: Demuxer_isPaused_def)
  with Demuxer_close_open [OF _ _ _ _ rec o c, of ?t] c o show ?thesis by (auto simp: sample_sel)
qed

end
