(* ===== verification/FrameQueues.thy ===== *)
theory FrameQueues
  imports Queue_Interface Frames
begin

text \<open>
  Class \<open>FrameQueue\<close> (\<open>src/src/base/frame_queue.h\<close>, \<open>frame_queue.cpp\<close>): a ring buffer
  of frames with an abort flag, an option to keep the last frame, and a two-phase write
  (\<open>getWritableFrame\<close>, then \<open>commitFrame\<close>).

  As for the packet queue a call is one step under the mutex, \<open>Wait\<close> is a caller that stays
  blocked and \<open>expired\<close> the timeout of a timed wait that has run out.  An index outside
  \<open>queue_\<close> and a remainder by a capacity of zero are undefined behaviour in the source and
  \<open>UB\<close> here.  \<open>fq_frames\<close> is the abstract queue: the frames in the window of \<open>size_\<close>
  slots that starts at \<open>head_\<close>.
\<close>

record FrameQueue =
  fq_queue :: "Frame list"
  fq_head :: int
  fq_tail :: int
  fq_size :: int
  fq_maxSize :: int
  fq_keepLast :: bool
  fq_pendingWriteIndex :: int
  fq_serial :: int
  fq_aborted :: bool

definition fq_in_range :: "int \<Rightarrow> FrameQueue \<Rightarrow> bool" where
  "fq_in_range i q \<longleftrightarrow> 0 \<le> i \<and> nat i < length (fq_queue q)"

definition fq_slot :: "FrameQueue \<Rightarrow> int \<Rightarrow> Frame" where
  "fq_slot q i = fq_queue q ! nat i"

definition fq_hasSpace :: "FrameQueue \<Rightarrow> bool" where
  "fq_hasSpace q \<longleftrightarrow> fq_size q < fq_maxSize q \<or> fq_aborted q"

definition FrameQueue_canPop :: "FrameQueue \<Rightarrow> bool" where
  "FrameQueue_canPop q = (if fq_keepLast q then fq_size q > 1 else fq_size q > 0)"

definition FrameQueue_shouldReturnLastFrame :: "FrameQueue \<Rightarrow> bool" where
  "FrameQueue_shouldReturnLastFrame q \<longleftrightarrow> fq_keepLast q \<and> fq_size q = 1"

text \<open>\<open>waitForData\<close>: returns true or false, or the caller stays blocked.\<close>

definition FrameQueue_waitForData :: "int \<Rightarrow> bool \<Rightarrow> FrameQueue \<Rightarrow> bool outcome" where
  "FrameQueue_waitForData timeout expired q =
     (let hasData = FrameQueue_canPop q \<or> fq_aborted q
      in if timeout = 0 then Ret hasData
         else if timeout > 0 then (if hasData then Ret True else if expired then Ret False else Wait)
         else (if hasData then Ret True else Wait))"

definition FrameQueue_pushInternal ::
    "frame_api \<Rightarrow> Frame \<Rightarrow> FrameQueue \<Rightarrow> bool outcome \<times> FrameQueue" where
  "FrameQueue_pushInternal api frame q =
     (if fq_maxSize q = 0 then (UB, q)
      else
        let full = (fq_size q = fq_maxSize q);
            ok = (\<not> full \<or> fq_in_range (fq_head q) q) \<and> fq_in_range (fq_tail q) q;
            q1 = (if full
                  then q\<lparr>fq_queue := (fq_queue q)[nat (fq_head q) := Frame_unref api (fq_slot q (fq_head q))],
                         fq_head := (fq_head q + 1) mod fq_maxSize q,
                         fq_size := fq_size q - 1\<rparr>
                  else q)
        in if \<not> ok then (UB, q)
           else (Ret True,
                 q1\<lparr>fq_queue := (fq_queue q1)[nat (fq_tail q1) := Frame_assign api (fq_slot q1 (fq_tail q1)) frame],
                    fq_tail := (fq_tail q1 + 1) mod fq_maxSize q1,
                    fq_size := fq_size q1 + 1\<rparr>))"

definition FrameQueue_popInternal :: "FrameQueue \<Rightarrow> Frame option outcome \<times> FrameQueue" where
  "FrameQueue_popInternal q =
     (if fq_size q = 0 then (Ret None, q)
      else if fq_maxSize q = 0 \<or> \<not> fq_in_range (fq_head q) q then (UB, q)
      else
        let (frame, left) = Frame_move (fq_slot q (fq_head q))
        in (Ret (Some frame),
            q\<lparr>fq_queue := (fq_queue q)[nat (fq_head q) := left],
              fq_head := (fq_head q + 1) mod fq_maxSize q,
              fq_size := fq_size q - 1\<rparr>))"

definition FrameQueue_push ::
    "frame_api \<Rightarrow> Frame \<Rightarrow> int \<Rightarrow> bool \<Rightarrow> FrameQueue \<Rightarrow> bool outcome \<times> FrameQueue" where
  "FrameQueue_push api frame timeout expired q =
     (let proceed = (if fq_aborted q \<or> fq_queue q = [] then (Ret False, q)
                     else FrameQueue_pushInternal api frame q)
      in if timeout = 0 then (if fq_hasSpace q then proceed else (Ret False, q))
         else if timeout > 0 then
           (if fq_hasSpace q then proceed else if expired then (Ret False, q) else (Wait, q))
         else (if fq_hasSpace q then proceed else (Wait, q)))"

text \<open>
  A copy of the last frame is returned when \<open>keepLast_\<close> is set and one frame is left.
\<close>

definition FrameQueue_pop ::
    "frame_api \<Rightarrow> int \<Rightarrow> bool \<Rightarrow> FrameQueue \<Rightarrow> Frame option outcome \<times> FrameQueue" where
  "FrameQueue_pop api timeout expired q =
     (let last = (if fq_in_range (fq_head q) q
                  then (Ret (Some (Frame_copy api (fq_slot q (fq_head q)))), q) else (UB, q))
      in case FrameQueue_waitForData timeout expired q of
           Wait \<Rightarrow> (Wait, q)
         | UB \<Rightarrow> (UB, q)
         | Ret False \<Rightarrow> (if FrameQueue_shouldReturnLastFrame q then last else (Ret None, q))
         | Ret True \<Rightarrow>
             (if fq_aborted q \<or> fq_queue q = [] then (Ret None, q)
              else if FrameQueue_shouldReturnLastFrame q then last
              else FrameQueue_popInternal q))"

definition FrameQueue_tryPop :: "frame_api \<Rightarrow> FrameQueue \<Rightarrow> Frame option outcome \<times> FrameQueue" where
  "FrameQueue_tryPop api q = FrameQueue_pop api 0 False q"

text \<open>The result of \<open>getWritableFrame\<close> is the index of the slot handed out.\<close>

definition FrameQueue_getWritableFrame ::
    "int \<Rightarrow> bool \<Rightarrow> FrameQueue \<Rightarrow> int option outcome \<times> FrameQueue" where
  "FrameQueue_getWritableFrame timeout expired q =
     (let proceed =
        (if fq_aborted q \<or> fq_size q \<ge> fq_maxSize q \<or> fq_queue q = [] then (Ret None, q)
         else if \<not> fq_in_range (fq_tail q) q then (UB, q)
         else (Ret (Some (fq_tail q)), q\<lparr>fq_pendingWriteIndex := fq_tail q\<rparr>))
      in if timeout = 0 then (if fq_hasSpace q then proceed else (Ret None, q))
         else if timeout > 0 then
           (if fq_hasSpace q then proceed else if expired then (Ret None, q) else (Wait, q))
         else (if fq_hasSpace q then proceed else (Wait, q)))"

text \<open>The client writes through the pointer it was given (not under the mutex).\<close>

definition FrameQueue_write :: "int \<Rightarrow> Frame \<Rightarrow> FrameQueue \<Rightarrow> FrameQueue" where
  "FrameQueue_write i frame q = q\<lparr>fq_queue := (fq_queue q)[nat i := frame]\<rparr>"

definition FrameQueue_commitFrame :: "FrameQueue \<Rightarrow> bool outcome \<times> FrameQueue" where
  "FrameQueue_commitFrame q =
     (if fq_maxSize q = 0 then (UB, q)
      else (Ret True, q\<lparr>fq_tail := (fq_tail q + 1) mod fq_maxSize q,
                        fq_size := fq_size q + 1,
                        fq_pendingWriteIndex := -1\<rparr>))"

definition FrameQueue_empty :: "FrameQueue \<Rightarrow> bool" where
  "FrameQueue_empty q \<longleftrightarrow> fq_size q = 0"

definition FrameQueue_full :: "FrameQueue \<Rightarrow> bool" where
  "FrameQueue_full q \<longleftrightarrow> fq_size q \<ge> fq_maxSize q"

definition FrameQueue_size :: "FrameQueue \<Rightarrow> int" where
  "FrameQueue_size q = fq_size q"

definition FrameQueue_capacity :: "FrameQueue \<Rightarrow> int" where
  "FrameQueue_capacity q = fq_maxSize q"

definition FrameQueue_remainingCount :: "FrameQueue \<Rightarrow> int" where
  "FrameQueue_remainingCount q = fq_size q"

text \<open>The loop of \<open>clear\<close> and of \<open>setMaxCount\<close> over the slots of the window.\<close>

definition fq_window :: "FrameQueue \<Rightarrow> nat list" where
  "fq_window q = map (\<lambda>i. nat ((fq_head q + int i) mod fq_maxSize q)) [0..<nat (fq_size q)]"

definition fq_window_ok :: "FrameQueue \<Rightarrow> bool" where
  "fq_window_ok q \<longleftrightarrow> fq_size q \<le> 0 \<or> fq_maxSize q \<noteq> 0
     \<and> list_all (\<lambda>i. 0 \<le> (fq_head q + int i) mod fq_maxSize q) [0..<nat (fq_size q)]
     \<and> list_all (\<lambda>j. j < length (fq_queue q)) (fq_window q)"

definition FrameQueue_clear :: "frame_api \<Rightarrow> FrameQueue \<Rightarrow> unit outcome \<times> FrameQueue" where
  "FrameQueue_clear api q =
     (if fq_head q = fq_tail q \<and> fq_size q = 0 then (Ret (), q)
      else if \<not> fq_window_ok q then (UB, q)
      else (Ret (),
            q\<lparr>fq_queue := fold (\<lambda>j qs. qs[j := Frame_unref api (qs ! j)]) (fq_window q) (fq_queue q),
              fq_head := 0, fq_tail := 0, fq_size := 0, fq_pendingWriteIndex := -1\<rparr>))"

definition FrameQueue_setAbortStatus :: "bool \<Rightarrow> FrameQueue \<Rightarrow> FrameQueue" where
  "FrameQueue_setAbortStatus abort q = (if abort = fq_aborted q then q else q\<lparr>fq_aborted := abort\<rparr>)"

definition FrameQueue_setSerial :: "int \<Rightarrow> FrameQueue \<Rightarrow> FrameQueue" where
  "FrameQueue_setSerial s q = q\<lparr>fq_serial := s\<rparr>"

definition FrameQueue_serial :: "FrameQueue \<Rightarrow> int" where
  "FrameQueue_serial q = fq_serial q"

definition FrameQueue_setKeepLast :: "bool \<Rightarrow> FrameQueue \<Rightarrow> FrameQueue" where
  "FrameQueue_setKeepLast k q = q\<lparr>fq_keepLast := k\<rparr>"

definition FrameQueue_isKeepLast :: "FrameQueue \<Rightarrow> bool" where
  "FrameQueue_isKeepLast q = fq_keepLast q"

definition FrameQueue_handleKeepLastCase :: "frame_api \<Rightarrow> FrameQueue \<Rightarrow> Frame option outcome" where
  "FrameQueue_handleKeepLastCase api q =
     (if fq_keepLast q \<and> fq_size q = 1
      then (if fq_in_range (fq_head q) q then Ret (Some (Frame_copy api (fq_slot q (fq_head q)))) else UB)
      else Ret None)"

text \<open>One iteration of the loop that puts the saved frames back.\<close>

definition fq_restore :: "Frame \<Rightarrow> FrameQueue \<Rightarrow> FrameQueue" where
  "fq_restore f q = q\<lparr>fq_queue := (fq_queue q)[nat (fq_tail q) := f],
     fq_tail := (fq_tail q + 1) mod fq_maxSize q, fq_size := fq_size q + 1\<rparr>"

definition FrameQueue_setMaxCount ::
    "frame_api \<Rightarrow> int \<Rightarrow> FrameQueue \<Rightarrow> bool outcome \<times> FrameQueue" where
  "FrameQueue_setMaxCount api maxCount q =
     (if maxCount \<le> 0 then (Ret False, q)
      else if maxCount = fq_maxSize q then (Ret True, q)
      else if \<not> fq_window_ok q then (UB, q)
      else
        let tempFrames = map (\<lambda>j. fst (Frame_move (fq_queue q ! j))) (fq_window q);
            fresh = replicate (nat maxCount) (Frame_ensureAllocated api Frame_new);
            q1 = q\<lparr>fq_queue := fresh, fq_maxSize := maxCount, fq_head := 0, fq_tail := 0,
                   fq_size := 0, fq_pendingWriteIndex := -1\<rparr>;
            framesToRestore = min (int (length tempFrames)) maxCount
        in (Ret True, fold fq_restore (take (nat framesToRestore) tempFrames) q1))"

definition FrameQueue_uninit :: "FrameQueue \<Rightarrow> FrameQueue" where
  "FrameQueue_uninit q =
     q\<lparr>fq_head := 0, fq_tail := 0, fq_size := 0, fq_pendingWriteIndex := -1, fq_queue := []\<rparr>"

text \<open>A negative capacity makes \<open>resize\<close> throw \<open>std::length_error\<close>.\<close>

definition FrameQueue_init :: "frame_api \<Rightarrow> FrameQueue \<Rightarrow> FrameQueue option" where
  "FrameQueue_init api q =
     (if fq_maxSize q < 0 then None
      else Some ((FrameQueue_uninit q)\<lparr>fq_queue :=
             replicate (nat (fq_maxSize q)) (Frame_ensureAllocated api Frame_new)\<rparr>))"

definition FrameQueue_new :: "frame_api \<Rightarrow> int \<Rightarrow> bool \<Rightarrow> bool \<Rightarrow> FrameQueue option" where
  "FrameQueue_new api maxSize keepLast autoInit =
     (let q = \<lparr>fq_queue = [], fq_head = 0, fq_tail = 0, fq_size = 0, fq_maxSize = maxSize,
               fq_keepLast = keepLast, fq_pendingWriteIndex = -1, fq_serial = 0, fq_aborted = False\<rparr>
      in if autoInit then FrameQueue_init api q else Some q)"

definition FrameQueue_destroy :: "frame_api \<Rightarrow> FrameQueue \<Rightarrow> unit outcome \<times> FrameQueue" where
  "FrameQueue_destroy api q = FrameQueue_clear api (FrameQueue_setAbortStatus True q)"

lemmas frame_queue_defs [fq_defs] =
  fq_in_range_def fq_slot_def fq_hasSpace_def FrameQueue_canPop_def
  FrameQueue_shouldReturnLastFrame_def FrameQueue_waitForData_def FrameQueue_pushInternal_def
  FrameQueue_popInternal_def FrameQueue_push_def FrameQueue_pop_def FrameQueue_tryPop_def
  FrameQueue_getWritableFrame_def FrameQueue_write_def FrameQueue_commitFrame_def
  FrameQueue_clear_def FrameQueue_setAbortStatus_def FrameQueue_setSerial_def
  FrameQueue_setKeepLast_def FrameQueue_uninit_def Let_def

subsection \<open>Well-formed ring buffers and the abstract queue\<close>

definition fq_inv :: "FrameQueue \<Rightarrow> bool" where
  "fq_inv q \<longleftrightarrow>
     (fq_queue q = [] \<and> fq_head q = 0 \<and> fq_tail q = 0 \<and> fq_size q = 0 \<and> 0 \<le> fq_maxSize q)
   \<or> (0 < fq_maxSize q \<and> int (length (fq_queue q)) = fq_maxSize q
       \<and> 0 \<le> fq_head q \<and> fq_head q < fq_maxSize q
       \<and> 0 \<le> fq_size q \<and> fq_size q \<le> fq_maxSize q
       \<and> fq_tail q = (fq_head q + fq_size q) mod fq_maxSize q)"

definition fq_frames :: "FrameQueue \<Rightarrow> Frame list" where
  "fq_frames q = map (\<lambda>j. fq_queue q ! j) (fq_window q)"


text \<open>
  The calls a client can make.  \<open>FProduce\<close> is what the decoders do for one frame:
  \<open>getWritableFrame\<close>, filling the slot, \<open>commitFrame\<close>.  The result is \<open>None\<close>
  when a call has undefined behaviour or throws.
\<close>

definition FrameQueue_produce ::
    "Frame \<Rightarrow> int \<Rightarrow> bool \<Rightarrow> FrameQueue \<Rightarrow> bool outcome \<times> FrameQueue" where
  "FrameQueue_produce frame timeout expired q =
     (case FrameQueue_getWritableFrame timeout expired q of
        (Ret (Some i), q1) \<Rightarrow> FrameQueue_commitFrame (FrameQueue_write i frame q1)
      | (Ret None, q1) \<Rightarrow> (Ret False, q1)
      | (Wait, q1) \<Rightarrow> (Wait, q1)
      | (UB, q1) \<Rightarrow> (UB, q1))"

datatype fq_op =
    FPush Frame int bool
  | FPop int bool
  | FProduce Frame int bool
  | FClear
  | FSetAbort bool
  | FSetSerial int
  | FSetKeepLast bool
  | FSetMaxCount int
  | FUninit
  | FInit

fun no_ub :: "'a outcome \<times> FrameQueue \<Rightarrow> FrameQueue option" where
  "no_ub (UB, q) = None"
| "no_ub (Wait, q) = Some q"
| "no_ub (Ret x, q) = Some q"

fun fq_step :: "frame_api \<Rightarrow> fq_op \<Rightarrow> FrameQueue \<Rightarrow> FrameQueue option" where
  "fq_step api (FPush f t e) q = no_ub (FrameQueue_push api f t e q)"
| "fq_step api (FPop t e) q = no_ub (FrameQueue_pop api t e q)"
| "fq_step api (FProduce f t e) q = no_ub (FrameQueue_produce f t e q)"
| "fq_step api FClear q = no_ub (FrameQueue_clear api q)"
| "fq_step api (FSetAbort b) q = Some (FrameQueue_setAbortStatus b q)"
| "fq_step api (FSetSerial s) q = Some (FrameQueue_setSerial s q)"
| "fq_step api (FSetKeepLast k) q = Some (FrameQueue_setKeepLast k q)"
| "fq_step api (FSetMaxCount n) q = no_ub (FrameQueue_setMaxCount api n q)"
| "fq_step api FUninit q = Some (FrameQueue_uninit q)"
| "fq_step api FInit q = FrameQueue_init api q"

fun fq_run :: "frame_api \<Rightarrow> fq_op list \<Rightarrow> FrameQueue \<Rightarrow> FrameQueue option" where
  "fq_run api [] q = Some q"
| "fq_run api (op # ops) q = (case fq_step api op q of None \<Rightarrow> None | Some q' \<Rightarrow> fq_run api ops q')"

text \<open>The non-blocking use of the queue, as an instance of the queue interface.\<close>

definition FrameQueue_put :: "frame_api \<Rightarrow> Frame \<Rightarrow> FrameQueue \<Rightarrow> FrameQueue option" where
  "FrameQueue_put api f q = (case FrameQueue_push api f 0 False q of (Ret True, q') \<Rightarrow> Some q' | _ \<Rightarrow> None)"

definition FrameQueue_take :: "frame_api \<Rightarrow> FrameQueue \<Rightarrow> (Frame \<times> FrameQueue) option" where
  "FrameQueue_take api q =
     (case FrameQueue_tryPop api q of (Ret (Some f), q') \<Rightarrow> Some (f, q') | _ \<Rightarrow> None)"

lemma mod_window_distinct:
  fixes h m :: int
  assumes "0 \<le> i" "i < j" "j < i + m"
  shows "(h + i) mod m \<noteq> (h + j) mod m"
proof
  assume "(h + i) mod m = (h + j) mod m"
  then have "m dvd (h + i) - (h + j)" by (rule mod_eq_dvd_iff [THEN iffD1])
  then have "m dvd i - j" by simp
  then have "m dvd j - i" using dvd_minus_iff [of m "i - j"] by simp
  with assms show False using zdvd_imp_le [of m "j - i"] by simp
qed

lemma nat_mod_window_distinct:
  fixes h m :: int
  assumes "0 < m" "0 \<le> i" "i < j" "j < i + m"
  shows "nat ((h + i) mod m) \<noteq> nat ((h + j) mod m)"
  using mod_window_distinct [OF assms(2-4), of h] assms(1)
  by (simp add: eq_nat_nat_iff)

lemma length_window [simp]: "length (fq_window q) = nat (fq_size q)"
  by (simp add: fq_window_def)

lemma length_frames [simp]: "length (fq_frames q) = nat (fq_size q)"
  by (simp add: fq_frames_def)

lemma nat_mod_less: "0 < m \<Longrightarrow> int n = m \<Longrightarrow> nat (k mod m) < n"
  using pos_mod_bound [of m k] pos_mod_sign [of m k] by linarith

lemma inv_window_ok: "fq_inv q \<Longrightarrow> fq_window_ok q"
  by (auto simp: fq_inv_def fq_window_ok_def fq_window_def list_all_iff nat_mod_less)

text \<open>The window grows at the tail and shrinks at the head.\<close>

lemma window_snoc:
  assumes "0 \<le> fq_size q" "fq_size q' = fq_size q + 1" "fq_head q' = fq_head q"
    "fq_maxSize q' = fq_maxSize q"
  shows "fq_window q' = fq_window q @ [nat ((fq_head q + fq_size q) mod fq_maxSize q)]"
proof -
  have "nat (fq_size q') = Suc (nat (fq_size q))" using assms by simp
  then show ?thesis using assms by (simp add: fq_window_def)
qed

lemma window_cons:
  assumes "0 \<le> fq_size q'" "fq_size q = fq_size q' + 1"
    "fq_head q' = (fq_head q + 1) mod fq_maxSize q" "fq_maxSize q' = fq_maxSize q"
  shows "fq_window q = nat (fq_head q mod fq_maxSize q) # fq_window q'"
proof -
  have s: "nat (fq_size q) = Suc (nat (fq_size q'))" using assms by simp
  have "fq_window q = nat (fq_head q mod fq_maxSize q) #
      map (\<lambda>i. nat ((fq_head q + int (Suc i)) mod fq_maxSize q)) [0..<nat (fq_size q')]"
    unfolding fq_window_def s by (subst upt_conv_Cons) (simp_all add: map_Suc_upt [symmetric] del: upt_Suc)
  moreover have "(fq_head q + int (Suc i)) mod fq_maxSize q = (fq_head q' + int i) mod fq_maxSize q'" for i
    using assms by (simp add: mod_add_left_eq add.assoc [symmetric])
  ultimately show ?thesis by (simp add: fq_window_def)
qed

lemma tail_not_in_window:
  assumes "fq_inv q" "fq_size q < fq_maxSize q" "0 < fq_maxSize q"
  shows "nat ((fq_head q + fq_size q) mod fq_maxSize q) \<notin> set (fq_window q)"
  using assms nat_mod_window_distinct [of "fq_maxSize q" "int i" "fq_size q" "fq_head q" for i]
  by (force simp: fq_window_def fq_inv_def)

lemma head_not_in_rest:
  assumes "0 < fq_maxSize q" "fq_window q = nat (fq_head q mod fq_maxSize q) # w"
    "fq_size q \<le> fq_maxSize q"
  shows "nat (fq_head q mod fq_maxSize q) \<notin> set w"
proof -
  have l: "nat (fq_size q) = Suc (length w)"
    using length_window [of q] unfolding assms(2) by simp
  have "fq_window q ! 0 \<noteq> fq_window q ! Suc i" if "i < length w" for i
  proof -
    have "int (Suc i) < fq_size q" using that l by linarith
    then show ?thesis
      using nat_mod_window_distinct [of "fq_maxSize q" 0 "int (Suc i)" "fq_head q"] assms(1,3)
      by (simp add: fq_window_def)
  qed
  then have "nat (fq_head q mod fq_maxSize q) \<noteq> w ! i" if "i < length w" for i
    using that assms(2) by simp
  then show ?thesis by (metis in_set_conv_nth)
qed

lemma map_nth_update_other:
  "j \<notin> set w \<Longrightarrow> map (\<lambda>i. xs[j := x] ! i) w = map (\<lambda>i. xs ! i) w"
  by (auto intro: nth_list_update_neq)


subsection \<open>Every call keeps the ring buffer well formed\<close>

lemma inv_nonempty:
  "fq_inv q \<Longrightarrow> fq_queue q \<noteq> [] \<Longrightarrow>
     0 < fq_maxSize q \<and> int (length (fq_queue q)) = fq_maxSize q \<and> 0 \<le> fq_head q \<and> fq_head q < fq_maxSize q
     \<and> 0 \<le> fq_size q \<and> fq_size q \<le> fq_maxSize q \<and> fq_tail q = (fq_head q + fq_size q) mod fq_maxSize q"
  by (auto simp: fq_inv_def)

lemma tail_in_range: "fq_inv q \<Longrightarrow> fq_queue q \<noteq> [] \<Longrightarrow> fq_in_range (fq_tail q) q"
  using inv_nonempty [of q] by (auto simp: fq_in_range_def nat_mod_less)

lemma head_in_range: "fq_inv q \<Longrightarrow> fq_queue q \<noteq> [] \<Longrightarrow> fq_in_range (fq_head q) q"
  using inv_nonempty [of q] by (auto simp: fq_in_range_def)

lemma frames_snoc:
  assumes "fq_inv q" "fq_queue q \<noteq> []" "fq_size q < fq_maxSize q"
    "fq_queue q' = (fq_queue q)[nat (fq_tail q) := f]" "fq_size q' = fq_size q + 1"
    "fq_head q' = fq_head q" "fq_maxSize q' = fq_maxSize q"
    "fq_tail q' = (fq_tail q + 1) mod fq_maxSize q"
  shows "fq_frames q' = fq_frames q @ [f]" "fq_inv q'"
proof -
  note i = inv_nonempty [OF assms(1,2)]
  have t: "fq_tail q = (fq_head q + fq_size q) mod fq_maxSize q" using i by blast
  have w: "fq_window q' = fq_window q @ [nat (fq_tail q)]"
    unfolding t by (rule window_snoc) (use i assms(5-7) in auto)
  have "nat (fq_tail q) \<notin> set (fq_window q)"
    unfolding t by (rule tail_not_in_window) (use assms(1,3) i in auto)
  moreover have "nat (fq_tail q) < length (fq_queue q)"
    using tail_in_range [OF assms(1,2)] by (simp add: fq_in_range_def)
  ultimately show "fq_frames q' = fq_frames q @ [f]"
    unfolding fq_frames_def w assms(4) map_append by (simp add: map_nth_update_other)
  have "fq_tail q' = (fq_head q' + fq_size q') mod fq_maxSize q'"
    unfolding assms(5-8) t by (simp add: mod_simps add.assoc)
  then show "fq_inv q'"
    unfolding fq_inv_def using i assms(3-7) by auto
qed

lemma frames_tl:
  assumes "fq_inv q" "fq_size q \<noteq> 0"
    "fq_queue q' = (fq_queue q)[nat (fq_head q) := f]" "fq_size q' = fq_size q - 1"
    "fq_head q' = (fq_head q + 1) mod fq_maxSize q" "fq_maxSize q' = fq_maxSize q"
    "fq_tail q' = fq_tail q"
  shows "fq_frames q = fq_slot q (fq_head q) # fq_frames q'" "fq_inv q'" "fq_queue q \<noteq> []"
proof -
  show ne: "fq_queue q \<noteq> []" using assms(1,2) by (auto simp: fq_inv_def)
  note i = inv_nonempty [OF assms(1) ne]
  have h: "fq_head q mod fq_maxSize q = fq_head q" using i by simp
  have w: "fq_window q = nat (fq_head q) # fq_window q'"
    by (rule window_cons [of q' q, unfolded h]) (use i assms(2,4-6) in auto)
  have "nat (fq_head q) \<notin> set (fq_window q')"
    by (rule head_not_in_rest [of q, unfolded h]) (use i w in auto)
  then show "fq_frames q = fq_slot q (fq_head q) # fq_frames q'"
    by (simp add: fq_frames_def w fq_slot_def assms(3) map_nth_update_other)
  have "fq_tail q' = (fq_head q' + fq_size q') mod fq_maxSize q'"
    unfolding assms(4-7) using i by (simp add: mod_simps)
  then show "fq_inv q'"
    unfolding fq_inv_def using i assms(2-6) by auto
qed

lemma pushInternal_room:
  assumes "fq_inv q" "fq_queue q \<noteq> []" "fq_size q < fq_maxSize q"
    and "FrameQueue_pushInternal api frame q = (r, q')"
  shows "r = Ret True" "fq_frames q' = fq_frames q @ [Frame_copy api frame]" "fq_inv q'"
    "fq_maxSize q' = fq_maxSize q" "fq_keepLast q' = fq_keepLast q" "fq_aborted q' = fq_aborted q"
    "fq_queue q' \<noteq> []"
proof -
  note i = inv_nonempty [OF assms(1,2)] tail_in_range [OF assms(1,2)]
  have r: "r = Ret True" and q': "q' = q\<lparr>fq_queue := (fq_queue q)[nat (fq_tail q) := Frame_copy api frame],
      fq_tail := (fq_tail q + 1) mod fq_maxSize q, fq_size := fq_size q + 1\<rparr>"
    using assms(3,4) i by (auto simp: FrameQueue_pushInternal_def Let_def Frame_assign_eq_copy)
  show "r = Ret True" by (rule r)
  show "fq_frames q' = fq_frames q @ [Frame_copy api frame]" "fq_inv q'"
    using frames_snoc [OF assms(1-3), of q' "Frame_copy api frame"] q' by auto
  show "fq_maxSize q' = fq_maxSize q" "fq_keepLast q' = fq_keepLast q" "fq_aborted q' = fq_aborted q"
    "fq_queue q' \<noteq> []"
    using q' assms(2) by auto
qed

lemma popInternal_some:
  assumes "fq_inv q" "fq_size q \<noteq> 0" and "FrameQueue_popInternal q = (r, q')"
  shows "r = Ret (Some (hd (fq_frames q)))" "fq_frames q' = tl (fq_frames q)" "fq_inv q'"
    "fq_maxSize q' = fq_maxSize q" "fq_keepLast q' = fq_keepLast q" "fq_aborted q' = fq_aborted q"
proof -
  have ne: "fq_queue q \<noteq> []" using assms(1,2) by (auto simp: fq_inv_def)
  note i = inv_nonempty [OF assms(1) ne] head_in_range [OF assms(1) ne]
  have r: "r = Ret (Some (fq_slot q (fq_head q)))" and
    q': "q' = q\<lparr>fq_queue := (fq_queue q)[nat (fq_head q) := Frame_moved_from (fq_slot q (fq_head q))],
      fq_head := (fq_head q + 1) mod fq_maxSize q, fq_size := fq_size q - 1\<rparr>"
    using assms(2,3) i by (auto simp: FrameQueue_popInternal_def Let_def split_beta)
  note t = frames_tl [OF assms(1,2), of q' "Frame_moved_from (fq_slot q (fq_head q))"]
  show "r = Ret (Some (hd (fq_frames q)))" "fq_frames q' = tl (fq_frames q)" "fq_inv q'"
    "fq_maxSize q' = fq_maxSize q" "fq_keepLast q' = fq_keepLast q" "fq_aborted q' = fq_aborted q"
    using t q' r by auto
qed


lemma inv_cong:
  "fq_inv q \<Longrightarrow> fq_queue q' = fq_queue q \<Longrightarrow> fq_head q' = fq_head q \<Longrightarrow> fq_tail q' = fq_tail q
    \<Longrightarrow> fq_size q' = fq_size q \<Longrightarrow> fq_maxSize q' = fq_maxSize q \<Longrightarrow> fq_inv q'"
  by (simp add: fq_inv_def)

lemma push_cases:
  "fst (FrameQueue_push api f t e q) \<in> {Ret False, Wait} \<and> snd (FrameQueue_push api f t e q) = q
   \<or> fq_queue q \<noteq> [] \<and> \<not> fq_aborted q \<and> fq_size q < fq_maxSize q
      \<and> FrameQueue_push api f t e q = FrameQueue_pushInternal api f q"
  by (auto simp: FrameQueue_push_def fq_hasSpace_def Let_def)

lemma push_inv:
  assumes "fq_inv q"
  shows "\<exists>q'. no_ub (FrameQueue_push api f t e q) = Some q' \<and> fq_inv q'"
  using push_cases [of api f t e q]
proof (elim disjE conjE)
  assume "fq_queue q \<noteq> []" "fq_size q < fq_maxSize q"
    and p: "FrameQueue_push api f t e q = FrameQueue_pushInternal api f q"
  from pushInternal_room [OF assms this(1,2), of api f] p show ?thesis
    by (cases "FrameQueue_pushInternal api f q") simp
qed (use assms in \<open>cases "FrameQueue_push api f t e q"; auto\<close>)

lemma waitForData_result:
  "FrameQueue_waitForData t e q \<noteq> UB"
  "FrameQueue_waitForData t e q = Ret True \<Longrightarrow> FrameQueue_canPop q \<or> fq_aborted q"
  by (auto simp: FrameQueue_waitForData_def Let_def split: if_splits)

lemma last_in_range: "fq_inv q \<Longrightarrow> FrameQueue_shouldReturnLastFrame q \<Longrightarrow> fq_in_range (fq_head q) q"
  using head_in_range [of q] by (cases "fq_queue q = []")
    (auto simp: FrameQueue_shouldReturnLastFrame_def fq_inv_def)

lemma canPop_size: "FrameQueue_canPop q \<Longrightarrow> fq_size q \<noteq> 0"
  by (auto simp: FrameQueue_canPop_def split: if_splits)

lemma pop_cases:
  assumes "fq_inv q"
  shows "(\<exists>r. FrameQueue_pop api t e q = (r, q) \<and> r \<noteq> UB)
   \<or> fq_size q \<noteq> 0 \<and> FrameQueue_pop api t e q = FrameQueue_popInternal q"
proof (cases "FrameQueue_waitForData t e q")
  case Wait
  then show ?thesis by (simp add: FrameQueue_pop_def)
next
  case (Ret b)
  with last_in_range [OF assms] waitForData_result(2) [of t e q] canPop_size [of q] show ?thesis
    by (cases b) (auto simp: FrameQueue_pop_def Let_def)
next
  case UB
  then show ?thesis by (simp add: waitForData_result)
qed

lemma no_ub_not_UB: "r \<noteq> UB \<Longrightarrow> no_ub (r, q) = Some q"
  by (cases r) auto

lemma pop_inv:
  assumes "fq_inv q"
  shows "\<exists>q'. no_ub (FrameQueue_pop api t e q) = Some q' \<and> fq_inv q'"
  using pop_cases [OF assms, of api t e]
proof (elim disjE exE conjE)
  assume "FrameQueue_pop api t e q = FrameQueue_popInternal q" and "fq_size q \<noteq> 0"
  with popInternal_some [OF assms this(2)] show ?thesis
    by (cases "FrameQueue_popInternal q") auto
qed (use assms in \<open>auto simp: no_ub_not_UB\<close>)

lemma getWritable_cases:
  assumes "fq_inv q"
  shows "fst (FrameQueue_getWritableFrame t e q) \<in> {Ret None, Wait} \<and> snd (FrameQueue_getWritableFrame t e q) = q
   \<or> fq_queue q \<noteq> [] \<and> \<not> fq_aborted q \<and> fq_size q < fq_maxSize q
      \<and> FrameQueue_getWritableFrame t e q = (Ret (Some (fq_tail q)), q\<lparr>fq_pendingWriteIndex := fq_tail q\<rparr>)"
  using tail_in_range [OF assms]
  by (auto simp: FrameQueue_getWritableFrame_def fq_hasSpace_def Let_def)

lemma commit_written:
  assumes "fq_inv q" "fq_queue q \<noteq> []" "fq_size q < fq_maxSize q"
    and "q' = snd (FrameQueue_commitFrame (FrameQueue_write (fq_tail q) f (q\<lparr>fq_pendingWriteIndex := i\<rparr>)))"
  shows "fst (FrameQueue_commitFrame (FrameQueue_write (fq_tail q) f (q\<lparr>fq_pendingWriteIndex := i\<rparr>))) = Ret True"
    and "fq_frames q' = fq_frames q @ [f]" and "fq_inv q'"
proof -
  note i = inv_nonempty [OF assms(1,2)]
  show "fst (FrameQueue_commitFrame (FrameQueue_write (fq_tail q) f (q\<lparr>fq_pendingWriteIndex := i\<rparr>))) = Ret True"
    using i by (simp add: FrameQueue_commitFrame_def FrameQueue_write_def)
  show "fq_frames q' = fq_frames q @ [f]" "fq_inv q'"
    using frames_snoc [OF assms(1-3), of q' f] i assms(4)
    by (simp_all add: FrameQueue_commitFrame_def FrameQueue_write_def)
qed

lemma produce_inv:
  assumes "fq_inv q"
  shows "\<exists>q'. no_ub (FrameQueue_produce f t e q) = Some q' \<and> fq_inv q'"
  using getWritable_cases [OF assms, of t e]
proof (elim disjE conjE)
  assume "fq_queue q \<noteq> []" "fq_size q < fq_maxSize q"
    and g: "FrameQueue_getWritableFrame t e q = (Ret (Some (fq_tail q)), q\<lparr>fq_pendingWriteIndex := fq_tail q\<rparr>)"
  from commit_written [OF assms this(1,2) refl, of f "fq_tail q"] g show ?thesis
    by (cases "FrameQueue_commitFrame (FrameQueue_write (fq_tail q) f (q\<lparr>fq_pendingWriteIndex := fq_tail q\<rparr>))")
      (simp add: FrameQueue_produce_def)
next
  assume "fst (FrameQueue_getWritableFrame t e q) \<in> {Ret None, Wait}"
    and "snd (FrameQueue_getWritableFrame t e q) = q"
  with assms show ?thesis
    by (cases "FrameQueue_getWritableFrame t e q") (auto simp: FrameQueue_produce_def)
qed

lemma length_unref_fold [simp]:
  "length (fold (\<lambda>j qs. qs[j := g (qs ! j)]) js qs) = length qs"
  by (induction js arbitrary: qs) auto

lemma unref_fold_nth:
  "distinct js \<Longrightarrow> k < length qs \<Longrightarrow>
     fold (\<lambda>j qs. qs[j := g (qs ! j)]) js qs ! k = (if k \<in> set js then g (qs ! k) else qs ! k)"
proof (induction js arbitrary: qs)
  case (Cons j js)
  then show ?case using Cons.IH [of "qs[j := g (qs ! j)]"] by (cases "k = j") auto
qed simp

lemma distinct_window: "fq_inv q \<Longrightarrow> distinct (fq_window q)"
proof (cases "fq_queue q = []")
  case False
  assume "fq_inv q"
  note i = inv_nonempty [OF this False]
  have "nat ((fq_head q + int a) mod fq_maxSize q) \<noteq> nat ((fq_head q + int b) mod fq_maxSize q)"
    if "a < b" "b < nat (fq_size q)" for a b
    by (rule nat_mod_window_distinct) (use that i in linarith)+
  then have "inj_on (\<lambda>k. nat ((fq_head q + int k) mod fq_maxSize q)) {0..<nat (fq_size q)}"
    by (intro linorder_inj_onI) auto
  then show ?thesis by (simp add: fq_window_def distinct_map)
qed (auto simp: fq_inv_def fq_window_def)

lemma clear_inv:
  "fq_inv q \<Longrightarrow> \<exists>q'. no_ub (FrameQueue_clear api q) = Some q' \<and> fq_inv q' \<and> fq_frames q' = []"
  using inv_window_ok [of q]
  by (auto simp: FrameQueue_clear_def fq_frames_def fq_window_def) (auto simp: fq_inv_def)

lemma restore_inv:
  assumes "fq_inv q" "fq_queue q \<noteq> []" "fq_size q + int (length fs) \<le> fq_maxSize q"
  shows "fq_inv (fold fq_restore fs q) \<and> fq_frames (fold fq_restore fs q) = fq_frames q @ fs"
  using assms
proof (induction fs arbitrary: q)
  case Nil
  then show ?case by simp
next
  case (Cons f fs)
  let ?q = "fq_restore f q"
  have "fq_frames ?q = fq_frames q @ [f]" "fq_inv ?q"
    using frames_snoc [OF Cons.prems(1,2), of ?q f] Cons.prems(3) by (simp_all add: fq_restore_def)
  moreover have "fq_queue ?q \<noteq> []" "fq_size ?q + int (length fs) \<le> fq_maxSize ?q"
    using Cons.prems by (simp_all add: fq_restore_def)
  ultimately show ?case using Cons.IH [of ?q] by simp
qed

lemma setMaxCount_changes:
  assumes "fq_inv q" "0 < n" "n \<noteq> fq_maxSize q"
  shows "\<exists>q'. FrameQueue_setMaxCount api n q = (Ret True, q') \<and> fq_inv q'
           \<and> fq_frames q' = take (nat n) (fq_frames q)"
proof -
  define q1 where "q1 = q\<lparr>fq_queue := replicate (nat n) (Frame_ensureAllocated api Frame_new),
    fq_maxSize := n, fq_head := 0, fq_tail := 0, fq_size := 0, fq_pendingWriteIndex := -1\<rparr>"
  let ?fs = "take (nat (min (int (length (fq_frames q))) n)) (fq_frames q)"
  have e: "FrameQueue_setMaxCount api n q = (Ret True, fold fq_restore ?fs q1)"
    using assms inv_window_ok [OF assms(1)]
    by (simp add: FrameQueue_setMaxCount_def q1_def fq_frames_def)
  have "fq_inv q1" "fq_queue q1 \<noteq> []" "fq_frames q1 = []" "fq_size q1 = 0" "fq_maxSize q1 = n"
    using assms(2) by (simp_all add: fq_inv_def q1_def fq_frames_def fq_window_def)
  then have "fq_inv (fold fq_restore ?fs q1) \<and> fq_frames (fold fq_restore ?fs q1) = ?fs"
    using restore_inv [of q1 ?fs] assms(2) by simp
  moreover have "?fs = take (nat n) (fq_frames q)"
    by (cases "int (length (fq_frames q)) \<le> n") (simp_all only: min_absorb1 min_absorb2 nat_int take_all
        nat_le_iff linorder_not_le less_imp_le order_refl)
  ultimately show ?thesis using e by simp
qed

lemma setMaxCount_inv:
  assumes "fq_inv q"
  shows "\<exists>q'. no_ub (FrameQueue_setMaxCount api n q) = Some q' \<and> fq_inv q'"
proof (cases "0 < n \<and> n \<noteq> fq_maxSize q")
  case True
  with setMaxCount_changes [OF assms, of n api] show ?thesis by auto
next
  case False
  with assms show ?thesis by (auto simp: FrameQueue_setMaxCount_def)
qed

lemma init_inv: "0 \<le> fq_maxSize q \<Longrightarrow> \<exists>q'. FrameQueue_init api q = Some q' \<and> fq_inv q'"
  by (auto simp: FrameQueue_init_def fq_inv_def FrameQueue_uninit_def)

lemma inv_maxSize: "fq_inv q \<Longrightarrow> 0 \<le> fq_maxSize q"
  by (auto simp: fq_inv_def)

lemma step_inv: "fq_inv q \<Longrightarrow> \<exists>q'. fq_step api op q = Some q' \<and> fq_inv q'"
proof (cases op)
  case FClear
  assume "fq_inv q"
  with FClear clear_inv [of q api] show ?thesis by auto
qed (auto simp: push_inv pop_inv produce_inv setMaxCount_inv init_inv inv_maxSize,
  auto simp: fq_inv_def FrameQueue_setAbortStatus_def FrameQueue_setSerial_def
    FrameQueue_setKeepLast_def FrameQueue_uninit_def)

lemma new_inv: "0 \<le> n \<Longrightarrow> \<exists>q. FrameQueue_new api n k autoInit = Some q \<and> fq_inv q"
  by (auto simp: FrameQueue_new_def Let_def init_inv) (simp add: fq_inv_def)

lemma run_inv: "fq_inv q \<Longrightarrow> \<exists>q'. fq_run api ops q = Some q' \<and> fq_inv q'"
proof (induction ops arbitrary: q)
  case Nil
  then show ?case by simp
next
  case (Cons op ops)
  then show ?case using step_inv [OF Cons.prems, of api op] by auto
qed


subsection \<open>The queue interface\<close>

lemma frames_size: "fq_inv q \<Longrightarrow> int (length (fq_frames q)) = fq_size q"
  by (auto simp: fq_inv_def)

lemma put_Some:
  assumes "fq_inv q" "FrameQueue_put api f q = Some q'"
  shows "fq_frames q' = fq_frames q @ [Frame_copy api f]" "fq_inv q'" "fq_size q < fq_maxSize q"
    "fq_keepLast q' = fq_keepLast q"
proof -
  have p: "FrameQueue_push api f 0 False q = (Ret True, q')"
    using assms(2) by (auto simp: FrameQueue_put_def split: outcome.splits bool.splits prod.splits)
  with push_cases [of api f 0 False q] have c: "fq_queue q \<noteq> []" "fq_size q < fq_maxSize q"
    "FrameQueue_pushInternal api f q = (Ret True, q')"
    by auto
  show "fq_size q < fq_maxSize q" by (rule c(2))
  show "fq_frames q' = fq_frames q @ [Frame_copy api f]" "fq_inv q'" "fq_keepLast q' = fq_keepLast q"
    using pushInternal_room [OF assms(1) c] by simp_all
qed

lemma take_Some:
  assumes "fq_inv q" "\<not> fq_keepLast q" "FrameQueue_take api q = Some (f, q')"
  shows "fq_frames q = f # fq_frames q'" "fq_inv q'" "\<not> fq_keepLast q'"
proof -
  have p: "FrameQueue_pop api 0 False q = (Ret (Some f), q')"
    using assms(3)
    by (auto simp: FrameQueue_take_def FrameQueue_tryPop_def split: outcome.splits option.splits prod.splits)
  then have c: "fq_size q \<noteq> 0" "FrameQueue_popInternal q = (Ret (Some f), q')"
    using assms(2)
    by (auto simp: FrameQueue_pop_def FrameQueue_waitForData_def FrameQueue_canPop_def Let_def
        FrameQueue_shouldReturnLastFrame_def split: if_splits bool.splits)
  note i = popInternal_some [OF assms(1) c]
  have "length (fq_frames q) \<noteq> 0"
    using c(1) frames_size [OF assms(1)] by linarith
  then have "fq_frames q \<noteq> []" by (simp only: length_0_conv not_False_eq_True)
  with i show "fq_frames q = f # fq_frames q'" by simp
  show "fq_inv q'" "\<not> fq_keepLast q'" using i assms(2) by simp_all
qed

lemma put_maxSize: "FrameQueue_put api f q = Some q' \<Longrightarrow> fq_maxSize q' = fq_maxSize q"
  by (auto simp: FrameQueue_put_def FrameQueue_push_def FrameQueue_pushInternal_def Let_def
      split: if_splits outcome.splits bool.splits prod.splits)

lemma take_maxSize: "FrameQueue_take api q = Some (f, q') \<Longrightarrow> fq_maxSize q' = fq_maxSize q"
  by (auto simp: FrameQueue_take_def FrameQueue_tryPop_def FrameQueue_pop_def FrameQueue_popInternal_def
      Let_def split_beta split: if_splits outcome.splits bool.splits option.splits prod.splits)

interpretation fq: bounded_fifo fq_frames "\<lambda>q. fq_inv q \<and> \<not> fq_keepLast q" "Frame_copy api"
    "FrameQueue_put api" "FrameQueue_take api" fq_maxSize for api
  by unfold_locales (metis put_Some take_Some put_maxSize take_maxSize frames_size)+


subsection \<open>Properties\<close>


definition sample_frame_api :: frame_api where
  "sample_frame_api = \<lparr>av_frame_alloc = blank_av_frame, av_frame_ref = (\<lambda>d s. (0, s)),
     av_frame_unref = (\<lambda>_. blank_av_frame)\<rparr>"


text \<open>
  C2: the ring buffer implements a first-in first-out queue.  Any sequence of non-blocking
  \<open>push\<close> and \<open>tryPop\<close> calls without \<open>keepLast_\<close> neither loses, duplicates nor
  reorders frames, the capacity is kept and never exceeded.
\<close>

theorem FrameQueue_fifo:
  assumes "fq_inv q" "\<not> fq_keepLast q"
    and "fifo_run (FrameQueue_put api) (FrameQueue_take api) ops q = (taken, acc, q')"
  shows "fq_frames q @ map (Frame_copy api) acc = taken @ fq_frames q'
       \<and> FrameQueue_size q' \<le> FrameQueue_capacity q \<and> fq_inv q'"
proof -
  have i: "fq_inv q \<and> \<not> fq_keepLast q" using assms by simp
  have "int (length (fq_frames q)) \<le> fq_maxSize q"
    unfolding frames_size [OF assms(1)] using assms(1) by (auto simp: fq_inv_def)
  from fq.run_fifo [OF i assms(3)] fq.run_bounded [OF i this assms(3)] show ?thesis
    by (simp add: FrameQueue_size_def FrameQueue_capacity_def frames_size del: length_frames)
qed

definition sample_queue :: FrameQueue where
  "sample_queue = \<lparr>fq_queue = [sample_frame 0, sample_frame 0], fq_head = 1, fq_tail = 1, fq_size = 0,
     fq_maxSize = 2, fq_keepLast = False, fq_pendingWriteIndex = -1, fq_serial = 0, fq_aborted = False\<rparr>"

lemma sample_queue_inv: "fq_inv sample_queue" "\<not> fq_keepLast sample_queue"
  by (simp_all add: fq_inv_def sample_queue_def)

theorem FrameQueue_fifo_witness:
  "(case fifo_run (FrameQueue_put sample_frame_api) (FrameQueue_take sample_frame_api)
          [Put (sample_frame 1), Put (sample_frame 2), Put (sample_frame 3), Get] sample_queue of
      (taken, acc, q') \<Rightarrow> map (Frame_copy sample_frame_api) acc = taken @ fq_frames q')"
  using FrameQueue_fifo [OF sample_queue_inv, of sample_frame_api
      "[Put (sample_frame 1), Put (sample_frame 2), Put (sample_frame 3), Get]"]
  by (auto simp: fq_frames_def fq_window_def sample_queue_def split: prod.splits)

text \<open>
  C3: a two-phase write publishes exactly the frame that was written.  On a well-formed queue
  with room, \<open>getWritableFrame\<close> hands out a slot outside the queued frames: while the client
  fills it the queued frames are unchanged, and \<open>commitFrame\<close> appends what was written.
\<close>

theorem FrameQueue_two_phase_write:
  assumes "fq_inv q" "FrameQueue_getWritableFrame t e q = (Ret (Some i), q1)"
  shows "fq_frames (FrameQueue_write i f q1) = fq_frames q
       \<and> fst (FrameQueue_commitFrame (FrameQueue_write i f q1)) = Ret True
       \<and> fq_frames (snd (FrameQueue_commitFrame (FrameQueue_write i f q1))) = fq_frames q @ [f]
       \<and> fq_inv (snd (FrameQueue_commitFrame (FrameQueue_write i f q1)))"
proof -
  have c: "fq_queue q \<noteq> []" "fq_size q < fq_maxSize q" "i = fq_tail q"
    "q1 = q\<lparr>fq_pendingWriteIndex := fq_tail q\<rparr>"
    using getWritable_cases [OF assms(1), of t e] assms(2) by auto
  have w: "fq_window (FrameQueue_write i f q1) = fq_window q"
    by (simp add: fq_window_def FrameQueue_write_def c(4))
  have "nat (fq_tail q) \<notin> set (fq_window q)"
    using tail_not_in_window [OF assms(1) c(2)] inv_nonempty [OF assms(1) c(1)] by simp
  then have "fq_frames (FrameQueue_write i f q1) = fq_frames q"
    unfolding fq_frames_def w by (simp add: FrameQueue_write_def c(3,4) map_nth_update_other)
  with commit_written [OF assms(1) c(1,2) refl, of f "fq_tail q"] show ?thesis
    by (simp add: c(3,4))
qed

theorem FrameQueue_two_phase_write_witness:
  "FrameQueue_getWritableFrame 0 False sample_queue = (Ret (Some 1), sample_queue\<lparr>fq_pendingWriteIndex := 1\<rparr>)
   \<and> fq_frames (snd (FrameQueue_commitFrame (FrameQueue_write 1 (sample_frame 9)
        (sample_queue\<lparr>fq_pendingWriteIndex := 1\<rparr>)))) = [sample_frame 9]"
proof -
  have g: "FrameQueue_getWritableFrame 0 False sample_queue = (Ret (Some 1), sample_queue\<lparr>fq_pendingWriteIndex := 1\<rparr>)"
    by (simp add: FrameQueue_getWritableFrame_def fq_hasSpace_def fq_in_range_def sample_queue_def)
  have "fq_frames sample_queue = []" by (simp add: fq_frames_def fq_window_def sample_queue_def)
  with g FrameQueue_two_phase_write [OF sample_queue_inv(1) g, of "sample_frame 9"] show ?thesis by simp
qed

text \<open>
  \<open>setMaxCount\<close> with a positive argument succeeds, keeps the oldest frames that fit in
  their order and sets the capacity; with zero or a negative one it fails and changes nothing.
\<close>

theorem FrameQueue_setMaxCount_keeps_oldest:
  assumes "fq_inv q" "fq_queue q \<noteq> []"
  shows "if 0 < n
         then \<exists>q'. FrameQueue_setMaxCount api n q = (Ret True, q') \<and> fq_inv q'
                \<and> FrameQueue_capacity q' = n \<and> fq_frames q' = take (nat n) (fq_frames q)
         else FrameQueue_setMaxCount api n q = (Ret False, q)"
proof (cases "0 < n \<and> n \<noteq> fq_maxSize q")
  case True
  then obtain q' where e: "FrameQueue_setMaxCount api n q = (Ret True, q')"
    and i: "fq_inv q'" "fq_frames q' = take (nat n) (fq_frames q)"
    using setMaxCount_changes [OF assms(1), of n api] by auto
  have "fq_maxSize (fold fq_restore fs q1) = fq_maxSize q1" for fs q1
    by (induction fs arbitrary: q1) (simp_all add: fq_restore_def)
  with e True have "fq_maxSize q' = n"
    by (auto simp: FrameQueue_setMaxCount_def Let_def split: if_splits)
  with True e i show ?thesis by (auto simp: FrameQueue_capacity_def)
next
  case False
  with assms(1) inv_nonempty [OF assms] show ?thesis
    by (auto simp: FrameQueue_setMaxCount_def FrameQueue_capacity_def)
qed

theorem FrameQueue_setMaxCount_keeps_oldest_witness:
  "\<exists>q'. FrameQueue_setMaxCount sample_frame_api 1
          (sample_queue\<lparr>fq_size := 2, fq_queue := [sample_frame 2, sample_frame 1]\<rparr>) = (Ret True, q')
      \<and> fq_frames q' = [sample_frame 1]"
proof -
  let ?q = "sample_queue\<lparr>fq_size := 2, fq_queue := [sample_frame 2, sample_frame 1]\<rparr>"
  have i: "fq_inv ?q" "fq_queue ?q \<noteq> []" by (simp_all add: fq_inv_def sample_queue_def)
  have "fq_frames ?q = [sample_frame 1, sample_frame 2]"
    by (simp add: fq_frames_def fq_window_def sample_queue_def upt_rec)
  with FrameQueue_setMaxCount_keeps_oldest [OF i, of 1 sample_frame_api] show ?thesis by auto
qed

text \<open>
  \<open>setAbortStatus(true)\<close> releases every caller.  On an aborted queue \<open>push\<close> returns
  false, \<open>getWritableFrame\<close> returns \<open>nullptr\<close> and \<open>pop\<close> returns false, whatever the
  timeout and whatever is queued, and nothing is changed.
\<close>

theorem FrameQueue_abort_releases:
  "let q' = FrameQueue_setAbortStatus True q
   in FrameQueue_push api f t e q' = (Ret False, q')
      \<and> FrameQueue_getWritableFrame t e q' = (Ret None, q')
      \<and> FrameQueue_pop api t e q' = (Ret None, q')"
  by (auto simp: Let_def FrameQueue_setAbortStatus_def FrameQueue_push_def fq_hasSpace_def
      FrameQueue_getWritableFrame_def FrameQueue_pop_def FrameQueue_waitForData_def)

text \<open>
  with \<open>keepLast_\<close> the last frame is never removed by \<open>pop\<close>: while one frame is queued
  a non-blocking \<open>pop\<close>, or a timed one that runs out, returns a copy of it and leaves the
  queue as it is, and a blocking \<open>pop\<close> waits for a second frame.
\<close>

theorem FrameQueue_keeps_last:
  assumes "fq_inv q" "fq_keepLast q" "FrameQueue_size q = 1" "\<not> fq_aborted q"
  shows "FrameQueue_pop api 0 e q = (Ret (Some (Frame_copy api (hd (fq_frames q)))), q)
       \<and> FrameQueue_pop api 5 True q = (Ret (Some (Frame_copy api (hd (fq_frames q)))), q)
       \<and> FrameQueue_pop api (-1) e q = (Wait, q)"
proof -
  have s: "fq_size q = 1" using assms(3) by (simp add: FrameQueue_size_def)
  then have "fq_in_range (fq_head q) q" "FrameQueue_shouldReturnLastFrame q" "fq_queue q \<noteq> []"
    using last_in_range [OF assms(1)] assms(1,2)
    by (auto simp: FrameQueue_shouldReturnLastFrame_def fq_inv_def)
  moreover have "hd (fq_frames q) = fq_slot q (fq_head q)"
    using inv_nonempty [OF assms(1) calculation(3)] s
    by (simp add: fq_frames_def fq_window_def fq_slot_def)
  ultimately show ?thesis
    using assms s by (simp add: FrameQueue_pop_def FrameQueue_waitForData_def FrameQueue_canPop_def)
qed

theorem FrameQueue_keeps_last_witness:
  "FrameQueue_pop sample_frame_api (-1) False (sample_queue\<lparr>fq_size := 1, fq_tail := 0, fq_keepLast := True\<rparr>)
     = (Wait, sample_queue\<lparr>fq_size := 1, fq_tail := 0, fq_keepLast := True\<rparr>)"
  using FrameQueue_keeps_last [of "sample_queue\<lparr>fq_size := 1, fq_tail := 0, fq_keepLast := True\<rparr>" sample_frame_api False]
  by (simp add: fq_inv_def sample_queue_def FrameQueue_size_def)

text \<open>
  \<open>clear\<close> in the middle of a two-phase write makes \<open>commitFrame\<close> publish slot 0 instead
  of the slot that was written: when the slot handed out is another one, the only frame in the
  queue afterwards is what slot 0 held before the write, as it was or dereferenced.
\<close>

theorem FrameQueue_clear_during_write:
  assumes "fq_inv q" "0 < fq_size q" "FrameQueue_getWritableFrame t e q = (Ret (Some i), q1)" "i \<noteq> 0"
  shows "\<exists>q2 q3. FrameQueue_clear api (FrameQueue_write i f q1) = (Ret (), q2)
           \<and> FrameQueue_commitFrame q2 = (Ret True, q3)
           \<and> fq_frames q3 = [fq_queue q2 ! 0]
           \<and> fq_queue q2 ! 0 \<in> {fq_queue q ! 0, Frame_unref api (fq_queue q ! 0)}"
proof -
  have c: "fq_queue q \<noteq> []" "i = fq_tail q" "q1 = q\<lparr>fq_pendingWriteIndex := fq_tail q\<rparr>"
    using getWritable_cases [OF assms(1), of t e] assms(3) by auto
  let ?q = "FrameQueue_write i f q1"
  have "fq_inv ?q" using assms(1) by (auto simp: fq_inv_def FrameQueue_write_def c(3))
  then have w: "fq_window_ok ?q" "distinct (fq_window ?q)"
    by (rule inv_window_ok, rule distinct_window)
  let ?slots = "fold (\<lambda>j qs. qs[j := Frame_unref api (qs ! j)]) (fq_window ?q) (fq_queue ?q)"
  let ?q2 = "?q\<lparr>fq_queue := ?slots, fq_head := 0, fq_tail := 0, fq_size := 0, fq_pendingWriteIndex := -1\<rparr>"
  have m: "0 < fq_maxSize q" "0 < nat i" and l: "0 < length (fq_queue q)"
    using inv_nonempty [OF assms(1) c(1)] c(1,2) assms(4) pos_mod_sign [of "fq_maxSize q"]
    by (auto simp: le_less)
  have "FrameQueue_clear api ?q = (Ret (), ?q2)"
    using w(1) assms(2) by (simp add: FrameQueue_clear_def FrameQueue_write_def c(3))
  moreover have "?slots ! 0 \<in> {fq_queue q ! 0, Frame_unref api (fq_queue q ! 0)}"
    using unref_fold_nth [OF w(2), of 0 "fq_queue ?q"] l m by (simp add: FrameQueue_write_def c(3))
  ultimately show ?thesis
    using m by (simp add: FrameQueue_commitFrame_def FrameQueue_write_def c(3) fq_frames_def fq_window_def)
qed

theorem FrameQueue_clear_during_write_witness:
  "\<exists>q2 q3. FrameQueue_clear sample_frame_api (FrameQueue_write 1 (sample_frame 9)
        (sample_queue\<lparr>fq_head := 0, fq_size := 1, fq_pendingWriteIndex := 1\<rparr>)) = (Ret (), q2)
     \<and> FrameQueue_commitFrame q2 = (Ret True, q3)
     \<and> fq_frames q3 = [fq_queue q2 ! 0]
     \<and> fq_queue q2 ! 0 \<in> {sample_frame 0, Frame_unref sample_frame_api (sample_frame 0)}"
  using FrameQueue_clear_during_write [of "sample_queue\<lparr>fq_head := 0, fq_size := 1\<rparr>" 0 False 1
      "sample_queue\<lparr>fq_head := 0, fq_size := 1, fq_pendingWriteIndex := 1\<rparr>" sample_frame_api "sample_frame 9"]
  by (simp add: fq_inv_def sample_queue_def FrameQueue_getWritableFrame_def fq_hasSpace_def fq_in_range_def)

end
