(* ===== verification/Clocks.thy ===== *)
theory Clocks
  imports MediaFormats
begin

text \<open>
  Class \<open>Clock\<close> (\<open>src/src/stream_sync/clock.h\<close>, \<open>clock.cpp\<close>).  The system time is
  the argument \<open>now\<close>, the value of \<open>av_gettime_relative\<close> in microseconds at each place where
  a method reads it.  A method is one step: the atomics of a clock are read and written by one
  thread at a time here.
\<close>

datatype ClockState = ClockInvalid | ClockValid | ClockStale

record Clock =
  clk_pts :: double
  clk_ptsDrift :: double
  clk_lastUpdated :: double
  clk_speed :: double
  clk_serial :: int
  clk_paused :: bool
  clk_driftAccumulator :: double
  clk_calibrationCounter :: u32

record ClockStats =
  cs_currentTime :: double
  cs_drift :: double
  cs_speed :: double
  cs_serial :: int
  cs_paused :: bool
  cs_state :: ClockState

definition kMaxDrift :: double where "kMaxDrift = Fin 10"
definition kCalibrationInterval :: int where "kCalibrationInterval = 100"

definition Clock_new :: Clock where
  "Clock_new = \<lparr>clk_pts = Fin 0, clk_ptsDrift = Fin 0, clk_lastUpdated = Fin 0, clk_speed = Fin 1,
     clk_serial = 0, clk_paused = False, clk_driftAccumulator = Fin 0, clk_calibrationCounter = 0\<rparr>"

definition Clock_getCurrentSystemTime :: "int \<Rightarrow> double" where
  "Clock_getCurrentSystemTime now = Fin (of_int now / 1000000)"

definition Clock_getClock :: "int \<Rightarrow> Clock \<Rightarrow> double" where
  "Clock_getClock now c =
     (if clk_paused c then clk_pts c
      else
        let currentTime = Clock_getCurrentSystemTime now;
            elapsed = d_mul (d_sub currentTime (clk_lastUpdated c)) (clk_speed c)
        in d_sub (d_add (clk_ptsDrift c) currentTime) elapsed)"

definition Clock_setClock :: "int \<Rightarrow> double \<Rightarrow> int \<Rightarrow> Clock \<Rightarrow> Clock" where
  "Clock_setClock now pts serial c =
     (let currentTime = Clock_getCurrentSystemTime now;
          drift = d_sub pts currentTime
      in c\<lparr>clk_pts := pts, clk_ptsDrift := drift, clk_lastUpdated := currentTime, clk_serial := serial\<rparr>)"

definition Clock_init :: "int \<Rightarrow> int \<Rightarrow> Clock \<Rightarrow> Clock" where
  "Clock_init now queueSerial c =
     Clock_setClock now (Fin 0) queueSerial
       (c\<lparr>clk_speed := Fin 1, clk_paused := False, clk_serial := queueSerial,
          clk_driftAccumulator := Fin 0, clk_calibrationCounter := 0\<rparr>)"

definition Clock_reset :: "int \<Rightarrow> Clock \<Rightarrow> Clock" where
  "Clock_reset now c = Clock_init now 0 c"

text \<open>The system time is read by \<open>getClock\<close> (\<open>now1\<close>) and again by \<open>setClock\<close> (\<open>now2\<close>).\<close>

definition Clock_setClockSpeed :: "int \<Rightarrow> int \<Rightarrow> double \<Rightarrow> Clock \<Rightarrow> Clock" where
  "Clock_setClockSpeed now1 now2 speed c =
     (if \<not> utils_greater speed (Fin 0) DOUBLEEPSILON \<or> utils_equal (clk_speed c) speed DOUBLEEPSILON then c
      else
        let c1 = c\<lparr>clk_speed := speed\<rparr>;
            currentClock = Clock_getClock now1 c1;
            currentSerial = clk_serial c1
        in Clock_setClock now2 currentClock currentSerial c1)"

text \<open>\<open>counter % kCalibrationInterval\<close> on an \<open>int\<close>; \<open>fetch_add\<close> wraps.\<close>

definition Clock_calibrate :: "int \<Rightarrow> int \<Rightarrow> Clock \<Rightarrow> Clock" where
  "Clock_calibrate now1 now2 c =
     (let counter = sint (clk_calibrationCounter c);
          c1 = c\<lparr>clk_calibrationCounter := clk_calibrationCounter c + 1\<rparr>
      in if \<bar>counter\<bar> mod kCalibrationInterval \<noteq> 0 then c1
         else if d_lt kMaxDrift (d_abs (clk_ptsDrift c1))
         then Clock_setClock now2 (Clock_getClock now1 c1) (clk_serial c1) c1
         else c1)"

definition Clock_isValid :: "Clock \<Rightarrow> bool" where
  "Clock_isValid c \<longleftrightarrow> \<not> isnan (clk_pts c)"

definition Clock_getState :: "int \<Rightarrow> Clock \<Rightarrow> ClockState" where
  "Clock_getState now c =
     (if \<not> Clock_isValid c then ClockInvalid
      else if d_lt (Fin 5) (d_sub (Clock_getCurrentSystemTime now) (clk_lastUpdated c)) then ClockStale
      else ClockValid)"

definition Clock_pts :: "Clock \<Rightarrow> double" where "Clock_pts c = clk_pts c"
definition Clock_ptsDrift :: "Clock \<Rightarrow> double" where "Clock_ptsDrift c = clk_ptsDrift c"
definition Clock_lastUpdated :: "Clock \<Rightarrow> double" where "Clock_lastUpdated c = clk_lastUpdated c"
definition Clock_speed :: "Clock \<Rightarrow> double" where "Clock_speed c = clk_speed c"
definition Clock_serial :: "Clock \<Rightarrow> int" where "Clock_serial c = clk_serial c"
definition Clock_isPaused :: "Clock \<Rightarrow> bool" where "Clock_isPaused c = clk_paused c"

definition Clock_setPaused :: "int \<Rightarrow> bool \<Rightarrow> Clock \<Rightarrow> Clock" where
  "Clock_setPaused now paused c =
     (if clk_paused c = paused then c
      else if paused then c\<lparr>clk_pts := Clock_getClock now c, clk_paused := True\<rparr>
      else (Clock_setClock now (clk_pts c) (clk_serial c) c)\<lparr>clk_paused := False\<rparr>)"

definition Clock_getStats :: "int \<Rightarrow> int \<Rightarrow> Clock \<Rightarrow> ClockStats" where
  "Clock_getStats now1 now2 c =
     \<lparr>cs_currentTime = Clock_getClock now1 c, cs_drift = clk_ptsDrift c, cs_speed = clk_speed c,
      cs_serial = clk_serial c, cs_paused = clk_paused c, cs_state = Clock_getState now2 c\<rparr>"

lemmas clock_defs [clk_defs] =
  Clock_getCurrentSystemTime_def Clock_getClock_def Clock_setClock_def Clock_init_def Clock_reset_def
  Clock_setClockSpeed_def Clock_isValid_def Clock_getState_def Clock_setPaused_def Let_def
  DOUBLEEPSILON_def

subsection \<open>The reading of a running clock\<close>

lemma setClock_frame [simp]:
  "clk_speed (Clock_setClock now p s c) = clk_speed c"
  "clk_paused (Clock_setClock now p s c) = clk_paused c"
  "clk_pts (Clock_setClock now p s c) = p"
  "clk_serial (Clock_setClock now p s c) = s"
  "clk_calibrationCounter (Clock_setClock now p s c) = clk_calibrationCounter c"
  by (simp_all add: clk_defs)

lemma getClock_after_set:
  assumes "\<not> clk_paused c" "clk_speed c = Fin v"
  shows "Clock_getClock t1 (Clock_setClock t0 (Fin p) s c) = Fin (p + (1 - v) * (of_int (t1 - t0) / 1000000))"
  using assms by (simp add: clk_defs field_simps)

lemma getClock_congr:
  "clk_paused c = clk_paused c' \<Longrightarrow> clk_pts c = clk_pts c' \<Longrightarrow> clk_ptsDrift c = clk_ptsDrift c' \<Longrightarrow>
   clk_lastUpdated c = clk_lastUpdated c' \<Longrightarrow> clk_speed c = clk_speed c' \<Longrightarrow>
   Clock_getClock now c = Clock_getClock now c'"
  by (simp add: Clock_getClock_def)

subsection \<open>Properties\<close>

text \<open>
  the reading of a clock.  \<open>t1 - t0\<close> microseconds after \<open>setClock(p)\<close> a running clock
  at speed \<open>v\<close> reads \<open>p + (1 - v) * (t1 - t0)\<close>: at speed 1 it stays at the value last set,
  at higher speeds it runs backwards.
\<close>

theorem Clock_reading:
  assumes "\<not> Clock_isPaused c" "Clock_speed c = Fin v"
  shows "Clock_getClock t1 (Clock_setClock t0 (Fin p) s c) = Fin (p + (1 - v) * (of_int (t1 - t0) / 1000000))"
  using assms by (intro getClock_after_set) (simp_all add: Clock_isPaused_def Clock_speed_def)

theorem Clock_reading_witness:
  "Clock_getClock 3000000 (Clock_setClock 1000000 (Fin 40) 7 Clock_new) = Fin 40
   \<and> Clock_getClock 3000000 (Clock_setClock 1000000 (Fin 40) 7 (Clock_new\<lparr>clk_speed := Fin 2\<rparr>)) = Fin 38"
  using Clock_reading [of Clock_new 1 3000000 1000000 40 7]
    Clock_reading [of "Clock_new\<lparr>clk_speed := Fin 2\<rparr>" 2 3000000 1000000 40 7]
  by (simp add: Clock_isPaused_def Clock_speed_def Clock_new_def)

text \<open>
  pausing freezes the reading and resuming continues from it: between \<open>setPaused(true)\<close> at
  \<open>t1\<close> and \<open>setPaused(false)\<close> at \<open>t2\<close> every reading is the one at \<open>t1\<close>, and right
  after resuming the clock still reads that value, whatever the speed and however long the pause.
\<close>

theorem Clock_pause_resume:
  assumes "\<not> Clock_isPaused c" "Clock_getClock t1 c = Fin x" "Clock_speed c = Fin v"
  shows "Clock_getClock t (Clock_setPaused t1 True c) = Fin x
       \<and> Clock_getClock t2 (Clock_setPaused t2 False (Clock_setPaused t1 True c)) = Fin x"
proof -
  let ?c = "Clock_setPaused t1 True c"
  have p: "clk_paused ?c" "clk_pts ?c = Fin x" "clk_speed ?c = Fin v"
    using assms by (simp_all add: Clock_setPaused_def Clock_isPaused_def Clock_speed_def)
  then have r: "Clock_setPaused t2 False ?c = (Clock_setClock t2 (Fin x) (clk_serial ?c) ?c)\<lparr>clk_paused := False\<rparr>"
    by (simp add: Clock_setPaused_def [of t2])
  have "Clock_getClock t2 ((Clock_setClock t2 (Fin x) (clk_serial ?c) ?c)\<lparr>clk_paused := False\<rparr>) = Fin x"
    using p by (simp add: Clock_getClock_def Clock_setClock_def Clock_getCurrentSystemTime_def Let_def)
  with r p show ?thesis by (simp add: Clock_getClock_def)
qed

theorem Clock_pause_resume_witness:
  "Clock_getClock 9000000 (Clock_setPaused 9000000 False
     (Clock_setPaused 2000000 True (Clock_setClock 1000000 (Fin 40) 7 Clock_new))) = Fin 40"
  using Clock_pause_resume [of "Clock_setClock 1000000 (Fin 40) 7 Clock_new" 2000000 40 1 0 9000000]
    getClock_after_set [of Clock_new 1 2000000 1000000 40 7]
  by (simp add: Clock_isPaused_def Clock_speed_def Clock_new_def)

text \<open>
  a change of speed moves the reading.  \<open>setClockSpeed\<close> stores the new speed before it
  reads the clock, so at the instant of the call a running clock jumps by the time since the
  last update times the difference of the speeds.
\<close>

theorem Clock_speed_change_jumps:
  assumes "\<not> Clock_isPaused c" "Clock_speed c = Fin v" "Clock_lastUpdated c = Fin u" "Clock_ptsDrift c = Fin d"
    and "1 / 10 ^ 12 < w" "1 / 10 ^ 12 \<le> \<bar>v - w\<bar>"
  shows "Clock_getClock t (Clock_setClockSpeed t t (Fin w) c)
           = d_add (Clock_getClock t c) (Fin ((of_int t / 1000000 - u) * (v - w)))
       \<and> Clock_speed (Clock_setClockSpeed t t (Fin w) c) = Fin w"
proof -
  let ?c = "c\<lparr>clk_speed := Fin w\<rparr>"
  have e: "Clock_setClockSpeed t t (Fin w) c = Clock_setClock t (Clock_getClock t ?c) (clk_serial c) ?c"
    using assms by (simp add: Clock_setClockSpeed_def DOUBLEEPSILON_def Clock_speed_def Let_def)
  have "Clock_getClock t ?c = Fin (d + of_int t / 1000000 - (of_int t / 1000000 - u) * w)"
    using assms by (simp add: clk_defs Clock_isPaused_def Clock_lastUpdated_def Clock_ptsDrift_def)
  moreover have "Clock_getClock t c = Fin (d + of_int t / 1000000 - (of_int t / 1000000 - u) * v)"
    using assms
    by (simp add: clk_defs Clock_isPaused_def Clock_lastUpdated_def Clock_ptsDrift_def Clock_speed_def)
  ultimately show ?thesis
    using assms(1) getClock_after_set [of ?c w t t]
    by (simp add: e Clock_isPaused_def Clock_speed_def field_simps)
qed

theorem Clock_speed_change_jumps_witness:
  "Clock_getClock 3000000 (Clock_setClockSpeed 3000000 3000000 (Fin 2)
      (Clock_setClock 1000000 (Fin 40) 7 Clock_new)) = Fin 38"
  using Clock_speed_change_jumps [of "Clock_setClock 1000000 (Fin 40) 7 Clock_new" 1 1 39 2 3000000]
    getClock_after_set [of Clock_new 1 3000000 1000000 40 7]
  by (simp add: Clock_isPaused_def Clock_speed_def Clock_lastUpdated_def Clock_ptsDrift_def
      Clock_new_def Clock_setClock_def Clock_getCurrentSystemTime_def Let_def)

end
