(* ===== verification/StreamSync.thy ===== *)
theory StreamSync
  imports Clocks
begin

text \<open>
  Class \<open>StreamSyncManager\<close> (\<open>src/src/stream_sync/stream_sync_manager.h\<close>,
  \<open>stream_sync_manager.cpp\<close>): three clocks, the smoothed drift of the video against the
  master clock, and the delay until a frame is shown.

  The counters \<open>droppedFrames_\<close> and the like are unbounded here.
\<close>

datatype MasterClock = MC_kAudio | MC_kVideo | MC_kExternal

datatype SyncState = SS_kInSync | SS_kSlightDrift | SS_kOutOfSync

record SyncStats =
  ss_state :: SyncState
  ss_videoDrift :: double
  ss_audioDrift :: double
  ss_masterClock :: double
  ss_droppedFrames :: int
  ss_duplicatedFrames :: int
  ss_avgDelay :: double

record SyncQualityStats =
  sq_totalSyncCount :: int
  sq_goodSyncCount :: int
  sq_poorSyncCount :: int
  sq_goodSyncRate :: double
  sq_avgDrift :: double
  sq_maxDrift :: double

record StreamSyncManager =
  sm_master :: MasterClock
  sm_audioClock :: Clock
  sm_videoClock :: Clock
  sm_externalClock :: Clock
  sm_syncThreshold :: double
  sm_maxDrift :: double
  sm_alpha :: double
  sm_adaptiveSync :: bool
  sm_goodSyncCount :: int
  sm_poorSyncCount :: int
  sm_totalDrift :: double
  sm_avgDrift :: double
  sm_smoothedVideoDrift :: double
  sm_smoothedAudioDrift :: double
  sm_droppedFrames :: int
  sm_duplicatedFrames :: int
  sm_avgVideoDelay :: double
  sm_avgAudioDelay :: double
  sm_syncQualityCounter :: int
  sm_adaptiveThreshold :: double

definition kSyncQualityWindow :: int where "kSyncQualityWindow = 100"
definition kMinSyncThreshold :: double where "kMinSyncThreshold = Fin (5 / 1000)"
definition kMaxSyncThreshold :: double where "kMaxSyncThreshold = Fin (50 / 1000)"

definition smoothEMA :: "double \<Rightarrow> double \<Rightarrow> double \<Rightarrow> double \<Rightarrow> double \<Rightarrow> double" where
  "smoothEMA alpha prev current speed maxChange =
     (let speedFactor = d_min speed (Fin 4);
          adjustedMaxChange = d_mul maxChange speedFactor;
          adjustedAlpha = d_min (d_mul alpha speedFactor) (Fin (9 / 10));
          directionChange = ((d_lt (Fin 0) prev \<and> d_lt current (Fin 0))
                             \<or> (d_lt prev (Fin 0) \<and> d_lt (Fin 0) current));
          effectiveMaxChange = (if directionChange then d_mul adjustedMaxChange (Fin 2) else adjustedMaxChange);
          change = d_clamp (d_sub current prev) (d_neg effectiveMaxChange) effectiveMaxChange;
          effectiveAlpha = (if directionChange then d_min (d_mul adjustedAlpha (Fin 2)) (Fin 1) else adjustedAlpha);
          newValue = d_add prev (d_mul effectiveAlpha change)
      in d_clamp newValue (d_mul (Fin (- 2 / 10)) speedFactor) (d_mul (Fin (2 / 10)) speedFactor))"

text \<open>The three clocks are initialised one after the other, at the times \<open>n1\<close>, \<open>n2\<close>, \<open>n3\<close>.\<close>

definition StreamSyncManager_new ::
    "int \<Rightarrow> int \<Rightarrow> int \<Rightarrow> MasterClock \<Rightarrow> double \<Rightarrow> double \<Rightarrow> double \<Rightarrow> StreamSyncManager" where
  "StreamSyncManager_new n1 n2 n3 master syncThreshold maxDrift jitterAlpha =
     \<lparr>sm_master = master, sm_audioClock = Clock_init n2 0 Clock_new, sm_videoClock = Clock_init n1 0 Clock_new,
      sm_externalClock = Clock_init n3 0 Clock_new, sm_syncThreshold = syncThreshold, sm_maxDrift = maxDrift,
      sm_alpha = jitterAlpha, sm_adaptiveSync = True, sm_goodSyncCount = 0, sm_poorSyncCount = 0,
      sm_totalDrift = Fin 0, sm_avgDrift = Fin 0, sm_smoothedVideoDrift = Fin 0, sm_smoothedAudioDrift = Fin 0,
      sm_droppedFrames = 0, sm_duplicatedFrames = 0, sm_avgVideoDelay = Fin 0, sm_avgAudioDelay = Fin 0,
      sm_syncQualityCounter = 0, sm_adaptiveThreshold = syncThreshold\<rparr>"

definition StreamSyncManager_setMaster :: "MasterClock \<Rightarrow> StreamSyncManager \<Rightarrow> StreamSyncManager" where
  "StreamSyncManager_setMaster m s = s\<lparr>sm_master := m\<rparr>"

definition StreamSyncManager_master :: "StreamSyncManager \<Rightarrow> MasterClock" where
  "StreamSyncManager_master s = sm_master s"

definition StreamSyncManager_setAVSyncThreshold :: "double \<Rightarrow> StreamSyncManager \<Rightarrow> StreamSyncManager" where
  "StreamSyncManager_setAVSyncThreshold threshold s =
     s\<lparr>sm_syncThreshold := d_clamp threshold kMinSyncThreshold kMaxSyncThreshold\<rparr>"

definition StreamSyncManager_setAdaptiveSync :: "bool \<Rightarrow> StreamSyncManager \<Rightarrow> StreamSyncManager" where
  "StreamSyncManager_setAdaptiveSync enable s = s\<lparr>sm_adaptiveSync := enable\<rparr>"

definition StreamSyncManager_setSpeed ::
    "int \<Rightarrow> int \<Rightarrow> int \<Rightarrow> int \<Rightarrow> int \<Rightarrow> int \<Rightarrow> double \<Rightarrow> StreamSyncManager \<Rightarrow> StreamSyncManager" where
  "StreamSyncManager_setSpeed a1 a2 v1 v2 e1 e2 speed s =
     s\<lparr>sm_audioClock := Clock_setClockSpeed a1 a2 speed (sm_audioClock s),
       sm_videoClock := Clock_setClockSpeed v1 v2 speed (sm_videoClock s),
       sm_externalClock := Clock_setClockSpeed e1 e2 speed (sm_externalClock s)\<rparr>"

definition StreamSyncManager_updateAudioClock ::
    "int \<Rightarrow> double \<Rightarrow> int \<Rightarrow> StreamSyncManager \<Rightarrow> StreamSyncManager" where
  "StreamSyncManager_updateAudioClock now pts serial s =
     s\<lparr>sm_audioClock := Clock_setClock now pts serial (sm_audioClock s)\<rparr>"

definition StreamSyncManager_updateVideoClock ::
    "int \<Rightarrow> double \<Rightarrow> int \<Rightarrow> StreamSyncManager \<Rightarrow> StreamSyncManager" where
  "StreamSyncManager_updateVideoClock now pts serial s =
     s\<lparr>sm_videoClock := Clock_setClock now pts serial (sm_videoClock s)\<rparr>"

definition StreamSyncManager_updateExternalClock ::
    "int \<Rightarrow> double \<Rightarrow> int \<Rightarrow> StreamSyncManager \<Rightarrow> StreamSyncManager" where
  "StreamSyncManager_updateExternalClock now pts serial s =
     s\<lparr>sm_externalClock := Clock_setClock now pts serial (sm_externalClock s)\<rparr>"

definition StreamSyncManager_resetClocks ::
    "int \<Rightarrow> int \<Rightarrow> int \<Rightarrow> StreamSyncManager \<Rightarrow> StreamSyncManager" where
  "StreamSyncManager_resetClocks n1 n2 n3 s =
     s\<lparr>sm_audioClock := Clock_reset n1 (sm_audioClock s),
       sm_videoClock := Clock_reset n2 (sm_videoClock s),
       sm_externalClock := Clock_reset n3 (sm_externalClock s),
       sm_smoothedVideoDrift := Fin 0, sm_smoothedAudioDrift := Fin 0,
       sm_droppedFrames := 0, sm_duplicatedFrames := 0, sm_syncQualityCounter := 0\<rparr>"

definition StreamSyncManager_getMasterClock :: "int \<Rightarrow> StreamSyncManager \<Rightarrow> double" where
  "StreamSyncManager_getMasterClock now s =
     (case sm_master s of
        MC_kAudio \<Rightarrow> Clock_getClock now (sm_audioClock s)
      | MC_kVideo \<Rightarrow> Clock_getClock now (sm_videoClock s)
      | MC_kExternal \<Rightarrow> Clock_getClock now (sm_externalClock s))"

definition StreamSyncManager_computeAdaptiveThreshold :: "StreamSyncManager \<Rightarrow> double" where
  "StreamSyncManager_computeAdaptiveThreshold s =
     (let videoDrift = d_abs (sm_smoothedVideoDrift s);
          audioDrift = d_abs (sm_smoothedAudioDrift s);
          avgDrift = d_div (d_add videoDrift audioDrift) (Fin 2);
          adaptiveThreshold = d_add (sm_syncThreshold s) (d_mul avgDrift (Fin (5 / 10)))
      in d_clamp adaptiveThreshold kMinSyncThreshold kMaxSyncThreshold)"

definition StreamSyncManager_evaluateSyncState :: "double \<Rightarrow> StreamSyncManager \<Rightarrow> SyncState" where
  "StreamSyncManager_evaluateSyncState drift s =
     (let threshold = sm_syncThreshold s
      in if d_lt drift threshold then SS_kInSync
         else if d_lt drift (d_mul threshold (Fin 3)) then SS_kSlightDrift
         else SS_kOutOfSync)"

definition StreamSyncManager_getSyncState :: "StreamSyncManager \<Rightarrow> SyncState" where
  "StreamSyncManager_getSyncState s =
     StreamSyncManager_evaluateSyncState
       (d_max (d_abs (sm_smoothedVideoDrift s)) (d_abs (sm_smoothedAudioDrift s))) s"

definition StreamSyncManager_shouldDropFrame :: "double \<Rightarrow> double \<Rightarrow> StreamSyncManager \<Rightarrow> bool" where
  "StreamSyncManager_shouldDropFrame framePts frameDuration s =
     (let drift = sm_smoothedVideoDrift s;
          speed = Clock_speed (sm_videoClock s);
          threshold = d_div (sm_syncThreshold s) speed
      in d_lt drift (d_mul (d_neg threshold) (Fin 3)) \<and> d_lt frameDuration (d_div (Fin (33 / 1000)) speed))"

definition StreamSyncManager_shouldDuplicateFrame :: "double \<Rightarrow> double \<Rightarrow> StreamSyncManager \<Rightarrow> bool" where
  "StreamSyncManager_shouldDuplicateFrame framePts frameDuration s =
     (let drift = sm_smoothedVideoDrift s;
          speed = Clock_speed (sm_videoClock s);
          threshold = d_div (sm_syncThreshold s) speed
      in d_lt (d_mul threshold (Fin 3)) drift \<and> d_lt (d_div (Fin (20 / 1000)) speed) frameDuration)"

definition StreamSyncManager_computeVideoDelay ::
    "int \<Rightarrow> double \<Rightarrow> double \<Rightarrow> double \<Rightarrow> double \<Rightarrow> StreamSyncManager \<Rightarrow> double \<times> StreamSyncManager" where
  "StreamSyncManager_computeVideoDelay now framePts frameDuration baseDelay speed s =
     (let diff = d_sub framePts (StreamSyncManager_getMasterClock now s);
          newDrift = smoothEMA (sm_alpha s) (sm_smoothedVideoDrift s) diff speed (Fin (1 / 10));
          s1 = s\<lparr>sm_smoothedVideoDrift := newDrift\<rparr>;
          threshold = d_div (if sm_adaptiveSync s1 then StreamSyncManager_computeAdaptiveThreshold s1
                             else sm_syncThreshold s1) speed
      in if d_lt newDrift (d_neg threshold) \<and> StreamSyncManager_shouldDropFrame framePts frameDuration s1
         then (Fin (- 1), s1\<lparr>sm_droppedFrames := sm_droppedFrames s1 + 1\<rparr>)
         else
           let far = d_lt threshold (d_abs newDrift);
               delay = (if \<not> far then baseDelay
                        else if d_lt (Fin 0) newDrift
                        then d_add baseDelay (d_div (d_mul newDrift (Fin 1000)) speed)
                        else d_max (Fin 0) (d_add baseDelay (d_mul (d_mul newDrift (Fin 1000))
                                              (d_min (Fin 1) (d_mul (Fin (5 / 10)) speed)))));
               s2 = (if far \<and> d_lt threshold newDrift
                        \<and> StreamSyncManager_shouldDuplicateFrame framePts frameDuration s1
                     then s1\<lparr>sm_duplicatedFrames := sm_duplicatedFrames s1 + 1\<rparr> else s1);
               newAvg = d_add (d_mul (sm_avgVideoDelay s2) (Fin (95 / 100))) (d_mul delay (Fin (5 / 100)))
           in (d_max (Fin 0) delay, s2\<lparr>sm_avgVideoDelay := newAvg\<rparr>))"

definition StreamSyncManager_getStats :: "int \<Rightarrow> StreamSyncManager \<Rightarrow> SyncStats" where
  "StreamSyncManager_getStats now s =
     \<lparr>ss_state = StreamSyncManager_getSyncState s, ss_videoDrift = sm_smoothedVideoDrift s,
      ss_audioDrift = sm_smoothedAudioDrift s, ss_masterClock = StreamSyncManager_getMasterClock now s,
      ss_droppedFrames = sm_droppedFrames s, ss_duplicatedFrames = sm_duplicatedFrames s,
      ss_avgDelay = d_div (d_add (sm_avgVideoDelay s) (sm_avgAudioDelay s)) (Fin 2)\<rparr>"

definition StreamSyncManager_updateSyncParameters :: "StreamSyncManager \<Rightarrow> StreamSyncManager" where
  "StreamSyncManager_updateSyncParameters s =
     (if \<not> sm_adaptiveSync s then s
      else if sm_syncQualityCounter s > kSyncQualityWindow
      then s\<lparr>sm_adaptiveThreshold := StreamSyncManager_computeAdaptiveThreshold s, sm_syncQualityCounter := 0\<rparr>
      else s)"

definition StreamSyncManager_updateSyncQuality :: "double \<Rightarrow> StreamSyncManager \<Rightarrow> StreamSyncManager" where
  "StreamSyncManager_updateSyncQuality drift s =
     (let currentCount = sm_syncQualityCounter s + 1;
          threshold = sm_syncThreshold s;
          total = d_add (sm_totalDrift s) drift;
          s1 = s\<lparr>sm_syncQualityCounter := currentCount, sm_totalDrift := total,
                 sm_maxDrift := (if d_lt (sm_maxDrift s) drift then drift else sm_maxDrift s),
                 sm_avgDrift := d_div total (Fin (of_int currentCount))\<rparr>
      in if d_le drift threshold then s1\<lparr>sm_goodSyncCount := sm_goodSyncCount s1 + 1\<rparr>
         else s1\<lparr>sm_poorSyncCount := sm_poorSyncCount s1 + 1\<rparr>)"

definition StreamSyncManager_getSyncQualityStats :: "StreamSyncManager \<Rightarrow> SyncQualityStats" where
  "StreamSyncManager_getSyncQualityStats s =
     (let total = sm_syncQualityCounter s; good = sm_goodSyncCount s
      in \<lparr>sq_totalSyncCount = total, sq_goodSyncCount = good, sq_poorSyncCount = sm_poorSyncCount s,
          sq_goodSyncRate = (if total > 0 then d_mul (d_div (Fin (of_int good)) (Fin (of_int total))) (Fin 100)
                             else Fin 0),
          sq_avgDrift = sm_avgDrift s, sq_maxDrift = sm_maxDrift s\<rparr>)"


text \<open>
  The calls on the manager, with finite arguments and the times at which they are made, as
  the decoders and the controller make them.
\<close>

datatype sync_op =
    Delay int real real real real
  | UpdateAudio int real int
  | UpdateVideo int real int
  | UpdateExternal int real int
  | SetSpeed "int list" real
  | Reset int int int
  | SetMaster MasterClock
  | SetThreshold real
  | SetAdaptive bool

fun sync_step :: "sync_op \<Rightarrow> StreamSyncManager \<Rightarrow> StreamSyncManager" where
  "sync_step (Delay now pts dur base v) s =
     snd (StreamSyncManager_computeVideoDelay now (Fin pts) (Fin dur) (Fin base) (Fin v) s)"
| "sync_step (UpdateAudio now pts ser) s = StreamSyncManager_updateAudioClock now (Fin pts) ser s"
| "sync_step (UpdateVideo now pts ser) s = StreamSyncManager_updateVideoClock now (Fin pts) ser s"
| "sync_step (UpdateExternal now pts ser) s = StreamSyncManager_updateExternalClock now (Fin pts) ser s"
| "sync_step (SetSpeed ns v) s =
     StreamSyncManager_setSpeed (ns ! 0) (ns ! 1) (ns ! 2) (ns ! 3) (ns ! 4) (ns ! 5) (Fin v) s"
| "sync_step (Reset n1 n2 n3) s = StreamSyncManager_resetClocks n1 n2 n3 s"
| "sync_step (SetMaster m) s = StreamSyncManager_setMaster m s"
| "sync_step (SetThreshold t) s = StreamSyncManager_setAVSyncThreshold (Fin t) s"
| "sync_step (SetAdaptive b) s = StreamSyncManager_setAdaptiveSync b s"

fun sync_op_ok :: "sync_op \<Rightarrow> bool" where
  "sync_op_ok (Delay now pts dur base v) \<longleftrightarrow> 0 < v"
| "sync_op_ok (SetSpeed ns v) \<longleftrightarrow> length ns = 6"
| "sync_op_ok _ \<longleftrightarrow> True"

definition clock_finite :: "Clock \<Rightarrow> bool" where
  "clock_finite c \<longleftrightarrow> is_number (clk_pts c) \<and> is_number (clk_ptsDrift c) \<and> is_number (clk_lastUpdated c)
     \<and> is_number (clk_speed c) \<and> d_lt (Fin 0) (clk_speed c)"

definition sync_ok :: "StreamSyncManager \<Rightarrow> bool" where
  "sync_ok s \<longleftrightarrow> clock_finite (sm_audioClock s) \<and> clock_finite (sm_videoClock s)
     \<and> clock_finite (sm_externalClock s)
     \<and> (\<exists>a t d e. sm_alpha s = Fin a \<and> 0 \<le> a \<and> sm_syncThreshold s = Fin t \<and> 0 < t
          \<and> sm_smoothedVideoDrift s = Fin d \<and> \<bar>d\<bar> \<le> 8 / 10 \<and> sm_smoothedAudioDrift s = Fin e)"

subsection \<open>The smoothed drift\<close>

lemma std_clamp_between:
  "lo \<le> p \<Longrightarrow> p \<le> hi \<Longrightarrow> min p c \<le> v \<Longrightarrow> v \<le> max p c \<Longrightarrow>
   min p c \<le> std_clamp v lo hi \<and> std_clamp v lo hi \<le> max p (c :: real)"
  by (auto simp: std_clamp_def)

lemma std_clamp_abs: "0 \<le> b \<Longrightarrow> \<bar>std_clamp x (- b) (b :: real)\<bar> \<le> b"
  by (auto simp: std_clamp_def)

lemma scaled_step_between:
  fixes p c k e :: real
  assumes "0 \<le> k" "k \<le> 1" "0 \<le> e"
  shows "min p c \<le> p + k * std_clamp (c - p) (- e) e \<and> p + k * std_clamp (c - p) (- e) e \<le> max p c"
proof -
  have c: "min 0 (c - p) \<le> std_clamp (c - p) (- e) e" "std_clamp (c - p) (- e) e \<le> max 0 (c - p)"
    using assms(3) by (auto simp: std_clamp_def)
  let ?x = "std_clamp (c - p) (- e) e"
  have "k * ?x \<le> max 0 ?x" "min 0 ?x \<le> k * ?x"
    using assms(1,2) mult_right_mono [of k 1 ?x] mult_right_mono_neg [of k 1 ?x]
      mult_nonneg_nonneg [of k ?x] mult_nonneg_nonpos [of k ?x]
    by (cases "0 \<le> ?x"; simp add: max_def min_def)+
  with c show ?thesis by linarith
qed

lemma smoothEMA_Fin:
  assumes "0 < v" "0 \<le> m" "0 \<le> a"
  shows "\<exists>k e. 0 \<le> k \<and> k \<le> 1 \<and> 0 \<le> e
      \<and> smoothEMA (Fin a) (Fin p) (Fin c) (Fin v) (Fin m)
          = Fin (std_clamp (p + k * std_clamp (c - p) (- e) e) (- (2 / 10 * min v 4)) (2 / 10 * min v 4))"
proof -
  define dir where "dir \<longleftrightarrow> (0 < p \<and> c < 0) \<or> (p < 0 \<and> 0 < c)"
  define k where "k = (if dir then min (min (a * min v 4) (9 / 10) * 2) 1 else min (a * min v 4) (9 / 10))"
  define e where "e = (if dir then m * min v 4 * 2 else m * min v 4)"
  have "0 \<le> a * min v 4" "0 \<le> m * min v 4" using assms by simp_all
  then have "0 \<le> k" "k \<le> 1" "0 \<le> e" by (auto simp: k_def e_def)
  moreover have "smoothEMA (Fin a) (Fin p) (Fin c) (Fin v) (Fin m)
      = Fin (std_clamp (p + k * std_clamp (c - p) (- e) e) (- (2 / 10 * min v 4)) (2 / 10 * min v 4))"
    by (simp add: smoothEMA_def Let_def k_def e_def dir_def)
  ultimately show ?thesis by blast
qed

lemma smoothEMA_bounded:
  assumes "0 < v" "0 \<le> m" "0 \<le> a"
  shows "\<exists>r. smoothEMA (Fin a) (Fin p) (Fin c) (Fin v) (Fin m) = Fin r \<and> \<bar>r\<bar> \<le> 2 / 10 * min v 4"
proof -
  obtain k e where e: "smoothEMA (Fin a) (Fin p) (Fin c) (Fin v) (Fin m)
      = Fin (std_clamp (p + k * std_clamp (c - p) (- e) e) (- (2 / 10 * min v 4)) (2 / 10 * min v 4))"
    using smoothEMA_Fin [OF assms, of p c] by blast
  have "0 \<le> 2 / 10 * min v 4" using assms(1) by simp
  from std_clamp_abs [OF this, of "p + k * std_clamp (c - p) (- e) e"] e show ?thesis by blast
qed

lemma smoothEMA_NaN: "smoothEMA a NaN c v m = NaN" "smoothEMA a p NaN v m = NaN"
  by (simp_all add: smoothEMA_def Let_def)

subsection \<open>Finite clocks stay finite\<close>

lemma clock_finite_set: "clock_finite c \<Longrightarrow> clock_finite (Clock_setClock now (Fin p) s c)"
  by (auto simp: clock_finite_def Clock_setClock_def Clock_getCurrentSystemTime_def Let_def)

lemma clock_finite_get: "clock_finite c \<Longrightarrow> \<exists>x. Clock_getClock now c = Fin x"
  by (auto simp: clock_finite_def Clock_getClock_def Clock_getCurrentSystemTime_def Let_def elim!: is_numberE)

lemma clock_finite_speed: "clock_finite c \<Longrightarrow> clock_finite (Clock_setClockSpeed n1 n2 (Fin v) c)"
proof (cases "\<not> utils_greater (Fin v) (Fin 0) DOUBLEEPSILON \<or> utils_equal (clk_speed c) (Fin v) DOUBLEEPSILON")
  case False
  assume f: "clock_finite c"
  with False have "clock_finite (c\<lparr>clk_speed := Fin v\<rparr>)"
    by (auto simp: clock_finite_def DOUBLEEPSILON_def)
  with False clock_finite_get [OF this, of n1] clock_finite_set [OF this] show ?thesis
    by (auto simp: Clock_setClockSpeed_def Let_def)
qed (auto simp: Clock_setClockSpeed_def)

lemma clock_finite_reset: "clock_finite (Clock_reset now c)"
  by (auto simp: clock_finite_def Clock_reset_def Clock_init_def Clock_setClock_def
      Clock_getCurrentSystemTime_def Let_def)

lemma clock_finite_init: "clock_finite (Clock_init now n c)"
  by (auto simp: clock_finite_def Clock_init_def Clock_setClock_def
      Clock_getCurrentSystemTime_def Let_def)

lemma master_finite: "sync_ok s \<Longrightarrow> \<exists>x. StreamSyncManager_getMasterClock now s = Fin x"
  by (cases "sm_master s") (auto simp: sync_ok_def StreamSyncManager_getMasterClock_def clock_finite_get)


subsection \<open>The delay of a frame\<close>

lemma sync_okE:
  assumes "sync_ok s"
  obtains a t d e v m where "sm_alpha s = Fin a" "0 \<le> a" "sm_syncThreshold s = Fin t" "0 < t"
    "sm_smoothedVideoDrift s = Fin d" "\<bar>d\<bar> \<le> 8 / 10" "sm_smoothedAudioDrift s = Fin e"
    "Clock_speed (sm_videoClock s) = Fin v" "0 < v" "StreamSyncManager_getMasterClock now s = Fin m"
  using assms master_finite [OF assms, of now]
  by (auto simp: sync_ok_def clock_finite_def Clock_speed_def elim!: is_numberE)

lemma adaptive_range:
  assumes "sm_syncThreshold s = Fin t" "sm_smoothedVideoDrift s = Fin d" "sm_smoothedAudioDrift s = Fin e"
  shows "\<exists>x. StreamSyncManager_computeAdaptiveThreshold s = Fin x \<and> 5 / 1000 \<le> x \<and> x \<le> 50 / 1000"
  using assms std_clamp_bounds [of "5 / 1000 :: real" "50 / 1000"]
  by (simp add: StreamSyncManager_computeAdaptiveThreshold_def kMinSyncThreshold_def kMaxSyncThreshold_def Let_def)

text \<open>
  What a call of \<open>computeVideoDelay\<close> on a manager in good order computes: the new drift
  \<open>r\<close>, the threshold \<open>th\<close> it is compared with, and which branch is taken.
\<close>

definition shown_delay :: "real \<Rightarrow> real \<Rightarrow> real \<Rightarrow> real \<Rightarrow> real" where
  "shown_delay r th base v =
     (if \<bar>r\<bar> \<le> th then base else if 0 < r then base + r * 1000 / v
      else max 0 (base + r * 1000 * min 1 (5 / 10 * v)))"

lemma computeVideoDelay_unfold:
  fixes s pts v r
  defines "s1 \<equiv> s\<lparr>sm_smoothedVideoDrift := Fin r\<rparr>"
  assumes drift: "smoothEMA (sm_alpha s) (sm_smoothedVideoDrift s)
      (d_sub pts (StreamSyncManager_getMasterClock now s)) (Fin v) (Fin (1 / 10)) = Fin r"
    and th: "d_div (if sm_adaptiveSync s then StreamSyncManager_computeAdaptiveThreshold s1
                    else sm_syncThreshold s) (Fin v) = Fin th"
    and v: "v \<noteq> 0"
  shows "StreamSyncManager_computeVideoDelay now pts dur (Fin base) (Fin v) s =
     (if r < - th \<and> StreamSyncManager_shouldDropFrame pts dur s1
      then (Fin (- 1), s1\<lparr>sm_droppedFrames := sm_droppedFrames s + 1\<rparr>)
      else (Fin (max 0 (shown_delay r th base v)),
            s1\<lparr>sm_duplicatedFrames := sm_duplicatedFrames s
                 + (if th < \<bar>r\<bar> \<and> th < r \<and> StreamSyncManager_shouldDuplicateFrame pts dur s1 then 1 else 0),
               sm_avgVideoDelay := d_add (d_mul (sm_avgVideoDelay s) (Fin (95 / 100)))
                                     (Fin (shown_delay r th base v * (5 / 100)))\<rparr>))"
proof -
  have th': "d_div (if sm_adaptiveSync s1 then StreamSyncManager_computeAdaptiveThreshold s1
                    else sm_syncThreshold s1) (Fin v) = Fin th"
    using th by (cases "sm_adaptiveSync s") (simp_all add: s1_def)
  have delay: "(if \<not> d_lt (Fin th) (d_abs (Fin r)) then Fin base
      else if d_lt (Fin 0) (Fin r) then d_add (Fin base) (d_div (d_mul (Fin r) (Fin 1000)) (Fin v))
      else d_max (Fin 0) (d_add (Fin base) (d_mul (d_mul (Fin r) (Fin 1000))
             (d_min (Fin 1) (d_mul (Fin (5 / 10)) (Fin v)))))) = Fin (shown_delay r th base v)"
    using v by (simp add: shown_delay_def not_less)
  have f: "sm_droppedFrames s1 = sm_droppedFrames s" "sm_duplicatedFrames s1 = sm_duplicatedFrames s"
    "sm_avgVideoDelay s1 = sm_avgVideoDelay s" "s1\<lparr>sm_duplicatedFrames := sm_duplicatedFrames s\<rparr> = s1"
    by (simp_all add: s1_def)
  show ?thesis
    unfolding StreamSyncManager_computeVideoDelay_def Let_def drift s1_def [symmetric] th'
    unfolding delay
    by (cases "th < \<bar>r\<bar> \<and> th < r \<and> StreamSyncManager_shouldDuplicateFrame pts dur s1") (simp_all add: f)
qed

lemma computeVideoDelay_eq:
  fixes s pts dur base now
  assumes "sync_ok s" "0 < v"
  obtains r th n where "\<bar>r\<bar> \<le> 2 / 10 * min v 4" "0 < th" "0 \<le> n"
      "StreamSyncManager_computeVideoDelay now (Fin pts) dur (Fin base) (Fin v) s =
     (if r < - th \<and> StreamSyncManager_shouldDropFrame (Fin pts) dur (s\<lparr>sm_smoothedVideoDrift := Fin r\<rparr>)
      then (Fin (- 1), s\<lparr>sm_smoothedVideoDrift := Fin r, sm_droppedFrames := sm_droppedFrames s + 1\<rparr>)
      else (Fin (max 0 (shown_delay r th base v)),
            s\<lparr>sm_smoothedVideoDrift := Fin r, sm_duplicatedFrames := sm_duplicatedFrames s + n,
              sm_avgVideoDelay := d_add (d_mul (sm_avgVideoDelay s) (Fin (95 / 100)))
                                     (Fin (shown_delay r th base v * (5 / 100)))\<rparr>))"
proof -
  obtain a t d e m where s: "sm_alpha s = Fin a" "0 \<le> a" "sm_syncThreshold s = Fin t" "0 < t"
    "sm_smoothedVideoDrift s = Fin d" "sm_smoothedAudioDrift s = Fin e"
    "StreamSyncManager_getMasterClock now s = Fin m"
    using sync_okE [OF assms(1)] by metis
  obtain r where r: "smoothEMA (Fin a) (Fin d) (Fin (pts - m)) (Fin v) (Fin (1 / 10)) = Fin r"
    "\<bar>r\<bar> \<le> 2 / 10 * min v 4"
    using smoothEMA_bounded [of v "1 / 10" a d "pts - m"] assms(2) s(2) by auto
  let ?s = "s\<lparr>sm_smoothedVideoDrift := Fin r\<rparr>"
  obtain x where x: "(if sm_adaptiveSync s then StreamSyncManager_computeAdaptiveThreshold ?s
                      else sm_syncThreshold s) = Fin x" "0 < x"
    using adaptive_range [of ?s t r e] s by (cases "sm_adaptiveSync s") auto
  show thesis
    by (rule that [OF r(2) _ _ computeVideoDelay_unfold [of s "Fin pts" now v r "x / v" dur base]])
      (use s r x assms(2) in simp_all)
qed


lemma sync_ok_delay:
  assumes "sync_ok s" "0 < v"
  shows "sync_ok (snd (StreamSyncManager_computeVideoDelay now (Fin pts) dur (Fin base) (Fin v) s))"
proof -
  obtain r th n where r: "\<bar>r\<bar> \<le> 2 / 10 * min v 4" and e:
    "StreamSyncManager_computeVideoDelay now (Fin pts) dur (Fin base) (Fin v) s =
     (if r < - th \<and> StreamSyncManager_shouldDropFrame (Fin pts) dur (s\<lparr>sm_smoothedVideoDrift := Fin r\<rparr>)
      then (Fin (- 1), s\<lparr>sm_smoothedVideoDrift := Fin r, sm_droppedFrames := sm_droppedFrames s + 1\<rparr>)
      else (Fin (max 0 (shown_delay r th base v)),
            s\<lparr>sm_smoothedVideoDrift := Fin r, sm_duplicatedFrames := sm_duplicatedFrames s + n,
              sm_avgVideoDelay := d_add (d_mul (sm_avgVideoDelay s) (Fin (95 / 100)))
                                     (Fin (shown_delay r th base v * (5 / 100)))\<rparr>))"
    by (rule computeVideoDelay_eq [OF assms])
  have "\<bar>r\<bar> \<le> 8 / 10" using r by linarith
  with assms(1) show ?thesis by (auto simp: e sync_ok_def)
qed

lemma sync_ok_step: "sync_ok s \<Longrightarrow> sync_op_ok op \<Longrightarrow> sync_ok (sync_step op s)"
proof (cases op)
  case (Delay now pts dur base v)
  assume "sync_ok s" "sync_op_ok op"
  with Delay show ?thesis by (simp add: sync_ok_delay)
next
  case (SetThreshold t)
  assume "sync_ok s"
  with SetThreshold std_clamp_bounds [of "5 / 1000" "50 / 1000" t] show ?thesis
    by (auto simp: sync_ok_def StreamSyncManager_setAVSyncThreshold_def kMinSyncThreshold_def kMaxSyncThreshold_def)
qed (auto simp: sync_ok_def StreamSyncManager_updateAudioClock_def StreamSyncManager_updateVideoClock_def
    StreamSyncManager_updateExternalClock_def StreamSyncManager_setSpeed_def StreamSyncManager_resetClocks_def
    StreamSyncManager_setMaster_def StreamSyncManager_setAdaptiveSync_def
    clock_finite_set clock_finite_speed clock_finite_reset)

lemma sync_ok_run: "sync_ok s \<Longrightarrow> list_all sync_op_ok ops \<Longrightarrow> sync_ok (fold sync_step ops s)"
  by (induction ops arbitrary: s) (auto simp: sync_ok_step)

lemma sync_ok_new:
  "0 < t \<Longrightarrow> 0 \<le> a \<Longrightarrow> sync_ok (StreamSyncManager_new n1 n2 n3 m (Fin t) (Fin d) (Fin a))"
  by (simp add: sync_ok_def StreamSyncManager_new_def clock_finite_init)

lemma shown_delay_cases:
  assumes "0 < v" "0 < th"
  shows "\<bar>r\<bar> \<le> th \<Longrightarrow> shown_delay r th base v = base"
    and "th < r \<Longrightarrow> base < shown_delay r th base v"
    and "r < - th \<Longrightarrow> 0 \<le> shown_delay r th base v \<and> shown_delay r th base v \<le> max 0 base"
proof -
  show "shown_delay r th base v = base" if "\<bar>r\<bar> \<le> th" using that by (simp add: shown_delay_def)
  show "base < shown_delay r th base v" if "th < r"
    using that assms by (auto simp: shown_delay_def divide_pos_pos)
  show "0 \<le> shown_delay r th base v \<and> shown_delay r th base v \<le> max 0 base" if "r < - th"
  proof -
    have "r * 1000 * min 1 (5 / 10 * v) \<le> 0"
      using that assms by (intro mult_nonpos_nonneg) auto
    with that assms show ?thesis by (auto simp: shown_delay_def)
  qed
qed

subsection \<open>Properties\<close>

text \<open>
  The smoothing filter moves the drift towards the measured value and never past it, and
  keeps it within 0.2 seconds times the speed (at most 0.8 seconds).
\<close>

theorem smoothEMA_contracts:
  assumes "0 < v" "0 \<le> a" "0 \<le> m" "\<bar>p\<bar> \<le> 2 / 10 * min v 4"
  shows "\<exists>r. smoothEMA (Fin a) (Fin p) (Fin c) (Fin v) (Fin m) = Fin r
           \<and> min p c \<le> r \<and> r \<le> max p c \<and> \<bar>r\<bar> \<le> 2 / 10 * min v 4"
proof -
  obtain k e where k: "0 \<le> k" "k \<le> 1" "0 \<le> e" and eq: "smoothEMA (Fin a) (Fin p) (Fin c) (Fin v) (Fin m)
      = Fin (std_clamp (p + k * std_clamp (c - p) (- e) e) (- (2 / 10 * min v 4)) (2 / 10 * min v 4))"
    using smoothEMA_Fin [OF assms(1,3,2), of p c] by blast
  have b: "- (2 / 10 * min v 4) \<le> p" "p \<le> 2 / 10 * min v 4" "0 \<le> 2 / 10 * min v 4"
    using assms(1,4) by (auto simp: abs_le_iff)
  note s = scaled_step_between [OF k, of p c]
  show ?thesis
    using eq std_clamp_between [OF b(1,2) conjunct1 [OF s] conjunct2 [OF s]]
      std_clamp_abs [OF b(3), of "p + k * std_clamp (c - p) (- e) e"]
    by blast
qed

theorem smoothEMA_contracts_witness:
  "\<exists>r. smoothEMA (Fin (1 / 10)) (Fin 0) (Fin 3) (Fin 1) (Fin (1 / 10)) = Fin r \<and> 0 \<le> r \<and> r \<le> 3"
  using smoothEMA_contracts [of 1 "1 / 10" "1 / 10" 0 3] by auto

text \<open>
  after any sequence of calls with finite arguments and positive speeds on a new manager
  the smoothed drift is a number of at most 0.8 seconds, the synchronisation threshold is
  positive and the master clock reads a number.
\<close>

theorem StreamSyncManager_drift_bounded:
  assumes "0 < t" "0 \<le> a" "list_all sync_op_ok ops"
  shows "\<exists>d th m. let s = fold sync_step ops (StreamSyncManager_new n1 n2 n3 k (Fin t) (Fin md) (Fin a))
           in sm_smoothedVideoDrift s = Fin d \<and> \<bar>d\<bar> \<le> 8 / 10 \<and> sm_syncThreshold s = Fin th \<and> 0 < th
              \<and> StreamSyncManager_getMasterClock now s = Fin m"
proof -
  have "sync_ok (fold sync_step ops (StreamSyncManager_new n1 n2 n3 k (Fin t) (Fin md) (Fin a)))"
    using sync_ok_run [OF sync_ok_new [OF assms(1,2)] assms(3)] .
  then show ?thesis unfolding Let_def by (rule sync_okE [where now = now]) blast
qed

theorem StreamSyncManager_drift_bounded_witness:
  "\<exists>d th m. let s = fold sync_step [UpdateVideo 0 7 1, Delay 40 9 0 40 2, SetSpeed [0, 0, 0, 0, 0, 0] 2, Delay 80 9 0 40 2]
        (StreamSyncManager_new 0 0 0 MC_kVideo (Fin (1 / 100)) (Fin (1 / 10)) (Fin (1 / 10)))
      in sm_smoothedVideoDrift s = Fin d \<and> \<bar>d\<bar> \<le> 8 / 10 \<and> sm_syncThreshold s = Fin th \<and> 0 < th
         \<and> StreamSyncManager_getMasterClock 99 s = Fin m"
  by (rule StreamSyncManager_drift_bounded) simp_all


definition sample_manager :: StreamSyncManager where
  "sample_manager = StreamSyncManager_new 0 0 0 MC_kVideo (Fin (1 / 100)) (Fin (1 / 10)) (Fin (1 / 10))"


text \<open>
  one frame without a time stamp switches the correction off.  After a call with a NaN
  time stamp the smoothed drift is NaN, and it stays NaN at every later call, whatever the time
  stamps: no frame is dropped or duplicated any more and the delay is the base delay.
\<close>

theorem computeVideoDelay_NaN_sticks:
  "let s1 = snd (StreamSyncManager_computeVideoDelay now NaN dur base speed s);
           s2 = fold (\<lambda>(n, p, d, b, v) t. snd (StreamSyncManager_computeVideoDelay n p d b v t)) calls s1
         in sm_smoothedVideoDrift s2 = NaN \<and> sm_droppedFrames s2 = sm_droppedFrames s
            \<and> sm_duplicatedFrames s2 = sm_duplicatedFrames s
            \<and> fst (StreamSyncManager_computeVideoDelay n p d b v s2) = d_max (Fin 0) b"
proof -
  have step: "fst (StreamSyncManager_computeVideoDelay n p d b v t) = d_max (Fin 0) b
      \<and> sm_smoothedVideoDrift (snd (StreamSyncManager_computeVideoDelay n p d b v t)) = NaN
      \<and> sm_droppedFrames (snd (StreamSyncManager_computeVideoDelay n p d b v t)) = sm_droppedFrames t
      \<and> sm_duplicatedFrames (snd (StreamSyncManager_computeVideoDelay n p d b v t)) = sm_duplicatedFrames t"
    if "sm_smoothedVideoDrift t = NaN \<or> p = NaN" for n p d b v t
    using that by (auto simp: StreamSyncManager_computeVideoDelay_def Let_def smoothEMA_NaN)
  have run: "sm_smoothedVideoDrift t = NaN \<Longrightarrow>
      let t2 = fold (\<lambda>(n, p, d, b, v) t. snd (StreamSyncManager_computeVideoDelay n p d b v t)) cs t
      in sm_smoothedVideoDrift t2 = NaN \<and> sm_droppedFrames t2 = sm_droppedFrames t
         \<and> sm_duplicatedFrames t2 = sm_duplicatedFrames t" for cs t
    by (induction cs arbitrary: t) (auto simp: Let_def step split: prod.splits)
  show ?thesis
    using run [of "snd (StreamSyncManager_computeVideoDelay now NaN dur base speed s)" calls] step
    by (simp add: Let_def)
qed

end
