(* ===== verification/DecoderBases.thy ===== *)
theory DecoderBases
  imports Demuxers FrameQueues StreamSync
begin

text \<open>
  Class \<open>DecoderBase\<close> (\<open>src/src/decoder/decoder_base.h\<close>, \<open>decoder_base.cpp\<close>): what the audio
  and the video decoder share, that is opening and closing a codec, starting, pausing and
  stopping the decoding thread, the speed and the seek position, the pacing of frames, the
  handling of errors and the statistics.

  The derived classes are extensions of the record \<open>DecoderBase\<close>, so the operations of
  the base class apply to them; what they override is an argument.  The demuxer is an
  argument of the operations that read it.  A call that joins the thread is \<open>Wait\<close> until the
  thread has ended.  Times are in nanoseconds; the codec functions of FFmpeg give their
  results as arguments (\<open>codec_calls\<close>).  A null pointer that is read is \<open>UB\<close>.
\<close>

type_synonym u16 = "16 word"

record codec_ctx =
  cc_name :: string
  cc_codec_id :: int
  cc_hw_device_ctx :: bool
  cc_hw_frames_ctx :: bool
  cc_extradata :: "byte list option"
  cc_sample_rate :: int

record DecoderStatistics =
  ds_framesDecoded :: u64
  ds_errorsCount :: u64
  ds_totalDecodeTime :: u64
  ds_consecutiveErrors :: u64
  ds_startTime :: int

text \<open>Where the decoding thread is: before its loop, at the head of the loop, in the wait of a paused
  decoder, about to take a packet, in the loop that receives frames, waiting for a slot for a
  frame (with its time stamp, duration and the time it was received at), about to commit a frame, at its
  end.\<close>

datatype decode_pc =
    KP_Start | KP_Loop | KP_Paused | KP_Pop | KP_Receive | KP_Write Frame double double int | KP_Commit | KP_Ended

text \<open>The local variables of the two decoding loops.\<close>

record decode_thread =
  kt_pc :: decode_pc
  kt_serial :: u32
  kt_hasKeyFrame :: bool
  kt_readFirstFrame :: bool
  kt_occuredError :: bool
  kt_errorStartTime :: "int option"
  kt_codecId :: int
  kt_avgDuration :: double
  kt_seiDataList :: "UserSEIData list"
  kt_lastSpeed :: real

record DecoderBase =
  db_type :: AVMediaType
  db_codecCtx :: "codec_ctx option"
  db_isOpened :: bool
  db_isStarted :: bool
  db_streamIndex :: int
  db_stream :: "in_stream option"
  db_frameQueue :: FrameQueue
  db_thread :: "decode_thread option"
  db_isPaused :: bool
  db_requestInterruption :: bool
  db_lastFrameTime :: "int option"
  db_speed :: u16
  db_seekPosMs :: int
  db_demuxerSeeking :: bool
  db_enableFrameControl :: bool
  db_maxConsecutiveErrors :: u16
  db_recoveryInterval :: u16
  db_statistics :: DecoderStatistics
  db_waitingForPreBuffer :: bool

datatype decoder_event = DecoderEvent EventType string int MediaType bool string

definition kFrameQueueDefaultSize :: int where "kFrameQueueDefaultSize = 3"

definition DecoderStatistics_reset :: "int \<Rightarrow> DecoderStatistics" where
  "DecoderStatistics_reset now = \<lparr>ds_framesDecoded = 0, ds_errorsCount = 0, ds_totalDecodeTime = 0,
     ds_consecutiveErrors = 0, ds_startTime = now\<rparr>"

text \<open>\<open>elapsed\<close> whole seconds; a clock that has not advanced gives 0.\<close>

definition DecoderStatistics_getFrameRate :: "int \<Rightarrow> DecoderStatistics \<Rightarrow> double" where
  "DecoderStatistics_getFrameRate now st =
     (let elapsed = trunc_to_int (of_int (now - ds_startTime st) / 1000000000)
      in if elapsed > 0 then d_div (Fin (of_nat (unat (ds_framesDecoded st)))) (Fin (of_int elapsed)) else Fin 0)"

definition DecoderBase_new :: "int \<Rightarrow> AVMediaType \<Rightarrow> DecoderBase" where
  "DecoderBase_new now ty =
     \<lparr>db_type = ty, db_codecCtx = None, db_isOpened = False, db_isStarted = False, db_streamIndex = -1,
      db_stream = None,
      db_frameQueue = \<lparr>fq_queue = [], fq_head = 0, fq_tail = 0, fq_size = 0, fq_maxSize = kFrameQueueDefaultSize,
        fq_keepLast = False, fq_pendingWriteIndex = -1, fq_serial = 0, fq_aborted = False\<rparr>,
      db_thread = None, db_isPaused = False, db_requestInterruption = False, db_lastFrameTime = None,
      db_speed = 1000, db_seekPosMs = -1, db_demuxerSeeking = False, db_enableFrameControl = True,
      db_maxConsecutiveErrors = 5, db_recoveryInterval = 3, db_statistics = DecoderStatistics_reset now,
      db_waitingForPreBuffer = False\<rparr>"

subsection \<open>Configuration\<close>

definition DecoderBase_setSeekPos :: "double \<Rightarrow> 'a DecoderBase_scheme \<Rightarrow> unit outcome \<times> 'a DecoderBase_scheme" where
  "DecoderBase_setSeekPos pos b =
     (let b1 = b\<lparr>db_demuxerSeeking := atomic_set (db_demuxerSeeking b) True\<rparr>
      in case d_mul pos (Fin 1000) of
           Fin x \<Rightarrow> if int64_range (trunc_to_int x)
                    then (Ret (), b1\<lparr>db_seekPosMs := atomic_set (db_seekPosMs b1) (trunc_to_int x)\<rparr>) else (UB, b1)
         | _ \<Rightarrow> (UB, b1))"

definition DecoderBase_seekPos :: "'a DecoderBase_scheme \<Rightarrow> double" where
  "DecoderBase_seekPos b = Fin (of_int (db_seekPosMs b) * (1 / 1000))"

text \<open>A speed that is not a number passes both comparisons; its conversion is undefined.\<close>

definition DecoderBase_setSpeed :: "double \<Rightarrow> 'a DecoderBase_scheme \<Rightarrow> bool outcome \<times> 'a DecoderBase_scheme" where
  "DecoderBase_setSpeed speed b =
     (if d_le speed (Fin 0) \<or> utils_greater speed (Fin 64) DOUBLEEPSILON then (Ret False, b)
      else case d_mul speed (Fin 1000) of
             Fin x \<Rightarrow> if trunc_to_int x < 2 ^ 16
                      then (Ret True, b\<lparr>db_speed := atomic_set (db_speed b) (word_of_int (trunc_to_int x))\<rparr>)
                      else (UB, b)
           | _ \<Rightarrow> (UB, b))"

definition DecoderBase_speed :: "'a DecoderBase_scheme \<Rightarrow> double" where
  "DecoderBase_speed b = Fin (of_nat (unat (db_speed b)) * (1 / 1000))"

text \<open>The size goes from \<open>uint32_t\<close> to the \<open>int\<close> of the queue.\<close>

definition DecoderBase_setMaxFrameQueueSize ::
    "frame_api \<Rightarrow> u32 \<Rightarrow> 'a DecoderBase_scheme \<Rightarrow> unit outcome \<times> 'a DecoderBase_scheme" where
  "DecoderBase_setMaxFrameQueueSize api newSize b =
     (case FrameQueue_setMaxCount api (sint newSize) (db_frameQueue b) of
        (Ret _, q) \<Rightarrow> (Ret (), b\<lparr>db_frameQueue := q\<rparr>)
      | (Wait, q) \<Rightarrow> (Wait, b\<lparr>db_frameQueue := q\<rparr>)
      | (UB, q) \<Rightarrow> (UB, b\<lparr>db_frameQueue := q\<rparr>))"

definition DecoderBase_maxFrameQueueSize :: "'a DecoderBase_scheme \<Rightarrow> u32" where
  "DecoderBase_maxFrameQueueSize b = word_of_int (FrameQueue_capacity (db_frameQueue b))"

definition DecoderBase_setFrameRateControl :: "bool \<Rightarrow> 'a DecoderBase_scheme \<Rightarrow> 'a DecoderBase_scheme" where
  "DecoderBase_setFrameRateControl enable b = b\<lparr>db_enableFrameControl := atomic_set (db_enableFrameControl b) enable\<rparr>"

definition DecoderBase_isFrameRateControlEnabled :: "'a DecoderBase_scheme \<Rightarrow> bool" where
  "DecoderBase_isFrameRateControlEnabled b = db_enableFrameControl b"

definition DecoderBase_setMaxConsecutiveErrors :: "u16 \<Rightarrow> 'a DecoderBase_scheme \<Rightarrow> 'a DecoderBase_scheme" where
  "DecoderBase_setMaxConsecutiveErrors n b = b\<lparr>db_maxConsecutiveErrors := atomic_set (db_maxConsecutiveErrors b) n\<rparr>"

definition DecoderBase_maxConsecutiveErrors :: "'a DecoderBase_scheme \<Rightarrow> u16" where
  "DecoderBase_maxConsecutiveErrors b = db_maxConsecutiveErrors b"

definition DecoderBase_setRecoveryInterval :: "u16 \<Rightarrow> 'a DecoderBase_scheme \<Rightarrow> 'a DecoderBase_scheme" where
  "DecoderBase_setRecoveryInterval n b = b\<lparr>db_recoveryInterval := atomic_set (db_recoveryInterval b) n\<rparr>"

definition DecoderBase_recoveryInterval :: "'a DecoderBase_scheme \<Rightarrow> u16" where
  "DecoderBase_recoveryInterval b = db_recoveryInterval b"

definition DecoderBase_resetStatistics :: "int \<Rightarrow> 'a DecoderBase_scheme \<Rightarrow> 'a DecoderBase_scheme" where
  "DecoderBase_resetStatistics now b = b\<lparr>db_statistics := DecoderStatistics_reset now\<rparr>"

definition DecoderBase_updateTotalDecodeTime :: "int \<Rightarrow> 'a DecoderBase_scheme \<Rightarrow> 'a DecoderBase_scheme" where
  "DecoderBase_updateTotalDecodeTime now b =
     b\<lparr>db_statistics := (db_statistics b)\<lparr>ds_totalDecodeTime :=
         word_of_int (trunc_to_int (of_int (now - ds_startTime (db_statistics b)) / 1000000))\<rparr>\<rparr>"

definition DecoderBase_setWaitingForPreBuffer :: "bool \<Rightarrow> 'a DecoderBase_scheme \<Rightarrow> 'a DecoderBase_scheme" where
  "DecoderBase_setWaitingForPreBuffer waiting b =
     b\<lparr>db_waitingForPreBuffer := atomic_set (db_waitingForPreBuffer b) waiting\<rparr>"

definition DecoderBase_isWaitingForPreBuffer :: "'a DecoderBase_scheme \<Rightarrow> bool" where
  "DecoderBase_isWaitingForPreBuffer b = db_waitingForPreBuffer b"

subsection \<open>Time stamps and pacing\<close>

definition av_q2d :: "AVRational \<Rightarrow> double" where
  "av_q2d r = d_div (Fin (of_int (fst r))) (Fin (of_int (snd r)))"

definition DecoderBase_calculatePts :: "Frame \<Rightarrow> 'a DecoderBase_scheme \<Rightarrow> double outcome" where
  "DecoderBase_calculatePts frame b =
     (if \<not> Frame_isValid frame then Ret (Fin (- 1))
      else case db_stream b of
             None \<Rightarrow> UB
           | Some st \<Rightarrow>
               let pts = (if Frame_avPts frame \<noteq> AV_NOPTS_VALUE then Frame_avPts frame
                          else Frame_bestEffortTimestamp frame);
                   time = d_mul (Fin (of_int pts)) (av_q2d (st_time_base st))
               in Ret (if utils_greaterAndEqual time (Fin 0) DOUBLEEPSILON then time else Fin 0))"

text \<open>
  The delay in milliseconds and the new \<open>lastFrameTime\<close>.  The interval is converted to whole
  microseconds; an interval that is not a number or does not fit is undefined.
\<close>

definition DecoderBase_calculateFrameDisplayTime ::
    "double \<Rightarrow> double \<Rightarrow> int \<Rightarrow> int option \<Rightarrow> 'a DecoderBase_scheme \<Rightarrow> double outcome \<times> int option" where
  "DecoderBase_calculateFrameDisplayTime pts duration currentTime lastFrameTime b =
     (if isnan pts then (Ret (Fin 0), lastFrameTime)
      else
        let currentSpeed = (if d_le (DecoderBase_speed b) (Fin 0) then Fin 1 else DecoderBase_speed b)
        in case lastFrameTime of
             None \<Rightarrow> (Ret (Fin 0), Some currentTime)
           | Some lastTime \<Rightarrow>
               (case d_mul (d_div duration currentSpeed) (Fin 1000) of
                  Fin x \<Rightarrow>
                    if int64_range (trunc_to_int x)
                    then let nextFrameTime = lastTime + trunc_to_int x * 1000;
                             us = trunc_to_int (of_int (nextFrameTime - currentTime) / 1000)
                         in (Ret (d_div (Fin (of_int us)) (Fin 1000)), Some nextFrameTime)
                    else (UB, lastFrameTime)
                | _ \<Rightarrow> (UB, lastFrameTime)))"

definition DecoderBase_checkAndUpdateSerial ::
    "u32 \<Rightarrow> PacketQueue \<Rightarrow> 'a DecoderBase_scheme \<Rightarrow> bool \<times> u32 \<times> 'a DecoderBase_scheme" where
  "DecoderBase_checkAndUpdateSerial currentSerial packetQueue b =
     (if currentSerial \<noteq> PacketQueue_serial packetQueue
      then (True, PacketQueue_serial packetQueue,
            b\<lparr>db_frameQueue := FrameQueue_setSerial (sint (PacketQueue_serial packetQueue)) (db_frameQueue b)\<rparr>)
      else (False, currentSerial, b))"

definition DecoderBase_shouldContinueDecoding :: "'a DecoderBase_scheme \<Rightarrow> bool" where
  "DecoderBase_shouldContinueDecoding b \<longleftrightarrow>
     \<not> db_requestInterruption b
     \<and> unat (ds_consecutiveErrors (db_statistics b)) < unat (db_maxConsecutiveErrors b)"

subsection \<open>Events and errors\<close>

text \<open>An event of a decoder; without a codec context the hardware flag is read through a null
  pointer.\<close>

definition decoder_event :: "EventType \<Rightarrow> string \<Rightarrow> MediaType \<Rightarrow> string \<Rightarrow> 'a DecoderBase_scheme \<Rightarrow> decoder_event outcome" where
  "decoder_event ty name media description b =
     (case db_codecCtx b of
        None \<Rightarrow> UB
      | Some c \<Rightarrow> Ret (DecoderEvent ty name (db_streamIndex b) media (cc_hw_device_ctx c) description))"

definition DecoderBase_handleFirstFrame ::
    "string \<Rightarrow> MediaType \<Rightarrow> string \<Rightarrow> 'a DecoderBase_scheme \<Rightarrow> decoder_event outcome" where
  "DecoderBase_handleFirstFrame name media description b = decoder_event EV_kDecodeFirstFrame name media description b"

definition DecoderBase_handleDecodeRecovery ::
    "string \<Rightarrow> MediaType \<Rightarrow> string \<Rightarrow> 'a DecoderBase_scheme \<Rightarrow> decoder_event outcome" where
  "DecoderBase_handleDecodeRecovery name media description b = decoder_event EV_kDecodeRecovery name media description b"

definition DecoderBase_handleDecodeError ::
    "string \<Rightarrow> MediaType \<Rightarrow> int \<Rightarrow> string \<Rightarrow> 'a DecoderBase_scheme
      \<Rightarrow> bool outcome \<times> decoder_event list \<times> 'a DecoderBase_scheme" where
  "DecoderBase_handleDecodeError name media errorCode description b =
     (if errorCode = AVERROR_EOF \<or> errorCode = AVERROR_EAGAIN then (Ret False, [], b)
      else
        let b1 = b\<lparr>db_statistics := (db_statistics b)\<lparr>ds_errorsCount := ds_errorsCount (db_statistics b) + 1\<rparr>\<rparr>
        in case decoder_event EV_kDecodeError name media description b1 of
             Ret e \<Rightarrow> (Ret True, [e], b1)
           | Wait \<Rightarrow> (Wait, [], b1)
           | UB \<Rightarrow> (UB, [], b1))"

subsection \<open>Opening, starting, stopping\<close>

text \<open>
  The calls of \<open>openInternal\<close>: the codec found for the stream (its name and identifier), whether
  a context could be allocated, the copy of the parameters (the result, the extra data and
  the sample rate that are copied), the opening of the codec.
\<close>

record codec_calls =
  kc_find_decoder :: "in_stream \<Rightarrow> (string \<times> int) option"
  kc_alloc_context :: bool
  kc_parameters :: int
  kc_extradata :: "byte list option"
  kc_sample_rate :: int
  kc_open2 :: int

definition own_event :: "EventType \<Rightarrow> string \<Rightarrow> bool \<Rightarrow> string \<Rightarrow> 'a DecoderBase_scheme \<Rightarrow> decoder_event" where
  "own_event ty name hw description b =
     DecoderEvent ty name (db_streamIndex b) (avMediaType2MediaType (db_type b)) hw description"

definition codec_name :: "'a DecoderBase_scheme \<Rightarrow> string" where
  "codec_name b = (case db_codecCtx b of None \<Rightarrow> [] | Some c \<Rightarrow> cc_name c)"

text \<open>The event of a call that reads the codec context without a test.\<close>

definition codec_event :: "EventType \<Rightarrow> string \<Rightarrow> 'a DecoderBase_scheme \<Rightarrow> decoder_event outcome" where
  "codec_event ty description b =
     (case db_codecCtx b of None \<Rightarrow> UB | Some c \<Rightarrow> Ret (own_event ty (cc_name c) (cc_hw_device_ctx c) description b))"

definition DecoderBase_stopInternal ::
    "'a DecoderBase_scheme \<Rightarrow> unit outcome \<times> decoder_event list \<times> 'a DecoderBase_scheme" where
  "DecoderBase_stopInternal b =
     (if \<not> db_isStarted b then (Ret (), [], b)
      else
        let b1 = b\<lparr>db_isPaused := False, db_requestInterruption := True,
                   db_frameQueue := FrameQueue_setAbortStatus True (db_frameQueue b)\<rparr>
        in case db_thread b1 of
             Some t \<Rightarrow> if kt_pc t \<noteq> KP_Ended then (Wait, [], b1)
                       else (case codec_event EV_kDecodeStopped ''Decode Stopped'' b1 of
                               Ret e \<Rightarrow> (Ret (), [e], b1\<lparr>db_thread := None, db_isStarted := False\<rparr>)
                             | _ \<Rightarrow> (UB, [], b1\<lparr>db_thread := None, db_isStarted := False\<rparr>))
           | None \<Rightarrow> (case codec_event EV_kDecodeStopped ''Decode Stopped'' b1 of
                        Ret e \<Rightarrow> (Ret (), [e], b1\<lparr>db_isStarted := False\<rparr>)
                      | _ \<Rightarrow> (UB, [], b1\<lparr>db_isStarted := False\<rparr>)))"

text \<open>\<open>hwRemove\<close> is the hardware clean-up of the derived class.\<close>

definition DecoderBase_closeInternal ::
    "('a DecoderBase_scheme \<Rightarrow> 'a DecoderBase_scheme) \<Rightarrow> 'a DecoderBase_scheme
      \<Rightarrow> unit outcome \<times> decoder_event list \<times> 'a DecoderBase_scheme" where
  "DecoderBase_closeInternal hwRemove b =
     (case DecoderBase_stopInternal b of
        (Ret _, evs, b1) \<Rightarrow>
          if \<not> db_isOpened b1 then (Ret (), evs, b1)
          else
            let name = codec_name b1;
                hw = (case db_codecCtx b1 of None \<Rightarrow> False | Some c \<Rightarrow> cc_hw_device_ctx c);
                b2 = hwRemove (b1\<lparr>db_codecCtx := None, db_frameQueue := FrameQueue_uninit (db_frameQueue b1)\<rparr>)
            in (Ret (), evs @ [own_event EV_kDestoryDecoder name hw ''Decode Destroyed'' b2], b2\<lparr>db_isOpened := False\<rparr>)
      | (res, evs, b1) \<Rightarrow> (res, evs, b1))"

definition open_failed :: "'a DecoderBase_scheme \<Rightarrow> decoder_event" where
  "open_failed b = own_event EV_kCreateDecoderFailed (codec_name b) False ''Decode Created Failed'' b"

text \<open>A codec context as allocated and filled with the parameters of the stream.\<close>

definition fresh_ctx :: "codec_calls \<Rightarrow> string \<Rightarrow> int \<Rightarrow> codec_ctx" where
  "fresh_ctx kc name cid =
     \<lparr>cc_name = name, cc_codec_id = cid, cc_hw_device_ctx = False, cc_hw_frames_ctx = False,
      cc_extradata = kc_extradata kc, cc_sample_rate = kc_sample_rate kc\<rparr>"

text \<open>The part of \<open>openInternal\<close> after a decoder that was open has been closed; \<open>hwSetup\<close> is the
  hardware set-up of the derived class.\<close>

definition open_codec ::
    "('a DecoderBase_scheme \<Rightarrow> bool \<times> 'a DecoderBase_scheme) \<Rightarrow> frame_api \<Rightarrow> codec_calls \<Rightarrow> int \<Rightarrow> Demuxer
      \<Rightarrow> 'a DecoderBase_scheme \<Rightarrow> bool outcome \<times> decoder_event list \<times> 'a DecoderBase_scheme" where
  "open_codec hwSetup api kc now d b =
     (case dm_formatContext d of
        None \<Rightarrow> (Ret False, [open_failed b], b)
      | Some fc \<Rightarrow>
          let b1 = b\<lparr>db_streamIndex := Demuxer_streamIndex (db_type b) d\<rparr>
          in if db_streamIndex b1 < 0 then (Ret False, [open_failed b1], b1)
             else if nat (db_streamIndex b1) \<ge> length (fc_streams fc) then (UB, [], b1)
             else
               let st = fc_streams fc ! nat (db_streamIndex b1);
                   b2 = b1\<lparr>db_stream := Some st\<rparr>
               in case kc_find_decoder kc st of
                    None \<Rightarrow> (Ret False, [open_failed b2], b2)
                  | Some (name, cid) \<Rightarrow>
                      if \<not> kc_alloc_context kc
                      then (Ret False, [open_failed (b2\<lparr>db_codecCtx := None\<rparr>)], b2\<lparr>db_codecCtx := None\<rparr>)
                      else
                        let b3 = b2\<lparr>db_codecCtx := Some (fresh_ctx kc name cid)\<rparr>
                        in if kc_parameters kc < 0 then (Ret False, [open_failed b3], b3)
                           else
                             let (useHw, b4) = hwSetup b3
                             in if kc_open2 kc < 0 then (Ret False, [open_failed b4], b4)
                                else case FrameQueue_init api (db_frameQueue b4) of
                                       None \<Rightarrow> (UB, [], b4)
                                     | Some q \<Rightarrow>
                                         (Ret True,
                                          [own_event EV_kCreateDecoderSuccess name useHw ''Decode Created Success'' b4],
                                          b4\<lparr>db_frameQueue := q, db_isOpened := True,
                                             db_statistics := DecoderStatistics_reset now\<rparr>))"

definition DecoderBase_openInternal ::
    "('a DecoderBase_scheme \<Rightarrow> bool \<times> 'a DecoderBase_scheme) \<Rightarrow> ('a DecoderBase_scheme \<Rightarrow> 'a DecoderBase_scheme)
      \<Rightarrow> frame_api \<Rightarrow> codec_calls \<Rightarrow> int \<Rightarrow> Demuxer
      \<Rightarrow> 'a DecoderBase_scheme \<Rightarrow> bool outcome \<times> decoder_event list \<times> 'a DecoderBase_scheme" where
  "DecoderBase_openInternal hwSetup hwRemove api kc now d b =
     (if db_isOpened b
      then case DecoderBase_closeInternal hwRemove b of
             (Ret _, evs, b1) \<Rightarrow> (case open_codec hwSetup api kc now d b1 of (res, evs2, b2) \<Rightarrow> (res, evs @ evs2, b2))
           | (Wait, evs, b1) \<Rightarrow> (Wait, evs, b1)
           | (UB, evs, b1) \<Rightarrow> (UB, evs, b1)
      else open_codec hwSetup api kc now d b)"

definition new_thread :: decode_thread where
  "new_thread = \<lparr>kt_pc = KP_Start, kt_serial = 0, kt_hasKeyFrame = False, kt_readFirstFrame = False,
     kt_occuredError = False, kt_errorStartTime = None, kt_codecId = 0, kt_avgDuration = Fin 0,
     kt_seiDataList = [], kt_lastSpeed = 0\<rparr>"

definition DecoderBase_startInternal ::
    "Demuxer \<Rightarrow> 'a DecoderBase_scheme \<Rightarrow> unit outcome \<times> decoder_event list \<times> 'a DecoderBase_scheme" where
  "DecoderBase_startInternal d b =
     (if db_isStarted b then (Ret (), [], b)
      else case Demuxer_packetQueue (db_type b) d of
             None \<Rightarrow> (Ret (), [], b)
           | Some q \<Rightarrow>
               let fq = FrameQueue_setAbortStatus (PacketQueue_isAborted q)
                          (FrameQueue_setSerial (sint (PacketQueue_serial q)) (db_frameQueue b));
                   b1 = b\<lparr>db_frameQueue := fq, db_seekPosMs := 0, db_requestInterruption := False,
                          db_thread := Some new_thread, db_isStarted := True\<rparr>
               in case codec_event EV_kDecodeStarted ''Decode Started'' b1 of
                    Ret e \<Rightarrow> (Ret (), [e], b1)
                  | _ \<Rightarrow> (UB, [], b1))"

definition DecoderBase_pauseInternal ::
    "'a DecoderBase_scheme \<Rightarrow> unit outcome \<times> decoder_event list \<times> 'a DecoderBase_scheme" where
  "DecoderBase_pauseInternal b =
     (if \<not> db_isOpened b \<or> \<not> db_isStarted b \<or> db_isPaused b then (Ret (), [], b)
      else let b1 = b\<lparr>db_isPaused := True\<rparr>
           in case codec_event EV_kDecodePaused ''Decode Paused'' b1 of
                Ret e \<Rightarrow> (Ret (), [e], b1) | _ \<Rightarrow> (UB, [], b1))"

definition DecoderBase_resumeInternal ::
    "'a DecoderBase_scheme \<Rightarrow> unit outcome \<times> decoder_event list \<times> 'a DecoderBase_scheme" where
  "DecoderBase_resumeInternal b =
     (if \<not> db_isOpened b \<or> \<not> db_isStarted b \<or> \<not> db_isPaused b then (Ret (), [], b)
      else let b1 = b\<lparr>db_isPaused := False\<rparr>
           in case codec_event EV_kDecodeStarted ''Decode Started'' b1 of
                Ret e \<Rightarrow> (Ret (), [e], b1) | _ \<Rightarrow> (UB, [], b1))"


subsection \<open>Sequences of calls\<close>

lemma atomic_set_eq [simp]: "atomic_set current newValue = newValue"
  by (simp add: atomic_set_def atomicUpdateIfNotEqual.simps)

text \<open>The frames of one run of the decoding loop, one after the other: time stamp, duration and the
  time each was received at.\<close>

fun paced :: "'a DecoderBase_scheme \<Rightarrow> (double \<times> double \<times> int) list \<Rightarrow> int option \<Rightarrow> double outcome list \<times> int option" where
  "paced b [] lastFrameTime = ([], lastFrameTime)"
| "paced b ((pts, duration, now) # calls) lastFrameTime =
     (let (r, l1) = DecoderBase_calculateFrameDisplayTime pts duration now lastFrameTime b;
          (rs, l2) = paced b calls l1
      in (r # rs, l2))"

text \<open>The interval of a frame in nanoseconds: whole microseconds at the current speed.\<close>

definition frame_interval :: "'a DecoderBase_scheme \<Rightarrow> real \<Rightarrow> int" where
  "frame_interval b ms =
     trunc_to_int (ms / (if db_speed b = 0 then 1 else of_nat (unat (db_speed b)) / 1000) * 1000) * 1000"

primrec schedule :: "'a DecoderBase_scheme \<Rightarrow> int \<Rightarrow> real list \<Rightarrow> int list" where
  "schedule b t [] = []"
| "schedule b t (ms # r) = (t + frame_interval b ms) # schedule b (t + frame_interval b ms) r"

lemma speed_simps:
  "DecoderBase_speed b = Fin (of_nat (unat (db_speed b)) / 1000)"
  "d_le (DecoderBase_speed b) (Fin 0) \<longleftrightarrow> db_speed b = 0"
  by (simp_all add: DecoderBase_speed_def unat_eq_0 del: of_nat_unat)

lemma display_time_next:
  assumes "p \<noteq> NaN" "int64_range (frame_interval b ms div 1000)"
  shows "DecoderBase_calculateFrameDisplayTime p (Fin ms) now (Some t) b
    = (Ret (Fin (of_int (trunc_to_int (of_int (t + frame_interval b ms - now) / 1000)) / 1000)),
       Some (t + frame_interval b ms))"
proof -
  let ?v = "if db_speed b = 0 then 1 else of_nat (unat (db_speed b)) / 1000 :: real"
  have v: "?v \<noteq> 0" by (simp add: unat_eq_0 unat_gt_0 del: of_nat_unat)
  have sp: "(if d_le (DecoderBase_speed b) (Fin 0) then Fin 1 else DecoderBase_speed b) = Fin ?v"
    using speed_simps [of b] by auto
  have i: "frame_interval b ms = trunc_to_int (ms / ?v * 1000) * 1000"
    by (simp add: frame_interval_def)
  have r: "int64_range (trunc_to_int (ms / ?v * 1000))"
    using assms(2) unfolding i by simp
  have m: "d_mul (d_div (Fin ms) (Fin ?v)) (Fin 1000) = Fin (ms / ?v * 1000)"
    by (simp add: d_div_Fin [OF v] del: d_div.simps)
  show ?thesis
    unfolding DecoderBase_calculateFrameDisplayTime_def Let_def sp i option.case m double.case
    using assms(1) r by (simp add: isnan_def)
qed

lemma paced_schedule:
  assumes "list_all (\<lambda>(p, ms, now). p \<noteq> NaN \<and> int64_range (frame_interval b ms div 1000)) calls"
  shows "paced b (map (\<lambda>(p, ms, now). (p, Fin ms, now)) calls) (Some t)
    = (map2 (\<lambda>(p, ms, now) u. Ret (Fin (of_int (trunc_to_int (of_int (u - now) / 1000)) / 1000))) calls
         (schedule b t (map (fst \<circ> snd) calls)),
       Some (t + sum_list (map (\<lambda>(p, ms, now). frame_interval b ms) calls)))"
  using assms
proof (induction calls arbitrary: t)
  case (Cons c calls)
  obtain p ms now where c: "c = (p, ms, now)" by (cases c) auto
  have 1: "DecoderBase_calculateFrameDisplayTime p (Fin ms) now (Some t) b
    = (Ret (Fin (of_int (trunc_to_int (of_int (t + frame_interval b ms - now) / 1000)) / 1000)),
       Some (t + frame_interval b ms))"
    using Cons.prems c by (intro display_time_next) auto
  have 2: "list_all (\<lambda>(p, ms, now). p \<noteq> NaN \<and> int64_range (frame_interval b ms div 1000)) calls"
    using Cons.prems by simp
  show ?case by (simp add: c 1 Cons.IH [OF 2])
qed simp

text \<open>
  The calls of the public interface.  \<open>CmdThreadEnds\<close> is the end of the decoding thread.  A start is
  made on an open decoder only, as \<open>DecoderController::startDecodeInternal\<close> does.
\<close>

datatype db_cmd =
    CmdOpen codec_calls int Demuxer | CmdStart Demuxer | CmdStop | CmdPause | CmdResume | CmdClose | CmdThreadEnds

fun no_result :: "'r outcome \<times> 'e \<times> 's \<Rightarrow> unit outcome \<times> 'e \<times> 's" where
  "no_result (Ret _, e, b) = (Ret (), e, b)"
| "no_result (Wait, e, b) = (Wait, e, b)"
| "no_result (UB, e, b) = (UB, e, b)"

fun db_call ::
    "('a DecoderBase_scheme \<Rightarrow> bool \<times> 'a DecoderBase_scheme) \<Rightarrow> ('a DecoderBase_scheme \<Rightarrow> 'a DecoderBase_scheme)
      \<Rightarrow> frame_api \<Rightarrow> db_cmd \<Rightarrow> 'a DecoderBase_scheme \<Rightarrow> unit outcome \<times> decoder_event list \<times> 'a DecoderBase_scheme" where
  "db_call hwSetup hwRemove api (CmdOpen kc now d) b = no_result (DecoderBase_openInternal hwSetup hwRemove api kc now d b)"
| "db_call hwSetup hwRemove api (CmdStart d) b =
     (if db_isOpened b then DecoderBase_startInternal d b else (Ret (), [], b))"
| "db_call hwSetup hwRemove api CmdStop b = DecoderBase_stopInternal b"
| "db_call hwSetup hwRemove api CmdPause b = DecoderBase_pauseInternal b"
| "db_call hwSetup hwRemove api CmdResume b = DecoderBase_resumeInternal b"
| "db_call hwSetup hwRemove api CmdClose b = DecoderBase_closeInternal hwRemove b"
| "db_call hwSetup hwRemove api CmdThreadEnds b =
     (Ret (), [], b\<lparr>db_thread := map_option (\<lambda>t. t\<lparr>kt_pc := KP_Ended\<rparr>) (db_thread b)\<rparr>)"

fun db_calls ::
    "('a DecoderBase_scheme \<Rightarrow> bool \<times> 'a DecoderBase_scheme) \<Rightarrow> ('a DecoderBase_scheme \<Rightarrow> 'a DecoderBase_scheme)
      \<Rightarrow> frame_api \<Rightarrow> db_cmd list \<Rightarrow> 'a DecoderBase_scheme \<Rightarrow> unit outcome list \<times> decoder_event list \<times> 'a DecoderBase_scheme" where
  "db_calls hwSetup hwRemove api [] b = ([], [], b)"
| "db_calls hwSetup hwRemove api (c # cs) b =
     (let (r, es, b1) = db_call hwSetup hwRemove api c b; (rs, es2, b2) = db_calls hwSetup hwRemove api cs b1
      in (r # rs, es @ es2, b2))"

text \<open>A decoder that is started is open, and one that is open has a codec context and a frame queue that can
  be set up again.\<close>

definition db_inv :: "'a DecoderBase_scheme \<Rightarrow> bool" where
  "db_inv b \<longleftrightarrow> (db_isStarted b \<longrightarrow> db_isOpened b) \<and> (db_isOpened b \<longrightarrow> db_codecCtx b \<noteq> None)
     \<and> 0 \<le> fq_maxSize (db_frameQueue b)"

text \<open>A demuxer whose stream of the given type, when it has one, is a stream of its container.\<close>

definition demuxer_streams_ok :: "AVMediaType \<Rightarrow> Demuxer \<Rightarrow> bool" where
  "demuxer_streams_ok ty d \<longleftrightarrow>
     (case dm_formatContext d of None \<Rightarrow> True | Some fc \<Rightarrow> Demuxer_streamIndex ty d < int (length (fc_streams fc)))"

fun cmd_ok :: "AVMediaType \<Rightarrow> db_cmd \<Rightarrow> bool" where
  "cmd_ok ty (CmdOpen kc now d) \<longleftrightarrow> demuxer_streams_ok ty d"
| "cmd_ok ty _ \<longleftrightarrow> True"

fun event_type :: "decoder_event \<Rightarrow> EventType" where
  "event_type (DecoderEvent ty name i media hw description) = ty"

text \<open>The decoders reported as created and not yet reported as destroyed.\<close>

definition open_balance :: "decoder_event list \<Rightarrow> int" where
  "open_balance es = int (length (filter (\<lambda>e. event_type e = EV_kCreateDecoderSuccess) es))
     - int (length (filter (\<lambda>e. event_type e = EV_kDestoryDecoder) es))"

lemma open_balance_simps [simp]:
  "open_balance [] = 0"
  "open_balance (es @ es') = open_balance es + open_balance es'"
  "event_type e \<notin> {EV_kCreateDecoderSuccess, EV_kDestoryDecoder} \<Longrightarrow> open_balance [e] = 0"
  "event_type e = EV_kCreateDecoderSuccess \<Longrightarrow> open_balance [e] = 1"
  "event_type e = EV_kDestoryDecoder \<Longrightarrow> open_balance [e] = -1"
  by (auto simp: open_balance_def)

lemma event_type_own [simp]: "event_type (own_event ty name hw description b) = ty"
  "event_type (open_failed b) = EV_kCreateDecoderFailed"
  by (simp_all add: own_event_def open_failed_def)

text \<open>What every call keeps: the invariant, the type, and the balance of the events.\<close>

definition call_ok :: "'a DecoderBase_scheme \<Rightarrow> 'r outcome \<Rightarrow> decoder_event list \<Rightarrow> 'a DecoderBase_scheme \<Rightarrow> bool" where
  "call_ok b r es b' \<longleftrightarrow> r \<noteq> UB \<and> db_inv b' \<and> db_type b' = db_type b
     \<and> open_balance es = of_bool (db_isOpened b') - of_bool (db_isOpened b)"

subsection \<open>The contract of the derived classes\<close>

text \<open>
  What a derived class may do in the two calls it overrides: it keeps the codec context and leaves the
  life cycle and the frame queue alone.  Under this contract the null codec context is never read.
\<close>

locale decoder_class =
  fixes hwSetup :: "'a DecoderBase_scheme \<Rightarrow> bool \<times> 'a DecoderBase_scheme"
    and hwRemove :: "'a DecoderBase_scheme \<Rightarrow> 'a DecoderBase_scheme"
  assumes hwSetup_ctx: "db_codecCtx b = Some c \<Longrightarrow> \<exists>c'. db_codecCtx (snd (hwSetup b)) = Some c'"
    and hwSetup_keeps: "db_type (snd (hwSetup b)) = db_type b" "db_isOpened (snd (hwSetup b)) = db_isOpened b"
      "db_isStarted (snd (hwSetup b)) = db_isStarted b" "db_frameQueue (snd (hwSetup b)) = db_frameQueue b"
    and hwRemove_keeps: "db_type (hwRemove b) = db_type b" "db_isOpened (hwRemove b) = db_isOpened b"
      "db_isStarted (hwRemove b) = db_isStarted b" "db_frameQueue (hwRemove b) = db_frameQueue b"
begin

lemma hwSetup_Some: "\<exists>c'. db_codecCtx (snd (hwSetup (b\<lparr>db_codecCtx := Some c\<rparr>))) = Some c'"
  by (rule hwSetup_ctx) simp

lemma stop_keeps:
  assumes "db_inv b" "DecoderBase_stopInternal b = (r, es, b')"
  shows "call_ok b r es b' \<and> (r = Ret () \<longrightarrow> \<not> db_isStarted b') \<and> db_isOpened b' = db_isOpened b"
  using assms
  by (auto simp: DecoderBase_stopInternal_def codec_event_def db_inv_def call_ok_def Let_def FrameQueue_setAbortStatus_def
      split: if_splits option.splits)

lemma close_keeps:
  assumes "db_inv b" "DecoderBase_closeInternal hwRemove b = (r, es, b')"
  shows "call_ok b r es b' \<and> (r = Ret () \<longrightarrow> \<not> db_isStarted b' \<and> \<not> db_isOpened b')"
proof -
  obtain r1 es1 b1 where s: "DecoderBase_stopInternal b = (r1, es1, b1)" by (cases "DecoderBase_stopInternal b") auto
  from stop_keeps [OF assms(1) s] assms(2) s show ?thesis
    by (auto simp: DecoderBase_closeInternal_def Let_def db_inv_def call_ok_def hwRemove_keeps FrameQueue_uninit_def
        split: outcome.splits if_splits)
qed

lemma open_codec_keeps:
  assumes "db_inv b" "\<not> db_isOpened b" "demuxer_streams_ok (db_type b) d"
    and "open_codec hwSetup api kc now d b = (r, es, b')"
  shows "call_ok b r es b'"
  using assms
  by (auto simp: open_codec_def Let_def db_inv_def call_ok_def demuxer_streams_ok_def hwSetup_keeps FrameQueue_init_def
      FrameQueue_uninit_def split_beta hwSetup_Some
      split: option.splits if_splits prod.splits)

lemma open_keeps:
  assumes "db_inv b" "demuxer_streams_ok (db_type b) d"
    and "DecoderBase_openInternal hwSetup hwRemove api kc now d b = (r, es, b')"
  shows "call_ok b r es b'"
proof (cases "db_isOpened b")
  case True
  obtain r1 es1 b1 where c: "DecoderBase_closeInternal hwRemove b = (r1, es1, b1)"
    by (cases "DecoderBase_closeInternal hwRemove b") auto
  obtain r2 es2 b2 where o: "open_codec hwSetup api kc now d b1 = (r2, es2, b2)"
    by (cases "open_codec hwSetup api kc now d b1") auto
  from close_keeps [OF assms(1) c] have k: "call_ok b r1 es1 b1" "r1 = Ret () \<longrightarrow> \<not> db_isOpened b1" by auto
  show ?thesis
  proof (cases r1)
    case (Ret u)
    with k have "call_ok b1 r2 es2 b2"
      using assms(2) by (intro open_codec_keeps [OF _ _ _ o]) (auto simp: call_ok_def)
    with k Ret c o assms(3) True show ?thesis by (auto simp: DecoderBase_openInternal_def call_ok_def)
  qed (use k c assms(3) True in \<open>auto simp: DecoderBase_openInternal_def call_ok_def\<close>)
next
  case False
  then show ?thesis using assms open_codec_keeps by (simp add: DecoderBase_openInternal_def)
qed

lemma call_keeps:
  assumes "db_inv b" "cmd_ok (db_type b) c" "db_call hwSetup hwRemove api c b = (r, es, b')"
  shows "call_ok b r es b'"
proof (cases c)
  case (CmdOpen kc now d)
  obtain r1 where "DecoderBase_openInternal hwSetup hwRemove api kc now d b = (r1, es, b')"
    "r1 = UB \<longleftrightarrow> r = UB"
    using assms(3) CmdOpen by (cases "DecoderBase_openInternal hwSetup hwRemove api kc now d b"; cases "fst (DecoderBase_openInternal hwSetup hwRemove api kc now d b)") auto
  then show ?thesis using open_keeps [OF assms(1)] assms(2) CmdOpen by (auto simp: call_ok_def)
next
  case (CmdStart d)
  then show ?thesis using assms
    by (auto simp: DecoderBase_startInternal_def codec_event_def db_inv_def call_ok_def Let_def FrameQueue_setAbortStatus_def
        FrameQueue_setSerial_def split: if_splits option.splits)
next
  case CmdStop
  then show ?thesis using assms stop_keeps by auto
next
  case CmdPause
  then show ?thesis using assms
    by (auto simp: DecoderBase_pauseInternal_def codec_event_def db_inv_def call_ok_def Let_def split: if_splits option.splits)
next
  case CmdResume
  then show ?thesis using assms
    by (auto simp: DecoderBase_resumeInternal_def codec_event_def db_inv_def call_ok_def Let_def split: if_splits option.splits)
next
  case CmdClose
  then show ?thesis using assms close_keeps by auto
next
  case CmdThreadEnds
  then show ?thesis using assms by (auto simp: db_inv_def call_ok_def)
qed

lemma calls_keep:
  assumes "db_inv b" "list_all (cmd_ok (db_type b)) cs" "db_calls hwSetup hwRemove api cs b = (rs, es, b')"
  shows "UB \<notin> set rs \<and> db_inv b' \<and> open_balance es = of_bool (db_isOpened b') - of_bool (db_isOpened b)"
  using assms
proof (induction cs arbitrary: b rs es)
  case (Cons c cs)
  obtain r1 es1 b1 where c: "db_call hwSetup hwRemove api c b = (r1, es1, b1)"
    by (cases "db_call hwSetup hwRemove api c b") auto
  obtain rs2 es2 where s: "db_calls hwSetup hwRemove api cs b1 = (rs2, es2, b')"
    using Cons.prems(3) c by (cases "db_calls hwSetup hwRemove api cs b1") auto
  have k: "call_ok b r1 es1 b1" using Cons.prems(1,2) c by (intro call_keeps) auto
  then have "list_all (cmd_ok (db_type b1)) cs" using Cons.prems(2) by (simp add: call_ok_def)
  with Cons.IH [OF _ _ s] k have "UB \<notin> set rs2 \<and> db_inv b'
      \<and> open_balance es2 = of_bool (db_isOpened b') - of_bool (db_isOpened b1)"
    by (simp add: call_ok_def)
  with k c s Cons.prems(3) show ?case by (auto simp: call_ok_def)
qed simp

end

text \<open>The class's own overridable calls: software decoding.  The audio decoder keeps them.\<close>

definition DecoderBase_setupHardwareDecode :: "'a DecoderBase_scheme \<Rightarrow> bool \<times> 'a DecoderBase_scheme" where
  "DecoderBase_setupHardwareDecode b = (False, b)"

definition DecoderBase_removeHardwareDecode :: "'a DecoderBase_scheme \<Rightarrow> 'a DecoderBase_scheme" where
  "DecoderBase_removeHardwareDecode b = b"

interpretation base_hooks: decoder_class DecoderBase_setupHardwareDecode DecoderBase_removeHardwareDecode
  by unfold_locales (simp_all add: DecoderBase_setupHardwareDecode_def DecoderBase_removeHardwareDecode_def)


subsection \<open>Properties\<close>


definition sample_calls :: codec_calls where
  "sample_calls = \<lparr>kc_find_decoder = (\<lambda>_. Some (''aac'', 86018)), kc_alloc_context = True, kc_parameters = 0,
     kc_extradata = None, kc_sample_rate = 48000, kc_open2 = 0\<rparr>"

lemma sample_streams_ok: "demuxer_streams_ok AVMEDIA_TYPE_VIDEO sample_demuxer"
  by (simp add: demuxer_streams_ok_def Demuxer_streamIndex_def sample_demuxer_eq opened_state_def sample_open_def
      sample_config_def kVideo_def kAudio_def Demuxer_new_def Demuxer_start_def map_queues_def Let_def)

definition sample_cmds :: "db_cmd list" where
  "sample_cmds = [CmdOpen sample_calls 0 sample_demuxer, CmdStart sample_demuxer, CmdPause, CmdThreadEnds, CmdClose]"


text \<open>
  C40: the pacing of frames does not drift.  The first frame of a run is shown at once; every later frame
  is due at the time of the first one plus the sum of the intervals up to it (durations over speed, in whole
  microseconds), and its delay is the time left until then, whatever times the calls are made at.
\<close>

theorem calculateFrameDisplayTime_schedule:
  assumes "p0 \<noteq> NaN" "list_all (\<lambda>(p, ms, now). p \<noteq> NaN \<and> int64_range (frame_interval b ms div 1000)) calls"
  shows "paced b ((p0, d0, t0) # map (\<lambda>(p, ms, now). (p, Fin ms, now)) calls) None
    = (Ret (Fin 0) # map2 (\<lambda>(p, ms, now) due. Ret (Fin (of_int (trunc_to_int (of_int (due - now) / 1000)) / 1000))) calls
         (schedule b t0 (map (fst \<circ> snd) calls)),
       Some (t0 + sum_list (map (\<lambda>(p, ms, now). frame_interval b ms) calls)))"
proof -
  have "DecoderBase_calculateFrameDisplayTime p0 d0 t0 None b = (Ret (Fin 0), Some t0)"
    using assms(1) by (simp add: DecoderBase_calculateFrameDisplayTime_def isnan_def Let_def)
  then show ?thesis by (simp add: paced_schedule [OF assms(2)])
qed

theorem calculateFrameDisplayTime_schedule_witness:
  "paced (DecoderBase_new 0 AVMEDIA_TYPE_VIDEO)
      [(Fin 0, Fin 40, 1000), (Fin 1, Fin 40, 50000000), (Fin 2, Fin 40, 60000000)] None
    = ([Ret (Fin 0), Ret (Fin (- 9999 / 1000)), Ret (Fin (20001 / 1000))], Some 80001000)"
proof -
  let ?b = "DecoderBase_new 0 AVMEDIA_TYPE_VIDEO"
  have i: "frame_interval ?b 40 = 40000000"
    by (simp add: frame_interval_def DecoderBase_new_def trunc_to_int_def)
  show ?thesis
    using calculateFrameDisplayTime_schedule [of "Fin 0" ?b "[(Fin 1, 40, 50000000), (Fin 2, 40, 60000000)]" "Fin 40" 1000]
    by (simp add: i int64_range_def trunc_to_int_def)
qed

lemma setSpeed_NaN: "DecoderBase_setSpeed NaN b = (UB, b)"
  by (simp add: DecoderBase_setSpeed_def d_le_def utils_greater_def)

text \<open>
  the playback speed of a decoder.  A number is accepted exactly when it is above zero and at most 64
  (up to the tolerance of the comparison); the speed then read back is the number cut to thousandths, so that
  a speed below 0.001 reads back as 0, which the pacing treats as 1.  A refused speed changes nothing, a speed that is
  not a number is undefined behaviour.
\<close>

theorem DecoderBase_setSpeed_accepts:
  "DecoderBase_setSpeed NaN b = (UB, b)
   \<and> (if 0 < x \<and> x \<le> 64 + 1 / 10 ^ 12
      then \<exists>b'. DecoderBase_setSpeed (Fin x) b = (Ret True, b') \<and> DecoderBase_speed b' = Fin (of_int \<lfloor>x * 1000\<rfloor> / 1000)
         \<and> (x < 1 / 1000 \<longleftrightarrow> DecoderBase_speed b' = Fin 0)
         \<and> (x < 1 / 1000 \<longrightarrow> frame_interval b' ms = trunc_to_int (ms * 1000) * 1000)
      else DecoderBase_setSpeed (Fin x) b = (Ret False, b))"
proof (cases "0 < x \<and> x \<le> 64 + 1 / 10 ^ 12")
  case True
  let ?n = "\<lfloor>x * 1000\<rfloor>"
  have n: "0 \<le> ?n" "?n < 2 ^ 16" and t: "trunc_to_int (x * 1000) = ?n"
    using True by (auto simp: trunc_to_int_def floor_less_iff)
  let ?b = "b\<lparr>db_speed := word_of_int ?n\<rparr>"
  have e: "DecoderBase_setSpeed (Fin x) b = (Ret True, ?b)"
    using True n t by (simp add: DecoderBase_setSpeed_def DOUBLEEPSILON_def)
  have "uint (word_of_int ?n :: u16) = ?n" using n by (simp add: uint_word_of_int)
  then have u: "real (unat (word_of_int ?n :: u16)) = of_int ?n" by (metis uint_nat of_int_of_nat_eq)
  have v: "DecoderBase_speed ?b = Fin (of_int ?n / 1000)" by (simp add: speed_simps(1) u del: of_nat_unat)
  have z: "x < 1 / 1000 \<longleftrightarrow> ?n = 0" using True by (auto simp: floor_eq_iff)
  have "db_speed ?b = 0" if "?n = 0" using that by simp
  with z have "x < 1 / 1000 \<longrightarrow> frame_interval ?b ms = trunc_to_int (ms * 1000) * 1000"
    by (simp add: frame_interval_def)
  moreover have "x < 1 / 1000 \<longleftrightarrow> DecoderBase_speed ?b = Fin 0" unfolding v z by simp
  ultimately have "\<exists>b'. DecoderBase_setSpeed (Fin x) b = (Ret True, b')
      \<and> DecoderBase_speed b' = Fin (of_int \<lfloor>x * 1000\<rfloor> / 1000)
      \<and> (x < 1 / 1000 \<longleftrightarrow> DecoderBase_speed b' = Fin 0)
      \<and> (x < 1 / 1000 \<longrightarrow> frame_interval b' ms = trunc_to_int (ms * 1000) * 1000)"
    using e v by blast
  with True setSpeed_NaN show ?thesis by simp
next
  case False
  then have "DecoderBase_setSpeed (Fin x) b = (Ret False, b)"
    by (auto simp: DecoderBase_setSpeed_def DOUBLEEPSILON_def)
  with False setSpeed_NaN show ?thesis by simp
qed

theorem DecoderBase_setSpeed_accepts_witness:
  "frame_interval (snd (DecoderBase_setSpeed (Fin (1 / 2000)) (DecoderBase_new 0 AVMEDIA_TYPE_VIDEO))) 40 = 40000000"
  using DecoderBase_setSpeed_accepts [of "DecoderBase_new 0 AVMEDIA_TYPE_VIDEO" "1 / 2000" 40]
  by (auto simp: trunc_to_int_def)

end
