(* ===== verification/DecodeLoops.thy ===== *)
theory DecodeLoops
  imports DecoderBases
begin

text \<open>
  What the decoding loops of the two decoders share (\<open>decodeLoop\<close> in
  \<open>src/src/decoder/video_decoder.cpp\<close> and \<open>audio_decoder.cpp\<close>): the start, the head of the
  loop with the check of the serial number, taking a packet, the drop of frames before a seek target,
  and the two steps that put a frame into the frame queue.

  The thread advances in turns; between two turns the other threads may run: the demuxer pushes and
  flushes packets, the consumer takes frames, the controller pauses, seeks and stops.  A turn ends where the code
  waits or where another thread can make a difference.  The results of FFmpeg's calls and the
  time are arguments of a turn.  \<open>Wait\<close> is a turn that cannot be made yet.  The packet queue is
  the one the demuxer has for the type of the decoder.
\<close>

definition AVERROR_UNKNOWN :: int where "AVERROR_UNKNOWN = -1313558101"
definition AVERROR_INVALIDDATA :: int where "AVERROR_INVALIDDATA = -1094995529"

record decode_calls =
  dc_now :: int
  dc_guess_frame_rate :: AVRational
  dc_send_packet :: "av_packet \<Rightarrow> int"
  dc_receive_frame :: "int \<times> av_frame"

text \<open>A decoder with the objects it works on, and the events sent so far.\<close>

record 'b decode_env =
  de_demuxer :: Demuxer
  de_sync :: StreamSyncManager
  de_dec :: 'b
  de_events :: "decoder_event list"

type_synonym update_clock = "int \<Rightarrow> double \<Rightarrow> int \<Rightarrow> StreamSyncManager \<Rightarrow> StreamSyncManager"

definition jump :: "decode_pc \<Rightarrow> decode_thread \<Rightarrow> 'a DecoderBase_scheme decode_env \<Rightarrow> 'a DecoderBase_scheme decode_env" where
  "jump pc t e = e\<lparr>de_dec := (de_dec e)\<lparr>db_thread := Some (t\<lparr>kt_pc := pc\<rparr>)\<rparr>\<rparr>"

definition send_event :: "decoder_event outcome \<Rightarrow> 'b decode_env \<Rightarrow> unit outcome \<times> 'b decode_env" where
  "send_event ev e =
     (case ev of Ret x \<Rightarrow> (Ret (), e\<lparr>de_events := de_events e @ [x]\<rparr>) | Wait \<Rightarrow> (Wait, e) | UB \<Rightarrow> (UB, e))"

definition and_then :: "unit outcome \<times> 'e \<Rightarrow> ('e \<Rightarrow> unit outcome \<times> 'e) \<Rightarrow> unit outcome \<times> 'e" where
  "and_then r k = (case r of (Ret _, e) \<Rightarrow> k e | (Wait, e) \<Rightarrow> (Wait, e) | (UB, e) \<Rightarrow> (UB, e))"

definition report_error ::
    "string \<Rightarrow> MediaType \<Rightarrow> int \<Rightarrow> string \<Rightarrow> 'a DecoderBase_scheme decode_env
      \<Rightarrow> bool outcome \<times> 'a DecoderBase_scheme decode_env" where
  "report_error name media errorCode description e =
     (case DecoderBase_handleDecodeError name media errorCode description (de_dec e) of
        (r, evs, b) \<Rightarrow> (r, e\<lparr>de_dec := b, de_events := de_events e @ evs\<rparr>))"

definition loop_end :: "int \<Rightarrow> decode_thread \<Rightarrow> 'a DecoderBase_scheme decode_env \<Rightarrow> 'a DecoderBase_scheme decode_env" where
  "loop_end now t e = jump KP_Ended t (e\<lparr>de_dec := DecoderBase_updateTotalDecodeTime now (de_dec e)\<rparr>)"

definition env_queue :: "'a DecoderBase_scheme decode_env \<Rightarrow> PacketQueue option" where
  "env_queue e = Demuxer_packetQueue (db_type (de_dec e)) (de_demuxer e)"

text \<open>Before the loop: \<open>init\<close> sets the remaining local variables.\<close>

definition loop_start ::
    "int \<Rightarrow> string \<Rightarrow> MediaType \<Rightarrow> update_clock \<Rightarrow> decode_thread \<Rightarrow> 'a DecoderBase_scheme decode_env
      \<Rightarrow> unit outcome \<times> 'a DecoderBase_scheme decode_env" where
  "loop_start now name media updateClock t e =
     (case env_queue e of
        None \<Rightarrow> (case report_error name media AVERROR_UNKNOWN ''Can not find packet queue from demuxer!'' e of
                   (Ret _, e1) \<Rightarrow> (Ret (), jump KP_Ended t e1)
                 | (Wait, e1) \<Rightarrow> (Wait, e1) | (UB, e1) \<Rightarrow> (UB, e1))
      | Some q \<Rightarrow>
          let serial = PacketQueue_serial q;
              e1 = e\<lparr>de_sync := updateClock now (Fin 0) (sint serial) (de_sync e),
                     de_dec := DecoderBase_resetStatistics now (de_dec e),
                     de_demuxer := (if Demuxer_isRealTime (de_demuxer e)
                                    then set_queue (db_type (de_dec e)) (PacketQueue_flush q) (de_demuxer e)
                                    else de_demuxer e)\<rparr>
          in (Ret (), jump KP_Loop (t\<lparr>kt_serial := serial, kt_hasKeyFrame := False, kt_readFirstFrame := False,
                                      kt_occuredError := False, kt_errorStartTime := None\<rparr>) e1))"

text \<open>The head of the loop.  Waiting for the pre-buffer is a turn that changes nothing.\<close>

definition loop_head ::
    "int \<Rightarrow> update_clock \<Rightarrow> decode_thread \<Rightarrow> 'a DecoderBase_scheme decode_env \<Rightarrow> unit outcome \<times> 'a DecoderBase_scheme decode_env" where
  "loop_head now updateClock t e =
     (let b = de_dec e
      in if db_requestInterruption b then (Ret (), loop_end now t e)
         else if db_waitingForPreBuffer b then (Ret (), e)
         else if db_isPaused b then (Ret (), jump KP_Paused t e)
         else case env_queue e of
                None \<Rightarrow> (Wait, e)
              | Some q \<Rightarrow>
                  (case DecoderBase_checkAndUpdateSerial (kt_serial t) q b of
                     (changed, serial, b1) \<Rightarrow>
                       if changed
                       then (Ret (), jump KP_Pop (t\<lparr>kt_serial := serial, kt_hasKeyFrame := False\<rparr>)
                              (e\<lparr>de_sync := updateClock now (Fin 0) (sint serial) (de_sync e),
                                 de_dec := b1\<lparr>db_lastFrameTime := None,
                                              db_demuxerSeeking := atomic_set (db_demuxerSeeking b1) False\<rparr>\<rparr>))
                       else (Ret (), jump KP_Pop t e)))"

text \<open>Taking a packet: the end of the turn, or a packet of the current serial number.  The timeout of the wait
  has run out when there is none.\<close>

definition loop_pop ::
    "int \<Rightarrow> decode_thread \<Rightarrow> 'a DecoderBase_scheme decode_env
      \<Rightarrow> (unit outcome \<times> 'a DecoderBase_scheme decode_env) + (Packet \<times> 'a DecoderBase_scheme decode_env)" where
  "loop_pop now t e =
     (case env_queue e of
        None \<Rightarrow> Inl (Wait, e)
      | Some q \<Rightarrow>
          (case PacketQueue_pop 1 True q of
             (Ret (Some packet), q1) \<Rightarrow>
               let e1 = e\<lparr>de_demuxer := set_queue (db_type (de_dec e)) q1 (de_demuxer e)\<rparr>
               in if Packet_serial packet \<noteq> kt_serial t then Inl (Ret (), jump KP_Loop t e1) else Inr (packet, e1)
           | (Ret None, q1) \<Rightarrow>
               if PacketQueue_isAborted q1 then Inl (Ret (), loop_end now t e) else Inl (Ret (), jump KP_Loop t e)
           | (Wait, _) \<Rightarrow> Inl (Wait, e)
           | (UB, _) \<Rightarrow> Inl (UB, e)))"

text \<open>Whether a frame is dropped because of a seek; the first frame that is not dropped clears the target.\<close>

definition seek_drop :: "double \<Rightarrow> 'a DecoderBase_scheme \<Rightarrow> bool \<times> 'a DecoderBase_scheme" where
  "seek_drop pts b =
     (if db_demuxerSeeking b then (True, b)
      else let targetPos = DecoderBase_seekPos b
           in if utils_greater targetPos (Fin 0) DOUBLEEPSILON
              then if \<not> utils_greaterAndEqual pts targetPos DOUBLEEPSILON then (True, b)
                   else (False, b\<lparr>db_seekPosMs := atomic_set (db_seekPosMs b) (-1)\<rparr>)
              else (False, b))"

text \<open>The events for a frame that is kept: the first frame, and the recovery after an error.\<close>

definition frame_events ::
    "string \<Rightarrow> MediaType \<Rightarrow> decode_thread \<Rightarrow> 'a DecoderBase_scheme decode_env
      \<Rightarrow> unit outcome \<times> 'a DecoderBase_scheme decode_env" where
  "frame_events name media t e =
     and_then (if kt_readFirstFrame t then (Ret (), e)
               else send_event (DecoderBase_handleFirstFrame name media ''First frame ready!'' (de_dec e)) e)
       (\<lambda>e1. if kt_occuredError t then send_event (DecoderBase_handleDecodeRecovery name media ''Decoder Recovery!'' (de_dec e1)) e1
             else (Ret (), e1))"

definition frame_seen :: "decode_thread \<Rightarrow> decode_thread" where
  "frame_seen t = (if kt_readFirstFrame t then t else t\<lparr>kt_readFirstFrame := True, kt_errorStartTime := None\<rparr>)
     \<lparr>kt_occuredError := False\<rparr>"

text \<open>A slot of the frame queue, filled by \<open>fill\<close>.\<close>

definition fill_slot ::
    "(Frame \<Rightarrow> Frame) \<Rightarrow> Frame \<Rightarrow> 'a DecoderBase_scheme \<Rightarrow> int option outcome \<times> 'a DecoderBase_scheme" where
  "fill_slot fill outputFrame b =
     (case FrameQueue_getWritableFrame (-1) False (db_frameQueue b) of
        (Ret (Some i), q) \<Rightarrow>
          (Ret (Some i), b\<lparr>db_frameQueue :=
             FrameQueue_write i (fill (fst (Frame_move_assign (fq_slot q i) outputFrame))) q\<rparr>)
      | (r, q) \<Rightarrow> (r, b\<lparr>db_frameQueue := q\<rparr>))"

text \<open>The sleep until a delay in milliseconds has passed: the conversion of the delay may be undefined.\<close>

definition sleep_ok :: "double \<Rightarrow> bool" where
  "sleep_ok delay \<longleftrightarrow> \<not> utils_greater delay (Fin 0) DOUBLEEPSILON
     \<or> (case delay of Fin x \<Rightarrow> int64_range (trunc_to_int x) | _ \<Rightarrow> False)"

definition loop_commit ::
    "int \<Rightarrow> decode_thread \<Rightarrow> 'a DecoderBase_scheme decode_env \<Rightarrow> unit outcome \<times> 'a DecoderBase_scheme decode_env" where
  "loop_commit now t e =
     (case FrameQueue_commitFrame (db_frameQueue (de_dec e)) of
        (Ret _, q) \<Rightarrow>
          let st = db_statistics (de_dec e);
              n = ds_framesDecoded st + 1;
              b1 = (de_dec e)\<lparr>db_frameQueue := q, db_statistics := st\<lparr>ds_framesDecoded := n\<rparr>\<rparr>;
              b2 = (if n mod 100 = 0 then DecoderBase_updateTotalDecodeTime now b1 else b1)
          in (Ret (), jump KP_Receive t (e\<lparr>de_dec := b2\<rparr>))
      | (Wait, _) \<Rightarrow> (Wait, e)
      | (UB, _) \<Rightarrow> (UB, e))"


subsection \<open>Lemmas\<close>

named_theorems env_simps

lemma jump_sel [simp, env_simps]:
  "de_demuxer (jump pc t e) = de_demuxer e" "de_sync (jump pc t e) = de_sync e" "de_events (jump pc t e) = de_events e"
  "de_dec (jump pc t e) = (de_dec e)\<lparr>db_thread := Some (t\<lparr>kt_pc := pc\<rparr>)\<rparr>"
  by (simp_all add: jump_def)

lemma env_queue_simps [simp, env_simps]:
  "env_queue (jump pc t e) = env_queue e"
  "env_queue (e\<lparr>de_sync := m\<rparr>) = env_queue e"
  "env_queue (e\<lparr>de_events := es\<rparr>) = env_queue e"
  "db_type b = db_type (de_dec e) \<Longrightarrow> env_queue (e\<lparr>de_dec := b\<rparr>) = env_queue e"
  "db_type (de_dec e) = ty \<Longrightarrow> ty = AVMEDIA_TYPE_VIDEO \<or> ty = AVMEDIA_TYPE_AUDIO
    \<Longrightarrow> env_queue (e\<lparr>de_demuxer := set_queue ty q d\<rparr>) = Some q"
  by (auto simp: env_queue_def jump_def set_queue_def Demuxer_packetQueue_def)

lemma loop_end_sel [simp, env_simps]:
  "de_demuxer (loop_end now t e) = de_demuxer e" "de_sync (loop_end now t e) = de_sync e"
  "de_events (loop_end now t e) = de_events e"
  "de_dec (loop_end now t e) = (DecoderBase_updateTotalDecodeTime now (de_dec e))\<lparr>db_thread := Some (t\<lparr>kt_pc := KP_Ended\<rparr>)\<rparr>"
  by (simp_all add: loop_end_def)

lemma updateTotal_sel [simp, env_simps]:
  "db_type (DecoderBase_updateTotalDecodeTime now b) = db_type b"
  "db_demuxerSeeking (DecoderBase_updateTotalDecodeTime now b) = db_demuxerSeeking b"
  "db_frameQueue (DecoderBase_updateTotalDecodeTime now b) = db_frameQueue b"
  "db_codecCtx (DecoderBase_updateTotalDecodeTime now b) = db_codecCtx b"
  "db_isStarted (DecoderBase_updateTotalDecodeTime now b) = db_isStarted b"
  "db_isOpened (DecoderBase_updateTotalDecodeTime now b) = db_isOpened b"
  by (simp_all add: DecoderBase_updateTotalDecodeTime_def)

lemma loop_end_queue [simp]: "env_queue (loop_end now t e) = env_queue e"
  by (simp add: loop_end_def)

lemma pop_serial: "PacketQueue_pop n expired q = (r, q') \<Longrightarrow> pq_serial q' = pq_serial q"
  by (auto simp: PacketQueue_pop_def PacketQueue_updateStatisticsOnPop_def Let_def split: if_splits list.splits)

lemma report_error_sel:
  assumes "report_error name media code description e = (r, e')"
  shows "de_demuxer e' = de_demuxer e \<and> db_type (de_dec e') = db_type (de_dec e)
    \<and> db_demuxerSeeking (de_dec e') = db_demuxerSeeking (de_dec e) \<and> db_frameQueue (de_dec e') = db_frameQueue (de_dec e)
    \<and> db_thread (de_dec e') = db_thread (de_dec e) \<and> db_seekPosMs (de_dec e') = db_seekPosMs (de_dec e)"
  using assms
  by (auto simp: report_error_def DecoderBase_handleDecodeError_def decoder_event_def Let_def
      split: if_splits option.splits)

text \<open>A target position is in force exactly when it is a positive number of milliseconds.\<close>

lemma target_iff: "utils_greater (DecoderBase_seekPos b) (Fin 0) DOUBLEEPSILON \<longleftrightarrow> 0 < db_seekPosMs b"
proof -
  have "(1 :: real) / 10 ^ 12 < of_int n * (1 / 1000)" if "0 < n" for n :: int
  proof -
    have "(1 :: real) \<le> of_int n" using that by simp
    then show ?thesis by simp
  qed
  then show ?thesis
    by (auto simp: DecoderBase_seekPos_def DOUBLEEPSILON_def)
qed

lemma ge_target:
  assumes "utils_greaterAndEqual pts (Fin x) DOUBLEEPSILON"
  shows "pts = PInf \<or> (\<exists>p. pts = Fin p \<and> x - 1 / 10 ^ 12 < p)"
proof (cases pts)
  case (Fin p)
  with assms have "x < p \<or> \<bar>p - x\<bar> < 1 / 10 ^ 12"
    by (auto simp: utils_greaterAndEqual_def DOUBLEEPSILON_def)
  moreover have "x - 1 / 10 ^ 12 < p" if "x < p" using that by simp
  ultimately have "x - 1 / 10 ^ 12 < p" by linarith
  with Fin show ?thesis by blast
qed (use assms in \<open>auto simp: utils_greaterAndEqual_def utils_greater_def utils_equal_def DOUBLEEPSILON_def d_sub_def d_abs_def\<close>)

lemma seek_drop_kept:
  assumes "seek_drop pts b = (False, b')"
  shows "\<not> db_demuxerSeeking b
    \<and> (if 0 < db_seekPosMs b
       then b' = b\<lparr>db_seekPosMs := -1\<rparr> \<and> (pts = PInf \<or> (\<exists>p. pts = Fin p \<and> of_int (db_seekPosMs b) / 1000 - 1 / 10 ^ 12 < p))
       else b' = b)"
  using assms target_iff [of b] ge_target [of pts "of_int (db_seekPosMs b) * (1 / 1000)"]
  by (auto simp: seek_drop_def Let_def DecoderBase_seekPos_def split: if_splits)

lemma seek_drop_seeking: "db_demuxerSeeking b \<Longrightarrow> seek_drop pts b = (True, b)"
  by (simp add: seek_drop_def)


text \<open>What the other threads may do to a decoder while the serial number of its packet queue stays the same:
  push and take packets, take frames, pause and resume.\<close>

inductive other_step :: "frame_api \<Rightarrow> 'a DecoderBase_scheme decode_env \<Rightarrow> 'a DecoderBase_scheme decode_env \<Rightarrow> bool" for api where
  packets: "env_queue e = Some q \<Longrightarrow> pq_serial q' = pq_serial q \<Longrightarrow>
    other_step api e (e\<lparr>de_demuxer := set_queue (db_type (de_dec e)) q' (de_demuxer e)\<rparr>)"
| take_frame: "FrameQueue_pop api n expired (db_frameQueue (de_dec e)) = (Ret r, fq) \<Longrightarrow>
    other_step api e (e\<lparr>de_dec := (de_dec e)\<lparr>db_frameQueue := fq\<rparr>\<rparr>)"
| pause: "other_step api e (e\<lparr>de_dec := (de_dec e)\<lparr>db_isPaused := p\<rparr>\<rparr>)"

inductive_cases other_stepE: "other_step api e e'"

end
