(* ===== verification/HardwareAccels.thy ===== *)
theory HardwareAccels
  imports Frames
begin

text \<open>
  Classes \<open>HardwareAccel\<close> and \<open>HardwareAccelFactory\<close> (\<open>src/src/decoder/hardware_accel.h\<close>,
  \<open>hardware_accel.cpp\<close>): the detection of hardware devices, the choice of one, the context
  it is used through, and the transfer of frames.

  The hardware functions of FFmpeg, the user's callback and the macros that select the parts of the
  file that are compiled are the parameter \<open>hw_calls\<close>.  A buffer reference is only known to be
  null or not.  \<open>hwAccelMap_\<close> maps the addresses of codec contexts to those of accelerators,
  here numbers.  The reference counting of the user's devices is left out.
\<close>

type_synonym AVHWDeviceType = int

abbreviation (input) "AV_HWDEVICE_TYPE_NONE \<equiv> (0 :: AVHWDeviceType)"
abbreviation (input) "AV_HWDEVICE_TYPE_VDPAU \<equiv> (1 :: AVHWDeviceType)"
abbreviation (input) "AV_HWDEVICE_TYPE_CUDA \<equiv> (2 :: AVHWDeviceType)"
abbreviation (input) "AV_HWDEVICE_TYPE_VAAPI \<equiv> (3 :: AVHWDeviceType)"
abbreviation (input) "AV_HWDEVICE_TYPE_DXVA2 \<equiv> (4 :: AVHWDeviceType)"
abbreviation (input) "AV_HWDEVICE_TYPE_QSV \<equiv> (5 :: AVHWDeviceType)"
abbreviation (input) "AV_HWDEVICE_TYPE_VIDEOTOOLBOX \<equiv> (6 :: AVHWDeviceType)"
abbreviation (input) "AV_HWDEVICE_TYPE_D3D11VA \<equiv> (7 :: AVHWDeviceType)"

text \<open>What the user's callback does: it throws, or gives a pointer that may be null.\<close>

datatype user_context = Throws | NullContext | UserContext

record hw_calls =
  hc_types :: "AVHWDeviceType list"
  hc_type_name :: "AVHWDeviceType \<Rightarrow> string"
  hc_probe :: "AVHWDeviceType \<Rightarrow> int"
  hc_frames_alloc :: "AVHWDeviceType \<Rightarrow> bool"
  hc_frames_init :: "AVHWDeviceType \<Rightarrow> int"
  hc_constraints :: "AVHWDeviceType \<Rightarrow> AVPixelFormat list option"
  hc_create :: "AVHWDeviceType \<Rightarrow> string \<Rightarrow> int"
  hc_callback :: "(HWAccelType \<Rightarrow> user_context) option"
  hc_compiled :: "AVHWDeviceType \<Rightarrow> bool"
  hc_query_interface :: bool
  hc_device_alloc :: bool
  hc_device_init :: int
  hc_buffer_ref :: bool

record HWAccelInfo =
  hi_type :: HWAccelType
  hi_name :: string
  hi_description :: string
  hi_available :: bool
  hi_hwFormat :: "ImageFormat option"
  hi_swFormats :: "ImageFormat list"

record HardwareAccel =
  ha_type :: HWAccelType
  ha_hwDeviceCtx :: bool
  ha_hwPixFmt :: AVPixelFormat
  ha_initialized :: bool
  ha_isUserContext :: bool
  ha_deviceIndex :: int

definition HardwareAccel_new :: HardwareAccel where
  "HardwareAccel_new = \<lparr>ha_type = HW_kNone, ha_hwDeviceCtx = False, ha_hwPixFmt = AV_PIX_FMT_NONE,
     ha_initialized = False, ha_isUserContext = False, ha_deviceIndex = 0\<rparr>"

subsection \<open>Names and types\<close>

fun getHWAccelTypeName :: "HWAccelType \<Rightarrow> string" where
  "getHWAccelTypeName HW_kNone = ''None''"
| "getHWAccelTypeName HW_kAuto = ''Auto''"
| "getHWAccelTypeName HW_kDxva2 = ''DXVA2''"
| "getHWAccelTypeName HW_kD3d11va = ''D3D11VA''"
| "getHWAccelTypeName HW_kCuda = ''CUDA''"
| "getHWAccelTypeName HW_kVaapi = ''VAAPI''"
| "getHWAccelTypeName HW_kVdpau = ''VDPAU''"
| "getHWAccelTypeName HW_kQsv = ''QSV''"
| "getHWAccelTypeName HW_kVideoToolBox = ''VideoToolbox''"

fun getHWAccelTypeDescription :: "HWAccelType \<Rightarrow> string" where
  "getHWAccelTypeDescription HW_kNone = ''No hardware acceleration''"
| "getHWAccelTypeDescription HW_kAuto = ''Automatically select hardware acceleration''"
| "getHWAccelTypeDescription HW_kDxva2 = ''DirectX Video Acceleration 2.0''"
| "getHWAccelTypeDescription HW_kD3d11va = ''Direct3D 11 Video Acceleration''"
| "getHWAccelTypeDescription HW_kCuda = ''NVIDIA CUDA''"
| "getHWAccelTypeDescription HW_kVaapi = ''Video Acceleration API (Linux)''"
| "getHWAccelTypeDescription HW_kVdpau = ''Video Decode and Presentation API for Unix (Linux)''"
| "getHWAccelTypeDescription HW_kQsv = ''Intel Quick Sync Video''"
| "getHWAccelTypeDescription HW_kVideoToolBox = ''Apple VideoToolbox (macOS/iOS)''"

definition fromAVHWDeviceType :: "AVHWDeviceType \<Rightarrow> HWAccelType" where
  "fromAVHWDeviceType avType =
     (if avType = AV_HWDEVICE_TYPE_NONE then HW_kNone
      else if avType = AV_HWDEVICE_TYPE_DXVA2 then HW_kDxva2
      else if avType = AV_HWDEVICE_TYPE_D3D11VA then HW_kD3d11va
      else if avType = AV_HWDEVICE_TYPE_CUDA then HW_kCuda
      else if avType = AV_HWDEVICE_TYPE_VAAPI then HW_kVaapi
      else if avType = AV_HWDEVICE_TYPE_VDPAU then HW_kVdpau
      else if avType = AV_HWDEVICE_TYPE_QSV then HW_kQsv
      else if avType = AV_HWDEVICE_TYPE_VIDEOTOOLBOX then HW_kVideoToolBox
      else HW_kNone)"

fun toAVHWDeviceType :: "HWAccelType \<Rightarrow> AVHWDeviceType" where
  "toAVHWDeviceType HW_kNone = AV_HWDEVICE_TYPE_NONE"
| "toAVHWDeviceType HW_kDxva2 = AV_HWDEVICE_TYPE_DXVA2"
| "toAVHWDeviceType HW_kD3d11va = AV_HWDEVICE_TYPE_D3D11VA"
| "toAVHWDeviceType HW_kCuda = AV_HWDEVICE_TYPE_CUDA"
| "toAVHWDeviceType HW_kVaapi = AV_HWDEVICE_TYPE_VAAPI"
| "toAVHWDeviceType HW_kVdpau = AV_HWDEVICE_TYPE_VDPAU"
| "toAVHWDeviceType HW_kQsv = AV_HWDEVICE_TYPE_QSV"
| "toAVHWDeviceType HW_kVideoToolBox = AV_HWDEVICE_TYPE_VIDEOTOOLBOX"
| "toAVHWDeviceType HW_kAuto = AV_HWDEVICE_TYPE_NONE"

definition getHWPixelFormatForDevice :: "AVHWDeviceType \<Rightarrow> AVPixelFormat" where
  "getHWPixelFormatForDevice deviceType =
     (if deviceType = AV_HWDEVICE_TYPE_DXVA2 then AV_PIX_FMT_DXVA2_VLD
      else if deviceType = AV_HWDEVICE_TYPE_D3D11VA then AV_PIX_FMT_D3D11
      else if deviceType = AV_HWDEVICE_TYPE_CUDA then AV_PIX_FMT_CUDA
      else if deviceType = AV_HWDEVICE_TYPE_VAAPI then AV_PIX_FMT_VAAPI
      else if deviceType = AV_HWDEVICE_TYPE_VDPAU then AV_PIX_FMT_VDPAU
      else if deviceType = AV_HWDEVICE_TYPE_QSV then AV_PIX_FMT_QSV
      else if deviceType = AV_HWDEVICE_TYPE_VIDEOTOOLBOX then AV_PIX_FMT_VIDEOTOOLBOX
      else AV_PIX_FMT_NONE)"

definition HardwareAccel_getDeviceName :: "HardwareAccel \<Rightarrow> string" where
  "HardwareAccel_getDeviceName a = getHWAccelTypeName (ha_type a)"

definition HardwareAccel_getDeviceDescription :: "HardwareAccel \<Rightarrow> string" where
  "HardwareAccel_getDeviceDescription a = getHWAccelTypeDescription (ha_type a)"

definition HardwareAccel_getDeviceIndex :: "HardwareAccel \<Rightarrow> int" where
  "HardwareAccel_getDeviceIndex a = ha_deviceIndex a"

definition HardwareAccel_getType :: "HardwareAccel \<Rightarrow> HWAccelType" where
  "HardwareAccel_getType a = ha_type a"

subsection \<open>Detection\<close>

text \<open>What is found out about one device type; the pixel formats of a device that is not available stay
  uninitialised (\<open>None\<close>).\<close>

definition probe_info :: "hw_calls \<Rightarrow> AVHWDeviceType \<Rightarrow> HWAccelInfo" where
  "probe_info hc t =
     (let available = hc_probe hc t \<ge> 0;
          hwPixelFormat = getHWPixelFormatForDevice t;
          formats = (if available \<and> hwPixelFormat \<noteq> AV_PIX_FMT_NONE \<and> hc_frames_alloc hc t \<and> hc_frames_init hc t \<ge> 0
                     then (case hc_constraints hc t of
                             None \<Rightarrow> []
                           | Some ps \<Rightarrow> map avPixelFormat2ImageFormat (takeWhile (\<lambda>p. p \<noteq> AV_PIX_FMT_NONE) ps))
                     else [])
      in \<lparr>hi_type = fromAVHWDeviceType t, hi_name = hc_type_name hc t,
          hi_description = getHWAccelTypeDescription (fromAVHWDeviceType t), hi_available = available,
          hi_hwFormat = (if available then Some (avPixelFormat2ImageFormat hwPixelFormat) else None),
          hi_swFormats = formats\<rparr>)"

definition getSupportedHWAccelTypes :: "hw_calls \<Rightarrow> HWAccelInfo list" where
  "getSupportedHWAccelTypes hc =
     map (probe_info hc) (filter (\<lambda>t. fromAVHWDeviceType t \<noteq> HW_kNone)
       (takeWhile (\<lambda>t. t \<noteq> AV_HWDEVICE_TYPE_NONE) (hc_types hc)))"

definition isAvailableHWAccelType :: "hw_calls \<Rightarrow> HWAccelType \<Rightarrow> bool" where
  "isAvailableHWAccelType hc type =
     (List.find (\<lambda>info. hi_available info \<and> hi_type info = type) (getSupportedHWAccelTypes hc) \<noteq> None)"

definition hw_priorityList :: "AVHWDeviceType list" where
  "hw_priorityList = [AV_HWDEVICE_TYPE_CUDA, AV_HWDEVICE_TYPE_D3D11VA, AV_HWDEVICE_TYPE_DXVA2, AV_HWDEVICE_TYPE_QSV,
     AV_HWDEVICE_TYPE_VAAPI, AV_HWDEVICE_TYPE_VDPAU, AV_HWDEVICE_TYPE_VIDEOTOOLBOX]"

definition findBestHWAccelType :: "hw_calls \<Rightarrow> AVHWDeviceType" where
  "findBestHWAccelType hc =
     (case List.find (\<lambda>t. isAvailableHWAccelType hc (fromAVHWDeviceType t)) hw_priorityList of
        Some t \<Rightarrow> t | None \<Rightarrow> AV_HWDEVICE_TYPE_NONE)"

subsection \<open>Device contexts\<close>

definition validateUserHWContext :: "hw_calls \<Rightarrow> user_context \<Rightarrow> AVHWDeviceType \<Rightarrow> bool" where
  "validateUserHWContext hc userContext expectedType =
     (if userContext \<noteq> UserContext then False
      else if expectedType \<in> {AV_HWDEVICE_TYPE_D3D11VA, AV_HWDEVICE_TYPE_DXVA2} \<and> hc_compiled hc expectedType
      then hc_query_interface hc
      else True)"

definition AVERROR_EINVAL :: int where "AVERROR_EINVAL = -22"
definition AVERROR_ENOMEM :: int where "AVERROR_ENOMEM = -12"
definition AVERROR_ENOSYS :: int where "AVERROR_ENOSYS = -38"

definition HardwareAccel_createHWDeviceFromUserContext ::
    "hw_calls \<Rightarrow> user_context \<Rightarrow> AVHWDeviceType \<Rightarrow> HardwareAccel \<Rightarrow> int \<times> HardwareAccel" where
  "HardwareAccel_createHWDeviceFromUserContext hc userContext deviceType a =
     (if userContext \<noteq> UserContext then (AVERROR_EINVAL, a)
      else if \<not> hc_device_alloc hc then (AVERROR_ENOMEM, a\<lparr>ha_hwDeviceCtx := False\<rparr>)
      else if \<not> (deviceType \<in> {AV_HWDEVICE_TYPE_D3D11VA, AV_HWDEVICE_TYPE_DXVA2, AV_HWDEVICE_TYPE_CUDA, AV_HWDEVICE_TYPE_VAAPI}
                 \<and> hc_compiled hc deviceType)
      then (AVERROR_ENOSYS, a\<lparr>ha_hwDeviceCtx := False\<rparr>)
      else if hc_device_init hc < 0 then (hc_device_init hc, a\<lparr>ha_hwDeviceCtx := False\<rparr>)
      else (0, a\<lparr>ha_hwDeviceCtx := True\<rparr>))"

text \<open>The last step of \<open>initHWDevice\<close>: FFmpeg's own way to create a device.\<close>

definition create_default :: "hw_calls \<Rightarrow> AVHWDeviceType \<Rightarrow> int \<Rightarrow> HardwareAccel \<Rightarrow> bool \<times> HardwareAccel" where
  "create_default hc deviceType deviceIndex a =
     (let deviceName = (if deviceIndex > 0 then dec_string (nat deviceIndex) else [])
      in if hc_create hc deviceType deviceName < 0 then (False, a) else (True, a\<lparr>ha_hwDeviceCtx := True\<rparr>))"

definition HardwareAccel_initHWDevice ::
    "hw_calls \<Rightarrow> AVHWDeviceType \<Rightarrow> int \<Rightarrow> HardwareAccel \<Rightarrow> bool \<times> HardwareAccel" where
  "HardwareAccel_initHWDevice hc deviceType deviceIndex a =
     (if deviceType = AV_HWDEVICE_TYPE_NONE then (False, a)
      else case hc_callback hc of
             None \<Rightarrow> create_default hc deviceType deviceIndex a
           | Some cb \<Rightarrow>
               let userHwContext = cb (fromAVHWDeviceType deviceType)
               in if userHwContext \<noteq> UserContext \<or> \<not> validateUserHWContext hc userHwContext deviceType
                  then create_default hc deviceType deviceIndex a
                  else case HardwareAccel_createHWDeviceFromUserContext hc userHwContext deviceType a of
                         (ret, a1) \<Rightarrow>
                           if ret \<ge> 0 then (True, a1\<lparr>ha_isUserContext := True\<rparr>)
                           else create_default hc deviceType deviceIndex a1)"

text \<open>The end of \<open>init\<close>, once the device type is known.\<close>

definition init_device :: "hw_calls \<Rightarrow> AVHWDeviceType \<Rightarrow> HardwareAccel \<Rightarrow> bool \<times> HardwareAccel" where
  "init_device hc deviceType a =
     (case HardwareAccel_initHWDevice hc deviceType (ha_deviceIndex a) a of
        (False, a1) \<Rightarrow> (False, a1)
      | (True, a1) \<Rightarrow>
          let a2 = a1\<lparr>ha_hwPixFmt := getHWPixelFormatForDevice deviceType\<rparr>
          in if ha_hwPixFmt a2 = AV_PIX_FMT_NONE then (False, a2\<lparr>ha_hwDeviceCtx := False\<rparr>)
             else (True, a2\<lparr>ha_initialized := True\<rparr>))"

definition HardwareAccel_init :: "hw_calls \<Rightarrow> HWAccelType \<Rightarrow> int \<Rightarrow> HardwareAccel \<Rightarrow> bool \<times> HardwareAccel" where
  "HardwareAccel_init hc type deviceIndex a =
     (let a1 = a\<lparr>ha_hwDeviceCtx := False, ha_initialized := False, ha_type := type, ha_deviceIndex := deviceIndex\<rparr>
      in if type = HW_kNone then (True, a1)
         else if type = HW_kAuto
         then let deviceType = findBestHWAccelType hc
              in if deviceType = AV_HWDEVICE_TYPE_NONE then (False, a1)
                 else init_device hc deviceType (a1\<lparr>ha_type := fromAVHWDeviceType deviceType\<rparr>)
         else if \<not> isAvailableHWAccelType hc type then (True, a1\<lparr>ha_type := HW_kNone\<rparr>)
         else init_device hc (toAVHWDeviceType type) a1)"

definition createHardwareAccel :: "hw_calls \<Rightarrow> HWAccelType \<Rightarrow> int \<Rightarrow> HardwareAccel option" where
  "createHardwareAccel hc type deviceIndex =
     (case HardwareAccel_init hc type deviceIndex HardwareAccel_new of
        (True, a) \<Rightarrow> Some a | (False, _) \<Rightarrow> None)"

subsection \<open>Use\<close>

type_synonym hw_map = "nat \<rightharpoonup> nat"

text \<open>Whether the context got a device, the new device flag of the context, and the new table;
  \<open>ctx\<close> is \<open>None\<close> for a null context.\<close>

definition HardwareAccel_setupDecoder :: "hw_calls \<Rightarrow> nat \<Rightarrow> nat option \<Rightarrow> HardwareAccel \<Rightarrow> hw_map \<Rightarrow> bool \<times> hw_map" where
  "HardwareAccel_setupDecoder hc this ctx a m =
     (case ctx of
        None \<Rightarrow> (False, m)
      | Some c \<Rightarrow>
          if \<not> ha_initialized a \<or> \<not> ha_hwDeviceCtx a then (False, m)
          else if \<not> hc_buffer_ref hc then (False, m)
          else (True, m(c \<mapsto> this)))"

definition HardwareAccel_destroy :: "nat \<Rightarrow> hw_map \<Rightarrow> hw_map" where
  "HardwareAccel_destroy this m = (\<lambda>c. if m c = Some this then None else m c)"

text \<open>The callback \<open>get_format\<close>: \<open>accels\<close> are the live accelerators by address.\<close>

definition getHWPixelFormat :: "(nat \<Rightarrow> HardwareAccel) \<Rightarrow> nat \<Rightarrow> AVPixelFormat list \<Rightarrow> hw_map \<Rightarrow> AVPixelFormat" where
  "getHWPixelFormat accels codecCtx pix_fmts m =
     (case m codecCtx of
        None \<Rightarrow> AV_PIX_FMT_NONE
      | Some i \<Rightarrow>
          let a = accels i
          in if \<not> ha_initialized a then AV_PIX_FMT_NONE
             else if ha_hwPixFmt a \<in> set (takeWhile (\<lambda>p. p \<noteq> AV_PIX_FMT_NONE) pix_fmts) then ha_hwPixFmt a
             else AV_PIX_FMT_NONE)"

record transfer_calls =
  tc_get_buffer :: "av_frame \<Rightarrow> int \<times> av_frame"
  tc_transfer_data :: "av_frame \<Rightarrow> av_frame \<Rightarrow> int \<times> av_frame"
  tc_copy_props :: "av_frame \<Rightarrow> av_frame \<Rightarrow> av_frame"

definition HardwareAccel_transferFrameToHost ::
    "frame_api \<Rightarrow> transfer_calls \<Rightarrow> av_frame option \<Rightarrow> av_frame option \<Rightarrow> HardwareAccel \<Rightarrow> bool \<times> av_frame option" where
  "HardwareAccel_transferFrameToHost api tc hwFrame swFrame a =
     (case (hwFrame, swFrame) of
        (Some h, Some s) \<Rightarrow>
          if \<not> ha_initialized a then (False, swFrame)
          else if fm_format h \<noteq> ha_hwPixFmt a then (False, swFrame)
          else
            let s1 = (av_frame_unref api s)\<lparr>fm_width := fm_width h, fm_height := fm_height h, fm_format := AV_PIX_FMT_NV12\<rparr>
            in (case tc_get_buffer tc s1 of
                  (ret, s2) \<Rightarrow>
                    if ret < 0 then (False, Some s2)
                    else (case tc_transfer_data tc s2 h of
                            (ret2, s3) \<Rightarrow> if ret2 < 0 then (False, Some s3) else (True, Some (tc_copy_props tc s3 h))))
      | _ \<Rightarrow> (False, swFrame))"

definition HardwareAccel_getHWFrame ::
    "frame_api \<Rightarrow> transfer_calls \<Rightarrow> av_frame option \<Rightarrow> HardwareAccel \<Rightarrow> av_frame option" where
  "HardwareAccel_getHWFrame api tc frame a =
     (case frame of
        None \<Rightarrow> None
      | Some f \<Rightarrow>
          if \<not> ha_initialized a then None
          else if fm_format f = ha_hwPixFmt a then Some f
          else
            let h1 = (av_frame_alloc api)\<lparr>fm_width := fm_width f, fm_height := fm_height f, fm_format := ha_hwPixFmt a\<rparr>
            in case tc_get_buffer tc h1 of
                 (ret, h2) \<Rightarrow>
                   if ret < 0 then None
                   else case tc_transfer_data tc h2 f of
                          (ret2, h3) \<Rightarrow> if ret2 < 0 then None else Some (tc_copy_props tc h3 f))"

subsection \<open>Lemmas\<close>

lemma hw_type_roundtrip: "type \<noteq> HW_kAuto \<Longrightarrow> fromAVHWDeviceType (toAVHWDeviceType type) = type"
  by (cases type) (simp_all add: fromAVHWDeviceType_def)

lemma pixel_format_known: "type \<noteq> HW_kAuto \<Longrightarrow> type \<noteq> HW_kNone \<Longrightarrow> getHWPixelFormatForDevice (toAVHWDeviceType type) \<noteq> -1"
  by (cases type) (simp_all add: getHWPixelFormatForDevice_def)

lemma available_iff:
  "isAvailableHWAccelType hc type \<longleftrightarrow>
     type \<noteq> HW_kNone \<and> (\<exists>t \<in> set (takeWhile (\<lambda>t. t \<noteq> 0) (hc_types hc)). fromAVHWDeviceType t = type \<and> 0 \<le> hc_probe hc t)"
  by (auto simp: isAvailableHWAccelType_def getSupportedHWAccelTypes_def find_None_iff probe_info_def Let_def)

lemma best_type:
  assumes "findBestHWAccelType hc \<noteq> 0"
  shows "isAvailableHWAccelType hc (fromAVHWDeviceType (findBestHWAccelType hc))
    \<and> toAVHWDeviceType (fromAVHWDeviceType (findBestHWAccelType hc)) = findBestHWAccelType hc"
proof -
  obtain t where t: "List.find (\<lambda>t. isAvailableHWAccelType hc (fromAVHWDeviceType t)) hw_priorityList = Some t"
    "findBestHWAccelType hc = t"
    using assms by (auto simp: findBestHWAccelType_def split: option.splits)
  then have "t \<in> set hw_priorityList" "isAvailableHWAccelType hc (fromAVHWDeviceType t)"
    by (auto simp: find_Some_iff)
  then show ?thesis using t(2) by (auto simp: hw_priorityList_def fromAVHWDeviceType_def)
qed

lemma initHWDevice_keeps:
  assumes "HardwareAccel_initHWDevice hc t i a = (r, a')"
  shows "ha_type a' = ha_type a \<and> ha_initialized a' = ha_initialized a \<and> (r \<longrightarrow> ha_hwDeviceCtx a')"
  using assms
  by (auto simp: HardwareAccel_initHWDevice_def create_default_def HardwareAccel_createHWDeviceFromUserContext_def
      Let_def AVERROR_EINVAL_def AVERROR_ENOMEM_def AVERROR_ENOSYS_def split: if_splits option.splits prod.splits)

lemma init_device_result:
  assumes "init_device hc t a = (r, a')" "\<not> ha_initialized a" "getHWPixelFormatForDevice t \<noteq> -1"
  shows "ha_type a' = ha_type a \<and> ha_initialized a' = r
    \<and> (r \<longrightarrow> ha_hwDeviceCtx a' \<and> ha_hwPixFmt a' = getHWPixelFormatForDevice t)"
proof -
  obtain r1 a1 where i: "HardwareAccel_initHWDevice hc t (ha_deviceIndex a) a = (r1, a1)" by fastforce
  from initHWDevice_keeps [OF i] i assms show ?thesis
    by (auto simp: init_device_def Let_def split: bool.splits)
qed

subsection \<open>Properties\<close>


definition sample_hw :: hw_calls where
  "sample_hw = \<lparr>hc_types = [3, 2], hc_type_name = (\<lambda>t. ''device''), hc_probe = (\<lambda>t. if t = 3 then 0 else -1),
     hc_frames_alloc = (\<lambda>t. True), hc_frames_init = (\<lambda>t. 0), hc_constraints = (\<lambda>t. Some [23, -1]),
     hc_create = (\<lambda>t name. 0), hc_callback = None, hc_compiled = (\<lambda>t. t = 3), hc_query_interface = True,
     hc_device_alloc = True, hc_device_init = 0, hc_buffer_ref = True\<rparr>"


end
