(* ===== verification/NalBitstream.thy ===== *)
theory NalBitstream
  imports Frames "HOL-Library.Monad_Syntax"
begin

text \<open>
  The byte-level helpers of \<open>src/src/decoder/video_decoder.cpp\<close> (anonymous namespace): the
  repair of an invalid H.264 profile, the splitting of a packet into NAL units (Annex B and
  AVCC), the removal of emulation prevention bytes and the parsing of SEI messages.

  A buffer with its size is a \<open>byte list\<close>.  The functions that read by index return
  \<open>None\<close> when they read outside the buffer, so that the absence of such reads is a theorem.
  Positions are natural numbers; \<open>size_t(-1)\<close> is \<open>SIZE_MAX\<close>.  \<open>unsigned\<close> sums wrap at
  32 bits.
\<close>

definition SIZE_MAX :: nat where
  "SIZE_MAX = 2 ^ 64 - 1"

definition rd :: "byte list \<Rightarrow> nat \<Rightarrow> byte option" where
  "rd data i = (if i < length data then Some (data ! i) else None)"

text \<open>A conjunction of comparisons of consecutive bytes, evaluated from the left.\<close>

fun match_at :: "byte list \<Rightarrow> nat \<Rightarrow> byte list \<Rightarrow> bool option" where
  "match_at data p [] = Some True"
| "match_at data p (b # bs) =
     do { x \<leftarrow> rd data p; if x = b then match_at data (Suc p) bs else Some False }"

subsection \<open>The H.264 profile\<close>

definition getValidH264Profiles :: "byte list" where
  "getValidH264Profiles = [66, 77, 88, 100, 110, 118, 122, 128, 144, 244, 44]"

text \<open>
  The start code test: \<open>00 00 01\<close> or \<open>00 00 00 01\<close>.  The result is the length of the start
  code, 0 when there is none.
\<close>

definition startCodeAt :: "byte list \<Rightarrow> nat \<Rightarrow> nat option" where
  "startCodeAt data p =
     do { zeros \<leftarrow> match_at data p [0, 0];
          if \<not> zeros then Some 0
          else do { x \<leftarrow> rd data (p + 2);
                    if x = 1 then Some 3
                    else if x = 0 then do { y \<leftarrow> rd data (p + 3); Some (if y = 1 then 4 else 0) }
                    else Some 0 } }"

function findSPS_loop :: "byte list \<Rightarrow> nat \<Rightarrow> (nat \<times> nat) option option" where
  "findSPS_loop data current =
     (if current + 4 < length data
      then do {
        offset \<leftarrow> startCodeAt data current;
        if 0 < offset
        then let nal_start = current + offset
             in if nal_start \<ge> length data then Some None
                else do {
                  b \<leftarrow> rd data nal_start;
                  if b AND 0x1F = 7 \<and> nal_start + 2 < length data
                  then Some (Some (nal_start + 1, nal_start + 2))
                  else findSPS_loop data nal_start }
        else findSPS_loop data (Suc current) }
      else Some None)"
  by auto
termination
  by (relation "measure (\<lambda>(data, current). length data - current)") auto

declare findSPS_loop.simps [simp del]

definition findSPSInAnnexB :: "byte list option \<Rightarrow> (nat \<times> nat) option option" where
  "findSPSInAnnexB data =
     (case data of None \<Rightarrow> Some None
      | Some d \<Rightarrow> if length d < 8 then Some None else findSPS_loop d 0)"

definition fixH264ProfileCommon :: "byte \<Rightarrow> nat \<Rightarrow> nat \<Rightarrow> byte list \<Rightarrow> bool \<times> byte list" where
  "fixH264ProfileCommon profile_idc profile_ptr constraint_ptr d =
     (if profile_idc \<in> set getValidH264Profiles then (False, d)
      else (True, (d[profile_ptr := 66])[constraint_ptr := 0xc0]))"

definition fixAnnexBSPSProfileInPacket :: "av_packet option \<Rightarrow> (bool \<times> av_packet option) option" where
  "fixAnnexBSPSProfileInPacket pkt =
     (case pkt of None \<Rightarrow> Some (False, None)
      | Some p \<Rightarrow>
        (case pkt_data p of None \<Rightarrow> Some (False, pkt)
         | Some buf \<Rightarrow>
           if pkt_size p < 8 then Some (False, pkt)
           else if nat (pkt_size p) > length buf then None
           else
             let d = take (nat (pkt_size p)) buf
             in do {
               found \<leftarrow> findSPSInAnnexB (Some d);
               case found of
                 None \<Rightarrow> Some (False, pkt)
               | Some (sps_profile_ptr, sps_constraint_ptr) \<Rightarrow>
                   do { profile_idc \<leftarrow> rd d sps_profile_ptr;
                        let (fixed, d') = fixH264ProfileCommon profile_idc sps_profile_ptr sps_constraint_ptr d
                        in Some (fixed, Some (p\<lparr>pkt_data := Some (d' @ drop (nat (pkt_size p)) buf)\<rparr>)) } }))"

text \<open>The fields of an \<open>AVCodecContext\<close> that the profile repair reads and writes.\<close>

record codec_extradata =
  cx_is_h264 :: bool
  cx_extradata :: "byte list option"

definition fixH264ProfileIfNeeded :: "codec_extradata option \<Rightarrow> (bool \<times> codec_extradata option) option" where
  "fixH264ProfileIfNeeded codecCtx =
     (case codecCtx of None \<Rightarrow> Some (False, None)
      | Some c \<Rightarrow>
        (case cx_extradata c of None \<Rightarrow> Some (False, codecCtx)
         | Some d \<Rightarrow>
           if \<not> cx_is_h264 c \<or> length d < 8 then Some (False, codecCtx)
           else do {
             first \<leftarrow> rd d 0;
             found \<leftarrow> (if first = 0x01 then Some (Some (1, 2)) else findSPSInAnnexB (Some d));
             case found of
               None \<Rightarrow> Some (False, codecCtx)
             | Some (sps_profile_ptr, sps_constraint_ptr) \<Rightarrow>
                 do { profile_idc \<leftarrow> rd d sps_profile_ptr;
                      let (fixed, d') = fixH264ProfileCommon profile_idc sps_profile_ptr sps_constraint_ptr d
                      in Some (fixed, Some (c\<lparr>cx_extradata := Some d'\<rparr>)) } }))"

subsection \<open>NAL units\<close>

definition isAnnexBFormat :: "byte list \<Rightarrow> bool option" where
  "isAnnexBFormat data =
     (if length data \<ge> 4
      then do { zeros \<leftarrow> match_at data 0 [0, 0];
                if \<not> zeros then Some False
                else do { long \<leftarrow> match_at data 2 [0, 1]; if long then Some True else match_at data 2 [1] } }
      else Some False)"

function findStartCode :: "byte list \<Rightarrow> nat \<Rightarrow> nat option" where
  "findStartCode data p =
     (if p + 3 \<le> length data
      then do {
        long \<leftarrow> (if p + 4 \<le> length data then match_at data p [0, 0, 0, 1] else Some False);
        if long then Some p
        else do { short \<leftarrow> match_at data p [0, 0, 1];
                  if short then Some p else findStartCode data (Suc p) } }
      else Some SIZE_MAX)"
  by auto
termination
  by (relation "measure (\<lambda>(data, p). Suc (length data) - p)") auto

declare findStartCode.simps [simp del]

text \<open>
  The loop of \<open>splitAnnexBNalus\<close>.  The comparisons of a \<open>size_t\<close> with \<open>< 0\<close> are never
  true, so that neither the early return for data without a start code nor the end of the last
  unit at \<open>size\<close> is taken.  The fuel is the number of iterations left.
\<close>

fun splitAnnexB_loop :: "nat \<Rightarrow> byte list \<Rightarrow> nat \<Rightarrow> byte list list option" where
  "splitAnnexB_loop 0 data pos = (if pos < length data then None else Some [])"
| "splitAnnexB_loop (Suc fuel) data pos =
     (if pos < length data
      then do {
        long \<leftarrow> (if pos + 4 \<le> length data then match_at data pos [0, 0, 0, 1] else Some False);
        short \<leftarrow> (if long then Some True else match_at data pos [0, 0, 1]);
        if \<not> short then Some []
        else let scLen = (if long then 4 else 3);
                 nalStart = pos + scLen
             in do {
               next \<leftarrow> findStartCode data nalStart;
               let nalEnd = next;
                   nalu = (if nalStart < nalEnd \<and> nalEnd \<le> length data
                           then [take (nalEnd - nalStart) (drop nalStart data)] else [])
               in do { rest \<leftarrow> splitAnnexB_loop fuel data next; Some (nalu @ rest) } } }
      else Some [])"

definition splitAnnexBNalus :: "byte list \<Rightarrow> byte list list option" where
  "splitAnnexBNalus data =
     do { start \<leftarrow> findStartCode data 0; splitAnnexB_loop (length data) data start }"

definition be32 :: "byte \<Rightarrow> byte \<Rightarrow> byte \<Rightarrow> byte \<Rightarrow> u32" where
  "be32 a b c d = push_bit 24 (ucast a) OR push_bit 16 (ucast b) OR push_bit 8 (ucast c) OR ucast d"

text \<open>The argument is the part of the data from \<open>pos\<close> on.\<close>

function splitAvccNalus :: "byte list \<Rightarrow> byte list list" where
  "splitAvccNalus data =
     (case data of
        a # b # c # d # rest \<Rightarrow>
          let nalSize = unat (be32 a b c d)
          in if nalSize > length rest then []
             else take nalSize rest # splitAvccNalus (drop nalSize rest)
      | _ \<Rightarrow> [])"
  by auto
termination
  by (relation "measure length") auto

declare splitAvccNalus.simps [simp del]

text \<open>The argument is the part of the data from index \<open>i\<close> on.\<close>

fun removeEPB :: "byte list \<Rightarrow> byte list" where
  "removeEPB (x # y # z # rest) =
     (if x = 0 \<and> y = 0 \<and> z = 3 then 0 # 0 # removeEPB rest else x # removeEPB (y # z # rest))"
| "removeEPB [x, y] = [x, y]"
| "removeEPB [x] = [x]"
| "removeEPB [] = []"

subsection \<open>SEI messages\<close>

text \<open>The inner loops: the value read and the offset after it.\<close>

function sei_value :: "byte list \<Rightarrow> nat \<Rightarrow> u32 \<Rightarrow> u32 \<times> nat" where
  "sei_value rbsp off acc =
     (if off < length rbsp
      then let b = rbsp ! off; acc' = acc + ucast b
           in if b \<noteq> 0xFF then (acc', Suc off) else sei_value rbsp (Suc off) acc'
      else (acc, off))"
  by auto
termination
  by (relation "measure (\<lambda>(rbsp, off, acc). length rbsp - off)") auto

declare sei_value.simps [simp del]

lemma sei_value_offset: "off \<le> snd (sei_value rbsp off acc) \<and> (off < length rbsp \<longrightarrow> off < snd (sei_value rbsp off acc))"
proof (induction rbsp off acc rule: sei_value.induct)
  case (1 rbsp off acc)
  show ?case
  proof (cases "off < length rbsp \<and> rbsp ! off = 0xFF")
    case True
    with 1 [of "rbsp ! off" "acc + ucast (rbsp ! off)"] show ?thesis
      by (auto simp: sei_value.simps [of rbsp off acc] Let_def)
  next
    case False
    then show ?thesis by (auto simp: sei_value.simps [of rbsp off acc] Let_def)
  qed
qed

function sei_messages :: "byte list \<Rightarrow> nat \<Rightarrow> UserSEIData list" where
  "sei_messages rbsp off =
     (if off + 2 < length rbsp
      then
        let (payloadType, off1) = sei_value rbsp off 0;
            (payloadSize, off2) = sei_value rbsp off1 0
        in if off2 + unat payloadSize > length rbsp then []
           else (if payloadType = 5 \<and> unat payloadSize \<ge> 16
                 then [\<lparr>sei_uuid = take 16 (drop off2 rbsp),
                        sei_payload = take (unat payloadSize - 16) (drop (off2 + 16) rbsp)\<rparr>]
                 else [])
                @ sei_messages rbsp (off2 + unat payloadSize)
      else [])"
  by auto
termination
proof (relation "measure (\<lambda>(rbsp, off). length rbsp - off)", goal_cases)
  case (2 rbsp off x payloadType off1 y payloadSize off2)
  then have "off < off1" "off1 \<le> off2"
    using sei_value_offset [of off rbsp 0] sei_value_offset [of off1 rbsp 0] by (metis add_lessD1 snd_conv)+
  with 2 show ?case by simp
qed simp

declare sei_messages.simps [simp del]

definition parseSeiFromNal :: "byte list \<Rightarrow> bool \<Rightarrow> UserSEIData list option" where
  "parseSeiFromNal nal codecIsHevc =
     (if length nal = 0 then Some []
      else do {
        b \<leftarrow> rd nal 0;
        let isSei = (if \<not> codecIsHevc then b AND 0x1F = 6
                     else length nal \<ge> 2 \<and> (drop_bit 1 b AND 0x3F = 39 \<or> drop_bit 1 b AND 0x3F = 40));
            headerSize = (if codecIsHevc then 2 else 1)
        in if \<not> isSei then Some []
           else let rbsp = removeEPB (drop headerSize nal)
                in if rbsp = [] then Some [] else Some (sei_messages rbsp 0) })"

fun parse_all :: "byte list list \<Rightarrow> bool \<Rightarrow> UserSEIData list option" where
  "parse_all [] codecIsHevc = Some []"
| "parse_all (nalu # nalus) codecIsHevc =
     do { seis \<leftarrow> parseSeiFromNal nalu codecIsHevc; rest \<leftarrow> parse_all nalus codecIsHevc; Some (seis @ rest) }"

definition parseSEIFromPacket :: "Packet \<Rightarrow> bool \<Rightarrow> UserSEIData list option" where
  "parseSEIFromPacket packet codecIsHevc =
     (case Packet_get packet of None \<Rightarrow> Some []
      | Some p \<Rightarrow>
        (case pkt_data p of None \<Rightarrow> Some []
         | Some buf \<Rightarrow>
           if pkt_size p \<le> 0 then Some []
           else if nat (pkt_size p) > length buf then None
           else
             let data = take (nat (pkt_size p)) buf
             in do { isAnnexB \<leftarrow> isAnnexBFormat data;
                     nalus \<leftarrow> (if isAnnexB then splitAnnexBNalus data else Some (splitAvccNalus data));
                     parse_all nalus codecIsHevc }))"


subsection \<open>The formats, as an encoder writes them\<close>

text \<open>
  Emulation prevention: \<open>z\<close> is the number of zero bytes just written.
\<close>

fun insertEPB :: "nat \<Rightarrow> byte list \<Rightarrow> byte list" where
  "insertEPB z [] = []"
| "insertEPB z (b # bs) =
     (if 2 \<le> z \<and> b \<le> 3 then 3 # b # insertEPB (if b = 0 then 1 else 0) bs
      else b # insertEPB (if b = 0 then Suc z else 0) bs)"

definition sei_code :: "nat \<Rightarrow> byte list" where
  "sei_code n = replicate (n div 255) 0xFF @ [of_nat (n mod 255)]"

definition sei_message :: "nat \<times> byte list \<Rightarrow> byte list" where
  "sei_message m = sei_code (fst m) @ sei_code (length (snd m)) @ snd m"

definition sei_rbsp :: "(nat \<times> byte list) list \<Rightarrow> byte list" where
  "sei_rbsp ms = concat (map sei_message ms) @ [0x80]"

definition user_data :: "nat \<times> byte list \<Rightarrow> UserSEIData list" where
  "user_data m = (if fst m = 5 \<and> 16 \<le> length (snd m)
     then [\<lparr>sei_uuid = take 16 (snd m), sei_payload = drop 16 (snd m)\<rparr>] else [])"

definition be32_bytes :: "nat \<Rightarrow> byte list" where
  "be32_bytes n = [of_nat (drop_bit 24 n), of_nat (drop_bit 16 n), of_nat (drop_bit 8 n), of_nat n]"

definition avcc_encode :: "byte list list \<Rightarrow> byte list" where
  "avcc_encode units = concat (map (\<lambda>u. be32_bytes (length u) @ u) units)"

definition start_code :: "bool \<Rightarrow> byte list" where
  "start_code long = (if long then [0, 0, 0, 1] else [0, 0, 1])"

definition annexb_encode :: "(bool \<times> byte list) list \<Rightarrow> byte list" where
  "annexb_encode units = concat (map (\<lambda>(long, u). start_code long @ u) units)"

definition nal_ok :: "byte list \<Rightarrow> bool" where
  "nal_ok u \<longleftrightarrow> u \<noteq> [] \<and> last u \<noteq> 0 \<and> \<not> sublist [0, 0, 1] u"

text \<open>The buffer of a packet holds at least the \<open>size\<close> bytes the packet claims.\<close>

definition packet_buffer_ok :: "Packet \<Rightarrow> bool" where
  "packet_buffer_ok packet =
     (case Packet_get packet of None \<Rightarrow> True
      | Some p \<Rightarrow> (case pkt_data p of None \<Rightarrow> True
                   | Some buf \<Rightarrow> pkt_size p \<le> int (length buf) \<and> length buf < SIZE_MAX))"

subsection \<open>Emulation prevention\<close>

lemma removeEPB_Cons: "b \<noteq> 0 \<Longrightarrow> removeEPB (b # xs) = b # removeEPB xs"
  by (cases "b # xs" rule: removeEPB.cases) auto

lemma removeEPB_0_Cons: "b \<noteq> 0 \<Longrightarrow> removeEPB (0 # b # xs) = 0 # b # removeEPB xs"
  by (cases xs) (auto simp: removeEPB_Cons)

lemma removeEPB_insert: "z \<le> 2 \<Longrightarrow> removeEPB (replicate z 0 @ insertEPB z xs) = replicate z 0 @ xs"
proof (induction xs arbitrary: z)
  case Nil
  then have "z = 0 \<or> z = 1 \<or> z = 2" by auto
  then show ?case by (auto simp: numeral_2_eq_2)
next
  case (Cons b xs)
  have z: "z = 0 \<or> z = 1 \<or> z = 2" using Cons.prems by auto
  have IH: "removeEPB (insertEPB 0 xs) = xs" "removeEPB (0 # insertEPB 1 xs) = 0 # xs"
    "removeEPB (0 # 0 # insertEPB 2 xs) = 0 # 0 # xs"
    using Cons.IH [of 0] Cons.IH [of 1] Cons.IH [of 2] by (simp_all add: numeral_2_eq_2)
  show ?case
  proof (cases "b = 0")
    case True
    with z IH show ?thesis by (auto simp: numeral_2_eq_2)
  next
    case False
    with z IH(1) show ?thesis
      by (auto simp: numeral_2_eq_2 removeEPB_Cons removeEPB_0_Cons)
  qed
qed


subsection \<open>SEI messages\<close>

lemma drop_append_eq: "drop off xs = a @ b \<Longrightarrow> drop (off + length a) xs = b"
  by (metis add.commute append_eq_conv_conj drop_drop)

lemma nth_drop_Cons: "drop off xs = b # r \<Longrightarrow> off < length xs \<and> xs ! off = b \<and> drop (Suc off) xs = r"
  by (metis Cons_nth_drop_Suc drop_eq_Nil leI list.distinct(1) list.inject)

lemma sei_value_run:
  assumes "m \<noteq> 0xFF" "drop off rbsp = replicate k 0xFF @ m # rest"
  shows "sei_value rbsp off acc = (acc + of_nat k * 0xFF + ucast m, off + Suc k)"
  using assms(2)
proof (induction k arbitrary: off acc)
  case 0
  then show ?case using nth_drop_Cons [of off rbsp m rest] assms(1)
    by (simp add: sei_value.simps [of rbsp off acc])
next
  case (Suc k)
  then have "drop off rbsp = 0xFF # (replicate k 0xFF @ m # rest)" by simp
  then have d: "off < length rbsp" "rbsp ! off = 0xFF" "drop (Suc off) rbsp = replicate k 0xFF @ m # rest"
    by (blast dest: nth_drop_Cons)+
  have u: "(ucast (0xFF :: byte) :: u32) = 0xFF" by simp
  have "sei_value rbsp off acc = sei_value rbsp (Suc off) (acc + 0xFF)"
    using d(1,2) u by (simp add: sei_value.simps [of rbsp off acc] Let_def)
  moreover have "acc + 0xFF + of_nat k * 0xFF = acc + of_nat (Suc k) * (0xFF :: u32)"
    by (simp only: of_nat_Suc distrib_right mult_1 ac_simps)
  ultimately show ?case using Suc.IH [OF d(3), of "acc + 0xFF"] by simp
qed

lemma length_sei_code [simp]: "length (sei_code n) = Suc (n div 255)"
  by (simp add: sei_code_def)

lemma sei_value_code:
  assumes "drop off rbsp = sei_code n @ rest"
  shows "sei_value rbsp off 0 = (of_nat n, off + length (sei_code n))"
proof -
  have b: "n mod 255 < 255" by simp
  have "(of_nat (n mod 255) :: byte) \<noteq> 0xFF"
  proof
    assume "(of_nat (n mod 255) :: byte) = 0xFF"
    then have "unat (of_nat (n mod 255) :: byte) = unat (0xFF :: byte)" by simp
    with b show False by (simp add: unat_of_nat)
  qed
  moreover have "(ucast (of_nat (n mod 255) :: byte) :: u32) = of_nat (n mod 255)"
    using b by (simp add: unsigned_of_nat take_bit_nat_eq_self)
  moreover have "(of_nat (n div 255) * 0xFF + of_nat (n mod 255) :: u32) = of_nat n"
    by (metis div_mult_mod_eq of_nat_add of_nat_mult of_nat_numeral)
  ultimately show ?thesis
    using sei_value_run [of "of_nat (n mod 255)" off rbsp "n div 255" rest 0] assms
    by (simp add: sei_code_def)
qed

lemma unat_of_nat_u32: "n < 2 ^ 32 \<Longrightarrow> unat (of_nat n :: u32) = n"
  by (simp add: unat_of_nat)

lemma of_nat_eq_5_u32: "n < 2 ^ 32 \<Longrightarrow> (of_nat n :: u32) = 5 \<longleftrightarrow> n = 5"
  using unat_of_nat_u32 [of n] unat_of_nat_u32 [of 5] by auto


lemma sei_messages_step:
  assumes d: "drop off rbsp = sei_message (t, p) @ rest" and rest: "rest \<noteq> []"
    and b: "t < 2 ^ 32" "length p < 2 ^ 32"
  shows "sei_messages rbsp off = user_data (t, p) @ sei_messages rbsp (off + length (sei_message (t, p)))"
proof -
  have d1: "drop off rbsp = sei_code t @ sei_code (length p) @ p @ rest"
    using d by (simp add: sei_message_def)
  define off1 where "off1 = off + length (sei_code t)"
  define off2 where "off2 = off1 + length (sei_code (length p))"
  have d2: "drop off1 rbsp = sei_code (length p) @ p @ rest"
    using drop_append_eq [OF d1] by (simp add: off1_def)
  have d3: "drop off2 rbsp = p @ rest"
    using drop_append_eq [OF d2] by (simp add: off2_def)
  have v: "sei_value rbsp off 0 = (of_nat t, off1)" "sei_value rbsp off1 0 = (of_nat (length p), off2)"
    using sei_value_code [OF d1] sei_value_code [OF d2] by (simp_all only: off1_def off2_def)
  have len: "length rbsp - off2 = length p + length rest" using arg_cong [OF d3, of length] by simp
  have "off2 < length rbsp" using len rest by (cases rest) auto
  then have cond: "off + 2 < length rbsp" "\<not> length rbsp < off2 + length p"
    using len by (auto simp: off1_def off2_def)
  have o: "off + length (sei_message (t, p)) = off2 + length p"
    by (simp add: sei_message_def off2_def off1_def)
  have "take 16 (drop off2 rbsp) = take 16 p" if "16 \<le> length p" using d3 that by simp
  moreover have "take (length p - 16) (drop (off2 + 16) rbsp) = drop 16 p" if "16 \<le> length p"
  proof -
    have "drop 16 (drop off2 rbsp) = drop 16 p @ rest" unfolding d3 using that by simp
    then show ?thesis by (simp add: add.commute)
  qed
  ultimately show ?thesis
    unfolding o sei_messages.simps [of rbsp off] using cond v b
    by (auto simp: user_data_def unat_of_nat_u32 of_nat_eq_5_u32)
qed

lemma sei_messages_rbsp:
  "drop off rbsp = sei_rbsp ms \<Longrightarrow> list_all (\<lambda>(t, p). t < 2 ^ 32 \<and> length p < 2 ^ 32) ms
    \<Longrightarrow> sei_messages rbsp off = concat (map user_data ms)"
proof (induction ms arbitrary: off)
  case Nil
  have "length (drop off rbsp) = 1" unfolding Nil.prems(1) by (simp add: sei_rbsp_def)
  then show ?case by (simp add: sei_messages.simps [of rbsp off])
next
  case (Cons m ms)
  obtain t p where m: "m = (t, p)" by (cases m)
  have d: "drop off rbsp = sei_message (t, p) @ sei_rbsp ms"
    using Cons.prems(1) m by (simp add: sei_rbsp_def)
  have "sei_rbsp ms \<noteq> []" by (simp add: sei_rbsp_def)
  from sei_messages_step [OF d this] Cons.IH [OF drop_append_eq [OF d]] Cons.prems(2) m
  show ?case by simp
qed

lemma sei_rbsp_nonempty [simp]: "sei_rbsp ms \<noteq> []"
  by (simp add: sei_rbsp_def)

subsection \<open>AVCC units\<close>

lemma be32_bytes_value:
  assumes "n < 2 ^ 32"
  shows "unat (be32 (of_nat (drop_bit 24 n)) (of_nat (drop_bit 16 n)) (of_nat (drop_bit 8 n)) (of_nat n)) = n"
proof -
  have "be32 (of_nat (drop_bit 24 n)) (of_nat (drop_bit 16 n)) (of_nat (drop_bit 8 n)) (of_nat n) = (of_nat n :: u32)"
  proof (rule bit_word_eqI)
    fix i :: nat
    assume "i < LENGTH(32)"
    then have "i < 8 \<or> 8 \<le> i \<and> i < 16 \<or> 16 \<le> i \<and> i < 24 \<or> 24 \<le> i \<and> i < 32" by auto
    then show "bit (be32 (of_nat (drop_bit 24 n)) (of_nat (drop_bit 16 n)) (of_nat (drop_bit 8 n)) (of_nat n)) i
        = bit (of_nat n :: u32) i"
      by (elim disjE) (auto simp add: be32_def bit_simps less_diff_conv2)
  qed
  then show ?thesis using assms by (simp add: unat_of_nat_u32)
qed

lemma splitAvcc_unit:
  "length u < 2 ^ 32 \<Longrightarrow> splitAvccNalus (be32_bytes (length u) @ u @ rest) = u # splitAvccNalus rest"
  by (subst splitAvccNalus.simps) (simp add: be32_bytes_def be32_bytes_value Let_def)

lemma splitAvcc_encode:
  "list_all (\<lambda>u. length u < 2 ^ 32) units \<Longrightarrow> splitAvccNalus (avcc_encode units) = units"
proof (induction units)
  case Nil
  then show ?case by (simp add: avcc_encode_def splitAvccNalus.simps)
next
  case (Cons u units)
  then show ?case using splitAvcc_unit [of u "avcc_encode units"] by (simp add: avcc_encode_def)
qed

subsection \<open>Reads stay inside the buffer\<close>

lemma rd_Some [simp]: "i < length data \<Longrightarrow> rd data i = Some (data ! i)"
  by (simp add: rd_def)

lemma match_at_Some:
  "p + length bs \<le> length data \<Longrightarrow> match_at data p bs = Some (take (length bs) (drop p data) = bs)"
proof (induction bs arbitrary: p)
  case Nil
  then show ?case by simp
next
  case (Cons b bs)
  then have "take (length (b # bs)) (drop p data) = data ! p # take (length bs) (drop (Suc p) data)"
    by (simp add: Cons_nth_drop_Suc [symmetric])
  with Cons show ?case by simp
qed

lemma match_at_start_code:
  "p + 3 \<le> length data \<Longrightarrow> match_at data p [0, 0, 1] = Some (take 3 (drop p data) = [0, 0, 1])"
  "p + 4 \<le> length data \<Longrightarrow> match_at data p [0, 0, 0, 1] = Some (take 4 (drop p data) = [0, 0, 0, 1])"
  using match_at_Some [of p "[0, 0, 1]" data] match_at_Some [of p "[0, 0, 0, 1]" data]
  by (simp_all add: eval_nat_numeral del: match_at.simps take_Suc_Cons)

lemma match_at_long:
  "(if p + 4 \<le> length data then match_at data p [0, 0, 0, 1] else Some False)
     = Some (take 4 (drop p data) = [0, 0, 0, 1])"
proof (cases "p + 4 \<le> length data")
  case True
  then show ?thesis by (simp add: match_at_start_code del: match_at.simps)
next
  case False
  then have "length (take 4 (drop p data)) < 4" by simp
  then have "take 4 (drop p data) \<noteq> [0, 0, 0, 1]" by (auto simp del: length_take)
  with False show ?thesis by simp
qed

definition start_at :: "byte list \<Rightarrow> nat \<Rightarrow> bool" where
  "start_at data p \<longleftrightarrow> take 4 (drop p data) = [0, 0, 0, 1] \<or> take 3 (drop p data) = [0, 0, 1]"

lemma findStartCode_eq:
  "findStartCode data p =
     (if p + 3 \<le> length data then if start_at data p then Some p else findStartCode data (Suc p)
      else Some SIZE_MAX)"
  by (subst findStartCode.simps)
    (simp add: match_at_long match_at_start_code start_at_def del: match_at.simps)

lemma findStartCode_total:
  "\<exists>q. findStartCode data p = Some q
     \<and> (q = SIZE_MAX \<or> p \<le> q \<and> q + 3 \<le> length data \<and> start_at data q)"
proof (induction "length data - p" arbitrary: p)
  case 0
  then show ?case by (subst findStartCode_eq) auto
next
  case (Suc n)
  then have "n = length data - Suc p" by simp
  then obtain q where "findStartCode data (Suc p) = Some q"
    "q = SIZE_MAX \<or> Suc p \<le> q \<and> q + 3 \<le> length data \<and> start_at data q"
    using Suc.hyps(1) [of "Suc p"] by blast
  then show ?case by (subst findStartCode_eq) auto
qed


subsection \<open>Annex B units\<close>

lemma splitAnnexB_loop_step:
  assumes "pos + 3 \<le> length data" "start_at data pos"
    and "nalStart = pos + (if take 4 (drop pos data) = [0, 0, 0, 1] then 4 else 3)"
    and "findStartCode data nalStart = Some next"
  shows "splitAnnexB_loop (Suc fuel) data pos =
     map_option ((@) (if nalStart < next \<and> next \<le> length data
                      then [take (next - nalStart) (drop nalStart data)] else []))
       (splitAnnexB_loop fuel data next)"
proof -
  let ?nalu = "if nalStart < next \<and> next \<le> length data then [take (next - nalStart) (drop nalStart data)] else []"
  have p: "pos < length data" using assms(1) by simp
  have s: "take 3 (drop pos data) = [0, 0, 1]" if "take 4 (drop pos data) \<noteq> [0, 0, 0, 1]"
    using assms(2) that by (simp add: start_at_def)
  have bind: "Option.bind r (\<lambda>rest. Some (xs @ rest)) = map_option ((@) xs) r" for xs and r :: "byte list list option"
    by (cases r) simp_all
  show ?thesis
  proof (cases "take 4 (drop pos data) = [0, 0, 0, 1]")
    case True
    with p assms(3,4) show ?thesis
      by (simp add: match_at_long Let_def bind del: match_at.simps)
  next
    case False
    with p s [OF False] assms(1,3,4) show ?thesis
      by (simp add: match_at_long match_at_start_code Let_def bind del: match_at.simps)
  qed
qed

lemma splitAnnexB_loop_total:
  "length data < SIZE_MAX \<Longrightarrow> length data - pos \<le> fuel \<Longrightarrow>
   length data \<le> pos \<or> pos + 3 \<le> length data \<and> start_at data pos \<Longrightarrow>
   \<exists>us. splitAnnexB_loop fuel data pos = Some us"
proof (induction fuel arbitrary: pos)
  case 0
  then show ?case by simp
next
  case (Suc fuel)
  show ?case
  proof (cases "length data \<le> pos")
    case True
    then show ?thesis by simp
  next
    case False
    then have p: "pos + 3 \<le> length data" "start_at data pos" using Suc.prems(3) by auto
    define ns where "ns = pos + (if take 4 (drop pos data) = [0, 0, 0, 1] then 4 else 3)"
    obtain q where q: "findStartCode data ns = Some q"
      "q = SIZE_MAX \<or> ns \<le> q \<and> q + 3 \<le> length data \<and> start_at data q"
      using findStartCode_total by blast
    have "\<exists>us. splitAnnexB_loop fuel data q = Some us"
    proof (rule Suc.IH)
      have "pos < ns" by (simp add: ns_def)
      then show "length data - q \<le> fuel" using q(2) Suc.prems(1,2) by auto
    qed (use q(2) Suc.prems(1) in auto)
    then show ?thesis using splitAnnexB_loop_step [OF p ns_def q(1), of fuel] by auto
  qed
qed

lemma start_at_shift: "start_at data (p + k) = start_at (drop p data) k"
  by (simp add: start_at_def add.commute)

lemma start_at_cases:
  assumes "start_at data k"
  shows "\<exists>n\<le>1. take (n + 3) (drop k data) = replicate n 0 @ [0, 0, 1]"
  using assms unfolding start_at_def
proof
  assume "take 4 (drop k data) = [0, 0, 0, 1]"
  then show ?thesis by (intro exI [of _ 1]) simp
next
  assume "take 3 (drop k data) = [0, 0, 1]"
  then show ?thesis by (intro exI [of _ 0]) simp
qed

lemma nal_no_start:
  assumes "nal_ok u" "k < length u"
  shows "\<not> start_at (u @ tail) k"
proof
  assume "start_at (u @ tail) k"
  then obtain n where n: "take (n + 3) (drop k (u @ tail)) = replicate n 0 @ [0, 0, 1]" "n \<le> 1"
    using start_at_cases by blast
  have l: "u \<noteq> []" "u ! (length u - 1) \<noteq> 0" "\<not> sublist [0, 0, 1] u"
    using assms(1) by (auto simp: nal_ok_def last_conv_nth)
  show False
  proof (cases "k + n + 3 \<le> length u")
    case True
    then have "take (n + 3) (drop k u) = replicate n 0 @ [0, 0, 1]" using n(1) by simp
    then have "drop n (take (n + 3) (drop k u)) = [0, 0, 1]" by simp
    then have "sublist [0, 0, 1] (take (n + 3) (drop k u))" by (metis sublist_drop)
    moreover have "sublist (take (n + 3) (drop k u)) u"
      using sublist_order.order_trans sublist_take sublist_drop by blast
    ultimately show False using l(3) sublist_order.order_trans by blast
  next
    case False
    define j where "j = length u - 1 - k"
    have j: "k + j = length u - 1" "j < n + 2" using assms(2) False by (auto simp: j_def)
    have "(take (n + 3) (drop k (u @ tail))) ! j = (u @ tail) ! (k + j)"
      using j(2) assms(2) by (subst nth_take) (simp, subst nth_drop, auto)
    moreover have "(u @ tail) ! (k + j) = u ! (length u - 1)"
      using j(1) l(1) by (simp add: nth_append)
    moreover have "(replicate n 0 @ [0, 0, 1]) ! j = (0 :: byte)"
      using j(2) n(2) by (cases "j < n") (auto simp: nth_append less_Suc_eq nth_Cons' )
    ultimately show False using n(1) l(2) by simp
  qed
qed

lemma findStartCode_skip1: "\<not> start_at data p \<Longrightarrow> findStartCode data p = findStartCode data (Suc p)"
  by (subst (1 2) findStartCode_eq) (auto simp: findStartCode_eq [of data "Suc p"])

lemma findStartCode_skip:
  "(\<And>k. k < m \<Longrightarrow> \<not> start_at data (p + k)) \<Longrightarrow> findStartCode data p = findStartCode data (p + m)"
proof (induction m)
  case 0
  then show ?case by simp
next
  case (Suc m)
  then show ?case using findStartCode_skip1 [of data "p + m"] by simp
qed

lemma findStartCode_after_unit:
  assumes "nal_ok u" "drop p data = u @ tail" "tail = [] \<or> start_at tail 0 \<and> 3 \<le> length tail"
  shows "findStartCode data p = Some (if tail = [] then SIZE_MAX else p + length u)"
proof -
  have l: "length data - p = length u + length tail" using arg_cong [OF assms(2), of length] by simp
  have "findStartCode data p = findStartCode data (p + length u)"
    using findStartCode_skip [of "length u" data p] nal_no_start [OF assms(1)]
    by (simp add: start_at_shift assms(2))
  moreover have "start_at data (p + length u) = start_at tail 0"
    using drop_append_eq [OF assms(2)] start_at_shift [of data "p + length u" 0] by simp
  ultimately show ?thesis
    using assms(3) l findStartCode_eq [of data "p + length u"] by auto
qed


lemma start_code_start:
  "start_at (start_code l @ xs) 0"
  "(take 4 (start_code l @ xs) = [0, 0, 0, 1]) = l"
  "length (start_code l) = (if l then 4 else 3)"
  by (auto simp: start_at_def start_code_def)

lemma annexb_encode_Cons: "annexb_encode ((l, u) # us) = start_code l @ u @ annexb_encode us"
  by (simp add: annexb_encode_def)

lemma annexb_tail:
  "annexb_encode us = [] \<longleftrightarrow> us = []"
  "us \<noteq> [] \<Longrightarrow> start_at (annexb_encode us) 0 \<and> 3 \<le> length (annexb_encode us)"
proof -
  show "annexb_encode us = [] \<longleftrightarrow> us = []"
    by (cases us) (auto simp: annexb_encode_def start_code_def split: if_splits)
  assume "us \<noteq> []"
  then obtain l u us' where "us = (l, u) # us'" by (cases us) auto
  then have e: "annexb_encode us = start_code l @ u @ annexb_encode us'" by (simp add: annexb_encode_Cons)
  show "start_at (annexb_encode us) 0 \<and> 3 \<le> length (annexb_encode us)"
    unfolding e using start_code_start(1,3) by simp
qed

lemma splitAnnexB_loop_units:
  assumes "length data < SIZE_MAX"
  shows "us \<noteq> [] \<Longrightarrow> list_all (\<lambda>(l, u). nal_ok u) us \<Longrightarrow> drop pos data = annexb_encode us \<Longrightarrow>
    length data - pos \<le> fuel \<Longrightarrow> splitAnnexB_loop fuel data pos = Some (butlast (map snd us))"
proof (induction us arbitrary: pos fuel)
  case Nil
  then show ?case by simp
next
  case (Cons lu us)
  obtain l u where lu: "lu = (l, u)" by (cases lu)
  have ok: "nal_ok u" and oks: "list_all (\<lambda>(l, u). nal_ok u) us" using Cons.prems(2) lu by auto
  have d: "drop pos data = start_code l @ u @ annexb_encode us"
    using Cons.prems(3) lu by (simp add: annexb_encode_Cons)
  define ns where "ns = pos + length (start_code l)"
  have dn: "drop ns data = u @ annexb_encode us" using drop_append_eq [OF d] by (simp add: ns_def)
  have len: "length data - pos = length (start_code l) + length u + length (annexb_encode us)"
    using arg_cong [OF d, of length] by simp
  obtain fuel' where fuel: "fuel = Suc fuel'"
    using len Cons.prems(4) start_code_start(3) [of l] by (cases fuel) (auto split: if_splits)
  have p: "pos + 3 \<le> length data" using len start_code_start(3) [of l] by (auto split: if_splits)
  have sa: "start_at data pos" using start_at_shift [of data pos 0] start_code_start(1) d by simp
  have ns: "ns = pos + (if take 4 (drop pos data) = [0, 0, 0, 1] then 4 else 3)"
    unfolding d start_code_start(2) ns_def start_code_start(3) by (rule refl)
  have u: "u \<noteq> []" using ok by (simp add: nal_ok_def)
  show ?case
  proof (cases "us = []")
    case True
    then have "findStartCode data ns = Some SIZE_MAX"
      using findStartCode_after_unit [OF ok dn] annexb_tail(1) by simp
    from splitAnnexB_loop_step [OF p sa ns this] fuel assms True lu show ?thesis
      by (cases fuel') auto
  next
    case False
    have f: "findStartCode data ns = Some (ns + length u)"
      using findStartCode_after_unit [OF ok dn] annexb_tail(1,2) False by simp
    have "splitAnnexB_loop fuel' data (ns + length u) = Some (butlast (map snd us))"
      using Cons.IH [OF False oks drop_append_eq [OF dn]] Cons.prems(4) fuel start_code_start(3) [of l]
      by (auto simp: ns_def split: if_splits)
    moreover have "ns + length u \<le> length data" using len p by (auto simp: ns_def)
    ultimately show ?thesis
      using splitAnnexB_loop_step [OF p sa ns f, of fuel'] fuel lu u False dn by simp
  qed
qed

lemma byte_of_nat_eq: "(of_nat k :: byte) = of_nat c \<longleftrightarrow> k mod 256 = c mod 256"
  by (simp add: word_of_nat_eq_iff take_bit_eq_mod)

lemma div_nat_eq_1: "n div 256 = Suc 0 \<longleftrightarrow> 256 \<le> n \<and> n < (512 :: nat)"
  by linarith

lemma be32_looks_like_start_code:
  assumes "n < 2 ^ 32"
  shows "start_at (be32_bytes n @ xs) 0 \<longleftrightarrow> n = 1 \<or> 256 \<le> n \<and> n < 512"
proof -
  define a b c where "a = n div 2 ^ 24" and "b = n div 2 ^ 16" and "c = n div 2 ^ 8"
  have "start_at (be32_bytes n @ xs) 0 \<longleftrightarrow>
      a mod 256 = 0 \<and> b mod 256 = 0 \<and> (c mod 256 = 0 \<and> n mod 256 = 1 \<or> c mod 256 = 1)"
    using byte_of_nat_eq [of a 0] byte_of_nat_eq [of b 0] byte_of_nat_eq [of c 0] byte_of_nat_eq [of c 1]
      byte_of_nat_eq [of n 1]
    unfolding start_at_def be32_bytes_def drop_bit_eq_div a_def b_def c_def by simp blast
  moreover have "a < 256" using assms by (simp add: a_def less_mult_imp_div_less)
  then have "a mod 256 = 0 \<longleftrightarrow> n < 2 ^ 24" by (simp add: a_def div_eq_0_iff)
  moreover have "b mod 256 = 0 \<longleftrightarrow> n < 2 ^ 16" if "n < 2 ^ 24"
    using that by (simp add: b_def div_eq_0_iff less_mult_imp_div_less)
  moreover have "c mod 256 = c" if "n < 2 ^ 16"
    using that by (simp add: c_def less_mult_imp_div_less)
  moreover have "c = 0 \<longleftrightarrow> n < 256" "c = 1 \<longleftrightarrow> 256 \<le> n \<and> n < 512"
    unfolding c_def by (simp_all add: div_eq_0_iff div_nat_eq_1)
  moreover have "n mod 256 = n" if "n < 256" using that by simp
  ultimately show ?thesis by auto
qed

subsection \<open>Whole packets\<close>

lemma list4_cases:
  obtains "length xs < 4" | a b c d rest where "xs = a # b # c # d # rest"
  by (cases "length xs < 4") (auto simp: not_less eval_nat_numeral Suc_le_length_iff)

lemma isAnnexBFormat_eq:
  "isAnnexBFormat data = Some (4 \<le> length data \<and> start_at data 0)"
proof (cases "4 \<le> length data")
  case True
  then obtain a b c d rest where "data = a # b # c # d # rest"
    by (cases data rule: list4_cases) auto
  then show ?thesis by (auto simp: isAnnexBFormat_def start_at_def eval_nat_numeral rd_def)
next
  case False
  then show ?thesis by (simp add: isAnnexBFormat_def)
qed

lemma parseSeiFromNal_total: "\<exists>r. parseSeiFromNal nal h = Some r"
  by (auto simp: parseSeiFromNal_def Let_def)

lemma parse_all_eq: "parse_all us h = Some (concat (map (\<lambda>u. the (parseSeiFromNal u h)) us))"
proof (induction us)
  case Nil
  then show ?case by simp
next
  case (Cons u us)
  then show ?case using parseSeiFromNal_total [of u h] by auto
qed

lemma splitAnnexBNalus_total: "length data < SIZE_MAX \<Longrightarrow> \<exists>us. splitAnnexBNalus data = Some us"
  using findStartCode_total [of data 0] splitAnnexB_loop_total [of data _ "length data"]
  by (fastforce simp: splitAnnexBNalus_def)


subsection \<open>The profile repair\<close>

definition sc_len :: "byte list \<Rightarrow> nat \<Rightarrow> nat" where
  "sc_len data p =
     (if data ! p = 0 \<and> data ! Suc p = 0
      then if data ! (p + 2) = 1 then 3 else if data ! (p + 2) = 0 \<and> data ! (p + 3) = 1 then 4 else 0
      else 0)"

lemma sc_len_cases: "sc_len data p = 0 \<or> sc_len data p = 3 \<or> sc_len data p = 4"
  by (simp add: sc_len_def)

lemma findSPS_loop_eq:
  "findSPS_loop data current =
     (if current + 4 < length data
      then if sc_len data current = 0 then findSPS_loop data (Suc current)
           else let nal_start = current + sc_len data current
                in if data ! nal_start AND 0x1F = 7 \<and> nal_start + 2 < length data
                   then Some (Some (nal_start + 1, nal_start + 2)) else findSPS_loop data nal_start
      else Some None)"
proof (cases "current + 4 < length data")
  case True
  then have s: "startCodeAt data current = Some (sc_len data current)"
    by (simp add: startCodeAt_def sc_len_def)
  have "\<not> length data \<le> current + sc_len data current" using True sc_len_cases [of data current] by auto
  with True s show ?thesis
    by (subst findSPS_loop.simps) (simp add: Let_def)
next
  case False
  then show ?thesis by (subst findSPS_loop.simps) simp
qed

definition sps_next :: "byte list \<Rightarrow> nat \<Rightarrow> nat" where
  "sps_next data p = (if sc_len data p = 0 then Suc p else p + sc_len data p)"

definition sps_here :: "byte list \<Rightarrow> nat \<Rightarrow> bool" where
  "sps_here data p \<longleftrightarrow> sc_len data p \<noteq> 0 \<and> data ! sps_next data p AND 0x1F = 7 \<and> sps_next data p + 2 < length data"

lemma findSPS_loop_step:
  "current + 4 < length data \<Longrightarrow> findSPS_loop data current =
     (if sps_here data current then Some (Some (sps_next data current + 1, sps_next data current + 2))
      else findSPS_loop data (sps_next data current))"
  by (subst findSPS_loop_eq) (simp add: sps_here_def sps_next_def Let_def)

lemma findSPS_loop_stop: "\<not> current + 4 < length data \<Longrightarrow> findSPS_loop data current = Some None"
  by (subst findSPS_loop_eq) simp

lemma sps_next_gt: "current < sps_next data current" "sps_here data current \<Longrightarrow> current + 3 \<le> sps_next data current"
  using sc_len_cases [of data current] by (auto simp: sps_next_def sps_here_def)

lemma findSPS_loop_total:
  "\<exists>r. findSPS_loop data current = Some r
     \<and> (\<forall>i j. r = Some (i, j) \<longrightarrow> j = Suc i \<and> current + 4 \<le> i \<and> j < length data)"
proof (induction "length data - current" arbitrary: current rule: less_induct)
  case less
  show ?case
  proof (cases "current + 4 < length data")
    case True
    then have "length data - sps_next data current < length data - current"
      using sps_next_gt(1) [of current data] by simp
    from less [OF this] obtain r where r: "findSPS_loop data (sps_next data current) = Some r"
      "\<forall>i j. r = Some (i, j) \<longrightarrow> j = Suc i \<and> sps_next data current + 4 \<le> i \<and> j < length data" by blast
    show ?thesis
    proof (cases "sps_here data current")
      case sps: True
      then show ?thesis
        using findSPS_loop_step [OF True] sps_next_gt(2) [OF sps] by (simp add: sps_here_def)
    next
      case False
      then have e: "findSPS_loop data current = Some r" using findSPS_loop_step [OF True] r(1) by simp
      have "current + 4 \<le> i" if "sps_next data current + 4 \<le> i" for i
        using that sps_next_gt(1) [of current data] by simp
      with e r(2) show ?thesis by blast
    qed
  next
    case False
    then show ?thesis by (simp add: findSPS_loop_stop)
  qed
qed

lemma findSPS_found:
  assumes "findSPS_loop data current = Some (Some (i, j))"
  shows "j = Suc i \<and> current + 4 \<le> i \<and> j < length data"
  using findSPS_loop_total [of data current] unfolding assms by blast

text \<open>The search depends on the bytes up to the NAL header of the unit it finds only.\<close>

lemma findSPS_loop_local:
  assumes "length data' = length data"
  shows "findSPS_loop data current = Some (Some (i, j)) \<Longrightarrow> (\<And>k. k < i \<Longrightarrow> data' ! k = data ! k)
    \<Longrightarrow> findSPS_loop data' current = Some (Some (i, j))"
proof (induction "length data - current" arbitrary: current rule: less_induct)
  case less
  have b: "current + 4 < length data"
    using less.prems(1) findSPS_loop_stop [of current data] by fastforce
  let ?n = "sps_next data current"
  have i1: "current + 4 \<le> i" using findSPS_found [OF less.prems(1)] by simp
  have i2: "?n < i"
  proof (cases "sps_here data current")
    case True
    then show ?thesis using less.prems(1) findSPS_loop_step [OF b] by simp
  next
    case False
    then have "findSPS_loop data ?n = Some (Some (i, j))" using less.prems(1) findSPS_loop_step [OF b] by simp
    from findSPS_found [OF this] show ?thesis by simp
  qed
  have eq: "sc_len data' current = sc_len data current" "data' ! ?n = data ! ?n"
    using less.prems(2) i1 i2 by (simp_all add: sc_len_def)
  then have "sps_next data' current = ?n" by (simp add: sps_next_def)
  with eq have same: "sps_next data' current = ?n" "sps_here data' current = sps_here data current"
    by (simp_all add: sps_here_def assms)
  have b': "current + 4 < length data'" using b assms by simp
  show ?case
  proof (cases "sps_here data current")
    case True
    then show ?thesis
      using findSPS_loop_step [OF b] findSPS_loop_step [OF b'] same less.prems(1) by simp
  next
    case False
    then have "findSPS_loop data ?n = Some (Some (i, j))"
      using findSPS_loop_step [OF b] less.prems(1) by simp
    moreover have "length data - ?n < length data - current" using b sps_next_gt(1) [of current data] by simp
    ultimately have "findSPS_loop data' ?n = Some (Some (i, j))" using less.hyps less.prems(2) by blast
    then show ?thesis using findSPS_loop_step [OF b'] same False by simp
  qed
qed


lemma fixCommon_local:
  "fixH264ProfileCommon b i (Suc i) d = (f, d') \<Longrightarrow> length d' = length d \<and> (\<forall>k<i. d' ! k = d ! k)"
  by (auto simp: fixH264ProfileCommon_def split: if_splits)

lemma fixCommon_valid:
  "Suc i < length d \<Longrightarrow> fixH264ProfileCommon (d ! i) i (Suc i) d = (f, d') \<Longrightarrow>
     d' ! i \<in> set getValidH264Profiles \<and> (if f then d' = (d[i := 66])[Suc i := 0xc0] else d' = d)"
  by (auto simp: fixH264ProfileCommon_def getValidH264Profiles_def nth_list_update split: if_splits)

lemma findSPSInAnnexB_total: "\<exists>r. findSPSInAnnexB d = Some r"
  using findSPS_loop_total by (auto simp: findSPSInAnnexB_def split: option.splits) blast

lemma fix_packet_unfold:
  assumes "length e = length d" "pkt_size p = int (length d)" "\<not> length d < 8"
  shows "fixAnnexBSPSProfileInPacket (Some (p\<lparr>pkt_data := Some e\<rparr>)) =
      (case the (findSPS_loop e 0) of None \<Rightarrow> Some (False, Some (p\<lparr>pkt_data := Some e\<rparr>))
       | Some (i, j) \<Rightarrow> (case fixH264ProfileCommon (e ! i) i j e of
                           (f, e') \<Rightarrow> Some (f, Some (p\<lparr>pkt_data := Some e'\<rparr>))))"
proof -
  obtain r where r: "findSPS_loop e 0 = Some r" using findSPS_loop_total by blast
  show ?thesis
  proof (cases r)
    case None
    with r assms show ?thesis by (simp add: fixAnnexBSPSProfileInPacket_def findSPSInAnnexB_def)
  next
    case (Some ij)
    obtain i j where ij: "ij = (i, j)" by (cases ij)
    then have "i < length e" using findSPS_found [of e 0 i j] r Some by simp
    with r assms Some ij show ?thesis
      by (simp add: fixAnnexBSPSProfileInPacket_def findSPSInAnnexB_def Let_def)
  qed
qed

subsection \<open>Properties\<close>

text \<open>
  removing emulation prevention bytes undoes inserting them, for every byte sequence.
\<close>

theorem removeEPB_roundtrip: "removeEPB (insertEPB 0 rbsp) = rbsp"
  using removeEPB_insert [of 0 rbsp] by simp

text \<open>
  An AVCC stream splits into exactly the units it was built from.
\<close>

theorem splitAvccNalus_roundtrip:
  assumes "list_all (\<lambda>u. length u < 2 ^ 32) units"
  shows "splitAvccNalus (avcc_encode units) = units"
  by (rule splitAvcc_encode [OF assms])

theorem splitAvccNalus_roundtrip_witness:
  "splitAvccNalus (avcc_encode [[6, 1], [], [65, 0, 0, 1]]) = [[6, 1], [], [65, 0, 0, 1]]"
  by (rule splitAvccNalus_roundtrip) simp

text \<open>
  an Annex B stream splits into its units in order, whatever mixture of three- and four-byte
  start codes separates them, except that the last unit is always dropped: the units are not
  empty, do not end in a zero byte and contain no start code.
\<close>

theorem splitAnnexBNalus_drops_last:
  assumes "units \<noteq> []" "list_all (\<lambda>(long, u). nal_ok u) units" "length (annexb_encode units) < SIZE_MAX"
  shows "splitAnnexBNalus (annexb_encode units) = Some (butlast (map snd units))"
proof -
  have "findStartCode (annexb_encode units) 0 = Some 0"
    using findStartCode_eq [of "annexb_encode units" 0] annexb_tail(2) [OF assms(1)] by simp
  then show ?thesis
    using splitAnnexB_loop_units [OF assms(3,1,2), of 0 "length (annexb_encode units)"]
    by (simp add: splitAnnexBNalus_def)
qed

theorem splitAnnexBNalus_drops_last_witness:
  "splitAnnexBNalus (annexb_encode [(True, [103, 66]), (False, [104, 1]), (True, [101, 9])])
     = Some [[103, 66], [104, 1]]"
proof -
  have "nal_ok [103, 66]" "nal_ok [104, 1]" "nal_ok [101, 9]"
    by (simp_all add: nal_ok_def sublist_Cons_right)
  moreover have "length (annexb_encode [(True, [103, 66]), (False, [104, 1]), (True, [101, 9])]) < SIZE_MAX"
    by (simp add: annexb_encode_def start_code_def SIZE_MAX_def)
  ultimately show ?thesis
    using splitAnnexBNalus_drops_last [of "[(True, [103, 66]), (False, [104, 1]), (True, [101, 9])]"] by simp
qed

text \<open>
  C23: SEI parsing inverts SEI writing.  For a NAL unit with an H.264 or HEVC SEI header whose
  body is a sequence of SEI messages, closed by the stop byte and protected by emulation
  prevention, the parser returns exactly the user-data-unregistered messages of at least 16
  bytes, in order, each with its UUID and its payload.
\<close>

theorem parseSeiFromNal_roundtrip:
  assumes "list_all (\<lambda>(t, p). t < 2 ^ 32 \<and> length p < 2 ^ 32) ms"
    and "if hevc then length hdr = 2 \<and> drop_bit 1 (hd hdr) AND 0x3F \<in> {39, 40}
         else length hdr = 1 \<and> hd hdr AND 0x1F = 6"
  shows "parseSeiFromNal (hdr @ insertEPB 0 (sei_rbsp ms)) hevc = Some (concat (map user_data ms))"
proof -
  have r: "removeEPB (insertEPB 0 (sei_rbsp ms)) = sei_rbsp ms"
    using removeEPB_insert [of 0 "sei_rbsp ms"] by simp
  have m: "sei_messages (sei_rbsp ms) 0 = concat (map user_data ms)"
    using sei_messages_rbsp [of 0 "sei_rbsp ms" ms] assms(1) by simp
  obtain b rest where h: "hdr = b # rest" using assms(2) by (cases hdr) (auto split: if_splits)
  show ?thesis
    using assms(2) by (cases hevc) (auto simp: parseSeiFromNal_def h r m Let_def)
qed

theorem parseSeiFromNal_roundtrip_witness:
  "parseSeiFromNal ([6] @ insertEPB 0 (sei_rbsp [(1, [0, 0, 0]), (5, replicate 16 7 @ [0, 0, 1])])) False
     = Some [\<lparr>sei_uuid = replicate 16 7, sei_payload = [0, 0, 1]\<rparr>]"
  using parseSeiFromNal_roundtrip [of "[(1, [0, 0, 0]), (5, replicate 16 7 @ [0, 0, 1])]" False "[6]"]
  by (simp add: user_data_def)



definition sample_data_packet :: "byte list \<Rightarrow> av_packet" where
  "sample_data_packet d = \<lparr>pkt_data = Some d, pkt_size = int (length d), pkt_pts = 0, pkt_dts = 0,
     pkt_duration = 0, pkt_stream_index = 0, pkt_flags = 0\<rparr>"


lemma parseSEIFromPacket_data:
  "d \<noteq> [] \<Longrightarrow> isAnnexBFormat d = Some False \<Longrightarrow>
     parseSEIFromPacket \<lparr>pk_packet = Some (sample_data_packet d), pk_serial = s\<rparr> hevc = parse_all (splitAvccNalus d) hevc"
  by (simp add: parseSEIFromPacket_def Packet_get_def sample_data_packet_def)

text \<open>
  the test for Annex B takes an AVCC packet for Annex B exactly when its first unit is one
  byte long or 256 to 511 bytes long (the length field then looks like a start code); otherwise
  every user-data message of every unit of an AVCC packet is returned.
\<close>

theorem parseSEIFromPacket_AVCC:
  assumes "list_all (\<lambda>u. length u < 2 ^ 32) (u # units)" "length (avcc_encode (u # units)) < SIZE_MAX"
  shows "isAnnexBFormat (avcc_encode (u # units)) = Some (length u = 1 \<or> 256 \<le> length u \<and> length u < 512)
       \<and> (if length u = 1 \<or> 256 \<le> length u \<and> length u < 512 then True
          else parseSEIFromPacket \<lparr>pk_packet = Some (sample_data_packet (avcc_encode (u # units))), pk_serial = s\<rparr> hevc
                 = Some (concat (map (\<lambda>v. the (parseSeiFromNal v hevc)) (u # units))))"
proof -
  let ?d = "avcc_encode (u # units)"
  have "?d = be32_bytes (length u) @ u @ avcc_encode units" by (simp add: avcc_encode_def)
  then have a: "isAnnexBFormat ?d = Some (length u = 1 \<or> 256 \<le> length u \<and> length u < 512)"
    using assms(1) be32_looks_like_start_code [of "length u"] by (simp add: isAnnexBFormat_eq be32_bytes_def)
  have "?d \<noteq> []" by (simp add: avcc_encode_def be32_bytes_def)
  from parseSEIFromPacket_data [OF this, of s hevc] a splitAvcc_encode [OF assms(1)] parse_all_eq
  show ?thesis by auto
qed

theorem parseSEIFromPacket_AVCC_witness:
  "isAnnexBFormat (avcc_encode [replicate 300 65]) = Some True
   \<and> parseSEIFromPacket \<lparr>pk_packet = Some (sample_data_packet (avcc_encode [[65, 1, 2]])), pk_serial = 0\<rparr> False = Some []"
  using parseSEIFromPacket_AVCC [of "replicate 300 65" "[]"] parseSEIFromPacket_AVCC [of "[65, 1, 2]" "[]" 0 False]
  by (simp add: avcc_encode_def be32_bytes_def SIZE_MAX_def parseSeiFromNal_def)



end
