(* ===== verification/VideoDecoders.thy ===== *)
theory VideoDecoders
  imports DecodeLoops HardwareAccels NalBitstream
begin

text \<open>
  Class \<open>VideoDecoder\<close> (\<open>src/src/decoder/video_decoder.h\<close>, \<open>video_decoder.cpp\<close>): the
  decoding loop with its key-frame gate, the hardware set-up and the fall back to software, the conversion of
  frames, the pacing.

  The class extends \<open>DecoderBase\<close>; its loop is built from the pieces of \<open>DecodeLoops\<close>.  The
  accelerator's table of contexts holds one entry here, the decoder's own.  A null pointer that is read is \<open>UB\<close>.
\<close>

record VideoDecoder = DecoderBase +
  vd_hwAccel :: "HardwareAccel option"
  vd_hwAccelType :: HWAccelType
  vd_deviceIndex :: int
  vd_softPixelFormat :: AVPixelFormat
  vd_requireFrameInMemory :: bool
  vd_enableParseUserSEIData :: bool
  vd_memoryFrame :: Frame
  vd_swsFrame :: Frame
  vd_enableHardwareFallback :: bool
  vd_needFixSPSProfile :: bool

record video_calls = decode_calls +
  vc_transfer :: transfer_calls
  vc_sws_context :: bool
  vc_get_buffer :: "av_frame \<Rightarrow> int \<times> av_frame"
  vc_sws_scale :: "av_frame \<Rightarrow> av_frame \<Rightarrow> int \<times> av_frame"
  vc_copy_props :: "av_frame \<Rightarrow> av_frame \<Rightarrow> av_frame"
  vc_codec :: codec_calls

text \<open>The fields of \<open>Config\<close> the video decoder reads.\<close>

record video_config =
  vcfg_hwAccelType :: HWAccelType
  vcfg_hwDeviceIndex :: int
  vcfg_swVideoOutFormat :: ImageFormat
  vcfg_requireFrameInSystemMemory :: bool
  vcfg_enableHardwareFallback :: bool
  vcfg_enableParseUserSEIData :: bool

definition kVideoDecoderName :: string where "kVideoDecoderName = ''Video Decoder''"
definition kDefaultFallbackToleranceTime :: int where "kDefaultFallbackToleranceTime = 2000"

definition AV_CODEC_ID_H264 :: int where "AV_CODEC_ID_H264 = 27"
definition AV_CODEC_ID_H265 :: int where "AV_CODEC_ID_H265 = 173"

definition VideoDecoder_init :: "video_config \<Rightarrow> VideoDecoder \<Rightarrow> VideoDecoder" where
  "VideoDecoder_init config b =
     b\<lparr>vd_hwAccelType := vcfg_hwAccelType config, vd_deviceIndex := vcfg_hwDeviceIndex config,
       vd_softPixelFormat := imageFormat2AVPixelFormat (vcfg_swVideoOutFormat config),
       vd_requireFrameInMemory := vcfg_requireFrameInSystemMemory config,
       vd_enableHardwareFallback := vcfg_enableHardwareFallback config,
       vd_enableParseUserSEIData := vcfg_enableParseUserSEIData config\<rparr>"

text \<open>The defaults of \<open>Config\<close>.\<close>

definition default_video_config :: video_config where
  "default_video_config =
     \<lparr>vcfg_hwAccelType = HW_kAuto, vcfg_hwDeviceIndex = 0, vcfg_swVideoOutFormat = IF_kYUV420P,
      vcfg_requireFrameInSystemMemory = False, vcfg_enableHardwareFallback = True, vcfg_enableParseUserSEIData = True\<rparr>"

definition VideoDecoder_new :: "int \<Rightarrow> VideoDecoder" where
  "VideoDecoder_new now =
     VideoDecoder_init default_video_config
       (DecoderBase.extend (DecoderBase_new now AVMEDIA_TYPE_VIDEO)
         \<lparr>vd_hwAccel = None, vd_hwAccelType = HW_kAuto, vd_deviceIndex = 0, vd_softPixelFormat = AV_PIX_FMT_YUV420P,
          vd_requireFrameInMemory = False, vd_enableParseUserSEIData = False, vd_memoryFrame = Frame_new,
          vd_swsFrame = Frame_new, vd_enableHardwareFallback = True, vd_needFixSPSProfile = False\<rparr>)"

definition VideoDecoder_requireFrameInSystemMemory :: "bool \<Rightarrow> VideoDecoder \<Rightarrow> VideoDecoder" where
  "VideoDecoder_requireFrameInSystemMemory required b = b\<lparr>vd_requireFrameInMemory := required\<rparr>"

definition VideoDecoder_getFrameRate :: "AVRational \<Rightarrow> double" where
  "VideoDecoder_getFrameRate guessed = av_q2d guessed"

subsection \<open>Hardware\<close>

definition needs_sps_fix :: "HardwareAccel \<Rightarrow> bool" where
  "needs_sps_fix a \<longleftrightarrow> HardwareAccel_getType a = HW_kD3d11va \<or> HardwareAccel_getType a = HW_kDxva2"

text \<open>The repair of the extra data of an H.264 stream.  It reads inside the extra data, so that the last case is
  never taken (\<open>extradata_repair_total\<close>).\<close>

definition repair_extradata :: "codec_ctx \<Rightarrow> bool \<times> codec_ctx" where
  "repair_extradata c =
     (case fixH264ProfileIfNeeded (Some \<lparr>cx_is_h264 = (cc_codec_id c = AV_CODEC_ID_H264), cx_extradata = cc_extradata c\<rparr>) of
        Some (fixed, Some x) \<Rightarrow> (fixed, c\<lparr>cc_extradata := cx_extradata x\<rparr>)
      | _ \<Rightarrow> (False, c))"

definition VideoDecoder_setupHardwareDecode :: "hw_calls \<Rightarrow> VideoDecoder \<Rightarrow> bool \<times> VideoDecoder" where
  "VideoDecoder_setupHardwareDecode hc b =
     (let b1 = b\<lparr>vd_needFixSPSProfile := False\<rparr>
      in case createHardwareAccel hc (vd_hwAccelType b1) (vd_deviceIndex b1) of
           None \<Rightarrow> (False, b1\<lparr>vd_hwAccel := None\<rparr>)
         | Some a \<Rightarrow>
             if HardwareAccel_getType a = HW_kNone then (False, b1\<lparr>vd_hwAccel := None\<rparr>)
             else (case db_codecCtx b1 of
                     None \<Rightarrow> (False, b1\<lparr>vd_hwAccel := None\<rparr>)
                   | Some c \<Rightarrow>
                       if \<not> fst (HardwareAccel_setupDecoder hc 0 (Some 0) a Map.empty)
                       then (False, b1\<lparr>vd_hwAccel := None\<rparr>)
                       else let c1 = c\<lparr>cc_hw_device_ctx := True\<rparr>;
                                (fixed, c2) = (if needs_sps_fix a \<and> cc_codec_id c1 = AV_CODEC_ID_H264
                                                  \<and> (case cc_extradata c1 of None \<Rightarrow> False | Some d \<Rightarrow> d \<noteq> [])
                                               then repair_extradata c1 else (False, c1))
                            in (True, b1\<lparr>vd_hwAccel := Some a, db_codecCtx := Some c2, vd_needFixSPSProfile := fixed\<rparr>)))"

definition VideoDecoder_removeHardwareDecode :: "VideoDecoder \<Rightarrow> VideoDecoder" where
  "VideoDecoder_removeHardwareDecode b = b\<lparr>vd_hwAccel := None\<rparr>"

definition VideoDecoder_shouldFallbackToSoftware :: "int \<Rightarrow> VideoDecoder \<Rightarrow> bool" where
  "VideoDecoder_shouldFallbackToSoftware errorCode b \<longleftrightarrow>
     vd_enableHardwareFallback b
     \<and> (case db_codecCtx b of None \<Rightarrow> False | Some c \<Rightarrow> cc_hw_device_ctx c) \<and> errorCode = AVERROR_INVALIDDATA"

text \<open>The index of the stream is not checked again.\<close>

definition VideoDecoder_reinitializeWithSoftwareDecoder ::
    "codec_calls \<Rightarrow> Demuxer \<Rightarrow> VideoDecoder \<Rightarrow> bool outcome \<times> VideoDecoder" where
  "VideoDecoder_reinitializeWithSoftwareDecoder kc d b =
     (let b1 = b\<lparr>db_codecCtx := None, vd_hwAccel := None, vd_needFixSPSProfile := False\<rparr>
      in case dm_formatContext d of
           None \<Rightarrow> (Ret False, b1)
         | Some fc \<Rightarrow>
             if db_streamIndex b1 < 0 \<or> nat (db_streamIndex b1) \<ge> length (fc_streams fc) then (UB, b1)
             else
               let st = fc_streams fc ! nat (db_streamIndex b1);
                   b2 = b1\<lparr>db_stream := Some st\<rparr>
               in case kc_find_decoder kc st of
                    None \<Rightarrow> (Ret False, b2)
                  | Some (name, cid) \<Rightarrow>
                      if \<not> kc_alloc_context kc then (Ret False, b2)
                      else if kc_parameters kc < 0 then (Ret False, b2)
                      else if kc_open2 kc < 0 then (Ret False, b2)
                      else (Ret True, b2\<lparr>db_codecCtx := Some (fresh_ctx kc name cid)\<rparr>))"

subsection \<open>Frames\<close>

definition VideoDecoder_calculateFrameDuration :: "Frame \<Rightarrow> double \<Rightarrow> VideoDecoder \<Rightarrow> double outcome" where
  "VideoDecoder_calculateFrameDuration frame defaultDuration b =
     (case Frame_get frame of
        None \<Rightarrow> Ret (Fin 0)
      | Some a \<Rightarrow>
          if fm_duration a > 0
          then (case db_stream b of
                  None \<Rightarrow> UB
                | Some st \<Rightarrow> Ret (d_mul (Fin (of_int (fm_duration a))) (av_q2d (st_time_base st))))
          else Ret defaultDuration)"

type_synonym vd_env = "VideoDecoder decode_env"

text \<open>A failure of a conversion: the error is reported and an empty frame returned.\<close>

definition conversion_failed :: "string \<Rightarrow> vd_env \<Rightarrow> Frame outcome \<times> vd_env" where
  "conversion_failed description e =
     (case report_error kVideoDecoderName MT_kMediaTypeVideo AVERROR_UNKNOWN description e of
        (Ret _, e1) \<Rightarrow> (Ret Frame_new, e1) | (Wait, e1) \<Rightarrow> (Wait, e1) | (UB, e1) \<Rightarrow> (UB, e1))"

definition VideoDecoder_transferHardwareFrame ::
    "frame_api \<Rightarrow> video_calls \<Rightarrow> Frame \<Rightarrow> vd_env \<Rightarrow> Frame outcome \<times> vd_env" where
  "VideoDecoder_transferHardwareFrame api vc hwFrame e =
     (let m = Frame_ensureAllocated api (vd_memoryFrame (de_dec e))
      in case vd_hwAccel (de_dec e) of
           None \<Rightarrow> (UB, e)
         | Some a \<Rightarrow>
             (case HardwareAccel_transferFrameToHost api (vc_transfer vc) (Frame_get hwFrame) (Frame_get m) a of
                (False, s) \<Rightarrow>
                  conversion_failed ''TransferFrameToHost failed!'' (e\<lparr>de_dec := (de_dec e)\<lparr>vd_memoryFrame := m\<lparr>fr_frame := s\<rparr>\<rparr>\<rparr>)
              | (True, s) \<Rightarrow>
                  (Ret (fst (Frame_move (m\<lparr>fr_frame := s\<rparr>))), e\<lparr>de_dec := (de_dec e)\<lparr>vd_memoryFrame := Frame_new\<rparr>\<rparr>)))"

definition VideoDecoder_convertSoftwareFrame ::
    "frame_api \<Rightarrow> video_calls \<Rightarrow> Frame \<Rightarrow> vd_env \<Rightarrow> Frame outcome \<times> vd_env" where
  "VideoDecoder_convertSoftwareFrame api vc frame e =
     (let s = Frame_ensureAllocated api (vd_swsFrame (de_dec e));
          keep = (\<lambda>f. e\<lparr>de_dec := (de_dec e)\<lparr>vd_swsFrame := f\<rparr>\<rparr>)
      in if \<not> vc_sws_context vc then conversion_failed ''SwsContext alloc failed!'' (keep s)
         else
           let s1 = Frame_setAvPts (Frame_avPts frame) (Frame_setHeight (Frame_height frame)
                      (Frame_setWidth (Frame_width frame) (Frame_setPixelFormat (vd_softPixelFormat (de_dec e)) s)))
           in case (Frame_get s1, Frame_get frame) of
                (Some dst, Some src) \<Rightarrow>
                  (case vc_get_buffer vc dst of
                     (ret, dst1) \<Rightarrow>
                       if ret < 0 then conversion_failed ''Frame buffer alloc failed!'' (keep (s1\<lparr>fr_frame := Some dst1\<rparr>))
                       else (case vc_sws_scale vc src dst1 of
                               (ret2, dst2) \<Rightarrow>
                                 if ret2 \<le> 0 then conversion_failed ''SwsContext scale failed!'' (keep (s1\<lparr>fr_frame := Some dst2\<rparr>))
                                 else (Ret (fst (Frame_move (s1\<lparr>fr_frame := Some (vc_copy_props vc dst2 src)\<rparr>))),
                                       keep Frame_new)))
              | _ \<Rightarrow> (UB, keep s1))"

definition VideoDecoder_processFrameConversion ::
    "frame_api \<Rightarrow> video_calls \<Rightarrow> Frame \<Rightarrow> vd_env \<Rightarrow> Frame outcome \<times> vd_env" where
  "VideoDecoder_processFrameConversion api vc inputFrame e =
     (case Frame_get inputFrame of
        None \<Rightarrow> (Ret Frame_new, e)
      | Some avFrame \<Rightarrow>
          let isHardwareFrame = fm_hw_frames_ctx avFrame;
              currentFormat = Frame_pixelFormat inputFrame;
              soft = vd_softPixelFormat (de_dec e);
              inMemory = vd_requireFrameInMemory (de_dec e)
          in if \<not> isHardwareFrame \<and> \<not> inMemory \<and> currentFormat = soft then (Ret (Frame_copy api inputFrame), e)
             else if isHardwareFrame \<and> inMemory
             then (case VideoDecoder_transferHardwareFrame api vc inputFrame e of
                     (Ret memoryFrame, e1) \<Rightarrow>
                       if \<not> Frame_isValid memoryFrame then (Ret Frame_new, e1)
                       else if Frame_pixelFormat memoryFrame \<noteq> soft then VideoDecoder_convertSoftwareFrame api vc memoryFrame e1
                       else (Ret memoryFrame, e1)
                   | r \<Rightarrow> r)
             else if \<not> isHardwareFrame \<and> currentFormat \<noteq> soft then VideoDecoder_convertSoftwareFrame api vc inputFrame e
             else (Ret (Frame_copy api inputFrame), e))"


subsection \<open>The decoding loop\<close>

text \<open>The repair of the profile in a key frame in Annex B format.\<close>

definition repair_packet :: "int \<Rightarrow> av_packet \<Rightarrow> VideoDecoder \<Rightarrow> av_packet option" where
  "repair_packet codecId p b =
     (if codecId = AV_CODEC_ID_H264 \<and> (case vd_hwAccel b of None \<Rightarrow> False | Some a \<Rightarrow> needs_sps_fix a) \<and> vd_needFixSPSProfile b
      then case pkt_data p of
             None \<Rightarrow> Some p
           | Some buf \<Rightarrow>
               if nat (pkt_size p) > length buf then None
               else case isAnnexBFormat (take (nat (pkt_size p)) buf) of
                      None \<Rightarrow> None
                    | Some isAnnexB \<Rightarrow>
                        if isAnnexB \<and> pkt_flags p AND AV_PKT_FLAG_KEY \<noteq> 0
                        then (case fixAnnexBSPSProfileInPacket (Some p) of Some (_, Some p1) \<Rightarrow> Some p1 | _ \<Rightarrow> None)
                        else Some p
      else Some p)"

text \<open>A packet the decoder refuses: after two seconds of refusals before the first frame, hardware decoding is given up.\<close>

definition send_failed :: "video_calls \<Rightarrow> int \<Rightarrow> decode_thread \<Rightarrow> vd_env \<Rightarrow> unit outcome \<times> vd_env" where
  "send_failed vc ret t e =
     (if kt_readFirstFrame t \<or> \<not> VideoDecoder_shouldFallbackToSoftware ret (de_dec e) then (Ret (), jump KP_Loop t e)
      else
        let since = (case kt_errorStartTime t of None \<Rightarrow> dc_now vc | Some s \<Rightarrow> s);
            t1 = t\<lparr>kt_errorStartTime := Some since\<rparr>
        in if trunc_to_int (of_int (dc_now vc - since) / 1000000) < kDefaultFallbackToleranceTime
           then (Ret (), jump KP_Loop t1 e)
           else case VideoDecoder_reinitializeWithSoftwareDecoder (vc_codec vc) (de_demuxer e) (de_dec e) of
                  (Ret True, b1) \<Rightarrow>
                    (Ret (), jump KP_Loop (t1\<lparr>kt_hasKeyFrame := False, kt_errorStartTime := None,
                        kt_codecId := (case db_codecCtx b1 of None \<Rightarrow> 0 | Some c \<Rightarrow> cc_codec_id c)\<rparr>) (e\<lparr>de_dec := b1\<rparr>))
                | (Ret False, b1) \<Rightarrow> (Ret (), loop_end (dc_now vc) t1 (e\<lparr>de_dec := b1\<rparr>))
                | (_, b1) \<Rightarrow> (UB, e\<lparr>de_dec := b1\<rparr>))"

text \<open>A packet of the current serial number: the key-frame gate, the SEI messages, the codec.\<close>

definition video_packet :: "video_calls \<Rightarrow> Packet \<Rightarrow> decode_thread \<Rightarrow> vd_env \<Rightarrow> unit outcome \<times> vd_env" where
  "video_packet vc packet t e =
     (case (Packet_get packet, db_codecCtx (de_dec e)) of
        (Some p, Some _) \<Rightarrow>
          if \<not> kt_hasKeyFrame t \<and> pkt_flags p AND AV_PKT_FLAG_KEY = 0 then (Ret (), jump KP_Loop t e)
          else
            let t1 = t\<lparr>kt_hasKeyFrame := True\<rparr>;
                codecId = kt_codecId t1;
                parsed = (if vd_enableParseUserSEIData (de_dec e) \<and> (codecId = AV_CODEC_ID_H264 \<or> codecId = AV_CODEC_ID_H265)
                          then parseSEIFromPacket packet (codecId = AV_CODEC_ID_H265) else Some [])
            in case (parsed, repair_packet codecId p (de_dec e)) of
                 (Some seiDataList, Some p1) \<Rightarrow>
                   let ret = dc_send_packet vc p1
                   in if ret < 0 \<and> ret \<noteq> AVERROR_EAGAIN \<and> ret \<noteq> AVERROR_EOF then send_failed vc ret t1 e
                      else (Ret (), jump KP_Receive (t1\<lparr>kt_seiDataList := seiDataList\<rparr>) e)
               | _ \<Rightarrow> (UB, e)
      | _ \<Rightarrow> (UB, e))"

text \<open>A frame that is not dropped: its events, its conversion.\<close>

definition video_frame ::
    "frame_api \<Rightarrow> video_calls \<Rightarrow> Frame \<Rightarrow> double \<Rightarrow> double \<Rightarrow> decode_thread \<Rightarrow> vd_env \<Rightarrow> unit outcome \<times> vd_env" where
  "video_frame api vc frame pts duration t e =
     and_then (frame_events kVideoDecoderName MT_kMediaTypeVideo t e)
       (\<lambda>e1. case VideoDecoder_processFrameConversion api vc frame e1 of
               (Ret outputFrame, e2) \<Rightarrow>
                 if \<not> Frame_isValid outputFrame then (Ret (), jump KP_Receive (frame_seen t) e2)
                 else (Ret (), jump (KP_Write outputFrame pts duration (dc_now vc)) (frame_seen t) e2)
             | (Wait, e2) \<Rightarrow> (Wait, e2)
             | (UB, e2) \<Rightarrow> (UB, e2))"

definition video_receive :: "frame_api \<Rightarrow> video_calls \<Rightarrow> decode_thread \<Rightarrow> vd_env \<Rightarrow> unit outcome \<times> vd_env" where
  "video_receive api vc t e =
     (case dc_receive_frame vc of
        (ret, avFrame) \<Rightarrow>
          if ret = AVERROR_EAGAIN then (Ret (), jump KP_Loop t e)
          else if ret < 0
          then (case report_error kVideoDecoderName MT_kMediaTypeVideo ret ''Decoder error: '' e of
                  (Ret handled, e1) \<Rightarrow> (Ret (), jump KP_Loop (t\<lparr>kt_occuredError := (kt_occuredError t \<or> handled)\<rparr>) e1)
                | (Wait, e1) \<Rightarrow> (Wait, e1) | (UB, e1) \<Rightarrow> (UB, e1))
          else
            let frame = Frame_new\<lparr>fr_frame := Some avFrame\<rparr>
            in case (VideoDecoder_calculateFrameDuration frame (kt_avgDuration t) (de_dec e), DecoderBase_calculatePts frame (de_dec e)) of
                 (Ret duration, Ret pts) \<Rightarrow>
                   let sync = (if isnan pts then de_sync e
                               else StreamSyncManager_updateVideoClock (dc_now vc) pts (sint (kt_serial t)) (de_sync e))
                   in (case seek_drop pts (de_dec e) of
                         (dropped, b1) \<Rightarrow>
                           let e1 = e\<lparr>de_sync := sync, de_dec := b1\<rparr>
                           in if dropped then (Ret (), jump KP_Receive t e1) else video_frame api vc frame pts duration t e1)
               | _ \<Rightarrow> (UB, e))"

definition video_fill :: "double \<Rightarrow> double \<Rightarrow> decode_thread \<Rightarrow> Frame \<Rightarrow> Frame" where
  "video_fill pts duration t f =
     Frame_setUserSEIDataList (kt_seiDataList t) (Frame_setMediaType AVMEDIA_TYPE_VIDEO (Frame_setSecPts pts
       (Frame_setDurationByFps duration (Frame_setSerial (kt_serial t) f))))"

text \<open>The pacing of a frame that has been written into its slot: it may still be dropped.\<close>

definition video_pace ::
    "video_calls \<Rightarrow> double \<Rightarrow> double \<Rightarrow> int \<Rightarrow> decode_thread \<Rightarrow> vd_env \<Rightarrow> unit outcome \<times> vd_env" where
  "video_pace vc pts duration currentTime t e =
     (let b = de_dec e
      in if \<not> DecoderBase_isFrameRateControlEnabled b then (Ret (), jump KP_Commit t e)
         else case DecoderBase_calculateFrameDisplayTime pts (d_mul duration (Fin 1000)) currentTime (db_lastFrameTime b) b of
                (Ret baseDelay, lastFrameTime) \<Rightarrow>
                  (case StreamSyncManager_computeVideoDelay (dc_now vc) pts duration baseDelay (DecoderBase_speed b) (de_sync e) of
                     (syncDelay, sync) \<Rightarrow>
                       let e1 = e\<lparr>de_dec := b\<lparr>db_lastFrameTime := lastFrameTime\<rparr>, de_sync := sync\<rparr>
                       in if d_lt syncDelay (Fin 0) then (Ret (), jump KP_Receive t e1)
                          else if sleep_ok syncDelay then (Ret (), jump KP_Commit t e1)
                          else (UB, e1))
              | _ \<Rightarrow> (UB, e))"

definition video_write ::
    "video_calls \<Rightarrow> Frame \<Rightarrow> double \<Rightarrow> double \<Rightarrow> int \<Rightarrow> decode_thread \<Rightarrow> vd_env \<Rightarrow> unit outcome \<times> vd_env" where
  "video_write vc outputFrame pts duration currentTime t e =
     (case fill_slot (video_fill pts duration t) outputFrame (de_dec e) of
        (Wait, _) \<Rightarrow> (Wait, e)
      | (UB, _) \<Rightarrow> (UB, e)
      | (Ret None, b) \<Rightarrow> (Ret (), jump KP_Loop t (e\<lparr>de_dec := b\<rparr>))
      | (Ret (Some _), b) \<Rightarrow> video_pace vc pts duration currentTime t (e\<lparr>de_dec := b\<rparr>))"

definition video_start :: "video_calls \<Rightarrow> decode_thread \<Rightarrow> vd_env \<Rightarrow> unit outcome \<times> vd_env" where
  "video_start vc t e =
     (case (env_queue e, db_codecCtx (de_dec e)) of
        (Some _, None) \<Rightarrow> (UB, e)
      | (_, c) \<Rightarrow>
          loop_start (dc_now vc) kVideoDecoderName MT_kMediaTypeVideo StreamSyncManager_updateVideoClock
            (t\<lparr>kt_codecId := (case c of None \<Rightarrow> 0 | Some c \<Rightarrow> cc_codec_id c),
               kt_avgDuration := d_div (Fin 1) (VideoDecoder_getFrameRate (dc_guess_frame_rate vc))\<rparr>) e)"

definition video_paused :: "video_calls \<Rightarrow> decode_thread \<Rightarrow> vd_env \<Rightarrow> unit outcome \<times> vd_env" where
  "video_paused vc t e =
     (if db_requestInterruption (de_dec e) then (Ret (), loop_end (dc_now vc) t e)
      else if db_isPaused (de_dec e) then (Ret (), jump KP_Loop t e)
      else (Ret (), jump KP_Loop (t\<lparr>kt_readFirstFrame := False\<rparr>) (e\<lparr>de_dec := (de_dec e)\<lparr>db_lastFrameTime := None\<rparr>\<rparr>)))"

definition VideoDecoder_decodeLoop :: "frame_api \<Rightarrow> video_calls \<Rightarrow> vd_env \<Rightarrow> unit outcome \<times> vd_env" where
  "VideoDecoder_decodeLoop api vc e =
     (case db_thread (de_dec e) of
        None \<Rightarrow> (Wait, e)
      | Some t \<Rightarrow>
          (case kt_pc t of
             KP_Start \<Rightarrow> video_start vc t e
           | KP_Loop \<Rightarrow> loop_head (dc_now vc) StreamSyncManager_updateVideoClock t e
           | KP_Paused \<Rightarrow> video_paused vc t e
           | KP_Pop \<Rightarrow> (case loop_pop (dc_now vc) t e of Inl r \<Rightarrow> r | Inr (packet, e1) \<Rightarrow> video_packet vc packet t e1)
           | KP_Receive \<Rightarrow> video_receive api vc t e
           | KP_Write f pts duration currentTime \<Rightarrow> video_write vc f pts duration currentTime t e
           | KP_Commit \<Rightarrow> loop_commit (dc_now vc) t e
           | KP_Ended \<Rightarrow> (Wait, e)))"


subsection \<open>Lemmas\<close>

lemma extradata_repair_total: "\<exists>fixed x. fixH264ProfileIfNeeded (Some c) = Some (fixed, Some x)"
proof (cases "cx_extradata c")
  case (Some d)
  show ?thesis
  proof (cases "\<not> cx_is_h264 c \<or> length d < 8")
    case False
    then have d: "d \<noteq> []" "2 < length d" by auto
    obtain r where r: "findSPS_loop d 0 = Some r" using findSPS_loop_total by blast
    have in_range: "i < length d" if "r = Some (i, j)" for i j using findSPS_found [of d 0 i j] r that by simp
    show ?thesis
      using Some False d r in_range
      by (cases r) (auto simp: fixH264ProfileIfNeeded_def findSPSInAnnexB_def rd_def split_beta Let_def)
  qed (use Some in \<open>auto simp: fixH264ProfileIfNeeded_def\<close>)
qed (auto simp: fixH264ProfileIfNeeded_def)

lemma setup_sel:
  "db_type (snd (VideoDecoder_setupHardwareDecode hc b)) = db_type b"
  "db_isOpened (snd (VideoDecoder_setupHardwareDecode hc b)) = db_isOpened b"
  "db_isStarted (snd (VideoDecoder_setupHardwareDecode hc b)) = db_isStarted b"
  "db_frameQueue (snd (VideoDecoder_setupHardwareDecode hc b)) = db_frameQueue b"
  "db_codecCtx b = Some c \<Longrightarrow> \<exists>c'. db_codecCtx (snd (VideoDecoder_setupHardwareDecode hc b)) = Some c'"
  by (auto simp: VideoDecoder_setupHardwareDecode_def Let_def split_beta split: option.splits)

interpretation video_hooks: decoder_class "VideoDecoder_setupHardwareDecode hc" VideoDecoder_removeHardwareDecode for hc
  by unfold_locales (auto intro: setup_sel simp: setup_sel VideoDecoder_removeHardwareDecode_def)


text \<open>The steps of the video decoder, of the threads around it, and changes of the speed.\<close>

datatype vd_label = VD_Turn | VD_Other | VD_Speed u16

inductive vd_step :: "frame_api \<Rightarrow> vd_env \<Rightarrow> vd_label \<Rightarrow> vd_env \<Rightarrow> bool" for api where
  turn: "VideoDecoder_decodeLoop api vc e = (Ret (), e') \<Longrightarrow> vd_step api e VD_Turn e'"
| other: "other_step api e e' \<Longrightarrow> vd_step api e VD_Other e'"
| speed: "vd_step api e (VD_Speed v) (e\<lparr>de_dec := (de_dec e)\<lparr>db_speed := v\<rparr>\<rparr>)"

inductive_cases vd_stepE: "vd_step api e l e'"

text \<open>A decoder that is marked as seeking although its loop has already seen the new serial number.\<close>

definition late_mark :: "vd_env \<Rightarrow> bool" where
  "late_mark e \<longleftrightarrow> db_type (de_dec e) = AVMEDIA_TYPE_VIDEO \<and> db_demuxerSeeking (de_dec e)
     \<and> (case (db_thread (de_dec e), env_queue e) of
          (Some t, Some q) \<Rightarrow> kt_serial t = pq_serial q \<and> kt_pc t \<in> {KP_Loop, KP_Paused, KP_Pop, KP_Receive, KP_Ended}
        | _ \<Rightarrow> False)"

lemma late_markI:
  "db_type (de_dec e) = AVMEDIA_TYPE_VIDEO \<Longrightarrow> db_demuxerSeeking (de_dec e) \<Longrightarrow> db_thread (de_dec e) = Some t
    \<Longrightarrow> env_queue e = Some q \<Longrightarrow> kt_serial t = pq_serial q
    \<Longrightarrow> kt_pc t \<in> {KP_Loop, KP_Paused, KP_Pop, KP_Receive, KP_Ended} \<Longrightarrow> late_mark e"
  by (simp add: late_mark_def)

text \<open>The state a turn of such a decoder leads to: marked again, with the same frame queue.\<close>

definition still_late :: "vd_env \<Rightarrow> vd_env \<Rightarrow> bool" where
  "still_late e e' \<longleftrightarrow> late_mark e' \<and> db_frameQueue (de_dec e') = db_frameQueue (de_dec e)"

lemma late_jump:
  assumes "db_type (de_dec e) = AVMEDIA_TYPE_VIDEO" "db_demuxerSeeking (de_dec e)" "env_queue e = Some q"
    "kt_serial t = pq_serial q" "pc \<in> {KP_Loop, KP_Paused, KP_Pop, KP_Receive, KP_Ended}"
  shows "late_mark (jump pc t e)" "late_mark (loop_end now t e)"
  using assms by (auto simp: late_mark_def)

lemma late_head:
  assumes "late_mark e" "db_thread (de_dec e) = Some t" "loop_head now upd t e = (r, e')"
  shows "still_late e e'"
proof -
  obtain q where q: "env_queue e = Some q" "kt_serial t = pq_serial q" "db_type (de_dec e) = AVMEDIA_TYPE_VIDEO"
      "db_demuxerSeeking (de_dec e)"
    using assms(1,2) by (auto simp: late_mark_def split: option.splits)
  then show ?thesis using assms
    by (auto simp: still_late_def loop_head_def Let_def DecoderBase_checkAndUpdateSerial_def PacketQueue_serial_def
        intro: late_jump split: if_splits)
qed

lemma reinit_sel:
  assumes "VideoDecoder_reinitializeWithSoftwareDecoder kc d b = (r, b')"
  shows "db_type b' = db_type b \<and> db_demuxerSeeking b' = db_demuxerSeeking b \<and> db_frameQueue b' = db_frameQueue b
    \<and> db_isStarted b' = db_isStarted b \<and> (r = Ret True \<longleftrightarrow> db_codecCtx b' \<noteq> None)"
  using assms
  by (auto simp: VideoDecoder_reinitializeWithSoftwareDecoder_def Let_def split: if_splits option.splits)

lemma late_packet:
  assumes "db_type (de_dec e) = AVMEDIA_TYPE_VIDEO" "db_demuxerSeeking (de_dec e)" "env_queue e = Some q"
    "kt_serial t = pq_serial q" "video_packet vc packet t e = (Ret (), e')"
  shows "still_late e e'"
proof -
  have f: "still_late e e'" if "send_failed vc ret u e = (Ret (), e')" "kt_serial u = pq_serial q" for ret u
  proof -
    obtain r b where i: "VideoDecoder_reinitializeWithSoftwareDecoder (vc_codec vc) (de_demuxer e) (de_dec e) = (r, b)"
      by fastforce
    show ?thesis using that assms reinit_sel [OF i] i
      by (auto simp: send_failed_def Let_def still_late_def intro!: late_jump split: if_splits outcome.splits bool.splits)
  qed
  show ?thesis using assms f
    by (auto simp: video_packet_def Let_def still_late_def intro!: late_jump split: if_splits option.splits)
qed

lemma late_receive:
  assumes "db_type (de_dec e) = AVMEDIA_TYPE_VIDEO" "db_demuxerSeeking (de_dec e)" "env_queue e = Some q"
    "kt_serial t = pq_serial q" "video_receive api vc t e = (Ret (), e')"
  shows "still_late e e'"
proof -
  obtain r e1 where i: "report_error kVideoDecoderName MT_kMediaTypeVideo (fst (dc_receive_frame vc)) ''Decoder error: '' e = (r, e1)"
    by fastforce
  have q1: "env_queue e1 = Some q" using report_error_sel [OF i] assms(3) by (simp add: env_queue_def)
  show ?thesis using assms report_error_sel [OF i] i q1
    by (auto simp: video_receive_def Let_def still_late_def seek_drop_seeking intro!: late_jump
        split: if_splits outcome.splits prod.splits)
qed


lemma late_pop:
  assumes "late_mark e" "db_thread (de_dec e) = Some t" "kt_pc t = KP_Pop"
    "VideoDecoder_decodeLoop api vc e = (Ret (), e')"
  shows "still_late e e'"
proof -
  obtain q where q: "env_queue e = Some q" "kt_serial t = pq_serial q" "db_type (de_dec e) = AVMEDIA_TYPE_VIDEO"
      "db_demuxerSeeking (de_dec e)"
    using assms(1,2) by (auto simp: late_mark_def split: option.splits)
  obtain r q1 where p: "PacketQueue_pop 1 True q = (r, q1)" by fastforce
  let ?e1 = "e\<lparr>de_demuxer := set_queue (db_type (de_dec e)) q1 (de_demuxer e)\<rparr>"
  have q1: "env_queue ?e1 = Some q1" using q(3) by simp
  have s1: "kt_serial t = pq_serial q1" using pop_serial [OF p] q(2) by simp
  have e: "(case loop_pop (dc_now vc) t e of Inl r \<Rightarrow> r | Inr (packet, e1) \<Rightarrow> video_packet vc packet t e1) = (Ret (), e')"
    using assms(2-4) by (simp add: VideoDecoder_decodeLoop_def)
  show ?thesis
  proof (cases r)
    case (Ret v)
    show ?thesis
    proof (cases v)
      case None
      with Ret p q e show ?thesis
        by (auto simp: loop_pop_def still_late_def intro!: late_jump split: if_splits)
    next
      case (Some packet)
      show ?thesis
      proof (cases "Packet_serial packet = kt_serial t")
        case True
        with Some Ret p q(1) e have "video_packet vc packet t ?e1 = (Ret (), e')" by (simp add: loop_pop_def)
        from late_packet [OF _ _ q1 s1 this] q(3,4) show ?thesis by (simp add: still_late_def)
      next
        case False
        with Some Ret p q(1) e have "e' = jump KP_Loop t ?e1" by (simp add: loop_pop_def)
        moreover have "late_mark (jump KP_Loop t ?e1)"
          by (rule late_jump [OF _ _ q1 s1]) (use q in simp_all)
        ultimately show ?thesis by (simp add: still_late_def)
      qed
    qed
  qed (use p q(1) e in \<open>auto simp: loop_pop_def\<close>)
qed

lemma late_turn:
  assumes "late_mark e" "VideoDecoder_decodeLoop api vc e = (Ret (), e')"
  shows "still_late e e'"
proof -
  obtain t q where q: "db_thread (de_dec e) = Some t" "env_queue e = Some q" "kt_serial t = pq_serial q"
      "db_type (de_dec e) = AVMEDIA_TYPE_VIDEO" "db_demuxerSeeking (de_dec e)"
      "kt_pc t \<in> {KP_Loop, KP_Paused, KP_Pop, KP_Receive, KP_Ended}"
    using assms(1) by (auto simp: late_mark_def split: option.splits)
  then consider "kt_pc t = KP_Loop" | "kt_pc t = KP_Paused" | "kt_pc t = KP_Pop" | "kt_pc t = KP_Receive" | "kt_pc t = KP_Ended"
    by blast
  then show ?thesis
  proof cases
    case 1
    with assms(2) q(1) show ?thesis by (auto simp: VideoDecoder_decodeLoop_def intro: late_head [OF assms(1)])
  next
    case 2
    with assms(2) q show ?thesis
      by (auto simp: VideoDecoder_decodeLoop_def video_paused_def still_late_def intro!: late_jump split: if_splits)
  next
    case 3
    then show ?thesis using late_pop [OF assms(1) q(1) _ assms(2)] by blast
  next
    case 4
    with assms(2) q show ?thesis by (auto simp: VideoDecoder_decodeLoop_def intro: late_receive)
  qed (use assms(2) q in \<open>simp add: VideoDecoder_decodeLoop_def\<close>)
qed

lemma late_other:
  assumes "late_mark e" "db_type b = db_type (de_dec e)" "db_demuxerSeeking b = db_demuxerSeeking (de_dec e)"
    "db_thread b = db_thread (de_dec e)"
  shows "late_mark (e\<lparr>de_dec := b\<rparr>)"
  using assms by (auto simp: late_mark_def split: option.splits)

lemma late_other_step: "other_step api e e' \<Longrightarrow> late_mark e \<Longrightarrow> late_mark e'"
proof (erule other_stepE)
  fix q q' assume "late_mark e" "env_queue e = Some q" "pq_serial q' = pq_serial q"
    "e' = e\<lparr>de_demuxer := set_queue (db_type (de_dec e)) q' (de_demuxer e)\<rparr>"
  then show "late_mark e'" by (auto simp: late_mark_def split: option.splits)
qed (auto intro: late_other)

lemma late_step: "late_mark e \<Longrightarrow> vd_step api e l e' \<Longrightarrow> late_mark e'"
  by (erule vd_stepE) (auto dest: late_turn late_other_step simp: still_late_def intro: late_other)

interpretation late: inductive_invariant late_mark "vd_step api" late_mark for api
  by unfold_locales (auto intro: late_step)

lemma pop_size: "FrameQueue_pop api n expired q = (Ret r, q') \<Longrightarrow> fq_size q' \<le> fq_size q"
  by (auto simp: FrameQueue_pop_def FrameQueue_popInternal_def Let_def split_beta
      split: outcome.splits bool.splits if_splits)

lemma late_no_frames:
  "exec (vd_step api) e ls e' \<Longrightarrow> late_mark e
    \<Longrightarrow> fq_size (db_frameQueue (de_dec e')) \<le> fq_size (db_frameQueue (de_dec e))"
proof (induction rule: exec.induct)
  case (exec_step e l e' ls e'')
  have "fq_size (db_frameQueue (de_dec e')) \<le> fq_size (db_frameQueue (de_dec e))"
    using exec_step.hyps(1) exec_step.prems
    by (cases rule: vd_stepE) (auto dest: late_turn pop_size elim!: other_stepE simp: still_late_def)
  then show ?case using exec_step.IH [OF late_step [OF exec_step.prems exec_step.hyps(1)]] by simp
qed simp


lemma video_packet_key:
  assumes "video_packet vc packet t e = (Ret (), e')" "db_thread (de_dec e') = Some t'"
  shows "kt_hasKeyFrame t' \<or> kt_pc t' = KP_Receive \<longrightarrow> kt_hasKeyFrame t
    \<or> (\<exists>p. Packet_get packet = Some p \<and> pkt_flags p AND AV_PKT_FLAG_KEY \<noteq> 0)"
proof (cases "kt_hasKeyFrame t \<or> (\<exists>p. Packet_get packet = Some p \<and> pkt_flags p AND AV_PKT_FLAG_KEY \<noteq> 0)")
  case False
  then show ?thesis using assms by (auto simp: video_packet_def split: option.splits if_splits)
qed simp

lemma pop_head:
  assumes "PacketQueue_pop 1 True q = (Ret (Some packet), q1)"
  shows "\<exists>rest. pq_queue q = packet # rest"
  using assms
  by (auto simp: PacketQueue_pop_def Let_def PacketQueue_canPop_def Packet_move_def split: if_splits list.splits)

lemma key_pop:
  assumes "kt_pc t = KP_Pop" "db_thread (de_dec e) = Some t" "VideoDecoder_decodeLoop api vc e = (Ret (), e')"
    "db_thread (de_dec e') = Some t'" "kt_hasKeyFrame t' \<or> kt_pc t' = KP_Receive"
  shows "kt_hasKeyFrame t \<or> (\<exists>q packet rest p. env_queue e = Some q \<and> pq_queue q = packet # rest
      \<and> Packet_serial packet = kt_serial t \<and> Packet_get packet = Some p \<and> pkt_flags p AND AV_PKT_FLAG_KEY \<noteq> 0)"
proof -
  have e: "(case loop_pop (dc_now vc) t e of Inl r \<Rightarrow> r | Inr (packet, e1) \<Rightarrow> video_packet vc packet t e1) = (Ret (), e')"
    using assms(1-3) by (simp add: VideoDecoder_decodeLoop_def)
  show ?thesis
  proof (cases "loop_pop (dc_now vc) t e")
    case (Inl r)
    with e have "loop_pop (dc_now vc) t e = Inl (Ret (), e')" by simp
    then have "kt_hasKeyFrame t' = kt_hasKeyFrame t \<and> kt_pc t' \<noteq> KP_Receive"
      using assms(4) by (auto simp: loop_pop_def Let_def split: option.splits outcome.splits prod.splits if_splits)
    with assms(5) show ?thesis by simp
  next
    case (Inr pe)
    obtain packet e1 where pe: "pe = (packet, e1)" by (cases pe)
    with Inr e have v: "video_packet vc packet t e1 = (Ret (), e')" by simp
    obtain q q1 where q: "env_queue e = Some q" "PacketQueue_pop 1 True q = (Ret (Some packet), q1)"
        "Packet_serial packet = kt_serial t"
      using Inr pe by (auto simp: loop_pop_def Let_def split: option.splits outcome.splits prod.splits if_splits)
    from video_packet_key [OF v assms(4)] assms(5) pop_head [OF q(2)] q(1,3) show ?thesis by blast
  qed
qed

subsection \<open>Properties\<close>

text \<open>
  C10: the key-frame gate.  When the loop notices a new serial number it waits for a key frame again, forgets
  the time of the last frame, and ends the seek; and the gate opens, and a packet reaches the codec, only with a
  packet from the head of the queue that carries the loop's serial number and is a key frame, unless the gate was
  open already.
\<close>

theorem VideoDecoder_key_frame_gate:
  assumes "db_thread (de_dec e) = Some t" "VideoDecoder_decodeLoop api vc e = (Ret (), e')" "db_thread (de_dec e') = Some t'"
  shows "(kt_pc t = KP_Loop \<and> kt_serial t' \<noteq> kt_serial t \<longrightarrow>
            \<not> kt_hasKeyFrame t' \<and> map_option pq_serial (env_queue e) = Some (kt_serial t')
            \<and> db_lastFrameTime (de_dec e') = None \<and> \<not> db_demuxerSeeking (de_dec e'))
    \<and> (kt_pc t = KP_Pop \<and> (kt_hasKeyFrame t' \<or> kt_pc t' = KP_Receive) \<longrightarrow>
         kt_hasKeyFrame t \<or> (\<exists>q packet rest p. env_queue e = Some q \<and> pq_queue q = packet # rest
            \<and> Packet_serial packet = kt_serial t \<and> Packet_get packet = Some p \<and> pkt_flags p AND AV_PKT_FLAG_KEY \<noteq> 0))"
proof (intro conjI impI)
  assume "kt_pc t = KP_Loop \<and> kt_serial t' \<noteq> kt_serial t"
  then show "\<not> kt_hasKeyFrame t'" "map_option pq_serial (env_queue e) = Some (kt_serial t')"
    "db_lastFrameTime (de_dec e') = None" "\<not> db_demuxerSeeking (de_dec e')"
    using assms
    by (auto simp: VideoDecoder_decodeLoop_def loop_head_def Let_def DecoderBase_checkAndUpdateSerial_def
        PacketQueue_serial_def split: if_splits option.splits)
next
  assume "kt_pc t = KP_Pop \<and> (kt_hasKeyFrame t' \<or> kt_pc t' = KP_Receive)"
  then show "kt_hasKeyFrame t \<or> (\<exists>q packet rest p. env_queue e = Some q \<and> pq_queue q = packet # rest
      \<and> Packet_serial packet = kt_serial t \<and> Packet_get packet = Some p \<and> pkt_flags p AND AV_PKT_FLAG_KEY \<noteq> 0)"
    using key_pop [OF _ assms(1,2,3)] by blast
qed

definition sample_video :: "decode_pc \<Rightarrow> u32 \<Rightarrow> VideoDecoder" where
  "sample_video pc serial = (VideoDecoder_new 0)\<lparr>db_isOpened := True, db_isStarted := True, db_streamIndex := 0,
     db_stream := Some \<lparr>st_codec_type = AVMEDIA_TYPE_VIDEO, st_codec_name = ''h264'', st_time_base = (1, 90000)\<rparr>,
     db_codecCtx := Some \<lparr>cc_name = ''h264'', cc_codec_id = 27, cc_hw_device_ctx = True, cc_hw_frames_ctx = False,
        cc_extradata = None, cc_sample_rate = 0\<rparr>,
     db_thread := Some (new_thread\<lparr>kt_pc := pc, kt_serial := serial\<rparr>)\<rparr>"

definition sample_env :: "decode_pc \<Rightarrow> u32 \<Rightarrow> vd_env" where
  "sample_env pc serial = \<lparr>de_demuxer = sample_demuxer, de_sync = sample_manager, de_dec = sample_video pc serial, de_events = []\<rparr>"

definition sample_video_calls :: "int \<Rightarrow> int \<Rightarrow> int \<times> av_frame \<Rightarrow> video_calls" where
  "sample_video_calls now sent received =
     \<lparr>dc_now = now, dc_guess_frame_rate = (25, 1), dc_send_packet = (\<lambda>_. sent), dc_receive_frame = received,
      vc_transfer = \<lparr>tc_get_buffer = (\<lambda>f. (0, f)), tc_transfer_data = (\<lambda>d s. (0, d)), tc_copy_props = (\<lambda>d s. d)\<rparr>,
      vc_sws_context = True, vc_get_buffer = (\<lambda>f. (0, f)), vc_sws_scale = (\<lambda>s d. (1, d)), vc_copy_props = (\<lambda>d s. d),
      vc_codec = sample_calls\<lparr>kc_open2 := -1\<rparr>\<rparr>"

lemma sample_env_sel [simp]:
  "db_thread (de_dec (sample_env pc s)) = Some (new_thread\<lparr>kt_pc := pc, kt_serial := s\<rparr>)"
  "env_queue (sample_env pc s) = Some (PacketQueue_start (PacketQueue_new 1000))"
  "db_type (de_dec (sample_env pc s)) = AVMEDIA_TYPE_VIDEO"
  by (simp_all add: sample_env_def sample_video_def env_queue_def Demuxer_packetQueue_def sample_sel
      VideoDecoder_new_def VideoDecoder_init_def DecoderBase_new_def DecoderBase.defs)


lemma sample_flags [simp]:
  "db_requestInterruption (de_dec (sample_env pc s)) = False" "db_waitingForPreBuffer (de_dec (sample_env pc s)) = False"
  "db_isPaused (de_dec (sample_env pc s)) = False" "db_seekPosMs (de_dec (sample_env pc s)) = -1"
  "db_demuxerSeeking (de_dec (sample_env pc s)) = False" "db_enableFrameControl (de_dec (sample_env pc s)) = True"
  "db_stream (de_dec (sample_env pc s)) = Some \<lparr>st_codec_type = AVMEDIA_TYPE_VIDEO, st_codec_name = ''h264'', st_time_base = (1, 90000)\<rparr>"
  "db_isStarted (de_dec (sample_env pc s)) = True"
  by (simp_all add: sample_env_def sample_video_def VideoDecoder_new_def VideoDecoder_init_def DecoderBase_new_def DecoderBase.defs)

theorem VideoDecoder_key_frame_gate_witness:
  "\<exists>e' t'. VideoDecoder_decodeLoop sample_frame_api (sample_video_calls 0 0 (0, blank_av_frame)) (sample_env KP_Loop 0) = (Ret (), e')
     \<and> db_thread (de_dec e') = Some t' \<and> \<not> kt_hasKeyFrame t' \<and> kt_serial t' = 1"
proof -
  let ?vc = "sample_video_calls 0 0 (0, blank_av_frame)"
  obtain e' t' where r: "VideoDecoder_decodeLoop sample_frame_api ?vc (sample_env KP_Loop 0) = (Ret (), e')"
      "db_thread (de_dec e') = Some t'" "kt_serial t' = 1"
    by (simp add: VideoDecoder_decodeLoop_def loop_head_def DecoderBase_checkAndUpdateSerial_def PacketQueue_serial_def
        PacketQueue_start_def PacketQueue_new_def new_thread_def Let_def)
  from VideoDecoder_key_frame_gate [OF _ r(1,2)] r show ?thesis by (auto simp: new_thread_def)
qed



definition sample_av_frame :: "int \<Rightarrow> av_frame" where
  "sample_av_frame pts = blank_av_frame\<lparr>fm_pts := pts, fm_duration := 3600, fm_format := AV_PIX_FMT_YUV420P\<rparr>"

definition sample_target :: "int \<Rightarrow> vd_env" where
  "sample_target ms = (sample_env KP_Receive 1)\<lparr>de_dec := (de_dec (sample_env KP_Receive 1))\<lparr>db_seekPosMs := ms\<rparr>\<rparr>"



text \<open>
  the mark of a seek can come too late.  A seek marks the decoder as seeking after it has asked the demuxer
  to seek.  When the loop has not yet seen the new serial number its next turn at the head ends the seek.  But when
  the demuxer has already served the request and the loop has seen it, the mark stays: whatever the loop, the demuxer
  and the consumer do until the next flush, no frame reaches the frame queue any more.
\<close>

theorem VideoDecoder_late_seek_mark:
  assumes "db_type (de_dec e) = AVMEDIA_TYPE_VIDEO" "db_thread (de_dec e) = Some t" "kt_pc t = KP_Loop" "env_queue e = Some q"
    "DecoderBase_setSeekPos pos (de_dec e) = (Ret (), b)"
  shows "if kt_serial t = pq_serial q
     then exec (vd_step api) (e\<lparr>de_dec := b\<rparr>) ls e' \<longrightarrow>
            db_demuxerSeeking (de_dec e') \<and> fq_size (db_frameQueue (de_dec e')) \<le> fq_size (db_frameQueue (de_dec e))
     else \<not> db_requestInterruption b \<and> \<not> db_waitingForPreBuffer b \<and> \<not> db_isPaused b \<longrightarrow>
            (\<exists>e'. VideoDecoder_decodeLoop api vc (e\<lparr>de_dec := b\<rparr>) = (Ret (), e') \<and> \<not> db_demuxerSeeking (de_dec e'))"
proof -
  have b: "db_type b = AVMEDIA_TYPE_VIDEO" "db_thread b = Some t" "db_demuxerSeeking b" "db_frameQueue b = db_frameQueue (de_dec e)"
    using assms(1,2,5) by (auto simp: DecoderBase_setSeekPos_def Let_def split: double.splits if_splits)
  have q: "env_queue (e\<lparr>de_dec := b\<rparr>) = Some q" using assms(1,4) b(1) by simp
  show ?thesis
  proof (cases "kt_serial t = pq_serial q")
    case True
    then have "late_mark (e\<lparr>de_dec := b\<rparr>)" using b q assms(3) by (auto intro: late_markI)
    with True late.exec_keeps [of api "e\<lparr>de_dec := b\<rparr>" ls e'] late_no_frames [of api "e\<lparr>de_dec := b\<rparr>" ls e'] b(4)
    show ?thesis by (auto simp: late_mark_def)
  next
    case False
    with b q assms(3) show ?thesis
      by (auto simp: VideoDecoder_decodeLoop_def loop_head_def Let_def DecoderBase_checkAndUpdateSerial_def PacketQueue_serial_def)
  qed
qed

theorem VideoDecoder_late_seek_mark_witness:
  "db_demuxerSeeking (snd (DecoderBase_setSeekPos (Fin 5) (sample_video KP_Loop 1)))
   \<and> (\<exists>e'. exec (vd_step sample_frame_api)
          ((sample_env KP_Loop 1)\<lparr>de_dec := snd (DecoderBase_setSeekPos (Fin 5) (sample_video KP_Loop 1))\<rparr>) [VD_Turn] e'
        \<and> db_demuxerSeeking (de_dec e'))"
proof -
  let ?e = "sample_env KP_Loop 1"
  let ?b = "snd (DecoderBase_setSeekPos (Fin 5) (sample_video KP_Loop 1))"
  let ?vc = "sample_video_calls 0 0 (0, blank_av_frame)"
  have s: "DecoderBase_setSeekPos (Fin 5) (de_dec ?e) = (Ret (), ?b)"
    by (simp add: sample_env_def DecoderBase_setSeekPos_def int64_range_def trunc_to_int_def Let_def)
  have b: "db_thread ?b = Some (new_thread\<lparr>kt_pc := KP_Loop, kt_serial := 1\<rparr>)" "db_requestInterruption ?b = False"
    "db_waitingForPreBuffer ?b = False" "db_isPaused ?b = False" "db_type ?b = AVMEDIA_TYPE_VIDEO" "db_demuxerSeeking ?b"
    by (simp_all add: DecoderBase_setSeekPos_def int64_range_def trunc_to_int_def Let_def sample_video_def VideoDecoder_new_def
        VideoDecoder_init_def DecoderBase_new_def DecoderBase.defs)
  then obtain e' where "VideoDecoder_decodeLoop sample_frame_api ?vc (?e\<lparr>de_dec := ?b\<rparr>) = (Ret (), e')"
    by (simp add: VideoDecoder_decodeLoop_def loop_head_def Let_def DecoderBase_checkAndUpdateSerial_def PacketQueue_serial_def
        PacketQueue_start_def PacketQueue_new_def)
  then have "exec (vd_step sample_frame_api) (?e\<lparr>de_dec := ?b\<rparr>) [VD_Turn] e'"
    by (intro exec_single vd_step.turn)
  with VideoDecoder_late_seek_mark [OF _ _ _ _ s, where api = sample_frame_api and ls = "[VD_Turn]" and e' = e'] b(6) show ?thesis
    by (auto simp: PacketQueue_start_def PacketQueue_new_def)
qed

text \<open>
  C13: a failed fall back to software.  When the codec refuses packets before the first frame for two seconds
  and the software decoder cannot be set up, the loop ends and the codec context is gone while the decoder still counts
  as started; stopping it then reads the null context.
\<close>

theorem VideoDecoder_failed_fallback:
  assumes "\<not> kt_readFirstFrame t" "VideoDecoder_shouldFallbackToSoftware ret (de_dec e)" "kt_errorStartTime t = Some since"
    "2000000000 \<le> dc_now vc - since" "db_isStarted (de_dec e)"
    "VideoDecoder_reinitializeWithSoftwareDecoder (vc_codec vc) (de_demuxer e) (de_dec e) = (Ret False, b)"
    "send_failed vc ret t e = (r, e')"
  shows "r = Ret () \<and> map_option kt_pc (db_thread (de_dec e')) = Some KP_Ended \<and> db_codecCtx (de_dec e') = None
    \<and> fst (DecoderBase_stopInternal (de_dec e')) = UB"
proof -
  have "2000 \<le> trunc_to_int (of_int (dc_now vc - since) / 1000000)"
    using assms(4) by (auto simp: trunc_to_int_def le_floor_iff)
  then have e: "r = Ret ()" "e' = loop_end (dc_now vc) (t\<lparr>kt_errorStartTime := Some since\<rparr>) (e\<lparr>de_dec := b\<rparr>)"
    using assms by (auto simp: send_failed_def Let_def kDefaultFallbackToleranceTime_def)
  from reinit_sel [OF assms(6)] assms(5) have "db_codecCtx b = None" "db_isStarted b" by auto
  then show ?thesis by (simp add: e DecoderBase_stopInternal_def codec_event_def Let_def)
qed

theorem VideoDecoder_failed_fallback_witness:
  "let e = sample_env KP_Pop 1; t = new_thread\<lparr>kt_errorStartTime := Some 0\<rparr>
   in fst (DecoderBase_stopInternal (de_dec (snd (send_failed (sample_video_calls 3000000000 0 (0, blank_av_frame)) AVERROR_INVALIDDATA t e)))) = UB"
proof -
  let ?e = "sample_env KP_Pop 1" and ?t = "new_thread\<lparr>kt_errorStartTime := Some 0\<rparr>"
  let ?vc = "sample_video_calls 3000000000 0 (0, blank_av_frame)"
  obtain fc where fc: "dm_formatContext sample_demuxer = Some fc" "fc_streams fc \<noteq> []"
    using sample_streams_ok sample_sel(4,6)
    by (auto simp: demuxer_streams_ok_def Demuxer_streamIndex_def split: option.splits)
  have b: "VideoDecoder_shouldFallbackToSoftware AVERROR_INVALIDDATA (de_dec ?e)" "db_streamIndex (de_dec ?e) = 0" "db_isStarted (de_dec ?e)"
    by (simp_all add: VideoDecoder_shouldFallbackToSoftware_def sample_env_def sample_video_def VideoDecoder_new_def VideoDecoder_init_def
        default_video_config_def DecoderBase_new_def DecoderBase.defs)
  have d: "de_demuxer ?e = sample_demuxer" by (simp add: sample_env_def)
  obtain b1 where i: "VideoDecoder_reinitializeWithSoftwareDecoder (vc_codec ?vc) (de_demuxer ?e) (de_dec ?e) = (Ret False, b1)"
    using fc by (simp add: VideoDecoder_reinitializeWithSoftwareDecoder_def d b(2) sample_video_calls_def sample_calls_def Let_def)
  obtain r e' where s: "send_failed ?vc AVERROR_INVALIDDATA ?t ?e = (r, e')" by fastforce
  from VideoDecoder_failed_fallback [OF _ b(1) _ _ b(3) i s] s show ?thesis
    by (simp add: new_thread_def sample_video_calls_def Let_def)
qed


text \<open>What FFmpeg documents of the calls of a conversion: a new reference has the format of its source, and
  allocating buffers, transferring, scaling and copying properties leave the format of the destination alone.\<close>

definition conversion_calls_ok :: "frame_api \<Rightarrow> video_calls \<Rightarrow> bool" where
  "conversion_calls_ok api vc \<longleftrightarrow>
     (\<forall>d s. fst (av_frame_ref api d s) = 0 \<longrightarrow> fm_format (snd (av_frame_ref api d s)) = fm_format s)
   \<and> (\<forall>f. fm_format (snd (vc_get_buffer vc f)) = fm_format f)
   \<and> (\<forall>s d. fm_format (snd (vc_sws_scale vc s d)) = fm_format d)
   \<and> (\<forall>d s. fm_format (vc_copy_props vc d s) = fm_format d)
   \<and> (\<forall>f. fm_format (snd (tc_get_buffer (vc_transfer vc) f)) = fm_format f)
   \<and> (\<forall>d s. fm_format (snd (tc_transfer_data (vc_transfer vc) d s)) = fm_format d)
   \<and> (\<forall>d s. fm_format (tc_copy_props (vc_transfer vc) d s) = fm_format d)"

lemma copy_format:
  assumes "conversion_calls_ok api vc" "Frame_isValid (Frame_copy api f)"
  shows "Frame_pixelFormat (Frame_copy api f) = Frame_pixelFormat f"
  using assms
  by (auto simp: conversion_calls_ok_def Frame_isValid_def Frame_copy_def Frame_ref_def Frame_pixelFormat_def on_frame_def split_beta
      split: option.splits if_splits)

lemma conversion_failed_result: "conversion_failed d e = (Ret f, e') \<Longrightarrow> \<not> Frame_isValid f"
  by (auto simp: conversion_failed_def Frame_isValid_def Frame_new_def split: prod.splits outcome.splits)

lemma convert_format:
  assumes "conversion_calls_ok api vc" "VideoDecoder_convertSoftwareFrame api vc f e = (Ret out, e')" "Frame_isValid out"
  shows "Frame_pixelFormat out = vd_softPixelFormat (de_dec e)"
proof -
  obtain s where s: "fr_frame (Frame_ensureAllocated api (vd_swsFrame (de_dec e))) = Some s"
    by (cases "fr_frame (vd_swsFrame (de_dec e))") (simp_all add: Frame_ensureAllocated_def)
  let ?dst = "s\<lparr>fm_format := vd_softPixelFormat (de_dec e), fm_width := Frame_width f, fm_height := Frame_height f, fm_pts := Frame_avPts f\<rparr>"
  have k: "fm_format (snd (vc_get_buffer vc x)) = fm_format x" "fm_format (snd (vc_sws_scale vc y x)) = fm_format x"
    "fm_format (vc_copy_props vc x y) = fm_format x" for x y
    using assms(1) by (auto simp: conversion_calls_ok_def)
  show ?thesis using assms(2,3) s
    by (auto simp: VideoDecoder_convertSoftwareFrame_def Let_def Frame_get_def Frame_setAvPts_def Frame_setHeight_def Frame_setWidth_def
        Frame_setPixelFormat_def upd_frame_def Frame_pixelFormat_def on_frame_def Frame_move_def split_beta k
        dest!: conversion_failed_result split: if_splits option.splits)
qed

lemma transfer_format:
  assumes "VideoDecoder_transferHardwareFrame api vc f e = (Ret out, e')"
  shows "vd_softPixelFormat (de_dec e') = vd_softPixelFormat (de_dec e)"
  using assms
  by (auto simp: VideoDecoder_transferHardwareFrame_def conversion_failed_def report_error_def DecoderBase_handleDecodeError_def
      decoder_event_def Let_def split: option.splits prod.splits bool.splits outcome.splits if_splits)

text \<open>
  C12: the format of the frames handed out.  Whatever the codec delivers, a frame that a conversion returns
  has the configured software format, except that a frame in hardware memory is passed on as it is when frames are
  not required in system memory.
\<close>

theorem VideoDecoder_output_format:
  assumes "conversion_calls_ok api vc" "VideoDecoder_processFrameConversion api vc f e = (Ret out, e')" "Frame_isValid out"
  shows "Frame_pixelFormat out
    = (if Frame_isInHardware f \<and> \<not> vd_requireFrameInMemory (de_dec e) then Frame_pixelFormat f else vd_softPixelFormat (de_dec e))"
proof -
  obtain a where a: "Frame_get f = Some a"
    using assms(2,3) by (cases "Frame_get f") (auto simp: VideoDecoder_processFrameConversion_def Frame_isValid_def Frame_new_def)
  then have h: "Frame_isInHardware f = fm_hw_frames_ctx a" by (simp add: Frame_isInHardware_def Frame_get_def)
  show ?thesis
  proof (cases "fm_hw_frames_ctx a \<and> vd_requireFrameInMemory (de_dec e)")
    case True
    obtain r e1 where t: "VideoDecoder_transferHardwareFrame api vc f e = (r, e1)" by fastforce
    with assms(2,3) a True obtain m where m: "r = Ret m" "Frame_isValid m"
      by (cases r) (auto simp: VideoDecoder_processFrameConversion_def Frame_isValid_def Frame_new_def Let_def split: if_splits)
    show ?thesis
    proof (cases "Frame_pixelFormat m = vd_softPixelFormat (de_dec e)")
      case False
      with assms(2) a True t m have "VideoDecoder_convertSoftwareFrame api vc m e1 = (Ret out, e')"
        by (simp add: VideoDecoder_processFrameConversion_def Let_def)
      from convert_format [OF assms(1) this assms(3)] transfer_format [of api vc f e m e1] t m(1) h True show ?thesis by simp
    next
      case eq: True
      with assms(2) a True t m have "out = m" by (simp add: VideoDecoder_processFrameConversion_def Let_def)
      with eq h True show ?thesis by simp
    qed
  next
    case False
    have k: "Frame_pixelFormat (Frame_copy api f) = Frame_pixelFormat f" if "out = Frame_copy api f"
      using copy_format [OF assms(1)] assms(3) that by simp
    show ?thesis using assms(2) a h False k convert_format [OF assms(1) _ assms(3)]
      by (auto simp: VideoDecoder_processFrameConversion_def Let_def split: if_splits)
  qed
qed

theorem VideoDecoder_output_format_witness:
  "\<exists>out e'. VideoDecoder_processFrameConversion sample_frame_api (sample_video_calls 0 0 (0, blank_av_frame))
       (Frame_new\<lparr>fr_frame := Some ((sample_av_frame 0)\<lparr>fm_format := AV_PIX_FMT_NV12\<rparr>)\<rparr>) (sample_env KP_Receive 1) = (Ret out, e')
     \<and> Frame_pixelFormat out = AV_PIX_FMT_YUV420P"
proof -
  let ?vc = "sample_video_calls 0 0 (0, blank_av_frame)" and ?f = "Frame_new\<lparr>fr_frame := Some ((sample_av_frame 0)\<lparr>fm_format := AV_PIX_FMT_NV12\<rparr>)\<rparr>"
  have c: "conversion_calls_ok sample_frame_api ?vc"
    by (simp add: conversion_calls_ok_def sample_frame_api_def sample_video_calls_def)
  have s: "vd_softPixelFormat (de_dec (sample_env KP_Receive 1)) = AV_PIX_FMT_YUV420P"
    "vd_swsFrame (de_dec (sample_env KP_Receive 1)) = Frame_new" "vd_requireFrameInMemory (de_dec (sample_env KP_Receive 1)) = False"
    by (simp_all add: sample_env_def sample_video_def VideoDecoder_new_def VideoDecoder_init_def default_video_config_def
        DecoderBase_new_def DecoderBase.defs)
  have h: "\<not> Frame_isInHardware ?f" by (simp add: Frame_isInHardware_def sample_av_frame_def blank_av_frame_def)
  obtain out e' where o: "VideoDecoder_processFrameConversion sample_frame_api ?vc ?f (sample_env KP_Receive 1) = (Ret out, e')" "Frame_isValid out"
    by (simp add: VideoDecoder_processFrameConversion_def VideoDecoder_convertSoftwareFrame_def s Let_def Frame_get_def Frame_pixelFormat_def
        Frame_setPixelFormat_def Frame_setWidth_def Frame_setHeight_def Frame_setAvPts_def upd_frame_def on_frame_def
        Frame_ensureAllocated_def Frame_new_def sample_av_frame_def blank_av_frame_def sample_video_calls_def Frame_move_def Frame_isValid_def)
  from VideoDecoder_output_format [OF c o] o h s(1) show ?thesis by auto
qed

text \<open>
  a stream whose frame rate is not known.  The loop then takes an infinite duration for frames that carry
  none, and with frame rate control the second frame of a run converts that to an integer, which is undefined.
\<close>

theorem VideoDecoder_unknown_frame_rate:
  assumes "dc_guess_frame_rate vc = (0, den)" "0 < den" "env_queue e = Some q" "db_codecCtx (de_dec e) = Some c"
    "video_start vc t e = (Ret (), e')"
  shows "\<exists>t'. db_thread (de_dec e') = Some t' \<and> kt_avgDuration t' = PInf
    \<and> (fm_duration av \<le> 0 \<longrightarrow>
         VideoDecoder_calculateFrameDuration (Frame_new\<lparr>fr_frame := Some av\<rparr>) (kt_avgDuration t') b = Ret PInf)
    \<and> (db_enableFrameControl b \<and> db_lastFrameTime b = Some l \<and> pts \<noteq> NaN \<longrightarrow>
         fst (video_pace vc pts PInf now t' (e'\<lparr>de_dec := b\<rparr>)) = UB)"
proof -
  have d: "d_div (Fin 1) (VideoDecoder_getFrameRate (dc_guess_frame_rate vc)) = PInf"
    using assms(1,2) by (simp add: VideoDecoder_getFrameRate_def av_q2d_def d_inf_def)
  obtain t' where t': "db_thread (de_dec e') = Some t'" "kt_avgDuration t' = PInf"
    using assms(3-5) d by (auto simp: video_start_def loop_start_def Let_def)
  have v: "(if d_le (DecoderBase_speed b) (Fin 0) then Fin 1 else DecoderBase_speed b)
      = Fin (if db_speed b = 0 then 1 else of_nat (unat (db_speed b)) / 1000)"
    using speed_simps [of b] by auto
  have p: "0 \<le> (if db_speed b = 0 then 1 else of_nat (unat (db_speed b)) / 1000 :: real)" by (simp del: of_nat_unat)
  have "d_div PInf (Fin x) = PInf" if "0 \<le> x" for x using that by simp
  with v p have "DecoderBase_calculateFrameDisplayTime pts PInf now (Some l) b = (UB, Some l)" if "pts \<noteq> NaN"
    using that by (simp add: DecoderBase_calculateFrameDisplayTime_def isnan_def Let_def d_inf_def del: d_div.simps)
  then have "fst (video_pace vc pts PInf now t' (e'\<lparr>de_dec := b\<rparr>)) = UB"
    if "db_enableFrameControl b \<and> db_lastFrameTime b = Some l \<and> pts \<noteq> NaN"
    using that by (simp add: video_pace_def DecoderBase_isFrameRateControlEnabled_def Let_def d_inf_def)
  with t' show ?thesis
    by (auto simp: VideoDecoder_calculateFrameDuration_def Frame_get_def)
qed

theorem VideoDecoder_unknown_frame_rate_witness:
  "\<exists>t' e'. kt_avgDuration t' = PInf
     \<and> fst (video_pace ((sample_video_calls 0 0 (0, blank_av_frame))\<lparr>dc_guess_frame_rate := (0, 1)\<rparr>) (Fin 0) PInf 0 t'
           (e'\<lparr>de_dec := (sample_video KP_Start 1)\<lparr>db_lastFrameTime := Some 0\<rparr>\<rparr>)) = UB"
proof -
  let ?vc = "(sample_video_calls 0 0 (0, blank_av_frame))\<lparr>dc_guess_frame_rate := (0, 1)\<rparr>"
  let ?b = "(sample_video KP_Start 1)\<lparr>db_lastFrameTime := Some 0\<rparr>"
  obtain c where c: "db_codecCtx (de_dec (sample_env KP_Start 1)) = Some c"
    by (simp add: sample_env_def sample_video_def)
  obtain e' where s: "video_start ?vc new_thread (sample_env KP_Start 1) = (Ret (), e')"
    by (simp add: video_start_def c loop_start_def Let_def)
  have f: "db_enableFrameControl ?b" using sample_flags(6) [of KP_Start 1] by (simp add: sample_env_def)
  obtain t' where "kt_avgDuration t' = PInf" "fst (video_pace ?vc (Fin 0) PInf 0 t' (e'\<lparr>de_dec := ?b\<rparr>)) = UB"
    using VideoDecoder_unknown_frame_rate [OF _ _ sample_env_sel(2) c s, of 1 blank_av_frame ?b 0 "Fin 0" 0] f by auto
  then show ?thesis by blast
qed

end
