(* ===== verification/AudioDecoders.thy ===== *)
theory AudioDecoders
  imports DecodeLoops HardwareAccels
begin

text \<open>
  Class \<open>AudioDecoder\<close> (\<open>src/src/decoder/audio_decoder.h\<close>, \<open>audio_decoder.cpp\<close>): the decoding
  loop, resampling for a playback speed other than one, and the conversion between planar and interleaved samples.

  The class extends \<open>DecoderBase\<close>; its loop is built from the pieces of \<open>DecodeLoops\<close>.  A
  resampler is known by its output rate.  The results of FFmpeg's calls are arguments (\<open>audio_calls\<close>).  The branches
  for libavutil 59 are the ones modelled.  Buffers are values: that a returned frame shares the buffer of the
  frame that is kept is not represented.
\<close>

record AudioDecoder = DecoderBase +
  ad_swrCtx :: "int option"
  ad_needResample :: bool
  ad_resampleFrame :: Frame
  ad_audioInterleaved :: bool
  ad_formatConvertCtx :: bool
  ad_lastSrcFormat :: AVSampleFormat
  ad_lastDstFormat :: AVSampleFormat
  ad_lastConvertSampleRate :: int
  ad_lastConvertChannels :: int
  ad_lastConvertChannelLayout :: u64
  ad_formatConvertFrame :: Frame

record audio_calls = decode_calls +
  ac_swr_alloc :: bool
  ac_swr_init :: int
  ac_swr_get_delay :: int
  ac_rescale_up :: "int \<Rightarrow> int \<Rightarrow> int \<Rightarrow> int"
  ac_get_buffer :: "av_frame \<Rightarrow> int \<times> av_frame"
  ac_swr_convert :: "int \<Rightarrow> av_frame \<Rightarrow> av_frame \<Rightarrow> int \<times> av_frame"
  ac_is_planar :: "AVSampleFormat \<Rightarrow> int"

definition kAudioDecoderName :: string where "kAudioDecoderName = ''Audio Decoder''"

definition AudioDecoder_init :: "bool \<Rightarrow> AudioDecoder \<Rightarrow> AudioDecoder" where
  "AudioDecoder_init audioInterleaved b = b\<lparr>ad_audioInterleaved := audioInterleaved\<rparr>"

definition AudioDecoder_new :: "int \<Rightarrow> AudioDecoder" where
  "AudioDecoder_new now =
     AudioDecoder_init True (DecoderBase.extend (DecoderBase_new now AVMEDIA_TYPE_AUDIO)
       \<lparr>ad_swrCtx = None, ad_needResample = False, ad_resampleFrame = Frame_new, ad_audioInterleaved = True,
        ad_formatConvertCtx = False, ad_lastSrcFormat = AV_SAMPLE_FMT_NONE, ad_lastDstFormat = AV_SAMPLE_FMT_NONE,
        ad_lastConvertSampleRate = 0, ad_lastConvertChannels = 0, ad_lastConvertChannelLayout = 0,
        ad_formatConvertFrame = Frame_new\<rparr>)"

definition AudioDecoder_cleanupResampleResources :: "AudioDecoder \<Rightarrow> AudioDecoder" where
  "AudioDecoder_cleanupResampleResources b = b\<lparr>ad_swrCtx := None, ad_needResample := False\<rparr>"

definition AudioDecoder_cleanupFormatConvertResources :: "AudioDecoder \<Rightarrow> AudioDecoder" where
  "AudioDecoder_cleanupFormatConvertResources b =
     b\<lparr>ad_formatConvertCtx := False, ad_lastSrcFormat := AV_SAMPLE_FMT_NONE, ad_lastDstFormat := AV_SAMPLE_FMT_NONE,
       ad_lastConvertSampleRate := 0, ad_lastConvertChannels := 0, ad_lastConvertChannelLayout := 0\<rparr>"

subsection \<open>Resampling\<close>

definition int32_range :: "int \<Rightarrow> bool" where
  "int32_range n \<longleftrightarrow> - (2 ^ 31) \<le> n \<and> n < 2 ^ 31"

text \<open>The speed as a number.\<close>

definition cur_speed :: "'a DecoderBase_scheme \<Rightarrow> real" where
  "cur_speed b = of_nat (unat (db_speed b)) * (1 / 1000)"

definition AudioDecoder_initResampleContext :: "audio_calls \<Rightarrow> AudioDecoder \<Rightarrow> bool outcome \<times> AudioDecoder" where
  "AudioDecoder_initResampleContext ac b =
     (let b1 = b\<lparr>ad_swrCtx := None\<rparr>;
          curSpeed = cur_speed b1
      in if \<bar>curSpeed - 1\<bar> < 1 / 100 then (Ret True, b1\<lparr>ad_needResample := False\<rparr>)
         else
           let b2 = b1\<lparr>ad_needResample := True\<rparr>
           in if \<not> ac_swr_alloc ac then (Ret False, b2)
              else case db_codecCtx b2 of
                     None \<Rightarrow> (UB, b2)
                   | Some c \<Rightarrow>
                       let outSampleRate = trunc_to_int (of_int (cc_sample_rate c) * curSpeed)
                       in if \<not> int32_range outSampleRate then (UB, b2)
                          else if ac_swr_init ac < 0 then (Ret False, b2\<lparr>ad_needResample := False\<rparr>)
                          else (Ret True, b2\<lparr>ad_swrCtx := Some outSampleRate\<rparr>))"

text \<open>The test compares the speeds in thousandths.\<close>

definition AudioDecoder_needResampleUpdate :: "real \<Rightarrow> AudioDecoder \<Rightarrow> bool" where
  "AudioDecoder_needResampleUpdate lastSpeed b \<longleftrightarrow> \<bar>of_nat (unat (db_speed b)) - lastSpeed\<bar> > 1 / 100"

definition same_shape :: "Frame \<Rightarrow> Frame \<Rightarrow> int \<Rightarrow> bool" where
  "same_shape rf frame rate \<longleftrightarrow>
     (case (Frame_get rf, Frame_get frame) of
        (Some r, Some f) \<Rightarrow> Frame_sampleRate rf = rate
           \<and> chl_nb_channels (fm_ch_layout r) = chl_nb_channels (fm_ch_layout f) \<and> fm_format r = fm_format f
      | _ \<Rightarrow> False)"

definition shape_as :: "Frame \<Rightarrow> int \<Rightarrow> Frame \<Rightarrow> Frame" where
  "shape_as frame rate rf =
     Frame_setSampleRate rate (Frame_setChannelLayout (Frame_channelLayout frame) (Frame_setSampleFormat (Frame_sampleFormat frame) rf))"

definition has_data :: "Frame \<Rightarrow> bool" where
  "has_data f = (case Frame_get f of Some a \<Rightarrow> (case fm_data a of Some _ # _ \<Rightarrow> True | _ \<Rightarrow> False) | None \<Rightarrow> False)"

text \<open>The number of samples to make room for: at most four times the input.\<close>

definition out_samples :: "audio_calls \<Rightarrow> int \<Rightarrow> int \<Rightarrow> Frame \<Rightarrow> int" where
  "out_samples ac outRate inRate frame =
     (let delay = max 0 (ac_swr_get_delay ac)
      in min (ac_rescale_up ac (delay + Frame_nbSamples frame) outRate inRate) (Frame_nbSamples frame * 4))"

text \<open>The resampled frame and the error code; \<open>resampleFrame_\<close> is kept and a copy returned.\<close>

definition resample_into ::
    "frame_api \<Rightarrow> audio_calls \<Rightarrow> int \<Rightarrow> int \<Rightarrow> int \<Rightarrow> av_frame \<Rightarrow> Frame \<Rightarrow> Frame \<Rightarrow> AudioDecoder \<Rightarrow> (Frame \<times> int) outcome \<times> AudioDecoder" where
  "resample_into api ac inRate outRate outSamples src frame rf b =
     (case Frame_get rf of
        None \<Rightarrow> (UB, b)
      | Some dst \<Rightarrow>
          (case ac_swr_convert ac outSamples dst src of
             (ret, dst1) \<Rightarrow>
               if ret < 0 then (Ret (Frame_new, ret), b\<lparr>ad_resampleFrame := rf\<lparr>fr_frame := Some dst1\<rparr>\<rparr>)
               else
                 let rf1 = Frame_setTimeBase (Frame_timeBase frame) (Frame_setPktDts (Frame_pktDts frame)
                             (Frame_setAvPts (Frame_avPts frame) (Frame_setNbSamples ret (rf\<lparr>fr_frame := Some dst1\<rparr>))));
                     rf2 = (if d_lt (Fin 0) (Frame_durationByFps frame)
                            then Frame_setDurationByFps (d_div (d_mul (Frame_durationByFps frame) (Fin (of_int outRate))) (Fin (of_int inRate))) rf1
                            else rf1)
                 in (Ret (Frame_copy api rf2, 0), b\<lparr>ad_resampleFrame := rf2\<rparr>)))"

definition AudioDecoder_resampleFrame ::
    "frame_api \<Rightarrow> audio_calls \<Rightarrow> Frame \<Rightarrow> AudioDecoder \<Rightarrow> (Frame \<times> int) outcome \<times> AudioDecoder" where
  "AudioDecoder_resampleFrame api ac frame b =
     (case Frame_get frame of
        None \<Rightarrow> (Ret (Frame_copy api frame, 0), b)
      | Some src \<Rightarrow>
          if \<not> ad_needResample b \<or> ad_swrCtx b = None then (Ret (Frame_copy api frame, 0), b)
          else
            let inRate = Frame_sampleRate frame;
                outRate = trunc_to_int (of_int inRate * cur_speed b);
                needReconfig = \<not> same_shape (ad_resampleFrame b) frame outRate;
                rf = (if needReconfig then shape_as frame outRate (Frame_ensureAllocated api (ad_resampleFrame b)) else ad_resampleFrame b);
                outSamples = out_samples ac outRate inRate frame
            in if \<not> int32_range outRate \<or> \<not> int32_range (Frame_nbSamples frame * 4) then (UB, b)
               else if outSamples \<le> 0 then (Ret (Frame_new, AVERROR_EINVAL), b\<lparr>ad_resampleFrame := rf\<rparr>)
               else if needReconfig \<or> Frame_nbSamples rf < outSamples \<or> \<not> has_data rf
               then let rf1 = Frame_setNbSamples outSamples (shape_as frame outRate (Frame_unref api rf))
                    in (case Frame_get rf1 of
                          None \<Rightarrow> (UB, b)
                        | Some dst \<Rightarrow>
                            (case ac_get_buffer ac dst of
                               (ret, dst1) \<Rightarrow>
                                 if ret < 0 then (Ret (Frame_new, ret), b\<lparr>ad_resampleFrame := rf1\<lparr>fr_frame := Some dst1\<rparr>\<rparr>)
                                 else resample_into api ac inRate outRate outSamples src frame (rf1\<lparr>fr_frame := Some dst1\<rparr>) b))
               else resample_into api ac inRate outRate outSamples src frame rf b)"

subsection \<open>Planar and interleaved samples\<close>

definition AudioDecoder_initFormatConvertContext ::
    "audio_calls \<Rightarrow> AVSampleFormat \<Rightarrow> AVSampleFormat \<Rightarrow> int \<Rightarrow> int \<Rightarrow> u64 \<Rightarrow> AudioDecoder \<Rightarrow> bool \<times> AudioDecoder" where
  "AudioDecoder_initFormatConvertContext ac srcFormat dstFormat sampleRate channels channelLayout b =
     (if ad_formatConvertCtx b \<and> ad_lastSrcFormat b = srcFormat \<and> ad_lastDstFormat b = dstFormat
         \<and> ad_lastConvertSampleRate b = sampleRate \<and> ad_lastConvertChannels b = channels \<and> ad_lastConvertChannelLayout b = channelLayout
      then (True, b)
      else if \<not> ac_swr_alloc ac then (False, b\<lparr>ad_formatConvertCtx := False\<rparr>)
      else if ac_swr_init ac < 0 then (False, b\<lparr>ad_formatConvertCtx := False\<rparr>)
      else (True, b\<lparr>ad_formatConvertCtx := True, ad_lastSrcFormat := srcFormat, ad_lastDstFormat := dstFormat,
                    ad_lastConvertSampleRate := sampleRate, ad_lastConvertChannels := channels,
                    ad_lastConvertChannelLayout := channelLayout\<rparr>))"

text \<open>The conversion proper; on success the converted data replace those of the frame, and the frame that
  was kept for it is blank again.\<close>

definition convert_samples ::
    "frame_api \<Rightarrow> audio_calls \<Rightarrow> Frame \<Rightarrow> av_frame \<Rightarrow> Frame \<Rightarrow> AudioDecoder \<Rightarrow> bool outcome \<times> Frame \<times> AudioDecoder" where
  "convert_samples api ac frame avFrame cf b =
     (case Frame_get cf of
        None \<Rightarrow> (UB, frame, b)
      | Some dst \<Rightarrow>
          (case ac_swr_convert ac (fm_nb_samples avFrame) dst avFrame of
             (ret, dst1) \<Rightarrow>
               if ret < 0 then (Ret False, frame, b\<lparr>ad_formatConvertFrame := cf\<lparr>fr_frame := Some dst1\<rparr>\<rparr>)
               else let cf1 = Frame_setPktDts (Frame_pktDts frame) (Frame_setAvPts (Frame_avPts frame)
                                (Frame_setNbSamples ret (cf\<lparr>fr_frame := Some dst1\<rparr>)))
                    in (Ret True, frame\<lparr>fr_frame := Frame_get cf1\<rparr>,
                        b\<lparr>ad_formatConvertFrame := cf1\<lparr>fr_frame := Some (av_frame_alloc api)\<rparr>\<rparr>)))"

definition AudioDecoder_convertAudioFormat ::
    "frame_api \<Rightarrow> audio_calls \<Rightarrow> Frame \<Rightarrow> AVSampleFormat \<Rightarrow> AudioDecoder \<Rightarrow> bool outcome \<times> Frame \<times> AudioDecoder" where
  "AudioDecoder_convertAudioFormat api ac frame targetFormat b =
     (case Frame_get frame of
        None \<Rightarrow> (Ret True, frame, b)
      | Some avFrame \<Rightarrow>
          if fm_format avFrame = targetFormat then (Ret True, frame, b)
          else
            let sampleRate = Frame_sampleRate frame;
                channels = chl_nb_channels (Frame_channelLayout frame)
            in (case AudioDecoder_initFormatConvertContext ac (fm_format avFrame) targetFormat sampleRate channels
                       (chl_mask (fm_ch_layout avFrame)) b of
                  (False, b1) \<Rightarrow> (Ret False, frame, b1)
                | (True, b1) \<Rightarrow>
                    let cf = Frame_ensureAllocated api (ad_formatConvertFrame b1);
                        needReconfig = Frame_sampleFormat cf \<noteq> targetFormat \<or> Frame_sampleRate cf \<noteq> sampleRate
                          \<or> chl_nb_channels (Frame_channelLayout cf) \<noteq> channels;
                        cf1 = (if needReconfig
                               then Frame_setChannelLayout (fm_ch_layout avFrame) (Frame_setSampleRate sampleRate
                                      (Frame_setSampleFormat targetFormat (Frame_unref api cf)))
                               else cf)
                    in if needReconfig \<or> Frame_nbSamples cf1 < fm_nb_samples avFrame \<or> \<not> has_data cf1
                       then let cf2 = Frame_setNbSamples (fm_nb_samples avFrame) cf1
                            in (case Frame_get cf2 of
                                  None \<Rightarrow> (UB, frame, b1)
                                | Some dst \<Rightarrow>
                                    (case ac_get_buffer ac dst of
                                       (ret, dst1) \<Rightarrow>
                                         if ret < 0
                                         then (Ret False, frame, b1\<lparr>ad_formatConvertFrame := Frame_unref api (cf2\<lparr>fr_frame := Some dst1\<rparr>)\<rparr>)
                                         else convert_samples api ac frame avFrame (cf2\<lparr>fr_frame := Some dst1\<rparr>) b1))
                       else convert_samples api ac frame avFrame cf1 b1))"

definition planar_of :: "AVSampleFormat \<Rightarrow> AVSampleFormat" where
  "planar_of f =
     (if f = AV_SAMPLE_FMT_U8 then AV_SAMPLE_FMT_U8P else if f = AV_SAMPLE_FMT_S16 then AV_SAMPLE_FMT_S16P
      else if f = AV_SAMPLE_FMT_S32 then AV_SAMPLE_FMT_S32P else if f = AV_SAMPLE_FMT_FLT then AV_SAMPLE_FMT_FLTP
      else if f = AV_SAMPLE_FMT_DBL then AV_SAMPLE_FMT_DBLP else if f = AV_SAMPLE_FMT_S64 then AV_SAMPLE_FMT_S64P
      else AV_SAMPLE_FMT_NONE)"

definition interleaved_of :: "AVSampleFormat \<Rightarrow> AVSampleFormat" where
  "interleaved_of f =
     (if f = AV_SAMPLE_FMT_U8P then AV_SAMPLE_FMT_U8 else if f = AV_SAMPLE_FMT_S16P then AV_SAMPLE_FMT_S16
      else if f = AV_SAMPLE_FMT_S32P then AV_SAMPLE_FMT_S32 else if f = AV_SAMPLE_FMT_FLTP then AV_SAMPLE_FMT_FLT
      else if f = AV_SAMPLE_FMT_DBLP then AV_SAMPLE_FMT_DBL else if f = AV_SAMPLE_FMT_S64P then AV_SAMPLE_FMT_S64
      else AV_SAMPLE_FMT_NONE)"

text \<open>The frame as configured; a conversion that fails is only logged.\<close>

definition arrange_samples ::
    "frame_api \<Rightarrow> audio_calls \<Rightarrow> Frame \<Rightarrow> AudioDecoder \<Rightarrow> Frame outcome \<times> AudioDecoder" where
  "arrange_samples api ac f b =
     (case Frame_get f of
        None \<Rightarrow> (UB, b)
      | Some a \<Rightarrow>
          let fmt = fm_format a;
              target = (if \<not> ad_audioInterleaved b \<and> ac_is_planar ac fmt = 0 then planar_of fmt
                        else if ad_audioInterleaved b \<and> ac_is_planar ac fmt = 1 then interleaved_of fmt
                        else AV_SAMPLE_FMT_NONE)
          in if target = AV_SAMPLE_FMT_NONE then (Ret f, b)
             else (case AudioDecoder_convertAudioFormat api ac f target b of
                     (Ret _, f1, b1) \<Rightarrow> (Ret f1, b1)
                   | (_, _, b1) \<Rightarrow> (UB, b1)))"

subsection \<open>The decoding loop\<close>

type_synonym ad_env = "AudioDecoder decode_env"

text \<open>The start of the loop: the speed is taken as the last speed that was set up.\<close>

definition audio_start :: "audio_calls \<Rightarrow> decode_thread \<Rightarrow> ad_env \<Rightarrow> unit outcome \<times> ad_env" where
  "audio_start ac t e =
     loop_start (dc_now ac) kAudioDecoderName MT_kMediaTypeAudio StreamSyncManager_updateAudioClock
       (t\<lparr>kt_lastSpeed := of_nat (unat (db_speed (de_dec e)))\<rparr>) e"

definition audio_paused :: "audio_calls \<Rightarrow> decode_thread \<Rightarrow> ad_env \<Rightarrow> unit outcome \<times> ad_env" where
  "audio_paused ac t e =
     (if db_isPaused (de_dec e) \<and> \<not> db_requestInterruption (de_dec e) then (Wait, e)
      else if db_requestInterruption (de_dec e) then (Ret (), loop_end (dc_now ac) t e)
      else (Ret (), jump KP_Loop t (e\<lparr>de_dec := (de_dec e)\<lparr>db_lastFrameTime := None\<rparr>\<rparr>)))"

definition audio_packet :: "audio_calls \<Rightarrow> Packet \<Rightarrow> decode_thread \<Rightarrow> ad_env \<Rightarrow> unit outcome \<times> ad_env" where
  "audio_packet ac packet t e =
     (case (Packet_get packet, db_codecCtx (de_dec e)) of
        (Some p, Some _) \<Rightarrow>
          let ret = dc_send_packet ac p
          in if ret < 0 \<and> ret \<noteq> AVERROR_EAGAIN \<and> ret \<noteq> AVERROR_EOF then (Ret (), jump KP_Loop t e)
             else (Ret (), jump KP_Receive t e)
      | _ \<Rightarrow> (UB, e))"

text \<open>The set-up of the resampler after a change of speed; that it fails is ignored.\<close>

definition update_resampler :: "audio_calls \<Rightarrow> decode_thread \<Rightarrow> AudioDecoder \<Rightarrow> decode_thread outcome \<times> AudioDecoder" where
  "update_resampler ac t b =
     (if AudioDecoder_needResampleUpdate (kt_lastSpeed t) b
      then (case AudioDecoder_initResampleContext ac b of
              (Ret _, b1) \<Rightarrow> (Ret (t\<lparr>kt_lastSpeed := of_nat (unat (db_speed b1))\<rparr>), b1)
            | (_, b1) \<Rightarrow> (UB, b1))
      else (Ret t, b))"

definition audio_duration :: "Frame \<Rightarrow> AudioDecoder \<Rightarrow> double outcome" where
  "audio_duration f b =
     (case db_codecCtx b of
        None \<Rightarrow> UB
      | Some c \<Rightarrow>
          let rate = (if ad_needResample b then of_int (cc_sample_rate c) * cur_speed b else of_int (cc_sample_rate c))
          in Ret (d_div (Fin (of_int (Frame_nbSamples f))) (Fin rate)))"

text \<open>A frame after resampling: clock, seek, arrangement of the samples, events.\<close>

definition audio_frame :: "frame_api \<Rightarrow> audio_calls \<Rightarrow> Frame \<Rightarrow> decode_thread \<Rightarrow> ad_env \<Rightarrow> unit outcome \<times> ad_env" where
  "audio_frame api ac outputFrame t e =
     (case (audio_duration outputFrame (de_dec e), DecoderBase_calculatePts outputFrame (de_dec e)) of
        (Ret duration, Ret pts) \<Rightarrow>
          let sync = (if isnan pts then de_sync e
                      else StreamSyncManager_updateAudioClock (dc_now ac) pts (sint (kt_serial t)) (de_sync e))
          in (case seek_drop pts (de_dec e) of
                (dropped, b1) \<Rightarrow>
                  let e1 = e\<lparr>de_sync := sync, de_dec := b1\<rparr>
                  in if dropped then (Ret (), jump KP_Receive t e1)
                     else (case arrange_samples api ac outputFrame b1 of
                             (Ret f, b2) \<Rightarrow>
                               and_then (frame_events kAudioDecoderName MT_kMediaTypeAudio t (e1\<lparr>de_dec := b2\<rparr>))
                                 (\<lambda>e2. (Ret (), jump (KP_Write f pts duration (dc_now ac)) (frame_seen t) e2))
                           | (_, b2) \<Rightarrow> (UB, e1\<lparr>de_dec := b2\<rparr>)))
      | _ \<Rightarrow> (UB, e))"

definition audio_resample :: "frame_api \<Rightarrow> audio_calls \<Rightarrow> Frame \<Rightarrow> decode_thread \<Rightarrow> ad_env \<Rightarrow> unit outcome \<times> ad_env" where
  "audio_resample api ac frame t e =
     (if ad_needResample (de_dec e) \<and> ad_swrCtx (de_dec e) \<noteq> None
      then (case AudioDecoder_resampleFrame api ac frame (de_dec e) of
              (Ret (f, code), b1) \<Rightarrow>
                if Frame_isValid f then audio_frame api ac f t (e\<lparr>de_dec := b1\<rparr>)
                else (case report_error kAudioDecoderName MT_kMediaTypeAudio code ''Resample frame failed!'' (e\<lparr>de_dec := b1\<rparr>) of
                        (Ret _, e1) \<Rightarrow> (Ret (), jump KP_Receive t e1)
                      | (_, e1) \<Rightarrow> (UB, e1))
            | (_, b1) \<Rightarrow> (UB, e\<lparr>de_dec := b1\<rparr>))
      else audio_frame api ac (Frame_assign api Frame_new frame) t e)"

definition audio_receive :: "frame_api \<Rightarrow> audio_calls \<Rightarrow> decode_thread \<Rightarrow> ad_env \<Rightarrow> unit outcome \<times> ad_env" where
  "audio_receive api ac t e =
     (case dc_receive_frame ac of
        (ret, avFrame) \<Rightarrow>
          if ret = AVERROR_EAGAIN then (Ret (), jump KP_Loop t e)
          else if ret < 0
          then (case report_error kAudioDecoderName MT_kMediaTypeAudio ret ''Decoder error: '' e of
                  (Ret handled, e1) \<Rightarrow> (Ret (), jump KP_Loop (t\<lparr>kt_occuredError := (kt_occuredError t \<or> handled)\<rparr>) e1)
                | (_, e1) \<Rightarrow> (UB, e1))
          else (case update_resampler ac t (de_dec e) of
                  (Ret t1, b1) \<Rightarrow> audio_resample api ac (Frame_new\<lparr>fr_frame := Some avFrame\<rparr>) t1 (e\<lparr>de_dec := b1\<rparr>)
                | (_, b1) \<Rightarrow> (UB, e\<lparr>de_dec := b1\<rparr>)))"

definition audio_fill :: "double \<Rightarrow> double \<Rightarrow> decode_thread \<Rightarrow> Frame \<Rightarrow> Frame" where
  "audio_fill pts duration t f =
     Frame_setMediaType AVMEDIA_TYPE_AUDIO (Frame_setSecPts pts (Frame_setDurationByFps duration (Frame_setSerial (kt_serial t) f)))"

definition audio_pace ::
    "audio_calls \<Rightarrow> double \<Rightarrow> double \<Rightarrow> int \<Rightarrow> decode_thread \<Rightarrow> ad_env \<Rightarrow> unit outcome \<times> ad_env" where
  "audio_pace ac pts duration currentTime t e =
     (let b = de_dec e
      in if \<not> DecoderBase_isFrameRateControlEnabled b then (Ret (), jump KP_Commit t e)
         else (case DecoderBase_calculateFrameDisplayTime pts (d_mul duration (Fin 1000)) currentTime (db_lastFrameTime b) b of
                 (Ret baseDelay, lastFrameTime) \<Rightarrow>
                   let e1 = e\<lparr>de_dec := b\<lparr>db_lastFrameTime := lastFrameTime\<rparr>\<rparr>
                   in if sleep_ok baseDelay then (Ret (), jump KP_Commit t e1) else (UB, e1)
               | _ \<Rightarrow> (UB, e)))"

definition audio_write ::
    "audio_calls \<Rightarrow> Frame \<Rightarrow> double \<Rightarrow> double \<Rightarrow> int \<Rightarrow> decode_thread \<Rightarrow> ad_env \<Rightarrow> unit outcome \<times> ad_env" where
  "audio_write ac outputFrame pts duration currentTime t e =
     (case fill_slot (audio_fill pts duration t) outputFrame (de_dec e) of
        (Wait, _) \<Rightarrow> (Wait, e)
      | (UB, _) \<Rightarrow> (UB, e)
      | (Ret None, b) \<Rightarrow> (Ret (), jump KP_Loop t (e\<lparr>de_dec := b\<rparr>))
      | (Ret (Some _), b) \<Rightarrow> audio_pace ac pts duration currentTime t (e\<lparr>de_dec := b\<rparr>))"

definition AudioDecoder_decodeLoop :: "frame_api \<Rightarrow> audio_calls \<Rightarrow> ad_env \<Rightarrow> unit outcome \<times> ad_env" where
  "AudioDecoder_decodeLoop api ac e =
     (case db_thread (de_dec e) of
        None \<Rightarrow> (Wait, e)
      | Some t \<Rightarrow>
          (case kt_pc t of
             KP_Start \<Rightarrow> audio_start ac t e
           | KP_Loop \<Rightarrow> loop_head (dc_now ac) StreamSyncManager_updateAudioClock t e
           | KP_Paused \<Rightarrow> audio_paused ac t e
           | KP_Pop \<Rightarrow> (case loop_pop (dc_now ac) t e of Inl r \<Rightarrow> r | Inr (packet, e1) \<Rightarrow> audio_packet ac packet t e1)
           | KP_Receive \<Rightarrow> audio_receive api ac t e
           | KP_Write f pts duration currentTime \<Rightarrow> audio_write ac f pts duration currentTime t e
           | KP_Commit \<Rightarrow> loop_commit (dc_now ac) t e
           | KP_Ended \<Rightarrow> (Wait, e)))"


subsection \<open>A decoder that does not resample\<close>

text \<open>The steps of the audio decoder and of the threads around it, at one speed.\<close>

inductive ad_step :: "frame_api \<Rightarrow> ad_env \<Rightarrow> bool \<Rightarrow> ad_env \<Rightarrow> bool" for api where
  turn: "AudioDecoder_decodeLoop api ac e = (Ret (), e') \<Longrightarrow> ad_step api e True e'"
| other: "other_step api e e' \<Longrightarrow> ad_step api e False e'"

inductive_cases ad_stepE: "ad_step api e l e'"

definition plain :: "u16 \<Rightarrow> ad_env \<Rightarrow> bool" where
  "plain v e \<longleftrightarrow> db_speed (de_dec e) = v \<and> \<not> ad_needResample (de_dec e) \<and> ad_swrCtx (de_dec e) = None"

definition set_up :: "u16 \<Rightarrow> decode_thread \<Rightarrow> bool" where
  "set_up v t \<longleftrightarrow> kt_lastSpeed t = of_nat (unat v)"

definition at_speed :: "u16 \<Rightarrow> ad_env \<Rightarrow> bool" where
  "at_speed v e \<longleftrightarrow> plain v e
     \<and> (case db_thread (de_dec e) of None \<Rightarrow> True | Some t \<Rightarrow> kt_pc t = KP_Start \<or> set_up v t)"

lemma set_up_simps [simp]:
  "set_up v (t\<lparr>kt_pc := x1\<rparr>) = set_up v t" "set_up v (t\<lparr>kt_serial := x2\<rparr>) = set_up v t"
  "set_up v (t\<lparr>kt_hasKeyFrame := x3\<rparr>) = set_up v t" "set_up v (t\<lparr>kt_occuredError := x4\<rparr>) = set_up v t"
  "set_up v (t\<lparr>kt_readFirstFrame := x5\<rparr>) = set_up v t" "set_up v (t\<lparr>kt_errorStartTime := x6\<rparr>) = set_up v t"
  "set_up v (frame_seen t) = set_up v t"
  by (simp_all add: set_up_def frame_seen_def)

lemma plain_simps [simp]:
  "plain v (e\<lparr>de_demuxer := d\<rparr>) = plain v e" "plain v (e\<lparr>de_sync := m\<rparr>) = plain v e" "plain v (e\<lparr>de_events := es\<rparr>) = plain v e"
  "plain v (jump pc t e) = plain v e" "plain v (loop_end now t e) = plain v e"
  by (simp_all add: plain_def DecoderBase_updateTotalDecodeTime_def)

lemma plain_dec:
  "plain v e \<Longrightarrow> db_speed b = db_speed (de_dec e) \<Longrightarrow> ad_needResample b = ad_needResample (de_dec e)
    \<Longrightarrow> ad_swrCtx b = ad_swrCtx (de_dec e) \<Longrightarrow> plain v (e\<lparr>de_dec := b\<rparr>)"
  by (simp add: plain_def)

lemma at_speed_jump: "plain v e \<Longrightarrow> set_up v t \<Longrightarrow> at_speed v (jump pc t e)" "plain v e \<Longrightarrow> set_up v t \<Longrightarrow> at_speed v (loop_end now t e)"
  by (simp_all add: at_speed_def)

lemma plain_report:
  "report_error name media code description e = (r, e') \<Longrightarrow> plain v e \<Longrightarrow> plain v e'"
  by (auto simp: report_error_def DecoderBase_handleDecodeError_def decoder_event_def Let_def plain_def
      split: if_splits option.splits)

lemma plain_start:
  "audio_start ac t e = (Ret (), e') \<Longrightarrow> plain v e \<Longrightarrow> at_speed v e'"
proof -
  assume a: "audio_start ac t e = (Ret (), e')" and p: "plain v e"
  let ?t = "t\<lparr>kt_lastSpeed := of_nat (unat (db_speed (de_dec e)))\<rparr>"
  have s: "set_up v ?t" using p by (simp add: set_up_def plain_def)
  obtain r e1 where r: "report_error kAudioDecoderName MT_kMediaTypeAudio AVERROR_UNKNOWN ''Can not find packet queue from demuxer!'' e = (r, e1)"
    by fastforce
  show ?thesis using a p s r plain_report [OF r p]
    by (auto simp: audio_start_def loop_start_def Let_def DecoderBase_resetStatistics_def
        intro!: at_speed_jump plain_dec split: option.splits outcome.splits)
qed

lemma plain_head:
  assumes "loop_head now upd t e = (Ret (), e')" "at_speed v e" "db_thread (de_dec e) = Some t" "set_up v t"
  shows "at_speed v e'"
  using assms
  by (auto simp: loop_head_def Let_def DecoderBase_checkAndUpdateSerial_def at_speed_def intro!: plain_dec
      split: option.splits if_splits)

lemma plain_pop:
  assumes "loop_pop now t e = x" "plain v e" "set_up v t"
  shows "case x of Inl (r, e') \<Rightarrow> r = Ret () \<longrightarrow> at_speed v e' | Inr (p, e') \<Rightarrow> plain v e'"
  using assms by (auto simp: loop_pop_def Let_def intro!: at_speed_jump split: option.splits outcome.splits prod.splits if_splits)

lemma plain_packet: "audio_packet ac p t e = (Ret (), e') \<Longrightarrow> plain v e \<Longrightarrow> set_up v t \<Longrightarrow> at_speed v e'"
  by (auto simp: audio_packet_def Let_def intro!: at_speed_jump split: option.splits if_splits)

lemma plain_seek_drop: "seek_drop pts (de_dec e) = (x, b) \<Longrightarrow> plain v e \<Longrightarrow> plain v (e\<lparr>de_dec := b\<rparr>)"
  by (auto simp: seek_drop_def Let_def plain_def split: if_splits)

lemma convert_sel:
  assumes "AudioDecoder_convertAudioFormat api ac f fmt b = (r, f', b')"
  shows "db_speed b' = db_speed b \<and> ad_needResample b' = ad_needResample b \<and> ad_swrCtx b' = ad_swrCtx b"
proof -
  obtain r1 b1 where i: "AudioDecoder_initFormatConvertContext ac (fm_format (the (Frame_get f))) fmt (Frame_sampleRate f)
      (chl_nb_channels (Frame_channelLayout f)) (chl_mask (fm_ch_layout (the (Frame_get f)))) b = (r1, b1)" by fastforce
  then have k: "db_speed b1 = db_speed b \<and> ad_needResample b1 = ad_needResample b \<and> ad_swrCtx b1 = ad_swrCtx b"
    by (auto simp: AudioDecoder_initFormatConvertContext_def split: if_splits)
  have c: "db_speed b' = db_speed b1 \<and> ad_needResample b' = ad_needResample b1 \<and> ad_swrCtx b' = ad_swrCtx b1"
    if "convert_samples api ac f a cf b1 = (r, f', b')" for a cf
    using that by (auto simp: convert_samples_def Let_def split: option.splits prod.splits if_splits)
  show ?thesis using assms i k c
    by (auto simp: AudioDecoder_convertAudioFormat_def Let_def split: option.splits bool.splits if_splits prod.splits)
qed

lemma plain_arrange: "arrange_samples api ac f (de_dec e) = (r, b) \<Longrightarrow> plain v e \<Longrightarrow> plain v (e\<lparr>de_dec := b\<rparr>)"
  by (auto simp: arrange_samples_def Let_def plain_def split: option.splits if_splits prod.splits outcome.splits dest: convert_sel)

lemma plain_events: "frame_events name media t e = (r, e') \<Longrightarrow> plain v e \<Longrightarrow> plain v e'"
  by (auto simp: frame_events_def and_then_def send_event_def split: if_splits prod.splits outcome.splits)

lemma plain_frame:
  assumes "audio_frame api ac f t e = (Ret (), e')" "plain v e" "set_up v t"
  shows "at_speed v e'"
proof -
  obtain duration pts where v: "audio_duration f (de_dec e) = Ret duration" "DecoderBase_calculatePts f (de_dec e) = Ret pts"
    using assms(1) by (auto simp: audio_frame_def split: outcome.splits)
  obtain x b1 where d: "seek_drop pts (de_dec e) = (x, b1)" by fastforce
  define e1 where "e1 = e\<lparr>de_sync := (if isnan pts then de_sync e
      else StreamSyncManager_updateAudioClock (dc_now ac) pts (sint (kt_serial t)) (de_sync e)), de_dec := b1\<rparr>"
  have p1: "plain v e1" using plain_seek_drop [OF d assms(2)] by (simp add: e1_def plain_def)
  show ?thesis
  proof (cases x)
    case True
    with assms(1) v d have "e' = jump KP_Receive t e1" by (simp add: audio_frame_def Let_def e1_def)
    with p1 assms(3) show ?thesis by (simp add: at_speed_jump)
  next
    case False
    obtain r2 b2 where a: "arrange_samples api ac f b1 = (r2, b2)" by fastforce
    have p2: "plain v (e1\<lparr>de_dec := b2\<rparr>)" using plain_arrange [of api ac f e1 r2 b2 v] a p1 by (simp add: e1_def)
    obtain r3 e3 where f: "frame_events kAudioDecoderName MT_kMediaTypeAudio t (e1\<lparr>de_dec := b2\<rparr>) = (r3, e3)" by fastforce
    have p3: "plain v e3" using plain_events [OF f p2] .
    show ?thesis using assms(1,3) v d a f p3 False
      by (auto simp: audio_frame_def Let_def e1_def [symmetric] and_then_def intro!: at_speed_jump split: outcome.splits)
  qed
qed

lemma plain_receive:
  assumes "audio_receive api ac t e = (Ret (), e')" "plain v e" "set_up v t"
  shows "at_speed v e'"
proof -
  have u: "update_resampler ac t (de_dec e) = (Ret t, de_dec e)"
    using assms(2,3) by (simp add: update_resampler_def AudioDecoder_needResampleUpdate_def plain_def set_up_def)
  obtain r e1 where i: "report_error kAudioDecoderName MT_kMediaTypeAudio (fst (dc_receive_frame ac)) ''Decoder error: '' e = (r, e1)"
    by fastforce
  have n: "\<not> ad_needResample (de_dec e)" using assms(2) by (simp add: plain_def)
  show ?thesis using assms u i n plain_report [OF i assms(2)]
    by (auto simp: audio_receive_def audio_resample_def intro!: at_speed_jump
        dest: plain_frame [OF _ assms(2,3)] split: prod.splits if_splits outcome.splits)
qed

lemma plain_write:
  assumes "audio_write ac f pts duration now t e = (Ret (), e')" "plain v e" "set_up v t"
  shows "at_speed v e'"
proof -
  obtain r b where i: "fill_slot (audio_fill pts duration t) f (de_dec e) = (r, b)" by fastforce
  then have "plain v (e\<lparr>de_dec := b\<rparr>)"
    using assms(2) by (auto simp: fill_slot_def plain_def split: prod.splits outcome.splits option.splits)
  with assms i show ?thesis
    by (auto simp: audio_write_def audio_pace_def Let_def intro!: at_speed_jump plain_dec
        split: outcome.splits option.splits if_splits prod.splits) (auto simp: plain_def)
qed

lemma plain_commit: "loop_commit now t e = (Ret (), e') \<Longrightarrow> plain v e \<Longrightarrow> set_up v t \<Longrightarrow> at_speed v e'"
  by (auto simp: loop_commit_def Let_def DecoderBase_updateTotalDecodeTime_def at_speed_def plain_def
      split: prod.splits outcome.splits if_splits)

lemma at_speed_turn:
  assumes "at_speed v e" "AudioDecoder_decodeLoop api ac e = (Ret (), e')"
  shows "at_speed v e'"
proof (cases "db_thread (de_dec e)")
  case (Some t)
  have p: "plain v e" and s: "kt_pc t = KP_Start \<or> set_up v t" using assms(1) Some by (auto simp: at_speed_def)
  show ?thesis
  proof (cases "kt_pc t")
    case KP_Start
    with assms(2) Some p show ?thesis by (auto simp: AudioDecoder_decodeLoop_def intro: plain_start)
  next
    case KP_Pop
    with assms(2) Some p s plain_pop [of "dc_now ac" t e _ v] show ?thesis
      by (auto simp: AudioDecoder_decodeLoop_def intro: plain_packet split: sum.splits prod.splits)
  qed (use assms Some p s in \<open>auto simp: AudioDecoder_decodeLoop_def audio_paused_def intro!: at_speed_jump plain_dec
        intro: plain_head plain_receive plain_write plain_commit split: if_splits\<close>)
qed (use assms in \<open>simp add: AudioDecoder_decodeLoop_def\<close>)

lemma at_speed_other: "other_step api e e' \<Longrightarrow> at_speed v e \<Longrightarrow> at_speed v e'"
  by (erule other_stepE) (auto simp: at_speed_def intro: plain_dec split: option.splits)

interpretation steady: inductive_invariant "at_speed v" "ad_step api" "at_speed v" for v api
  by unfold_locales (auto elim!: ad_stepE intro: at_speed_turn at_speed_other)


subsection \<open>Arrangement of the samples\<close>

text \<open>What FFmpeg documents: which formats are planar, and that allocating buffers and converting leave the
  format and the number of samples to make room for alone.\<close>

definition audio_calls_ok :: "audio_calls \<Rightarrow> bool" where
  "audio_calls_ok ac \<longleftrightarrow>
     (\<forall>f \<in> {0..11}. ac_is_planar ac f = (if f \<in> {5..9} \<union> {11} then 1 else 0))
   \<and> (\<forall>f. fm_format (snd (ac_get_buffer ac f)) = fm_format f \<and> fm_nb_samples (snd (ac_get_buffer ac f)) = fm_nb_samples f)
   \<and> (\<forall>n d s. fm_format (snd (ac_swr_convert ac n d s)) = fm_format d)"

text \<open>The conversion calls all succeed.\<close>

definition swr_succeeds :: "audio_calls \<Rightarrow> bool" where
  "swr_succeeds ac \<longleftrightarrow> ac_swr_alloc ac \<and> 0 \<le> ac_swr_init ac \<and> (\<forall>f. 0 \<le> fst (ac_get_buffer ac f))
     \<and> (\<forall>n d s. 0 \<le> fst (ac_swr_convert ac n d s))"

lemma swr_ok:
  assumes "audio_calls_ok ac" "swr_succeeds ac"
  shows "\<not> fst (ac_get_buffer ac d) < 0" "fm_format (snd (ac_get_buffer ac d)) = fm_format d"
    "\<not> fst (ac_swr_convert ac n d s) < 0" "fm_format (snd (ac_swr_convert ac n d s)) = fm_format d"
  using assms by (simp_all add: audio_calls_ok_def swr_succeeds_def not_less)

lemma convert_samples_format:
  assumes "audio_calls_ok ac" "swr_succeeds ac" "Frame_get cf = Some dst" "convert_samples api ac f a cf b = (r, f', b')"
  shows "r = Ret True \<and> Frame_sampleFormat f' = fm_format dst \<and> Frame_avPts f' = Frame_avPts f"
  using assms(3,4)
  by (simp add: convert_samples_def Let_def case_prod_beta swr_ok [OF assms(1,2)] Frame_get_def Frame_setPktDts_def
      Frame_setAvPts_def Frame_setNbSamples_def upd_frame_def Frame_sampleFormat_def Frame_avPts_def on_frame_def)
    (auto simp: swr_ok [OF assms(1,2)])

lemma init_convert_ok:
  assumes "swr_succeeds ac"
  shows "fst (AudioDecoder_initFormatConvertContext ac src dst rate channels layout b)"
  using assms by (simp add: AudioDecoder_initFormatConvertContext_def swr_succeeds_def)

lemma convert_via:
  assumes "audio_calls_ok ac" "swr_succeeds ac" "Frame_get f = Some a" "fm_format a \<noteq> fmt"
  shows "\<exists>cf dst b1. AudioDecoder_convertAudioFormat api ac f fmt b = convert_samples api ac f a cf b1
    \<and> Frame_get cf = Some dst \<and> fm_format dst = fmt"
proof -
  obtain b1 where i: "AudioDecoder_initFormatConvertContext ac (fm_format a) fmt (Frame_sampleRate f)
      (chl_nb_channels (Frame_channelLayout f)) (chl_mask (fm_ch_layout a)) b = (True, b1)"
    using init_convert_ok [OF assms(2)] by (metis prod.collapse)
  note ok = swr_ok [OF assms(1,2)]
  define cf where "cf = Frame_ensureAllocated api (ad_formatConvertFrame b1)"
  obtain c where c: "fr_frame cf = Some c"
    by (cases "fr_frame (ad_formatConvertFrame b1)") (simp_all add: cf_def Frame_ensureAllocated_def)
  show ?thesis
  proof (cases "Frame_sampleFormat cf \<noteq> fmt \<or> Frame_sampleRate cf \<noteq> Frame_sampleRate f
      \<or> chl_nb_channels (Frame_channelLayout cf) \<noteq> chl_nb_channels (Frame_channelLayout f)")
    case True
    with assms i c show ?thesis
      by (simp add: AudioDecoder_convertAudioFormat_def Let_def cf_def [symmetric] case_prod_beta ok
        Frame_get_def Frame_setChannelLayout_def Frame_setSampleRate_def Frame_setSampleFormat_def Frame_setNbSamples_def
        upd_frame_def Frame_unref_def) (intro exI conjI, rule refl, simp, simp add: ok)
  next
    case False
    then have k: "fm_format c = fmt" using c by (simp add: Frame_sampleFormat_def on_frame_def)
    define cf' where "cf' = (if Frame_nbSamples cf < fm_nb_samples a \<or> \<not> has_data cf
      then cf\<lparr>fr_frame := Some (snd (ac_get_buffer ac (c\<lparr>fm_nb_samples := sint (of_int (fm_nb_samples a) :: u32)\<rparr>)))\<rparr> else cf)"
    have "AudioDecoder_convertAudioFormat api ac f fmt b = convert_samples api ac f a cf' b1"
      using False assms i c
      by (simp add: AudioDecoder_convertAudioFormat_def Let_def cf_def [symmetric] cf'_def case_prod_beta ok
        Frame_get_def Frame_setNbSamples_def upd_frame_def)
    moreover have "\<exists>dst. Frame_get cf' = Some dst \<and> fm_format dst = fmt"
      using c k by (simp add: cf'_def Frame_get_def ok)
    ultimately show ?thesis by blast
  qed
qed

lemma convert_format_ok:
  assumes "audio_calls_ok ac" "swr_succeeds ac" "Frame_get f = Some a" "fm_format a \<noteq> fmt"
    "AudioDecoder_convertAudioFormat api ac f fmt b = (r, f', b')"
  shows "r = Ret True \<and> Frame_sampleFormat f' = fmt \<and> Frame_avPts f' = Frame_avPts f"
  using convert_via [OF assms(1-4), of api b] convert_samples_format [OF assms(1,2)] assms(5) by metis


lemma planar_cases:
  assumes "audio_calls_ok ac" "0 \<le> f" "f \<le> 11"
  shows "ac_is_planar ac f = 0 \<Longrightarrow> planar_of f \<noteq> AV_SAMPLE_FMT_NONE \<and> planar_of f \<noteq> f \<and> ac_is_planar ac (planar_of f) = 1"
    "ac_is_planar ac f \<noteq> 0 \<Longrightarrow> ac_is_planar ac f = 1 \<and> interleaved_of f \<noteq> AV_SAMPLE_FMT_NONE \<and> interleaved_of f \<noteq> f
       \<and> ac_is_planar ac (interleaved_of f) = 0"
proof -
  have k: "ac_is_planar ac g = (if g \<in> {5..9} \<union> {11} then 1 else 0)" if "0 \<le> g" "g \<le> 11" for g
    using assms(1) that unfolding audio_calls_ok_def by auto
  have "f = 0 \<or> f = 1 \<or> f = 2 \<or> f = 3 \<or> f = 4 \<or> f = 5 \<or> f = 6 \<or> f = 7 \<or> f = 8 \<or> f = 9 \<or> f = 10 \<or> f = 11"
    using assms(2,3) by presburger
  then show "ac_is_planar ac f = 0 \<Longrightarrow> planar_of f \<noteq> AV_SAMPLE_FMT_NONE \<and> planar_of f \<noteq> f \<and> ac_is_planar ac (planar_of f) = 1"
    "ac_is_planar ac f \<noteq> 0 \<Longrightarrow> ac_is_planar ac f = 1 \<and> interleaved_of f \<noteq> AV_SAMPLE_FMT_NONE \<and> interleaved_of f \<noteq> f
       \<and> ac_is_planar ac (interleaved_of f) = 0"
    by (auto simp: k planar_of_def interleaved_of_def)
qed


definition sample_audio_calls :: "int \<times> av_frame \<Rightarrow> audio_calls" where
  "sample_audio_calls received =
     \<lparr>dc_now = 0, dc_guess_frame_rate = (0, 1), dc_send_packet = (\<lambda>_. 0), dc_receive_frame = received,
      ac_swr_alloc = True, ac_swr_init = 0, ac_swr_get_delay = 0, ac_rescale_up = (\<lambda>n a b. n * a div b),
      ac_get_buffer = (\<lambda>f. (0, f)), ac_swr_convert = (\<lambda>n d s. (max 0 n, d)),
      ac_is_planar = (\<lambda>f. if 5 \<le> f \<and> f \<le> 9 \<or> f = 11 then 1 else 0)\<rparr>"

lemma sample_audio_calls_ok: "audio_calls_ok (sample_audio_calls x)" "swr_succeeds (sample_audio_calls (0, blank_av_frame))"
  by (auto simp: audio_calls_ok_def swr_succeeds_def sample_audio_calls_def)


text \<open>
  A speed set before the start.  The loop takes the speed it starts with as the one the resampler is set up for
  (\<open>lastSpeed\<close>), although nothing was set up; so at whatever speed the decoder is started, however long it runs at that
  speed, it resamples no frame, and the duration it gives a frame is the one at normal speed.
\<close>

theorem AudioDecoder_speed_before_start:
  assumes "db_thread (de_dec e) = Some t" "kt_pc t = KP_Start"
    and "\<not> ad_needResample (de_dec e)" "ad_swrCtx (de_dec e) = None"
    and "exec (ad_step api) e ls e'"
  shows "db_speed (de_dec e') = db_speed (de_dec e) \<and> ad_swrCtx (de_dec e') = None
    \<and> (\<forall>ac t' frame. audio_resample api ac frame t' e' = audio_frame api ac (Frame_assign api Frame_new frame) t' e')
    \<and> (\<forall>f. audio_duration f (de_dec e') = (case db_codecCtx (de_dec e') of None \<Rightarrow> UB
         | Some c \<Rightarrow> Ret (d_div (Fin (of_int (Frame_nbSamples f))) (Fin (of_int (cc_sample_rate c))))))"
proof -
  have "at_speed (db_speed (de_dec e)) e" using assms(1-4) by (simp add: at_speed_def plain_def)
  from steady.exec_keeps [OF assms(5) this] show ?thesis
    by (auto simp: at_speed_def plain_def audio_resample_def audio_duration_def split: option.splits)
qed

definition sample_audio :: AudioDecoder where
  "sample_audio = (AudioDecoder_new 0)\<lparr>db_isOpened := True, db_isStarted := True, db_speed := 2000, db_thread := Some new_thread\<rparr>"

definition sample_audio_env :: ad_env where
  "sample_audio_env = \<lparr>de_demuxer = set_queue AVMEDIA_TYPE_AUDIO (PacketQueue_start (PacketQueue_new 1000)) sample_demuxer, de_sync = sample_manager, de_dec = sample_audio, de_events = []\<rparr>"

theorem AudioDecoder_speed_before_start_witness:
  "\<exists>e'. exec (ad_step sample_frame_api) sample_audio_env [False, True] e' \<and> db_speed (de_dec e') = 2000 \<and> ad_swrCtx (de_dec e') = None"
proof -
  have e: "db_thread (de_dec sample_audio_env) = Some new_thread" "kt_pc new_thread = KP_Start"
    "\<not> ad_needResample (de_dec sample_audio_env)" "ad_swrCtx (de_dec sample_audio_env) = None"
    "db_speed (de_dec sample_audio_env) = 2000"
    by (simp_all add: sample_audio_env_def sample_audio_def AudioDecoder_new_def AudioDecoder_init_def DecoderBase.defs new_thread_def)
  let ?e = "sample_audio_env\<lparr>de_dec := (de_dec sample_audio_env)\<lparr>db_isPaused := False\<rparr>\<rparr>"
  obtain e' where "AudioDecoder_decodeLoop sample_frame_api (sample_audio_calls (0, blank_av_frame)) ?e = (Ret (), e')"
    by (simp add: AudioDecoder_decodeLoop_def sample_audio_env_def sample_audio_def AudioDecoder_new_def AudioDecoder_init_def
        DecoderBase.defs DecoderBase_new_def new_thread_def audio_start_def loop_start_def env_queue_def Demuxer_packetQueue_def
        set_queue_def sample_sel Let_def)
  then have x: "exec (ad_step sample_frame_api) sample_audio_env [False, True] e'"
    using ad_step.other [OF other_step.pause] by (blast intro: exec_single ad_step.turn exec_step)
  from AudioDecoder_speed_before_start [OF e(1-4) x] e(5) x show ?thesis by auto
qed

end
