(* ===== verification/DecoderControllers.thy ===== *)
theory DecoderControllers
  imports VideoDecoders AudioDecoders
begin

text \<open>
  Class \<open>DecoderController\<close> (\<open>src/src/decoder_controller.h\<close>, \<open>decoder_controller.cpp\<close>): opening, closing,
  decoding, pausing, seeking, the pre-buffer, the asynchronous open and the reconnection.

  The state holds the demuxer, the two decoders and the synchronisation manager of the other theories, and every
  operation calls theirs.  A call is a list of sections: each section runs under \<open>mutex_\<close> without
  interruption, or is \<open>Wait\<close> while a thread it joins has not ended; it is resumed then (\<open>resumed\<close>), and the
  calls of the demuxer and the decoders that join a thread are made again.  Between sections, and while
  one waits, the other threads run.  The reconnecting thread and the task of an asynchronous open are program counters with one
  definition per turn.  Events are recorded in the order in which they are triggered; how listeners receive
  them is the subject of \<open>EventDispatchers\<close>.  The results of FFmpeg's calls and the readings of the
  clock are arguments (\<open>ctl_calls\<close>).
\<close>

subsection \<open>State\<close>

datatype PreBufferState = PB_kDisabled | PB_kWaitingBuffer | PB_kReady

datatype AsyncOpenResult = AO_kSuccess | AO_kFailed | AO_kCancelled

text \<open>\<open>Config\<close>: the fields the demuxer reads, those the video decoder reads, and the others.\<close>

record Config =
  cf_demux :: demux_config
  cf_video :: video_config
  cf_enableFrameRateControl :: bool
  cf_speed :: double
  cf_enableAutoReconnect :: bool
  cf_maxReconnectAttempts :: u32
  cf_reconnectIntervalMs :: u32
  cf_audioInterleaved :: bool

datatype ctl_event =
    FromDemuxer demux_event
  | FromDecoder decoder_event
  | SeekEvent EventType double double string
  | AsyncOpenCalled AsyncOpenResult bool string

datatype ctl_callback = OnStreamReadError | UserCallback nat

text \<open>The points between the turns of \<open>reconnectLoop\<close>: the head, the two sections of an attempt, the wait
  after a failed attempt (since when), the two steps after the loop.\<close>

datatype reconnect_pc = RC_Head | RC_Close | RC_Reopen | RC_Interval int | RC_Exit | RC_Final | RC_Ended

text \<open>The task of \<open>openAsync\<close>: before it runs, after the open, before the callback, at its end.\<close>

datatype async_task =
  AT_Start string Config | AT_Opened bool | AT_Callback AsyncOpenResult bool string | AT_Done

record DecoderController =
  co_dispatcher :: "(ctl_callback, ctl_event) EventDispatcher"
  co_sync :: StreamSyncManager
  co_demuxer :: Demuxer
  co_videoDecoder :: "VideoDecoder option"
  co_audioDecoder :: "AudioDecoder option"
  co_config :: Config
  co_isDecoding :: bool
  co_preBufferState :: PreBufferState
  co_asyncOpenInProgress :: bool
  co_shouldCancelAsyncOpen :: bool
  co_asyncOpenFuture :: "async_task option"
  co_asyncOpenCallback :: bool
  co_isReconnecting :: bool
  co_shouldStopReconnect :: bool
  co_currentReconnectAttempt :: u32
  co_hasDecoderWhenReconnected :: bool
  co_isDemuxerPausedWhenReconnected :: bool
  co_originalUrl :: string
  co_reconnectThread :: "reconnect_pc option"
  co_events :: "ctl_event list"

record ctl_calls =
  cl_clock :: "nat \<Rightarrow> int"
  cl_open :: open_calls
  cl_hw :: hw_calls
  cl_video_codec :: codec_calls
  cl_audio_codec :: codec_calls

subsection \<open>Calls of the parts\<close>

definition obind :: "'a outcome \<times> 's \<Rightarrow> ('a \<Rightarrow> 's \<Rightarrow> 'b outcome \<times> 's) \<Rightarrow> 'b outcome \<times> 's" where
  "obind r k = (case r of (Ret a, s) \<Rightarrow> k a s | (Wait, s) \<Rightarrow> (Wait, s) | (UB, s) \<Rightarrow> (UB, s))"

definition log_events :: "ctl_event list \<Rightarrow> DecoderController \<Rightarrow> DecoderController" where
  "log_events es c = c\<lparr>co_events := co_events c @ es\<rparr>"

text \<open>A call of a decoder that may not exist; \<open>skip\<close> is the result then.\<close>

definition video_call ::
    "(VideoDecoder \<Rightarrow> 'a outcome \<times> decoder_event list \<times> VideoDecoder) \<Rightarrow> 'a \<Rightarrow> DecoderController \<Rightarrow> 'a outcome \<times> DecoderController" where
  "video_call f skip c =
     (case co_videoDecoder c of
        None \<Rightarrow> (Ret skip, c)
      | Some b \<Rightarrow> (case f b of (r, es, b1) \<Rightarrow> (r, log_events (map FromDecoder es) (c\<lparr>co_videoDecoder := Some b1\<rparr>))))"

definition audio_call ::
    "(AudioDecoder \<Rightarrow> 'a outcome \<times> decoder_event list \<times> AudioDecoder) \<Rightarrow> 'a \<Rightarrow> DecoderController \<Rightarrow> 'a outcome \<times> DecoderController" where
  "audio_call f skip c =
     (case co_audioDecoder c of
        None \<Rightarrow> (Ret skip, c)
      | Some b \<Rightarrow> (case f b of (r, es, b1) \<Rightarrow> (r, log_events (map FromDecoder es) (c\<lparr>co_audioDecoder := Some b1\<rparr>))))"

definition demuxer_call ::
    "(Demuxer \<Rightarrow> 'a outcome \<times> demux_event list \<times> Demuxer) \<Rightarrow> DecoderController \<Rightarrow> 'a outcome \<times> DecoderController" where
  "demuxer_call f c =
     (case f (co_demuxer c) of (r, es, d) \<Rightarrow> (r, log_events (map FromDemuxer es) (c\<lparr>co_demuxer := d\<rparr>)))"

text \<open>A call without events.\<close>

definition silent :: "('b \<Rightarrow> 'a outcome \<times> 'b) \<Rightarrow> 'b \<Rightarrow> 'a outcome \<times> 'e list \<times> 'b" where
  "silent f b = (case f b of (r, b1) \<Rightarrow> (r, [], b1))"

definition map_decoders ::
    "(VideoDecoder \<Rightarrow> VideoDecoder) \<Rightarrow> (AudioDecoder \<Rightarrow> AudioDecoder) \<Rightarrow> DecoderController \<Rightarrow> DecoderController" where
  "map_decoders f g c =
     c\<lparr>co_videoDecoder := map_option f (co_videoDecoder c), co_audioDecoder := map_option g (co_audioDecoder c)\<rparr>"

definition reset_clocks :: "ctl_calls \<Rightarrow> DecoderController \<Rightarrow> DecoderController" where
  "reset_clocks cl c = c\<lparr>co_sync := StreamSyncManager_resetClocks (cl_clock cl 0) (cl_clock cl 1) (cl_clock cl 2) (co_sync c)\<rparr>"

definition wants_video :: "DecoderController \<Rightarrow> bool" where
  "wants_video c \<longleftrightarrow> Demuxer_hasVideo (co_demuxer c) \<and> cfg_decodeMediaType (cf_demux (co_config c)) AND kVideo \<noteq> 0"

definition wants_audio :: "DecoderController \<Rightarrow> bool" where
  "wants_audio c \<longleftrightarrow> Demuxer_hasAudio (co_demuxer c) \<and> cfg_decodeMediaType (cf_demux (co_config c)) AND kAudio \<noteq> 0"

definition default_config :: Config where
  "default_config =
     \<lparr>cf_demux = \<lparr>cfg_decodeMediaType = kVideo OR kAudio, cfg_rtspTransport = RT_kTcp,
        cfg_preBufferConfig = \<lparr>pb_enablePreBuffer = False, pb_videoPreBufferFrames = 0, pb_audioPreBufferPackets = 0,
          pb_requireBothStreams = False, pb_autoStartAfterPreBuffer = True\<rparr>\<rparr>,
      cf_video = default_video_config, cf_enableFrameRateControl = True, cf_speed = Fin 1, cf_enableAutoReconnect = True,
      cf_maxReconnectAttempts = 5, cf_reconnectIntervalMs = 3000, cf_audioInterleaved = True\<rparr>"

definition DecoderController_new :: "nat \<Rightarrow> ctl_calls \<Rightarrow> DecoderController" where
  "DecoderController_new thread cl =
     \<lparr>co_dispatcher = snd (EventDispatcher_addEventListener EV_kStreamReadError OnStreamReadError
        (EventDispatcher_startAsyncProcessing (EventDispatcher_new thread))),
      co_sync = StreamSyncManager_new (cl_clock cl 0) (cl_clock cl 1) (cl_clock cl 2) MC_kVideo (Fin (10 / 1000)) (Fin (100 / 1000)) (Fin (1 / 10)),
      co_demuxer = Demuxer_new, co_videoDecoder = None, co_audioDecoder = None, co_config = default_config,
      co_isDecoding = False, co_preBufferState = PB_kDisabled, co_asyncOpenInProgress = False,
      co_shouldCancelAsyncOpen = False, co_asyncOpenFuture = None, co_asyncOpenCallback = False,
      co_isReconnecting = False, co_shouldStopReconnect = False, co_currentReconnectAttempt = 0,
      co_hasDecoderWhenReconnected = False, co_isDemuxerPausedWhenReconnected = False, co_originalUrl = [],
      co_reconnectThread = None, co_events = []\<rparr>"


subsection \<open>Decoding\<close>

text \<open>The set-up of a decoder in \<open>startDecodeInternal\<close>: configuration, speed (refused speeds are ignored), open.\<close>

definition set_up_video :: "frame_api \<Rightarrow> ctl_calls \<Rightarrow> Config \<Rightarrow> Demuxer \<Rightarrow> VideoDecoder \<Rightarrow> bool outcome \<times> decoder_event list \<times> VideoDecoder" where
  "set_up_video api cl config d b =
     (case DecoderBase_setSpeed (cf_speed config)
             (DecoderBase_setFrameRateControl (cf_enableFrameRateControl config) (VideoDecoder_init (cf_video config) b)) of
        (Ret _, b1) \<Rightarrow> DecoderBase_openInternal (VideoDecoder_setupHardwareDecode (cl_hw cl)) VideoDecoder_removeHardwareDecode
                        api (cl_video_codec cl) (cl_clock cl 3) d b1
      | (r, b1) \<Rightarrow> (r, [], b1))"

definition set_up_audio :: "frame_api \<Rightarrow> ctl_calls \<Rightarrow> Config \<Rightarrow> Demuxer \<Rightarrow> AudioDecoder \<Rightarrow> bool outcome \<times> decoder_event list \<times> AudioDecoder" where
  "set_up_audio api cl config d b =
     (case DecoderBase_setSpeed (cf_speed config) (AudioDecoder_init (cf_audioInterleaved config) b) of
        (Ret _, b1) \<Rightarrow> DecoderBase_openInternal DecoderBase_setupHardwareDecode DecoderBase_removeHardwareDecode
                        api (cl_audio_codec cl) (cl_clock cl 4) d b1
      | (r, b1) \<Rightarrow> (r, [], b1))"

text \<open>The choice of the master clock.\<close>

definition choose_master :: "DecoderController \<Rightarrow> DecoderController" where
  "choose_master c =
     (if Demuxer_hasAudio (co_demuxer c) \<and> co_audioDecoder c \<noteq> None
      then c\<lparr>co_sync := StreamSyncManager_setMaster MC_kAudio (co_sync c)\<rparr>
      else if Demuxer_hasVideo (co_demuxer c) \<and> co_videoDecoder c \<noteq> None
      then c\<lparr>co_sync := StreamSyncManager_setMaster MC_kVideo (co_sync c)\<rparr>
      else c)"

definition set_waiting :: "bool \<Rightarrow> DecoderController \<Rightarrow> DecoderController" where
  "set_waiting w c = map_decoders (DecoderBase_setWaitingForPreBuffer w) (DecoderBase_setWaitingForPreBuffer w) c"

definition await_preBuffer :: "DecoderController \<Rightarrow> DecoderController" where
  "await_preBuffer c =
     (if pb_enablePreBuffer (cfg_preBufferConfig (cf_demux (co_config c)))
      then set_waiting True (c\<lparr>co_preBufferState := PB_kWaitingBuffer\<rparr>)
      else c)"

text \<open>The end of \<open>startDecodeInternal\<close>, when the decoders are open.\<close>

definition start_decoders :: "DecoderController \<Rightarrow> bool outcome \<times> DecoderController" where
  "start_decoders c =
     (let c1 = await_preBuffer (choose_master c); d = co_demuxer c1
      in obind (video_call (DecoderBase_startInternal d) () c1) (\<lambda>_ c2.
         obind (audio_call (DecoderBase_startInternal d) () c2) (\<lambda>_ c3. (Ret True, c3\<lparr>co_isDecoding := True\<rparr>))))"

definition DecoderController_startDecodeInternal :: "frame_api \<Rightarrow> ctl_calls \<Rightarrow> DecoderController \<Rightarrow> bool outcome \<times> DecoderController" where
  "DecoderController_startDecodeInternal api cl c =
     (let c0 = reset_clocks cl c; config = co_config c0; d = co_demuxer c0
      in obind (if wants_video c0 then video_call (set_up_video api cl config d) True c0 else (Ret True, c0)) (\<lambda>ok1 c1.
           if \<not> ok1 then (Ret False, c1)
           else obind (if wants_audio c1 then audio_call (set_up_audio api cl config d) True c1 else (Ret True, c1)) (\<lambda>ok2 c2.
                  if \<not> ok2 then (Ret False, c2) else start_decoders c2)))"

definition DecoderController_stopDecodeInternal :: "DecoderController \<Rightarrow> bool outcome \<times> DecoderController" where
  "DecoderController_stopDecodeInternal c =
     obind (video_call DecoderBase_stopInternal () c) (\<lambda>_ c1.
     obind (video_call (DecoderBase_closeInternal VideoDecoder_removeHardwareDecode) () c1) (\<lambda>_ c2.
     obind (audio_call DecoderBase_stopInternal () c2) (\<lambda>_ c3.
     obind (audio_call (DecoderBase_closeInternal DecoderBase_removeHardwareDecode) () c3) (\<lambda>_ c4.
     (Ret True, c4\<lparr>co_isDecoding := False\<rparr>)))))"

definition DecoderController_startDecode :: "frame_api \<Rightarrow> ctl_calls \<Rightarrow> DecoderController \<Rightarrow> bool outcome \<times> DecoderController" where
  "DecoderController_startDecode api cl c =
     DecoderController_startDecodeInternal api cl (c\<lparr>co_hasDecoderWhenReconnected := True\<rparr>)"

definition DecoderController_stopDecode :: "DecoderController \<Rightarrow> bool outcome \<times> DecoderController" where
  "DecoderController_stopDecode c = DecoderController_stopDecodeInternal (c\<lparr>co_hasDecoderWhenReconnected := False\<rparr>)"

definition DecoderController_isDecodeStopped :: "DecoderController \<Rightarrow> bool" where
  "DecoderController_isDecodeStopped c = co_isDecoding c"

definition DecoderController_isPaused :: "DecoderController \<Rightarrow> bool" where
  "DecoderController_isPaused c = Demuxer_isPaused (co_demuxer c)"

definition DecoderController_onPreBufferReady :: "DecoderController \<Rightarrow> DecoderController" where
  "DecoderController_onPreBufferReady c =
     (let c1 = c\<lparr>co_preBufferState := PB_kReady\<rparr>
      in if pb_autoStartAfterPreBuffer (cfg_preBufferConfig (cf_demux (co_config c1))) then set_waiting False c1 else c1)"

definition DecoderController_cleanupPreBufferState :: "DecoderController \<Rightarrow> DecoderController" where
  "DecoderController_cleanupPreBufferState c = set_waiting False (c\<lparr>co_preBufferState := PB_kDisabled\<rparr>)"

subsection \<open>Opening and closing\<close>

text \<open>A new decoder in the place of an old one, which is destroyed: its destructor closes it.\<close>

definition create_video :: "ctl_calls \<Rightarrow> DecoderController \<Rightarrow> unit outcome \<times> DecoderController" where
  "create_video cl c =
     obind (video_call (DecoderBase_closeInternal VideoDecoder_removeHardwareDecode) () c)
       (\<lambda>_ c1. (Ret (), c1\<lparr>co_videoDecoder := Some (VideoDecoder_new (cl_clock cl 0))\<rparr>))"

definition create_audio :: "ctl_calls \<Rightarrow> DecoderController \<Rightarrow> unit outcome \<times> DecoderController" where
  "create_audio cl c =
     obind (audio_call (DecoderBase_closeInternal DecoderBase_removeHardwareDecode) () c)
       (\<lambda>_ c1. (Ret (), c1\<lparr>co_audioDecoder := Some (AudioDecoder_new (cl_clock cl 1))\<rparr>))"

definition DecoderController_openInternal :: "ctl_calls \<Rightarrow> string \<Rightarrow> Config \<Rightarrow> DecoderController \<Rightarrow> bool outcome \<times> DecoderController" where
  "DecoderController_openInternal cl url config c =
     obind (demuxer_call (Demuxer_open (cl_open cl) url (cf_demux config) True)
              (c\<lparr>co_originalUrl := url, co_preBufferState := PB_kDisabled, co_config := config\<rparr>)) (\<lambda>ok c1.
       if \<not> ok then (Ret False, c1)
       else obind (if wants_video c1 then create_video cl c1 else (Ret (), c1)) (\<lambda>_ c2.
            obind (if wants_audio c2 then create_audio cl c2 else (Ret (), c2)) (\<lambda>_ c3. (Ret True, c3))))"

definition DecoderController_closeInternal :: "DecoderController \<Rightarrow> bool outcome \<times> DecoderController" where
  "DecoderController_closeInternal c =
     obind (video_call (DecoderBase_closeInternal VideoDecoder_removeHardwareDecode) () c) (\<lambda>_ c1.
     obind (audio_call (DecoderBase_closeInternal DecoderBase_removeHardwareDecode) () (c1\<lparr>co_videoDecoder := None\<rparr>)) (\<lambda>_ c2.
     demuxer_call Demuxer_close (c2\<lparr>co_audioDecoder := None\<rparr>)))"

subsection \<open>Reconnection\<close>

definition DecoderController_cleanupReconnectState :: "DecoderController \<Rightarrow> DecoderController" where
  "DecoderController_cleanupReconnectState c =
     c\<lparr>co_isReconnecting := False, co_shouldStopReconnect := False, co_currentReconnectAttempt := 0\<rparr>"

definition thread_running :: "DecoderController \<Rightarrow> bool" where
  "thread_running c \<longleftrightarrow> co_reconnectThread c \<noteq> None \<and> co_reconnectThread c \<noteq> Some RC_Ended"

definition DecoderController_startReconnect :: "bool \<Rightarrow> DecoderController \<Rightarrow> unit outcome \<times> DecoderController" where
  "DecoderController_startReconnect resumed c =
     (if \<not> resumed \<and> (co_isReconnecting c \<or> \<not> cf_enableAutoReconnect (co_config c)) then (Ret (), c)
      else
        let c1 = (if resumed then c
                  else c\<lparr>co_isReconnecting := True, co_shouldStopReconnect := False, co_currentReconnectAttempt := 0\<rparr>)
        in if thread_running c1 then (Wait, c1) else (Ret (), c1\<lparr>co_reconnectThread := Some RC_Head\<rparr>))"

definition DecoderController_stopReconnect :: "bool \<Rightarrow> DecoderController \<Rightarrow> unit outcome \<times> DecoderController" where
  "DecoderController_stopReconnect resumed c =
     (if \<not> resumed \<and> \<not> co_isReconnecting c then (Ret (), c)
      else
        let c1 = (if resumed then c else c\<lparr>co_shouldStopReconnect := True\<rparr>)
        in if thread_running c1 then (Wait, c1)
           else (Ret (), (DecoderController_cleanupReconnectState (c1\<lparr>co_reconnectThread := None\<rparr>))\<lparr>co_isReconnecting := False\<rparr>))"

text \<open>The listener the constructor registers for \<open>kStreamReadError\<close>.\<close>

definition on_stream_read_error :: "DecoderController \<Rightarrow> unit outcome \<times> DecoderController" where
  "on_stream_read_error c =
     (if cf_enableAutoReconnect (co_config c) \<and> \<not> co_shouldStopReconnect c then DecoderController_startReconnect False c else (Ret (), c))"

text \<open>The two sections of \<open>attemptReconnect\<close>, before and after the short sleep: whether the attempt goes on.\<close>

definition attempt_close :: "DecoderController \<Rightarrow> bool outcome \<times> DecoderController" where
  "attempt_close c = obind (DecoderController_stopDecodeInternal c) (\<lambda>_ c1. demuxer_call Demuxer_close c1)"

definition attempt_reopen :: "frame_api \<Rightarrow> ctl_calls \<Rightarrow> DecoderController \<Rightarrow> bool outcome \<times> DecoderController" where
  "attempt_reopen api cl c =
     (if co_shouldStopReconnect c then (Ret False, c)
      else obind (demuxer_call (Demuxer_open (cl_open cl) (co_originalUrl c) (cf_demux (co_config c)) True) c) (\<lambda>ok c1.
             if \<not> ok then (Ret False, c1)
             else
               let c2 = (if co_isDemuxerPausedWhenReconnected c1 then c1\<lparr>co_demuxer := snd (Demuxer_pause (co_demuxer c1))\<rparr> else c1)
               in if co_hasDecoderWhenReconnected c2 then DecoderController_startDecodeInternal api cl c2 else (Ret True, c2)))"

definition go_on :: "reconnect_pc \<Rightarrow> DecoderController \<Rightarrow> DecoderController" where
  "go_on pc c = c\<lparr>co_reconnectThread := Some pc\<rparr>"

text \<open>The head of the loop.\<close>

definition reconnect_head :: "DecoderController \<Rightarrow> DecoderController" where
  "reconnect_head c =
     (if co_shouldStopReconnect c then go_on RC_Exit c
      else if sint (cf_maxReconnectAttempts (co_config c)) > 0
              \<and> sint (co_currentReconnectAttempt c) \<ge> sint (cf_maxReconnectAttempts (co_config c))
      then go_on RC_Exit c
      else go_on RC_Close (c\<lparr>co_currentReconnectAttempt := co_currentReconnectAttempt c + 1\<rparr>))"

text \<open>A turn of \<open>reconnectLoop\<close>.\<close>

definition DecoderController_reconnectLoop :: "frame_api \<Rightarrow> ctl_calls \<Rightarrow> DecoderController \<Rightarrow> unit outcome \<times> DecoderController" where
  "DecoderController_reconnectLoop api cl c =
     (case co_reconnectThread c of
        None \<Rightarrow> (Wait, c)
      | Some RC_Head \<Rightarrow> (Ret (), reconnect_head c)
      | Some RC_Close \<Rightarrow>
          obind (attempt_close c) (\<lambda>ok c1. (Ret (), go_on (if ok then RC_Reopen else RC_Interval (cl_clock cl 0)) c1))
      | Some RC_Reopen \<Rightarrow>
          obind (attempt_reopen api cl c) (\<lambda>ok c1. (Ret (), go_on (if ok then RC_Exit else RC_Interval (cl_clock cl 5)) c1))
      | Some (RC_Interval waitStart) \<Rightarrow>
          if co_shouldStopReconnect c
             \<or> (cl_clock cl 0 - waitStart) div 1000000 \<ge> sint (cf_reconnectIntervalMs (co_config c))
          then (Ret (), go_on RC_Head c)
          else (Ret (), c)
      | Some RC_Exit \<Rightarrow> (Ret (), go_on RC_Final (DecoderController_cleanupReconnectState c))
      | Some RC_Final \<Rightarrow> (Ret (), go_on RC_Ended (c\<lparr>co_isReconnecting := False\<rparr>))
      | Some RC_Ended \<Rightarrow> (Wait, c))"


subsection \<open>Asynchronous open\<close>

definition DecoderController_openAsyncInternal :: "ctl_calls \<Rightarrow> string \<Rightarrow> Config \<Rightarrow> DecoderController \<Rightarrow> bool outcome \<times> DecoderController" where
  "DecoderController_openAsyncInternal cl url config c =
     (if co_shouldCancelAsyncOpen c then (Ret False, c) else DecoderController_openInternal cl url config c)"

definition async_to :: "async_task \<Rightarrow> DecoderController \<Rightarrow> DecoderController" where
  "async_to a c = c\<lparr>co_asyncOpenFuture := Some a\<rparr>"

text \<open>A turn of the task.  The mutex is held over the first two; the flag of a cancellation can be set in between.\<close>

definition async_open_task :: "ctl_calls \<Rightarrow> DecoderController \<Rightarrow> unit outcome \<times> DecoderController" where
  "async_open_task cl c =
     (case co_asyncOpenFuture c of
        Some (AT_Start url config) \<Rightarrow>
          if co_shouldCancelAsyncOpen c
          then (Ret (), async_to (AT_Callback AO_kCancelled False ''Operation was canceled before starting'') c)
          else obind (DecoderController_openAsyncInternal cl url config c) (\<lambda>ok c1. (Ret (), async_to (AT_Opened ok) c1))
      | Some (AT_Opened ok) \<Rightarrow>
          if co_shouldCancelAsyncOpen c
          then obind (if ok then demuxer_call Demuxer_close c else (Ret True, c)) (\<lambda>_ c1.
                 (Ret (), async_to (AT_Callback AO_kCancelled False ''Operation was canceled during execution'') c1))
          else (Ret (), async_to (if ok then AT_Callback AO_kSuccess True [] else AT_Callback AO_kFailed False ''Failed to open media file'') c)
      | Some (AT_Callback result openSuccess errorMessage) \<Rightarrow>
          let c1 = (if co_asyncOpenCallback c then log_events [AsyncOpenCalled result openSuccess errorMessage] c else c)
          in (Ret (), async_to AT_Done (c1\<lparr>co_asyncOpenCallback := False, co_asyncOpenInProgress := False\<rparr>))
      | _ \<Rightarrow> (Wait, c))"

definition DecoderController_cancelAsyncOpen :: "bool \<Rightarrow> DecoderController \<Rightarrow> unit outcome \<times> DecoderController" where
  "DecoderController_cancelAsyncOpen resumed c =
     (if \<not> resumed \<and> \<not> co_asyncOpenInProgress c then (Ret (), c)
      else if co_asyncOpenFuture c \<noteq> None \<and> co_asyncOpenFuture c \<noteq> Some AT_Done
      then (Wait, if resumed then c else c\<lparr>co_shouldCancelAsyncOpen := True\<rparr>)
      else (Ret (), c\<lparr>co_shouldCancelAsyncOpen := False\<rparr>))"

definition DecoderController_isAsyncOpenInProgress :: "DecoderController \<Rightarrow> bool" where
  "DecoderController_isAsyncOpenInProgress c = co_asyncOpenInProgress c"

text \<open>The part of \<open>openAsync\<close> after the cancellation of an earlier one; \<open>callback\<close>: whether there is one.\<close>

definition launch_async_open :: "string \<Rightarrow> Config \<Rightarrow> bool \<Rightarrow> DecoderController \<Rightarrow> DecoderController" where
  "launch_async_open url config callback c =
     async_to (AT_Start url config) (c\<lparr>co_asyncOpenCallback := callback, co_asyncOpenInProgress := True, co_shouldCancelAsyncOpen := False\<rparr>)"

subsection \<open>Calls in sections\<close>

type_synonym ctl_section = "bool \<Rightarrow> DecoderController \<Rightarrow> bool outcome \<times> DecoderController"

text \<open>The sections of a call: the result of the last one, or the sections that are left when one waits.\<close>

fun run_sections :: "ctl_section list \<Rightarrow> bool \<Rightarrow> DecoderController \<Rightarrow> bool outcome \<times> ctl_section list \<times> DecoderController" where
  "run_sections [] resumed c = (Ret True, [], c)"
| "run_sections (s # ss) resumed c =
     (case s resumed c of
        (Ret r, c1) \<Rightarrow> if ss = [] then (Ret r, [], c1) else run_sections ss False c1
      | (Wait, c1) \<Rightarrow> (Wait, s # ss, c1)
      | (UB, c1) \<Rightarrow> (UB, s # ss, c1))"

definition as_section :: "('a outcome \<times> DecoderController) \<Rightarrow> bool outcome \<times> DecoderController" where
  "as_section r = obind r (\<lambda>_ c. (Ret True, c))"

definition DecoderController_open :: "ctl_calls \<Rightarrow> string \<Rightarrow> Config \<Rightarrow> ctl_section list" where
  "DecoderController_open cl url config =
     [\<lambda>r c. as_section (DecoderController_cancelAsyncOpen r c), \<lambda>r c. as_section (DecoderController_stopReconnect r c),
      \<lambda>_ c. DecoderController_openInternal cl url config c]"

definition DecoderController_openAsync :: "string \<Rightarrow> Config \<Rightarrow> bool \<Rightarrow> ctl_section list" where
  "DecoderController_openAsync url config callback =
     [\<lambda>r c. as_section (DecoderController_cancelAsyncOpen r c), \<lambda>_ c. (Ret True, launch_async_open url config callback c)]"

definition DecoderController_close :: "ctl_section list" where
  "DecoderController_close =
     [\<lambda>r c. as_section (DecoderController_stopReconnect r c), \<lambda>r c. as_section (DecoderController_cancelAsyncOpen r c),
      \<lambda>_ c. (Ret True, DecoderController_cleanupPreBufferState c), \<lambda>_ c. DecoderController_stopDecode c,
      \<lambda>_ c. DecoderController_closeInternal c]"

text \<open>The destructor; the wait for a reconnecting thread that is still running makes no request to stop.\<close>

definition join_reconnect :: "DecoderController \<Rightarrow> bool outcome \<times> DecoderController" where
  "join_reconnect c = (if thread_running c then (Wait, c) else (Ret True, c\<lparr>co_reconnectThread := None\<rparr>))"

definition DecoderController_destroy :: "ctl_section list" where
  "DecoderController_destroy =
     [\<lambda>_ c. (Ret True, c\<lparr>co_asyncOpenCallback := False\<rparr>), \<lambda>r c. as_section (DecoderController_stopReconnect r c),
      \<lambda>_ c. join_reconnect c, \<lambda>r c. as_section (DecoderController_cancelAsyncOpen r c)] @ DecoderController_close"

subsection \<open>Playing\<close>

definition DecoderController_pause :: "DecoderController \<Rightarrow> bool outcome \<times> DecoderController" where
  "DecoderController_pause c =
     obind (video_call DecoderBase_pauseInternal () c) (\<lambda>_ c1.
     obind (audio_call DecoderBase_pauseInternal () c1) (\<lambda>_ c2.
     case Demuxer_pause (co_demuxer c2) of
       (ok, d) \<Rightarrow> (Ret ok, c2\<lparr>co_isDemuxerPausedWhenReconnected := True, co_demuxer := d\<rparr>)))"

definition DecoderController_resume :: "ctl_calls \<Rightarrow> DecoderController \<Rightarrow> bool outcome \<times> DecoderController" where
  "DecoderController_resume cl c =
     obind (video_call DecoderBase_resumeInternal () (if Demuxer_isRealTime (co_demuxer c) then reset_clocks cl c else c)) (\<lambda>_ c1.
     obind (audio_call DecoderBase_resumeInternal () c1) (\<lambda>_ c2.
     case Demuxer_resume (co_demuxer c2) of
       (ok, d) \<Rightarrow> (Ret ok, c2\<lparr>co_isDemuxerPausedWhenReconnected := False, co_demuxer := d\<rparr>)))"

definition seek_event :: "EventType \<Rightarrow> string \<Rightarrow> int \<Rightarrow> double \<Rightarrow> DecoderController \<Rightarrow> DecoderController" where
  "seek_event ty description now position c =
     log_events [SeekEvent ty (StreamSyncManager_getMasterClock now (co_sync c)) position description] c"

text \<open>The empty queue and the mark of a decoder for a seek.\<close>

definition mark_seek :: "frame_api \<Rightarrow> double \<Rightarrow> 'a DecoderBase_scheme \<Rightarrow> unit outcome \<times> 'a DecoderBase_scheme" where
  "mark_seek api position b =
     obind (case FrameQueue_clear api (db_frameQueue b) of (r, q) \<Rightarrow> (r, b\<lparr>db_frameQueue := q\<rparr>))
       (\<lambda>_ b1. DecoderBase_setSeekPos position b1)"

text \<open>The clock of a decoder is set with the serial number of the demuxer's packet queue, which is
  read through a null pointer when the stream has none.\<close>

definition seek_clock ::
    "(double \<Rightarrow> int \<Rightarrow> StreamSyncManager \<Rightarrow> StreamSyncManager) \<Rightarrow> bool \<Rightarrow> AVMediaType \<Rightarrow> double \<Rightarrow> DecoderController
      \<Rightarrow> unit outcome \<times> DecoderController" where
  "seek_clock updateClock exists ty position c =
     (if \<not> exists then (Ret (), c)
      else case Demuxer_packetQueue ty (co_demuxer c) of
             None \<Rightarrow> (UB, c)
           | Some q \<Rightarrow> (Ret (), c\<lparr>co_sync := updateClock position (sint (PacketQueue_serial q)) (co_sync c)\<rparr>))"

definition seek_decoders :: "frame_api \<Rightarrow> ctl_calls \<Rightarrow> double \<Rightarrow> DecoderController \<Rightarrow> unit outcome \<times> DecoderController" where
  "seek_decoders api cl position c =
     obind (video_call (silent (mark_seek api position)) () (reset_clocks cl c)) (\<lambda>_ c1.
     obind (audio_call (silent (mark_seek api position)) () c1) (\<lambda>_ c2.
     obind (seek_clock (StreamSyncManager_updateAudioClock (cl_clock cl 3)) (co_audioDecoder c2 \<noteq> None) AVMEDIA_TYPE_AUDIO position c2) (\<lambda>_ c3.
     seek_clock (StreamSyncManager_updateVideoClock (cl_clock cl 4)) (co_videoDecoder c3 \<noteq> None) AVMEDIA_TYPE_VIDEO position c3)))"

definition DecoderController_seek :: "frame_api \<Rightarrow> ctl_calls \<Rightarrow> double \<Rightarrow> DecoderController \<Rightarrow> bool outcome \<times> DecoderController" where
  "DecoderController_seek api cl position c =
     (let c0 = seek_event EV_kSeekStarted ''Seek Started'' (cl_clock cl 5) position c
      in if Demuxer_isRealTime (co_demuxer c0)
         then (Ret False, seek_event EV_kSeekFailed ''Seek Failed'' (cl_clock cl 6) position c0)
         else obind (demuxer_call (silent (Demuxer_seek position)) c0) (\<lambda>result c1.
                obind (if result then seek_decoders api cl position c1 else (Ret (), c1)) (\<lambda>_ c2.
                  (Ret result, seek_event EV_kSeekSuccess ''Seek Success'' (cl_clock cl 7) position c2))))"

definition DecoderController_setSpeed :: "ctl_calls \<Rightarrow> double \<Rightarrow> DecoderController \<Rightarrow> bool outcome \<times> DecoderController" where
  "DecoderController_setSpeed cl speed c =
     (if d_le speed (Fin 0) then (Ret False, c)
      else if Demuxer_isRealTime (co_demuxer c) then (Ret False, c)
      else obind (video_call (silent (DecoderBase_setSpeed speed)) True (c\<lparr>co_config := (co_config c)\<lparr>cf_speed := speed\<rparr>\<rparr>)) (\<lambda>_ c1.
           obind (audio_call (silent (DecoderBase_setSpeed speed)) True c1) (\<lambda>_ c2.
           (Ret True, c2\<lparr>co_sync := StreamSyncManager_setSpeed (cl_clock cl 0) (cl_clock cl 1) (cl_clock cl 2) (cl_clock cl 3)
                             (cl_clock cl 4) (cl_clock cl 5) speed (co_sync c2)\<rparr>))))"

definition DecoderController_curSpeed :: "DecoderController \<Rightarrow> double" where
  "DecoderController_curSpeed c = cf_speed (co_config c)"

definition DecoderController_setMasterClock :: "MasterClock \<Rightarrow> DecoderController \<Rightarrow> DecoderController" where
  "DecoderController_setMasterClock type c = c\<lparr>co_sync := StreamSyncManager_setMaster type (co_sync c)\<rparr>"

definition DecoderController_getVideoFrameRate :: "AVRational \<Rightarrow> DecoderController \<Rightarrow> double" where
  "DecoderController_getVideoFrameRate rate c =
     (case co_videoDecoder c of None \<Rightarrow> Fin 0 | Some _ \<Rightarrow> VideoDecoder_getFrameRate rate)"

definition DecoderController_setFrameRateControl :: "bool \<Rightarrow> DecoderController \<Rightarrow> DecoderController" where
  "DecoderController_setFrameRateControl enable c =
     map_decoders (DecoderBase_setFrameRateControl enable) id
       (c\<lparr>co_config := (co_config c)\<lparr>cf_enableFrameRateControl := enable\<rparr>\<rparr>)"

definition DecoderController_isFrameRateControlEnabled :: "DecoderController \<Rightarrow> bool" where
  "DecoderController_isFrameRateControlEnabled c =
     (case co_videoDecoder c of None \<Rightarrow> False | Some b \<Rightarrow> DecoderBase_isFrameRateControlEnabled b)"

text \<open>The queue of frames; \<open>None\<close> stands for the shared empty queue.\<close>

definition DecoderController_videoQueue :: "DecoderController \<Rightarrow> FrameQueue option" where
  "DecoderController_videoQueue c = map_option db_frameQueue (co_videoDecoder c)"

definition DecoderController_audioQueue :: "DecoderController \<Rightarrow> FrameQueue option" where
  "DecoderController_audioQueue c = map_option db_frameQueue (co_audioDecoder c)"

definition DecoderController_startRecording :: "mux_results \<Rightarrow> bool \<Rightarrow> string \<Rightarrow> DecoderController \<Rightarrow> bool outcome \<times> DecoderController" where
  "DecoderController_startRecording mx alloc outputPath c =
     demuxer_call (\<lambda>d. case Demuxer_startRecording mx alloc outputPath d of (ok, es, d1) \<Rightarrow> (Ret ok, es, d1)) c"

definition DecoderController_stopRecording :: "DecoderController \<Rightarrow> bool outcome \<times> DecoderController" where
  "DecoderController_stopRecording c =
     demuxer_call (\<lambda>d. case Demuxer_stopRecording d of (ok, es, d1) \<Rightarrow> (Ret ok, es, d1)) c"

definition DecoderController_isRecording :: "DecoderController \<Rightarrow> bool" where
  "DecoderController_isRecording c = Demuxer_isRecording (co_demuxer c)"

definition DecoderController_isRealTimeUrl :: "DecoderController \<Rightarrow> bool" where
  "DecoderController_isRealTimeUrl c = Demuxer_isRealTime (co_demuxer c)"

definition DecoderController_setLoopMode :: "LoopMode \<Rightarrow> u32 \<Rightarrow> DecoderController \<Rightarrow> bool \<times> DecoderController" where
  "DecoderController_setLoopMode mode maxLoops c =
     (if DecoderController_isRealTimeUrl c then (False, c)
      else (True, c\<lparr>co_demuxer := Demuxer_setLoopMode mode maxLoops (co_demuxer c)\<rparr>))"

definition DecoderController_getLoopMode :: "DecoderController \<Rightarrow> LoopMode" where
  "DecoderController_getLoopMode c = Demuxer_getLoopMode (co_demuxer c)"

definition DecoderController_getCurrentLoopCount :: "DecoderController \<Rightarrow> int" where
  "DecoderController_getCurrentLoopCount c = Demuxer_getCurrentLoopCount (co_demuxer c)"

definition DecoderController_resetLoopCount :: "DecoderController \<Rightarrow> bool \<times> DecoderController" where
  "DecoderController_resetLoopCount c = (True, c\<lparr>co_demuxer := Demuxer_resetLoopCount (co_demuxer c)\<rparr>)"

definition DecoderController_isReconnecting :: "DecoderController \<Rightarrow> bool" where
  "DecoderController_isReconnecting c = co_isReconnecting c"

definition DecoderController_stopReconnectManually :: "ctl_section list" where
  "DecoderController_stopReconnectManually = [\<lambda>r c. as_section (DecoderController_stopReconnect r c)]"

definition DecoderController_getPreBufferState :: "DecoderController \<Rightarrow> PreBufferState" where
  "DecoderController_getPreBufferState c = co_preBufferState c"

definition DecoderController_getPreBufferProgress :: "DecoderController \<Rightarrow> PreBufferProgress" where
  "DecoderController_getPreBufferProgress c = Demuxer_getPreBufferProgress (co_demuxer c)"

subsection \<open>Listeners\<close>

definition DecoderController_addGlobalEventListener :: "ctl_callback \<Rightarrow> DecoderController \<Rightarrow> (EventType \<times> u64) list \<times> DecoderController" where
  "DecoderController_addGlobalEventListener callback c =
     (case EventDispatcher_addGlobalEventListener callback (co_dispatcher c) of (h, d) \<Rightarrow> (h, c\<lparr>co_dispatcher := d\<rparr>))"

definition DecoderController_removeGlobalEventListener :: "(EventType \<times> u64) list \<Rightarrow> DecoderController \<Rightarrow> bool outcome \<times> DecoderController" where
  "DecoderController_removeGlobalEventListener handle c =
     (case EventDispatcher_removeGlobalEventListener handle (co_dispatcher c) of (r, d) \<Rightarrow> (r, c\<lparr>co_dispatcher := d\<rparr>))"

definition DecoderController_addEventListener :: "EventType \<Rightarrow> ctl_callback \<Rightarrow> DecoderController \<Rightarrow> u64 \<times> DecoderController" where
  "DecoderController_addEventListener eventType callback c =
     (case EventDispatcher_addEventListener eventType callback (co_dispatcher c) of (h, d) \<Rightarrow> (h, c\<lparr>co_dispatcher := d\<rparr>))"

definition DecoderController_removeEventListener :: "EventType \<Rightarrow> u64 \<Rightarrow> DecoderController \<Rightarrow> bool outcome \<times> DecoderController" where
  "DecoderController_removeEventListener eventType handle c =
     (case EventDispatcher_removeEventListener eventType handle (co_dispatcher c) of (r, d) \<Rightarrow> (r, c\<lparr>co_dispatcher := d\<rparr>))"

definition DecoderController_processAsyncEvents ::
    "(ctl_callback \<Rightarrow> EventType \<Rightarrow> ctl_event \<Rightarrow> bool) \<Rightarrow> DecoderController
      \<Rightarrow> bool option \<times> (ctl_callback \<times> EventType \<times> ctl_event) list \<times> DecoderController" where
  "DecoderController_processAsyncEvents throws c =
     (case EventDispatcher_processAsyncEvents throws (co_dispatcher c) of (r, calls, d) \<Rightarrow> (r, calls, c\<lparr>co_dispatcher := d\<rparr>))"

definition DecoderController_startAsyncProcessing :: "DecoderController \<Rightarrow> DecoderController" where
  "DecoderController_startAsyncProcessing c = c\<lparr>co_dispatcher := EventDispatcher_startAsyncProcessing (co_dispatcher c)\<rparr>"

definition DecoderController_stopAsyncProcessing :: "DecoderController \<Rightarrow> DecoderController" where
  "DecoderController_stopAsyncProcessing c = c\<lparr>co_dispatcher := EventDispatcher_stopAsyncProcessing (co_dispatcher c)\<rparr>"

definition DecoderController_isAsyncProcessingActive :: "DecoderController \<Rightarrow> bool" where
  "DecoderController_isAsyncProcessingActive c = EventDispatcher_isAsyncProcessingActive (co_dispatcher c)"

end
