(* ===== verification/DemuxTurns.thy ===== *)
theory DemuxTurns
  imports Demuxers
begin

text \<open>
  Properties that the demultiplexing thread keeps.  A property of the demuxer that holds after
  the basic updates of a turn (a packet queue, the recorder, the pre-buffer check, the loop counter) holds after the turn;
  two instances: which packet queues exist, and that the pre-buffer has been reported.
\<close>

locale turn_invariant =
  fixes Q :: "Demuxer \<Rightarrow> bool" and E :: "demux_event \<Rightarrow> bool"
  assumes queue: "Q d \<Longrightarrow> Demuxer_packetQueue m d = Some q \<Longrightarrow> Q (set_queue m q' d)"
    and flush: "Q d \<Longrightarrow> Q (map_queues PacketQueue_flush d)"
    and recorder: "Q d \<Longrightarrow> Q (d\<lparr>dm_recorder := r\<rparr>)"
    and position: "Q d \<Longrightarrow> Q (d\<lparr>dm_seekMsPos := n\<rparr>)"
    and count: "Q d \<Longrightarrow> Q (d\<lparr>dm_currentLoopCount := k\<rparr>)"
    and threads: "Q d \<Longrightarrow> Q (d\<lparr>dm_thread := t\<rparr>)"
    and preBuffer: "Q d \<Longrightarrow> Demuxer_checkPreBufferStatus d = (es, d') \<Longrightarrow> Q d' \<and> list_all E es"
    and stream: "E (StreamEvent ty url desc time)"
    and looped: "E (LoopEvent ty a b desc)"
begin

lemma finish: "Q d \<Longrightarrow> dist_finish api m p d = (es, d') \<Longrightarrow> Q d' \<and> list_all E es"
  by (auto simp: dist_finish_def intro: preBuffer recorder split: if_splits dest!: preBuffer [rotated])

lemma push: "Q d \<Longrightarrow> dist_push api m p d = (pc, es, d') \<Longrightarrow> Q d' \<and> list_all E es"
  by (auto simp: dist_push_def split: option.splits prod.splits outcome.splits dest!: finish [rotated] intro: queue)

lemma distribute: "Q d \<Longrightarrow> Demuxer_distributePacket api pkt d = (pc, es, d') \<Longrightarrow> Q d' \<and> list_all E es"
  by (auto simp: Demuxer_distributePacket_def dist_to_def Let_def split: if_splits option.splits
      dest!: finish [rotated] push [rotated] preBuffer [rotated])

lemma push_end_Q: "Q d \<Longrightarrow> Q (push_end api m pkt d)"
  by (auto simp: push_end_def Let_def split: option.splits intro: queue)

lemma seekRequest: "Q d \<Longrightarrow> Demuxer_handleSeekRequest io d = (b, d') \<Longrightarrow> Q d'"
  by (auto simp: Demuxer_handleSeekRequest_def Let_def split: if_splits intro: flush position)

lemma readError: "Demuxer_handleReadError io t d = (r, es, t') \<Longrightarrow> list_all E es"
  by (auto simp: Demuxer_handleReadError_def Let_def stream split: if_splits)

lemma loopPlayback:
  assumes "Q d" "Demuxer_handleLoopPlayback io d = (b, es, d')"
  shows "Q d' \<and> list_all E es"
proof -
  obtain b1 d1 where s: "Demuxer_handleSeekRequest io (d\<lparr>dm_seekMsPos := 0\<rparr>) = (b1, d1)" by fastforce
  have "Q d1" using seekRequest [OF position s] assms(1) .
  with assms s show ?thesis
    by (auto simp: Demuxer_handleLoopPlayback_def Let_def looped split: if_splits option.splits bool.splits intro: count)
qed

lemma readPacket:
  assumes "Q d" "Demuxer_readAndProcessPacket api io e t d = (r, es, t', d')"
  shows "Q d' \<and> list_all E es"
proof -
  obtain r1 es1 t1 where h: "Demuxer_handleReadError io t d = (r1, es1, t1)" by (metis prod_cases3)
  let ?d = "if e then d else Demuxer_handleEndOfFile api (snd (io_read io)) d"
  obtain r2 es2 t2 where h2: "Demuxer_handleReadError io t ?d = (r2, es2, t2)" by (metis prod_cases3)
  have q: "Q ?d" using assms(1) by (auto simp: Demuxer_handleEndOfFile_def intro: push_end_Q)
  have "(d' = d \<or> d' = ?d) \<and> es \<in> {[], es1, es2, [StreamEvent EV_kStreamReadData (dm_url d) ''Stream Read Data'' None]}"
    using assms(2) h h2 by (cases "io_read io") (auto simp: Demuxer_readAndProcessPacket_def Let_def split: if_splits)
  with q assms(1) readError [OF h] readError [OF h2] show ?thesis by (auto simp: stream)
qed

lemma file_read_Q:
  assumes "Q d" "file_read api io t d = (es, t', d')"
  shows "Q d' \<and> list_all E es"
proof -
  obtain r es1 t1 d1 where e: "Demuxer_readAndProcessPacket api io
      (case dt_isEof t of Some b \<Rightarrow> b | None \<Rightarrow> False) t d = (r, es1, t1, d1)"
    by (metis prod_cases4)
  note q = readPacket [OF assms(1) e]
  obtain b es2 d2 where l: "Demuxer_handleLoopPlayback io d1 = (b, es2, d2)" by (metis prod_cases3)
  obtain pc es3 d3 where di: "Demuxer_distributePacket api (snd (io_read io)) d1 = (pc, es3, d3)"
    by (metis prod_cases3)
  show ?thesis using assms(2) q loopPlayback [OF _ l] distribute [OF _ di]
    by (auto simp: file_read_def e l di Let_def stream split: if_splits)
qed

lemma turn:
  assumes "Q d" "thread_turn api io d = (es, d')"
  shows "Q d' \<and> list_all E es"
proof (cases "dm_thread d")
  case (Some t)
  obtain t1 d1 where e: "Demuxer_demuxLoop api io t d = (es, t1, d1)" and d': "d' = d1\<lparr>dm_thread := Some t1\<rparr>"
    using assms(2) Some by (auto simp: thread_turn_def split: prod.splits)
  have "Q d1 \<and> list_all E es"
  proof (cases "dt_pc t")
    case DP_Loop
    let ?d = "if dm_seekMsPos d > 0 then d\<lparr>dm_seekMsPos := -1\<rparr> else d"
    obtain r es2 t2 d2 where r: "Demuxer_readAndProcessPacket api io False t ?d = (r, es2, t2, d2)" by (metis prod_cases4)
    have q2: "Q d2 \<and> list_all E es2" using readPacket [OF _ r] assms(1) position by auto
    obtain pc es3 d3 where di: "Demuxer_distributePacket api (snd (io_read io)) d2 = (pc, es3, d3)" by (metis prod_cases3)
    have q3: "Q d3 \<and> list_all E es3" using distribute [OF _ di] q2 by blast
    obtain b d4 where s: "Demuxer_handleSeekRequest io d = (b, d4)" by fastforce
    have q4: "Q d4" using seekRequest [OF assms(1) s] .
    show ?thesis
      using e DP_Loop assms(1) q2 q3 q4 file_read_Q [OF q4]
      by (auto simp: Demuxer_demuxLoop_def Demuxer_realTimeStreamDemuxLoop_def Demuxer_fileStreamDemuxLoop_def r di s
          split: if_splits bool.splits)
  next
    case (DP_Push m p)
    then show ?thesis using e push [OF assms(1)] by (auto simp: Demuxer_demuxLoop_def split: prod.splits)
  qed (use e assms(1) file_read_Q [OF assms(1)] in \<open>auto simp: Demuxer_demuxLoop_def\<close>)
  with d' show ?thesis by (auto intro: threads)
qed (use assms in \<open>auto simp: thread_turn_def\<close>)

end

text \<open>Which packet queues exist.\<close>

definition has_queues :: "bool \<Rightarrow> bool \<Rightarrow> Demuxer \<Rightarrow> bool" where
  "has_queues v a d \<longleftrightarrow> (dm_videoPacketQueue d \<noteq> None) = v \<and> (dm_audioPacketQueue d \<noteq> None) = a"

interpretation queues: turn_invariant "has_queues v a" "\<lambda>_. True" for v a
  by unfold_locales (auto simp: has_queues_def set_queue_def map_queues_def Demuxer_packetQueue_def
      Demuxer_checkPreBufferStatus_def Let_def split: if_splits)

interpretation reported: turn_invariant dm_preBufferReady "\<lambda>e. e \<noteq> PreBufferCallback"
  by unfold_locales (auto simp: set_queue_def map_queues_def Demuxer_checkPreBufferStatus_def)

end
