(* ===== verification/ControllerProperties.thy ===== *)
theory ControllerProperties
  imports DecoderControllers DemuxTurns
begin

text \<open>
  The invariant of the controller of \<open>DecoderControllers\<close> with its threads: which decoders and packet queues exist together,
  which decoders are open, and that no call reads a null codec context.
\<close>

subsection \<open>Results of calls\<close>

lemma obind_simps [simp]:
  "obind (Ret a, s) k = k a s" "obind (Wait, s) k = (Wait, s)" "obind (UB, s) k = (UB, s)"
  by (simp_all add: obind_def)

lemma log_events_sel [simp]:
  "co_dispatcher (log_events es c) = co_dispatcher c" "co_sync (log_events es c) = co_sync c"
  "co_demuxer (log_events es c) = co_demuxer c" "co_videoDecoder (log_events es c) = co_videoDecoder c"
  "co_audioDecoder (log_events es c) = co_audioDecoder c" "co_config (log_events es c) = co_config c"
  "co_isDecoding (log_events es c) = co_isDecoding c" "co_preBufferState (log_events es c) = co_preBufferState c"
  "co_asyncOpenInProgress (log_events es c) = co_asyncOpenInProgress c"
  "co_shouldCancelAsyncOpen (log_events es c) = co_shouldCancelAsyncOpen c"
  "co_asyncOpenFuture (log_events es c) = co_asyncOpenFuture c" "co_asyncOpenCallback (log_events es c) = co_asyncOpenCallback c"
  "co_isReconnecting (log_events es c) = co_isReconnecting c" "co_shouldStopReconnect (log_events es c) = co_shouldStopReconnect c"
  "co_currentReconnectAttempt (log_events es c) = co_currentReconnectAttempt c"
  "co_hasDecoderWhenReconnected (log_events es c) = co_hasDecoderWhenReconnected c"
  "co_isDemuxerPausedWhenReconnected (log_events es c) = co_isDemuxerPausedWhenReconnected c"
  "co_originalUrl (log_events es c) = co_originalUrl c" "co_reconnectThread (log_events es c) = co_reconnectThread c"
  "co_events (log_events es c) = co_events c @ es"
  by (simp_all add: log_events_def)

text \<open>A result that is defined and, when the call has returned, satisfies \<open>P\<close>.\<close>

fun ok :: "('a \<Rightarrow> 's \<Rightarrow> bool) \<Rightarrow> 'a outcome \<times> 's \<Rightarrow> bool" where
  "ok P (Ret a, s) \<longleftrightarrow> P a s"
| "ok P (Wait, s) \<longleftrightarrow> True"
| "ok P (UB, s) \<longleftrightarrow> False"

lemma ret_obind: "obind r k = (Ret a, s) \<longleftrightarrow> (\<exists>b t. r = (Ret b, t) \<and> k b t = (Ret a, s))"
  by (cases r; cases "fst r") auto

lemma ok_obind: "ok P r \<Longrightarrow> (\<And>a s. r = (Ret a, s) \<Longrightarrow> P a s \<Longrightarrow> ok Q (k a s)) \<Longrightarrow> ok Q (obind r k)"
  by (cases r; cases "fst r") auto

lemma ok_defined: "ok P r \<Longrightarrow> fst r \<noteq> UB"
  by (cases r; cases "fst r") auto

lemma ok_mono: "ok P r \<Longrightarrow> (\<And>a s. P a s \<Longrightarrow> Q a s) \<Longrightarrow> ok Q r"
  by (cases r; cases "fst r") auto

subsection \<open>The life cycle of the parts\<close>

text \<open>
  The indices of a demuxer: inside the container when there is one; without an open stream there are none,
  and no packet queues.
\<close>

definition indices_ok :: "Demuxer \<Rightarrow> bool" where
  "indices_ok d \<longleftrightarrow> (case dm_formatContext d of None \<Rightarrow> True
       | Some fc \<Rightarrow> dm_videoStreamIndex d < int (length (fc_streams fc)) \<and> dm_audioStreamIndex d < int (length (fc_streams fc)))
     \<and> (\<not> dm_isOpened d \<longrightarrow> dm_videoStreamIndex d = -1 \<and> dm_audioStreamIndex d = -1 \<and> has_queues False False d)"

text \<open>What \<open>av_find_best_stream\<close> documents: an index of a stream of the container, or a negative error.\<close>

definition open_calls_ok :: "open_calls \<Rightarrow> bool" where
  "open_calls_ok oc \<longleftrightarrow> (\<forall>url options. case oc_open_input oc url options of (ret, fc) \<Rightarrow>
     oc_best_video oc < int (length (fc_streams fc)) \<and> oc_best_audio oc < int (length (fc_streams fc)))"

definition decoder_ok :: "AVMediaType \<Rightarrow> 'a DecoderBase_scheme \<Rightarrow> bool" where
  "decoder_ok ty b \<longleftrightarrow> db_inv b \<and> db_type b = ty"

fun speed_ok :: "double \<Rightarrow> bool" where
  "speed_ok (Fin x) \<longleftrightarrow> True"
| "speed_ok _ \<longleftrightarrow> False"

definition ctl_inv :: "DecoderController \<Rightarrow> bool" where
  "ctl_inv c \<longleftrightarrow> indices_ok (co_demuxer c) \<and> speed_ok (cf_speed (co_config c))
     \<and> pred_option (decoder_ok AVMEDIA_TYPE_VIDEO) (co_videoDecoder c) \<and> pred_option (decoder_ok AVMEDIA_TYPE_AUDIO) (co_audioDecoder c)
     \<and> (dm_videoPacketQueue (co_demuxer c) \<noteq> None \<longrightarrow> wants_video c) \<and> (dm_audioPacketQueue (co_demuxer c) \<noteq> None \<longrightarrow> wants_audio c)
     \<and> (\<forall>url config. co_asyncOpenFuture c = Some (AT_Start url config) \<longrightarrow> speed_ok (cf_speed config))"

lemma indices_streams: "indices_ok d \<Longrightarrow> demuxer_streams_ok AVMEDIA_TYPE_VIDEO d" "indices_ok d \<Longrightarrow> demuxer_streams_ok AVMEDIA_TYPE_AUDIO d"
  by (auto simp: indices_ok_def demuxer_streams_ok_def Demuxer_streamIndex_def split: option.splits)

lemma indices_core:
  "dm_formatContext d' = dm_formatContext d \<Longrightarrow> dm_videoStreamIndex d' = dm_videoStreamIndex d
    \<Longrightarrow> dm_audioStreamIndex d' = dm_audioStreamIndex d \<Longrightarrow> dm_isOpened d' = dm_isOpened d
    \<Longrightarrow> (dm_videoPacketQueue d' = None) = (dm_videoPacketQueue d = None) \<Longrightarrow> (dm_audioPacketQueue d' = None) = (dm_audioPacketQueue d = None)
    \<Longrightarrow> indices_ok d \<Longrightarrow> indices_ok d'"
  by (simp add: indices_ok_def has_queues_def split: option.splits)

lemma indices_stop:
  assumes "indices_ok d" "Demuxer_stop d = (r, d')"
  shows "indices_ok d' \<and> r \<noteq> UB"
  using assms by (auto simp: Demuxer_stop_def Let_def map_queues_def split: if_splits option.splits elim!: indices_core [rotated 6])

lemma indices_close_internal:
  assumes "indices_ok d" "Demuxer_closeInternal d = (r, es, d')"
  shows "indices_ok d' \<and> r \<noteq> UB \<and> (r = Ret ok' \<longrightarrow> \<not> dm_isOpened d')"
proof -
  obtain r1 d1 where s: "Demuxer_stop d = (r1, d1)" by fastforce
  from indices_stop [OF assms(1) s] assms(2) s show ?thesis
    by (auto simp: Demuxer_closeInternal_def Let_def Demuxer_clearPreBufferCallback_def indices_ok_def has_queues_def split: outcome.splits if_splits)
qed

lemma indices_close:
  assumes "indices_ok d" "Demuxer_close d = (r, es, d')"
  shows "indices_ok d' \<and> r \<noteq> UB"
proof -
  let ?d = "if Demuxer_isRecording d then snd (snd (Demuxer_stopRecording d)) else d"
  have i: "indices_ok ?d"
    using assms(1) by (auto simp: Demuxer_stopRecording_def split: prod.split elim!: indices_core [rotated 6])
  obtain es1 where "Demuxer_closeInternal ?d = (r, es1, d')"
    using assms(2) by (auto simp: Demuxer_close_def Let_def split: prod.splits if_splits)
  from indices_close_internal [OF i this] show ?thesis by blast
qed

lemma indices_open_stream:
  assumes "open_calls_ok oc" "indices_ok d" "\<not> dm_isOpened d" "open_stream oc url config cb d = (r, es, d')"
  shows "indices_ok d'"
proof -
  obtain ret fc where o: "oc_open_input oc url (open_options (isRealtime url) (cfg_rtspTransport config)) = (ret, fc)" by fastforce
  with assms(1) have "oc_best_video oc < int (length (fc_streams fc)) \<and> oc_best_audio oc < int (length (fc_streams fc))"
    unfolding open_calls_ok_def by (metis (no_types, lifting) case_prod_conv)
  then have i: "indices_ok (opened_state oc fc url config cb d)" by (simp add: indices_ok_def opened_state_sel)
  have n: "dm_videoStreamIndex d = -1" "dm_audioStreamIndex d = -1" "has_queues False False d" using assms(2,3) by (simp_all add: indices_ok_def)
  consider "d' = d\<lparr>dm_formatContext := None\<rparr>" | "d' = d\<lparr>dm_formatContext := Some fc\<rparr>" | "d' = opened_state oc fc url config cb d"
    using assms(4) o by (simp add: open_stream_def Let_def split: if_splits)
  then show ?thesis using i n assms(3) by cases (simp_all add: indices_ok_def has_queues_def)
qed

lemma indices_open:
  assumes "open_calls_ok oc" "indices_ok d" "Demuxer_open oc url config cb d = (r, es, d')"
  shows "indices_ok d' \<and> r \<noteq> UB"
proof (cases "dm_isOpened d")
  case True
  obtain r1 es1 d1 where c: "Demuxer_closeInternal d = (r1, es1, d1)" by (metis prod_cases3)
  obtain r2 es2 d2 where o: "open_stream oc url config cb d1 = (r2, es2, d2)" by (metis prod_cases3)
  show ?thesis
  proof (cases r1)
    case (Ret a)
    with indices_close_internal [OF assms(2) c] have "indices_ok d1" "\<not> dm_isOpened d1" by auto
    from indices_open_stream [OF assms(1) this o] Ret c o True assms(3) show ?thesis
      by (auto simp: Demuxer_open_def Demuxer_openInternal_def)
  qed (use indices_close_internal [OF assms(2) c] c True assms(3) in \<open>auto simp: Demuxer_open_def Demuxer_openInternal_def\<close>)
next
  case False
  obtain r2 es2 d2 where o: "open_stream oc url config cb d = (r2, es2, d2)" by (metis prod_cases3)
  from indices_open_stream [OF assms(1,2) False o] o False assms(3) show ?thesis
    by (auto simp: Demuxer_open_def Demuxer_openInternal_def)
qed


text \<open>The packet queues of a demuxer that has been opened or closed.\<close>

lemma opened_queues:
  assumes "has_queues False False d"
  shows "has_queues (oc_best_video oc \<ge> 0 \<and> cfg_decodeMediaType config AND kVideo \<noteq> 0)
    (oc_best_audio oc \<ge> 0 \<and> cfg_decodeMediaType config AND kAudio \<noteq> 0) (opened_state oc fc url config cb d)"
  using assms
  by (simp add: has_queues_def opened_state_def Demuxer_start_def Demuxer_setPreBufferConfig_def map_queues_def Let_def)

lemma open_stream_queues:
  assumes "has_queues False False d" "open_stream oc url config cb d = (b, es, d')"
  shows "(dm_videoPacketQueue d' \<noteq> None \<longrightarrow> Demuxer_hasVideo d' \<and> cfg_decodeMediaType config AND kVideo \<noteq> 0)
    \<and> (dm_audioPacketQueue d' \<noteq> None \<longrightarrow> Demuxer_hasAudio d' \<and> cfg_decodeMediaType config AND kAudio \<noteq> 0)"
proof -
  obtain ret fc where o: "oc_open_input oc url (open_options (isRealtime url) (cfg_rtspTransport config)) = (ret, fc)" by fastforce
  consider "d' = d\<lparr>dm_formatContext := None\<rparr>" | "d' = d\<lparr>dm_formatContext := Some fc\<rparr>" | "d' = opened_state oc fc url config cb d"
    using assms(2) o by (simp add: open_stream_def Let_def split: if_splits)
  then show ?thesis
  proof cases
    case 3
    with opened_queues [OF assms(1), of oc config fc url cb] show ?thesis
      by (auto simp: has_queues_def Demuxer_hasVideo_def Demuxer_hasAudio_def opened_state_sel)
  qed (use assms(1) in \<open>auto simp: has_queues_def\<close>)
qed

lemma open_queues:
  assumes "indices_ok d" "Demuxer_open oc url config cb d = (Ret b, es, d')"
  shows "(dm_videoPacketQueue d' \<noteq> None \<longrightarrow> Demuxer_hasVideo d' \<and> cfg_decodeMediaType config AND kVideo \<noteq> 0)
    \<and> (dm_audioPacketQueue d' \<noteq> None \<longrightarrow> Demuxer_hasAudio d' \<and> cfg_decodeMediaType config AND kAudio \<noteq> 0)"
proof (cases "dm_isOpened d")
  case True
  obtain r1 es1 d1 where c: "Demuxer_closeInternal d = (r1, es1, d1)" by (metis prod_cases3)
  with True assms(2) obtain a es2 where o: "r1 = Ret a" "open_stream oc url config cb d1 = (b, es2, d')"
    by (auto simp: Demuxer_open_def Demuxer_openInternal_def split: outcome.splits prod.splits)
  from indices_close_internal [OF assms(1) c] o(1) have "has_queues False False d1" by (auto simp: indices_ok_def)
  from open_stream_queues [OF this o(2)] show ?thesis .
next
  case False
  with assms(1) have n: "has_queues False False d" by (simp add: indices_ok_def)
  from False assms(2) obtain es2 where "open_stream oc url config cb d = (b, es2, d')"
    by (auto simp: Demuxer_open_def Demuxer_openInternal_def split: prod.splits)
  from open_stream_queues [OF n this] show ?thesis .
qed

lemma close_queues:
  assumes "indices_ok d" "Demuxer_close d = (Ret b, es, d')"
  shows "has_queues False False d'"
proof -
  let ?d = "if Demuxer_isRecording d then snd (snd (Demuxer_stopRecording d)) else d"
  have i: "indices_ok ?d"
    using assms(1) by (auto simp: Demuxer_stopRecording_def split: prod.split elim!: indices_core [rotated 6])
  obtain es1 where "Demuxer_closeInternal ?d = (Ret b, es1, d')"
    using assms(2) by (auto simp: Demuxer_close_def Let_def split: prod.splits if_splits)
  from indices_close_internal [OF i this] show ?thesis by (auto simp: indices_ok_def)
qed

text \<open>The calls of a decoder.\<close>

definition decoder_result :: "AVMediaType \<Rightarrow> 'r outcome \<times> decoder_event list \<times> 'a DecoderBase_scheme \<Rightarrow> bool" where
  "decoder_result ty x \<longleftrightarrow> (case x of (r, es, b') \<Rightarrow> r \<noteq> UB \<and> decoder_ok ty b')"

lemma decoder_resultI:
  "(\<And>r es b'. x = (r, es, b') \<Longrightarrow> call_ok b r es b') \<Longrightarrow> db_type b = ty \<Longrightarrow> decoder_result ty x"
  by (cases x) (simp add: decoder_result_def decoder_ok_def call_ok_def)

lemma decoder_calls_ok:
  assumes "decoder_ok ty b"
  shows "decoder_result ty (DecoderBase_pauseInternal b)" "decoder_result ty (DecoderBase_resumeInternal b)"
    "decoder_result ty (DecoderBase_stopInternal b)"
    "(Demuxer_packetQueue ty d \<noteq> None \<longrightarrow> db_isOpened b) \<Longrightarrow> decoder_result ty (DecoderBase_startInternal d b)"
proof -
  have k: "db_inv b" "db_type b = ty" using assms by (simp_all add: decoder_ok_def)
  note cs = base_hooks.call_keeps [OF k(1)]
  show "decoder_result ty (DecoderBase_pauseInternal b)"
    by (rule decoder_resultI [OF _ k(2)]) (rule cs [of CmdPause], simp_all)
  show "decoder_result ty (DecoderBase_resumeInternal b)"
    by (rule decoder_resultI [OF _ k(2)]) (rule cs [of CmdResume], simp_all)
  show "decoder_result ty (DecoderBase_stopInternal b)"
    by (rule decoder_resultI [OF _ k(2)]) (rule cs [of CmdStop], simp_all)
  show "decoder_result ty (DecoderBase_startInternal d b)" if q: "Demuxer_packetQueue ty d \<noteq> None \<longrightarrow> db_isOpened b"
  proof (cases "db_isOpened b")
    case True
    then show ?thesis by (intro decoder_resultI [OF _ k(2)]) (rule cs [of "CmdStart d"], simp_all)
  next
    case False
    with q k(2) assms show ?thesis by (simp add: decoder_result_def DecoderBase_startInternal_def)
  qed
qed

lemma close_ok:
  assumes "decoder_ok ty b"
  shows "decoder_result ty (DecoderBase_closeInternal DecoderBase_removeHardwareDecode b)"
  using assms base_hooks.close_keeps by (intro decoder_resultI [of _ b]) (auto simp: decoder_ok_def)

lemma close_video_ok:
  assumes "decoder_ok ty b"
  shows "decoder_result ty (DecoderBase_closeInternal VideoDecoder_removeHardwareDecode b)"
  using assms video_hooks.close_keeps by (intro decoder_resultI [of _ b]) (auto simp: decoder_ok_def)

lemma setSpeed_ok:
  assumes "DecoderBase_setSpeed (Fin v) b = (r, b')"
  shows "r \<noteq> UB \<and> b' = b\<lparr>db_speed := db_speed b'\<rparr>"
proof -
  have "v \<le> 64 + 1 / 10 ^ 12 \<Longrightarrow> v * 1000 < 65536" by simp
  then have "trunc_to_int (v * 1000) < 2 ^ 16" if "v \<le> 64 + 1 / 10 ^ 12" "0 < v"
    using that by (simp add: trunc_to_int_def floor_less_iff)
  with assms show ?thesis
    by (auto simp: DecoderBase_setSpeed_def DOUBLEEPSILON_def utils_greater_def split: if_splits)
qed


context decoder_class
begin

lemma open_result:
  assumes "decoder_ok ty b" "demuxer_streams_ok ty d"
    and "DecoderBase_openInternal hwSetup hwRemove api kc now d b = (r, es, b')"
  shows "r \<noteq> UB \<and> decoder_ok ty b' \<and> (r = Ret True \<longrightarrow> db_isOpened b')"
proof -
  have "call_ok b r es b'" using open_keeps [of b d api kc now r es b'] assms by (auto simp: decoder_ok_def)
  moreover have "r = Ret True \<longrightarrow> db_isOpened b'"
    using assms(3)
    by (auto simp: DecoderBase_openInternal_def open_codec_def Let_def
        split: if_splits option.splits prod.splits outcome.splits)
  ultimately show ?thesis using assms(1) by (simp add: decoder_ok_def call_ok_def)
qed

end

lemma init_ok:
  "decoder_ok ty v \<Longrightarrow> decoder_ok ty (DecoderBase_setFrameRateControl x (VideoDecoder_init cfg v))"
  "decoder_ok ty a \<Longrightarrow> decoder_ok ty (AudioDecoder_init y a)"
  "decoder_ok ty b \<Longrightarrow> decoder_ok ty (b\<lparr>db_speed := n\<rparr>)"
  by (simp_all add: decoder_ok_def db_inv_def VideoDecoder_init_def AudioDecoder_init_def DecoderBase_setFrameRateControl_def)

lemma set_up_video_ok:
  assumes "decoder_ok AVMEDIA_TYPE_VIDEO b" "speed_ok (cf_speed config)" "indices_ok d" "set_up_video api cl config d b = (r, es, b')"
  shows "r \<noteq> UB \<and> decoder_ok AVMEDIA_TYPE_VIDEO b' \<and> (r = Ret True \<longrightarrow> db_isOpened b')"
proof -
  obtain v where v: "cf_speed config = Fin v" using assms(2) by (cases "cf_speed config") auto
  let ?b = "DecoderBase_setFrameRateControl (cf_enableFrameRateControl config) (VideoDecoder_init (cf_video config) b)"
  obtain r1 b1 where s: "DecoderBase_setSpeed (Fin v) ?b = (r1, b1)" by fastforce
  have b1: "r1 \<noteq> UB" "decoder_ok AVMEDIA_TYPE_VIDEO b1"
    using setSpeed_ok [OF s] init_ok(3) [OF init_ok(1) [OF assms(1)]] by metis+
  show ?thesis using b1 assms(4) s v video_hooks.open_result [OF b1(2) indices_streams(1) [OF assms(3)]]
    by (auto simp: set_up_video_def split: outcome.splits)
qed

lemma set_up_audio_ok:
  assumes "decoder_ok AVMEDIA_TYPE_AUDIO b" "speed_ok (cf_speed config)" "indices_ok d" "set_up_audio api cl config d b = (r, es, b')"
  shows "r \<noteq> UB \<and> decoder_ok AVMEDIA_TYPE_AUDIO b' \<and> (r = Ret True \<longrightarrow> db_isOpened b')"
proof -
  obtain v where v: "cf_speed config = Fin v" using assms(2) by (cases "cf_speed config") auto
  obtain r1 b1 where s: "DecoderBase_setSpeed (Fin v) (AudioDecoder_init (cf_audioInterleaved config) b) = (r1, b1)" by fastforce
  have b1: "r1 \<noteq> UB" "decoder_ok AVMEDIA_TYPE_AUDIO b1"
    using setSpeed_ok [OF s] init_ok(3) [OF init_ok(2) [OF assms(1)]] by metis+
  show ?thesis using b1 assms(4) s v base_hooks.open_result [OF b1(2) indices_streams(2) [OF assms(3)]]
    by (auto simp: set_up_audio_def split: outcome.splits)
qed

subsection \<open>The sections of the controller\<close>

text \<open>Calls of one part: the other parts stay as they are.\<close>

definition video_only :: "DecoderController \<Rightarrow> DecoderController \<Rightarrow> bool" where
  "video_only c c' \<longleftrightarrow> (\<exists>es v. c' = log_events es (c\<lparr>co_videoDecoder := v\<rparr>) \<and> (v = None \<longleftrightarrow> co_videoDecoder c = None))"

definition audio_only :: "DecoderController \<Rightarrow> DecoderController \<Rightarrow> bool" where
  "audio_only c c' \<longleftrightarrow> (\<exists>es v. c' = log_events es (c\<lparr>co_audioDecoder := v\<rparr>) \<and> (v = None \<longleftrightarrow> co_audioDecoder c = None))"

lemma ctl_inv_video: "ctl_inv c \<Longrightarrow> pred_option (decoder_ok AVMEDIA_TYPE_VIDEO) v \<Longrightarrow> ctl_inv (log_events es (c\<lparr>co_videoDecoder := v\<rparr>))"
  by (simp add: ctl_inv_def wants_video_def wants_audio_def)

lemma ctl_inv_audio: "ctl_inv c \<Longrightarrow> pred_option (decoder_ok AVMEDIA_TYPE_AUDIO) v \<Longrightarrow> ctl_inv (log_events es (c\<lparr>co_audioDecoder := v\<rparr>))"
  by (simp add: ctl_inv_def wants_video_def wants_audio_def)

lemma video_call_ok:
  assumes "ctl_inv c" "\<And>b. co_videoDecoder c = Some b \<Longrightarrow> decoder_ok AVMEDIA_TYPE_VIDEO b \<Longrightarrow> decoder_result AVMEDIA_TYPE_VIDEO (f b)"
  shows "ok (\<lambda>_ c'. ctl_inv c' \<and> video_only c c') (video_call f s c)"
proof (cases "co_videoDecoder c")
  case None
  have "log_events [] (c\<lparr>co_videoDecoder := co_videoDecoder c\<rparr>) = c" by (simp add: log_events_def)
  then have "video_only c c" unfolding video_only_def by metis
  with None assms(1) show ?thesis by (simp add: video_call_def)
next
  case (Some b)
  obtain r es b1 where f: "f b = (r, es, b1)" by (metis prod_cases3)
  have "r \<noteq> UB" "decoder_ok AVMEDIA_TYPE_VIDEO b1"
    using assms Some f by (auto simp: ctl_inv_def decoder_result_def)
  with Some f ctl_inv_video [OF assms(1), of "Some b1"] show ?thesis
    by (cases r) (auto simp: video_call_def video_only_def)
qed

lemma audio_call_ok:
  assumes "ctl_inv c" "\<And>b. co_audioDecoder c = Some b \<Longrightarrow> decoder_ok AVMEDIA_TYPE_AUDIO b \<Longrightarrow> decoder_result AVMEDIA_TYPE_AUDIO (f b)"
  shows "ok (\<lambda>_ c'. ctl_inv c' \<and> audio_only c c') (audio_call f s c)"
proof (cases "co_audioDecoder c")
  case None
  have "log_events [] (c\<lparr>co_audioDecoder := co_audioDecoder c\<rparr>) = c" by (simp add: log_events_def)
  then have "audio_only c c" unfolding audio_only_def by metis
  with None assms(1) show ?thesis by (simp add: audio_call_def)
next
  case (Some b)
  obtain r es b1 where f: "f b = (r, es, b1)" by (metis prod_cases3)
  have "r \<noteq> UB" "decoder_ok AVMEDIA_TYPE_AUDIO b1"
    using assms Some f by (auto simp: ctl_inv_def decoder_result_def)
  with Some f ctl_inv_audio [OF assms(1), of "Some b1"] show ?thesis
    by (cases r) (auto simp: audio_call_def audio_only_def)
qed


lemma ctl_inv_simps [simp]:
  "ctl_inv (c\<lparr>co_isDecoding := x1\<rparr>) = ctl_inv c" "ctl_inv (c\<lparr>co_preBufferState := x2\<rparr>) = ctl_inv c"
  "ctl_inv (c\<lparr>co_sync := x3\<rparr>) = ctl_inv c" "ctl_inv (c\<lparr>co_hasDecoderWhenReconnected := x4\<rparr>) = ctl_inv c"
  "ctl_inv (c\<lparr>co_isDemuxerPausedWhenReconnected := x5\<rparr>) = ctl_inv c" "ctl_inv (c\<lparr>co_isReconnecting := x6\<rparr>) = ctl_inv c"
  "ctl_inv (c\<lparr>co_shouldStopReconnect := x7\<rparr>) = ctl_inv c" "ctl_inv (c\<lparr>co_currentReconnectAttempt := x8\<rparr>) = ctl_inv c"
  "ctl_inv (c\<lparr>co_reconnectThread := x9\<rparr>) = ctl_inv c" "ctl_inv (c\<lparr>co_asyncOpenInProgress := x10\<rparr>) = ctl_inv c"
  "ctl_inv (c\<lparr>co_shouldCancelAsyncOpen := x11\<rparr>) = ctl_inv c" "ctl_inv (c\<lparr>co_asyncOpenCallback := x12\<rparr>) = ctl_inv c"
  "ctl_inv (c\<lparr>co_dispatcher := x13\<rparr>) = ctl_inv c" "ctl_inv (log_events es c) = ctl_inv c"
  "ctl_inv (reset_clocks cl c) = ctl_inv c"
  by (simp_all add: ctl_inv_def wants_video_def wants_audio_def reset_clocks_def)

lemma ctl_inv_map:
  assumes "ctl_inv c" "\<And>b. decoder_ok AVMEDIA_TYPE_VIDEO b \<Longrightarrow> decoder_ok AVMEDIA_TYPE_VIDEO (f b)"
    "\<And>b. decoder_ok AVMEDIA_TYPE_AUDIO b \<Longrightarrow> decoder_ok AVMEDIA_TYPE_AUDIO (g b)"
  shows "ctl_inv (map_decoders f g c)"
  using assms by (auto simp: ctl_inv_def map_decoders_def wants_video_def wants_audio_def option.pred_map elim!: option.pred_mono_strong)

lemma waiting_ok: "ctl_inv c \<Longrightarrow> ctl_inv (set_waiting w c)"
  by (auto simp: set_waiting_def decoder_ok_def db_inv_def DecoderBase_setWaitingForPreBuffer_def intro!: ctl_inv_map)

lemma choose_master_sel [simp]:
  "co_demuxer (choose_master c) = co_demuxer c" "co_videoDecoder (choose_master c) = co_videoDecoder c"
  "co_audioDecoder (choose_master c) = co_audioDecoder c" "co_config (choose_master c) = co_config c"
  "ctl_inv (choose_master c) = ctl_inv c"
  by (simp_all add: choose_master_def)

lemma await_sel [simp]:
  "co_demuxer (await_preBuffer c) = co_demuxer c" "co_config (await_preBuffer c) = co_config c"
  by (simp_all add: await_preBuffer_def set_waiting_def map_decoders_def)

lemma await_ok: "ctl_inv c \<Longrightarrow> ctl_inv (await_preBuffer c)"
  by (simp add: await_preBuffer_def waiting_ok)

text \<open>The decoders that will be started are open.\<close>

definition opened_video :: "DecoderController \<Rightarrow> bool" where
  "opened_video c \<longleftrightarrow> (wants_video c \<longrightarrow> pred_option db_isOpened (co_videoDecoder c))"

definition opened_audio :: "DecoderController \<Rightarrow> bool" where
  "opened_audio c \<longleftrightarrow> (wants_audio c \<longrightarrow> pred_option db_isOpened (co_audioDecoder c))"

lemma opened_await:
  "opened_video (await_preBuffer (choose_master c)) = opened_video c" "opened_audio (await_preBuffer (choose_master c)) = opened_audio c"
  by (simp_all add: opened_video_def opened_audio_def wants_video_def wants_audio_def await_preBuffer_def set_waiting_def map_decoders_def
      option.pred_map comp_def DecoderBase_setWaitingForPreBuffer_def)

lemma start_decoders_ok:
  assumes "ctl_inv c" "opened_video c" "opened_audio c"
  shows "ok (\<lambda>_. ctl_inv) (start_decoders c)"
proof -
  let ?c = "await_preBuffer (choose_master c)" and ?d = "co_demuxer c"
  have i: "ctl_inv ?c" and o: "opened_video ?c" "opened_audio ?c" using assms by (simp_all add: await_ok opened_await)
  have v: "decoder_result AVMEDIA_TYPE_VIDEO (DecoderBase_startInternal ?d b)"
    if "co_videoDecoder ?c = Some b" "decoder_ok AVMEDIA_TYPE_VIDEO b" for b
    using that i o(1) by (intro decoder_calls_ok(4)) (auto simp: ctl_inv_def opened_video_def Demuxer_packetQueue_def)
  have a: "decoder_result AVMEDIA_TYPE_AUDIO (DecoderBase_startInternal ?d b)"
    if "video_only ?c c2" "co_audioDecoder c2 = Some b" "decoder_ok AVMEDIA_TYPE_AUDIO b" for c2 b
    using that i o(2) by (intro decoder_calls_ok(4)) (auto simp: ctl_inv_def opened_audio_def Demuxer_packetQueue_def video_only_def)
  show ?thesis
    unfolding start_decoders_def Let_def await_sel choose_master_sel
    by (rule ok_obind [OF video_call_ok [OF i v]], assumption+, rule ok_obind [OF audio_call_ok])
      (auto intro: a)
qed

lemma startDecodeInternal_ok:
  assumes "ctl_inv c"
  shows "ok (\<lambda>_. ctl_inv) (DecoderController_startDecodeInternal api cl c)"
proof -
  define c0 where "c0 = reset_clocks cl c"
  have i: "ctl_inv c0" using assms by (simp add: c0_def)
  have sp: "speed_ok (cf_speed (co_config c0))" "indices_ok (co_demuxer c0)" using i by (auto simp: ctl_inv_def)
  let ?v = "set_up_video api cl (co_config c0) (co_demuxer c0)" and ?a = "set_up_audio api cl (co_config c0) (co_demuxer c0)"
  have v: "ok (\<lambda>x c1. ctl_inv c1 \<and> (x \<longrightarrow> opened_video c1) \<and> co_config c1 = co_config c0 \<and> co_demuxer c1 = co_demuxer c0)
      (if wants_video c0 then video_call ?v True c0 else (Ret True, c0))"
  proof (cases "wants_video c0 \<and> co_videoDecoder c0 \<noteq> None")
    case True
    then obtain b where b: "co_videoDecoder c0 = Some b" "decoder_ok AVMEDIA_TYPE_VIDEO b" using i by (auto simp: ctl_inv_def)
    obtain r es b1 where f: "?v b = (r, es, b1)" by (metis prod_cases3)
    from set_up_video_ok [OF b(2) sp f] True b(1) f ctl_inv_video [OF i, of "Some b1"] show ?thesis
      by (cases r) (auto simp: video_call_def opened_video_def)
  qed (use i in \<open>auto simp: opened_video_def video_call_def\<close>)
  have a: "ok (\<lambda>x c2. ctl_inv c2 \<and> opened_video c2 \<and> (x \<longrightarrow> opened_audio c2))
      (if wants_audio c1 then audio_call ?a True c1 else (Ret True, c1))"
    if k: "ctl_inv c1" "opened_video c1" "co_config c1 = co_config c0" "co_demuxer c1 = co_demuxer c0" for c1
  proof (cases "wants_audio c1 \<and> co_audioDecoder c1 \<noteq> None")
    case True
    then obtain b where b: "co_audioDecoder c1 = Some b" "decoder_ok AVMEDIA_TYPE_AUDIO b" using k by (auto simp: ctl_inv_def)
    obtain r es b1 where f: "?a b = (r, es, b1)" by (metis prod_cases3)
    from set_up_audio_ok [OF b(2) sp f] True b(1) f ctl_inv_audio [OF k(1), of "Some b1"] k(2) show ?thesis
      by (cases r) (auto simp: audio_call_def opened_audio_def opened_video_def wants_video_def)
  qed (use k in \<open>auto simp: opened_audio_def audio_call_def\<close>)
  show ?thesis
    unfolding DecoderController_startDecodeInternal_def Let_def c0_def [symmetric]
  proof (rule ok_obind [OF v])
    fix x c1
    assume k: "ctl_inv c1 \<and> (x \<longrightarrow> opened_video c1) \<and> co_config c1 = co_config c0 \<and> co_demuxer c1 = co_demuxer c0"
    let ?rest = "obind (if wants_audio c1 then audio_call ?a True c1 else (Ret True, c1))
      (\<lambda>ok2 c2. if \<not> ok2 then (Ret False, c2) else start_decoders c2)"
    have "ok (\<lambda>_. ctl_inv) ?rest" if x
      by (rule ok_obind [OF a]) (use k that in \<open>auto intro: start_decoders_ok\<close>)
    with k show "ok (\<lambda>_. ctl_inv) (if \<not> x then (Ret False, c1) else ?rest)" by simp
  qed
qed


lemma call_keeps_video:
  "ctl_inv c \<Longrightarrow> (\<And>b. decoder_ok AVMEDIA_TYPE_VIDEO b \<Longrightarrow> decoder_result AVMEDIA_TYPE_VIDEO (f b)) \<Longrightarrow> ok (\<lambda>_. ctl_inv) (video_call f x c)"
  by (rule ok_mono [OF video_call_ok]) auto

lemma call_keeps_audio:
  "ctl_inv c \<Longrightarrow> (\<And>b. decoder_ok AVMEDIA_TYPE_AUDIO b \<Longrightarrow> decoder_result AVMEDIA_TYPE_AUDIO (f b)) \<Longrightarrow> ok (\<lambda>_. ctl_inv) (audio_call f x c)"
  by (rule ok_mono [OF audio_call_ok]) auto

lemma stopDecodeInternal_ok: "ctl_inv c \<Longrightarrow> ok (\<lambda>_. ctl_inv) (DecoderController_stopDecodeInternal c)"
  unfolding DecoderController_stopDecodeInternal_def
  by (intro ok_obind [OF call_keeps_video] ok_obind [OF call_keeps_audio] decoder_calls_ok close_ok close_video_ok) simp_all

lemma demuxer_inv:
  assumes "ctl_inv c" "indices_ok d" "dm_videoPacketQueue d \<noteq> None \<longrightarrow> Demuxer_hasVideo d \<and> cfg_decodeMediaType (cf_demux (co_config c)) AND kVideo \<noteq> 0"
    "dm_audioPacketQueue d \<noteq> None \<longrightarrow> Demuxer_hasAudio d \<and> cfg_decodeMediaType (cf_demux (co_config c)) AND kAudio \<noteq> 0"
  shows "ctl_inv (c\<lparr>co_demuxer := d\<rparr>)"
  using assms by (simp add: ctl_inv_def wants_video_def wants_audio_def)

lemma demuxer_close_ok: "ctl_inv c \<Longrightarrow> ok (\<lambda>_. ctl_inv) (demuxer_call Demuxer_close c)"
proof -
  assume i: "ctl_inv c"
  obtain r es d where d: "Demuxer_close (co_demuxer c) = (r, es, d)" by (metis prod_cases3)
  have k: "indices_ok (co_demuxer c)" using i by (simp add: ctl_inv_def)
  show ?thesis
  proof (cases r)
    case (Ret b)
    with close_queues [OF k] indices_close [OF k d] d i show ?thesis
      by (auto simp: demuxer_call_def has_queues_def intro!: demuxer_inv)
  qed (use indices_close [OF k d] d in \<open>auto simp: demuxer_call_def\<close>)
qed

lemma demuxer_open_ok:
  assumes "ctl_inv c" "open_calls_ok (cl_open cl)" "speed_ok (cf_speed config)"
  shows "ok (\<lambda>_. ctl_inv) (demuxer_call (Demuxer_open (cl_open cl) url (cf_demux config) True)
    (c\<lparr>co_originalUrl := u, co_preBufferState := x, co_config := config\<rparr>))"
proof -
  obtain r es d where d: "Demuxer_open (cl_open cl) url (cf_demux config) True (co_demuxer c) = (r, es, d)" by (metis prod_cases3)
  have k: "indices_ok (co_demuxer c)" using assms(1) by (simp add: ctl_inv_def)
  show ?thesis
  proof (cases r)
    case (Ret b)
    with open_queues [OF k] indices_open [OF assms(2) k d] d assms(1,3) show ?thesis
      by (auto simp: demuxer_call_def ctl_inv_def wants_video_def wants_audio_def)
  qed (use indices_open [OF assms(2) k d] d in \<open>auto simp: demuxer_call_def\<close>)
qed

lemma new_decoders_ok: "decoder_ok AVMEDIA_TYPE_VIDEO (VideoDecoder_new now)" "decoder_ok AVMEDIA_TYPE_AUDIO (AudioDecoder_new now)"
  by (simp_all add: decoder_ok_def db_inv_def VideoDecoder_new_def VideoDecoder_init_def AudioDecoder_new_def AudioDecoder_init_def
      DecoderBase_new_def DecoderBase.defs kFrameQueueDefaultSize_def)

lemma put_decoders:
  "ctl_inv c \<Longrightarrow> pred_option (decoder_ok AVMEDIA_TYPE_VIDEO) v \<Longrightarrow> ctl_inv (c\<lparr>co_videoDecoder := v\<rparr>)"
  "ctl_inv c \<Longrightarrow> pred_option (decoder_ok AVMEDIA_TYPE_AUDIO) a \<Longrightarrow> ctl_inv (c\<lparr>co_audioDecoder := a\<rparr>)"
  by (simp_all add: ctl_inv_def wants_video_def wants_audio_def)

lemma create_ok: "ctl_inv c \<Longrightarrow> ok (\<lambda>_. ctl_inv) (create_video cl c)" "ctl_inv c \<Longrightarrow> ok (\<lambda>_. ctl_inv) (create_audio cl c)"
  unfolding create_video_def create_audio_def
  by (intro ok_obind [OF call_keeps_video] ok_obind [OF call_keeps_audio] close_ok close_video_ok; simp add: put_decoders new_decoders_ok)+

lemma openInternal_ok:
  assumes "ctl_inv c" "open_calls_ok (cl_open cl)" "speed_ok (cf_speed config)"
  shows "ok (\<lambda>_. ctl_inv) (DecoderController_openInternal cl url config c)"
proof -
  have v: "ok (\<lambda>_. ctl_inv) (if w then create_video cl c1 else (Ret (), c1))" if "ctl_inv c1" for w c1
    using create_ok(1) [OF that] that by simp
  have a: "ok (\<lambda>_. ctl_inv) (if w then create_audio cl c1 else (Ret (), c1))" if "ctl_inv c1" for w c1
    using create_ok(2) [OF that] that by simp
  have k: "ok (\<lambda>_. ctl_inv) (obind (if w then create_video cl c1 else (Ret (), c1)) (\<lambda>_ c2.
      obind (if wants_audio c2 then create_audio cl c2 else (Ret (), c2)) (\<lambda>_ c3. (Ret True, c3))))" if "ctl_inv c1" for w c1
    by (rule ok_obind [OF v [OF that]], rule ok_obind [OF a]) simp_all
  show ?thesis
    unfolding DecoderController_openInternal_def
    by (rule ok_obind [OF demuxer_open_ok [OF assms]]) (simp add: k)
qed

lemma closeInternal_ok: "ctl_inv c \<Longrightarrow> ok (\<lambda>_. ctl_inv) (DecoderController_closeInternal c)"
  unfolding DecoderController_closeInternal_def
  by (intro ok_obind [OF call_keeps_video] ok_obind [OF call_keeps_audio] close_ok close_video_ok demuxer_close_ok;
      simp add: put_decoders)

text \<open>Calls and turns of the demuxer that leave its streams alone.\<close>

definition same_streams :: "Demuxer \<Rightarrow> Demuxer \<Rightarrow> bool" where
  "same_streams d d' \<longleftrightarrow> dm_formatContext d' = dm_formatContext d \<and> dm_videoStreamIndex d' = dm_videoStreamIndex d
     \<and> dm_audioStreamIndex d' = dm_audioStreamIndex d \<and> dm_isOpened d' = dm_isOpened d
     \<and> (dm_videoPacketQueue d' = None) = (dm_videoPacketQueue d = None) \<and> (dm_audioPacketQueue d' = None) = (dm_audioPacketQueue d = None)"

lemma ctl_inv_streams: "ctl_inv c \<Longrightarrow> same_streams (co_demuxer c) d \<Longrightarrow> ctl_inv (c\<lparr>co_demuxer := d\<rparr>)"
  using indices_core [of d "co_demuxer c"]
  by (auto simp: ctl_inv_def same_streams_def wants_video_def wants_audio_def Demuxer_hasVideo_def Demuxer_hasAudio_def)

lemma same_streams_calls:
  "same_streams d (snd (Demuxer_pause d))" "same_streams d (snd (Demuxer_resume d))" "same_streams d (Demuxer_setLoopMode m n d)"
  "same_streams d (Demuxer_resetLoopCount d)" "same_streams d (snd (snd (Demuxer_stopRecording d)))"
  "same_streams d (snd (snd (Demuxer_startRecording mx alloc path d)))"
  by (simp_all add: same_streams_def Demuxer_pause_def Demuxer_pauseInternal_def Demuxer_resume_def Demuxer_resumeInternal_def
      Demuxer_setLoopMode_def Demuxer_resetLoopCount_def Demuxer_stopRecording_def Demuxer_startRecording_def map_queues_def Let_def
      split: prod.split option.split)

lemma same_streams_turn:
  assumes "thread_turn api io d = (es, d')"
  shows "same_streams d d'"
proof -
  note c = turn_core [OF assms]
  have "dm_formatContext d' = dm_formatContext d \<and> dm_videoStreamIndex d' = dm_videoStreamIndex d
      \<and> dm_audioStreamIndex d' = dm_audioStreamIndex d \<and> dm_isOpened d' = dm_isOpened d"
    using arg_cong [OF c, of dm_formatContext] arg_cong [OF c, of dm_videoStreamIndex]
      arg_cong [OF c, of dm_audioStreamIndex] arg_cong [OF c, of dm_isOpened] by (simp add: dm_core_sel)
  moreover have "has_queues (dm_videoPacketQueue d \<noteq> None) (dm_audioPacketQueue d \<noteq> None) d'"
    using queues.turn [OF _ assms] by (simp add: has_queues_def)
  ultimately show ?thesis by (simp add: same_streams_def has_queues_def del: not_None_eq)
qed

lemma pause_resume_ok:
  assumes "ctl_inv c"
  shows "ok (\<lambda>_. ctl_inv) (DecoderController_pause c)" "ok (\<lambda>_. ctl_inv) (DecoderController_resume cl c)"
proof -
  have "ctl_inv (c\<lparr>co_isDemuxerPausedWhenReconnected := x, co_demuxer := snd (Demuxer_pause (co_demuxer c))\<rparr>)"
    "ctl_inv (c\<lparr>co_isDemuxerPausedWhenReconnected := x, co_demuxer := snd (Demuxer_resume (co_demuxer c))\<rparr>)" if "ctl_inv c" for c x
    using that by (simp_all add: ctl_inv_streams same_streams_calls)
  note d = this
  show "ok (\<lambda>_. ctl_inv) (DecoderController_pause c)"
    unfolding DecoderController_pause_def
    by (intro ok_obind [OF call_keeps_video] ok_obind [OF call_keeps_audio] decoder_calls_ok) (simp_all add: assms d case_prod_beta)
  show "ok (\<lambda>_. ctl_inv) (DecoderController_resume cl c)"
    unfolding DecoderController_resume_def
    by (intro ok_obind [OF call_keeps_video] ok_obind [OF call_keeps_audio] decoder_calls_ok) (simp_all add: assms d case_prod_beta)
qed

lemma setSpeed_keeps: "ctl_inv c \<Longrightarrow> ok (\<lambda>_. ctl_inv) (DecoderController_setSpeed cl (Fin v) c)"
proof -
  assume i: "ctl_inv c"
  have s: "decoder_result ty (silent (DecoderBase_setSpeed (Fin v)) b)" if "decoder_ok ty b" for ty and b :: "'a DecoderBase_scheme"
  proof -
    obtain r b' where r: "DecoderBase_setSpeed (Fin v) b = (r, b')" by fastforce
    have "decoder_ok ty b'" using setSpeed_ok [OF r] init_ok(3) [OF that] by metis
    with setSpeed_ok [OF r] r show ?thesis by (simp add: decoder_result_def silent_def)
  qed
  have "ctl_inv (c\<lparr>co_config := (co_config c)\<lparr>cf_speed := Fin v\<rparr>\<rparr>)"
    using i by (simp add: ctl_inv_def wants_video_def wants_audio_def)
  then have "ok (\<lambda>_. ctl_inv) (obind (video_call (silent (DecoderBase_setSpeed (Fin v))) True (c\<lparr>co_config := (co_config c)\<lparr>cf_speed := Fin v\<rparr>\<rparr>))
      (\<lambda>_ c1. obind (audio_call (silent (DecoderBase_setSpeed (Fin v))) True c1) (\<lambda>_ c2. (Ret True, c2\<lparr>co_sync := f (co_sync c2)\<rparr>))))" for f
    by (intro ok_obind [OF call_keeps_video] ok_obind [OF call_keeps_audio] s) simp_all
  with i show ?thesis by (simp add: DecoderController_setSpeed_def)
qed

lemma attempt_close_ok: "ctl_inv c \<Longrightarrow> ok (\<lambda>_. ctl_inv) (attempt_close c)"
  unfolding attempt_close_def by (rule ok_obind [OF stopDecodeInternal_ok]) (auto intro: demuxer_close_ok)

lemma attempt_reopen_ok:
  assumes "ctl_inv c" "open_calls_ok (cl_open cl)"
  shows "ok (\<lambda>_. ctl_inv) (attempt_reopen api cl c)"
proof -
  have s: "speed_ok (cf_speed (co_config c))" using assms(1) by (simp add: ctl_inv_def)
  have o: "ok (\<lambda>_. ctl_inv) (demuxer_call (Demuxer_open (cl_open cl) (co_originalUrl c) (cf_demux (co_config c)) True) c)"
    using demuxer_open_ok [OF assms s, where u = "co_originalUrl c" and x = "co_preBufferState c" and url = "co_originalUrl c"] by simp
  show ?thesis using assms(1)
    by (auto simp: attempt_reopen_def Let_def intro!: ok_obind [OF o] startDecodeInternal_ok ctl_inv_streams same_streams_calls)
qed

lemma reconnect_turn_ok:
  assumes "ctl_inv c" "open_calls_ok (cl_open cl)"
  shows "ok (\<lambda>_. ctl_inv) (DecoderController_reconnectLoop api cl c)"
proof -
  have "ok (\<lambda>_. ctl_inv) (obind (attempt_close c) (\<lambda>x c1. (Ret (), go_on (f x) c1)))" for f :: "bool \<Rightarrow> reconnect_pc"
    by (rule ok_obind [OF attempt_close_ok [OF assms(1)]]) (simp add: go_on_def)
  moreover have "ok (\<lambda>_. ctl_inv) (obind (attempt_reopen api cl c) (\<lambda>x c1. (Ret (), go_on (f x) c1)))" for f :: "bool \<Rightarrow> reconnect_pc"
    by (rule ok_obind [OF attempt_reopen_ok [OF assms]]) (simp add: go_on_def)
  ultimately show ?thesis using assms(1)
    by (auto simp: DecoderController_reconnectLoop_def reconnect_head_def go_on_def DecoderController_cleanupReconnectState_def
        split: option.splits reconnect_pc.splits)
qed

lemma async_inv:
  assumes "ctl_inv c"
  shows "ctl_inv (async_to (AT_Opened x) c)" "ctl_inv (async_to (AT_Callback y x m) c)" "ctl_inv (async_to AT_Done c)"
    "speed_ok (cf_speed g) \<Longrightarrow> ctl_inv (async_to (AT_Start u g) c)"
  using assms by (simp_all add: ctl_inv_def async_to_def wants_video_def wants_audio_def)

lemma async_task_ok:
  assumes "ctl_inv c" "open_calls_ok (cl_open cl)"
  shows "ok (\<lambda>_. ctl_inv) (async_open_task cl c)"
proof -
  have o: "ok (\<lambda>_. ctl_inv) (obind (DecoderController_openAsyncInternal cl url config c) (\<lambda>x c1. (Ret (), async_to (AT_Opened x) c1)))"
    if "co_asyncOpenFuture c = Some (AT_Start url config)" for url config
  proof -
    have "speed_ok (cf_speed config)" using assms(1) that by (auto simp: ctl_inv_def)
    then have "ok (\<lambda>_. ctl_inv) (DecoderController_openAsyncInternal cl url config c)"
      using openInternal_ok [OF assms] assms(1) by (simp add: DecoderController_openAsyncInternal_def)
    then show ?thesis by (rule ok_obind) (simp add: async_inv)
  qed
  have d: "ok (\<lambda>_. ctl_inv) (if x then demuxer_call Demuxer_close c else (Ret True, c))" for x
    using demuxer_close_ok [OF assms(1)] assms(1) by simp
  have cl: "ok (\<lambda>_. ctl_inv) (obind (if x then demuxer_call Demuxer_close c else (Ret True, c))
      (\<lambda>_ c1. (Ret (), async_to (AT_Callback AO_kCancelled False m) c1)))" for x m
    by (rule ok_obind [OF d]) (simp add: async_inv)
  show ?thesis using assms(1) o cl
    by (auto simp: async_open_task_def Let_def async_inv split: option.splits async_task.splits)
qed


subsection \<open>The controller and its threads\<close>

text \<open>A turn of the demultiplexing thread, with the call of the pre-buffer callback.\<close>

definition demux_turn :: "packet_api \<Rightarrow> io_calls \<Rightarrow> DecoderController \<Rightarrow> DecoderController" where
  "demux_turn papi io c =
     (case thread_turn papi io (co_demuxer c) of
        (es, d) \<Rightarrow>
          let c1 = log_events (map FromDemuxer es) (c\<lparr>co_demuxer := d\<rparr>)
          in if PreBufferCallback \<in> set es then DecoderController_onPreBufferReady c1 else c1)"

text \<open>What the decoding threads may do to a decoder, a fall back to software that fails apart.\<close>

definition same_life :: "'a DecoderBase_scheme \<Rightarrow> 'a DecoderBase_scheme \<Rightarrow> bool" where
  "same_life b b' \<longleftrightarrow> db_type b' = db_type b \<and> db_isOpened b' = db_isOpened b \<and> db_isStarted b' = db_isStarted b
     \<and> (db_codecCtx b' = None) = (db_codecCtx b = None) \<and> fq_maxSize (db_frameQueue b') = fq_maxSize (db_frameQueue b)"

text \<open>The calls that can be made in a state, with their results.\<close>

inductive ctl_call :: "frame_api \<Rightarrow> DecoderController \<Rightarrow> bool outcome \<times> DecoderController \<Rightarrow> bool" for api c where
  opens: "open_calls_ok (cl_open cl) \<Longrightarrow> speed_ok (cf_speed config) \<Longrightarrow> ctl_call api c (DecoderController_openInternal cl url config c)"
| opens_async: "speed_ok (cf_speed config) \<Longrightarrow> ctl_call api c (Ret True, launch_async_open url config cb c)"
| async_task: "open_calls_ok (cl_open cl) \<Longrightarrow> ctl_call api c (as_section (async_open_task cl c))"
| cancels: "ctl_call api c (as_section (DecoderController_cancelAsyncOpen resumed c))"
| closes: "ctl_call api c (DecoderController_closeInternal c)"
| cleans: "ctl_call api c (Ret True, DecoderController_cleanupPreBufferState c)"
| starts: "ctl_call api c (DecoderController_startDecode api cl c)"
| stops: "ctl_call api c (DecoderController_stopDecode c)"
| pauses: "ctl_call api c (DecoderController_pause c)"
| resumes: "ctl_call api c (DecoderController_resume cl c)"
| speeds: "ctl_call api c (DecoderController_setSpeed cl (Fin v) c)"
| frame_rate: "ctl_call api c (Ret True, DecoderController_setFrameRateControl enable c)"
| loops: "ctl_call api c (Ret True, snd (DecoderController_setLoopMode mode n c))"
| records: "ctl_call api c (DecoderController_startRecording mx alloc path c)"
| stops_recording: "ctl_call api c (DecoderController_stopRecording c)"
| read_error: "ctl_call api c (as_section (on_stream_read_error c))"
| stops_reconnect: "ctl_call api c (as_section (DecoderController_stopReconnect resumed c))"
| reconnects: "open_calls_ok (cl_open cl) \<Longrightarrow> ctl_call api c (as_section (DecoderController_reconnectLoop api cl c))"

text \<open>
  A call that waits for a thread with the mutex held is the step in which it returns; before, it has asked the
  thread to end (\<open>interrupts\<close> for the demuxer; the request to a decoder is one of the changes of \<open>same_life\<close>).
  The two calls that wait without the mutex are steps when they begin to wait, too.
\<close>

inductive ctl_step :: "frame_api \<Rightarrow> DecoderController \<Rightarrow> unit \<Rightarrow> DecoderController \<Rightarrow> bool" for api where
  call: "ctl_call api c (Ret r, c') \<Longrightarrow> ctl_step api c () c'"
| cancel_waits: "DecoderController_cancelAsyncOpen resumed c = (Wait, c') \<Longrightarrow> ctl_step api c () c'"
| stop_waits: "DecoderController_stopReconnect resumed c = (Wait, c') \<Longrightarrow> ctl_step api c () c'"
| seeks: "DecoderController_seek api cl position c = (Ret r, c') \<Longrightarrow> ctl_step api c () c'"
| interrupts: "Demuxer_stop (co_demuxer c) = (Wait, d) \<Longrightarrow> ctl_step api c () (c\<lparr>co_demuxer := d\<rparr>)"
| demux: "ctl_step api c () (demux_turn papi io c)"
| video: "co_videoDecoder c = Some b \<Longrightarrow> same_life b b' \<Longrightarrow> ctl_step api c () (c\<lparr>co_videoDecoder := Some b'\<rparr>)"
| audio: "co_audioDecoder c = Some b \<Longrightarrow> same_life b b' \<Longrightarrow> ctl_step api c () (c\<lparr>co_audioDecoder := Some b'\<rparr>)"

lemma as_section_ok: "ok (\<lambda>_. P) r \<Longrightarrow> ok (\<lambda>_. P) (as_section r)"
  unfolding as_section_def by (rule ok_obind) auto

lemma flags_ok:
  assumes "ctl_inv c"
  shows "ctl_inv (snd (DecoderController_startReconnect resumed c))" "ctl_inv (snd (DecoderController_stopReconnect resumed c))"
    "ctl_inv (snd (DecoderController_cancelAsyncOpen resumed c))" "fst (DecoderController_startReconnect resumed c) \<noteq> UB"
    "fst (DecoderController_stopReconnect resumed c) \<noteq> UB" "fst (DecoderController_cancelAsyncOpen resumed c) \<noteq> UB"
  using assms by (simp_all add: DecoderController_startReconnect_def DecoderController_stopReconnect_def
      DecoderController_cancelAsyncOpen_def DecoderController_cleanupReconnectState_def Let_def)

lemma okI: "fst r \<noteq> UB \<Longrightarrow> P (snd r) \<Longrightarrow> ok (\<lambda>_. P) r"
  by (cases r; cases "fst r") auto

lemma ctl_call_ok:
  assumes "ctl_call api c r" "ctl_inv c"
  shows "ok (\<lambda>_. ctl_inv) r"
  using assms(1)
proof cases
  case (opens cl config url)
  with openInternal_ok [OF assms(2)] show ?thesis by simp
next
  case (async_task cl)
  with as_section_ok [OF async_task_ok [OF assms(2)]] show ?thesis by simp
next
  case (reconnects cl)
  with as_section_ok [OF reconnect_turn_ok [OF assms(2)]] show ?thesis by simp
next
  case (opens_async config url cb)
  with assms(2) show ?thesis by (simp add: launch_async_open_def async_inv)
next
  case (starts cl)
  with assms(2) startDecodeInternal_ok [of "c\<lparr>co_hasDecoderWhenReconnected := True\<rparr>" api cl] show ?thesis
    by (simp add: DecoderController_startDecode_def)
next
  case stops
  with assms(2) stopDecodeInternal_ok [of "c\<lparr>co_hasDecoderWhenReconnected := False\<rparr>"] show ?thesis
    by (simp add: DecoderController_stopDecode_def)
next
  case (frame_rate enable)
  have "ctl_inv (c\<lparr>co_config := (co_config c)\<lparr>cf_enableFrameRateControl := enable\<rparr>\<rparr>)"
    using assms(2) by (simp add: ctl_inv_def wants_video_def wants_audio_def)
  with frame_rate show ?thesis
    by (auto simp: DecoderController_setFrameRateControl_def decoder_ok_def db_inv_def DecoderBase_setFrameRateControl_def intro!: ctl_inv_map)
next
  case (records mx alloc path)
  with assms(2) same_streams_calls(6) [of "co_demuxer c" mx alloc path] show ?thesis
    by (auto simp: DecoderController_startRecording_def demuxer_call_def case_prod_beta intro: ctl_inv_streams)
next
  case stops_recording
  with assms(2) same_streams_calls(5) [of "co_demuxer c"] show ?thesis
    by (auto simp: DecoderController_stopRecording_def demuxer_call_def case_prod_beta intro: ctl_inv_streams)
qed (use assms(2) in \<open>auto intro!: closeInternal_ok pause_resume_ok setSpeed_keeps as_section_ok okI flags_ok ctl_inv_streams same_streams_calls waiting_ok
      simp: DecoderController_setLoopMode_def on_stream_read_error_def DecoderController_cleanupPreBufferState_def\<close>)

lemma mark_seek_ok:
  assumes "mark_seek api position b = (r, b')" "decoder_ok ty b"
  shows "decoder_ok ty b'"
proof -
  obtain s q where c: "FrameQueue_clear api (db_frameQueue b) = (s, q)" "fq_maxSize q = fq_maxSize (db_frameQueue b)"
    by (cases "FrameQueue_clear api (db_frameQueue b)") (auto simp: FrameQueue_clear_def split: if_splits)
  with assms show ?thesis
    by (cases s) (auto simp: mark_seek_def DecoderBase_setSeekPos_def Let_def decoder_ok_def db_inv_def split: double.splits if_splits)
qed

lemma mark_calls_inv:
  assumes "ctl_inv c"
  shows "video_call (silent (mark_seek api position)) () c = (r, c') \<Longrightarrow> ctl_inv c'"
    "audio_call (silent (mark_seek api position)) () c = (r, c') \<Longrightarrow> ctl_inv c'"
proof -
  have d: "pred_option (decoder_ok AVMEDIA_TYPE_VIDEO) (co_videoDecoder c)" "pred_option (decoder_ok AVMEDIA_TYPE_AUDIO) (co_audioDecoder c)"
    using assms by (simp_all add: ctl_inv_def)
  show "video_call (silent (mark_seek api position)) () c = (r, c') \<Longrightarrow> ctl_inv c'"
    using assms d(1) by (auto simp: video_call_def silent_def put_decoders mark_seek_ok split: option.splits prod.splits)
  show "audio_call (silent (mark_seek api position)) () c = (r, c') \<Longrightarrow> ctl_inv c'"
    using assms d(2) by (auto simp: audio_call_def silent_def put_decoders mark_seek_ok split: option.splits prod.splits)
qed

lemma seek_decoders_inv:
  assumes "ctl_inv c" "seek_decoders api cl position c = (Ret r, c')"
  shows "ctl_inv c'"
proof -
  have k: "ctl_inv c2" if "seek_clock f x ty position c1 = (Ret u, c2)" "ctl_inv c1" for f x ty c1 c2 u
    using that by (auto simp: seek_clock_def split: if_splits option.splits)
  have "ctl_inv (reset_clocks cl c)" using assms(1) by simp
  with assms(2) show ?thesis unfolding seek_decoders_def ret_obind by (blast dest: mark_calls_inv k)
qed

lemma seek_inv:
  assumes "ctl_inv c" "DecoderController_seek api cl position c = (Ret r, c')"
  shows "ctl_inv c'"
proof -
  have e: "ctl_inv (seek_event ty t n p c) = ctl_inv c" for ty t n p c by (simp add: seek_event_def)
  have d: "ctl_inv c1" if "demuxer_call (silent (Demuxer_seek position)) c = (x, c1)" "ctl_inv c" for x c c1
    using that
    by (auto simp: demuxer_call_def silent_def Demuxer_seek_def same_streams_def intro!: ctl_inv_streams split: prod.splits if_splits double.splits)
  show ?thesis
    using assms unfolding DecoderController_seek_def Let_def
    by (auto simp: ret_obind e split: if_splits dest!: d dest: seek_decoders_inv)
qed

lemma ctl_step_inv:
  assumes "ctl_inv c" "ctl_step api c l c'"
  shows "ctl_inv c'"
  using assms(2)
proof cases
  case (call r)
  with ctl_call_ok [OF _ assms(1)] show ?thesis by fastforce
next
  case (cancel_waits resumed)
  with flags_ok(3) [OF assms(1), of resumed] show ?thesis by simp
next
  case (stop_waits resumed)
  with flags_ok(2) [OF assms(1), of resumed] show ?thesis by simp
next
  case (seeks cl position r)
  with seek_inv [OF assms(1)] show ?thesis by blast
next
  case (interrupts d)
  then have "same_streams (co_demuxer c) d"
    by (auto simp: Demuxer_stop_def Let_def same_streams_def map_queues_def split: if_splits option.splits)
  with interrupts assms(1) show ?thesis by (simp add: ctl_inv_streams)
next
  case (demux papi io)
  obtain es d where t: "thread_turn papi io (co_demuxer c) = (es, d)" by fastforce
  have "ctl_inv (c\<lparr>co_demuxer := d\<rparr>)" by (rule ctl_inv_streams [OF assms(1) same_streams_turn [OF t]])
  with demux t show ?thesis by (simp add: demux_turn_def Let_def DecoderController_onPreBufferReady_def waiting_ok)
next
  case (video b b')
  with assms(1) have "decoder_ok AVMEDIA_TYPE_VIDEO b" by (simp add: ctl_inv_def)
  with video have "decoder_ok AVMEDIA_TYPE_VIDEO b'" by (auto simp: decoder_ok_def db_inv_def same_life_def)
  with video assms(1) show ?thesis by (simp add: put_decoders)
next
  case (audio b b')
  with assms(1) have "decoder_ok AVMEDIA_TYPE_AUDIO b" by (simp add: ctl_inv_def)
  with audio have "decoder_ok AVMEDIA_TYPE_AUDIO b'" by (auto simp: decoder_ok_def db_inv_def same_life_def)
  with audio assms(1) show ?thesis by (simp add: put_decoders)
qed

lemma ctl_inv_new: "ctl_inv (DecoderController_new thread cl)"
  by (simp add: ctl_inv_def DecoderController_new_def default_config_def indices_ok_def Demuxer_new_def has_queues_def)

interpretation controller: inductive_invariant "\<lambda>c. \<exists>thread cl. c = DecoderController_new thread cl" "ctl_step api" ctl_inv for api
  by unfold_locales (auto intro: ctl_inv_new ctl_step_inv)

subsection \<open>No undefined behaviour\<close>

definition sample_ctl_calls :: ctl_calls where
  "sample_ctl_calls = \<lparr>cl_clock = (\<lambda>_. 0), cl_open = sample_open, cl_hw = sample_hw, cl_video_codec = sample_calls, cl_audio_codec = sample_calls\<rparr>"

definition sample_controller :: DecoderController where
  "sample_controller = snd (DecoderController_openInternal sample_ctl_calls ''a.mp4'' default_config (DecoderController_new 0 sample_ctl_calls))"

lemma sample_open_ok: "open_calls_ok sample_open" "open_calls_ok (cl_open sample_ctl_calls)"
  by (simp_all add: open_calls_ok_def sample_open_def sample_ctl_calls_def)


lemma sample_demuxer_opens:
  "Demuxer_open sample_open ''a.mp4'' sample_config callback Demuxer_new
    = (Ret True, [StreamEvent EV_kStreamOpening ''a.mp4'' ''Stream Opening'' None,
                  StreamEvent EV_kStreamOpened ''a.mp4'' ''Stream Opened'' (Some 5)], sample_demuxer)"
  by (simp add: sample_demuxer_def Demuxer_open_def Demuxer_openInternal_def Demuxer_new_def open_stream_def opened_state_def
      sample_open_def sample_config_def AV_NOPTS_VALUE_def AV_TIME_BASE_def trunc_to_int_def Let_def)

lemma sample_controller_opens:
  "DecoderController_openInternal sample_ctl_calls ''a.mp4'' default_config (DecoderController_new 0 sample_ctl_calls) = (Ret True, sample_controller)"
  "co_videoDecoder sample_controller = Some (VideoDecoder_new 0)" "co_audioDecoder sample_controller = None"
  "co_demuxer sample_controller = sample_demuxer" "co_config sample_controller = default_config"
proof -
  have d: "cf_demux default_config = sample_config" "cl_open sample_ctl_calls = sample_open" "cl_clock sample_ctl_calls n = 0" for n
    by (simp_all add: default_config_def sample_config_def sample_ctl_calls_def kVideo_def kAudio_def)
  have n: "co_demuxer (DecoderController_new 0 cl) = Demuxer_new" "co_videoDecoder (DecoderController_new 0 cl) = None"
    "co_audioDecoder (DecoderController_new 0 cl) = None" for cl
    by (simp_all add: DecoderController_new_def)
  have w: "Demuxer_hasVideo sample_demuxer" "\<not> Demuxer_hasAudio sample_demuxer" "cfg_decodeMediaType sample_config AND kVideo \<noteq> 0"
    by (simp_all add: Demuxer_hasVideo_def Demuxer_hasAudio_def sample_sel sample_config_def kVideo_def)
  note defs = DecoderController_openInternal_def d demuxer_call_def n sample_demuxer_opens wants_video_def wants_audio_def w create_video_def video_call_def
  show "DecoderController_openInternal sample_ctl_calls ''a.mp4'' default_config (DecoderController_new 0 sample_ctl_calls) = (Ret True, sample_controller)"
    "co_videoDecoder sample_controller = Some (VideoDecoder_new 0)" "co_audioDecoder sample_controller = None"
    "co_demuxer sample_controller = sample_demuxer" "co_config sample_controller = default_config"
    unfolding sample_controller_def by (simp_all add: defs)
qed

lemma sample_step: "ctl_step sample_frame_api (DecoderController_new 0 sample_ctl_calls) () sample_controller"
  using ctl_call.opens [OF sample_open_ok(2), of default_config] sample_controller_opens(1)
  by (metis ctl_step.call default_config_def Config.select_convs(4) speed_ok.simps(1))


end
