(* ===== verification/ControllerPlays.thy ===== *)
theory ControllerPlays
  imports ControllerProperties
begin

text \<open>
  The controller while a stream is played: the demuxing and decoding threads on its state, waiting for the
  pre-buffer, seeking after a change of stream, and the speed.
\<close>

subsection \<open>The threads on the state of the controller\<close>

definition env_of :: "'b \<Rightarrow> DecoderController \<Rightarrow> 'b decode_env" where
  "env_of b c = \<lparr>de_demuxer = co_demuxer c, de_sync = co_sync c, de_dec = b, de_events = []\<rparr>"

definition video_turn :: "frame_api \<Rightarrow> video_calls \<Rightarrow> DecoderController \<Rightarrow> unit outcome \<times> DecoderController" where
  "video_turn api vc c =
     (case co_videoDecoder c of
        None \<Rightarrow> (Wait, c)
      | Some b \<Rightarrow>
          (case VideoDecoder_decodeLoop api vc (env_of b c) of
             (r, e) \<Rightarrow> (r, log_events (map FromDecoder (de_events e))
                              (c\<lparr>co_demuxer := de_demuxer e, co_sync := de_sync e, co_videoDecoder := Some (de_dec e)\<rparr>))))"

definition audio_turn :: "frame_api \<Rightarrow> audio_calls \<Rightarrow> DecoderController \<Rightarrow> unit outcome \<times> DecoderController" where
  "audio_turn api ac c =
     (case co_audioDecoder c of
        None \<Rightarrow> (Wait, c)
      | Some b \<Rightarrow>
          (case AudioDecoder_decodeLoop api ac (env_of b c) of
             (r, e) \<Rightarrow> (r, log_events (map FromDecoder (de_events e))
                              (c\<lparr>co_demuxer := de_demuxer e, co_sync := de_sync e, co_audioDecoder := Some (de_dec e)\<rparr>))))"

inductive ctl_play :: "frame_api \<Rightarrow> DecoderController \<Rightarrow> unit \<Rightarrow> DecoderController \<Rightarrow> bool" for api where
  demux: "ctl_play api c () (demux_turn papi io c)"
| video: "video_turn api vc c = (Ret (), c') \<Longrightarrow> ctl_play api c () c'"
| audio: "audio_turn api ac c = (Ret (), c') \<Longrightarrow> ctl_play api c () c'"
| pauses: "DecoderController_pause c = (Ret r, c') \<Longrightarrow> ctl_play api c () c'"
| resumes: "DecoderController_resume cl c = (Ret r, c') \<Longrightarrow> ctl_play api c () c'"

subsection \<open>Waiting for the pre-buffer\<close>

definition waits :: "'a DecoderBase_scheme \<Rightarrow> bool" where
  "waits b \<longleftrightarrow> db_waitingForPreBuffer b \<and> (case db_thread b of None \<Rightarrow> True | Some t \<Rightarrow> kt_pc t \<in> {KP_Start, KP_Loop, KP_Ended})"

definition never_called :: "DecoderController \<Rightarrow> bool" where
  "never_called c \<longleftrightarrow> dm_preBufferReady (co_demuxer c)
     \<or> \<not> pb_autoStartAfterPreBuffer (cfg_preBufferConfig (cf_demux (co_config c)))"

definition stalled :: "FrameQueue option \<Rightarrow> FrameQueue option \<Rightarrow> DecoderController \<Rightarrow> bool" where
  "stalled v a c \<longleftrightarrow> never_called c
     \<and> DecoderController_videoQueue c = v \<and> pred_option waits (co_videoDecoder c)
     \<and> DecoderController_audioQueue c = a \<and> pred_option waits (co_audioDecoder c)"

definition still :: "'a DecoderBase_scheme decode_env \<Rightarrow> 'a DecoderBase_scheme decode_env \<Rightarrow> bool" where
  "still e e' \<longleftrightarrow> dm_preBufferReady (de_demuxer e') = dm_preBufferReady (de_demuxer e)
     \<and> db_frameQueue (de_dec e') = db_frameQueue (de_dec e) \<and> waits (de_dec e')"

lemma start_still:
  assumes "loop_start now name media updateClock t e = (Ret (), e')" "db_waitingForPreBuffer (de_dec e)"
  shows "still e e'"
proof (cases "env_queue e")
  case None
  obtain r e1 where r: "report_error name media AVERROR_UNKNOWN ''Can not find packet queue from demuxer!'' e = (r, e1)" by fastforce
  have "db_waitingForPreBuffer (de_dec e1) = db_waitingForPreBuffer (de_dec e)"
    using r by (auto simp: report_error_def DecoderBase_handleDecodeError_def decoder_event_def Let_def split: if_splits option.splits)
  with report_error_sel [OF r] assms None r show ?thesis
    by (cases r) (auto simp: loop_start_def still_def waits_def)
next
  case (Some q)
  with assms show ?thesis
    by (auto simp: loop_start_def Let_def still_def waits_def DecoderBase_resetStatistics_def set_queue_def split: if_splits)
qed

lemma head_still:
  assumes "loop_head now updateClock t e = (Ret (), e')" "db_waitingForPreBuffer (de_dec e)" "db_thread (de_dec e) = Some t" "kt_pc t = KP_Loop"
  shows "still e e'"
  using assms by (auto simp: loop_head_def Let_def still_def waits_def loop_end_def DecoderBase_updateTotalDecodeTime_def split: if_splits)

lemma decode_still:
  "waits b \<Longrightarrow> VideoDecoder_decodeLoop api vc (env_of b c) = (Ret (), e') \<Longrightarrow> still (env_of b c) e'"
  "waits a \<Longrightarrow> AudioDecoder_decodeLoop api ac (env_of a c) = (Ret (), f') \<Longrightarrow> still (env_of a c) f'"
  by (auto simp: VideoDecoder_decodeLoop_def AudioDecoder_decodeLoop_def waits_def env_of_def video_start_def audio_start_def
      split: option.splits dest!: start_still head_still)

lemma turn_stalled:
  assumes "stalled v a c"
  shows "video_turn api vc c = (Ret (), c') \<Longrightarrow> stalled v a c'" "audio_turn api ac c = (Ret (), c') \<Longrightarrow> stalled v a c'"
    "stalled v a (demux_turn papi io c)"
proof -
  assume t: "video_turn api vc c = (Ret (), c')"
  then obtain b e where b: "co_videoDecoder c = Some b" "VideoDecoder_decodeLoop api vc (env_of b c) = (Ret (), e)"
    "c' = log_events (map FromDecoder (de_events e)) (c\<lparr>co_demuxer := de_demuxer e, co_sync := de_sync e, co_videoDecoder := Some (de_dec e)\<rparr>)"
    by (auto simp: video_turn_def split: option.splits prod.splits)
  then have "still (env_of b c) e" using assms by (intro decode_still(1)) (auto simp: stalled_def)
  with assms b show "stalled v a c'"
    by (auto simp: stalled_def still_def never_called_def env_of_def DecoderController_videoQueue_def DecoderController_audioQueue_def)
next
  assume t: "audio_turn api ac c = (Ret (), c')"
  then obtain b e where b: "co_audioDecoder c = Some b" "AudioDecoder_decodeLoop api ac (env_of b c) = (Ret (), e)"
    "c' = log_events (map FromDecoder (de_events e)) (c\<lparr>co_demuxer := de_demuxer e, co_sync := de_sync e, co_audioDecoder := Some (de_dec e)\<rparr>)"
    by (auto simp: audio_turn_def split: option.splits prod.splits)
  then have w: "waits b" using assms by (auto simp: stalled_def)
  have "still (env_of b c) e" by (rule decode_still(2) [OF w b(2)])
  with assms b show "stalled v a c'"
    by (auto simp: stalled_def still_def never_called_def env_of_def DecoderController_videoQueue_def DecoderController_audioQueue_def)
next
  obtain es d where t: "thread_turn papi io (co_demuxer c) = (es, d)" by fastforce
  show "stalled v a (demux_turn papi io c)"
  proof (cases "dm_preBufferReady (co_demuxer c)")
    case True
    with reported.turn [OF _ t] have "dm_preBufferReady d" "PreBufferCallback \<notin> set es" by (auto simp: list_all_iff)
    with assms t show ?thesis
      by (auto simp: demux_turn_def Let_def stalled_def never_called_def DecoderController_videoQueue_def DecoderController_audioQueue_def)
  next
    case False
    with assms t show ?thesis
      by (auto simp: demux_turn_def Let_def stalled_def never_called_def DecoderController_onPreBufferReady_def
          DecoderController_videoQueue_def DecoderController_audioQueue_def)
  qed
qed

definition call_waits :: "('a DecoderBase_scheme \<Rightarrow> 'r outcome \<times> decoder_event list \<times> 'a DecoderBase_scheme) \<Rightarrow> bool" where
  "call_waits f \<longleftrightarrow> (\<forall>b r es b'. f b = (r, es, b') \<longrightarrow> waits b \<longrightarrow> waits b' \<and> db_frameQueue b' = db_frameQueue b)"

lemma pause_waits: "call_waits DecoderBase_pauseInternal" "call_waits DecoderBase_resumeInternal"
  by (auto simp: call_waits_def DecoderBase_pauseInternal_def DecoderBase_resumeInternal_def waits_def Let_def
      split: if_splits outcome.splits)

lemma call_stalled:
  assumes "stalled v a c"
  shows "video_call f x c = (r, c') \<Longrightarrow> call_waits f \<Longrightarrow> stalled v a c'" "audio_call g x c = (r, c') \<Longrightarrow> call_waits g \<Longrightarrow> stalled v a c'"
  using assms
  by (auto simp: video_call_def audio_call_def stalled_def never_called_def DecoderController_videoQueue_def DecoderController_audioQueue_def
      call_waits_def split: option.splits prod.splits)

lemma stalled_demuxer:
  "stalled v a c \<Longrightarrow> dm_preBufferReady d = dm_preBufferReady (co_demuxer c) \<Longrightarrow> stalled v a (c\<lparr>co_isDemuxerPausedWhenReconnected := x, co_demuxer := d\<rparr>)"
  "stalled v a c \<Longrightarrow> stalled v a (if P then reset_clocks cl c else c)"
  by (auto simp: stalled_def never_called_def DecoderController_videoQueue_def DecoderController_audioQueue_def reset_clocks_def)

lemma pause_stalled:
  assumes "stalled v a c"
  shows "DecoderController_pause c = (Ret r, c') \<Longrightarrow> stalled v a c'" "DecoderController_resume cl c = (Ret r, c') \<Longrightarrow> stalled v a c'"
proof -
  have d: "dm_preBufferReady (snd (Demuxer_pause d)) = dm_preBufferReady d" "dm_preBufferReady (snd (Demuxer_resume d)) = dm_preBufferReady d" for d
    by (simp_all add: Demuxer_pause_def Demuxer_pauseInternal_def Demuxer_resume_def Demuxer_resumeInternal_def map_queues_def)
  show "DecoderController_pause c = (Ret r, c') \<Longrightarrow> stalled v a c'" "DecoderController_resume cl c = (Ret r, c') \<Longrightarrow> stalled v a c'"
    using assms stalled_demuxer(2) [OF assms, of "Demuxer_isRealTime (co_demuxer c)" cl] d
    unfolding DecoderController_pause_def DecoderController_resume_def ret_obind
    by (auto simp: case_prod_beta intro!: stalled_demuxer(1) dest!: call_stalled [rotated, OF _ pause_waits(1)] call_stalled [rotated, OF _ pause_waits(2)])
qed

interpretation stall: inductive_invariant "stalled v a" "ctl_play api" "stalled v a" for v a api
  by unfold_locales (auto elim!: ctl_play.cases intro: turn_stalled pause_stalled)


subsection \<open>Starting\<close>

definition idle :: "'a DecoderBase_scheme \<Rightarrow> bool" where
  "idle b \<longleftrightarrow> \<not> db_isStarted b \<and> db_thread b = None"

context decoder_class
begin

lemma idle_opens:
  assumes thread: "\<And>b. db_thread (snd (hwSetup b)) = db_thread b" "\<And>b. db_thread (hwRemove b) = db_thread b"
    and "idle b" "DecoderBase_openInternal hwSetup hwRemove api kc now d b = (r, es, b')"
  shows "idle b'"
proof -
  have o: "idle b'" if "open_codec hwSetup api kc now d b = (r, es, b')" "idle b" for b es
    using that
    by (auto simp: open_codec_def Let_def idle_def split_beta thread hwSetup_keeps split: option.splits if_splits)
  have "DecoderBase_stopInternal b = (Ret (), [], b)" using assms(3) by (simp add: DecoderBase_stopInternal_def idle_def)
  then have "idle b1" if "DecoderBase_closeInternal hwRemove b = (r1, es1, b1)" for r1 es1 b1
    using that assms(3) by (auto simp: DecoderBase_closeInternal_def idle_def Let_def thread hwRemove_keeps split: if_splits)
  with o assms(3,4) show ?thesis
    by (auto simp: DecoderBase_openInternal_def split: if_splits prod.splits outcome.splits)
qed

end

lemma hw_idle: "db_thread (snd (VideoDecoder_setupHardwareDecode hc b)) = db_thread b" "db_thread (VideoDecoder_removeHardwareDecode b) = db_thread b"
  "db_thread (snd (DecoderBase_setupHardwareDecode a)) = db_thread a" "db_thread (DecoderBase_removeHardwareDecode a) = db_thread a"
  by (auto simp: VideoDecoder_setupHardwareDecode_def VideoDecoder_removeHardwareDecode_def DecoderBase_setupHardwareDecode_def
      DecoderBase_removeHardwareDecode_def Let_def split: option.split prod.split)

lemma speed_idle: "DecoderBase_setSpeed v b = (x, b1) \<Longrightarrow> idle b1 = idle b"
  by (auto simp: DecoderBase_setSpeed_def idle_def split: if_splits double.splits)

lemma init_idle: "idle (DecoderBase_setFrameRateControl x (VideoDecoder_init y b)) = idle b" "idle (AudioDecoder_init z a) = idle a"
  by (simp_all add: idle_def VideoDecoder_init_def AudioDecoder_init_def DecoderBase_setFrameRateControl_def)

lemma set_up_idle:
  "set_up_video api cl config d b = (r, es, b') \<Longrightarrow> idle b \<Longrightarrow> idle b'"
  "set_up_audio api cl config d a = (s, fs, a') \<Longrightarrow> idle a \<Longrightarrow> idle a'"
  unfolding set_up_video_def set_up_audio_def
  by (auto split: prod.splits outcome.splits simp: init_idle hw_idle dest!: speed_idle
      dest: video_hooks.idle_opens [rotated 3] base_hooks.idle_opens [rotated 3])

lemma start_waits:
  assumes "DecoderBase_startInternal d (DecoderBase_setWaitingForPreBuffer True b) = (r, es, b')" "idle b"
  shows "waits b'"
  using assms by (auto simp: DecoderBase_setWaitingForPreBuffer_def DecoderBase_startInternal_def waits_def idle_def new_thread_def Let_def split: if_splits option.splits outcome.splits)

definition ready_to_start :: "DecoderController \<Rightarrow> bool" where
  "ready_to_start c \<longleftrightarrow> pb_enablePreBuffer (cfg_preBufferConfig (cf_demux (co_config c))) \<and> never_called c
     \<and> pred_option idle (co_videoDecoder c) \<and> pred_option idle (co_audioDecoder c)"

lemma ready_calls:
  assumes "ready_to_start c"
  shows "video_call (set_up_video api cl config d) x c = (r, c') \<Longrightarrow> ready_to_start c'"
    "audio_call (set_up_audio api cl config d) x c = (r, c') \<Longrightarrow> ready_to_start c'"
    "ready_to_start (reset_clocks cl c)"
  using assms
  by (auto simp: ready_to_start_def never_called_def video_call_def audio_call_def reset_clocks_def
      split: option.splits prod.splits dest: set_up_idle)

lemma start_decoders_stalled:
  assumes "ready_to_start c" "start_decoders c = (Ret r, c')"
  shows "stalled (DecoderController_videoQueue c') (DecoderController_audioQueue c') c'"
proof -
  have e: "pb_enablePreBuffer (cfg_preBufferConfig (cf_demux (co_config (choose_master c))))" using assms(1) by (simp add: ready_to_start_def)
  let ?c = "await_preBuffer (choose_master c)" and ?f = "\<lambda>b. DecoderBase_setWaitingForPreBuffer True b"
  have w: "co_videoDecoder ?c = map_option ?f (co_videoDecoder c)" "co_audioDecoder ?c = map_option ?f (co_audioDecoder c)"
    using e by (simp_all add: await_preBuffer_def set_waiting_def map_decoders_def)
  obtain c2 c3 where c: "video_call (DecoderBase_startInternal (co_demuxer ?c)) () ?c = (Ret (), c2)"
    "audio_call (DecoderBase_startInternal (co_demuxer ?c)) () c2 = (Ret (), c3)" "c' = c3\<lparr>co_isDecoding := True\<rparr>"
    using assms(2) unfolding start_decoders_def Let_def ret_obind by auto
  have v: "pred_option waits (co_videoDecoder c2)" "co_audioDecoder c2 = co_audioDecoder ?c" "never_called c2"
    using assms(1) c(1) w
    by (auto simp: video_call_def ready_to_start_def never_called_def split: option.splits prod.splits dest: start_waits)
  have "pred_option waits (co_audioDecoder c3)" "co_videoDecoder c3 = co_videoDecoder c2" "never_called c3"
    using assms(1) c(2) w v
    by (auto simp: audio_call_def ready_to_start_def never_called_def split: option.splits prod.splits dest: start_waits)
  with v c(3) show ?thesis
    by (simp add: stalled_def never_called_def DecoderController_videoQueue_def DecoderController_audioQueue_def)
qed

lemma stage:
  "obind r (\<lambda>x c. if \<not> x then (Ret False, c) else k c) = (Ret True, c') \<Longrightarrow> \<exists>c1. r = (Ret True, c1) \<and> k c1 = (Ret True, c')"
  by (cases r; cases "fst r") (auto split: if_splits)

lemma startDecode_stalled:
  assumes "ready_to_start c" "DecoderController_startDecode api cl c = (Ret True, c')"
  shows "stalled (DecoderController_videoQueue c') (DecoderController_audioQueue c') c'"
proof -
  define c0 where "c0 = reset_clocks cl (c\<lparr>co_hasDecoderWhenReconnected := True\<rparr>)"
  have "ready_to_start (c\<lparr>co_hasDecoderWhenReconnected := True\<rparr>)" using assms(1) by (simp add: ready_to_start_def never_called_def)
  then have r0: "ready_to_start c0" unfolding c0_def by (rule ready_calls(3))
  let ?v = "if wants_video c0 then video_call (set_up_video api cl (co_config c0) (co_demuxer c0)) True c0 else (Ret True, c0)"
  let ?a = "\<lambda>c1. if wants_audio c1 then audio_call (set_up_audio api cl (co_config c0) (co_demuxer c0)) True c1 else (Ret True, c1)"
  have s: "obind ?v (\<lambda>x c1. if \<not> x then (Ret False, c1) else obind (?a c1) (\<lambda>x c2. if \<not> x then (Ret False, c2) else start_decoders c2)) = (Ret True, c')"
    using assms(2) unfolding DecoderController_startDecode_def DecoderController_startDecodeInternal_def Let_def c0_def .
  obtain c1 where c1: "?v = (Ret True, c1)" and r: "obind (?a c1) (\<lambda>x c2. if \<not> x then (Ret False, c2) else start_decoders c2) = (Ret True, c')"
    using stage [OF s] by blast
  have r1: "ready_to_start c1" using c1 r0 ready_calls(1) [OF r0] by (auto split: if_splits)
  obtain c2 where c2: "?a c1 = (Ret True, c2)" and st: "start_decoders c2 = (Ret True, c')" using stage [OF r] by blast
  have "ready_to_start c2" using c2 r1 ready_calls(2) [OF r1] by (auto split: if_splits)
  from start_decoders_stalled [OF this st] show ?thesis .
qed

text \<open>
  C20: a decoder that is started with the pre-buffer enabled after the demuxer has reported it, or without
  \<open>autoStartAfterPreBuffer\<close>, waits for ever: no turn of the three threads, no pause and no resume puts a frame into
  the frame queues or clears the flag it waits for.  The stream is demultiplexed from the open on, so the report may well come
  before the start.
\<close>

theorem DecoderController_preBuffer_stalls:
  assumes "pb_enablePreBuffer (cfg_preBufferConfig (cf_demux (co_config c)))"
    and "dm_preBufferReady (co_demuxer c) \<or> \<not> pb_autoStartAfterPreBuffer (cfg_preBufferConfig (cf_demux (co_config c)))"
    and "pred_option idle (co_videoDecoder c)" "pred_option idle (co_audioDecoder c)"
    and "DecoderController_startDecode api cl c = (Ret True, c')" "exec (ctl_play api) c' ls c''"
  shows "DecoderController_videoQueue c'' = DecoderController_videoQueue c' \<and> DecoderController_audioQueue c'' = DecoderController_audioQueue c'
    \<and> pred_option waits (co_videoDecoder c'') \<and> pred_option waits (co_audioDecoder c'')"
proof -
  have "ready_to_start c" using assms(1-4) by (simp add: ready_to_start_def never_called_def)
  from stall.reachable_inv [OF startDecode_stalled [OF this assms(5)] assms(6)] show ?thesis by (simp add: stalled_def)
qed

definition stalled_sample :: DecoderController where
  "stalled_sample = sample_controller\<lparr>co_config := default_config\<lparr>cf_demux := (cf_demux default_config)\<lparr>cfg_preBufferConfig :=
     (cfg_preBufferConfig (cf_demux default_config))\<lparr>pb_enablePreBuffer := True, pb_autoStartAfterPreBuffer := False\<rparr>\<rparr>\<rparr>\<rparr>"

lemma sample_starts:
  "\<exists>c'. DecoderController_startDecode sample_frame_api sample_ctl_calls stalled_sample = (Ret True, c') \<and> co_videoDecoder c' \<noteq> None"
proof -
  define b where "b = snd (DecoderBase_setSpeed (Fin 1) (DecoderBase_setFrameRateControl True (VideoDecoder_init default_video_config (VideoDecoder_new 0))))"
  have b: "DecoderBase_setSpeed (Fin 1) (DecoderBase_setFrameRateControl True (VideoDecoder_init default_video_config (VideoDecoder_new 0))) = (Ret True, b)"
    "db_type b = AVMEDIA_TYPE_VIDEO" "idle b" "\<not> db_isOpened b" "0 \<le> fq_maxSize (db_frameQueue b)"
    unfolding b_def
    by (simp_all add: DecoderBase_setSpeed_def DecoderBase_setFrameRateControl_def VideoDecoder_init_def VideoDecoder_new_def DecoderBase_new_def
       DecoderBase.defs idle_def DOUBLEEPSILON_def trunc_to_int_def FrameQueue_new_def kFrameQueueDefaultSize_def)
  let ?config = "co_config stalled_sample"
  have k: "cf_speed ?config = Fin 1" "cf_enableFrameRateControl ?config = True" "cf_video ?config = default_video_config"
    by (simp_all add: stalled_sample_def default_config_def)
  have f: "dm_formatContext sample_demuxer = Some (snd (oc_open_input sample_open [] []))"
    "length (fc_streams (snd (oc_open_input sample_open [] []))) = 1"
    by (simp_all add: sample_demuxer_eq opened_state_sel sample_open_def)
  have "\<exists>es b'. set_up_video sample_frame_api sample_ctl_calls ?config sample_demuxer (VideoDecoder_new 0) = (Ret True, es, b') \<and> db_codecCtx b' \<noteq> None"
    using b(4,5) video_hooks.hwSetup_Some [of sample_hw]
    by (simp add: set_up_video_def k b(1,2) DecoderBase_openInternal_def open_codec_def f sample_sel Demuxer_streamIndex_def sample_ctl_calls_def
        sample_calls_def split_beta video_hooks.hwSetup_keeps FrameQueue_init_def FrameQueue_uninit_def Let_def)
  then obtain es b' where b': "set_up_video sample_frame_api sample_ctl_calls ?config sample_demuxer (VideoDecoder_new 0) = (Ret True, es, b')"
    "db_codecCtx b' \<noteq> None" by blast
  have i: "idle b'" using set_up_idle(1) [OF b'(1)] by (simp add: idle_def VideoDecoder_new_def VideoDecoder_init_def DecoderBase_new_def DecoderBase.defs)
  have s: "\<exists>es b''. DecoderBase_startInternal sample_demuxer (DecoderBase_setWaitingForPreBuffer True b') = (Ret (), es, b'')"
    using i b'(2) by (auto simp: DecoderBase_startInternal_def DecoderBase_setWaitingForPreBuffer_def idle_def codec_event_def Let_def split: option.split)
  have w: "wants_video stalled_sample" "\<not> Demuxer_hasAudio sample_demuxer" "co_demuxer stalled_sample = sample_demuxer" "co_audioDecoder stalled_sample = None"
    "co_videoDecoder stalled_sample = Some (VideoDecoder_new 0)" "pb_enablePreBuffer (cfg_preBufferConfig (cf_demux (co_config stalled_sample)))"
    by (simp_all add: wants_video_def stalled_sample_def sample_controller_opens Demuxer_hasVideo_def Demuxer_hasAudio_def sample_sel default_config_def kVideo_def kAudio_def)
  show ?thesis
    using s w(1) by (auto simp: DecoderController_startDecode_def DecoderController_startDecodeInternal_def w Let_def reset_clocks_def wants_video_def wants_audio_def
      video_call_def audio_call_def b' start_decoders_def choose_master_def await_preBuffer_def set_waiting_def map_decoders_def)
qed

theorem DecoderController_preBuffer_stalls_witness:
  "\<exists>c' c''. DecoderController_startDecode sample_frame_api sample_ctl_calls stalled_sample = (Ret True, c')
     \<and> exec (ctl_play sample_frame_api) c' [(), ()] c'' \<and> DecoderController_videoQueue c'' = DecoderController_videoQueue c' \<and> co_videoDecoder c' \<noteq> None"
proof -
  obtain c' where c': "DecoderController_startDecode sample_frame_api sample_ctl_calls stalled_sample = (Ret True, c')" "co_videoDecoder c' \<noteq> None"
    using sample_starts by blast
  let ?t = "demux_turn sample_api (sample_io 0 0)"
  have e: "exec (ctl_play sample_frame_api) c' [(), ()] (?t (?t c'))"
    by (auto intro!: exec.intros ctl_play.demux)
  have "DecoderController_videoQueue (?t (?t c')) = DecoderController_videoQueue c'"
    using DecoderController_preBuffer_stalls [OF _ _ _ _ c'(1) e]
    by (simp add: stalled_sample_def sample_controller_opens idle_def VideoDecoder_new_def VideoDecoder_init_def DecoderBase_new_def DecoderBase.defs)
  with c' e show ?thesis by blast
qed

subsection \<open>Seeking\<close>

lemma mark_seek_not_Wait: "fst (mark_seek api position b) \<noteq> Wait"
proof -
  obtain r q where c: "FrameQueue_clear api (db_frameQueue b) = (r, q)" "r \<noteq> Wait"
    by (cases "FrameQueue_clear api (db_frameQueue b)") (auto simp: FrameQueue_clear_def split: if_splits)
  then show ?thesis
    by (cases r) (auto simp: mark_seek_def DecoderBase_setSeekPos_def Let_def split: double.split)
qed

lemma obind_UB: "fst r \<noteq> Wait \<Longrightarrow> (\<And>a s. r = (Ret a, s) \<Longrightarrow> fst (k a s) = UB) \<Longrightarrow> fst (obind r k) = UB"
  by (cases r; cases "fst r") auto

lemma mark_calls:
  "fst (video_call (silent (mark_seek api position)) () c) \<noteq> Wait" "fst (audio_call (silent (mark_seek api position)) () c) \<noteq> Wait"
  "video_call (silent f) x c = (r, c') \<Longrightarrow> co_demuxer c' = co_demuxer c \<and> (co_videoDecoder c' = None \<longleftrightarrow> co_videoDecoder c = None)"
  "audio_call (silent g) y c = (s, c') \<Longrightarrow> co_demuxer c' = co_demuxer c \<and> co_videoDecoder c' = co_videoDecoder c"
  using mark_seek_not_Wait
  by (auto simp: video_call_def audio_call_def silent_def case_prod_beta split: option.splits prod.splits)

lemma seek_decoders_stale:
  assumes "co_videoDecoder c \<noteq> None" "dm_videoPacketQueue (co_demuxer c) = None"
  shows "fst (seek_decoders api cl position c) = UB"
  unfolding seek_decoders_def
proof (rule obind_UB [OF mark_calls(1)], rule obind_UB [OF mark_calls(2)])
  fix x c1 y c2
  assume a: "video_call (silent (mark_seek api position)) () (reset_clocks cl c) = (Ret x, c1)"
    "audio_call (silent (mark_seek api position)) () c1 = (Ret y, c2)"
  then have k: "co_videoDecoder c2 \<noteq> None" "dm_videoPacketQueue (co_demuxer c2) = None"
    using mark_calls(3) [OF a(1)] mark_calls(4) [OF a(2)] assms by (auto simp: reset_clocks_def)
  show "fst (obind (seek_clock (StreamSyncManager_updateAudioClock (cl_clock cl 3)) (co_audioDecoder c2 \<noteq> None) AVMEDIA_TYPE_AUDIO position c2)
      (\<lambda>_ c3. seek_clock (StreamSyncManager_updateVideoClock (cl_clock cl 4)) (co_videoDecoder c3 \<noteq> None) AVMEDIA_TYPE_VIDEO position c3)) = UB"
    by (rule obind_UB) (use k in \<open>auto simp: seek_clock_def Demuxer_packetQueue_def split: if_splits option.splits\<close>)
qed

text \<open>Opening a stream without the media of an old decoder leaves that decoder in place.\<close>

lemma reopen_keeps_video:
  assumes "ctl_inv c" "co_videoDecoder c = Some b" "oc_best_video (cl_open cl) < 0"
    and "DecoderController_openInternal cl url config c = (Ret True, c')"
  shows "co_videoDecoder c' = Some b \<and> dm_videoPacketQueue (co_demuxer c') = None"
proof -
  let ?c = "c\<lparr>co_originalUrl := url, co_preBufferState := PB_kDisabled, co_config := config\<rparr>"
  obtain r es d where o: "Demuxer_open (cl_open cl) url (cf_demux config) True (co_demuxer c) = (r, es, d)" by (metis prod_cases3)
  let ?c1 = "log_events (map FromDemuxer es) (?c\<lparr>co_demuxer := d\<rparr>)"
  have call: "demuxer_call (Demuxer_open (cl_open cl) url (cf_demux config) True) ?c = (r, ?c1)" by (simp add: demuxer_call_def o)
  have t: "r = Ret True" using assms(4) unfolding DecoderController_openInternal_def call by (cases r) (auto simp: ret_obind split: if_splits)
  have i: "indices_ok (co_demuxer c)" using assms(1) by (simp add: ctl_inv_def)
  have n: "\<not> Demuxer_hasVideo d" using o t assms(3)
    by (auto simp: Demuxer_open_def Demuxer_openInternal_def open_stream_def opened_state_def Demuxer_hasVideo_def Demuxer_start_def
        Demuxer_setPreBufferConfig_def map_queues_def Let_def split: if_splits outcome.splits prod.splits)
  have q: "dm_videoPacketQueue d = None" using open_queues [OF i] o t n by blast
  have "obind (if wants_audio ?c1 then create_audio cl ?c1 else (Ret (), ?c1)) (\<lambda>_ c3. (Ret True, c3)) = (Ret True, c')"
    using assms(4) n unfolding DecoderController_openInternal_def call t by (simp add: wants_video_def)
  moreover have "co_videoDecoder c2 = co_videoDecoder ?c1 \<and> co_demuxer c2 = co_demuxer ?c1" if "create_audio cl ?c1 = (Ret x, c2)" for x c2
    using that by (auto simp: create_audio_def ret_obind audio_call_def split: option.splits prod.splits)
  ultimately show ?thesis using assms(2) q by (auto simp: ret_obind split: if_splits)
qed

text \<open>
  C21: opening a stream without video while a video decoder of an earlier stream exists keeps that decoder, and the next
  accepted seek reads the serial number of a video packet queue that does not exist.
\<close>

theorem DecoderController_seek_after_reopen:
  assumes "exec (ctl_step api) (DecoderController_new thread cl0) ls c" "co_videoDecoder c \<noteq> None"
    and "oc_best_video (cl_open cl) < 0" "DecoderController_openInternal cl url config c = (Ret True, c')"
    and "Demuxer_seek position (co_demuxer c') = (Ret True, d)"
  shows "fst (DecoderController_seek api cl' position c') = UB"
proof -
  have "ctl_inv c" using controller.reachable_inv assms(1) by blast
  then have k: "co_videoDecoder c' \<noteq> None" "dm_videoPacketQueue (co_demuxer c') = None"
    using reopen_keeps_video [OF _ _ assms(3,4)] assms(2) by auto
  let ?c = "log_events (map FromDemuxer []) ((seek_event EV_kSeekStarted ''Seek Started'' (cl_clock cl' 5) position c')\<lparr>co_demuxer := d\<rparr>)"
  have d: "dm_videoPacketQueue d = None" "\<not> dm_isRealTime (co_demuxer c')"
    using assms(5) k(2) by (auto simp: Demuxer_seek_def split: if_splits double.splits)
  have u: "fst (seek_decoders api cl' position ?c) = UB"
    by (rule seek_decoders_stale) (use k d in \<open>simp_all add: seek_event_def\<close>)
  then have v: "fst (obind (seek_decoders api cl' position ?c) f) = UB" for f :: "unit \<Rightarrow> DecoderController \<Rightarrow> bool outcome \<times> DecoderController"
    by (cases "seek_decoders api cl' position ?c") simp
  have e: "co_demuxer (seek_event a b n p c) = co_demuxer c" for a b n p c by (simp add: seek_event_def)
  show ?thesis
    using v d(2) assms(5) by (simp add: DecoderController_seek_def e Let_def Demuxer_isRealTime_def demuxer_call_def silent_def)
qed

subsection \<open>Speed\<close>

lemma clock_speed_set:
  "utils_greater (Fin v) (Fin 0) DOUBLEEPSILON \<Longrightarrow> utils_equal (clk_speed (Clock_setClockSpeed n m (Fin v) c)) (Fin v) DOUBLEEPSILON"
  by (simp add: Clock_setClockSpeed_def Let_def Clock_setClock_def utils_equal_def DOUBLEEPSILON_def)

definition takes_speed :: "real \<Rightarrow> 'a DecoderBase_scheme \<Rightarrow> 'a DecoderBase_scheme \<Rightarrow> bool" where
  "takes_speed v b b' \<longleftrightarrow> (if v \<le> 64 + 1 / 10 ^ 12 then DecoderBase_speed b' = Fin (of_int \<lfloor>v * 1000\<rfloor> / 1000) else b' = b)"

lemma decoder_takes_speed:
  assumes "0 < v"
  shows "\<exists>r b'. DecoderBase_setSpeed (Fin v) b = (Ret r, b') \<and> takes_speed v b b'"
proof (cases "v \<le> 64 + 1 / 10 ^ 12")
  case True
  with DecoderBase_setSpeed_accepts [of b v 0] assms show ?thesis unfolding takes_speed_def by (metis (no_types, lifting))
next
  case False
  with DecoderBase_setSpeed_accepts [of b v 0] show ?thesis unfolding takes_speed_def by (metis (no_types, lifting))
qed

text \<open>
  the speed of the controller.  A speed that is not positive and every speed on a real-time stream are refused
  without effect.  Every other speed is accepted, stored and given to the clocks (when it is above the
  tolerance of the comparisons), but the decoders take it, cut to thousandths, only up to 64 and otherwise
  keep the old one.
\<close>

theorem DecoderController_setSpeed_result:
  "if v \<le> 0 \<or> Demuxer_isRealTime (co_demuxer c) then DecoderController_setSpeed cl (Fin v) c = (Ret False, c)
   else \<exists>c'. DecoderController_setSpeed cl (Fin v) c = (Ret True, c') \<and> DecoderController_curSpeed c' = Fin v
     \<and> rel_option (takes_speed v) (co_videoDecoder c) (co_videoDecoder c') \<and> rel_option (takes_speed v) (co_audioDecoder c) (co_audioDecoder c')
     \<and> (v \<le> 1 / 10 ^ 12 \<or> utils_equal (clk_speed (sm_videoClock (co_sync c'))) (Fin v) DOUBLEEPSILON
                            \<and> utils_equal (clk_speed (sm_audioClock (co_sync c'))) (Fin v) DOUBLEEPSILON)"
proof (cases "v \<le> 0 \<or> Demuxer_isRealTime (co_demuxer c)")
  case False
  then have v: "0 < v" by simp
  let ?c = "c\<lparr>co_config := (co_config c)\<lparr>cf_speed := Fin v\<rparr>\<rparr>"
  obtain r1 c1 where c1: "video_call (silent (DecoderBase_setSpeed (Fin v))) True ?c = (Ret r1, c1)" "rel_option (takes_speed v) (co_videoDecoder c) (co_videoDecoder c1)"
    "co_audioDecoder c1 = co_audioDecoder c" "co_config c1 = co_config ?c"
  proof (cases "co_videoDecoder c")
    case (Some b)
    then show ?thesis using decoder_takes_speed [OF v, of b] that by (auto simp: video_call_def silent_def)
  qed (use that in \<open>auto simp: video_call_def\<close>)
  obtain r2 c2 where c2: "audio_call (silent (DecoderBase_setSpeed (Fin v))) True c1 = (Ret r2, c2)" "rel_option (takes_speed v) (co_audioDecoder c) (co_audioDecoder c2)"
    "co_videoDecoder c2 = co_videoDecoder c1" "co_config c2 = co_config c1"
  proof (cases "co_audioDecoder c")
    case (Some b)
    then show ?thesis using decoder_takes_speed [OF v, of b] that c1(3) by (auto simp: audio_call_def silent_def)
  qed (use that c1(3) in \<open>auto simp: audio_call_def\<close>)
  have "1 / 10 ^ 12 < v \<Longrightarrow> utils_greater (Fin v) (Fin 0) DOUBLEEPSILON" by (simp add: utils_greater_def DOUBLEEPSILON_def)
  with False c1 c2 show ?thesis
    by (auto simp: DecoderController_setSpeed_def DecoderController_curSpeed_def StreamSyncManager_setSpeed_def intro!: clock_speed_set)
qed (auto simp: DecoderController_setSpeed_def)


definition audio_only_calls :: ctl_calls where
  "audio_only_calls = sample_ctl_calls\<lparr>cl_open := sample_open\<lparr>oc_best_video := -1, oc_best_audio := 0\<rparr>\<rparr>"

definition ended_sample :: DecoderController where
  "ended_sample = demux_turn sample_api (sample_io 0 0) (sample_controller\<lparr>co_demuxer := snd (Demuxer_stop sample_demuxer)\<rparr>)"

lemma ended_sample_sel:
  "Demuxer_stop sample_demuxer = (Wait, snd (Demuxer_stop sample_demuxer))"
  "co_videoDecoder ended_sample = Some (VideoDecoder_new 0)" "dm_isStarted (co_demuxer ended_sample)"
  "map_option dt_pc (dm_thread (co_demuxer ended_sample)) = Some DP_Ended" "dm_isOpened (co_demuxer ended_sample)"
  "co_audioDecoder ended_sample = None"
  by (simp_all add: ended_sample_def Demuxer_stop_def sample_sel demux_turn_def Demuxer_demuxLoop_def thread_turn_def map_queues_def Let_def
     sample_controller_opens Demuxer_fileStreamDemuxLoop_def sample_io_def DecoderController_onPreBufferReady_def)

lemma ended_sample_reachable: "exec (ctl_step sample_frame_api) (DecoderController_new 0 sample_ctl_calls) [(), (), ()] ended_sample"
proof (rule exec_step, rule sample_step, rule exec_step)
  show "ctl_step sample_frame_api sample_controller () (sample_controller\<lparr>co_demuxer := snd (Demuxer_stop sample_demuxer)\<rparr>)"
    by (rule ctl_step.interrupts) (use ended_sample_sel(1) in \<open>simp add: sample_controller_opens\<close>)
  show "exec (ctl_step sample_frame_api) (sample_controller\<lparr>co_demuxer := snd (Demuxer_stop sample_demuxer)\<rparr>) [()] ended_sample"
    unfolding ended_sample_def by (rule exec_single) (rule ctl_step.demux)
qed

lemma audio_only_opens:
  "\<exists>c'. DecoderController_openInternal audio_only_calls ''a.mp4'' default_config ended_sample = (Ret True, c')
     \<and> dm_formatContext (co_demuxer c') \<noteq> None \<and> \<not> dm_isRealTime (co_demuxer c')"
proof -
  let ?d = "co_demuxer ended_sample"
  obtain t where t: "dm_thread ?d = Some t" "dt_pc t = DP_Ended" using ended_sample_sel(4) by auto
  have "\<exists>es d. Demuxer_closeInternal ?d = (Ret True, es, d)"
    using t ended_sample_sel(3,5) by (simp add: Demuxer_closeInternal_def Demuxer_stop_def map_queues_def Let_def)
  then obtain es d where d: "Demuxer_closeInternal ?d = (Ret True, es, d)" by blast
  obtain es2 fc where o: "open_stream (cl_open audio_only_calls) ''a.mp4'' (cf_demux default_config) True d
      = (True, es2, opened_state (cl_open audio_only_calls) fc ''a.mp4'' (cf_demux default_config) True d)"
    by (simp add: open_stream_def audio_only_calls_def sample_open_def AV_NOPTS_VALUE_def Let_def)
  show ?thesis
    using ended_sample_sel(5,6)
    by (simp add: DecoderController_openInternal_def demuxer_call_def Demuxer_open_def Demuxer_openInternal_def d o wants_video_def wants_audio_def
        Demuxer_hasVideo_def Demuxer_hasAudio_def opened_state_sel create_audio_def audio_call_def sample_url)
      (simp add: audio_only_calls_def opened_state_sel sample_url)
qed

theorem DecoderController_seek_after_reopen_witness:
  "\<exists>c'. DecoderController_openInternal audio_only_calls ''a.mp4'' default_config ended_sample = (Ret True, c')
     \<and> fst (DecoderController_seek sample_frame_api sample_ctl_calls (Fin 1) c') = UB"
proof -
  obtain c' where c': "DecoderController_openInternal audio_only_calls ''a.mp4'' default_config ended_sample = (Ret True, c')"
    "dm_formatContext (co_demuxer c') \<noteq> None" "\<not> dm_isRealTime (co_demuxer c')" using audio_only_opens by blast
  obtain d where "Demuxer_seek (Fin 1) (co_demuxer c') = (Ret True, d)"
    using c'(2,3) by (simp add: Demuxer_seek_def utils_greaterAndEqual_def DOUBLEEPSILON_def trunc_to_int_def int64_range_def)
  then show ?thesis
    using DecoderController_seek_after_reopen [OF ended_sample_reachable _ _ c'(1)] c'(1) by (auto simp: ended_sample_sel audio_only_calls_def)
qed

end
