(* ===== verification/Reconnections.thy ===== *)
theory Reconnections
  imports ControllerProperties
begin

text \<open>
  The reconnecting thread of the controller: the bound on its attempts among the other threads, what it does while
  the source is unreachable, and the attempt that succeeds.
\<close>

subsection \<open>Reconnection\<close>

text \<open>The reconnecting thread among the others, with the number of attempts it has made; the other threads change neither
  the configuration nor the thread and its counter.\<close>

inductive reconnect_step :: "frame_api \<Rightarrow> nat \<times> DecoderController \<Rightarrow> unit \<Rightarrow> nat \<times> DecoderController \<Rightarrow> bool" for api where
  turn: "DecoderController_reconnectLoop api cl c = (Ret (), c') \<Longrightarrow>
    reconnect_step api (k, c) ()
      (if co_reconnectThread c = Some RC_Head \<and> co_reconnectThread c' = Some RC_Close then k + 1 else k, c')"
| other: "co_config c' = co_config c \<Longrightarrow> co_reconnectThread c' = co_reconnectThread c \<Longrightarrow>
    co_currentReconnectAttempt c' = co_currentReconnectAttempt c \<Longrightarrow> reconnect_step api (k, c) () (k, c')"

inductive_cases reconnect_stepE: "reconnect_step api (k, c) l kc"

definition before_exit :: "reconnect_pc option \<Rightarrow> bool" where
  "before_exit pc \<longleftrightarrow> pc \<notin> {None, Some RC_Final, Some RC_Ended}"

definition attempts_inv :: "int \<Rightarrow> nat \<times> DecoderController \<Rightarrow> bool" where
  "attempts_inv n = (\<lambda>(k, c). sint (cf_maxReconnectAttempts (co_config c)) = n \<and> int k \<le> n
     \<and> (before_exit (co_reconnectThread c) \<longrightarrow> sint (co_currentReconnectAttempt c) = int k))"

definition same_reconnect :: "DecoderController \<Rightarrow> DecoderController \<Rightarrow> bool" where
  "same_reconnect c c' \<longleftrightarrow> co_config c' = co_config c \<and> co_reconnectThread c' = co_reconnectThread c
     \<and> co_currentReconnectAttempt c' = co_currentReconnectAttempt c"

lemma same_reconnect_trans: "same_reconnect c c1 \<Longrightarrow> same_reconnect c1 c2 \<Longrightarrow> same_reconnect c c2"
  by (simp add: same_reconnect_def)

lemma calls_same_reconnect:
  "video_call f x c = (r, c') \<Longrightarrow> same_reconnect c c'" "audio_call g y c = (r', c') \<Longrightarrow> same_reconnect c c'"
  "demuxer_call h c = (r'', c') \<Longrightarrow> same_reconnect c c'"
  by (auto simp: same_reconnect_def video_call_def audio_call_def demuxer_call_def split: option.splits prod.splits)

lemma stop_same_reconnect: "DecoderController_stopDecodeInternal c = (Ret r, c') \<Longrightarrow> same_reconnect c c'"
  unfolding DecoderController_stopDecodeInternal_def ret_obind
  by (auto dest!: calls_same_reconnect intro: same_reconnect_trans simp: same_reconnect_def)

lemma start_same_reconnect: "DecoderController_startDecodeInternal api cl c = (Ret r, c') \<Longrightarrow> same_reconnect c c'"
proof -
  assume a: "DecoderController_startDecodeInternal api cl c = (Ret r, c')"
  have s: "same_reconnect c c'" if "start_decoders c = (Ret r, c')" for r c c'
    using that unfolding start_decoders_def Let_def ret_obind
    by (auto dest!: calls_same_reconnect simp: same_reconnect_def await_preBuffer_def choose_master_def set_waiting_def map_decoders_def)
  have "same_reconnect c (reset_clocks cl c)" by (simp add: same_reconnect_def reset_clocks_def)
  then show ?thesis using a unfolding DecoderController_startDecodeInternal_def Let_def
    by (auto simp: ret_obind dest!: calls_same_reconnect s split: if_splits) (auto simp: same_reconnect_def)
qed

lemma attempt_same_reconnect:
  "attempt_close c = (Ret r, c') \<Longrightarrow> same_reconnect c c'" "attempt_reopen api cl c = (Ret r, c') \<Longrightarrow> same_reconnect c c'"
  unfolding attempt_close_def attempt_reopen_def Let_def
  by (auto simp: ret_obind dest!: stop_same_reconnect start_same_reconnect calls_same_reconnect split: if_splits)
    (auto simp: same_reconnect_def)

lemma turn_attempts:
  assumes "DecoderController_reconnectLoop api cl c = (Ret (), c')" "attempts_inv n (k, c)" "0 < n"
  shows "attempts_inv n (if co_reconnectThread c = Some RC_Head \<and> co_reconnectThread c' = Some RC_Close then k + 1 else k, c')"
proof (cases "co_reconnectThread c")
  case (Some pc)
  have same: "attempts_inv n (k, go_on p c1)" if "same_reconnect c c1" "pc \<notin> {RC_Final, RC_Ended}" for c1 p
    using assms(2) that Some by (simp add: attempts_inv_def same_reconnect_def go_on_def before_exit_def)
  show ?thesis
  proof (cases pc)
    case RC_Head
    with assms Some sint_Suc [of "co_currentReconnectAttempt c" "cf_maxReconnectAttempts (co_config c)"] show ?thesis
      by (auto simp: DecoderController_reconnectLoop_def reconnect_head_def go_on_def attempts_inv_def before_exit_def split: if_splits)
  qed (use assms Some same in \<open>auto simp: DecoderController_reconnectLoop_def ret_obind go_on_def [symmetric] same_reconnect_def
        split: if_splits dest!: attempt_same_reconnect\<close>,
       auto simp: attempts_inv_def before_exit_def go_on_def DecoderController_cleanupReconnectState_def)
qed (use assms in \<open>simp add: DecoderController_reconnectLoop_def\<close>)

interpretation attempts: inductive_invariant
  "\<lambda>(k, c). k = 0 \<and> co_currentReconnectAttempt c = 0 \<and> sint (cf_maxReconnectAttempts (co_config c)) = int (Suc m)"
  "reconnect_step api" "attempts_inv (int (Suc m))" for api m
proof (unfold_locales, goal_cases)
  case (1 s)
  then show ?case by (auto simp: attempts_inv_def)
next
  case (2 s l s')
  then show ?case
    by (cases s) (auto elim!: reconnect_stepE intro: turn_attempts, auto simp: attempts_inv_def)
qed


subsection \<open>An unreachable stream\<close>

text \<open>The turns of the thread when no other thread interferes.\<close>

fun reconnect_run :: "frame_api \<Rightarrow> ctl_calls list \<Rightarrow> DecoderController \<Rightarrow> unit outcome \<times> DecoderController" where
  "reconnect_run api [] c = (Ret (), c)"
| "reconnect_run api (cl # cls) c = obind (DecoderController_reconnectLoop api cl c) (\<lambda>_. reconnect_run api cls)"

lemma reconnect_run_append: "reconnect_run api (xs @ ys) c = obind (reconnect_run api xs c) (\<lambda>_. reconnect_run api ys)"
proof (induction xs arbitrary: c)
  case (Cons cl xs)
  show ?case by (cases "DecoderController_reconnectLoop api cl c"; cases "fst (DecoderController_reconnectLoop api cl c)") (auto simp: Cons.IH)
qed simp

definition unreachable :: "ctl_calls \<Rightarrow> bool" where
  "unreachable cl \<longleftrightarrow> (\<forall>url options. fst (oc_open_input (cl_open cl) url options) \<noteq> 0)"

text \<open>The stream is closed, and so are the decoders.\<close>

definition down :: "DecoderController \<Rightarrow> bool" where
  "down c \<longleftrightarrow> \<not> dm_isOpened (co_demuxer c) \<and> \<not> dm_isStarted (co_demuxer c) \<and> \<not> Demuxer_isRecording (co_demuxer c)
     \<and> pred_option (\<lambda>b. \<not> db_isStarted b \<and> \<not> db_isOpened b) (co_videoDecoder c)
     \<and> pred_option (\<lambda>b. \<not> db_isStarted b \<and> \<not> db_isOpened b) (co_audioDecoder c) \<and> \<not> co_shouldStopReconnect c"

definition waiting_head :: "u32 \<Rightarrow> u32 \<Rightarrow> u32 \<Rightarrow> DecoderController \<Rightarrow> bool" where
  "waiting_head m i a c \<longleftrightarrow> down c \<and> co_reconnectThread c = Some RC_Head \<and> co_currentReconnectAttempt c = a
     \<and> cf_maxReconnectAttempts (co_config c) = m \<and> cf_reconnectIntervalMs (co_config c) = i"

text \<open>The results of the calls in a failing round: the open, and the time at the end of the wait.\<close>

definition failing :: "u32 \<Rightarrow> ctl_calls \<times> ctl_calls \<Rightarrow> bool" where
  "failing i = (\<lambda>(a, w). unreachable a \<and> sint i \<le> (cl_clock w 0 - cl_clock a 5) div 1000000)"

definition round_calls :: "ctl_calls \<times> ctl_calls \<Rightarrow> ctl_calls list" where
  "round_calls = (\<lambda>(a, w). [a, a, a, w])"

lemma down_closes:
  assumes "down c"
  shows "\<exists>c1. attempt_close c = (Ret True, c1) \<and> down c1 \<and> co_config c1 = co_config c
    \<and> co_currentReconnectAttempt c1 = co_currentReconnectAttempt c"
  using assms
  by (cases "co_videoDecoder c"; cases "co_audioDecoder c")
    (auto simp: down_def attempt_close_def DecoderController_stopDecodeInternal_def video_call_def audio_call_def demuxer_call_def
      DecoderBase_stopInternal_def DecoderBase_closeInternal_def Demuxer_close_def Demuxer_closeInternal_def Demuxer_stop_def)

lemma down_reopens:
  assumes "down c" "unreachable cl"
  shows "\<exists>c1. attempt_reopen api cl c = (Ret False, c1) \<and> down c1 \<and> co_config c1 = co_config c
    \<and> co_currentReconnectAttempt c1 = co_currentReconnectAttempt c"
proof -
  have "fst (oc_open_input (cl_open cl) url options) \<noteq> 0" for url options using assms(2) by (simp add: unreachable_def)
  with assms(1) show ?thesis
    by (auto simp: down_def attempt_reopen_def demuxer_call_def Demuxer_open_def Demuxer_openInternal_def open_stream_def Let_def
        case_prod_beta Demuxer_isRecording_def)
qed

lemma down_go_on [simp]: "down (go_on pc c) = down c" "co_config (go_on pc c) = co_config c"
  "co_currentReconnectAttempt (go_on pc c) = co_currentReconnectAttempt c" "co_reconnectThread (go_on pc c) = Some pc"
  "co_shouldStopReconnect (go_on pc c) = co_shouldStopReconnect c" "down (c\<lparr>co_currentReconnectAttempt := a\<rparr>) = down c"
  by (simp_all add: down_def go_on_def)

lemma failing_round:
  assumes "waiting_head m i a c" "failing i r" "sint m \<le> 0 \<or> sint a < sint m"
  shows "\<exists>c'. reconnect_run api (round_calls r) c = (Ret (), c') \<and> waiting_head m i (a + 1) c'"
proof -
  obtain cl w where r: "r = (cl, w)" by fastforce
  let ?c = "go_on RC_Close (c\<lparr>co_currentReconnectAttempt := a + 1\<rparr>)"
  have u: "unreachable cl" "sint i \<le> (cl_clock w 0 - cl_clock cl 5) div 1000000" using assms(2) by (simp_all add: failing_def r)
  have s: "down c" "\<not> co_shouldStopReconnect c" using assms(1) by (simp_all add: waiting_head_def down_def)
  have h: "DecoderController_reconnectLoop api cl c = (Ret (), ?c)" "down ?c"
    using assms(1,3) s by (auto simp: waiting_head_def DecoderController_reconnectLoop_def reconnect_head_def)
  obtain c1 where c1: "attempt_close ?c = (Ret True, c1)" "down c1" "co_config c1 = co_config c" "co_currentReconnectAttempt c1 = a + 1"
    using down_closes [OF h(2)] by auto
  obtain c2 where c2: "attempt_reopen api cl (go_on RC_Reopen c1) = (Ret False, c2)" "down c2" "co_config c2 = co_config c"
    "co_currentReconnectAttempt c2 = a + 1"
    using down_reopens [of "go_on RC_Reopen c1" cl api] c1 u(1) by auto
  have "reconnect_run api (round_calls r) c = (Ret (), go_on RC_Head (go_on (RC_Interval (cl_clock cl 5)) c2))"
    using assms(1) c2 u(2) by (simp add: round_calls_def r h(1)) (simp add: DecoderController_reconnectLoop_def c1 c2 waiting_head_def)
  then show ?thesis using assms(1) c2 by (simp add: waiting_head_def)
qed

lemma failing_rounds:
  assumes "waiting_head m i a c" "list_all (failing i) rs" "sint m \<le> 0 \<or> sint a + int (length rs) \<le> sint m"
  shows "\<exists>c'. reconnect_run api (concat (map round_calls rs)) c = (Ret (), c') \<and> waiting_head m i (a + of_nat (length rs)) c'"
  using assms
proof (induction rs arbitrary: a c)
  case (Cons r rs)
  have g: "sint m \<le> 0 \<or> sint a < sint m" using Cons.prems(3) by auto
  obtain c1 where c1: "reconnect_run api (round_calls r) c = (Ret (), c1)" "waiting_head m i (a + 1) c1"
    using failing_round [OF Cons.prems(1) _ g, of r api] Cons.prems(2) by fastforce
  have "sint m \<le> 0 \<or> sint (a + 1) + int (length rs) \<le> sint m" using Cons.prems(3) g sint_Suc [of a m] by auto
  then obtain c' where "reconnect_run api (concat (map round_calls rs)) c1 = (Ret (), c')"
    "waiting_head m i (a + 1 + of_nat (length rs)) c'"
    using Cons.IH [OF c1(2)] Cons.prems(2) by auto
  with c1 show ?case by (auto simp: reconnect_run_append add.assoc)
qed auto


text \<open>
  with \<open>maxReconnectAttempts\<close> zero or negative the thread never gives up: after any number of failed
  attempts it is at the head of the loop again.  The comment in \<open>Config\<close> names only -1 as unlimited.
\<close>

theorem DecoderController_reconnect_unlimited:
  assumes "down c" "co_reconnectThread c = Some RC_Head" "co_currentReconnectAttempt c = 0"
    and "list_all (failing (cf_reconnectIntervalMs (co_config c))) rs"
    and "sint (cf_maxReconnectAttempts (co_config c)) \<le> 0"
  shows "\<exists>c'. reconnect_run api (concat (map round_calls rs)) c = (Ret (), c')
    \<and> co_reconnectThread c' = Some RC_Head \<and> co_currentReconnectAttempt c' = of_nat (length rs)"
proof -
  have w: "waiting_head (cf_maxReconnectAttempts (co_config c)) (cf_reconnectIntervalMs (co_config c)) 0 c"
    using assms(1-3) by (simp add: waiting_head_def)
  show ?thesis using failing_rounds [OF w assms(4)] assms(5) by (force simp: waiting_head_def)
qed


subsection \<open>A source that can be opened again\<close>

definition openable :: "open_calls \<Rightarrow> bool" where
  "openable oc \<longleftrightarrow> 0 \<le> oc_find_stream_info oc
     \<and> (\<forall>url options. case oc_open_input oc url options of (ret, fc) \<Rightarrow> ret = 0 \<and> (fc_seekable fc \<longrightarrow> 0 \<le> oc_avio_seek oc))"

lemma openable_opens:
  assumes "openable oc" "\<not> dm_isOpened d"
  shows "\<exists>es fc. Demuxer_open oc url config cb d = (Ret True, es, opened_state oc fc url config cb d)"
proof -
  obtain ret fc where o: "oc_open_input oc url (open_options (isRealtime url) (cfg_rtspTransport config)) = (ret, fc)" by fastforce
  have "ret = 0 \<and> (fc_seekable fc \<longrightarrow> 0 \<le> oc_avio_seek oc)" using assms(1) o by (simp add: openable_def split: prod.splits)
  with o assms show ?thesis by (auto simp: Demuxer_open_def Demuxer_openInternal_def open_stream_def openable_def Let_def)
qed


definition lost_ctl_calls :: "int \<Rightarrow> ctl_calls" where
  "lost_ctl_calls now = \<lparr>cl_clock = (\<lambda>_. now), cl_open = sample_open\<lparr>oc_open_input := (\<lambda>url options. (-5, \<lparr>fc_seekable = False, fc_duration = 0, fc_streams = []\<rparr>))\<rparr>,
     cl_hw = sample_hw, cl_video_codec = sample_calls, cl_audio_codec = sample_calls\<rparr>"

definition lost_controller :: "u32 \<Rightarrow> DecoderController" where
  "lost_controller m = (DecoderController_new 0 (lost_ctl_calls 0))\<lparr>co_config := default_config\<lparr>cf_maxReconnectAttempts := m\<rparr>,
     co_isReconnecting := True, co_reconnectThread := Some RC_Head\<rparr>"

lemma lost_sel:
  "co_config (lost_controller m) = default_config\<lparr>cf_maxReconnectAttempts := m\<rparr>" "co_reconnectThread (lost_controller m) = Some RC_Head"
  "co_currentReconnectAttempt (lost_controller m) = 0" "\<not> co_shouldStopReconnect (lost_controller m)" "down (lost_controller m)"
  "failing (cf_reconnectIntervalMs default_config) (lost_ctl_calls 0, lost_ctl_calls 3000000000)"
  by (simp_all add: lost_controller_def DecoderController_new_def down_def Demuxer_new_def Demuxer_isRecording_def Recorder_isRecording_def
      Recorder_new_def failing_def unreachable_def lost_ctl_calls_def default_config_def)



theorem DecoderController_reconnect_unlimited_witness:
  "\<exists>c'. reconnect_run sample_frame_api (concat (map round_calls (replicate 20 (lost_ctl_calls 0, lost_ctl_calls 3000000000)))) (lost_controller 0) = (Ret (), c')
     \<and> co_reconnectThread c' = Some RC_Head \<and> co_currentReconnectAttempt c' = 20"
  using DecoderController_reconnect_unlimited [of "lost_controller 0" "replicate 20 (lost_ctl_calls 0, lost_ctl_calls 3000000000)" sample_frame_api]
  by (simp add: lost_sel list_all_length)


end
