(* ===== verification/AsyncOpens.thy ===== *)
theory AsyncOpens
  imports ControllerProperties
begin

text \<open>
  The task of an asynchronous open among the other threads: its result and the call of its callback.
\<close>

subsection \<open>The asynchronous open\<close>

fun is_async_call :: "ctl_event \<Rightarrow> bool" where
  "is_async_call (AsyncOpenCalled r succ m) \<longleftrightarrow> True"
| "is_async_call _ \<longleftrightarrow> False"

definition async_calls :: "DecoderController \<Rightarrow> ctl_event list" where
  "async_calls c = filter is_async_call (co_events c)"

text \<open>What the other threads leave alone while the task runs.\<close>

definition same_async :: "DecoderController \<Rightarrow> DecoderController \<Rightarrow> bool" where
  "same_async c c' \<longleftrightarrow> co_asyncOpenCallback c' = co_asyncOpenCallback c \<and> co_asyncOpenFuture c' = co_asyncOpenFuture c
     \<and> co_asyncOpenInProgress c' = co_asyncOpenInProgress c \<and> async_calls c' = async_calls c"

text \<open>The task, a request to cancel it, and the other threads.\<close>

inductive async_step :: "DecoderController \<Rightarrow> unit \<Rightarrow> DecoderController \<Rightarrow> bool" where
  task: "async_open_task cl c = (Ret (), c') \<Longrightarrow> async_step c () c'"
| cancel: "DecoderController_cancelAsyncOpen False c = (Wait, c') \<Longrightarrow> async_step c () c'"
| other: "same_async c c' \<Longrightarrow> async_step c () c'"

lemma same_async_trans: "same_async c c1 \<Longrightarrow> same_async c1 c2 \<Longrightarrow> same_async c c2"
  by (simp add: same_async_def)

lemma calls_same_async:
  "video_call f x c = (r, c') \<Longrightarrow> same_async c c'" "audio_call g y c = (s, c') \<Longrightarrow> same_async c c'"
  "demuxer_call h c = (u, c') \<Longrightarrow> same_async c c'"
  by (auto simp: same_async_def async_calls_def video_call_def audio_call_def demuxer_call_def filter_empty_conv
      split: option.splits prod.splits)

lemma create_same_async: "create_video cl c = (Ret u, c') \<Longrightarrow> same_async c c'" "create_audio cl c = (Ret u, c') \<Longrightarrow> same_async c c'"
  unfolding create_video_def create_audio_def ret_obind
  by (auto dest!: calls_same_async simp: same_async_def async_calls_def)

lemma open_same_async:
  assumes "DecoderController_openInternal cl url config c = (Ret r, c')"
  shows "same_async c c'"
proof -
  let ?c = "c\<lparr>co_originalUrl := url, co_preBufferState := PB_kDisabled, co_config := config\<rparr>"
  obtain succ c1 where o: "demuxer_call (Demuxer_open (cl_open cl) url (cf_demux config) True) ?c = (Ret succ, c1)"
    and k: "(if \<not> succ then (Ret False, c1)
       else obind (if wants_video c1 then create_video cl c1 else (Ret (), c1)) (\<lambda>_ c2.
            obind (if wants_audio c2 then create_audio cl c2 else (Ret (), c2)) (\<lambda>_ c3. (Ret True, c3)))) = (Ret r, c')"
    using assms unfolding DecoderController_openInternal_def ret_obind by blast
  have "same_async ?c c1" using calls_same_async(3) [OF o] .
  then have s: "same_async c c1" by (simp add: same_async_def async_calls_def)
  have v: "same_async c1 c2" if "(if wants_video c1 then create_video cl c1 else (Ret (), c1)) = (Ret u, c2)" for c2 u
    using that by (auto split: if_splits dest: create_same_async) (simp add: same_async_def)
  have a: "same_async c2 c3" if "(if wants_audio c2 then create_audio cl c2 else (Ret (), c2)) = (Ret u, c3)" for c2 c3 u
    using that by (auto split: if_splits dest: create_same_async) (simp add: same_async_def)
  show ?thesis
  proof (cases succ)
    case True
    then obtain u c2 w where "(if wants_video c1 then create_video cl c1 else (Ret (), c1)) = (Ret u, c2)"
      "(if wants_audio c2 then create_audio cl c2 else (Ret (), c2)) = (Ret w, c')"
      using k by (auto simp: ret_obind)
    from v [OF this(1)] a [OF this(2)] s show ?thesis by (blast intro: same_async_trans)
  qed (use k s in simp)
qed

definition async_state :: "ctl_event list \<Rightarrow> DecoderController \<Rightarrow> bool" where
  "async_state es c \<longleftrightarrow>
     (case co_asyncOpenFuture c of
        None \<Rightarrow> False
      | Some AT_Done \<Rightarrow> \<not> co_asyncOpenInProgress c
          \<and> (\<exists>r succ m. async_calls c = es @ [AsyncOpenCalled r succ m] \<and> (succ \<longleftrightarrow> r = AO_kSuccess))
      | Some (AT_Callback r succ m) \<Rightarrow> co_asyncOpenCallback c \<and> async_calls c = es \<and> (succ \<longleftrightarrow> r = AO_kSuccess)
      | _ \<Rightarrow> co_asyncOpenCallback c \<and> async_calls c = es)"

lemma async_state_same: "async_state es c \<Longrightarrow> same_async c c' \<Longrightarrow> async_state es c'"
  by (auto simp: async_state_def same_async_def split: option.splits async_task.splits)

lemma task_inv:
  assumes "async_state es c" "async_open_task cl c = (Ret (), c')"
  shows "async_state es c'"
proof (cases "co_asyncOpenFuture c")
  case (Some p)
  have to: "co_asyncOpenCallback (async_to q d) = co_asyncOpenCallback d" "async_calls (async_to q d) = async_calls d"
    "co_asyncOpenFuture (async_to q d) = Some q" for q d by (simp_all add: async_to_def async_calls_def)
  show ?thesis
  proof (cases p)
    case (AT_Start url config)
    show ?thesis
    proof (cases "co_shouldCancelAsyncOpen c")
      case True
      with assms Some AT_Start show ?thesis by (auto simp: async_open_task_def async_state_def to)
    next
      case False
      then obtain r c1 where "DecoderController_openInternal cl url config c = (Ret r, c1)" "c' = async_to (AT_Opened r) c1"
        using assms(2) Some AT_Start by (auto simp: async_open_task_def DecoderController_openAsyncInternal_def ret_obind)
      with open_same_async [OF this(1)] assms(1) Some AT_Start show ?thesis by (simp add: async_state_def same_async_def to)
    qed
  next
    case (AT_Opened succ)
    show ?thesis
    proof (cases "co_shouldCancelAsyncOpen c \<and> succ")
      case True
      then obtain r c1 where "demuxer_call Demuxer_close c = (Ret r, c1)" "c' = async_to (AT_Callback AO_kCancelled False ''Operation was canceled during execution'') c1"
        using assms(2) Some AT_Opened by (auto simp: async_open_task_def ret_obind)
      with calls_same_async(3) [OF this(1)] assms(1) Some AT_Opened show ?thesis by (simp add: async_state_def same_async_def to)
    next
      case False
      with assms Some AT_Opened show ?thesis by (auto simp: async_open_task_def async_state_def to split: if_splits)
    qed
  next
    case (AT_Callback r succ m)
    with assms Some show ?thesis
      by (auto simp: async_open_task_def async_state_def to Let_def) (auto simp: async_to_def async_calls_def)
  qed (use assms Some in \<open>simp add: async_open_task_def\<close>)
qed (use assms in \<open>simp add: async_state_def\<close>)

interpretation async: inductive_invariant "async_state es" async_step "async_state es" for es
proof (unfold_locales, goal_cases)
  case (2 s l s')
  have "same_async c (c\<lparr>co_shouldCancelAsyncOpen := True\<rparr>)" for c by (simp add: same_async_def async_calls_def)
  then have "async_state es c \<Longrightarrow> async_state es (c\<lparr>co_shouldCancelAsyncOpen := True\<rparr>)" for c by (blast intro: async_state_same)
  with 2 show ?case
    by (auto elim!: async_step.cases simp: DecoderController_cancelAsyncOpen_def split: if_splits intro: task_inv async_state_same)
qed



end
