(* ===== verification/PauseHandshakes.thy ===== *)
theory PauseHandshakes
  imports Transition_Systems
begin

text \<open>
  The handshake by which a worker thread is paused, resumed and stopped, at the granularity of
  single loads, stores and notifications.  Three classes have it: the demuxer
  (\<open>src/src/demuxer/demuxer.cpp\<close>, \<open>handleFileStreamPause\<close>, \<open>stop\<close>, \<open>resumeInternal\<close>), and
  the two decoders (\<open>src/src/decoder/decoder_base.cpp\<close>, \<open>stopInternal\<close>, \<open>pauseInternal\<close>,
  \<open>resumeInternal\<close>, with the waits in the loops of \<open>audio_decoder.cpp\<close> and
  \<open>video_decoder.cpp\<close>).

  The thread waits on a condition variable under \<open>pauseMutex_\<close>; the callers store to the
  atomic flags and notify without that mutex, so a store or a notification may fall between
  the evaluation of the wait predicate (\<open>H_Pred\<close>) and the moment the thread blocks
  (\<open>H_Blocked\<close>); a notification that finds no blocked thread has no effect.  The wait of the
  video decoder is timed, the two others are not.  Spurious wake-ups, which the library may
  but need not make, are left out.
\<close>

datatype worker_pc =
    H_Head        \<comment> \<open>the test of \<open>requestInterruption_\<close> at the head of the loop\<close>
  | H_Test        \<comment> \<open>the test of \<open>isPaused_\<close>\<close>
  | H_Pred        \<comment> \<open>the wait predicate\<close>
  | H_WillBlock   \<comment> \<open>the predicate was false, the thread is about to block\<close>
  | H_Blocked
  | H_Woken
  | H_After       \<comment> \<open>the test of \<open>requestInterruption_\<close> after the wait\<close>
  | H_Running
  | H_Ended

datatype caller_act = SetPaused bool | SetInterrupt | NotifyAll | Join

record handshake =
  hs_pc :: worker_pc
  hs_isPaused :: bool
  hs_requestInterruption :: bool
  hs_caller :: "caller_act list"

text \<open>A worker: whether its wait is timed, and where it goes on after the wait.\<close>

record worker =
  wk_timed :: bool
  wk_after :: worker_pc

definition demuxer_worker :: worker where
  "demuxer_worker = \<lparr>wk_timed = False, wk_after = H_Running\<rparr>"

definition audio_worker :: worker where
  "audio_worker = \<lparr>wk_timed = False, wk_after = H_Head\<rparr>"

definition video_worker :: worker where
  "video_worker = \<lparr>wk_timed = True, wk_after = H_Head\<rparr>"

text \<open>What the callers do to the flags, in the order of the code.\<close>

definition Demuxer_stop_acts :: "caller_act list" where
  "Demuxer_stop_acts = [NotifyAll, SetInterrupt, Join]"

definition DecoderBase_stop_acts :: "caller_act list" where
  "DecoderBase_stop_acts = [SetPaused False, SetInterrupt, NotifyAll, Join]"

definition resume_acts :: "caller_act list" where
  "resume_acts = [SetPaused False, NotifyAll]"

fun worker_step :: "worker \<Rightarrow> handshake \<Rightarrow> worker_pc \<Rightarrow> worker_pc list" where
  "worker_step w s H_Head = [if hs_requestInterruption s then H_Ended else H_Test]"
| "worker_step w s H_Test = [if hs_isPaused s then H_Pred else H_Running]"
| "worker_step w s H_Pred = [if \<not> hs_isPaused s \<or> hs_requestInterruption s then H_After else H_WillBlock]"
| "worker_step w s H_WillBlock = [H_Blocked]"
| "worker_step w s H_Blocked = (if wk_timed w then [H_After] else [])"
| "worker_step w s H_Woken = [H_Pred]"
| "worker_step w s H_After = [if hs_requestInterruption s then H_Ended else wk_after w]"
| "worker_step w s H_Running = [H_Head]"
| "worker_step w s H_Ended = []"

fun caller_step :: "handshake \<Rightarrow> handshake option" where
  "caller_step s =
     (case hs_caller s of
        [] \<Rightarrow> None
      | SetPaused b # r \<Rightarrow> Some (s\<lparr>hs_isPaused := b, hs_caller := r\<rparr>)
      | SetInterrupt # r \<Rightarrow> Some (s\<lparr>hs_requestInterruption := True, hs_caller := r\<rparr>)
      | NotifyAll # r \<Rightarrow> Some (s\<lparr>hs_pc := (if hs_pc s = H_Blocked then H_Woken else hs_pc s), hs_caller := r\<rparr>)
      | Join # r \<Rightarrow> if hs_pc s = H_Ended then Some (s\<lparr>hs_caller := r\<rparr>) else None)"

declare caller_step.simps [simp del]

datatype hs_label = Worker | Caller

inductive hs_step :: "worker \<Rightarrow> handshake \<Rightarrow> hs_label \<Rightarrow> handshake \<Rightarrow> bool" for w where
  worker: "pc \<in> set (worker_step w s (hs_pc s)) \<Longrightarrow> hs_step w s Worker (s\<lparr>hs_pc := pc\<rparr>)"
| caller: "caller_step s = Some s' \<Longrightarrow> hs_step w s Caller s'"

code_pred hs_step .

inductive_cases hs_stepE: "hs_step w s l s'"

text \<open>A given order of steps.\<close>

fun hs_run :: "worker \<Rightarrow> hs_label list \<Rightarrow> handshake \<Rightarrow> handshake option" where
  "hs_run w [] s = Some s"
| "hs_run w (Worker # ls) s =
     (case worker_step w s (hs_pc s) of [] \<Rightarrow> None | pc # _ \<Rightarrow> hs_run w ls (s\<lparr>hs_pc := pc\<rparr>))"
| "hs_run w (Caller # ls) s = (case caller_step s of None \<Rightarrow> None | Some s' \<Rightarrow> hs_run w ls s')"

lemma hs_run_exec: "hs_run w ls s = Some t \<Longrightarrow> exec (hs_step w) s ls t"
proof (induction w ls s rule: hs_run.induct)
  case (2 w ls s)
  then show ?case by (force split: list.splits intro: exec.intros hs_step.worker)
qed (auto split: option.splits intro: exec.intros hs_step.caller)

subsection \<open>Stopping ends the thread\<close>

text \<open>Once the interruption is requested, each step of either side makes progress.\<close>

fun pc_rank :: "worker_pc \<Rightarrow> nat" where
  "pc_rank H_WillBlock = 5"
| "pc_rank H_Blocked = 4"
| "pc_rank H_Woken = 3"
| "pc_rank H_Test = 4"
| "pc_rank H_Running = 2"
| "pc_rank H_Pred = 2"
| "pc_rank H_Head = 1"
| "pc_rank H_After = 1"
| "pc_rank H_Ended = 0"

definition hs_rank :: "handshake \<Rightarrow> nat" where
  "hs_rank s = pc_rank (hs_pc s) + length (hs_caller s)"

lemma caller_interrupt:
  "caller_step s = Some s' \<Longrightarrow> hs_requestInterruption s \<Longrightarrow> hs_requestInterruption s'"
  by (auto simp: caller_step.simps split: list.splits caller_act.splits if_splits)

lemma interrupted_progress:
  assumes "hs_step w s l s'" "hs_requestInterruption s"
  shows "hs_rank s' < hs_rank s \<and> hs_requestInterruption s'"
  using assms
proof cases
  case (worker pc)
  then show ?thesis using assms(2)
    by (cases "hs_pc s") (auto simp: hs_rank_def split: if_splits)
next
  case caller
  then show ?thesis using assms(2)
    by (auto simp: hs_rank_def caller_step.simps split: list.splits caller_act.splits if_splits)
qed

interpretation interrupted: inductive_invariant hs_requestInterruption "hs_step w" hs_requestInterruption for w
  by unfold_locales (auto dest: interrupted_progress)

lemma interrupted_bound:
  "exec (hs_step w) s ls s' \<Longrightarrow> hs_requestInterruption s \<Longrightarrow> length ls + hs_rank s' \<le> hs_rank s"
proof (induction rule: exec.induct)
  case (exec_step s l s' ls s'')
  then show ?case using interrupted_progress [OF exec_step.hyps(1)] by simp
qed simp

lemma stuck_cases:
  assumes "stuck (hs_step w) s"
  shows "(hs_pc s = H_Ended \<or> hs_pc s = H_Blocked \<and> \<not> wk_timed w)
     \<and> (hs_caller s = [] \<or> (\<exists>r. hs_caller s = Join # r) \<and> hs_pc s \<noteq> H_Ended)"
proof -
  have "worker_step w s (hs_pc s) = []"
    using assms hs_step.worker [of _ w s] unfolding stuck_def
    by (metis list.set_intros(1) list.exhaust)
  moreover have "caller_step s = None"
    using assms hs_step.caller [of s _ w] unfolding stuck_def by (metis option.exhaust)
  ultimately show ?thesis
    by (cases "hs_pc s") (auto simp: caller_step.simps split: if_splits list.splits caller_act.splits)
qed

subsection \<open>No wake-up is lost when the thread already waits\<close>

text \<open>
  While a decoder is stopped: the calls still to be made are the end of the list, and the thread
  is either not at a wait any more and will not come to one, or blocked with the notification
  still to come.
\<close>

definition stop_inv :: "handshake \<Rightarrow> bool" where
  "stop_inv s \<longleftrightarrow>
     hs_caller s \<in> {DecoderBase_stop_acts, [SetInterrupt, NotifyAll, Join], [NotifyAll, Join], [Join], []}
     \<and> (hs_caller s \<noteq> DecoderBase_stop_acts \<longrightarrow> \<not> hs_isPaused s)
     \<and> (hs_caller s \<in> {[NotifyAll, Join], [Join], []} \<longrightarrow> hs_requestInterruption s)
     \<and> (\<not> hs_isPaused s \<and> hs_pc s \<notin> {H_WillBlock, H_Blocked}
        \<or> hs_pc s = H_Blocked \<and> NotifyAll \<in> set (hs_caller s))"

lemma stop_inv_step:
  assumes "stop_inv s" "hs_step w s l s'" "\<not> wk_timed w" "wk_after w \<notin> {H_WillBlock, H_Blocked}"
  shows "stop_inv s'"
  using assms(2)
proof cases
  case (worker pc)
  then show ?thesis using assms(1,3,4)
    by (cases "hs_pc s") (auto simp: stop_inv_def split: if_splits)
next
  case caller
  from assms(1) consider "hs_caller s = DecoderBase_stop_acts" | "hs_caller s = [SetInterrupt, NotifyAll, Join]"
    | "hs_caller s = [NotifyAll, Join]" | "hs_caller s = [Join]" | "hs_caller s = []"
    by (auto simp: stop_inv_def)
  then show ?thesis
  proof cases
    case 1
    then have "s' = s\<lparr>hs_isPaused := False, hs_caller := [SetInterrupt, NotifyAll, Join]\<rparr>"
      using caller by (simp add: caller_step.simps DecoderBase_stop_acts_def)
    with assms(1) 1 show ?thesis by (auto simp: stop_inv_def DecoderBase_stop_acts_def)
  next
    case 2
    then have "s' = s\<lparr>hs_requestInterruption := True, hs_caller := [NotifyAll, Join]\<rparr>"
      using caller by (simp add: caller_step.simps)
    with assms(1) 2 show ?thesis by (auto simp: stop_inv_def DecoderBase_stop_acts_def)
  next
    case 3
    then have "s' = s\<lparr>hs_pc := (if hs_pc s = H_Blocked then H_Woken else hs_pc s), hs_caller := [Join]\<rparr>"
      using caller by (simp add: caller_step.simps)
    with assms(1) 3 show ?thesis by (auto simp: stop_inv_def DecoderBase_stop_acts_def)
  next
    case 4
    then have "s' = s\<lparr>hs_caller := []\<rparr>"
      using caller by (simp add: caller_step.simps split: if_splits)
    with assms(1) 4 show ?thesis by (auto simp: stop_inv_def DecoderBase_stop_acts_def)
  next
    case 5
    then show ?thesis using caller by (simp add: caller_step.simps)
  qed
qed

interpretation stopping: inductive_invariant stop_inv "hs_step audio_worker" stop_inv
  by unfold_locales (auto intro: stop_inv_step [of _ audio_worker] simp: audio_worker_def)

subsection \<open>Properties\<close>



text \<open>
  stopping the audio decoder.  Its wait has no timeout.  When the thread is already blocked in
  the wait as the stop begins, or the decoder is not paused, the stop cannot get stuck: where an
  execution ends, the thread has ended and the stop has returned.  But a thread that has just
  found itself paused misses the notification, and the stop waits for it for ever.
\<close>

theorem AudioDecoder_stop_lost_wakeup:
  "(hs_caller s = DecoderBase_stop_acts \<and> (hs_pc s = H_Blocked \<or> \<not> hs_isPaused s \<and> hs_pc s \<noteq> H_WillBlock)
      \<and> exec (hs_step audio_worker) s ls s' \<and> stuck (hs_step audio_worker) s'
      \<longrightarrow> hs_pc s' = H_Ended \<and> hs_caller s' = [])
   \<and> (\<exists>ls t. exec (hs_step audio_worker)
         \<lparr>hs_pc = H_Head, hs_isPaused = True, hs_requestInterruption = False, hs_caller = DecoderBase_stop_acts\<rparr> ls t
       \<and> stuck (hs_step audio_worker) t \<and> hs_pc t = H_Blocked \<and> hs_caller t = [Join])"
proof (intro conjI impI)
  assume a: "hs_caller s = DecoderBase_stop_acts \<and> (hs_pc s = H_Blocked \<or> \<not> hs_isPaused s \<and> hs_pc s \<noteq> H_WillBlock)
      \<and> exec (hs_step audio_worker) s ls s' \<and> stuck (hs_step audio_worker) s'"
  then have "stop_inv s" by (auto simp: stop_inv_def DecoderBase_stop_acts_def)
  with a have i: "stop_inv s'" using stopping.exec_keeps by blast
  have "stuck (hs_step audio_worker) s'" using a by blast
  from stuck_cases [OF this] i show "hs_pc s' = H_Ended" "hs_caller s' = []"
    by (auto simp: stop_inv_def DecoderBase_stop_acts_def)
next
  let ?st = "\<lambda>pc p i c. \<lparr>hs_pc = pc, hs_isPaused = p, hs_requestInterruption = i, hs_caller = c\<rparr>"
  let ?t = "?st H_Blocked False True [Join]"
  have "exec (hs_step audio_worker) (?st H_Head True False DecoderBase_stop_acts)
      [Worker, Worker, Worker, Caller, Caller, Caller, Worker] ?t"
    by (rule hs_run_exec) (simp add: caller_step.simps DecoderBase_stop_acts_def)
  moreover have "stuck (hs_step audio_worker) ?t"
    unfolding stuck_def by (auto elim!: hs_stepE simp: caller_step.simps audio_worker_def)
  ultimately show "\<exists>ls t. exec (hs_step audio_worker) (?st H_Head True False DecoderBase_stop_acts) ls t
       \<and> stuck (hs_step audio_worker) t \<and> hs_pc t = H_Blocked \<and> hs_caller t = [Join]"
    by (intro exI [of _ "[Worker, Worker, Worker, Caller, Caller, Caller, Worker]"] exI [of _ ?t]) simp
qed

theorem AudioDecoder_stop_lost_wakeup_witness:
  "\<exists>ls t. exec (hs_step audio_worker)
       \<lparr>hs_pc = H_Blocked, hs_isPaused = True, hs_requestInterruption = False, hs_caller = DecoderBase_stop_acts\<rparr> ls t
     \<and> stuck (hs_step audio_worker) t \<and> hs_pc t = H_Ended \<and> hs_caller t = []"
proof -
  let ?s = "\<lparr>hs_pc = H_Blocked, hs_isPaused = True, hs_requestInterruption = False, hs_caller = DecoderBase_stop_acts\<rparr>"
  let ?ls = "[Caller, Caller, Caller, Worker, Worker, Worker, Caller]"
  obtain t where r: "hs_run audio_worker ?ls ?s = Some t" "hs_pc t = H_Ended" "hs_caller t = []"
    by (simp add: caller_step.simps DecoderBase_stop_acts_def)
  then have e: "exec (hs_step audio_worker) ?s ?ls t" by (blast intro: hs_run_exec)
  have st: "stuck (hs_step audio_worker) t"
    using r(2,3) unfolding stuck_def by (auto elim!: hs_stepE simp: caller_step.simps)
  from AudioDecoder_stop_lost_wakeup [of ?s ?ls t] e st show ?thesis by auto
qed

text \<open>
  C38: stopping a paused demuxer can hang.  The demuxer notifies before it sets the interruption flag:
  a thread that waits for the end of a pause wakes up, finds nothing changed, waits again, and the
  stop waits for the thread for ever.  A resume can be lost as well: the thread then stays blocked
  although the stream is not paused.
\<close>

theorem Demuxer_stop_can_hang:
  "(\<exists>ls t. exec (hs_step demuxer_worker)
       \<lparr>hs_pc = H_Blocked, hs_isPaused = True, hs_requestInterruption = False, hs_caller = Demuxer_stop_acts\<rparr> ls t
     \<and> stuck (hs_step demuxer_worker) t \<and> hs_pc t = H_Blocked \<and> hs_caller t = [Join])
   \<and> (\<exists>ls t. exec (hs_step demuxer_worker)
       \<lparr>hs_pc = H_Head, hs_isPaused = True, hs_requestInterruption = False, hs_caller = resume_acts\<rparr> ls t
     \<and> stuck (hs_step demuxer_worker) t \<and> hs_pc t = H_Blocked \<and> \<not> hs_isPaused t \<and> hs_caller t = [])"
proof
  have stuck: "stuck (hs_step demuxer_worker) t" if "hs_pc t = H_Blocked" "hs_caller t = [Join] \<or> hs_caller t = []" for t
    using that unfolding stuck_def by (auto elim!: hs_stepE simp: caller_step.simps demuxer_worker_def)
  let ?s = "\<lparr>hs_pc = H_Blocked, hs_isPaused = True, hs_requestInterruption = False, hs_caller = Demuxer_stop_acts\<rparr>"
  obtain t where r: "hs_run demuxer_worker [Caller, Worker, Worker, Worker, Caller] ?s = Some t"
    "hs_pc t = H_Blocked" "hs_caller t = [Join]"
    by (simp add: caller_step.simps Demuxer_stop_acts_def)
  with stuck hs_run_exec [OF r(1)] show "\<exists>ls t. exec (hs_step demuxer_worker) ?s ls t
     \<and> stuck (hs_step demuxer_worker) t \<and> hs_pc t = H_Blocked \<and> hs_caller t = [Join]" by blast
  let ?s = "\<lparr>hs_pc = H_Head, hs_isPaused = True, hs_requestInterruption = False, hs_caller = resume_acts\<rparr>"
  obtain t where r: "hs_run demuxer_worker [Worker, Worker, Worker, Caller, Caller, Worker] ?s = Some t"
    "hs_pc t = H_Blocked" "hs_caller t = []" "\<not> hs_isPaused t"
    by (simp add: caller_step.simps resume_acts_def)
  with stuck hs_run_exec [OF r(1)] show "\<exists>ls t. exec (hs_step demuxer_worker) ?s ls t
     \<and> stuck (hs_step demuxer_worker) t \<and> hs_pc t = H_Blocked \<and> \<not> hs_isPaused t \<and> hs_caller t = []" by blast
qed

end
