(* ===== verification/Loggers.thy ===== *)
theory Loggers
  imports Prelude "HOL-Library.Multiset"
begin

text \<open>
  The logger (\<open>src/src/logger/logger.h\<close>, \<open>logger.cpp\<close>, \<open>logger_sink.h\<close>): the sink that writes files, rotates
  them by time and size and removes old ones, and the manager that reads the configuration, creates the sinks and routes
  messages to them.

  The log directory is a list of files with sizes and modification times.  Files can always be opened and
  written, as \<open>spdlog::details::file_helper\<close> does (open appends or creates, write appends); whether a file can be removed
  is an argument.  A write to a file that has been removed changes nothing.  The local time, \<open>mktime\<close>, the system clock, the
  order in which \<open>std::sort\<close> puts files (equal times leave it open) and the contents of the configuration file as
  the JSON library reports them are arguments.  A message is handed to the sinks at once; the thread pool of the library keeps
  the order.
\<close>

subsection \<open>Levels\<close>

datatype level_enum = L_trace | L_debug | L_info | L_warn | L_err | L_critical | L_off

primrec level_code :: "level_enum \<Rightarrow> nat" where
  "level_code L_trace = 0"
| "level_code L_debug = 1"
| "level_code L_info = 2"
| "level_code L_warn = 3"
| "level_code L_err = 4"
| "level_code L_critical = 5"
| "level_code L_off = 6"

lemma level_code_inj: "level_code a = level_code b \<Longrightarrow> a = b"
  by (cases a; cases b) simp_all

instantiation level_enum :: linorder
begin

definition less_eq_level_enum :: "level_enum \<Rightarrow> level_enum \<Rightarrow> bool" where
  "less_eq_level_enum a b \<longleftrightarrow> level_code a \<le> level_code b"

definition less_level_enum :: "level_enum \<Rightarrow> level_enum \<Rightarrow> bool" where
  "less_level_enum a b \<longleftrightarrow> level_code a < level_code b"

instance
  by standard (auto simp: less_eq_level_enum_def less_level_enum_def intro: level_code_inj)

end

definition parseLevel :: "string \<Rightarrow> level_enum" where
  "parseLevel level =
     (if level = ''trace'' then L_trace
      else if level = ''debug'' then L_debug
      else if level = ''info'' then L_info
      else if level = ''warn'' \<or> level = ''warning'' then L_warn
      else if level = ''error'' then L_err
      else if level = ''fatal'' \<or> level = ''critical'' then L_critical
      else L_info)"

text \<open>FFmpeg's levels: panic, fatal, error, warning, info, verbose, debug, trace.\<close>

definition convertFFmpegLevel :: "int \<Rightarrow> level_enum" where
  "convertFFmpegLevel ffmpegLevel =
     (if ffmpegLevel = 0 \<or> ffmpegLevel = 8 then L_critical
      else if ffmpegLevel = 16 then L_err
      else if ffmpegLevel = 24 then L_warn
      else if ffmpegLevel = 32 then L_info
      else if ffmpegLevel = 40 \<or> ffmpegLevel = 48 then L_debug
      else if ffmpegLevel = 56 then L_trace
      else L_info)"

primrec convertSpdlogLevel :: "level_enum \<Rightarrow> int" where
  "convertSpdlogLevel L_critical = 8"
| "convertSpdlogLevel L_err = 16"
| "convertSpdlogLevel L_warn = 24"
| "convertSpdlogLevel L_info = 32"
| "convertSpdlogLevel L_debug = 48"
| "convertSpdlogLevel L_trace = 56"
| "convertSpdlogLevel L_off = 32"

subsection \<open>The file sink\<close>

record file_info =
  fi_name :: string
  fi_size :: nat
  fi_mtime :: int

type_synonym directory = "file_info list"

definition open_file :: "string \<Rightarrow> int \<Rightarrow> directory \<Rightarrow> directory" where
  "open_file name now dir =
     (if name \<in> set (map fi_name dir) then dir else dir @ [\<lparr>fi_name = name, fi_size = 0, fi_mtime = now\<rparr>])"

definition size_of :: "string \<Rightarrow> directory \<Rightarrow> nat" where
  "size_of name dir = (case find (\<lambda>f. fi_name f = name) dir of None \<Rightarrow> 0 | Some f \<Rightarrow> fi_size f)"

definition append_file :: "string \<Rightarrow> nat \<Rightarrow> int \<Rightarrow> directory \<Rightarrow> directory" where
  "append_file name n now dir =
     map (\<lambda>f. if fi_name f = name then f\<lparr>fi_size := fi_size f + n, fi_mtime := now\<rparr> else f) dir"

definition remove_file :: "string \<Rightarrow> directory \<Rightarrow> directory" where
  "remove_file name dir = filter (\<lambda>f. fi_name f \<noteq> name) dir"

record tm =
  tm_year :: int
  tm_mon :: int
  tm_mday :: int
  tm_hour :: int
  tm_min :: int
  tm_sec :: int

record sink_calls =
  sc_now :: int
  sc_localtime :: tm
  sc_mktime :: "tm \<Rightarrow> int"
  sc_order :: "file_info list \<Rightarrow> file_info list"
  sc_removable :: "string \<Rightarrow> bool"

record LoggerSink =
  sk_currentFileName :: string
  sk_maxSize :: u64
  sk_overallFilesSizeMb :: u64
  sk_retentionDays :: u32
  sk_hourlyRotation :: bool
  sk_targetLevel :: level_enum
  sk_isAllSink :: bool
  sk_currentSize :: nat
  sk_fileCounter :: nat
  sk_nextRotationTime :: int
  sk_file :: string

definition transTargetLevelToString :: "LoggerSink \<Rightarrow> string" where
  "transTargetLevelToString s =
     (if sk_isAllSink s then ''all''
      else case sk_targetLevel s of
             L_trace \<Rightarrow> ''trace'' | L_debug \<Rightarrow> ''debug'' | L_info \<Rightarrow> ''info'' | L_warn \<Rightarrow> ''warning''
           | L_err \<Rightarrow> ''error'' | L_critical \<Rightarrow> ''critical'' | L_off \<Rightarrow> ''unknown'')"

definition padded :: "nat \<Rightarrow> int \<Rightarrow> string" where
  "padded width n = (let d = dec_string (nat n) in replicate (width - length d) (CHR ''0'') @ d)"

definition time_stamp :: "tm \<Rightarrow> string" where
  "time_stamp t = padded 4 (tm_year t + 1900) @ padded 2 (tm_mon t + 1) @ padded 2 (tm_mday t)
     @ padded 2 (tm_hour t) @ padded 2 (tm_min t) @ padded 2 (tm_sec t)"

definition LoggerSink_openCurrentFile :: "sink_calls \<Rightarrow> LoggerSink \<Rightarrow> directory \<Rightarrow> LoggerSink \<times> directory" where
  "LoggerSink_openCurrentFile sc s dir =
     (let (filename, s1) =
            (if sk_fileCounter s = 0
             then let n = transTargetLevelToString s @ ''_'' @ time_stamp (sc_localtime sc) in (n, s\<lparr>sk_currentFileName := n\<rparr>)
             else (sk_currentFileName s @ ''.'' @ dec_string (sk_fileCounter s), s));
          file = filename @ ''.log'';
          dir1 = open_file file (sc_now sc) dir
      in (s1\<lparr>sk_file := file, sk_currentSize := size_of file dir1\<rparr>, dir1))"

definition LoggerSink_getNextHourRotationTime :: "sink_calls \<Rightarrow> int" where
  "LoggerSink_getNextHourRotationTime sc =
     (let t = sc_localtime sc in sc_mktime sc (t\<lparr>tm_min := 0, tm_sec := 0, tm_hour := tm_hour t + 1\<rparr>))"

definition LoggerSink_getNextDayRotationTime :: "sink_calls \<Rightarrow> int" where
  "LoggerSink_getNextDayRotationTime sc =
     (let t = sc_localtime sc in sc_mktime sc (t\<lparr>tm_hour := 0, tm_min := 0, tm_sec := 0, tm_mday := tm_mday t + 1\<rparr>))"

definition schedule_rotation :: "sink_calls \<Rightarrow> LoggerSink \<Rightarrow> LoggerSink" where
  "schedule_rotation sc s =
     s\<lparr>sk_nextRotationTime := (if sk_hourlyRotation s then LoggerSink_getNextHourRotationTime sc else LoggerSink_getNextDayRotationTime sc)\<rparr>"

text \<open>The files of a sink: those whose name begins with its level.\<close>

definition own_file :: "LoggerSink \<Rightarrow> file_info \<Rightarrow> bool" where
  "own_file s f \<longleftrightarrow> (let p = transTargetLevelToString s @ ''_'' in take (length p) (fi_name f) = p)"

text \<open>The removal of files, the oldest first, while they take more than the limit.\<close>

fun remove_oldest :: "(string \<Rightarrow> bool) \<Rightarrow> nat \<Rightarrow> file_info list \<Rightarrow> nat \<Rightarrow> directory \<Rightarrow> directory" where
  "remove_oldest removable limit [] totalSize dir = dir"
| "remove_oldest removable limit (f # fs) totalSize dir =
     (if totalSize \<le> limit then dir
      else if removable (fi_name f) then remove_oldest removable limit fs (totalSize - fi_size f) (remove_file (fi_name f) dir)
      else remove_oldest removable limit fs totalSize dir)"

definition expired :: "int \<Rightarrow> u32 \<Rightarrow> file_info \<Rightarrow> bool" where
  "expired now days f \<longleftrightarrow> now - fi_mtime f > 24 * sint days * 3600000000000"

definition LoggerSink_cleanupOldFiles :: "sink_calls \<Rightarrow> LoggerSink \<Rightarrow> directory \<Rightarrow> directory" where
  "LoggerSink_cleanupOldFiles sc s dir =
     (let files = sc_order sc (filter (own_file s) dir);
          totalSize = sum_list (map fi_size files);
          limit = unat (sk_overallFilesSizeMb s * 1024 * 1024);
          dir1 = (if totalSize > limit then remove_oldest (sc_removable sc) limit (rev files) totalSize dir else dir)
      in fold (\<lambda>f d. if expired (sc_now sc) (sk_retentionDays s) f \<and> sc_removable sc (fi_name f) then remove_file (fi_name f) d else d) files dir1)"

definition LoggerSink_rotateFile :: "sink_calls \<Rightarrow> LoggerSink \<Rightarrow> directory \<Rightarrow> LoggerSink \<times> directory" where
  "LoggerSink_rotateFile sc s dir =
     (let s1 = s\<lparr>sk_fileCounter := (if sk_currentSize s \<ge> unat (sk_maxSize s) then sk_fileCounter s + 1 else 0)\<rparr>;
          (s2, dir1) = LoggerSink_openCurrentFile sc s1 dir
      in (s2, LoggerSink_cleanupOldFiles sc s2 dir1))"

text \<open>A message of the given level, time and formatted length.\<close>

definition LoggerSink_sink_it :: "sink_calls \<Rightarrow> level_enum \<Rightarrow> int \<Rightarrow> nat \<Rightarrow> LoggerSink \<Rightarrow> directory \<Rightarrow> LoggerSink \<times> directory" where
  "LoggerSink_sink_it sc level time len s dir =
     (if \<not> sk_isAllSink s \<and> level \<noteq> sk_targetLevel s then (s, dir)
      else
        let (s1, dir1) =
              (if time \<ge> sk_nextRotationTime s \<or> sk_currentSize s \<ge> unat (sk_maxSize s)
               then (case LoggerSink_rotateFile sc s dir of (r, d) \<Rightarrow> (schedule_rotation sc r, d))
               else (s, dir))
        in (s1\<lparr>sk_currentSize := sk_currentSize s1 + len\<rparr>, append_file (sk_file s1) len (sc_now sc) dir1))"

definition LoggerSink_new ::
    "sink_calls \<Rightarrow> u64 \<Rightarrow> u64 \<Rightarrow> bool \<Rightarrow> u32 \<Rightarrow> level_enum \<Rightarrow> bool \<Rightarrow> directory \<Rightarrow> LoggerSink \<times> directory" where
  "LoggerSink_new sc maxSize maxFolderSizeMb hourlyRotation retentionDays targetLevel isAllSink dir =
     (case LoggerSink_openCurrentFile sc
             \<lparr>sk_currentFileName = [], sk_maxSize = maxSize, sk_overallFilesSizeMb = maxFolderSizeMb, sk_retentionDays = retentionDays,
              sk_hourlyRotation = hourlyRotation, sk_targetLevel = targetLevel, sk_isAllSink = isAllSink, sk_currentSize = 0,
              sk_fileCounter = 0, sk_nextRotationTime = 0, sk_file = []\<rparr> dir of
        (s, d) \<Rightarrow> (schedule_rotation sc s, d))"

subsection \<open>Configuration\<close>

record LevelConfig =
  lv_maxFileSizeMB :: u32
  lv_overallFileSizeMB :: u32
  lv_retentionDays :: u32

record LogConfig =
  lc_enableFileLog :: bool
  lc_enableConsoleLog :: bool
  lc_enableLevelSplit :: bool
  lc_enableFFmpegLog :: bool
  lc_logDir :: string
  lc_level :: string
  lc_pattern :: string
  lc_levels :: "string \<rightharpoonup> LevelConfig"

definition LogConfig_new :: LogConfig where
  "LogConfig_new =
     \<lparr>lc_enableFileLog = False, lc_enableConsoleLog = True, lc_enableLevelSplit = False, lc_enableFFmpegLog = False,
      lc_logDir = ''./logs'', lc_level = ''info'', lc_pattern = ''[%Y-%m-%d %H:%M:%S.%e] [%t] [%^%l%$] [%s:%#] %v'',
      lc_levels = Map.empty\<rparr>"

definition initDefaultLevelConfig :: "LogConfig \<Rightarrow> LogConfig" where
  "initDefaultLevelConfig config =
     config\<lparr>lc_levels := (lc_levels config)
       (''trace'' \<mapsto> \<lparr>lv_maxFileSizeMB = 50, lv_overallFileSizeMB = 1000, lv_retentionDays = 1\<rparr>,
        ''debug'' \<mapsto> \<lparr>lv_maxFileSizeMB = 100, lv_overallFileSizeMB = 1000, lv_retentionDays = 3\<rparr>,
        ''info'' \<mapsto> \<lparr>lv_maxFileSizeMB = 100, lv_overallFileSizeMB = 500, lv_retentionDays = 7\<rparr>,
        ''warning'' \<mapsto> \<lparr>lv_maxFileSizeMB = 100, lv_overallFileSizeMB = 500, lv_retentionDays = 30\<rparr>,
        ''error'' \<mapsto> \<lparr>lv_maxFileSizeMB = 100, lv_overallFileSizeMB = 500, lv_retentionDays = 90\<rparr>,
        ''critical'' \<mapsto> \<lparr>lv_maxFileSizeMB = 100, lv_overallFileSizeMB = 500, lv_retentionDays = 180\<rparr>,
        ''all'' \<mapsto> \<lparr>lv_maxFileSizeMB = 100, lv_overallFileSizeMB = 1000, lv_retentionDays = 5\<rparr>)\<rparr>"

text \<open>What the JSON library finds under a key: nothing, a value of the type asked for, or a value of another type, which throws.\<close>

datatype 'a json_value = Absent | Value 'a | WrongType

record log_json =
  lj_bool :: "string \<Rightarrow> bool json_value"
  lj_string :: "string \<Rightarrow> string json_value"
  lj_level :: "string \<Rightarrow> string \<Rightarrow> u32 json_value"

text \<open>The file: missing, unreadable, without the section, or with it.\<close>

datatype config_file = CannotOpen | ParseError | NoLogSection | LogSection log_json

text \<open>One assignment of the form \<open>config.x = json.value(key, config.x)\<close>; \<open>None\<close> when it throws.\<close>

definition set_value :: "'a json_value \<Rightarrow> 'a \<Rightarrow> ('a \<Rightarrow> LogConfig \<Rightarrow> LogConfig) \<Rightarrow> LogConfig \<Rightarrow> LogConfig option" where
  "set_value v old put config =
     (case v of Absent \<Rightarrow> Some (put old config) | Value x \<Rightarrow> Some (put x config) | WrongType \<Rightarrow> None)"

text \<open>Assignments one after the other: what was assigned before one throws stays.\<close>

fun assign_all :: "(LogConfig \<Rightarrow> LogConfig option) list \<Rightarrow> LogConfig \<Rightarrow> bool \<times> LogConfig" where
  "assign_all [] config = (True, config)"
| "assign_all (f # fs) config = (case f config of None \<Rightarrow> (False, config) | Some config1 \<Rightarrow> assign_all fs config1)"

definition level_names :: "string list" where
  "level_names = [''trace'', ''debug'', ''info'', ''warning'', ''error'', ''critical'', ''all'']"

definition level_of :: "string \<Rightarrow> LogConfig \<Rightarrow> LevelConfig" where
  "level_of level config = (case lc_levels config level of
     None \<Rightarrow> \<lparr>lv_maxFileSizeMB = 100, lv_overallFileSizeMB = 500, lv_retentionDays = 30\<rparr> | Some l \<Rightarrow> l)"

definition put_level :: "string \<Rightarrow> LevelConfig \<Rightarrow> LogConfig \<Rightarrow> LogConfig" where
  "put_level level l config = config\<lparr>lc_levels := (lc_levels config)(level \<mapsto> l)\<rparr>"

definition level_assignments :: "log_json \<Rightarrow> string \<Rightarrow> (LogConfig \<Rightarrow> LogConfig option) list" where
  "level_assignments j level =
     [\<lambda>c. set_value (lj_level j level ''maxFileSizeMB'') (lv_maxFileSizeMB (level_of level c))
            (\<lambda>x c. put_level level ((level_of level c)\<lparr>lv_maxFileSizeMB := x\<rparr>) c) c,
      \<lambda>c. set_value (lj_level j level ''overallFileSizeMB'') (lv_overallFileSizeMB (level_of level c))
            (\<lambda>x c. put_level level ((level_of level c)\<lparr>lv_overallFileSizeMB := x\<rparr>) c) c,
      \<lambda>c. set_value (lj_level j level ''retentionDays'') (lv_retentionDays (level_of level c))
            (\<lambda>x c. put_level level ((level_of level c)\<lparr>lv_retentionDays := x\<rparr>) c) c]"

definition basic_assignments :: "log_json \<Rightarrow> (LogConfig \<Rightarrow> LogConfig option) list" where
  "basic_assignments j =
     [\<lambda>c. set_value (lj_bool j ''enableFileLog'') (lc_enableConsoleLog c) (\<lambda>x c. c\<lparr>lc_enableFileLog := x\<rparr>) c,
      \<lambda>c. set_value (lj_bool j ''enableConsoleLog'') (lc_enableConsoleLog c) (\<lambda>x c. c\<lparr>lc_enableConsoleLog := x\<rparr>) c,
      \<lambda>c. set_value (lj_bool j ''enableLevelSplit'') (lc_enableLevelSplit c) (\<lambda>x c. c\<lparr>lc_enableLevelSplit := x\<rparr>) c,
      \<lambda>c. set_value (lj_bool j ''enableFFmpegLog'') (lc_enableFFmpegLog c) (\<lambda>x c. c\<lparr>lc_enableFFmpegLog := x\<rparr>) c,
      \<lambda>c. set_value (lj_string j ''logDir'') (lc_logDir c) (\<lambda>x c. c\<lparr>lc_logDir := x\<rparr>) c,
      \<lambda>c. set_value (lj_string j ''level'') (lc_level c) (\<lambda>x c. c\<lparr>lc_level := x\<rparr>) c,
      \<lambda>c. set_value (lj_string j ''pattern'') (lc_pattern c) (\<lambda>x c. c\<lparr>lc_pattern := x\<rparr>) c]"

definition LoggerManager_loadConfig :: "config_file \<Rightarrow> LogConfig \<Rightarrow> bool \<times> LogConfig" where
  "LoggerManager_loadConfig file config =
     (case file of
        LogSection j \<Rightarrow> assign_all (basic_assignments j @ concat (map (level_assignments j) level_names)) config
      | _ \<Rightarrow> (False, config))"

subsection \<open>The manager\<close>

datatype sink = ConsoleSink level_enum | FileSink level_enum LoggerSink

text \<open>What a message does: a line on the console, or a line in a file of the sink.\<close>

record logger =
  lg_level :: level_enum
  lg_sinks :: "sink list"

record LoggerManager =
  lm_config :: "LogConfig option"
  lm_logger :: "logger option"
  lm_initialized :: bool
  lm_ffmpegCallback :: bool
  lm_ffmpegLevel :: int
  lm_dir :: directory

definition LoggerManager_start :: "directory \<Rightarrow> LoggerManager" where
  "LoggerManager_start dir = \<lparr>lm_config = None, lm_logger = None, lm_initialized = False, lm_ffmpegCallback = False,
     lm_ffmpegLevel = 32, lm_dir = dir\<rparr>"

definition split_levels :: "(string \<times> level_enum) list" where
  "split_levels = [(''trace'', L_trace), (''debug'', L_debug), (''info'', L_info), (''warning'', L_warn), (''error'', L_err),
     (''critical'', L_critical)]"

definition megabytes :: "u32 \<Rightarrow> u64" where
  "megabytes n = word_of_int (sint n) * 1024 * 1024"

text \<open>The sinks of the levels from the configured one on.\<close>

fun split_sinks :: "sink_calls \<Rightarrow> LogConfig \<Rightarrow> (string \<times> level_enum) list \<Rightarrow> directory \<Rightarrow> sink list \<times> directory" where
  "split_sinks sc config [] dir = ([], dir)"
| "split_sinks sc config ((levelName, levelEnum) # ls) dir =
     (case (levelEnum \<ge> parseLevel (lc_level config), lc_levels config levelName) of
        (True, Some l) \<Rightarrow>
          (case LoggerSink_new sc (megabytes (lv_maxFileSizeMB l)) (word_of_int (sint (lv_overallFileSizeMB l)))
                  (levelName = ''trace'') (lv_retentionDays l) levelEnum False dir of
             (s, d) \<Rightarrow> (case split_sinks sc config ls d of (ss, d1) \<Rightarrow> (FileSink levelEnum s # ss, d1)))
      | _ \<Rightarrow> split_sinks sc config ls dir)"

definition all_sink :: "sink_calls \<Rightarrow> LogConfig \<Rightarrow> directory \<Rightarrow> sink list \<times> directory" where
  "all_sink sc config dir =
     (case lc_levels config ''all'' of
        None \<Rightarrow> ([], dir)
      | Some l \<Rightarrow>
          (case LoggerSink_new sc (megabytes (lv_maxFileSizeMB l)) (word_of_int (sint (lv_overallFileSizeMB l))) False (lv_retentionDays l)
                  (parseLevel (lc_level config)) True dir of
             (s, d) \<Rightarrow> ([FileSink L_trace s], d)))"

definition make_sinks :: "sink_calls \<Rightarrow> LogConfig \<Rightarrow> directory \<Rightarrow> sink list \<times> directory" where
  "make_sinks sc config dir =
     (let console = (if lc_enableConsoleLog config then [ConsoleSink (parseLevel (lc_level config))] else [])
      in if \<not> lc_enableFileLog config then (console, dir)
         else case (if lc_enableLevelSplit config then split_sinks sc config split_levels dir else ([], dir)) of
                (ss, d) \<Rightarrow> (case all_sink sc config d of (a, d1) \<Rightarrow> (console @ ss @ a, d1)))"

definition LoggerManager_createLogger :: "sink_calls \<Rightarrow> LoggerManager \<Rightarrow> LoggerManager" where
  "LoggerManager_createLogger sc m =
     (case lm_config m of
        None \<Rightarrow> m
      | Some config \<Rightarrow>
          (case make_sinks sc config (lm_dir m) of
             (ss, d) \<Rightarrow> if ss = [] then m\<lparr>lm_dir := d\<rparr>
                         else m\<lparr>lm_dir := d, lm_logger := Some \<lparr>lg_level = parseLevel (lc_level config), lg_sinks = ss\<rparr>\<rparr>))"

definition LoggerManager_setupFFmpegLogging :: "LoggerManager \<Rightarrow> LoggerManager" where
  "LoggerManager_setupFFmpegLogging m =
     (case lm_config m of
        Some config \<Rightarrow>
          if \<not> lc_enableFFmpegLog config then m\<lparr>lm_ffmpegCallback := False, lm_ffmpegLevel := 32\<rparr>
          else m\<lparr>lm_ffmpegLevel := convertSpdlogLevel (parseLevel (lc_level config)), lm_ffmpegCallback := True\<rparr>
      | None \<Rightarrow> m\<lparr>lm_ffmpegCallback := False, lm_ffmpegLevel := 32\<rparr>)"

definition LoggerManager_initialize :: "sink_calls \<Rightarrow> config_file \<Rightarrow> LoggerManager \<Rightarrow> bool \<times> LoggerManager" where
  "LoggerManager_initialize sc file m =
     (if lm_initialized m then (True, m)
      else
        let config = snd (LoggerManager_loadConfig file (initDefaultLevelConfig LogConfig_new));
            m1 = LoggerManager_createLogger sc (m\<lparr>lm_config := Some config\<rparr>)
        in (True, (LoggerManager_setupFFmpegLogging m1)\<lparr>lm_initialized := True\<rparr>))"

definition LoggerManager_getLogger :: "sink_calls \<Rightarrow> config_file \<Rightarrow> LoggerManager \<Rightarrow> logger option \<times> LoggerManager" where
  "LoggerManager_getLogger sc file m =
     (let m1 = (if lm_initialized m then m else snd (LoggerManager_initialize sc file m)) in (lm_logger m1, m1))"

text \<open>The configuration is written through a pointer that is null before the first initialisation.\<close>

definition LoggerManager_reloadConfig :: "sink_calls \<Rightarrow> config_file \<Rightarrow> LoggerManager \<Rightarrow> bool outcome \<times> LoggerManager" where
  "LoggerManager_reloadConfig sc file m =
     (let newConfig = snd (LoggerManager_loadConfig file (initDefaultLevelConfig LogConfig_new));
          m1 = m\<lparr>lm_initialized := False, lm_logger := None\<rparr>
      in case lm_config m1 of
           None \<Rightarrow> (UB, m1)
         | Some _ \<Rightarrow>
             (Ret True, (LoggerManager_setupFFmpegLogging (LoggerManager_createLogger sc (m1\<lparr>lm_config := Some newConfig\<rparr>)))\<lparr>lm_initialized := True\<rparr>))"

definition LoggerManager_shutdown :: "LoggerManager \<Rightarrow> unit outcome \<times> LoggerManager" where
  "LoggerManager_shutdown m =
     (if \<not> lm_initialized m then (Ret (), m)
      else
        let m1 = m\<lparr>lm_ffmpegCallback := False\<rparr>
        in case lm_logger m1 of
             None \<Rightarrow> (UB, m1)
           | Some _ \<Rightarrow> (Ret (), m1\<lparr>lm_logger := None, lm_initialized := False\<rparr>))"

subsection \<open>Messages\<close>

text \<open>A sink with a message: whether it takes it, and the sink and the directory after it.\<close>

definition sink_message :: "sink_calls \<Rightarrow> level_enum \<Rightarrow> int \<Rightarrow> nat \<Rightarrow> sink \<Rightarrow> directory \<Rightarrow> sink \<times> directory" where
  "sink_message sc level time len s dir =
     (case s of
        ConsoleSink l \<Rightarrow> (s, dir)
      | FileSink l f \<Rightarrow>
          if level \<ge> l then (case LoggerSink_sink_it sc level time len f dir of (f1, d) \<Rightarrow> (FileSink l f1, d)) else (s, dir))"

fun sinks_message :: "sink_calls \<Rightarrow> level_enum \<Rightarrow> int \<Rightarrow> nat \<Rightarrow> sink list \<Rightarrow> directory \<Rightarrow> sink list \<times> directory" where
  "sinks_message sc level time len [] dir = ([], dir)"
| "sinks_message sc level time len (s # ss) dir =
     (case sink_message sc level time len s dir of
        (s1, d) \<Rightarrow> (case sinks_message sc level time len ss d of (ss1, d1) \<Rightarrow> (s1 # ss1, d1)))"

definition LoggerManager_log :: "sink_calls \<Rightarrow> config_file \<Rightarrow> level_enum \<Rightarrow> int \<Rightarrow> nat \<Rightarrow> LoggerManager \<Rightarrow> LoggerManager" where
  "LoggerManager_log sc file level time len m =
     (case LoggerManager_getLogger sc file m of
        (None, m1) \<Rightarrow> m1
      | (Some g, m1) \<Rightarrow>
          if level < lg_level g then m1
          else (case sinks_message sc level time len (lg_sinks g) (lm_dir m1) of
                  (ss, d) \<Rightarrow> m1\<lparr>lm_logger := Some (g\<lparr>lg_sinks := ss\<rparr>), lm_dir := d\<rparr>))"

text \<open>The callback for FFmpeg: the text is cut to 1023 characters, a final line break and empty messages are dropped; the result
  is the level and the text that is logged.\<close>

definition LoggerManager_ffmpegLogCallback :: "int \<Rightarrow> string \<Rightarrow> LoggerManager \<Rightarrow> (level_enum \<times> string) option" where
  "LoggerManager_ffmpegLogCallback level formatted m =
     (if level > lm_ffmpegLevel m then None
      else
        let buffer = take 1023 formatted;
            message = (if buffer \<noteq> [] \<and> last buffer = CHR 0x0A then butlast buffer else buffer)
        in if message = [] then None else Some (convertFFmpegLevel level, ''[FFMPEG] '' @ message))"

subsection \<open>Removing files\<close>

lemma remove_oldest_newest:
  assumes "\<And>n. removable n"
  shows "\<exists>n\<le>length files. remove_oldest removable limit (rev files) (sum_list (map fi_size files)) dir
      = filter (\<lambda>f. fi_name f \<notin> fi_name ` set (drop n files)) dir
    \<and> sum_list (map fi_size (take n files)) \<le> limit
    \<and> (n < length files \<longrightarrow> limit < sum_list (map fi_size (take (Suc n) files)))"
proof (induction files arbitrary: dir rule: rev_induct)
  case (snoc f fs)
  show ?case
  proof (cases "sum_list (map fi_size (fs @ [f])) \<le> limit")
    case True
    then show ?thesis by (intro exI [of _ "length (fs @ [f])"]) simp
  next
    case False
    obtain n where n: "n \<le> length fs"
      "remove_oldest removable limit (rev fs) (sum_list (map fi_size fs)) (remove_file (fi_name f) dir)
        = filter (\<lambda>g. fi_name g \<notin> fi_name ` set (drop n fs)) (remove_file (fi_name f) dir)"
      "sum_list (map fi_size (take n fs)) \<le> limit" "n < length fs \<longrightarrow> limit < sum_list (map fi_size (take (Suc n) fs))"
      using snoc.IH [of "remove_file (fi_name f) dir"] by blast
    have "filter (\<lambda>g. fi_name g \<notin> fi_name ` set (drop n fs)) (remove_file (fi_name f) dir)
        = filter (\<lambda>g. fi_name g \<notin> fi_name ` set (drop n (fs @ [f]))) dir"
      using n(1) by (auto simp: remove_file_def intro!: filter_cong)
    moreover have "limit < sum_list (map fi_size (take (Suc n) (fs @ [f])))"
      using n(1,4) False by (cases "n = length fs") auto
    ultimately show ?thesis using n(1-3) False assms [of "fi_name f"] by (intro exI [of _ n]) simp
  qed
qed simp

lemma remove_expired:
  "fold (\<lambda>f d. if P f \<and> removable (fi_name f) then remove_file (fi_name f) d else d) files dir
    = filter (\<lambda>g. fi_name g \<notin> fi_name ` {f \<in> set files. P f \<and> removable (fi_name f)}) dir"
  by (induction files arbitrary: dir) (auto simp: remove_file_def intro!: filter_cong)

lemma same_name: "distinct (map fi_name dir) \<Longrightarrow> f \<in> set dir \<Longrightarrow> g \<in> set dir \<Longrightarrow> fi_name f = fi_name g \<Longrightarrow> f = g"
  by (metis distinct_map inj_onD)

text \<open>
  C34: the clean-up after a rotation, when every file can be removed: the files of the sink that stay are the newest ones that fit
  into the limit, as many as possible, without those older than the retention time; the files of other sinks stay.
\<close>

theorem LoggerSink_cleanup:
  assumes "distinct (map fi_name dir)" "\<And>n. sc_removable sc n"
    and "\<And>fs. mset (sc_order sc fs) = mset fs" "\<And>fs. sorted_wrt (\<lambda>a b. fi_mtime b \<le> fi_mtime a) (sc_order sc fs)"
  shows "\<exists>n. LoggerSink_cleanupOldFiles sc s dir
      = filter (\<lambda>f. own_file s f \<longrightarrow> f \<in> set (take n (sc_order sc (filter (own_file s) dir))) \<and> \<not> expired (sc_now sc) (sk_retentionDays s) f) dir
    \<and> sum_list (map fi_size (take n (sc_order sc (filter (own_file s) dir)))) \<le> unat (sk_overallFilesSizeMb s * 1024 * 1024)
    \<and> (n < length (sc_order sc (filter (own_file s) dir))
        \<longrightarrow> unat (sk_overallFilesSizeMb s * 1024 * 1024) < sum_list (map fi_size (take (Suc n) (sc_order sc (filter (own_file s) dir)))))
    \<and> (\<forall>f\<in>set (take n (sc_order sc (filter (own_file s) dir))). \<forall>g\<in>set (drop n (sc_order sc (filter (own_file s) dir))). fi_mtime g \<le> fi_mtime f)"
proof -
  define files where "files = sc_order sc (filter (own_file s) dir)"
  let ?limit = "unat (sk_overallFilesSizeMb s * 1024 * 1024)" and ?e = "expired (sc_now sc) (sk_retentionDays s)"
  have fs: "set files = {f \<in> set dir. own_file s f}" unfolding files_def by (metis assms(3) set_filter set_mset_mset)
  have d: "distinct files" unfolding files_def using assms(1,3) by (metis distinct_filter distinct_map mset_eq_imp_distinct_iff)
  let ?dir1 = "if sum_list (map fi_size files) > ?limit then remove_oldest (sc_removable sc) ?limit (rev files) (sum_list (map fi_size files)) dir else dir"
  obtain n where n: "?dir1 = filter (\<lambda>f. fi_name f \<notin> fi_name ` set (drop n files)) dir" "sum_list (map fi_size (take n files)) \<le> ?limit"
    "n < length files \<longrightarrow> ?limit < sum_list (map fi_size (take (Suc n) files))"
  proof (cases "sum_list (map fi_size files) > ?limit")
    case True
    then show ?thesis using remove_oldest_newest [of "sc_removable sc" files ?limit dir] assms(2) that by auto
  qed (use that [of "length files"] in simp)
  have "LoggerSink_cleanupOldFiles sc s dir
      = filter (\<lambda>f. fi_name f \<notin> fi_name ` {f \<in> set files. ?e f \<and> sc_removable sc (fi_name f)}) ?dir1"
    unfolding LoggerSink_cleanupOldFiles_def Let_def files_def [symmetric] remove_expired ..
  also have "\<dots> = filter (\<lambda>f. own_file s f \<longrightarrow> f \<in> set (take n files) \<and> \<not> ?e f) dir"
  proof -
    have td: "set files = set (take n files) \<union> set (drop n files)" "set (take n files) \<inter> set (drop n files) = {}"
      using d by (metis append_take_drop_id set_append, simp add: set_take_disj_set_drop_if_distinct)
    have k: "fi_name f \<notin> fi_name ` A \<longleftrightarrow> f \<notin> A" if "f \<in> set dir" "A \<subseteq> set files" for f A
    proof -
      have "g = f" if "g \<in> A" "fi_name f = fi_name g" for g
        using that \<open>A \<subseteq> set files\<close> fs \<open>f \<in> set dir\<close> same_name [OF assms(1), of g f] by auto
      then show ?thesis by (auto simp: image_iff)
    qed
    let ?E = "{f \<in> set files. ?e f \<and> sc_removable sc (fi_name f)}"
    have "(fi_name f \<notin> fi_name ` set (drop n files) \<and> fi_name f \<notin> fi_name ` ?E) = (own_file s f \<longrightarrow> f \<in> set (take n files) \<and> \<not> ?e f)"
      if "f \<in> set dir" for f
      using k [OF that, of "set (drop n files)"] k [OF that, of ?E] td fs that assms(2) by (auto simp: set_drop_subset)
    then show ?thesis unfolding n(1) filter_filter by (intro filter_cong) auto
  qed
  finally have r: "LoggerSink_cleanupOldFiles sc s dir = filter (\<lambda>f. own_file s f \<longrightarrow> f \<in> set (take n files) \<and> \<not> ?e f) dir" .
  have "sorted_wrt (\<lambda>a b. fi_mtime b \<le> fi_mtime a) (take n files @ drop n files)" using assms(4) by (simp add: files_def)
  then have "\<forall>f\<in>set (take n files). \<forall>g\<in>set (drop n files). fi_mtime g \<le> fi_mtime f" unfolding sorted_wrt_append by blast
  with r n show ?thesis unfolding files_def by blast
qed

definition sample_sink_calls :: sink_calls where
  "sample_sink_calls = \<lparr>sc_now = 1000, sc_localtime = \<lparr>tm_year = 125, tm_mon = 0, tm_mday = 2, tm_hour = 3, tm_min = 4, tm_sec = 5\<rparr>,
     sc_mktime = (\<lambda>_. 2000), sc_order = sort_key (\<lambda>f. - fi_mtime f), sc_removable = (\<lambda>_. True)\<rparr>"

lemma sample_order:
  "mset (sc_order sample_sink_calls fs) = mset fs" "sorted_wrt (\<lambda>a b. fi_mtime b \<le> fi_mtime a) (sc_order sample_sink_calls fs)"
proof -
  have "sorted (map (\<lambda>f. - fi_mtime f) (sort_key (\<lambda>f. - fi_mtime f) fs))" by simp
  then show "sorted_wrt (\<lambda>a b. fi_mtime b \<le> fi_mtime a) (sc_order sample_sink_calls fs)"
    unfolding sorted_map by (simp add: sample_sink_calls_def)
qed (simp add: sample_sink_calls_def)

theorem LoggerSink_cleanup_witness:
  "\<exists>n. let dir = [\<lparr>fi_name = ''all_1.log'', fi_size = 900000, fi_mtime = 1\<rparr>, \<lparr>fi_name = ''all_2.log'', fi_size = 900000, fi_mtime = 2\<rparr>];
        s = fst (LoggerSink_new sample_sink_calls 100 1 False 1 L_info True []); files = sc_order sample_sink_calls (filter (own_file s) dir)
    in LoggerSink_cleanupOldFiles sample_sink_calls s dir
         = filter (\<lambda>f. own_file s f \<longrightarrow> f \<in> set (take n files) \<and> \<not> expired (sc_now sample_sink_calls) (sk_retentionDays s) f) dir
       \<and> sum_list (map fi_size (take n files)) \<le> unat (sk_overallFilesSizeMb s * 1024 * 1024)"
proof -
  let ?dir = "[\<lparr>fi_name = ''all_1.log'', fi_size = 900000, fi_mtime = 1\<rparr>, \<lparr>fi_name = ''all_2.log'', fi_size = 900000, fi_mtime = 2\<rparr>]"
  have r: "sc_removable sample_sink_calls n" for n by (simp add: sample_sink_calls_def)
  have d: "distinct (map fi_name ?dir)" by simp
  show ?thesis
    using LoggerSink_cleanup [OF d r sample_order, of "fst (LoggerSink_new sample_sink_calls 100 1 False 1 L_info True [])"]
    unfolding Let_def by blast
qed

subsection \<open>Routing\<close>

text \<open>Whether a sink writes a message of a level, and what it writes to: \<open>None\<close> for the console.\<close>

fun accepts :: "level_enum \<Rightarrow> sink \<Rightarrow> bool" where
  "accepts level (ConsoleSink l) \<longleftrightarrow> level \<ge> l"
| "accepts level (FileSink l s) \<longleftrightarrow> level \<ge> l \<and> (sk_isAllSink s \<or> level = sk_targetLevel s)"

fun destination :: "sink \<Rightarrow> string option" where
  "destination (ConsoleSink l) = None"
| "destination (FileSink l s) = Some (transTargetLevelToString s)"

lemma refused: "\<not> accepts level s \<Longrightarrow> sink_message sc level time len s dir = (s, dir)"
  by (cases s) (auto simp: sink_message_def LoggerSink_sink_it_def)

lemma new_sink_sel:
  assumes "LoggerSink_new sc a b h r target allSink dir = (s, d)"
  shows "sk_targetLevel s = target" "sk_isAllSink s = allSink"
    "transTargetLevelToString s = transTargetLevelToString (s\<lparr>sk_targetLevel := target, sk_isAllSink := allSink\<rparr>)"
  using assms by (auto simp: LoggerSink_new_def LoggerSink_openCurrentFile_def schedule_rotation_def Let_def transTargetLevelToString_def split: if_splits)

definition name_of :: "level_enum \<Rightarrow> string" where
  "name_of level = (case level of L_trace \<Rightarrow> ''trace'' | L_debug \<Rightarrow> ''debug'' | L_info \<Rightarrow> ''info'' | L_warn \<Rightarrow> ''warning''
     | L_err \<Rightarrow> ''error'' | L_critical \<Rightarrow> ''critical'' | L_off \<Rightarrow> ''unknown'')"

lemma split_sinks_accept:
  assumes "list_all (\<lambda>(n, e). n = name_of e \<and> lc_levels config n \<noteq> None) ls" "parseLevel (lc_level config) \<le> level"
  shows "map destination (filter (accepts level) (fst (split_sinks sc config ls dir))) = map (\<lambda>(n, e). Some n) (filter (\<lambda>(n, e). e = level) ls)"
  using assms(1)
proof (induction ls arbitrary: dir)
  case (Cons x ls)
  obtain n e where x: "x = (n, e)" by fastforce
  from Cons.prems obtain l where l: "lc_levels config n = Some l" "n = name_of e" by (auto simp: x)
  show ?case
  proof (cases "parseLevel (lc_level config) \<le> e")
    case True
    obtain s d where s: "LoggerSink_new sc (megabytes (lv_maxFileSizeMB l)) (word_of_int (sint (lv_overallFileSizeMB l)))
        (n = ''trace'') (lv_retentionDays l) e False dir = (s, d)" by fastforce
    have "transTargetLevelToString s = n"
      using new_sink_sel [OF s] l(2) by (simp add: transTargetLevelToString_def name_of_def split: level_enum.splits)
    moreover obtain ss d1 where ss: "split_sinks sc config ls d = (ss, d1)" by fastforce
    moreover have "map destination (filter (accepts level) ss) = map (\<lambda>(n, e). Some n) (filter (\<lambda>(n, e). e = level) ls)"
      using Cons.IH [of d] Cons.prems ss by simp
    ultimately show ?thesis using True s l(1) new_sink_sel(1,2) [OF s] by (auto simp: x)
  next
    case False
    with assms(2) have "e \<noteq> level" by auto
    with Cons False l show ?thesis by (simp add: x)
  qed
qed simp

lemma all_sink_accept:
  assumes "lc_levels config ''all'' \<noteq> None"
  shows "map destination (filter (accepts level) (fst (all_sink sc config dir))) = [Some ''all'']"
proof -
  obtain l where l: "lc_levels config ''all'' = Some l" using assms by blast
  obtain s d where s: "LoggerSink_new sc (megabytes (lv_maxFileSizeMB l)) (word_of_int (sint (lv_overallFileSizeMB l))) False (lv_retentionDays l)
      (parseLevel (lc_level config)) True dir = (s, d)" by fastforce
  have "sk_isAllSink s" using new_sink_sel(2) [OF s] by simp
  with l s show ?thesis by (simp add: all_sink_def transTargetLevelToString_def less_eq_level_enum_def)
qed

text \<open>
  where a message goes.  A message at or above the configured level reaches the console, if that is enabled, and with file
  logging the file of its own level, if levels are split, and the file of all levels, each exactly once; a sink
  that does not accept it is left as it is.
\<close>

theorem LoggerManager_routing:
  assumes "list_all (\<lambda>n. lc_levels config n \<noteq> None) level_names" "parseLevel (lc_level config) \<le> level" "level \<noteq> L_off"
  shows "map destination (filter (accepts level) (fst (make_sinks sc config dir)))
      = (if lc_enableConsoleLog config then [None] else [])
        @ (if lc_enableFileLog config then (if lc_enableLevelSplit config then [Some (name_of level)] else []) @ [Some ''all''] else [])
    \<and> (accepts level s \<or> sink_message sc level time len s dir = (s, dir))"
proof -
  have k: "list_all (\<lambda>(n, e). n = name_of e \<and> lc_levels config n \<noteq> None) split_levels"
    using assms(1) by (simp add: level_names_def split_levels_def name_of_def)
  have f: "map (\<lambda>(n, e). Some n) (filter (\<lambda>(n, e). e = level) split_levels) = [Some (name_of level)]"
    using assms(3) by (cases level) (simp_all add: split_levels_def name_of_def)
  obtain ss d where ss: "(if lc_enableLevelSplit config then split_sinks sc config split_levels dir else ([], dir)) = (ss, d)" by fastforce
  have "map destination (filter (accepts level) ss) = (if lc_enableLevelSplit config then [Some (name_of level)] else [])"
    using split_sinks_accept [OF k assms(2), of sc dir] f ss by (auto split: if_splits)
  moreover have "lc_levels config ''all'' \<noteq> None" using assms(1) by (simp add: level_names_def)
  note all_sink_accept [OF this, of level sc d]
  ultimately have "map destination (filter (accepts level) (fst (make_sinks sc config dir)))
      = (if lc_enableConsoleLog config then [None] else [])
        @ (if lc_enableFileLog config then (if lc_enableLevelSplit config then [Some (name_of level)] else []) @ [Some ''all''] else [])"
    using assms(2) ss by (auto simp: make_sinks_def Let_def split: prod.splits)
  then show ?thesis using refused by blast
qed

theorem LoggerManager_routing_witness:
  "map destination (filter (accepts L_err) (fst (make_sinks sample_sink_calls ((initDefaultLevelConfig LogConfig_new)\<lparr>lc_enableFileLog := True, lc_enableLevelSplit := True\<rparr>) [])))
     = [None, Some ''error'', Some ''all'']"
  using LoggerManager_routing [of "(initDefaultLevelConfig LogConfig_new)\<lparr>lc_enableFileLog := True, lc_enableLevelSplit := True\<rparr>" L_err sample_sink_calls "[]"]
  by (simp add: initDefaultLevelConfig_def LogConfig_new_def level_names_def parseLevel_def less_eq_level_enum_def name_of_def)

subsection \<open>Shutting down\<close>

definition has_all :: "LogConfig \<Rightarrow> bool" where
  "has_all config \<longleftrightarrow> lc_levels config ''all'' \<noteq> None"

lemma assign_keeps:
  "(\<And>f c c'. f \<in> set fs \<Longrightarrow> P c \<Longrightarrow> f c = Some c' \<Longrightarrow> P c') \<Longrightarrow> P c \<Longrightarrow> P (snd (assign_all fs c))"
  by (induction fs arbitrary: c) (auto split: option.splits)

lemma load_has_all: "has_all config \<Longrightarrow> has_all (snd (LoggerManager_loadConfig file config))"
proof (cases "file")
  case (LogSection j)
  assume h: "has_all config"
  have basic: "has_all c'" if "f \<in> set (basic_assignments j)" "has_all c" "f c = Some c'" for f c c'
    using that unfolding basic_assignments_def by (auto simp: set_value_def has_all_def split: json_value.splits)
  have levels: "has_all c'" if "f \<in> set (level_assignments j l)" "has_all c" "f c = Some c'" for f c c' l
    using that unfolding level_assignments_def by (auto simp: set_value_def has_all_def put_level_def split: json_value.splits)
  have k: "has_all c'" if "f \<in> set (basic_assignments j @ concat (map (level_assignments j) level_names))" "has_all c" "f c = Some c'" for f c c'
    using that basic levels by auto
  show ?thesis unfolding LoggerManager_loadConfig_def LogSection config_file.case by (rule assign_keeps [where P = has_all, OF k h])
qed (simp_all add: LoggerManager_loadConfig_def)

lemma no_sinks: "has_all config \<Longrightarrow> fst (make_sinks sc config dir) = [] \<longleftrightarrow> \<not> lc_enableConsoleLog config \<and> \<not> lc_enableFileLog config"
  by (auto simp: make_sinks_def all_sink_def has_all_def Let_def split: prod.splits)

text \<open>
  shutting the logger down after the first initialisation dereferences a null logger exactly when the configuration
  enables neither the console nor the files.  Reloading the configuration before the first initialisation dereferences a
  null configuration.
\<close>

theorem LoggerManager_null_logger:
  "(fst (LoggerManager_shutdown (snd (LoggerManager_initialize sc file (LoggerManager_start dir)))) = UB
     \<longleftrightarrow> (let config = snd (LoggerManager_loadConfig file (initDefaultLevelConfig LogConfig_new))
          in \<not> lc_enableConsoleLog config \<and> \<not> lc_enableFileLog config))
   \<and> fst (LoggerManager_reloadConfig sc file (LoggerManager_start dir)) = UB"
proof -
  let ?config = "snd (LoggerManager_loadConfig file (initDefaultLevelConfig LogConfig_new))"
  have "has_all ?config" by (rule load_has_all) (simp add: has_all_def initDefaultLevelConfig_def)
  note n = no_sinks [OF this, of sc dir]
  obtain ss d where "make_sinks sc ?config dir = (ss, d)" by fastforce
  with n show ?thesis
    by (simp add: LoggerManager_initialize_def LoggerManager_start_def LoggerManager_createLogger_def LoggerManager_setupFFmpegLogging_def
        LoggerManager_shutdown_def LoggerManager_reloadConfig_def Let_def)
qed

text \<open>An empty section of the configuration file turns the file log on: its default is the value for the console.\<close>

lemma empty_section_enables_files:
  "lc_enableFileLog (snd (LoggerManager_loadConfig
     (LogSection \<lparr>lj_bool = (\<lambda>_. Absent), lj_string = (\<lambda>_. Absent), lj_level = (\<lambda>_ _. Absent)\<rparr>) (initDefaultLevelConfig LogConfig_new)))"
proof -
  let ?j = "\<lparr>lj_bool = (\<lambda>_. Absent), lj_string = (\<lambda>_. Absent), lj_level = (\<lambda>_ _. Absent)\<rparr>"
  let ?c = "(initDefaultLevelConfig LogConfig_new)\<lparr>lc_enableFileLog := True\<rparr>"
  have "lc_enableFileLog (snd (assign_all (tl (basic_assignments ?j) @ concat (map (level_assignments ?j) level_names)) ?c))"
    by (rule assign_keeps [where P = lc_enableFileLog])
      (auto simp: basic_assignments_def level_assignments_def set_value_def put_level_def)
  then show ?thesis
    by (simp add: LoggerManager_loadConfig_def basic_assignments_def set_value_def initDefaultLevelConfig_def LogConfig_new_def)
qed

end
