(* ===== verification/ApiFrames.thy ===== *)
theory ApiFrames
  imports FrameQueues
begin

text \<open>
  The public classes \<open>decoder_sdk::Frame\<close> and \<open>decoder_sdk::FrameQueue\<close> (\<open>src/src/api/frame.cpp\<close>,
  \<open>frame_queue.cpp\<close>): a frame owns an internal frame or nothing, a queue is a handle that shares
  the ownership of an internal queue.

  A \<open>queue_heap\<close> holds the internal queues by address with their numbers of owners; a
  \<open>std::shared_ptr\<close> is an address or null, and the queue is destroyed when its last owner goes.  A handle is a
  pointer to a \<open>FrameQueueImpl\<close> (the outer option), which holds a shared pointer (the inner one).
\<close>

subsection \<open>Frames\<close>

type_synonym ApiFrame = "Frame option"

definition ApiFrame_new :: ApiFrame where
  "ApiFrame_new = None"

definition ApiFrame_of :: "Frame option \<Rightarrow> ApiFrame" where
  "ApiFrame_of frame = frame"

definition ApiFrame_copy :: "frame_api \<Rightarrow> ApiFrame \<Rightarrow> ApiFrame" where
  "ApiFrame_copy api other = (case other of None \<Rightarrow> None | Some f \<Rightarrow> Some (Frame_copy api f))"

text \<open>\<open>same\<close>: the two sides are the same object.\<close>

definition ApiFrame_assign :: "frame_api \<Rightarrow> bool \<Rightarrow> ApiFrame \<Rightarrow> ApiFrame \<Rightarrow> ApiFrame" where
  "ApiFrame_assign api same this other =
     (if same then this else case other of None \<Rightarrow> None | Some f \<Rightarrow> Some (Frame_copy api f))"

text \<open>A move gives the new object and what is left of the other one.\<close>

definition ApiFrame_move :: "ApiFrame \<Rightarrow> ApiFrame \<times> ApiFrame" where
  "ApiFrame_move other = (other, None)"

definition api_get :: "'a \<Rightarrow> (Frame \<Rightarrow> 'a) \<Rightarrow> ApiFrame \<Rightarrow> 'a" where
  "api_get d g f = (case f of None \<Rightarrow> d | Some i \<Rightarrow> g i)"

definition ApiFrame_isValid :: "ApiFrame \<Rightarrow> bool" where "ApiFrame_isValid f = api_get False Frame_isValid f"
definition ApiFrame_durationByFps :: "ApiFrame \<Rightarrow> double" where "ApiFrame_durationByFps f = api_get (Fin 0) Frame_durationByFps f"
definition ApiFrame_isInHardware :: "ApiFrame \<Rightarrow> bool" where "ApiFrame_isInHardware f = api_get False Frame_isInHardware f"
definition ApiFrame_secPts :: "ApiFrame \<Rightarrow> double" where "ApiFrame_secPts f = api_get (Fin 0) Frame_secPts f"

definition ApiFrame_userSEIDataList :: "ApiFrame \<Rightarrow> UserSEIData list" where
  "ApiFrame_userSEIDataList f = api_get [] Frame_userSEIDataList f"

definition ApiFrame_width :: "ApiFrame \<Rightarrow> int" where "ApiFrame_width f = api_get 0 Frame_width f"
definition ApiFrame_height :: "ApiFrame \<Rightarrow> int" where "ApiFrame_height f = api_get 0 Frame_height f"

definition ApiFrame_pixelFormat :: "ApiFrame \<Rightarrow> ImageFormat" where
  "ApiFrame_pixelFormat f = api_get IF_kUnknown (\<lambda>i. avPixelFormat2ImageFormat (Frame_pixelFormat i)) f"

definition ApiFrame_avPts :: "ApiFrame \<Rightarrow> int" where "ApiFrame_avPts f = api_get 0 Frame_avPts f"
definition ApiFrame_pktDts :: "ApiFrame \<Rightarrow> int" where "ApiFrame_pktDts f = api_get 0 Frame_pktDts f"
definition ApiFrame_keyFrame :: "ApiFrame \<Rightarrow> int" where "ApiFrame_keyFrame f = api_get 0 Frame_keyFrame f"

definition ApiFrame_bestEffortTimestamp :: "ApiFrame \<Rightarrow> int" where
  "ApiFrame_bestEffortTimestamp f = api_get 0 Frame_bestEffortTimestamp f"

definition ApiFrame_sampleRate :: "ApiFrame \<Rightarrow> int" where "ApiFrame_sampleRate f = api_get 0 Frame_sampleRate f"
definition ApiFrame_nbSamples :: "ApiFrame \<Rightarrow> int" where "ApiFrame_nbSamples f = api_get 0 Frame_nbSamples f"
definition ApiFrame_channels :: "ApiFrame \<Rightarrow> int" where "ApiFrame_channels f = api_get 0 Frame_channels f"

definition ApiFrame_sampleFormat :: "ApiFrame \<Rightarrow> AudioSampleFormat" where
  "ApiFrame_sampleFormat f = api_get SF_kUnknown (\<lambda>i. avSampleFormat2AudioSampleFormat (Frame_sampleFormat i)) f"

definition ApiFrame_data :: "int \<Rightarrow> ApiFrame \<Rightarrow> byte list option outcome" where
  "ApiFrame_data plane f = api_get (Ret None) (Frame_data plane) f"

definition ApiFrame_linesize :: "int \<Rightarrow> ApiFrame \<Rightarrow> int outcome" where
  "ApiFrame_linesize plane f = api_get (Ret 0) (Frame_linesize plane) f"

definition ApiFrame_mediaType :: "ApiFrame \<Rightarrow> MediaType" where
  "ApiFrame_mediaType f = api_get MT_kMediaTypeUnknown (\<lambda>i. avMediaType2MediaType (Frame_mediaType i)) f"

definition ApiFrame_getBufferSize :: "frame_queries \<Rightarrow> ApiFrame \<Rightarrow> int" where
  "ApiFrame_getBufferSize qs f = api_get 0 (Frame_getBufferSize qs) f"

definition ApiFrame_getAudioBufferSize :: "frame_queries \<Rightarrow> ApiFrame \<Rightarrow> int" where
  "ApiFrame_getAudioBufferSize qs f = api_get 0 (Frame_getAudioBufferSize qs) f"

subsection \<open>Shared ownership of the internal queues\<close>

record queue_heap =
  qh_objects :: "nat \<Rightarrow> FrameQueue option"
  qh_owners :: "nat \<Rightarrow> nat"
  qh_next :: nat

definition heap_empty :: queue_heap where
  "heap_empty = \<lparr>qh_objects = (\<lambda>_. None), qh_owners = (\<lambda>_. 0), qh_next = 0\<rparr>"

text \<open>\<open>std::make_shared\<close>: a new object with one owner.\<close>

definition make_shared :: "FrameQueue \<Rightarrow> queue_heap \<Rightarrow> nat \<times> queue_heap" where
  "make_shared q h =
     (let a = qh_next h
      in (a, h\<lparr>qh_objects := (qh_objects h)(a := Some q), qh_owners := (qh_owners h)(a := 1), qh_next := Suc a\<rparr>))"

definition add_owner :: "nat option \<Rightarrow> queue_heap \<Rightarrow> queue_heap" where
  "add_owner p h =
     (case p of None \<Rightarrow> h | Some a \<Rightarrow> h\<lparr>qh_owners := (qh_owners h)(a := Suc (qh_owners h a))\<rparr>)"

definition drop_owner :: "frame_api \<Rightarrow> nat option \<Rightarrow> queue_heap \<Rightarrow> unit outcome \<times> queue_heap" where
  "drop_owner api p h =
     (case p of
        None \<Rightarrow> (Ret (), h)
      | Some a \<Rightarrow>
          (case qh_objects h a of
             None \<Rightarrow> (UB, h)
           | Some q \<Rightarrow>
               let h1 = h\<lparr>qh_owners := (qh_owners h)(a := qh_owners h a - 1)\<rparr>
               in if qh_owners h a = 1
                  then (fst (FrameQueue_destroy api q), h1\<lparr>qh_objects := (qh_objects h)(a := None)\<rparr>)
                  else (Ret (), h1)))"

text \<open>The constructor: \<open>shared_from_this\<close> on a live object adds an owner.\<close>

definition FrameQueueImpl_new :: "nat option \<Rightarrow> queue_heap \<Rightarrow> nat option outcome \<times> queue_heap" where
  "FrameQueueImpl_new queue h =
     (case queue of
        None \<Rightarrow> (Ret None, h)
      | Some a \<Rightarrow> (case qh_objects h a of None \<Rightarrow> (UB, h) | Some _ \<Rightarrow> (Ret (Some a), add_owner queue h)))"

definition FrameQueueImpl_copy :: "nat option \<Rightarrow> queue_heap \<Rightarrow> nat option \<times> queue_heap" where
  "FrameQueueImpl_copy other h = (other, add_owner other h)"

subsection \<open>Handles\<close>

type_synonym ApiFrameQueue = "nat option option"

definition ApiFrameQueue_new :: "nat option \<Rightarrow> queue_heap \<Rightarrow> ApiFrameQueue outcome \<times> queue_heap" where
  "ApiFrameQueue_new queue h =
     (case FrameQueueImpl_new queue h of
        (Ret p, h1) \<Rightarrow> (Ret (Some p), h1) | (Wait, h1) \<Rightarrow> (Wait, h1) | (UB, h1) \<Rightarrow> (UB, h1))"

definition ApiFrameQueue_destroy :: "frame_api \<Rightarrow> ApiFrameQueue \<Rightarrow> queue_heap \<Rightarrow> unit outcome \<times> queue_heap" where
  "ApiFrameQueue_destroy api this h = (case this of None \<Rightarrow> (Ret (), h) | Some p \<Rightarrow> drop_owner api p h)"

definition ApiFrameQueue_copy :: "ApiFrameQueue \<Rightarrow> queue_heap \<Rightarrow> ApiFrameQueue \<times> queue_heap" where
  "ApiFrameQueue_copy other h =
     (case other of
        None \<Rightarrow> (None, h)
      | Some p \<Rightarrow> (case FrameQueueImpl_copy p h of (p1, h1) \<Rightarrow> (Some p1, h1)))"

text \<open>The copy is made before the old \<open>FrameQueueImpl\<close> is destroyed.\<close>

definition ApiFrameQueue_assign ::
    "frame_api \<Rightarrow> bool \<Rightarrow> ApiFrameQueue \<Rightarrow> ApiFrameQueue \<Rightarrow> queue_heap \<Rightarrow> unit outcome \<times> ApiFrameQueue \<times> queue_heap" where
  "ApiFrameQueue_assign api same this other h =
     (if same then (Ret (), this, h)
      else case ApiFrameQueue_copy other h of
             (new, h1) \<Rightarrow> (case ApiFrameQueue_destroy api this h1 of (r, h2) \<Rightarrow> (r, new, h2)))"

text \<open>The address behind a handle, and the queue there; a handle without one is answered by the caller.\<close>

definition pointee :: "ApiFrameQueue \<Rightarrow> nat option" where
  "pointee this = (case this of None \<Rightarrow> None | Some p \<Rightarrow> p)"

definition ApiFrameQueue_pop ::
    "frame_api \<Rightarrow> int \<Rightarrow> bool \<Rightarrow> ApiFrameQueue \<Rightarrow> ApiFrame \<Rightarrow> queue_heap \<Rightarrow> bool outcome \<times> ApiFrame \<times> queue_heap" where
  "ApiFrameQueue_pop api timeout expired this frame h =
     (case pointee this of
        None \<Rightarrow> (Ret False, frame, h)
      | Some a \<Rightarrow>
          (case qh_objects h a of
             None \<Rightarrow> (UB, frame, h)
           | Some q \<Rightarrow>
               (case FrameQueue_pop api timeout expired q of
                  (Ret (Some f), q1) \<Rightarrow> (Ret True, ApiFrame_of (Some f), h\<lparr>qh_objects := (qh_objects h)(a := Some q1)\<rparr>)
                | (Ret None, q1) \<Rightarrow> (Ret False, frame, h\<lparr>qh_objects := (qh_objects h)(a := Some q1)\<rparr>)
                | (Wait, q1) \<Rightarrow> (Wait, frame, h\<lparr>qh_objects := (qh_objects h)(a := Some q1)\<rparr>)
                | (UB, q1) \<Rightarrow> (UB, frame, h))))"

definition ApiFrameQueue_tryPop ::
    "frame_api \<Rightarrow> ApiFrameQueue \<Rightarrow> ApiFrame \<Rightarrow> queue_heap \<Rightarrow> bool outcome \<times> ApiFrame \<times> queue_heap" where
  "ApiFrameQueue_tryPop api this frame h = ApiFrameQueue_pop api 0 False this frame h"

definition query :: "'a \<Rightarrow> (FrameQueue \<Rightarrow> 'a) \<Rightarrow> ApiFrameQueue \<Rightarrow> queue_heap \<Rightarrow> 'a outcome" where
  "query d g this h =
     (case pointee this of None \<Rightarrow> Ret d | Some a \<Rightarrow> (case qh_objects h a of None \<Rightarrow> UB | Some q \<Rightarrow> Ret (g q)))"

definition ApiFrameQueue_empty :: "ApiFrameQueue \<Rightarrow> queue_heap \<Rightarrow> bool outcome" where
  "ApiFrameQueue_empty this h = query True FrameQueue_empty this h"

definition ApiFrameQueue_full :: "ApiFrameQueue \<Rightarrow> queue_heap \<Rightarrow> bool outcome" where
  "ApiFrameQueue_full this h = query False FrameQueue_full this h"

definition ApiFrameQueue_size :: "ApiFrameQueue \<Rightarrow> queue_heap \<Rightarrow> int outcome" where
  "ApiFrameQueue_size this h = query 0 FrameQueue_size this h"

definition ApiFrameQueue_capacity :: "ApiFrameQueue \<Rightarrow> queue_heap \<Rightarrow> int outcome" where
  "ApiFrameQueue_capacity this h = query 0 FrameQueue_capacity this h"

definition ApiFrameQueue_remainingCount :: "ApiFrameQueue \<Rightarrow> queue_heap \<Rightarrow> int outcome" where
  "ApiFrameQueue_remainingCount this h = query 0 FrameQueue_remainingCount this h"

subsection \<open>Handles in use\<close>

text \<open>
  The owners inside the SDK (the decoders and the shared empty queue) and the handles of the user.  The operations: an
  internal queue is created, changed or given up by its owner; the user gets a handle on a queue that an owner still
  holds, copies, assigns and drops handles and pops through them.  An operation on a variable that does not exist does
  nothing; \<open>None\<close> is undefined behaviour.
\<close>

record api_world =
  aw_heap :: queue_heap
  aw_inside :: "nat list"
  aw_handles :: "ApiFrameQueue list"

datatype api_op =
    ACreate nat bool bool
  | AInternal nat fq_op
  | ARetire nat
  | AHandle nat
  | ANullHandle
  | ACopyHandle nat
  | AAssignHandle nat nat
  | ADropHandle nat
  | APop nat int bool

definition remove_nth :: "nat \<Rightarrow> 'a list \<Rightarrow> 'a list" where
  "remove_nth i xs = take i xs @ drop (Suc i) xs"

definition unless_ub :: "'a outcome \<Rightarrow> 's \<Rightarrow> 's option" where
  "unless_ub r s = (case r of UB \<Rightarrow> None | _ \<Rightarrow> Some s)"

fun api_step :: "frame_api \<Rightarrow> api_op \<Rightarrow> api_world \<Rightarrow> api_world option" where
  "api_step api (ACreate n keepLast autoInit) w =
     (case FrameQueue_new api (int n) keepLast autoInit of
        None \<Rightarrow> None
      | Some q \<Rightarrow> (case make_shared q (aw_heap w) of (a, h) \<Rightarrow> Some (w\<lparr>aw_heap := h, aw_inside := a # aw_inside w\<rparr>)))"
| "api_step api (AInternal i op) w =
     (if i < length (aw_inside w)
      then (case qh_objects (aw_heap w) (aw_inside w ! i) of
              None \<Rightarrow> None
            | Some q \<Rightarrow> (case fq_step api op q of
                None \<Rightarrow> None
              | Some q1 \<Rightarrow> Some (w\<lparr>aw_heap := (aw_heap w)\<lparr>qh_objects := (qh_objects (aw_heap w))(aw_inside w ! i := Some q1)\<rparr>\<rparr>)))
      else Some w)"
| "api_step api (ARetire i) w =
     (if i < length (aw_inside w)
      then (case drop_owner api (Some (aw_inside w ! i)) (aw_heap w) of
              (r, h) \<Rightarrow> unless_ub r (w\<lparr>aw_heap := h, aw_inside := remove_nth i (aw_inside w)\<rparr>))
      else Some w)"
| "api_step api (AHandle i) w =
     (if i < length (aw_inside w)
      then (case ApiFrameQueue_new (Some (aw_inside w ! i)) (aw_heap w) of
              (Ret p, h) \<Rightarrow> Some (w\<lparr>aw_heap := h, aw_handles := p # aw_handles w\<rparr>)
            | _ \<Rightarrow> None)
      else Some w)"
| "api_step api ANullHandle w =
     (case ApiFrameQueue_new None (aw_heap w) of
        (Ret p, h) \<Rightarrow> Some (w\<lparr>aw_heap := h, aw_handles := p # aw_handles w\<rparr>)
      | _ \<Rightarrow> None)"
| "api_step api (ACopyHandle i) w =
     (if i < length (aw_handles w)
      then (case ApiFrameQueue_copy (aw_handles w ! i) (aw_heap w) of
              (p, h) \<Rightarrow> Some (w\<lparr>aw_heap := h, aw_handles := p # aw_handles w\<rparr>))
      else Some w)"
| "api_step api (AAssignHandle i j) w =
     (if i < length (aw_handles w) \<and> j < length (aw_handles w)
      then (case ApiFrameQueue_assign api (i = j) (aw_handles w ! i) (aw_handles w ! j) (aw_heap w) of
              (r, p, h) \<Rightarrow> unless_ub r (w\<lparr>aw_heap := h, aw_handles := (aw_handles w)[i := p]\<rparr>))
      else Some w)"
| "api_step api (ADropHandle i) w =
     (if i < length (aw_handles w)
      then (case ApiFrameQueue_destroy api (aw_handles w ! i) (aw_heap w) of
              (r, h) \<Rightarrow> unless_ub r (w\<lparr>aw_heap := h, aw_handles := remove_nth i (aw_handles w)\<rparr>))
      else Some w)"
| "api_step api (APop i timeout expired) w =
     (if i < length (aw_handles w)
      then (case ApiFrameQueue_pop api timeout expired (aw_handles w ! i) ApiFrame_new (aw_heap w) of
              (r, frame, h) \<Rightarrow> unless_ub r (w\<lparr>aw_heap := h\<rparr>))
      else Some w)"

fun api_run :: "frame_api \<Rightarrow> api_op list \<Rightarrow> api_world \<Rightarrow> api_world option" where
  "api_run api [] w = Some w"
| "api_run api (op # ops) w = (case api_step api op w of None \<Rightarrow> None | Some w1 \<Rightarrow> api_run api ops w1)"

definition api_start :: api_world where
  "api_start = \<lparr>aw_heap = heap_empty, aw_inside = [], aw_handles = []\<rparr>"

text \<open>
  The abstract view: an address has one owner for each occurrence among the owners inside and the handles.  The heap agrees
  with it when every counter is that number and exactly the queues with an owner are alive and well formed.
\<close>

definition owners_in :: "nat list \<Rightarrow> ApiFrameQueue list \<Rightarrow> nat \<Rightarrow> nat" where
  "owners_in inside handles a = count_list inside a + count_list (map pointee handles) (Some a)"

definition heap_agrees :: "(nat \<Rightarrow> nat) \<Rightarrow> queue_heap \<Rightarrow> bool" where
  "heap_agrees owners h \<longleftrightarrow>
     (\<forall>a. qh_owners h a = owners a)
     \<and> (\<forall>a. qh_objects h a = None \<longrightarrow> owners a = 0)
     \<and> (\<forall>a q. qh_objects h a = Some q \<longrightarrow> 0 < owners a \<and> fq_inv q)
     \<and> (\<forall>a \<ge> qh_next h. owners a = 0)"

definition api_inv :: "api_world \<Rightarrow> bool" where
  "api_inv w \<longleftrightarrow> heap_agrees (owners_in (aw_inside w) (aw_handles w)) (aw_heap w)"

lemma count_remove_nth:
  "i < length xs \<Longrightarrow> count_list (remove_nth i xs) x = count_list xs x - (if xs ! i = x then 1 else 0)"
  by (subst (2) id_take_nth_drop [of i xs]) (auto simp: remove_nth_def)

lemma count_update:
  "i < length xs \<Longrightarrow> count_list (xs[i := y]) x + (if xs ! i = x then 1 else 0) = count_list xs x + (if y = x then 1 else 0)"
  by (subst (3) id_take_nth_drop [of i xs]) (auto simp: upd_conv_take_nth_drop)

lemma count_nth_pos: "i < length xs \<Longrightarrow> 0 < count_list xs (xs ! i)"
  by (metis count_list_0_iff nth_mem neq0_conv)

lemma agrees_live: "heap_agrees owners h \<Longrightarrow> 0 < owners a \<Longrightarrow> \<exists>q. qh_objects h a = Some q \<and> fq_inv q"
  by (cases "qh_objects h a") (auto simp: heap_agrees_def)

lemma destroy_defined: "fq_inv q \<Longrightarrow> fst (FrameQueue_destroy api q) = Ret ()"
  using inv_window_ok [of q]
  by (auto simp: FrameQueue_destroy_def FrameQueue_clear_def FrameQueue_setAbortStatus_def fq_window_ok_def fq_window_def)

lemma make_shared_agrees:
  assumes "heap_agrees owners h" and "fq_inv q" and "make_shared q h = (a, h')"
  shows "heap_agrees (owners(a := 1)) h' \<and> owners a = 0"
  using assms by (auto simp: make_shared_def heap_agrees_def Let_def)

lemma add_owner_agrees:
  assumes "heap_agrees owners h" and "0 < owners a"
  shows "heap_agrees (owners(a := Suc (owners a))) (add_owner (Some a) h)"
  using assms by (auto simp: add_owner_def heap_agrees_def)

lemma drop_owner_agrees:
  assumes "heap_agrees owners h" and "0 < owners a"
  obtains h' where "drop_owner api (Some a) h = (Ret (), h')" and "heap_agrees (owners(a := owners a - 1)) h'"
proof -
  obtain q where q: "qh_objects h a = Some q" "fq_inv q" using agrees_live [OF assms] by blast
  have c: "qh_owners h a = owners a" using assms(1) by (simp add: heap_agrees_def)
  show ?thesis
  proof (cases "owners a = 1")
    case True
    show ?thesis
      by (rule that)
        (use True q c destroy_defined [OF q(2), of api] assms in \<open>auto simp: drop_owner_def heap_agrees_def Let_def\<close>)
  next
    case False
    have "0 < owners a - 1" using False assms(2) by simp
    show ?thesis
      by (rule that)
        (use False \<open>0 < owners a - 1\<close> q c assms(1) in \<open>auto simp: drop_owner_def heap_agrees_def Let_def\<close>)
  qed
qed

lemma write_agrees:
  assumes "heap_agrees owners h" and "0 < owners a" and "fq_inv q"
  shows "heap_agrees owners (h\<lparr>qh_objects := (qh_objects h)(a := Some q)\<rparr>)"
  using assms by (auto simp: heap_agrees_def)

text \<open>The same for the operations on a shared pointer that may be null.\<close>

definition with_owner :: "nat option \<Rightarrow> (nat \<Rightarrow> nat) \<Rightarrow> nat \<Rightarrow> nat" where
  "with_owner p owners a = owners a + (if p = Some a then 1 else 0)"

lemma add_owner_with:
  assumes "heap_agrees owners h" and "\<And>a. p = Some a \<Longrightarrow> 0 < owners a"
  shows "heap_agrees (with_owner p owners) (add_owner p h)"
proof (cases p)
  case None
  then show ?thesis using assms(1) by (simp add: add_owner_def with_owner_def [abs_def])
next
  case (Some a)
  have "with_owner p owners = owners(a := Suc (owners a))" by (auto simp: with_owner_def Some)
  then show ?thesis using add_owner_agrees [OF assms(1) assms(2) [OF Some]] Some by simp
qed

lemma drop_owner_with:
  assumes "heap_agrees (with_owner p owners) h"
  obtains h' where "drop_owner api p h = (Ret (), h')" and "heap_agrees owners h'"
proof (cases p)
  case None
  then show ?thesis using assms that by (simp add: drop_owner_def with_owner_def [abs_def])
next
  case (Some a)
  have "0 < with_owner p owners a" by (simp add: with_owner_def Some)
  from drop_owner_agrees [OF assms this] obtain h' where
    h': "drop_owner api (Some a) h = (Ret (), h')" "heap_agrees ((with_owner p owners)(a := with_owner p owners a - 1)) h'" .
  have "(with_owner p owners)(a := with_owner p owners a - 1) = owners" by (auto simp: with_owner_def Some)
  with h' show ?thesis using that Some by simp
qed

lemma pop_agrees:
  assumes "heap_agrees owners h" and "\<And>a. pointee this = Some a \<Longrightarrow> 0 < owners a"
  obtains r f h' where "ApiFrameQueue_pop api t e this frame h = (r, f, h')" and "r \<noteq> UB" and "heap_agrees owners h'"
proof (cases "pointee this")
  case None
  then show ?thesis using assms(1) that by (simp add: ApiFrameQueue_pop_def)
next
  case (Some a)
  obtain q where q: "qh_objects h a = Some q" "fq_inv q" using agrees_live [OF assms(1) assms(2) [OF Some]] by blast
  obtain r q1 where p: "FrameQueue_pop api t e q = (r, q1)" by fastforce
  then have r: "r \<noteq> UB" "fq_inv q1" using pop_inv [OF q(2), of api t e] by (cases r; auto)+
  have "\<exists>r' f. ApiFrameQueue_pop api t e this frame h = (r', f, h\<lparr>qh_objects := (qh_objects h)(a := Some q1)\<rparr>) \<and> r' \<noteq> UB"
    using Some q p r by (cases r) (auto simp: ApiFrameQueue_pop_def split: option.splits)
  then show ?thesis using that write_agrees [OF assms(1) assms(2) [OF Some] r(2)] by blast
qed

subsection \<open>Every operation keeps the invariant\<close>

lemma owners_inside: "i < length inside \<Longrightarrow> 0 < owners_in inside handles (inside ! i)"
  using count_nth_pos [of i inside] by (simp add: owners_in_def)

lemma owners_handle: "i < length handles \<Longrightarrow> pointee (handles ! i) = Some a \<Longrightarrow> 0 < owners_in inside handles a"
  using count_nth_pos [of i "map pointee handles"] by (auto simp: owners_in_def)

lemma owners_Cons [simp]:
  "owners_in inside (p # handles) = with_owner (pointee p) (owners_in inside handles)"
  "owners_in (a # inside) handles = with_owner (Some a) (owners_in inside handles)"
  by (auto simp: owners_in_def with_owner_def fun_eq_iff)

lemma owners_remove_inside:
  assumes "i < length inside"
  shows "owners_in inside handles = with_owner (Some (inside ! i)) (owners_in (remove_nth i inside) handles)"
proof
  fix a
  show "owners_in inside handles a = with_owner (Some (inside ! i)) (owners_in (remove_nth i inside) handles) a"
    using count_remove_nth [OF assms, of a] count_nth_pos [OF assms] by (auto simp: owners_in_def with_owner_def)
qed

lemma map_remove_nth: "map f (remove_nth i xs) = remove_nth i (map f xs)"
  by (simp add: remove_nth_def take_map drop_map)

lemma owners_remove_handle:
  assumes "i < length handles"
  shows "owners_in inside handles = with_owner (pointee (handles ! i)) (owners_in inside (remove_nth i handles))"
proof
  fix a
  show "owners_in inside handles a = with_owner (pointee (handles ! i)) (owners_in inside (remove_nth i handles)) a"
    using assms count_remove_nth [of i "map pointee handles" "Some a"] count_nth_pos [of i "map pointee handles"]
    by (auto simp: owners_in_def with_owner_def map_remove_nth)
qed

lemma owners_update_handle:
  assumes "i < length handles"
  shows "with_owner (pointee p) (owners_in inside handles) = with_owner (pointee (handles ! i)) (owners_in inside (handles[i := p]))"
proof
  fix a
  show "with_owner (pointee p) (owners_in inside handles) a
      = with_owner (pointee (handles ! i)) (owners_in inside (handles[i := p])) a"
    using assms count_update [of i "map pointee handles" "pointee p" "Some a"]
    by (auto simp: owners_in_def with_owner_def map_update)
qed

lemma pointee_simps [simp]: "pointee (Some p) = p" "pointee None = None"
  by (simp_all add: pointee_def)

lemma copy_handle: "ApiFrameQueue_copy p h = (p, add_owner (pointee p) h)"
  by (cases p) (simp_all add: ApiFrameQueue_copy_def FrameQueueImpl_copy_def add_owner_def)

lemma destroy_handle: "ApiFrameQueue_destroy api p h = drop_owner api (pointee p) h"
  by (cases p) (simp_all add: ApiFrameQueue_destroy_def drop_owner_def)

lemma new_handle:
  assumes "heap_agrees owners h" and "\<And>a. p = Some a \<Longrightarrow> 0 < owners a"
  shows "ApiFrameQueue_new p h = (Ret (Some p), add_owner p h)"
proof (cases p)
  case None
  then show ?thesis by (simp add: ApiFrameQueue_new_def FrameQueueImpl_new_def add_owner_def)
next
  case (Some a)
  then show ?thesis using agrees_live [OF assms(1) assms(2) [OF Some]]
    by (auto simp: ApiFrameQueue_new_def FrameQueueImpl_new_def)
qed

lemma api_step_inv:
  assumes "api_inv w"
  shows "\<exists>w'. api_step api op w = Some w' \<and> api_inv w'"
proof -
  let ?o = "owners_in (aw_inside w) (aw_handles w)" and ?h = "aw_heap w"
  have A: "heap_agrees ?o ?h" using assms by (simp add: api_inv_def)
  show ?thesis
  proof (cases op)
    case (ACreate n k z)
    obtain q where q: "FrameQueue_new api (int n) k z = Some q" "fq_inv q" using new_inv [of "int n" api k z] by auto
    obtain a h where m: "make_shared q ?h = (a, h)" by fastforce
    have "with_owner (Some a) ?o = ?o(a := 1)"
      using make_shared_agrees [OF A q(2) m] by (auto simp: with_owner_def)
    then show ?thesis using make_shared_agrees [OF A q(2) m] ACreate q m by (simp add: api_inv_def)
  next
    case (AInternal i iop)
    show ?thesis
    proof (cases "i < length (aw_inside w)")
      case True
      note o = owners_inside [OF True, of "aw_handles w"]
      obtain q where q: "qh_objects ?h (aw_inside w ! i) = Some q" "fq_inv q" using agrees_live [OF A o] by blast
      obtain q1 where "fq_step api iop q = Some q1" "fq_inv q1" using step_inv [OF q(2), of api iop] by blast
      then show ?thesis using AInternal True q write_agrees [OF A o] by (simp add: api_inv_def)
    qed (simp add: AInternal assms)
  next
    case (ARetire i)
    show ?thesis
    proof (cases "i < length (aw_inside w)")
      case True
      from A have "heap_agrees (with_owner (Some (aw_inside w ! i)) (owners_in (remove_nth i (aw_inside w)) (aw_handles w))) ?h"
        unfolding owners_remove_inside [OF True] .
      then obtain h where "drop_owner api (Some (aw_inside w ! i)) ?h = (Ret (), h)"
          "heap_agrees (owners_in (remove_nth i (aw_inside w)) (aw_handles w)) h" by (rule drop_owner_with)
      then show ?thesis using ARetire True by (simp add: api_inv_def unless_ub_def)
    qed (simp add: ARetire assms)
  next
    case (AHandle i)
    show ?thesis
    proof (cases "i < length (aw_inside w)")
      case True
      note o = owners_inside [OF True, of "aw_handles w"]
      show ?thesis
        using AHandle True o new_handle [OF A, of "Some (aw_inside w ! i)"] add_owner_with [OF A, of "Some (aw_inside w ! i)"]
        by (simp add: api_inv_def)
    qed (simp add: AHandle assms)
  next
    case ANullHandle
    then show ?thesis using new_handle [OF A, of None] add_owner_with [OF A, of None] by (simp add: api_inv_def)
  next
    case (ACopyHandle i)
    show ?thesis
    proof (cases "i < length (aw_handles w)")
      case True
      then show ?thesis
        using ACopyHandle add_owner_with [OF A, of "pointee (aw_handles w ! i)"] owners_handle [OF True, of _ "aw_inside w"]
        by (simp add: api_inv_def copy_handle)
    qed (simp add: ACopyHandle assms)
  next
    case (AAssignHandle i j)
    show ?thesis
    proof (cases "i < length (aw_handles w) \<and> j < length (aw_handles w) \<and> i \<noteq> j")
      case True
      let ?p = "aw_handles w ! j"
      have "heap_agrees (with_owner (pointee ?p) ?o) (add_owner (pointee ?p) ?h)"
        using add_owner_with [OF A, of "pointee ?p"] owners_handle [of j "aw_handles w" _ "aw_inside w"] True by simp
      then have "heap_agrees (with_owner (pointee (aw_handles w ! i)) (owners_in (aw_inside w) ((aw_handles w)[i := ?p])))
          (add_owner (pointee ?p) ?h)"
        using owners_update_handle [of i "aw_handles w" ?p "aw_inside w"] True by simp
      then obtain h where "drop_owner api (pointee (aw_handles w ! i)) (add_owner (pointee ?p) ?h) = (Ret (), h)"
          "heap_agrees (owners_in (aw_inside w) ((aw_handles w)[i := ?p])) h" by (rule drop_owner_with)
      then show ?thesis
        using AAssignHandle True
        by (simp add: api_inv_def ApiFrameQueue_assign_def copy_handle destroy_handle unless_ub_def)
    qed (use AAssignHandle assms in \<open>auto simp: ApiFrameQueue_assign_def unless_ub_def\<close>)
  next
    case (ADropHandle i)
    show ?thesis
    proof (cases "i < length (aw_handles w)")
      case True
      from A have "heap_agrees (with_owner (pointee (aw_handles w ! i)) (owners_in (aw_inside w) (remove_nth i (aw_handles w)))) ?h"
        unfolding owners_remove_handle [OF True] .
      then obtain h where "drop_owner api (pointee (aw_handles w ! i)) ?h = (Ret (), h)"
          "heap_agrees (owners_in (aw_inside w) (remove_nth i (aw_handles w))) h" by (rule drop_owner_with)
      then show ?thesis using ADropHandle True by (simp add: api_inv_def destroy_handle unless_ub_def)
    qed (simp add: ADropHandle assms)
  next
    case (APop i t e)
    show ?thesis
    proof (cases "i < length (aw_handles w)")
      case True
      obtain r f h where "ApiFrameQueue_pop api t e (aw_handles w ! i) ApiFrame_new ?h = (r, f, h)" "r \<noteq> UB" "heap_agrees ?o h"
        by (rule pop_agrees [OF A owners_handle [OF True]])
      then show ?thesis using APop True by (cases r) (simp_all add: api_inv_def unless_ub_def)
    qed (simp add: APop assms)
  qed
qed

lemma api_run_inv: "api_inv w \<Longrightarrow> \<exists>w'. api_run api ops w = Some w' \<and> api_inv w'"
proof (induction ops arbitrary: w)
  case Nil
  then show ?case by simp
next
  case (Cons op ops)
  then show ?case using api_step_inv [OF Cons.prems, of api op] by auto
qed

lemma api_start_inv: "api_inv api_start"
  by (simp add: api_inv_def api_start_def heap_agrees_def heap_empty_def owners_in_def)

text \<open>
  C27: The handles of the public API are safe: whatever sequence of handles is created, copied, assigned, dropped and popped
  from while the SDK creates, uses and gives up its queues, no call touches a queue that has been destroyed and none
  is undefined.  A queue is alive exactly as long as a decoder or a handle refers to it, so it is neither
  destroyed early nor kept for ever.
\<close>
theorem ApiFrameQueue_shared_ownership:
  "\<exists>w. api_run api ops api_start = Some w
     \<and> (\<forall>a. qh_objects (aw_heap w) a \<noteq> None \<longleftrightarrow> a \<in> set (aw_inside w) \<or> Some (Some a) \<in> set (aw_handles w))"
proof -
  obtain w where w: "api_run api ops api_start = Some w" "api_inv w" using api_run_inv [OF api_start_inv] by blast
  have "qh_objects (aw_heap w) a \<noteq> None \<longleftrightarrow> 0 < owners_in (aw_inside w) (aw_handles w) a" for a
    using w(2) by (auto simp: api_inv_def heap_agrees_def)
  moreover have "0 < owners_in inside handles a \<longleftrightarrow> a \<in> set inside \<or> Some (Some a) \<in> set handles" for inside handles a
    by (auto simp: owners_in_def pointee_def neq0_conv [symmetric] count_list_0_iff image_iff split: option.splits)
  ultimately show ?thesis using w(1) by auto
qed

end
