(* ===== verification/ApiControllers.thy ===== *)
theory ApiControllers
  imports ApiFrames DecoderControllers
begin

text \<open>
  The public class \<open>decoder_sdk::DecoderController\<close> (\<open>src/src/api/decoder_controller.cpp\<close>), a pointer to the
  internal controller (\<open>None\<close> is null), and the version functions (\<open>src/src/base/version.cpp\<close>).

  A call gives the result of the internal call of the same name and the new internal controller, or a default on a null
  pointer.  Calls that are lists of sections return their result and the sections that are left when one waits.
  The queues are handles; \<open>vq\<close> and \<open>aq\<close> are the addresses of the queues of the decoders, \<open>emptyVideo\<close> and \<open>emptyAudio\<close> those of
  the two static empty queues.
\<close>

type_synonym ApiController = "DecoderController option"

definition api_call :: "'a \<Rightarrow> (DecoderController \<Rightarrow> 'a \<times> DecoderController) \<Rightarrow> ApiController \<Rightarrow> 'a \<times> ApiController" where
  "api_call d f impl = (case impl of None \<Rightarrow> (d, None) | Some c \<Rightarrow> (case f c of (r, c1) \<Rightarrow> (r, Some c1)))"

definition api_query :: "'a \<Rightarrow> (DecoderController \<Rightarrow> 'a) \<Rightarrow> ApiController \<Rightarrow> 'a" where
  "api_query d f impl = (case impl of None \<Rightarrow> d | Some c \<Rightarrow> f c)"

definition api_sections :: "ctl_section list \<Rightarrow> ApiController \<Rightarrow> (bool outcome \<times> ctl_section list) \<times> ApiController" where
  "api_sections ss impl =
     api_call (Ret False, []) (\<lambda>c. case run_sections ss False c of (r, left, c1) \<Rightarrow> ((r, left), c1)) impl"

definition ApiController_new :: "nat \<Rightarrow> ctl_calls \<Rightarrow> ApiController" where
  "ApiController_new thread cl = Some (DecoderController_new thread cl)"

definition ApiController_destroy :: "ApiController \<Rightarrow> (bool outcome \<times> ctl_section list) \<times> ApiController" where
  "ApiController_destroy impl = api_sections DecoderController_destroy impl"

definition ApiController_open :: "ctl_calls \<Rightarrow> string \<Rightarrow> Config \<Rightarrow> ApiController \<Rightarrow> (bool outcome \<times> ctl_section list) \<times> ApiController" where
  "ApiController_open cl url config impl = api_sections (DecoderController_open cl url config) impl"

definition ApiController_openAsync :: "string \<Rightarrow> Config \<Rightarrow> bool \<Rightarrow> ApiController \<Rightarrow> (bool outcome \<times> ctl_section list) \<times> ApiController" where
  "ApiController_openAsync url config callback impl = api_sections (DecoderController_openAsync url config callback) impl"

definition ApiController_close :: "ApiController \<Rightarrow> (bool outcome \<times> ctl_section list) \<times> ApiController" where
  "ApiController_close impl = api_sections DecoderController_close impl"

definition ApiController_pause :: "ApiController \<Rightarrow> bool outcome \<times> ApiController" where
  "ApiController_pause impl = api_call (Ret False) DecoderController_pause impl"

definition ApiController_resume :: "ctl_calls \<Rightarrow> ApiController \<Rightarrow> bool outcome \<times> ApiController" where
  "ApiController_resume cl impl = api_call (Ret False) (DecoderController_resume cl) impl"

definition ApiController_startDecode :: "frame_api \<Rightarrow> ctl_calls \<Rightarrow> ApiController \<Rightarrow> bool outcome \<times> ApiController" where
  "ApiController_startDecode api cl impl = api_call (Ret False) (DecoderController_startDecode api cl) impl"

definition ApiController_stopDecode :: "ApiController \<Rightarrow> bool outcome \<times> ApiController" where
  "ApiController_stopDecode impl = api_call (Ret False) DecoderController_stopDecode impl"

definition ApiController_isDecodeStopped :: "ApiController \<Rightarrow> bool" where
  "ApiController_isDecodeStopped impl = api_query False DecoderController_isDecodeStopped impl"

definition ApiController_isDecodePaused :: "ApiController \<Rightarrow> bool" where
  "ApiController_isDecodePaused impl = api_query False DecoderController_isPaused impl"

definition ApiController_seek :: "frame_api \<Rightarrow> ctl_calls \<Rightarrow> double \<Rightarrow> ApiController \<Rightarrow> bool outcome \<times> ApiController" where
  "ApiController_seek api cl position impl = api_call (Ret False) (DecoderController_seek api cl position) impl"

definition ApiController_setSpeed :: "ctl_calls \<Rightarrow> double \<Rightarrow> ApiController \<Rightarrow> bool outcome \<times> ApiController" where
  "ApiController_setSpeed cl speed impl = api_call (Ret False) (DecoderController_setSpeed cl speed) impl"

text \<open>The handles: the pointer of a temporary shared pointer, which is alive until the handle is built.\<close>

definition ApiController_videoQueue :: "nat \<Rightarrow> nat \<Rightarrow> ApiController \<Rightarrow> queue_heap \<Rightarrow> ApiFrameQueue outcome \<times> queue_heap" where
  "ApiController_videoQueue vq emptyVideo impl h =
     (case impl of
        None \<Rightarrow> ApiFrameQueue_new None h
      | Some c \<Rightarrow> ApiFrameQueue_new (Some (if co_videoDecoder c \<noteq> None then vq else emptyVideo)) h)"

definition ApiController_audioQueue :: "nat \<Rightarrow> nat \<Rightarrow> ApiController \<Rightarrow> queue_heap \<Rightarrow> ApiFrameQueue outcome \<times> queue_heap" where
  "ApiController_audioQueue aq emptyAudio impl h =
     (case impl of
        None \<Rightarrow> ApiFrameQueue_new None h
      | Some c \<Rightarrow> ApiFrameQueue_new (Some (if co_audioDecoder c \<noteq> None then aq else emptyAudio)) h)"

definition ApiController_setMasterClock :: "MasterClock \<Rightarrow> ApiController \<Rightarrow> unit \<times> ApiController" where
  "ApiController_setMasterClock type impl = api_call () (\<lambda>c. ((), DecoderController_setMasterClock type c)) impl"

definition ApiController_getVideoFrameRate :: "AVRational \<Rightarrow> ApiController \<Rightarrow> double" where
  "ApiController_getVideoFrameRate rate impl = api_query (Fin 0) (DecoderController_getVideoFrameRate rate) impl"

definition ApiController_setFrameRateControl :: "bool \<Rightarrow> ApiController \<Rightarrow> unit \<times> ApiController" where
  "ApiController_setFrameRateControl enable impl = api_call () (\<lambda>c. ((), DecoderController_setFrameRateControl enable c)) impl"

definition ApiController_isFrameRateControlEnabled :: "ApiController \<Rightarrow> bool" where
  "ApiController_isFrameRateControlEnabled impl = api_query False DecoderController_isFrameRateControlEnabled impl"

definition ApiController_curSpeed :: "ApiController \<Rightarrow> double" where
  "ApiController_curSpeed impl = api_query (Fin 0) DecoderController_curSpeed impl"

definition ApiController_startRecording :: "mux_results \<Rightarrow> bool \<Rightarrow> string \<Rightarrow> ApiController \<Rightarrow> bool outcome \<times> ApiController" where
  "ApiController_startRecording mx alloc outputPath impl = api_call (Ret False) (DecoderController_startRecording mx alloc outputPath) impl"

definition ApiController_stopRecording :: "ApiController \<Rightarrow> bool outcome \<times> ApiController" where
  "ApiController_stopRecording impl = api_call (Ret False) DecoderController_stopRecording impl"

definition ApiController_isRecording :: "ApiController \<Rightarrow> bool" where
  "ApiController_isRecording impl = api_query False DecoderController_isRecording impl"

definition ApiController_cancelAsyncOpen :: "ApiController \<Rightarrow> unit outcome \<times> ApiController" where
  "ApiController_cancelAsyncOpen impl = api_call (Ret ()) (DecoderController_cancelAsyncOpen False) impl"

definition ApiController_isAsyncOpenInProgress :: "ApiController \<Rightarrow> bool" where
  "ApiController_isAsyncOpenInProgress impl = api_query False DecoderController_isAsyncOpenInProgress impl"

definition ApiController_addGlobalEventListener :: "ctl_callback \<Rightarrow> ApiController \<Rightarrow> (EventType \<times> u64) list \<times> ApiController" where
  "ApiController_addGlobalEventListener callback impl = api_call [] (DecoderController_addGlobalEventListener callback) impl"

definition ApiController_removeGlobalEventListener :: "(EventType \<times> u64) list \<Rightarrow> ApiController \<Rightarrow> bool outcome \<times> ApiController" where
  "ApiController_removeGlobalEventListener handle impl = api_call (Ret False) (DecoderController_removeGlobalEventListener handle) impl"

definition ApiController_addEventListener :: "EventType \<Rightarrow> ctl_callback \<Rightarrow> ApiController \<Rightarrow> u64 \<times> ApiController" where
  "ApiController_addEventListener eventType callback impl = api_call 0 (DecoderController_addEventListener eventType callback) impl"

definition ApiController_removeEventListener :: "EventType \<Rightarrow> u64 \<Rightarrow> ApiController \<Rightarrow> bool outcome \<times> ApiController" where
  "ApiController_removeEventListener eventType handle impl =
     api_call (Ret False) (DecoderController_removeEventListener eventType handle) impl"

definition ApiController_isReconnecting :: "ApiController \<Rightarrow> bool" where
  "ApiController_isReconnecting impl = api_query False DecoderController_isReconnecting impl"

definition ApiController_getPreBufferState :: "ApiController \<Rightarrow> PreBufferState" where
  "ApiController_getPreBufferState impl = api_query PB_kDisabled DecoderController_getPreBufferState impl"

definition PreBufferProgress_new :: PreBufferProgress where
  "PreBufferProgress_new = \<lparr>pp_videoBufferedFrames = 0, pp_audioBufferedPackets = 0, pp_videoRequiredFrames = 0,
     pp_audioRequiredPackets = 0, pp_videoProgressPercent = Fin 0, pp_audioProgressPercent = Fin 0,
     pp_isVideoReady = False, pp_isAudioReady = False, pp_isOverallReady = False\<rparr>"

definition ApiController_getPreBufferProgress :: "ApiController \<Rightarrow> PreBufferProgress" where
  "ApiController_getPreBufferProgress impl = api_query PreBufferProgress_new DecoderController_getPreBufferProgress impl"

definition ApiController_isRealTimeUrl :: "ApiController \<Rightarrow> bool" where
  "ApiController_isRealTimeUrl impl = api_query False DecoderController_isRealTimeUrl impl"

definition ApiController_setLoopMode :: "LoopMode \<Rightarrow> u32 \<Rightarrow> ApiController \<Rightarrow> bool \<times> ApiController" where
  "ApiController_setLoopMode mode maxLoops impl = api_call False (DecoderController_setLoopMode mode maxLoops) impl"

definition ApiController_getLoopMode :: "ApiController \<Rightarrow> LoopMode" where
  "ApiController_getLoopMode impl = api_query LM_kNone DecoderController_getLoopMode impl"

definition ApiController_getCurrentLoopCount :: "ApiController \<Rightarrow> int" where
  "ApiController_getCurrentLoopCount impl = api_query 0 DecoderController_getCurrentLoopCount impl"

definition ApiController_resetLoopCount :: "ApiController \<Rightarrow> bool \<times> ApiController" where
  "ApiController_resetLoopCount impl = api_call False DecoderController_resetLoopCount impl"

subsection \<open>Version\<close>

record sdk_version =
  sv_major :: int
  sv_minor :: int
  sv_patch :: int
  sv_build :: int

definition checkVersion :: "sdk_version \<Rightarrow> int \<Rightarrow> int \<Rightarrow> int \<Rightarrow> int" where
  "checkVersion v major minor patch =
     (if sv_major v > major \<or> (sv_major v = major \<and> sv_minor v > minor)
         \<or> (sv_major v = major \<and> sv_minor v = minor \<and> sv_patch v \<ge> patch) then 1 else 0)"

text \<open>The pointers that are not null are written.\<close>

definition getVersion :: "sdk_version \<Rightarrow> int option \<Rightarrow> int option \<Rightarrow> int option \<Rightarrow> int option
    \<Rightarrow> int option \<times> int option \<times> int option \<times> int option" where
  "getVersion v major minor patch build =
     (map_option (\<lambda>_. sv_major v) major, map_option (\<lambda>_. sv_minor v) minor,
      map_option (\<lambda>_. sv_patch v) patch, map_option (\<lambda>_. sv_build v) build)"

subsection \<open>Properties\<close>

text \<open>A version is accepted when it is not newer than the library in the order of major, minor and patch number.\<close>

lemma checkVersion_iff:
  "checkVersion v major minor patch = 1 \<longleftrightarrow>
     ([major, minor, patch], [sv_major v, sv_minor v, sv_patch v]) \<in> lexord {(x, y). x < y}
     \<or> [major, minor, patch] = [sv_major v, sv_minor v, sv_patch v]"
  by (auto simp: checkVersion_def)

lemma empty_queue_pop:
  assumes "FrameQueue_new api 0 False True = Some q"
  shows "FrameQueue_pop api timeout expired q =
     (if timeout < 0 \<or> (timeout > 0 \<and> \<not> expired) then Wait else Ret None, q)"
  using assms
  by (auto simp: FrameQueue_new_def FrameQueue_init_def FrameQueue_uninit_def FrameQueue_pop_def
      FrameQueue_waitForData_def FrameQueue_canPop_def FrameQueue_shouldReturnLastFrame_def Let_def)

text \<open>
  The handle of a controller that has no video decoder yet refers to the shared empty queue, for good: a pop
  through it with the default timeout blocks at every later time, also after the controller has opened a stream, and a
  pop that does not wait returns false and leaves the frame alone.
\<close>

theorem ApiController_early_handle_blocks:
  assumes "co_videoDecoder c = None" and "FrameQueue_new api 0 False True = Some q" and "qh_objects h e = Some q"
  shows "\<exists>p h1. ApiController_videoQueue vq e (Some c) h = (Ret p, h1)
     \<and> (\<forall>frame h2. qh_objects h2 e = Some q \<longrightarrow>
          (\<forall>timeout expired. timeout < 0 \<longrightarrow> ApiFrameQueue_pop api timeout expired p frame h2 = (Wait, frame, h2))
          \<and> ApiFrameQueue_tryPop api p frame h2 = (Ret False, frame, h2))"
proof -
  have same: "h2\<lparr>qh_objects := (qh_objects h2)(e := Some q)\<rparr> = h2" if "qh_objects h2 e = Some q" for h2
    using that by (metis fun_upd_triv queue_heap.surjective queue_heap.update_convs(1))
  have "ApiController_videoQueue vq e (Some c) h = (Ret (Some (Some e)), add_owner (Some e) h)"
    using assms by (simp add: ApiController_videoQueue_def ApiFrameQueue_new_def FrameQueueImpl_new_def)
  moreover have "ApiFrameQueue_pop api timeout expired (Some (Some e)) frame h2 = (Wait, frame, h2)"
    if "qh_objects h2 e = Some q" "timeout < 0" for timeout expired frame h2
    using that same by (simp add: ApiFrameQueue_pop_def empty_queue_pop [OF assms(2)])
  moreover have "ApiFrameQueue_tryPop api (Some (Some e)) frame h2 = (Ret False, frame, h2)"
    if "qh_objects h2 e = Some q" for frame h2
    using that same by (simp add: ApiFrameQueue_tryPop_def ApiFrameQueue_pop_def empty_queue_pop [OF assms(2)])
  ultimately show ?thesis by blast
qed

end
