(* ===== verification/VaapiHelpers.thy ===== *)
theory VaapiHelpers
  imports MediaFormats
begin

unbundle bit_operations_syntax

text \<open>
  The VA-API helpers (\<open>src/src/vaapi/vaapi_utils.cpp\<close>, \<open>ffmpeg_utils.cpp\<close>): opening and closing a display on a DRM device,
  creating and destroying driver objects, saving a surface, and the translations between the names of FFmpeg
  and of VA-API.

  The driver, the operating system and the C library are parameters: what a call returns is an argument, and the calls that acquire or
  release something are recorded in order as \<open>va_event\<close>s.  Enumerations of the VA-API headers, which
  are not part of the repository, are datatypes of the names the code uses.
\<close>

datatype VAStatus =
    VA_STATUS_SUCCESS | VA_STATUS_ERROR_OPERATION_FAILED | VA_STATUS_ERROR_ALLOCATION_FAILED | VA_STATUS_ERROR_INVALID_DISPLAY
  | VA_STATUS_ERROR_INVALID_CONFIG | VA_STATUS_ERROR_INVALID_CONTEXT | VA_STATUS_ERROR_INVALID_SURFACE
  | VA_STATUS_ERROR_INVALID_BUFFER | VA_STATUS_ERROR_INVALID_IMAGE | VA_STATUS_ERROR_INVALID_SUBPICTURE
  | VA_STATUS_ERROR_INVALID_PARAMETER | VA_STATUS_ERROR_INVALID_VALUE | VA_STATUS_ERROR_UNIMPLEMENTED
  | VA_STATUS_ERROR_SURFACE_BUSY | VA_STATUS_OTHER nat

datatype va_event =
    Opened int | Closed int | Initialized nat | Terminated nat
  | Created u32 | Destroyed u32 | Mapped u32 | Unmapped u32
  | FileOpened | FileClosed | ImageCreated | ImageDestroyed

subsection \<open>Displays on DRM devices\<close>

definition kMaxDrmDevices :: nat where
  "kMaxDrmDevices = 4"

definition render_node :: "nat \<Rightarrow> string" where
  "render_node n = ''/dev/dri/renderD'' @ dec_string (n + 0x80)"

definition drm_node :: "nat \<Rightarrow> string" where
  "drm_node i =
     (let dn = i div 2; rn = even i
      in ''/dev/dri/'' @ (if rn then ''renderD'' else ''card'') @ dec_string (dn + (if rn then 0x80 else 0)))"

text \<open>
  \<open>sys_open k name\<close> is the result of the k-th call of \<open>open\<close>.  The results of \<open>openDrmVADisplay\<close>: whether a device was found,
  the display (\<open>None\<close> is null), the descriptor and the events.
\<close>

fun try_nodes :: "(nat \<Rightarrow> string \<Rightarrow> int) \<Rightarrow> (int \<Rightarrow> nat option) \<Rightarrow> nat list \<Rightarrow> nat
    \<Rightarrow> bool \<times> nat option \<times> int \<times> va_event list" where
  "try_nodes sys_open vaGetDisplayDRM [] k = (False, None, -1, [])"
| "try_nodes sys_open vaGetDisplayDRM (i # is) k =
     (if length (drm_node i) \<ge> 128 then (False, None, -1, [])
      else let drmFd = sys_open k (drm_node i)
           in if drmFd \<ge> 0 then (True, vaGetDisplayDRM drmFd, drmFd, [Opened drmFd])
              else try_nodes sys_open vaGetDisplayDRM is (Suc k))"

definition openDrmVADisplay :: "(nat \<Rightarrow> string \<Rightarrow> int) \<Rightarrow> (int \<Rightarrow> nat option) \<Rightarrow> int
    \<Rightarrow> bool \<times> nat option \<times> int \<times> va_event list" where
  "openDrmVADisplay sys_open vaGetDisplayDRM deviceIndex =
     (if 0 \<le> deviceIndex \<and> deviceIndex < int kMaxDrmDevices
      then let drmFd = sys_open 0 (render_node (nat deviceIndex))
           in if drmFd \<ge> 0 then (True, vaGetDisplayDRM drmFd, drmFd, [Opened drmFd])
              else try_nodes sys_open vaGetDisplayDRM [0..<2 * kMaxDrmDevices] 1
      else try_nodes sys_open vaGetDisplayDRM [0..<2 * kMaxDrmDevices] 0)"

definition va_check_status_is_quiet :: "VAStatus \<Rightarrow> bool" where
  "va_check_status_is_quiet va_status \<longleftrightarrow> va_status = VA_STATUS_ERROR_UNIMPLEMENTED"

text \<open>The result, and whether an error is printed.\<close>

definition va_check_status :: "VAStatus \<Rightarrow> bool \<times> bool" where
  "va_check_status va_status =
     (if va_status \<noteq> VA_STATUS_SUCCESS then (False, \<not> va_check_status_is_quiet va_status) else (True, False))"

definition destoryDrmVADisplay :: "nat option \<Rightarrow> int \<Rightarrow> nat option \<times> int \<times> va_event list" where
  "destoryDrmVADisplay vaDisplay fd =
     (None, if fd \<ge> 0 then -1 else fd,
      (case vaDisplay of None \<Rightarrow> [] | Some d \<Rightarrow> [Terminated d]) @ (if fd \<ge> 0 then [Closed fd] else []))"

definition createDrmVADisplay :: "(nat \<Rightarrow> string \<Rightarrow> int) \<Rightarrow> (int \<Rightarrow> nat option) \<Rightarrow> (nat option \<Rightarrow> VAStatus) \<Rightarrow> int
    \<Rightarrow> nat option \<times> int \<times> va_event list" where
  "createDrmVADisplay sys_open vaGetDisplayDRM vaInitialize deviceIndex =
     (case openDrmVADisplay sys_open vaGetDisplayDRM deviceIndex of
        (False, _, fd, es) \<Rightarrow> (None, fd, es)
      | (True, vaDisplay, fd, es) \<Rightarrow>
          if \<not> fst (va_check_status (vaInitialize vaDisplay))
          then if vaDisplay \<noteq> None
               then (None, -1, es @ snd (snd (destoryDrmVADisplay vaDisplay fd)))
               else (None, fd, es)
          else (vaDisplay, fd, es @ (case vaDisplay of None \<Rightarrow> [] | Some d \<Rightarrow> [Initialized d])))"

text \<open>The export of a surface: \<open>None\<close> is the descriptor filled with zeros.\<close>

definition exportVASurfaceHandle :: "(u32 \<Rightarrow> VAStatus \<times> 'd) \<Rightarrow> u32 \<Rightarrow> 'd option" where
  "exportVASurfaceHandle vaExportSurfaceHandle vaSurfaceID =
     (case vaExportSurfaceHandle vaSurfaceID of
        (va_status, desc) \<Rightarrow> if va_status \<noteq> VA_STATUS_SUCCESS then None else Some desc)"

subsection \<open>Driver objects\<close>

definition VA_INVALID_ID :: u32 where
  "VA_INVALID_ID = -1"

text \<open>Configurations, contexts, surfaces and buffers are destroyed in the same way; the result is what is left in the variable.\<close>

definition va_destroy :: "u32 \<Rightarrow> u32 \<times> va_event list" where
  "va_destroy x = (if x \<noteq> VA_INVALID_ID then (VA_INVALID_ID, [Destroyed x]) else (x, []))"

definition va_destroy_config :: "u32 \<Rightarrow> u32 \<times> va_event list" where "va_destroy_config cfg = va_destroy cfg"
definition va_destroy_context :: "u32 \<Rightarrow> u32 \<times> va_event list" where "va_destroy_context ctx = va_destroy ctx"
definition va_destroy_surface :: "u32 \<Rightarrow> u32 \<times> va_event list" where "va_destroy_surface surf = va_destroy surf"
definition va_destroy_buffer :: "u32 \<Rightarrow> u32 \<times> va_event list" where "va_destroy_buffer buf = va_destroy buf"

text \<open>The array may be null; a length beyond its end is undefined.  The results are the array, the length and the events.\<close>

definition va_destroy_buffers :: "u32 list option \<Rightarrow> u32 \<Rightarrow> (u32 list option \<times> u32 \<times> va_event list) outcome" where
  "va_destroy_buffers buf len =
     (case buf of
        None \<Rightarrow> Ret (None, 0, [])
      | Some ids \<Rightarrow>
          if unat len > length ids then UB
          else Ret (Some (map (\<lambda>x. fst (va_destroy_buffer x)) (take (unat len) ids) @ drop (unat len) ids), 0,
                    concat (map (\<lambda>x. snd (va_destroy_buffer x)) (take (unat len) ids))))"

definition va_map_buffer :: "VAStatus \<times> nat option \<Rightarrow> u32 \<Rightarrow> nat option \<times> va_event list" where
  "va_map_buffer vaMapBuffer buf_id =
     (case vaMapBuffer of
        (va_status, data) \<Rightarrow> if \<not> fst (va_check_status va_status) then (None, []) else (data, [Mapped buf_id]))"

text \<open>\<open>want_map\<close>: a pointer for the mapped data was given.  The results: success, what is stored in the two output
  variables (\<open>None\<close> is not written), the events.\<close>

definition va_create_buffer :: "VAStatus \<times> u32 \<Rightarrow> VAStatus \<times> nat option \<Rightarrow> bool
    \<Rightarrow> bool \<times> u32 option \<times> nat option \<times> va_event list" where
  "va_create_buffer vaCreateBuffer vaMapBuffer want_map =
     (case vaCreateBuffer of
        (va_status, buf_id) \<Rightarrow>
          if \<not> fst (va_check_status va_status) then (False, None, None, [])
          else if want_map
          then (case va_map_buffer vaMapBuffer buf_id of
                  (None, es) \<Rightarrow> (False, None, None, Created buf_id # es @ snd (va_destroy_buffer buf_id))
                | (Some data, es) \<Rightarrow> (True, Some buf_id, Some data, Created buf_id # es))
          else (True, Some buf_id, None, [Created buf_id]))"

definition va_unmap_buffer :: "VAStatus \<Rightarrow> u32 \<Rightarrow> 'p option \<Rightarrow> 'p option \<times> va_event list" where
  "va_unmap_buffer vaUnmapBuffer buf_id buf_ptr = (None, if vaUnmapBuffer = VA_STATUS_SUCCESS then [Unmapped buf_id] else [])"

record VAImage =
  im_image_id :: u32
  im_buf :: u32
  im_offsets :: "u32 list"
  im_pitches :: "u32 list"

definition va_image_init_defaults :: "VAImage option \<Rightarrow> VAImage option" where
  "va_image_init_defaults img = map_option (\<lambda>m. m\<lparr>im_image_id := VA_INVALID_ID, im_buf := VA_INVALID_ID\<rparr>) img"

subsection \<open>Translations\<close>

datatype AVCodecID =
    AV_CODEC_ID_MPEG2VIDEO | AV_CODEC_ID_MPEG4 | AV_CODEC_ID_H264 | AV_CODEC_ID_WMV3 | AV_CODEC_ID_VC1 | AV_CODEC_ID_HEVC
  | AV_CODEC_ID_VP8 | AV_CODEC_ID_VP9 | AV_CODEC_ID_OTHER nat

datatype VAProfile =
    VAProfileMPEG2Simple | VAProfileMPEG2Main | VAProfileMPEG4Simple | VAProfileMPEG4Main | VAProfileMPEG4AdvancedSimple
  | VAProfileH264Baseline | VAProfileH264ConstrainedBaseline | VAProfileH264Main | VAProfileH264High
  | VAProfileVC1Simple | VAProfileVC1Main | VAProfileVC1Advanced | VAProfileHEVCMain | VAProfileHEVCMain10
  | VAProfileVP8Version0_3 | VAProfileVP9Profile0

text \<open>The profile that is stored; \<open>None\<close> is the value -1 with the result false.\<close>

fun ffmpeg_to_vaapi_profile :: "AVCodecID \<Rightarrow> int \<Rightarrow> VAProfile option" where
  "ffmpeg_to_vaapi_profile AV_CODEC_ID_MPEG2VIDEO p =
     (if p = 5 then Some VAProfileMPEG2Simple else if p = 4 then Some VAProfileMPEG2Main else None)"
| "ffmpeg_to_vaapi_profile AV_CODEC_ID_MPEG4 p =
     (if p = 0 then Some VAProfileMPEG4Simple else if p = 3 then Some VAProfileMPEG4Main
      else if p = 15 then Some VAProfileMPEG4AdvancedSimple else None)"
| "ffmpeg_to_vaapi_profile AV_CODEC_ID_H264 p =
     (if p = 66 then Some VAProfileH264Baseline else if p = 578 then Some VAProfileH264ConstrainedBaseline
      else if p = 77 then Some VAProfileH264Main else if p = 100 then Some VAProfileH264High else None)"
| "ffmpeg_to_vaapi_profile AV_CODEC_ID_WMV3 p =
     (if p = 0 then Some VAProfileVC1Simple else if p = 1 then Some VAProfileVC1Main
      else if p = 3 then Some VAProfileVC1Advanced else None)"
| "ffmpeg_to_vaapi_profile AV_CODEC_ID_VC1 p =
     (if p = 0 then Some VAProfileVC1Simple else if p = 1 then Some VAProfileVC1Main
      else if p = 3 then Some VAProfileVC1Advanced else None)"
| "ffmpeg_to_vaapi_profile AV_CODEC_ID_HEVC p =
     (if p = 1 then Some VAProfileHEVCMain else if p = 2 then Some VAProfileHEVCMain10 else None)"
| "ffmpeg_to_vaapi_profile AV_CODEC_ID_VP8 p = Some VAProfileVP8Version0_3"
| "ffmpeg_to_vaapi_profile AV_CODEC_ID_VP9 p = Some VAProfileVP9Profile0"
| "ffmpeg_to_vaapi_profile (AV_CODEC_ID_OTHER n) p = None"

datatype va_rt_format = VA_RT_FORMAT_YUV400 | VA_RT_FORMAT_YUV420 | VA_RT_FORMAT_YUV422 | VA_RT_FORMAT_RGB32 | VA_RT_FORMAT_ZERO

definition VA_FOURCC :: "char \<Rightarrow> char \<Rightarrow> char \<Rightarrow> char \<Rightarrow> u32" where
  "VA_FOURCC a b c d =
     of_char a OR push_bit 8 (of_char b) OR push_bit 16 (of_char c) OR push_bit 24 (of_char d)"

record ffva_pix_fmt_map =
  fm_pix_fmt :: AVPixelFormat
  fm_va_fourcc :: u32
  fm_va_chroma :: va_rt_format

text \<open>The table on a little-endian machine with the vendored libavutil; its last entry is the end mark.\<close>

definition g_ffva_pix_fmt_map :: "ffva_pix_fmt_map list" where
  "g_ffva_pix_fmt_map = map (\<lambda>(p, f, c). \<lparr>fm_pix_fmt = p, fm_va_fourcc = f, fm_va_chroma = c\<rparr>)
     [(8, VA_FOURCC (CHR ''Y'') (CHR ''8'') (CHR ''0'') (CHR ''0''), VA_RT_FORMAT_YUV400),
      (AV_PIX_FMT_YUV420P, VA_FOURCC (CHR ''I'') (CHR ''4'') (CHR ''2'') (CHR ''0''), VA_RT_FORMAT_YUV420),
      (AV_PIX_FMT_NV12, VA_FOURCC (CHR ''N'') (CHR ''V'') (CHR ''1'') (CHR ''2''), VA_RT_FORMAT_YUV420),
      (1, VA_FOURCC (CHR ''Y'') (CHR ''U'') (CHR ''Y'') (CHR ''2''), VA_RT_FORMAT_YUV422),
      (15, VA_FOURCC (CHR ''U'') (CHR ''Y'') (CHR ''V'') (CHR ''Y''), VA_RT_FORMAT_YUV422),
      (120, VA_FOURCC (CHR ''R'') (CHR ''G'') (CHR ''B'') (CHR ''X''), VA_RT_FORMAT_RGB32),
      (118, VA_FOURCC (CHR ''B'') (CHR ''G'') (CHR ''R'') (CHR ''X''), VA_RT_FORMAT_RGB32),
      (27, VA_FOURCC (CHR ''R'') (CHR ''G'') (CHR ''B'') (CHR ''A''), VA_RT_FORMAT_RGB32),
      (25, VA_FOURCC (CHR ''B'') (CHR ''G'') (CHR ''R'') (CHR ''A''), VA_RT_FORMAT_RGB32),
      (AV_PIX_FMT_NONE, 0, VA_RT_FORMAT_ZERO)]"

text \<open>The search ends at the first entry with \<open>stop\<close> or \<open>hit\<close>; without one it runs off the table.\<close>

fun search_map :: "(ffva_pix_fmt_map \<Rightarrow> bool) \<Rightarrow> (ffva_pix_fmt_map \<Rightarrow> bool) \<Rightarrow> ffva_pix_fmt_map list \<Rightarrow> ffva_pix_fmt_map outcome" where
  "search_map stop hit [] = UB"
| "search_map stop hit (m # ms) = (if stop m \<or> hit m then Ret m else search_map stop hit ms)"

definition ffmpeg_to_vaapi_pix_fmt :: "AVPixelFormat \<Rightarrow> (bool \<times> u32 \<times> va_rt_format) outcome" where
  "ffmpeg_to_vaapi_pix_fmt pix_fmt =
     (case search_map (\<lambda>m. fm_pix_fmt m = AV_PIX_FMT_NONE) (\<lambda>m. fm_pix_fmt m = pix_fmt) g_ffva_pix_fmt_map of
        Ret m \<Rightarrow> Ret (fm_pix_fmt m \<noteq> AV_PIX_FMT_NONE, fm_va_fourcc m, fm_va_chroma m)
      | Wait \<Rightarrow> Wait | UB \<Rightarrow> UB)"

definition vaapi_to_ffmpeg_pix_fmt :: "u32 \<Rightarrow> (bool \<times> AVPixelFormat) outcome" where
  "vaapi_to_ffmpeg_pix_fmt fourcc =
     (case search_map (\<lambda>m. fm_va_fourcc m = 0) (\<lambda>m. fm_va_fourcc m = fourcc) g_ffva_pix_fmt_map of
        Ret m \<Rightarrow> Ret (fm_pix_fmt m \<noteq> AV_PIX_FMT_NONE, fm_pix_fmt m)
      | Wait \<Rightarrow> Wait | UB \<Rightarrow> UB)"

datatype averror = AVERROR_ENOTSUP | AVERROR_EINVAL | AVERROR_ENOMEM | AVERROR_ENOSYS | AVERROR_EBUSY | AVERROR_UNKNOWN

fun vaapi_to_ffmpeg_error :: "VAStatus \<Rightarrow> averror" where
  "vaapi_to_ffmpeg_error VA_STATUS_ERROR_OPERATION_FAILED = AVERROR_ENOTSUP"
| "vaapi_to_ffmpeg_error VA_STATUS_ERROR_INVALID_DISPLAY = AVERROR_EINVAL"
| "vaapi_to_ffmpeg_error VA_STATUS_ERROR_INVALID_CONFIG = AVERROR_EINVAL"
| "vaapi_to_ffmpeg_error VA_STATUS_ERROR_INVALID_CONTEXT = AVERROR_EINVAL"
| "vaapi_to_ffmpeg_error VA_STATUS_ERROR_INVALID_SURFACE = AVERROR_EINVAL"
| "vaapi_to_ffmpeg_error VA_STATUS_ERROR_INVALID_BUFFER = AVERROR_EINVAL"
| "vaapi_to_ffmpeg_error VA_STATUS_ERROR_INVALID_IMAGE = AVERROR_EINVAL"
| "vaapi_to_ffmpeg_error VA_STATUS_ERROR_INVALID_SUBPICTURE = AVERROR_EINVAL"
| "vaapi_to_ffmpeg_error VA_STATUS_ERROR_INVALID_PARAMETER = AVERROR_EINVAL"
| "vaapi_to_ffmpeg_error VA_STATUS_ERROR_INVALID_VALUE = AVERROR_EINVAL"
| "vaapi_to_ffmpeg_error VA_STATUS_ERROR_ALLOCATION_FAILED = AVERROR_ENOMEM"
| "vaapi_to_ffmpeg_error VA_STATUS_ERROR_UNIMPLEMENTED = AVERROR_ENOSYS"
| "vaapi_to_ffmpeg_error VA_STATUS_ERROR_SURFACE_BUSY = AVERROR_EBUSY"
| "vaapi_to_ffmpeg_error _ = AVERROR_UNKNOWN"

subsection \<open>Saving a surface\<close>

text \<open>
  A row of a plane: \<open>width\<close> bytes from the offset and the product of the row number and the pitch, a 32-bit
  number that wraps.  A negative width becomes a huge size.
\<close>

definition plane_row :: "byte list \<Rightarrow> u32 \<Rightarrow> u32 \<Rightarrow> int \<Rightarrow> nat \<Rightarrow> byte list outcome" where
  "plane_row yuv_data offset pitch width i =
     (let start = unat offset + unat (of_nat i * pitch)
      in if 0 \<le> width \<and> start + nat width \<le> length yuv_data then Ret (take (nat width) (drop start yuv_data)) else UB)"

fun write_rows :: "(nat \<Rightarrow> byte list outcome) \<Rightarrow> nat list \<Rightarrow> byte list outcome" where
  "write_rows row [] = Ret []"
| "write_rows row (i # is) =
     (case row i of
        Ret bs \<Rightarrow> (case write_rows row is of Ret rest \<Rightarrow> Ret (bs @ rest) | Wait \<Rightarrow> Wait | UB \<Rightarrow> UB)
      | Wait \<Rightarrow> Wait | UB \<Rightarrow> UB)"

text \<open>What \<open>save_yuv_to_file\<close> appends to the file; division of the height truncates.\<close>

definition save_yuv_to_file :: "byte list \<Rightarrow> int \<Rightarrow> int \<Rightarrow> VAImage \<Rightarrow> byte list outcome" where
  "save_yuv_to_file yuv_data width height va_image =
     (if length (im_offsets va_image) < 2 \<or> length (im_pitches va_image) < 2 then UB
      else case write_rows (plane_row yuv_data (im_offsets va_image ! 0) (im_pitches va_image ! 0) width) [0..<nat height] of
             Ret y \<Rightarrow>
               (case write_rows (plane_row yuv_data (im_offsets va_image ! 1) (im_pitches va_image ! 1) width) [0..<nat (height div 2)] of
                  Ret uv \<Rightarrow> Ret (y @ uv) | Wait \<Rightarrow> Wait | UB \<Rightarrow> UB)
           | Wait \<Rightarrow> Wait | UB \<Rightarrow> UB)"

record surface_calls =
  sc_fopen :: bool
  sc_create_image :: "VAStatus \<times> VAImage"
  sc_get_image :: VAStatus
  sc_map :: "VAStatus \<times> byte list"

definition get_surface_image :: "surface_calls \<Rightarrow> va_event list" where
  "get_surface_image sc =
     (case sc_create_image sc of
        (va_status, va_image) \<Rightarrow> if va_status \<noteq> VA_STATUS_SUCCESS then [] else [ImageCreated, ImageDestroyed])"

text \<open>The result, what is appended to the file and the events.\<close>

definition save_surface_to_file :: "surface_calls \<Rightarrow> int \<Rightarrow> int \<Rightarrow> (int \<times> byte list \<times> va_event list) outcome" where
  "save_surface_to_file sc width height =
     (if \<not> sc_fopen sc then Ret (-1, [], [])
      else case sc_create_image sc of
        (s1, va_image) \<Rightarrow>
          if s1 \<noteq> VA_STATUS_SUCCESS then Ret (-1, [], [FileOpened, FileClosed])
          else if sc_get_image sc \<noteq> VA_STATUS_SUCCESS
          then Ret (-1, [], [FileOpened, ImageCreated, ImageDestroyed, FileClosed])
          else case sc_map sc of
            (s3, image_data) \<Rightarrow>
              if s3 \<noteq> VA_STATUS_SUCCESS then Ret (-1, [], [FileOpened, ImageCreated, ImageDestroyed, FileClosed])
              else case save_yuv_to_file image_data width height va_image of
                     Ret bs \<Rightarrow> Ret (0, bs, [FileOpened, ImageCreated, Mapped (im_buf va_image), Unmapped (im_buf va_image),
                                             ImageDestroyed, FileClosed])
                   | Wait \<Rightarrow> Wait | UB \<Rightarrow> UB)"

subsection \<open>Descriptors and displays are released\<close>

text \<open>The descriptors that are open and the displays that are initialised after some events.\<close>

fun held_fds :: "va_event list \<Rightarrow> int list \<Rightarrow> int list" where
  "held_fds [] fds = fds"
| "held_fds (Opened fd # es) fds = held_fds es (fd # fds)"
| "held_fds (Closed fd # es) fds = held_fds es (remove1 fd fds)"
| "held_fds (_ # es) fds = held_fds es fds"

fun live_displays :: "va_event list \<Rightarrow> nat list \<Rightarrow> nat list" where
  "live_displays [] ds = ds"
| "live_displays (Initialized d # es) ds = live_displays es (d # ds)"
| "live_displays (Terminated d # es) ds = live_displays es (remove1 d ds)"
| "live_displays (_ # es) ds = live_displays es ds"

definition opens_device :: "bool \<times> nat option \<times> int \<times> va_event list \<Rightarrow> (int \<Rightarrow> nat option) \<Rightarrow> bool" where
  "opens_device r vaGetDisplayDRM \<longleftrightarrow>
     (\<exists>fd \<ge> 0. r = (True, vaGetDisplayDRM fd, fd, [Opened fd])) \<or> r = (False, None, -1, [])"

lemma try_nodes_result: "opens_device (try_nodes sys_open vaGet is k) vaGet"
  by (induction sys_open vaGet "is" k rule: try_nodes.induct) (auto simp: opens_device_def Let_def)

lemma openDrmVADisplay_result: "opens_device (openDrmVADisplay sys_open vaGet deviceIndex) vaGet"
  using try_nodes_result by (auto simp: openDrmVADisplay_def Let_def opens_device_def)

text \<open>
  Nothing is lost when a display is created: a display that is returned is initialised and its descriptor is the one that
  is open; without one nothing is initialised, and a descriptor is open exactly when the device was opened and the driver had
  no display for it, in which case it is handed out although the display is null.
  In every case \<open>destoryDrmVADisplay\<close> on the two results closes and terminates everything.
\<close>

theorem createDrmVADisplay_resources:
  assumes "createDrmVADisplay sys_open vaGet vaInitialize deviceIndex = (d, fd, es)"
  shows "live_displays es [] = (case d of None \<Rightarrow> [] | Some x \<Rightarrow> [x])
     \<and> held_fds es [] = (if fd < 0 then [] else [fd])
     \<and> (d \<noteq> None \<longrightarrow> fd \<ge> 0)
     \<and> (d = None \<and> fd \<ge> 0 \<longrightarrow> vaGet fd = None)
     \<and> (case destoryDrmVADisplay d fd of (d', fd', es') \<Rightarrow>
          d' = None \<and> fd' < 0 \<and> held_fds (es @ es') [] = [] \<and> live_displays (es @ es') [] = [])"
  using openDrmVADisplay_result [of sys_open vaGet deviceIndex] assms
  by (auto simp: createDrmVADisplay_def opens_device_def destoryDrmVADisplay_def va_check_status_def split: if_splits option.splits)

theorem createDrmVADisplay_resources_witness:
  "createDrmVADisplay (\<lambda>k n. if n = ''/dev/dri/card1'' then 7 else -1) (\<lambda>_. Some 3) (\<lambda>_. VA_STATUS_SUCCESS) 2
      = (Some 3, 7, [Opened 7, Initialized 3])
   \<and> held_fds [Opened 7, Initialized 3] [] = [7]"
proof -
  have c: "createDrmVADisplay (\<lambda>k n. if n = ''/dev/dri/card1'' then 7 else -1) (\<lambda>_. Some 3) (\<lambda>_. VA_STATUS_SUCCESS) 2
      = (Some 3, 7, [Opened 7, Initialized 3])"
    by code_simp
  show ?thesis using c createDrmVADisplay_resources [OF c] by simp
qed

subsection \<open>Driver objects and translations\<close>

text \<open>An object is destroyed once: a second call on the variable does nothing.\<close>

lemma va_destroy_twice: "va_destroy (fst (va_destroy x)) = (VA_INVALID_ID, [])"
  by (simp add: va_destroy_def)

lemma va_destroy_buffers_all:
  assumes "unat len \<le> length ids"
  obtains ids' where "va_destroy_buffers (Some ids) len = Ret (Some ids', 0, map Destroyed (filter (\<lambda>x. x \<noteq> VA_INVALID_ID) (take (unat len) ids)))"
    and "\<forall>i < unat len. ids' ! i = VA_INVALID_ID"
proof
  let ?ids' = "map (\<lambda>x. fst (va_destroy_buffer x)) (take (unat len) ids) @ drop (unat len) ids"
  have "concat (map (\<lambda>x. snd (va_destroy_buffer x)) xs) = map Destroyed (filter (\<lambda>x. x \<noteq> VA_INVALID_ID) xs)" for xs
    by (induction xs) (simp_all add: va_destroy_buffer_def va_destroy_def)
  then show "va_destroy_buffers (Some ids) len = Ret (Some ?ids', 0, map Destroyed (filter (\<lambda>x. x \<noteq> VA_INVALID_ID) (take (unat len) ids)))"
    using assms by (simp add: va_destroy_buffers_def)
  show "\<forall>i < unat len. ?ids' ! i = VA_INVALID_ID"
    using assms by (auto simp: nth_append va_destroy_buffer_def va_destroy_def min_def)
qed

text \<open>A buffer that is not handed out has been destroyed.\<close>

lemma va_create_buffer_balanced:
  assumes "va_create_buffer create mapped want = (ok, buf, data, es)" and "snd create \<noteq> VA_INVALID_ID"
  shows "if ok then buf = Some (snd create) \<and> Created (snd create) \<in> set es \<and> Destroyed (snd create) \<notin> set es
     else buf = None \<and> (fst create = VA_STATUS_SUCCESS \<longrightarrow> last es = Destroyed (snd create))"
  using assms
  by (auto simp: va_create_buffer_def va_map_buffer_def va_check_status_def va_destroy_buffer_def va_destroy_def
      split: prod.splits if_splits option.splits)

text \<open>The table with its codes evaluated.\<close>

lemma pix_fmt_table:
  "g_ffva_pix_fmt_map = map (\<lambda>(p, f, c). \<lparr>fm_pix_fmt = p, fm_va_fourcc = f, fm_va_chroma = c\<rparr>)
     [(8, 0x30303859, VA_RT_FORMAT_YUV400), (0, 0x30323449, VA_RT_FORMAT_YUV420), (23, 0x3231564E, VA_RT_FORMAT_YUV420),
      (1, 0x32595559, VA_RT_FORMAT_YUV422), (15, 0x59565955, VA_RT_FORMAT_YUV422), (120, 0x58424752, VA_RT_FORMAT_RGB32),
      (118, 0x58524742, VA_RT_FORMAT_RGB32), (27, 0x41424752, VA_RT_FORMAT_RGB32), (25, 0x41524742, VA_RT_FORMAT_RGB32),
      (-1, 0, VA_RT_FORMAT_ZERO)]"
  by code_simp

text \<open>
  The translations of pixel formats are inverse to each other: a format is translated to a code exactly when the code is translated
  back to it; and for an unknown format or code the search stops at the end mark instead of running off the table.
\<close>

theorem pix_fmt_roundtrip:
  "((\<exists>c. ffmpeg_to_vaapi_pix_fmt p = Ret (True, f, c)) \<longleftrightarrow> vaapi_to_ffmpeg_pix_fmt f = Ret (True, p))
   \<and> (\<exists>r. ffmpeg_to_vaapi_pix_fmt p = Ret r) \<and> (\<exists>r. vaapi_to_ffmpeg_pix_fmt f = Ret r)"
  by (auto simp: ffmpeg_to_vaapi_pix_fmt_def vaapi_to_ffmpeg_pix_fmt_def pix_fmt_table)

subsection \<open>Saving a surface\<close>

lemma write_rows_Ret:
  assumes "\<And>i. i \<in> set is \<Longrightarrow> row i = Ret (f i)"
  shows "write_rows row is = Ret (concat (map f is))"
  using assms by (induction "is") auto

definition rows_of :: "byte list \<Rightarrow> u32 \<Rightarrow> u32 \<Rightarrow> nat \<Rightarrow> nat \<Rightarrow> byte list list" where
  "rows_of data offset pitch w n = map (\<lambda>i. take w (drop (unat offset + i * unat pitch) data)) [0..<n]"

definition plane_inside :: "byte list \<Rightarrow> u32 \<Rightarrow> u32 \<Rightarrow> nat \<Rightarrow> nat \<Rightarrow> bool" where
  "plane_inside data offset pitch w n \<longleftrightarrow>
     list_all (\<lambda>i. unat offset + i * unat pitch + w \<le> length data \<and> i * unat pitch < 2 ^ 32) [0..<n]"

lemma unat_row:
  assumes "i * unat (p :: u32) < 2 ^ 32"
  shows "unat (of_nat i * p) = i * unat p"
proof -
  have "of_nat i * p = of_nat (i * unat p)" by simp
  then have "unat (of_nat i * p) = unat (of_nat (i * unat p) :: u32)" by (rule arg_cong)
  also have "\<dots> = i * unat p" using assms by (simp only: unat_of_nat len_bit0 len_num1) simp
  finally show ?thesis .
qed

lemma plane_rows:
  assumes "plane_inside data offset pitch w n"
  shows "write_rows (plane_row data offset pitch (int w)) [0..<n] = Ret (concat (rows_of data offset pitch w n))"
proof -
  have "plane_row data offset pitch (int w) i = Ret (take w (drop (unat offset + i * unat pitch) data))" if "i \<in> set [0..<n]" for i
    using assms that by (auto simp: plane_inside_def list_all_iff plane_row_def unat_row)
  then show ?thesis unfolding rows_of_def by (rule write_rows_Ret)
qed

lemma rows_length: "plane_inside data offset pitch w n \<Longrightarrow> length (concat (rows_of data offset pitch w n)) = n * w"
  by (induction n) (auto simp: plane_inside_def rows_of_def)

text \<open>What is acquired while a surface is saved is released.\<close>

definition released :: "va_event list \<Rightarrow> bool" where
  "released es \<longleftrightarrow>
     count_list es FileOpened = count_list es FileClosed \<and> count_list es ImageCreated = count_list es ImageDestroyed
     \<and> (\<forall>b. count_list es (Mapped b) = count_list es (Unmapped b))"

text \<open>
  Saving a surface whose image lies inside the mapped memory always returns and releases the file, the image and the mapping on
  every path.  It returns 0 exactly when all calls succeed, and then has appended the rows of the image
  without their padding: \<open>h\<close> rows of luma and \<open>h div 2\<close> rows of chroma, all of the same width.
\<close>

theorem save_surface_to_file_result:
  assumes "2 \<le> length (im_offsets img)" and "2 \<le> length (im_pitches img)"
    and "plane_inside data (im_offsets img ! 0) (im_pitches img ! 0) w h"
    and "plane_inside data (im_offsets img ! 1) (im_pitches img ! 1) w (h div 2)"
    and "sc_create_image sc = (s, img)" and "sc_map sc = (m, data)"
  shows "\<exists>r bs es. save_surface_to_file sc (int w) (int h) = Ret (r, bs, es) \<and> released es
     \<and> (r = 0 \<longleftrightarrow> sc_fopen sc \<and> s = VA_STATUS_SUCCESS \<and> sc_get_image sc = VA_STATUS_SUCCESS \<and> m = VA_STATUS_SUCCESS)
     \<and> bs = (if r = 0 then concat (rows_of data (im_offsets img ! 0) (im_pitches img ! 0) w h
                                    @ rows_of data (im_offsets img ! 1) (im_pitches img ! 1) w (h div 2)) else [])
     \<and> length bs = (if r = 0 then (h + h div 2) * w else 0)"
proof -
  have n: "nat (int h div 2) = h div 2" by (simp add: nat_div_distrib)
  have y: "save_yuv_to_file data (int w) (int h) img =
      Ret (concat (rows_of data (im_offsets img ! 0) (im_pitches img ! 0) w h)
           @ concat (rows_of data (im_offsets img ! 1) (im_pitches img ! 1) w (h div 2)))"
    using assms(1,2) plane_rows [OF assms(3)] plane_rows [OF assms(4)] by (simp add: save_yuv_to_file_def n)
  show ?thesis
    using assms(5,6) y rows_length [OF assms(3)] rows_length [OF assms(4)]
    by (auto simp: save_surface_to_file_def released_def add_mult_distrib)
qed

theorem save_surface_to_file_result_witness:
  "save_surface_to_file
     \<lparr>sc_fopen = True, sc_create_image = (VA_STATUS_SUCCESS, \<lparr>im_image_id = 1, im_buf = 2, im_offsets = [0, 8], im_pitches = [4, 4]\<rparr>),
      sc_get_image = VA_STATUS_SUCCESS, sc_map = (VA_STATUS_SUCCESS, [1, 2, 0, 0, 3, 4, 0, 0, 5, 6, 0, 0])\<rparr> 2 2
   = Ret (0, [1, 2, 3, 4, 5, 6], [FileOpened, ImageCreated, Mapped 2, Unmapped 2, ImageDestroyed, FileClosed])"
proof -
  let ?img = "\<lparr>im_image_id = 1, im_buf = 2, im_offsets = [0, 8], im_pitches = [4, 4]\<rparr> :: VAImage"
  let ?data = "[1, 2, 0, 0, 3, 4, 0, 0, 5, 6, 0, 0] :: byte list"
  let ?sc = "\<lparr>sc_fopen = True, sc_create_image = (VA_STATUS_SUCCESS, ?img), sc_get_image = VA_STATUS_SUCCESS, sc_map = (VA_STATUS_SUCCESS, ?data)\<rparr>"
  have i: "plane_inside ?data (im_offsets ?img ! 0) (im_pitches ?img ! 0) 2 2"
      "plane_inside ?data (im_offsets ?img ! 1) (im_pitches ?img ! 1) 2 (2 div 2)"
    by (simp_all add: plane_inside_def upt_rec)
  have c: "concat (rows_of ?data (im_offsets ?img ! 0) (im_pitches ?img ! 0) 2 2
      @ rows_of ?data (im_offsets ?img ! 1) (im_pitches ?img ! 1) 2 (2 div 2)) = [1, 2, 3, 4, 5, 6]"
    by (simp add: rows_of_def upt_rec)
  obtain r bs es where e: "save_surface_to_file ?sc (int 2) (int 2) = Ret (r, bs, es)" "r = 0" "bs = [1, 2, 3, 4, 5, 6]"
    using save_surface_to_file_result [OF _ _ i, of ?sc VA_STATUS_SUCCESS VA_STATUS_SUCCESS] c by auto
  then show ?thesis by (auto simp: save_surface_to_file_def split: outcome.splits)
qed

end
