(* ===== verification/RenderBufferQueues.thy ===== *)
theory RenderBufferQueues
  imports Doubles Transition_Systems "HOL-Library.Multiset"
begin

text \<open>
  Class \<open>RenderBufferQueue\<close> of the Qt player (\<open>src/examples/qt_gui/src/VideoPlayer/VideoRender/RenderBufferQueue.h\<close>,
  \<open>RenderBufferQueue.cpp\<close>): the frame buffers that the rendering thread fills and the display thread shows.

  A buffer is an index into \<open>rq_buffers\<close>.  A call is one step under the mutex; \<open>acquireForRender\<close> that has to wait is
  \<open>Wait\<close> and is entered again after the wait.  A \<open>GLsync\<close> is a number, \<open>rq_deletedSyncs\<close> records the calls of \<open>glDeleteSync\<close>;
  the status of a sync object and the readings of the timer are arguments.  The branches of \<open>enableDebug_\<close>, which
  stays false, only write log messages.
\<close>

datatype GLenum = GL_ALREADY_SIGNALED | GL_CONDITION_SATISFIED | GL_TIMEOUT_EXPIRED | GL_WAIT_FAILED

text \<open>\<open>rb_fbo\<close>: null, or whether the frame buffer object is valid.\<close>

record RenderBuffer =
  rb_fbo :: "bool option"
  rb_fence :: "nat option"
  rb_ready :: bool
  rb_inUse :: bool
  rb_displaying :: bool
  rb_frameIndex :: int
  rb_pendingRelease :: bool
  rb_renderTime :: int
  rb_displayStartTime :: int
  rb_durationMs :: double
  rb_outdated :: bool

record RenderBufferQueue =
  rq_buffers :: "RenderBuffer list"
  rq_initialized :: bool
  rq_renderedFrameCount :: int
  rq_droppedFrameCount :: int
  rq_outdatedFrameCount :: int
  rq_displayedFrameCount :: int
  rq_frameCounter :: int
  rq_lastDisplayBuffer :: "nat option"
  rq_deletedSyncs :: "nat list"

record RenderStatistics =
  rs_renderingBuffers :: int
  rs_displayingBuffers :: int
  rs_droppedFrames :: int
  rs_outdatedFrames :: int
  rs_averageFps :: double

definition RenderBuffer_new :: RenderBuffer where
  "RenderBuffer_new = \<lparr>rb_fbo = None, rb_fence = None, rb_ready = False, rb_inUse = False, rb_displaying = False,
     rb_frameIndex = -1, rb_pendingRelease = False, rb_renderTime = 0, rb_displayStartTime = 0, rb_durationMs = Fin 0,
     rb_outdated = False\<rparr>"

text \<open>\<open>func\<close>: whether the pointer to the OpenGL functions is not null.  The sync object that is deleted is \<open>sync_of\<close>.\<close>

definition RenderBuffer_reset :: "bool \<Rightarrow> RenderBuffer \<Rightarrow> RenderBuffer" where
  "RenderBuffer_reset func b =
     (if func then b\<lparr>rb_fence := None\<rparr> else b)
       \<lparr>rb_ready := False, rb_inUse := False, rb_displaying := False, rb_pendingRelease := False, rb_outdated := False,
        rb_frameIndex := -1, rb_renderTime := 0, rb_displayStartTime := 0, rb_durationMs := Fin 0\<rparr>"

definition sync_of :: "RenderBuffer \<Rightarrow> nat list" where
  "sync_of b = (case rb_fence b of None \<Rightarrow> [] | Some f \<Rightarrow> [f])"

subsection \<open>Loops over the buffers\<close>

definition upd_buffer :: "nat \<Rightarrow> (RenderBuffer \<Rightarrow> RenderBuffer) \<Rightarrow> RenderBufferQueue \<Rightarrow> RenderBufferQueue" where
  "upd_buffer i f q = q\<lparr>rq_buffers := (rq_buffers q)[i := f (rq_buffers q ! i)]\<rparr>"

text \<open>A loop that deletes the sync object of each buffer with \<open>P\<close> and updates the buffer.\<close>

definition clear_each :: "(RenderBuffer \<Rightarrow> bool) \<Rightarrow> (RenderBuffer \<Rightarrow> RenderBuffer) \<Rightarrow> RenderBufferQueue \<Rightarrow> RenderBufferQueue" where
  "clear_each P f q =
     q\<lparr>rq_buffers := map (\<lambda>b. if P b then (f b)\<lparr>rb_fence := None\<rparr> else b) (rq_buffers q),
       rq_deletedSyncs := rq_deletedSyncs q @ concat (map sync_of (filter P (rq_buffers q)))\<rparr>"

text \<open>The condition the loops share: rendered, and neither shown, in use nor waiting for release.\<close>

definition idle_ready :: "RenderBuffer \<Rightarrow> bool" where
  "idle_ready b \<longleftrightarrow> rb_ready b \<and> \<not> rb_displaying b \<and> \<not> rb_inUse b \<and> \<not> rb_pendingRelease b"

definition fence_pending :: "RenderBuffer \<Rightarrow> bool" where
  "fence_pending b \<longleftrightarrow> rb_fence b \<noteq> None \<and> \<not> rb_ready b \<and> \<not> rb_inUse b"

definition RenderBufferQueue_updateFenceStatus :: "(nat \<Rightarrow> GLenum) \<Rightarrow> RenderBufferQueue \<Rightarrow> RenderBufferQueue" where
  "RenderBufferQueue_updateFenceStatus glClientWaitSync q =
     (let status = (\<lambda>b. glClientWaitSync (the (rb_fence b)));
          signalled = (\<lambda>b. fence_pending b \<and> (status b = GL_ALREADY_SIGNALED \<or> status b = GL_CONDITION_SATISFIED));
          failed = (\<lambda>b. fence_pending b \<and> status b = GL_WAIT_FAILED)
      in (clear_each (\<lambda>b. signalled b \<or> failed b) (\<lambda>b. b\<lparr>rb_ready := True\<rparr>) q)
           \<lparr>rq_renderedFrameCount := rq_renderedFrameCount q + int (length (filter signalled (rq_buffers q)))\<rparr>)"

definition RenderBufferQueue_processPendingReleases :: "RenderBufferQueue \<Rightarrow> RenderBufferQueue" where
  "RenderBufferQueue_processPendingReleases q =
     clear_each rb_pendingRelease
       (\<lambda>b. b\<lparr>rb_ready := False, rb_displaying := False, rb_pendingRelease := False, rb_outdated := False\<rparr>) q"

text \<open>One iteration of \<open>processOutdatedFrames\<close>; the buffers that still count are counted in the current state.\<close>

definition mark_outdated :: "int \<Rightarrow> nat \<Rightarrow> RenderBufferQueue \<Rightarrow> RenderBufferQueue" where
  "mark_outdated now i q =
     (let b = rq_buffers q ! i
      in if idle_ready b \<and> d_lt (d_mul (rb_durationMs b) (Fin 3)) (Fin (of_int (now - rb_renderTime b)))
            \<and> 1 < length (filter (\<lambda>b. idle_ready b \<and> \<not> rb_outdated b) (rq_buffers q))
         then (upd_buffer i (\<lambda>b. b\<lparr>rb_outdated := True\<rparr>) q)\<lparr>rq_outdatedFrameCount := rq_outdatedFrameCount q + 1\<rparr>
         else q)"

definition RenderBufferQueue_processOutdatedFrames :: "int \<Rightarrow> RenderBufferQueue \<Rightarrow> RenderBufferQueue" where
  "RenderBufferQueue_processOutdatedFrames now q = fold (mark_outdated now) [0..<length (rq_buffers q)] q"

definition RenderBufferQueue_dropOlderReadyFrames :: "int \<Rightarrow> RenderBufferQueue \<Rightarrow> RenderBufferQueue" where
  "RenderBufferQueue_dropOlderReadyFrames thresholdFrameIndex q =
     (let old = (\<lambda>b. idle_ready b \<and> rb_frameIndex b < thresholdFrameIndex)
      in (clear_each old
            (\<lambda>b. b\<lparr>rb_ready := False, rb_inUse := False, rb_pendingRelease := False, rb_outdated := False, rb_displaying := False\<rparr>) q)
           \<lparr>rq_droppedFrameCount := rq_droppedFrameCount q + int (length (filter old (rq_buffers q)))\<rparr>)"

definition current_index :: "RenderBufferQueue \<Rightarrow> int" where
  "current_index q = (case rq_lastDisplayBuffer q of None \<Rightarrow> -1 | Some i \<Rightarrow> rb_frameIndex (rq_buffers q ! i))"

definition RenderBufferQueue_smartCleanupIfNeeded :: "RenderBufferQueue \<Rightarrow> RenderBufferQueue" where
  "RenderBufferQueue_smartCleanupIfNeeded q =
     (let currentDisplayFrame = current_index q;
          oldFrameCount = length (filter (\<lambda>b. idle_ready b \<and> currentDisplayFrame \<ge> 0 \<and> rb_frameIndex b < currentDisplayFrame)
                                    (rq_buffers q))
      in if oldFrameCount > length (rq_buffers q) div 2
         then RenderBufferQueue_dropOlderReadyFrames currentDisplayFrame q
         else q)"

definition available :: "RenderBuffer \<Rightarrow> bool" where
  "available b \<longleftrightarrow> \<not> rb_inUse b \<and> \<not> rb_displaying b \<and> \<not> rb_ready b \<and> \<not> rb_pendingRelease b"

definition RenderBufferQueue_checkAndGetAvaliableBuffer ::
    "(nat \<Rightarrow> GLenum) \<Rightarrow> int \<Rightarrow> RenderBufferQueue \<Rightarrow> nat option \<times> RenderBufferQueue" where
  "RenderBufferQueue_checkAndGetAvaliableBuffer glClientWaitSync now q =
     (let q1 = RenderBufferQueue_processOutdatedFrames now
                 (RenderBufferQueue_updateFenceStatus glClientWaitSync (RenderBufferQueue_processPendingReleases q))
      in (List.find (\<lambda>i. available (rq_buffers q1 ! i)) [0..<length (rq_buffers q1)], q1))"

subsection \<open>Public operations\<close>

text \<open>The conversion of a 64-bit number to \<open>int\<close>.\<close>

definition narrow32 :: "int \<Rightarrow> int" where
  "narrow32 n = sint (of_int n :: u32)"

definition RenderBufferQueue_new :: "int \<Rightarrow> RenderBufferQueue" where
  "RenderBufferQueue_new bufferCount =
     \<lparr>rq_buffers = replicate (nat bufferCount) RenderBuffer_new, rq_initialized = False, rq_renderedFrameCount = 0,
      rq_droppedFrameCount = 0, rq_outdatedFrameCount = 0, rq_displayedFrameCount = 0, rq_frameCounter = 0,
      rq_lastDisplayBuffer = None, rq_deletedSyncs = []\<rparr>"

definition RenderBufferQueue_cleanup :: "RenderBufferQueue \<Rightarrow> RenderBufferQueue" where
  "RenderBufferQueue_cleanup q =
     (clear_each (\<lambda>_. True) (\<lambda>b. (RenderBuffer_reset True b)\<lparr>rb_fbo := None\<rparr>) q)
       \<lparr>rq_lastDisplayBuffer := None, rq_initialized := False\<rparr>"

text \<open>
  The loop of \<open>initialize\<close>: the frame buffer object of each buffer is created (\<open>createFbo i\<close>) and the buffer is reset.
  When one is not valid, \<open>cleanup\<close> is called while the mutex, which is not recursive, is held: the call blocks itself.
\<close>

fun init_buffers :: "(nat \<Rightarrow> bool) \<Rightarrow> nat list \<Rightarrow> RenderBufferQueue \<Rightarrow> bool outcome \<times> RenderBufferQueue" where
  "init_buffers createFbo [] q = (Ret True, q)"
| "init_buffers createFbo (i # is) q =
     (let q1 = upd_buffer i (\<lambda>b. b\<lparr>rb_fbo := Some (createFbo i)\<rparr>) q
      in if \<not> createFbo i then (Wait, q1)
         else init_buffers createFbo is
                ((upd_buffer i (RenderBuffer_reset True) q1)
                   \<lparr>rq_deletedSyncs := rq_deletedSyncs q1 @ sync_of (rq_buffers q1 ! i)\<rparr>))"

definition RenderBufferQueue_initialize :: "bool \<Rightarrow> (nat \<Rightarrow> bool) \<Rightarrow> RenderBufferQueue \<Rightarrow> bool outcome \<times> RenderBufferQueue" where
  "RenderBufferQueue_initialize sizeValid createFbo q =
     (if rq_initialized q \<or> \<not> sizeValid then (Ret False, q)
      else case init_buffers createFbo [0..<length (rq_buffers q)] q of
             (Ret r, q1) \<Rightarrow> (Ret True, q1\<lparr>rq_initialized := True\<rparr>)
           | (r, q1) \<Rightarrow> (r, q1))"

text \<open>
  \<open>entered\<close> is \<open>None\<close> when the call begins and \<open>Some woken\<close> when it comes back from the wait; \<open>currentTime\<close> is the
  reading at the beginning of the call, \<open>now\<close> the one of \<open>processOutdatedFrames\<close>.
\<close>

definition take_for_render :: "int \<Rightarrow> nat option \<Rightarrow> RenderBufferQueue \<Rightarrow> nat option \<times> RenderBufferQueue" where
  "take_for_render currentTime availableBuffer q =
     (case availableBuffer of
        Some i \<Rightarrow>
          (Some i, (upd_buffer i (\<lambda>b. b\<lparr>rb_inUse := True, rb_frameIndex := rq_frameCounter q + 1, rb_renderTime := currentTime\<rparr>) q)
                     \<lparr>rq_frameCounter := rq_frameCounter q + 1\<rparr>)
      | None \<Rightarrow> (None, q\<lparr>rq_droppedFrameCount := rq_droppedFrameCount q + 1\<rparr>))"

definition RenderBufferQueue_acquireForRender ::
    "(nat \<Rightarrow> GLenum) \<Rightarrow> int \<Rightarrow> int \<Rightarrow> int \<Rightarrow> bool option \<Rightarrow> RenderBufferQueue \<Rightarrow> nat option outcome \<times> RenderBufferQueue" where
  "RenderBufferQueue_acquireForRender glClientWaitSync currentTime now waitTimeoutMs entered q =
     (case entered of
        None \<Rightarrow>
          if \<not> rq_initialized q then (Ret None, q)
          else case RenderBufferQueue_checkAndGetAvaliableBuffer glClientWaitSync now q of
                 (buf, q1) \<Rightarrow>
                   if buf = None \<and> waitTimeoutMs > 0 then (Wait, q1)
                   else case take_for_render currentTime buf q1 of (r, q2) \<Rightarrow> (Ret r, q2)
      | Some woken \<Rightarrow>
          case (if woken then RenderBufferQueue_checkAndGetAvaliableBuffer glClientWaitSync now q else (None, q)) of
            (buf, q1) \<Rightarrow> (case take_for_render currentTime buf q1 of (r, q2) \<Rightarrow> (Ret r, q2)))"

definition RenderBufferQueue_markRenderFinished :: "int \<Rightarrow> nat option \<Rightarrow> nat option \<Rightarrow> RenderBufferQueue \<Rightarrow> RenderBufferQueue" where
  "RenderBufferQueue_markRenderFinished now buffer fence q =
     (case buffer of
        None \<Rightarrow> q
      | Some i \<Rightarrow>
          let q1 = (upd_buffer i (\<lambda>b. b\<lparr>rb_fence := fence, rb_inUse := False, rb_renderTime := now\<rparr>) q)
                     \<lparr>rq_deletedSyncs := rq_deletedSyncs q @ sync_of (rq_buffers q ! i)\<rparr>
          in if fence = None
             then RenderBufferQueue_dropOlderReadyFrames (rb_frameIndex (rq_buffers q1 ! i))
                    (upd_buffer i (\<lambda>b. b\<lparr>rb_ready := True\<rparr>) q1)
             else q1)"

text \<open>
  The search for the frame to show: the consecutive frame ends the loop, otherwise the nearest newer
  frame is kept.  The gap is narrowed to an \<open>int\<close>.  The result is the consecutive buffer, the alternative and \<open>minFrameGap\<close>.
\<close>

definition displayable :: "RenderBuffer \<Rightarrow> bool" where
  "displayable b \<longleftrightarrow> idle_ready b \<and> \<not> rb_outdated b"

fun search_display :: "int \<Rightarrow> RenderBuffer list \<Rightarrow> nat \<Rightarrow> nat option \<Rightarrow> int \<Rightarrow> nat option \<times> nat option \<times> int" where
  "search_display current [] i alternative minFrameGap = (None, alternative, minFrameGap)"
| "search_display current (b # bs) i alternative minFrameGap =
     (if displayable b
      then if rb_frameIndex b = current + 1 then (Some i, alternative, minFrameGap)
           else let gap = narrow32 (rb_frameIndex b - (current + 1))
                in if rb_frameIndex b > current \<and> gap < minFrameGap
                   then search_display current bs (Suc i) (Some i) gap
                   else search_display current bs (Suc i) alternative minFrameGap
      else search_display current bs (Suc i) alternative minFrameGap)"

text \<open>Whether the buffer shown is given up for the candidate.\<close>

definition should_switch :: "int \<Rightarrow> int \<Rightarrow> RenderBuffer \<Rightarrow> RenderBuffer \<Rightarrow> int \<Rightarrow> bool" where
  "should_switch currentTime current shown candidate minFrameGap \<longleftrightarrow>
     rb_frameIndex candidate = current + 1
     \<or> d_lt (rb_durationMs shown) (Fin (of_int (currentTime - rb_displayStartTime shown)))
     \<or> minFrameGap > 5"

text \<open>The end of \<open>acquireForDisplay\<close>: the switch to the candidate.\<close>

definition show_buffer :: "int \<Rightarrow> nat \<Rightarrow> RenderBufferQueue \<Rightarrow> RenderBufferQueue" where
  "show_buffer currentTime i q =
     (let q1 = (upd_buffer i (\<lambda>b. b\<lparr>rb_displaying := True, rb_displayStartTime := currentTime, rb_outdated := False\<rparr>) q)
                 \<lparr>rq_lastDisplayBuffer := Some i\<rparr>;
          q2 = RenderBufferQueue_smartCleanupIfNeeded (RenderBufferQueue_processPendingReleases q1)
      in q2\<lparr>rq_displayedFrameCount := rq_displayedFrameCount q2 + 1\<rparr>)"

definition RenderBufferQueue_acquireForDisplay ::
    "(nat \<Rightarrow> GLenum) \<Rightarrow> int \<Rightarrow> RenderBufferQueue \<Rightarrow> nat option \<times> RenderBufferQueue" where
  "RenderBufferQueue_acquireForDisplay glClientWaitSync currentTime q =
     (let q1 = RenderBufferQueue_updateFenceStatus glClientWaitSync q; current = current_index q1
      in case search_display current (rq_buffers q1) 0 None 2147483647 of
           (consecutive, alternative, minFrameGap) \<Rightarrow>
             case (if consecutive \<noteq> None then consecutive else alternative) of
               None \<Rightarrow> (None, q1)
             | Some i \<Rightarrow>
                 case rq_lastDisplayBuffer q1 of
                   Some l \<Rightarrow>
                     if rb_displaying (rq_buffers q1 ! l)
                     then if should_switch currentTime current (rq_buffers q1 ! l) (rq_buffers q1 ! i) minFrameGap
                          then (Some i, show_buffer currentTime i
                                          (upd_buffer l (\<lambda>b. b\<lparr>rb_displaying := False, rb_pendingRelease := True\<rparr>) q1))
                          else (None, q1)
                     else (Some i, show_buffer currentTime i q1)
                 | None \<Rightarrow> (Some i, show_buffer currentTime i q1))"

definition RenderBufferQueue_releaseDisplayBuffer :: "nat option \<Rightarrow> RenderBufferQueue \<Rightarrow> RenderBufferQueue" where
  "RenderBufferQueue_releaseDisplayBuffer buffer q =
     (case buffer of
        None \<Rightarrow> q
      | Some i \<Rightarrow>
          if rb_displaying (rq_buffers q ! i)
          then (upd_buffer i (\<lambda>b. b\<lparr>rb_displaying := False, rb_pendingRelease := True\<rparr>) q)
                 \<lparr>rq_lastDisplayBuffer := (if rq_lastDisplayBuffer q = Some i then None else rq_lastDisplayBuffer q)\<rparr>
          else q)"

text \<open>The counters are narrowed to \<open>int\<close>.\<close>

definition RenderBufferQueue_getStatistics :: "int \<Rightarrow> RenderBufferQueue \<Rightarrow> RenderStatistics" where
  "RenderBufferQueue_getStatistics now q =
     \<lparr>rs_renderingBuffers = narrow32 (rq_renderedFrameCount q), rs_displayingBuffers = narrow32 (rq_displayedFrameCount q),
      rs_droppedFrames = narrow32 (rq_droppedFrameCount q), rs_outdatedFrames = narrow32 (rq_outdatedFrameCount q),
      rs_averageFps = d_div (Fin (of_int (narrow32 (rq_displayedFrameCount q)))) (d_div (Fin (of_int now)) (Fin 1000))\<rparr>"

subsection \<open>Which thread owns which buffer\<close>

text \<open>
  The invariant of the queue while the rendering thread holds the buffer \<open>held\<close> (or none): the buffers in use are those it holds,
  the buffers being shown are \<open>lastDisplayBuffer_\<close>, and none waits for release between the calls.
\<close>

definition buffer_ok :: "nat option \<Rightarrow> nat option \<Rightarrow> int \<Rightarrow> nat \<Rightarrow> RenderBuffer \<Rightarrow> bool" where
  "buffer_ok held shown counter i b \<longleftrightarrow>
     rb_inUse b = (held = Some i) \<and> rb_displaying b = (shown = Some i) \<and> \<not> rb_pendingRelease b
     \<and> (rb_displaying b \<longrightarrow> rb_ready b) \<and> (rb_inUse b \<longrightarrow> \<not> rb_ready b)
     \<and> rb_frameIndex b \<le> counter \<and> rb_fbo b = Some True"

definition rq_inv :: "nat option \<Rightarrow> RenderBufferQueue \<Rightarrow> bool" where
  "rq_inv held q \<longleftrightarrow>
     rq_initialized q
     \<and> (\<forall>i. held = Some i \<longrightarrow> i < length (rq_buffers q))
     \<and> (\<forall>i. rq_lastDisplayBuffer q = Some i \<longrightarrow> i < length (rq_buffers q))
     \<and> (\<forall>i < length (rq_buffers q). buffer_ok held (rq_lastDisplayBuffer q) (rq_frameCounter q) i (rq_buffers q ! i))"

text \<open>The sync objects that were deleted or are held by a buffer.\<close>

definition syncs :: "RenderBufferQueue \<Rightarrow> nat multiset" where
  "syncs q = mset (rq_deletedSyncs q) + mset (concat (map sync_of (rq_buffers q)))"

text \<open>What the loops over the buffers leave alone.\<close>

definition same_rest :: "RenderBufferQueue \<Rightarrow> RenderBufferQueue \<Rightarrow> bool" where
  "same_rest q q' \<longleftrightarrow>
     length (rq_buffers q') = length (rq_buffers q) \<and> rq_initialized q' = rq_initialized q
     \<and> rq_lastDisplayBuffer q' = rq_lastDisplayBuffer q \<and> rq_frameCounter q' = rq_frameCounter q
     \<and> syncs q' = syncs q \<and> (\<forall>i < length (rq_buffers q). rb_frameIndex (rq_buffers q' ! i) = rb_frameIndex (rq_buffers q ! i))"

lemma same_rest_refl [simp]: "same_rest q q"
  by (simp add: same_rest_def)

lemma same_rest_trans: "same_rest q q' \<Longrightarrow> same_rest q' q'' \<Longrightarrow> same_rest q q''"
  by (auto simp: same_rest_def)

lemma same_rest_counters [simp]:
  "same_rest q (q'\<lparr>rq_renderedFrameCount := n\<rparr>) = same_rest q q'" "same_rest q (q'\<lparr>rq_droppedFrameCount := n\<rparr>) = same_rest q q'"
  "same_rest q (q'\<lparr>rq_outdatedFrameCount := n\<rparr>) = same_rest q q'" "same_rest q (q'\<lparr>rq_displayedFrameCount := n\<rparr>) = same_rest q q'"
  by (auto simp: same_rest_def syncs_def)

lemma rq_inv_counters [simp]:
  "rq_inv held (q\<lparr>rq_renderedFrameCount := n\<rparr>) = rq_inv held q" "rq_inv held (q\<lparr>rq_droppedFrameCount := n\<rparr>) = rq_inv held q"
  "rq_inv held (q\<lparr>rq_outdatedFrameCount := n\<rparr>) = rq_inv held q" "rq_inv held (q\<lparr>rq_displayedFrameCount := n\<rparr>) = rq_inv held q"
  by (simp_all add: rq_inv_def)

lemma current_index_counters [simp]:
  "current_index (q\<lparr>rq_droppedFrameCount := n\<rparr>) = current_index q" "current_index (q\<lparr>rq_displayedFrameCount := n\<rparr>) = current_index q"
  "syncs (q\<lparr>rq_droppedFrameCount := n\<rparr>) = syncs q" "syncs (q\<lparr>rq_displayedFrameCount := n\<rparr>) = syncs q"
  by (simp_all add: current_index_def syncs_def split: option.splits)

lemma current_index_same:
  assumes "same_rest q q'" and "rq_inv held q"
  shows "current_index q' = current_index q"
  using assms by (auto simp: same_rest_def rq_inv_def current_index_def split: option.splits)

lemma syncs_clear_each: "syncs (clear_each P f q) = syncs q"
proof -
  have "mset (concat (map sync_of (filter P bs))) + mset (concat (map (\<lambda>b. sync_of (if P b then (f b)\<lparr>rb_fence := None\<rparr> else b)) bs))
      = mset (concat (map sync_of bs))" for bs
    by (induction bs) (auto simp: sync_of_def)
  then show ?thesis by (simp add: syncs_def clear_each_def comp_def)
qed

lemma clear_each_same:
  assumes "\<And>b. rb_frameIndex (f b) = rb_frameIndex b"
  shows "same_rest q (clear_each P f q)"
  using syncs_clear_each [of P f q] assms by (simp add: same_rest_def) (simp add: clear_each_def)

lemma clear_each_inv:
  assumes "rq_inv held q"
    and "\<And>shown counter i b. buffer_ok held shown counter i b \<Longrightarrow> P b \<Longrightarrow> buffer_ok held shown counter i (f b)"
  shows "rq_inv held (clear_each P f q)"
proof -
  have "buffer_ok held l c i (b\<lparr>rb_fence := None\<rparr>) = buffer_ok held l c i b" for l c i b by (simp add: buffer_ok_def)
  then show ?thesis using assms by (auto simp: rq_inv_def clear_each_def)
qed

lemma upd_buffer_nth: "i < length (rq_buffers q) \<Longrightarrow> rq_buffers (upd_buffer i f q) ! j = (if j = i then f (rq_buffers q ! i) else rq_buffers q ! j)"
  by (simp add: upd_buffer_def nth_list_update)

lemma syncs_upd_buffer:
  assumes "i < length (rq_buffers q)"
  shows "syncs (upd_buffer i f q) + mset (sync_of (rq_buffers q ! i)) = syncs q + mset (sync_of (f (rq_buffers q ! i)))"
proof -
  have "mset (concat (map sync_of (bs[i := b]))) + mset (sync_of (bs ! i)) = mset (concat (map sync_of bs)) + mset (sync_of b)"
    if "i < length bs" for bs :: "RenderBuffer list" and b
    using that by (subst (2) id_take_nth_drop [OF that]) (simp add: upd_conv_take_nth_drop)
  from this [OF assms, of "f (rq_buffers q ! i)"] show ?thesis by (simp add: syncs_def upd_buffer_def)
qed

lemma syncs_upd_same:
  assumes "i < length (rq_buffers q)" and "\<And>b. rb_fence (f b) = rb_fence b"
  shows "syncs (upd_buffer i f q) = syncs q"
  using syncs_upd_buffer [OF assms(1), of f] assms(2) by (simp add: sync_of_def)

lemma no_pending:
  assumes "rq_inv held q"
  shows "RenderBufferQueue_processPendingReleases q = q"
proof -
  have "\<forall>b \<in> set (rq_buffers q). \<not> rb_pendingRelease b"
    using assms by (auto simp: rq_inv_def buffer_ok_def in_set_conv_nth)
  then show ?thesis by (simp add: RenderBufferQueue_processPendingReleases_def clear_each_def map_idI)
qed

lemma updateFence_ok:
  assumes "rq_inv held q"
  shows "rq_inv held (RenderBufferQueue_updateFenceStatus st q) \<and> same_rest q (RenderBufferQueue_updateFenceStatus st q)"
proof -
  have "buffer_ok held l c i (b\<lparr>rb_ready := True\<rparr>)" if "buffer_ok held l c i b" "fence_pending b" for l c i b
    using that by (auto simp: buffer_ok_def fence_pending_def)
  then show ?thesis
    unfolding RenderBufferQueue_updateFenceStatus_def Let_def
    by (auto intro!: clear_each_inv [OF assms] clear_each_same)
qed

lemma dropOlder_ok:
  assumes "rq_inv held q"
  shows "rq_inv held (RenderBufferQueue_dropOlderReadyFrames n q) \<and> same_rest q (RenderBufferQueue_dropOlderReadyFrames n q)"
proof -
  have "buffer_ok held l c i (b\<lparr>rb_ready := False, rb_inUse := False, rb_pendingRelease := False, rb_outdated := False, rb_displaying := False\<rparr>)"
    if "buffer_ok held l c i b" "idle_ready b" for l c i b
    using that by (auto simp: buffer_ok_def idle_ready_def)
  then show ?thesis
    unfolding RenderBufferQueue_dropOlderReadyFrames_def Let_def
    by (auto intro!: clear_each_inv [OF assms] clear_each_same)
qed

lemma smartCleanup_ok:
  "rq_inv held q \<Longrightarrow> rq_inv held (RenderBufferQueue_smartCleanupIfNeeded q) \<and> same_rest q (RenderBufferQueue_smartCleanupIfNeeded q)"
  using dropOlder_ok by (auto simp: RenderBufferQueue_smartCleanupIfNeeded_def Let_def)

lemma mark_outdated_ok:
  assumes "rq_inv held q" and "i < length (rq_buffers q)"
  shows "rq_inv held (mark_outdated now i q) \<and> same_rest q (mark_outdated now i q)"
proof -
  let ?q = "upd_buffer i (\<lambda>b. b\<lparr>rb_outdated := True\<rparr>) q"
  have l: "length (rq_buffers ?q) = length (rq_buffers q)" "rq_initialized ?q = rq_initialized q"
      "rq_lastDisplayBuffer ?q = rq_lastDisplayBuffer q" "rq_frameCounter ?q = rq_frameCounter q"
    by (simp_all add: upd_buffer_def)
  have "rq_inv held ?q \<and> same_rest q ?q"
    using assms syncs_upd_same [OF assms(2), of "\<lambda>b. b\<lparr>rb_outdated := True\<rparr>"]
    by (auto simp: rq_inv_def same_rest_def l upd_buffer_nth buffer_ok_def)
  then show ?thesis using assms(1) by (simp add: mark_outdated_def Let_def)
qed

lemma processOutdated_ok:
  assumes "rq_inv held q"
  shows "rq_inv held (RenderBufferQueue_processOutdatedFrames now q) \<and> same_rest q (RenderBufferQueue_processOutdatedFrames now q)"
proof -
  have "rq_inv held (fold (mark_outdated now) is q) \<and> same_rest q (fold (mark_outdated now) is q)"
    if "\<forall>i \<in> set is. i < length (rq_buffers q)" for "is"
    using that assms
  proof (induction "is" arbitrary: q)
    case (Cons i "is")
    note m = mark_outdated_ok [of held q i now]
    have "rq_inv held (fold (mark_outdated now) is (mark_outdated now i q))
        \<and> same_rest (mark_outdated now i q) (fold (mark_outdated now) is (mark_outdated now i q))"
      using Cons.IH [of "mark_outdated now i q"] Cons.prems m by (auto simp: same_rest_def)
    then show ?case using m Cons.prems same_rest_trans by auto
  qed simp
  then show ?thesis by (simp add: RenderBufferQueue_processOutdatedFrames_def)
qed

lemma checkAvailable_ok:
  assumes "rq_inv held q" and "RenderBufferQueue_checkAndGetAvaliableBuffer st now q = (r, q')"
  shows "rq_inv held q' \<and> same_rest q q' \<and> (\<forall>i. r = Some i \<longrightarrow> i < length (rq_buffers q') \<and> available (rq_buffers q' ! i))"
proof -
  let ?q1 = "RenderBufferQueue_updateFenceStatus st q"
  have q': "q' = RenderBufferQueue_processOutdatedFrames now ?q1"
      and r: "r = List.find (\<lambda>i. available (rq_buffers q' ! i)) [0..<length (rq_buffers q')]"
    using assms(2) no_pending [OF assms(1)] by (auto simp: RenderBufferQueue_checkAndGetAvaliableBuffer_def Let_def)
  have "i < length (rq_buffers q') \<and> available (rq_buffers q' ! i)" if "r = Some i" for i
    using that r by (auto simp: find_Some_iff)
  moreover have "rq_inv held q' \<and> same_rest q q'"
    using updateFence_ok [OF assms(1), of st] processOutdated_ok [of held ?q1 now] same_rest_trans q' by blast
  ultimately show ?thesis by blast
qed

lemma upd_buffer_fields [simp]:
  "length (rq_buffers (upd_buffer i f q)) = length (rq_buffers q)" "rq_initialized (upd_buffer i f q) = rq_initialized q"
  "rq_lastDisplayBuffer (upd_buffer i f q) = rq_lastDisplayBuffer q" "rq_frameCounter (upd_buffer i f q) = rq_frameCounter q"
  "rq_deletedSyncs (upd_buffer i f q) = rq_deletedSyncs q"
  by (simp_all add: upd_buffer_def)

text \<open>A buffer that is taken for rendering was free and gets the next frame number.\<close>

lemma take_for_render_ok:
  assumes "rq_inv None q" and "i < length (rq_buffers q)" and "available (rq_buffers q ! i)"
    and "take_for_render t (Some i) q = (r, q')"
  shows "r = Some i \<and> rq_inv (Some i) q' \<and> syncs q' = syncs q \<and> current_index q' = current_index q
     \<and> rq_lastDisplayBuffer q' = rq_lastDisplayBuffer q
     \<and> rb_frameIndex (rq_buffers q' ! i) = rq_frameCounter q + 1"
proof -
  let ?f = "\<lambda>b. b\<lparr>rb_inUse := True, rb_frameIndex := rq_frameCounter q + 1, rb_renderTime := t\<rparr>"
  have q': "q' = (upd_buffer i ?f q)\<lparr>rq_frameCounter := rq_frameCounter q + 1\<rparr>" and r: "r = Some i"
    using assms(4) by (auto simp: take_for_render_def)
  have "rq_lastDisplayBuffer q \<noteq> Some i"
    using assms(1-3) by (auto simp: rq_inv_def buffer_ok_def available_def)
  then show ?thesis
    using assms(1-3) syncs_upd_same [OF assms(2), of ?f]
    by (auto simp: q' r rq_inv_def upd_buffer_nth current_index_def buffer_ok_def available_def syncs_def split: option.splits)
qed

lemma acquireForRender_ok:
  assumes "rq_inv None q" and "RenderBufferQueue_acquireForRender st t now timeout entered q = (r, q')"
  shows "r \<noteq> UB \<and> syncs q' = syncs q \<and> current_index q' = current_index q
     \<and> rq_lastDisplayBuffer q' = rq_lastDisplayBuffer q
     \<and> rq_inv (case r of Ret (Some i) \<Rightarrow> Some i | _ \<Rightarrow> None) q'"
proof -
  have take: "(case take_for_render t buf q1 of (x, q2) \<Rightarrow> (Ret x, q2)) = (r, q') \<Longrightarrow> ?thesis"
    if "rq_inv None q1" "same_rest q q1" "\<forall>i. buf = Some i \<longrightarrow> i < length (rq_buffers q1) \<and> available (rq_buffers q1 ! i)" for buf q1
  proof (cases buf)
    case None
    assume "(case take_for_render t buf q1 of (x, q2) \<Rightarrow> (Ret x, q2)) = (r, q')"
    then have "r = Ret None" "q' = q1\<lparr>rq_droppedFrameCount := rq_droppedFrameCount q1 + 1\<rparr>"
      by (auto simp: take_for_render_def None)
    then show ?thesis using that current_index_same [OF that(2) assms(1)] by (simp add: same_rest_def)
  next
    case (Some i)
    assume "(case take_for_render t buf q1 of (x, q2) \<Rightarrow> (Ret x, q2)) = (r, q')"
    then obtain x where "take_for_render t (Some i) q1 = (x, q')" "r = Ret x" by (auto simp: Some split: prod.splits)
    then show ?thesis
      using take_for_render_ok [OF that(1), of i t x q'] that Some current_index_same [OF that(2) assms(1)]
      by (auto simp: same_rest_def)
  qed
  obtain buf q1 where c: "RenderBufferQueue_checkAndGetAvaliableBuffer st now q = (buf, q1)" by fastforce
  note k = checkAvailable_ok [OF assms(1) c]
  have init: "rq_initialized q" using assms(1) by (simp add: rq_inv_def)
  show ?thesis
  proof (cases "(entered = None \<and> buf = None \<and> timeout > 0)")
    case True
    then have "r = Wait" "q' = q1" using assms(2) c init by (auto simp: RenderBufferQueue_acquireForRender_def)
    then show ?thesis using k current_index_same [of q q1, OF _ assms(1)] by (simp add: same_rest_def)
  next
    case False
    show ?thesis
    proof (cases "entered = Some False")
      case True
      then show ?thesis
        using assms(2) take [of q None] assms(1) by (auto simp: RenderBufferQueue_acquireForRender_def)
    next
      case woken: False
      then have "(case take_for_render t buf q1 of (x, q2) \<Rightarrow> (Ret x, q2)) = (r, q')"
        using assms(2) False c init
        by (cases entered) (auto simp: RenderBufferQueue_acquireForRender_def split: if_splits)
      then show ?thesis using take [of q1 buf] k by blast
    qed
  qed
qed

lemma markRenderFinished_ok:
  assumes "rq_inv (Some i) q" and "RenderBufferQueue_markRenderFinished now (Some i) fence q = q'"
  shows "rq_inv None q' \<and> syncs q' = syncs q + mset (case fence of None \<Rightarrow> [] | Some f \<Rightarrow> [f])
     \<and> current_index q' = current_index q \<and> rq_lastDisplayBuffer q' = rq_lastDisplayBuffer q"
proof -
  have i: "i < length (rq_buffers q)" using assms(1) by (simp add: rq_inv_def)
  let ?f = "\<lambda>b. b\<lparr>rb_fence := fence, rb_inUse := False, rb_renderTime := now\<rparr>"
  let ?q1 = "(upd_buffer i ?f q)\<lparr>rq_deletedSyncs := rq_deletedSyncs q @ sync_of (rq_buffers q ! i)\<rparr>"
  let ?q2 = "upd_buffer i (\<lambda>b. b\<lparr>rb_ready := True\<rparr>) ?q1"
  have n: "rq_lastDisplayBuffer q \<noteq> Some i"
    using assms(1) i by (auto simp: rq_inv_def buffer_ok_def)
  have inv1: "rq_inv None ?q1"
    using assms(1) i n by (auto simp: rq_inv_def buffer_ok_def upd_buffer_nth)
  have s1: "syncs ?q1 = syncs q + mset (case fence of None \<Rightarrow> [] | Some f \<Rightarrow> [f])"
    using syncs_upd_buffer [OF i, of ?f] by (simp add: syncs_def) (simp add: sync_of_def split: option.splits)
  have c1: "current_index ?q1 = current_index q"
    using assms(1) i by (auto simp: current_index_def upd_buffer_nth rq_inv_def split: option.splits)
  have "length (rq_buffers ?q1) = length (rq_buffers q)" by simp
  have inv2: "rq_inv None ?q2"
    using inv1 i n upd_buffer_nth [of i ?q1] by (auto simp: rq_inv_def buffer_ok_def)
  have s2: "syncs ?q2 = syncs ?q1" using i by (intro syncs_upd_same) simp_all
  have c2: "current_index ?q2 = current_index ?q1"
    using inv1 i upd_buffer_nth [of i ?q1] by (auto simp: current_index_def rq_inv_def split: option.splits)
  show ?thesis
  proof (cases fence)
    case None
    then have "q' = RenderBufferQueue_dropOlderReadyFrames (rb_frameIndex (rq_buffers ?q1 ! i)) ?q2"
      using assms(2) by (simp add: RenderBufferQueue_markRenderFinished_def Let_def)
    then show ?thesis
      using dropOlder_ok [OF inv2, of "rb_frameIndex (rq_buffers ?q1 ! i)"]
        current_index_same [OF conjunct2 [OF dropOlder_ok [OF inv2]] inv2] s1 s2 c1 c2
      by (simp add: same_rest_def)
  next
    case (Some f)
    then have "q' = ?q1" using assms(2) by (auto simp: RenderBufferQueue_markRenderFinished_def Let_def)
    then show ?thesis using inv1 s1 c1 by simp
  qed
qed

subsection \<open>The frame that is shown\<close>

lemma search_display_result:
  "search_display current bs n alternative gap = (consecutive, alternative', gap') \<Longrightarrow>
     (\<forall>i. consecutive = Some i \<longrightarrow> (\<exists>j < length bs. i = n + j \<and> displayable (bs ! j) \<and> rb_frameIndex (bs ! j) = current + 1))
     \<and> (\<forall>i. alternative' = Some i \<longrightarrow> alternative = Some i
          \<or> (\<exists>j < length bs. i = n + j \<and> displayable (bs ! j) \<and> rb_frameIndex (bs ! j) > current))"
proof (induction bs arbitrary: n alternative gap)
  case Nil
  then show ?case by simp
next
  case (Cons b bs)
  let ?gap = "narrow32 (rb_frameIndex b - (current + 1))"
  consider "displayable b" "rb_frameIndex b = current + 1" "consecutive = Some n" "alternative' = alternative"
    | "displayable b" "rb_frameIndex b > current" "search_display current bs (Suc n) (Some n) ?gap = (consecutive, alternative', gap')"
    | "search_display current bs (Suc n) alternative gap = (consecutive, alternative', gap')"
    using Cons.prems by (auto simp: Let_def split: if_splits)
  then show ?case
  proof cases
    case 1
    then show ?thesis by auto
  next
    case 2
    then show ?thesis using Cons.IH [OF 2(3)] by (auto simp: Ex_less_Suc2)
  next
    case 3
    then show ?thesis using Cons.IH [OF 3] by (auto simp: Ex_less_Suc2)
  qed
qed

text \<open>The switch: the old buffer is released and the candidate is the one shown.\<close>

lemma show_buffer_ok:
  assumes "rq_inv held q" and "i < length (rq_buffers q)" and "displayable (rq_buffers q ! i)"
    and "q1 = (case rq_lastDisplayBuffer q of None \<Rightarrow> q
                | Some l \<Rightarrow> upd_buffer l (\<lambda>b. b\<lparr>rb_displaying := False, rb_pendingRelease := True\<rparr>) q)"
    and "q' = show_buffer t i q1"
  shows "rq_inv held q' \<and> syncs q' = syncs q \<and> current_index q' = rb_frameIndex (rq_buffers q ! i) \<and> rq_lastDisplayBuffer q' = Some i
     \<and> length (rq_buffers q') = length (rq_buffers q)"
proof -
  let ?f = "\<lambda>b. b\<lparr>rb_displaying := True, rb_displayStartTime := t, rb_outdated := False\<rparr>"
  let ?q2 = "(upd_buffer i ?f q1)\<lparr>rq_lastDisplayBuffer := Some i\<rparr>"
  let ?q3 = "RenderBufferQueue_processPendingReleases ?q2"
  have last: "l < length (rq_buffers q) \<and> l \<noteq> i" if "rq_lastDisplayBuffer q = Some l" for l
    using assms(1-3) that by (auto simp: rq_inv_def buffer_ok_def displayable_def idle_ready_def)
  have f1: "length (rq_buffers q1) = length (rq_buffers q)" "rq_initialized q1 = rq_initialized q" "rq_frameCounter q1 = rq_frameCounter q"
    using assms(4) by (auto split: option.splits)
  have n1: "rq_buffers q1 ! j = (if rq_lastDisplayBuffer q = Some j
      then (rq_buffers q ! j)\<lparr>rb_displaying := False, rb_pendingRelease := True\<rparr> else rq_buffers q ! j)" for j
    using assms(4) last by (auto simp: upd_buffer_nth split: option.splits)
  have s1: "syncs q1 = syncs q"
    using assms(4) last by (auto simp: syncs_upd_same split: option.splits)
  have n2: "rq_buffers (upd_buffer i ?f q1) ! j = (if j = i then ?f (rq_buffers q1 ! j) else rq_buffers q1 ! j)" for j
    using assms(2) f1 by (simp add: upd_buffer_nth)
  have s2: "syncs ?q2 = syncs q" using s1 syncs_upd_same [of i q1 ?f] assms(2) f1 by (simp add: syncs_def)
  have n3: "rq_buffers ?q3 ! j = (let b = rq_buffers (upd_buffer i ?f q1) ! j in if rb_pendingRelease b
      then b\<lparr>rb_ready := False, rb_displaying := False, rb_pendingRelease := False, rb_outdated := False, rb_fence := None\<rparr> else b)" if "j < length (rq_buffers q)" for j
    using that f1 by (simp add: RenderBufferQueue_processPendingReleases_def clear_each_def Let_def)
  have f3: "length (rq_buffers ?q3) = length (rq_buffers q)" "rq_initialized ?q3 = rq_initialized q" "rq_frameCounter ?q3 = rq_frameCounter q"
      "rq_lastDisplayBuffer ?q3 = Some i" "syncs ?q3 = syncs ?q2"
    using f1 syncs_clear_each by (simp_all add: RenderBufferQueue_processPendingReleases_def, simp_all add: clear_each_def)
  have "buffer_ok held (Some i) (rq_frameCounter q) j (rq_buffers ?q3 ! j)" if "j < length (rq_buffers q)" for j
  proof -
    have "buffer_ok held (rq_lastDisplayBuffer q) (rq_frameCounter q) j (rq_buffers q ! j)"
      using assms(1) that by (simp add: rq_inv_def)
    then show ?thesis using assms(2,3) last unfolding n3 [OF that] n2 n1
      by (auto simp: Let_def buffer_ok_def displayable_def idle_ready_def)
  qed
  then have inv3: "rq_inv held ?q3" using assms(1,2) by (simp add: rq_inv_def f3)
  have "current_index ?q3 = rb_frameIndex (rq_buffers q ! i)"
    using assms(2) unfolding current_index_def f3 option.case n3 [OF assms(2)] n2 n1 by (simp add: Let_def)
  then show ?thesis
    using smartCleanup_ok [OF inv3] current_index_same [OF conjunct2 [OF smartCleanup_ok [OF inv3]] inv3] s2 f3 assms(5)
    by (simp add: show_buffer_def Let_def same_rest_def)
qed

lemma acquireForDisplay_ok:
  assumes "rq_inv held q" and "RenderBufferQueue_acquireForDisplay st t q = (r, q')"
  shows "rq_inv held q' \<and> syncs q' = syncs q \<and> length (rq_buffers q') = length (rq_buffers q)
     \<and> (case r of None \<Rightarrow> rq_lastDisplayBuffer q' = rq_lastDisplayBuffer q \<and> current_index q' = current_index q
        | Some i \<Rightarrow> rq_lastDisplayBuffer q' = Some i \<and> current_index q < current_index q')"
proof -
  let ?q1 = "RenderBufferQueue_updateFenceStatus st q"
  have u: "rq_inv held ?q1" "same_rest q ?q1" using updateFence_ok [OF assms(1)] by auto
  have c1: "current_index ?q1 = current_index q" by (rule current_index_same [OF u(2) assms(1)])
  obtain con alt gap where s: "search_display (current_index q) (rq_buffers ?q1) 0 None 2147483647 = (con, alt, gap)"
    by (cases "search_display (current_index q) (rq_buffers ?q1) 0 None 2147483647")
  let ?cand = "if con \<noteq> None then con else alt"
  have shown: "\<forall>l. rq_lastDisplayBuffer ?q1 = Some l \<longrightarrow> rb_displaying (rq_buffers ?q1 ! l)"
    using u(1) by (auto simp: rq_inv_def buffer_ok_def)
  consider "r = None" "q' = ?q1"
    | i where "?cand = Some i" "r = Some i"
        "q' = show_buffer t i (case rq_lastDisplayBuffer ?q1 of None \<Rightarrow> ?q1
           | Some l \<Rightarrow> upd_buffer l (\<lambda>b. b\<lparr>rb_displaying := False, rb_pendingRelease := True\<rparr>) ?q1)"
    using assms(2) shown
    by (auto simp: RenderBufferQueue_acquireForDisplay_def Let_def s c1 split: option.splits if_splits)
  then show ?thesis
  proof cases
    case 1
    then show ?thesis using u c1 by (simp add: same_rest_def)
  next
    case (2 i)
    have "i < length (rq_buffers ?q1) \<and> displayable (rq_buffers ?q1 ! i) \<and> rb_frameIndex (rq_buffers ?q1 ! i) > current_index q"
      using search_display_result [OF s] 2(1) by (auto split: if_splits)
    then show ?thesis using show_buffer_ok [OF u(1) _ _ refl 2(3)] 2(2) u(2) by (auto simp: same_rest_def)
  qed
qed

lemma release_syncs:
  "(\<And>i. buffer = Some i \<Longrightarrow> i < length (rq_buffers q)) \<Longrightarrow> syncs (RenderBufferQueue_releaseDisplayBuffer buffer q) = syncs q"
  using syncs_upd_same [of _ q "\<lambda>b. b\<lparr>rb_displaying := False, rb_pendingRelease := True\<rparr>"]
  by (auto simp: RenderBufferQueue_releaseDisplayBuffer_def syncs_def split: option.splits)

text \<open>The cleanup deletes the sync object of every buffer.\<close>

lemma cleanup_syncs: "mset (rq_deletedSyncs (RenderBufferQueue_cleanup q)) = syncs q"
proof -
  let ?f = "\<lambda>b. (RenderBuffer_reset True b)\<lparr>rb_fbo := None\<rparr>"
  have "concat (map sync_of (rq_buffers (clear_each (\<lambda>_. True) ?f q))) = []"
    by (simp add: clear_each_def sync_of_def)
  then have "mset (rq_deletedSyncs (clear_each (\<lambda>_. True) ?f q)) = syncs (clear_each (\<lambda>_. True) ?f q)" by (simp only: syncs_def) simp
  then show ?thesis by (simp add: RenderBufferQueue_cleanup_def syncs_clear_each)
qed

text \<open>\<open>initialize\<close> that cannot create a frame buffer object does not return.\<close>

lemma init_buffers_result: "fst (init_buffers createFbo is q) = (if \<forall>i \<in> set is. createFbo i then Ret True else Wait)"
  by (induction createFbo "is" q rule: init_buffers.induct) (auto simp: Let_def)

lemma initialize_result:
  "fst (RenderBufferQueue_initialize sizeValid createFbo q) =
     (if rq_initialized q \<or> \<not> sizeValid then Ret False
      else if \<forall>i < length (rq_buffers q). createFbo i then Ret True else Wait)"
  using init_buffers_result [of createFbo "[0..<length (rq_buffers q)]" q]
  by (auto simp: RenderBufferQueue_initialize_def split: prod.splits outcome.splits if_splits)

end
