(* ===== verification/VideoRenders.thy ===== *)
theory VideoRenders
  imports RenderBufferQueues ApiFrames
begin

text \<open>
  Class \<open>VideoRender\<close> of the Qt player (\<open>src/examples/qt_gui/src/VideoPlayer/VideoRender/VideoRender.cpp\<close>): frames are rendered
  into the buffers of a \<open>RenderBufferQueue\<close> by one thread and drawn by another.

  \<open>render\<close> is cut where the drawing thread can run in between: the buffer is acquired (and may have to be waited for), the frame
  is rendered into it, the buffer is given back.  \<open>vr_pc\<close> is where the rendering thread is.  The virtual functions of the
  derived classes and the calls of OpenGL are arguments; the wait for the new fence inside \<open>render\<close> changes no state.
\<close>

datatype render_pc = RP_Idle | RP_Waiting int double | RP_Rendering nat double

record VideoRender =
  vr_bufferQueue :: RenderBufferQueue
  vr_currentDisplayBuffer :: "nat option"
  vr_fboDrawResourcesInitialized :: bool
  vr_initialized :: bool
  vr_supportsGlFence :: bool
  vr_forceGpuFinish :: bool
  vr_pc :: render_pc

definition VideoRender_new :: VideoRender where
  "VideoRender_new =
     \<lparr>vr_bufferQueue = RenderBufferQueue_new 3, vr_currentDisplayBuffer = None, vr_fboDrawResourcesInitialized = False,
      vr_initialized = False, vr_supportsGlFence = False, vr_forceGpuFinish = False, vr_pc = RP_Idle\<rparr>"

definition VideoRender_isValid :: "VideoRender \<Rightarrow> bool" where
  "VideoRender_isValid r \<longleftrightarrow> vr_initialized r \<and> vr_fboDrawResourcesInitialized r"

text \<open>
  \<open>context\<close>: there is a current OpenGL context; \<open>parts\<close>: the four initialisations of the derived class succeed, in
  order; \<open>hasFence\<close>: the context supports fences.  A null frame is an invalid one.  A \<open>QSize\<close> is valid when both sides are not negative.
\<close>

definition VideoRender_initialize ::
    "bool \<Rightarrow> ApiFrame \<Rightarrow> (nat \<Rightarrow> bool) \<Rightarrow> bool list \<Rightarrow> bool \<Rightarrow> VideoRender \<Rightarrow> unit outcome \<times> VideoRender" where
  "VideoRender_initialize ctx frame createFbo parts hasFence r =
     (if vr_initialized r \<or> \<not> ApiFrame_isValid frame \<or> \<not> ctx then (Ret (), r)
      else case RenderBufferQueue_initialize (ApiFrame_width frame \<ge> 0 \<and> ApiFrame_height frame \<ge> 0) createFbo (vr_bufferQueue r) of
             (Ret ok, q) \<Rightarrow>
               let r1 = r\<lparr>vr_bufferQueue := q\<rparr>
               in if \<not> ok then (Ret (), r1)
                  else let r2 = r1\<lparr>vr_fboDrawResourcesInitialized := True\<rparr>
                       in if list_all id parts then (Ret (), r2\<lparr>vr_supportsGlFence := hasFence, vr_initialized := True\<rparr>)
                          else (Ret (), r2)
           | (Wait, q) \<Rightarrow> (Wait, r\<lparr>vr_bufferQueue := q\<rparr>)
           | (UB, q) \<Rightarrow> (UB, r\<lparr>vr_bufferQueue := q\<rparr>))"

text \<open>The result of \<open>acquireForRender\<close> and where the thread goes.\<close>

definition acquired :: "int \<Rightarrow> double \<Rightarrow> nat option outcome \<times> RenderBufferQueue \<Rightarrow> VideoRender \<Rightarrow> unit outcome \<times> VideoRender" where
  "acquired t durationMs res r =
     (case res of
        (Ret (Some i), q) \<Rightarrow> (Ret (), r\<lparr>vr_bufferQueue := q, vr_pc := RP_Rendering i durationMs\<rparr>)
      | (Ret None, q) \<Rightarrow> (Ret (), r\<lparr>vr_bufferQueue := q, vr_pc := RP_Idle\<rparr>)
      | (Wait, q) \<Rightarrow> (Ret (), r\<lparr>vr_bufferQueue := q, vr_pc := RP_Waiting t durationMs\<rparr>)
      | (UB, q) \<Rightarrow> (UB, r))"

definition render_begin :: "(nat \<Rightarrow> GLenum) \<Rightarrow> int \<Rightarrow> int \<Rightarrow> ApiFrame \<Rightarrow> VideoRender \<Rightarrow> unit outcome \<times> VideoRender" where
  "render_begin st t now frame r =
     (if \<not> ApiFrame_isValid frame \<or> \<not> VideoRender_isValid r then (Ret (), r)
      else let frameDurationMs = d_mul (ApiFrame_durationByFps frame) (Fin 1000)
           in case double_to_int (d_mul frameDurationMs (Fin (1 / 2))) of
                Ret timeout \<Rightarrow>
                  acquired t frameDurationMs (RenderBufferQueue_acquireForRender st t now timeout None (vr_bufferQueue r)) r
              | Wait \<Rightarrow> (Wait, r) | UB \<Rightarrow> (UB, r))"

definition render_resume :: "(nat \<Rightarrow> GLenum) \<Rightarrow> int \<Rightarrow> bool \<Rightarrow> VideoRender \<Rightarrow> unit outcome \<times> VideoRender" where
  "render_resume st now woken r =
     (case vr_pc r of
        RP_Waiting t durationMs \<Rightarrow>
          acquired t durationMs (RenderBufferQueue_acquireForRender st t now 0 (Some woken) (vr_bufferQueue r)) r
      | _ \<Rightarrow> (Wait, r))"

text \<open>The fence that is given to the queue: none when the GPU is waited for or fences are not supported.\<close>

definition render_fence :: "nat option \<Rightarrow> VideoRender \<Rightarrow> nat option" where
  "render_fence glFenceSync r = (if \<not> vr_forceGpuFinish r \<and> vr_supportsGlFence r then glFenceSync else None)"

definition render_end :: "int \<Rightarrow> bool \<Rightarrow> nat option \<Rightarrow> VideoRender \<Rightarrow> unit outcome \<times> VideoRender" where
  "render_end now success glFenceSync r =
     (case vr_pc r of
        RP_Rendering i durationMs \<Rightarrow>
          let q = upd_buffer i (\<lambda>b. b\<lparr>rb_durationMs := durationMs\<rparr>) (vr_bufferQueue r)
          in (Ret (), r\<lparr>vr_pc := RP_Idle, vr_bufferQueue :=
                (if success then RenderBufferQueue_markRenderFinished now (Some i) (render_fence glFenceSync r) q
                 else upd_buffer i (\<lambda>b. b\<lparr>rb_inUse := False\<rparr>) q)\<rparr>)
      | _ \<Rightarrow> (Wait, r))"

text \<open>The buffer that is drawn; \<open>None\<close> clears the screen.\<close>

definition has_fbo :: "nat \<Rightarrow> VideoRender \<Rightarrow> bool" where
  "has_fbo i r \<longleftrightarrow> rb_fbo (rq_buffers (vr_bufferQueue r) ! i) = Some True"

definition VideoRender_draw :: "(nat \<Rightarrow> GLenum) \<Rightarrow> int \<Rightarrow> VideoRender \<Rightarrow> nat option \<times> VideoRender" where
  "VideoRender_draw st t r =
     (if \<not> VideoRender_isValid r then (None, r)
      else case RenderBufferQueue_acquireForDisplay st t (vr_bufferQueue r) of
             (new, q) \<Rightarrow>
               let r1 = r\<lparr>vr_bufferQueue := q\<rparr>;
                   r2 = (case new of
                           Some i \<Rightarrow>
                             if has_fbo i r1 \<and> vr_currentDisplayBuffer r \<noteq> Some i
                             then r1\<lparr>vr_bufferQueue := RenderBufferQueue_releaseDisplayBuffer (vr_currentDisplayBuffer r) q,
                                     vr_currentDisplayBuffer := Some i\<rparr>
                             else r1
                         | None \<Rightarrow> r1)
               in (case vr_currentDisplayBuffer r2 of
                     None \<Rightarrow> None | Some i \<Rightarrow> if has_fbo i r2 then Some i else None, r2))"

text \<open>\<open>getFrameBuffer\<close>: the buffer whose copy is returned; \<open>createFbo\<close> is the result of creating the copy.\<close>

definition VideoRender_getFrameBuffer :: "bool \<Rightarrow> VideoRender \<Rightarrow> nat option" where
  "VideoRender_getFrameBuffer createFbo r =
     (case vr_currentDisplayBuffer r of
        None \<Rightarrow> None
      | Some i \<Rightarrow> if rb_fbo (rq_buffers (vr_bufferQueue r) ! i) = None \<or> \<not> createFbo then None else Some i)"

definition VideoRender_getStatistics :: "int \<Rightarrow> VideoRender \<Rightarrow> RenderStatistics" where
  "VideoRender_getStatistics now r = RenderBufferQueue_getStatistics now (vr_bufferQueue r)"

definition VideoRender_destroy :: "VideoRender \<Rightarrow> VideoRender" where
  "VideoRender_destroy r =
     r\<lparr>vr_bufferQueue := RenderBufferQueue_cleanup (RenderBufferQueue_releaseDisplayBuffer (vr_currentDisplayBuffer r) (vr_bufferQueue r)),
       vr_currentDisplayBuffer := None\<rparr>"

subsection \<open>The two threads\<close>

text \<open>A sync object that OpenGL returns is a new one.\<close>

datatype render_event = SyncCreated nat | Drawn int | RenderDone int | RenderFailed int

definition held_buffer :: "VideoRender \<Rightarrow> nat option" where
  "held_buffer r = (case vr_pc r of RP_Rendering i _ \<Rightarrow> Some i | _ \<Rightarrow> None)"

definition end_events :: "bool \<Rightarrow> nat option \<Rightarrow> VideoRender \<Rightarrow> render_event list" where
  "end_events success glFenceSync r =
     (case held_buffer r of
        None \<Rightarrow> []
      | Some i \<Rightarrow>
          (if success then (case render_fence glFenceSync r of None \<Rightarrow> [] | Some f \<Rightarrow> [SyncCreated f]) else [])
          @ [(if success then RenderDone else RenderFailed) (rb_frameIndex (rq_buffers (vr_bufferQueue r) ! i))])"

text \<open>A frame is recorded as drawn when the buffer that is drawn changes.\<close>

definition draw_events :: "VideoRender \<Rightarrow> nat option \<times> VideoRender \<Rightarrow> render_event list" where
  "draw_events r res =
     (case res of
        (Some i, r') \<Rightarrow> if current_index (vr_bufferQueue r') \<noteq> current_index (vr_bufferQueue r)
                         then [Drawn (rb_frameIndex (rq_buffers (vr_bufferQueue r') ! i))] else []
      | (None, r') \<Rightarrow> [])"

inductive vr_step :: "VideoRender \<Rightarrow> render_event list \<Rightarrow> VideoRender \<Rightarrow> bool" where
  vr_begin: "vr_pc r = RP_Idle \<Longrightarrow> render_begin st t now frame r = (Ret (), r') \<Longrightarrow> vr_step r [] r'"
| vr_resume: "render_resume st now woken r = (Ret (), r') \<Longrightarrow> vr_step r [] r'"
| vr_end: "render_end now success fence r = (Ret (), r') \<Longrightarrow> (\<And>f. fence = Some f \<Longrightarrow> f \<notin># syncs (vr_bufferQueue r))
    \<Longrightarrow> vr_step r (end_events success fence r) r'"
| vr_draw: "VideoRender_draw st t r = (drawn, r') \<Longrightarrow> vr_step r (draw_events r (drawn, r')) r'"

definition vr_init :: "VideoRender \<Rightarrow> bool" where
  "vr_init r \<longleftrightarrow>
     (\<exists>ctx frame createFbo parts hasFence. VideoRender_initialize ctx frame createFbo parts hasFence VideoRender_new = (Ret (), r)
       \<and> VideoRender_isValid r)"

definition vr_inv :: "VideoRender \<Rightarrow> bool" where
  "vr_inv r \<longleftrightarrow>
     VideoRender_isValid r \<and> rq_inv (held_buffer r) (vr_bufferQueue r)
     \<and> vr_currentDisplayBuffer r = rq_lastDisplayBuffer (vr_bufferQueue r)"

fun created_syncs :: "render_event list \<Rightarrow> nat list" where
  "created_syncs [] = []"
| "created_syncs (SyncCreated f # es) = f # created_syncs es"
| "created_syncs (_ # es) = created_syncs es"

fun drawn_frames :: "render_event list \<Rightarrow> int list" where
  "drawn_frames [] = []"
| "drawn_frames (Drawn n # es) = n # drawn_frames es"
| "drawn_frames (_ # es) = drawn_frames es"

lemma events_append [simp]:
  "created_syncs (es @ es') = created_syncs es @ created_syncs es'" "drawn_frames (es @ es') = drawn_frames es @ drawn_frames es'"
  by (induction es rule: created_syncs.induct) simp_all

subsection \<open>Every step keeps the invariant\<close>

text \<open>What a step does: the invariant, the sync objects, the frame that is shown.\<close>

definition vr_goes :: "VideoRender \<Rightarrow> render_event list \<Rightarrow> VideoRender \<Rightarrow> bool" where
  "vr_goes r es r' \<longleftrightarrow>
     vr_inv r' \<and> syncs (vr_bufferQueue r') = syncs (vr_bufferQueue r) + mset (created_syncs es)
     \<and> current_index (vr_bufferQueue r) \<le> current_index (vr_bufferQueue r')
     \<and> drawn_frames es = (if current_index (vr_bufferQueue r') = current_index (vr_bufferQueue r) then []
                           else [current_index (vr_bufferQueue r')])"

lemma vr_goes_refl: "vr_inv r \<Longrightarrow> vr_goes r [] r"
  by (simp add: vr_goes_def)

lemma vr_init_inv:
  assumes "vr_init r"
  shows "vr_inv r \<and> syncs (vr_bufferQueue r) = {#} \<and> current_index (vr_bufferQueue r) = -1"
proof -
  obtain ctx frame createFbo parts hasFence where i:
      "VideoRender_initialize ctx frame createFbo parts hasFence VideoRender_new = (Ret (), r)" "VideoRender_isValid r"
    using assms by (auto simp: vr_init_def)
  have u: "[0..<3] = [0, 1, 2]" by (simp add: upt_rec)
  let ?b = "RenderBuffer_new\<lparr>rb_fbo := Some True\<rparr>"
  have "vr_bufferQueue r = (RenderBufferQueue_new 3)\<lparr>rq_buffers := [?b, ?b, ?b], rq_initialized := True\<rparr>"
      "vr_currentDisplayBuffer r = None" "vr_pc r = RP_Idle"
    using i
    by (auto simp: VideoRender_initialize_def VideoRender_new_def RenderBufferQueue_initialize_def RenderBufferQueue_new_def
        VideoRender_isValid_def Let_def u numeral_3_eq_3 upd_buffer_def RenderBuffer_reset_def RenderBuffer_new_def sync_of_def
        split: if_splits)
  then show ?thesis
    using i(2) by (auto simp: vr_inv_def rq_inv_def buffer_ok_def held_buffer_def syncs_def sync_of_def current_index_def
        RenderBufferQueue_new_def RenderBuffer_new_def less_Suc_eq numeral_3_eq_3)
qed

lemma acquired_goes:
  assumes "vr_inv r" and "held_buffer r = None" and "RenderBufferQueue_acquireForRender st t now timeout entered (vr_bufferQueue r) = res"
    and "acquired t d res r = (Ret (), r')"
  shows "vr_goes r [] r'"
proof -
  obtain x q where res: "res = (x, q)" by (cases res)
  have inv: "rq_inv None (vr_bufferQueue r)" using assms(1,2) by (simp add: vr_inv_def)
  note a = acquireForRender_ok [OF inv assms(3) [unfolded res]]
  show ?thesis
    using assms(1,4) a res
    by (auto simp: vr_goes_def vr_inv_def acquired_def held_buffer_def VideoRender_isValid_def split: outcome.splits option.splits)
qed

lemma begin_goes:
  assumes "vr_inv r" and "vr_pc r = RP_Idle" and "render_begin st t now frame r = (Ret (), r')"
  shows "vr_goes r [] r'"
proof -
  have "held_buffer r = None" using assms(2) by (simp add: held_buffer_def)
  then show ?thesis
    using assms(3) acquired_goes [OF assms(1) _ refl] vr_goes_refl [OF assms(1)]
    by (auto simp: render_begin_def Let_def split: if_splits outcome.splits)
qed

lemma resume_goes:
  assumes "vr_inv r" and "render_resume st now woken r = (Ret (), r')"
  shows "vr_goes r [] r'"
  using assms(2) acquired_goes [OF assms(1) _ refl]
  by (auto simp: render_resume_def held_buffer_def split: render_pc.splits)

text \<open>An update of the buffer that is held which keeps what the invariant, the sync objects and the frame number depend on.\<close>

lemma upd_held_ok:
  assumes "rq_inv (Some i) q" and "\<And>b. rb_fence (f b) = rb_fence b"
    and "\<And>l c b. buffer_ok (Some i) l c i b \<Longrightarrow> buffer_ok held l c i (f b)" and "held = Some i \<or> held = None"
  shows "rq_inv held (upd_buffer i f q) \<and> syncs (upd_buffer i f q) = syncs q \<and> current_index (upd_buffer i f q) = current_index q"
proof -
  have i: "i < length (rq_buffers q)" and n: "rq_lastDisplayBuffer q \<noteq> Some i"
    using assms(1) by (auto simp: rq_inv_def buffer_ok_def)
  have "buffer_ok held l c j b" if "buffer_ok (Some i) l c j b" "j \<noteq> i" for l c j b
    using that assms(4) by (auto simp: buffer_ok_def)
  then have "rq_inv held (upd_buffer i f q)" using assms(1,3,4) i by (auto simp: rq_inv_def upd_buffer_nth)
  moreover have "current_index (upd_buffer i f q) = current_index q"
    using i n by (auto simp: current_index_def upd_buffer_nth split: option.splits)
  ultimately show ?thesis using syncs_upd_same [OF i assms(2)] by simp
qed

lemma end_goes:
  assumes "vr_inv r" and "render_end now success fence r = (Ret (), r')"
  shows "vr_goes r (end_events success fence r) r'"
proof -
  obtain i d where pc: "vr_pc r = RP_Rendering i d"
    using assms(2) by (auto simp: render_end_def split: render_pc.splits)
  let ?q = "upd_buffer i (\<lambda>b. b\<lparr>rb_durationMs := d\<rparr>) (vr_bufferQueue r)"
  have "rq_inv (Some i) (vr_bufferQueue r)" using assms(1) pc by (simp add: vr_inv_def held_buffer_def)
  then have q: "rq_inv (Some i) ?q" "syncs ?q = syncs (vr_bufferQueue r)" "current_index ?q = current_index (vr_bufferQueue r)"
    using upd_held_ok [of i "vr_bufferQueue r" "\<lambda>b. b\<lparr>rb_durationMs := d\<rparr>" "Some i"] by (auto simp: buffer_ok_def)
  show ?thesis
  proof (cases success)
    case True
    then show ?thesis
      using assms pc q markRenderFinished_ok [OF q(1) refl, of now "render_fence fence r"]
      by (auto simp: vr_goes_def vr_inv_def held_buffer_def VideoRender_isValid_def render_end_def end_events_def Let_def
          split: option.splits)
  next
    case False
    have "rq_inv None (upd_buffer i (\<lambda>b. b\<lparr>rb_inUse := False\<rparr>) ?q)
        \<and> syncs (upd_buffer i (\<lambda>b. b\<lparr>rb_inUse := False\<rparr>) ?q) = syncs ?q
        \<and> current_index (upd_buffer i (\<lambda>b. b\<lparr>rb_inUse := False\<rparr>) ?q) = current_index ?q"
      by (rule upd_held_ok [OF q(1)]) (auto simp: buffer_ok_def)
    then show ?thesis
      using assms pc q False
      by (auto simp: vr_goes_def vr_inv_def held_buffer_def VideoRender_isValid_def render_end_def end_events_def Let_def)
  qed
qed

lemma draw_goes:
  assumes "vr_inv r" and "VideoRender_draw st t r = (drawn, r')"
  shows "vr_goes r (draw_events r (drawn, r')) r' \<and> drawn = rq_lastDisplayBuffer (vr_bufferQueue r')"
proof -
  obtain new q where a: "RenderBufferQueue_acquireForDisplay st t (vr_bufferQueue r) = (new, q)" by fastforce
  have inv: "rq_inv (held_buffer r) (vr_bufferQueue r)" and valid: "VideoRender_isValid r"
      and last: "vr_currentDisplayBuffer r = rq_lastDisplayBuffer (vr_bufferQueue r)"
    using assms(1) by (auto simp: vr_inv_def)
  note d = acquireForDisplay_ok [OF inv a]
  have fbo: "rb_fbo (rq_buffers q ! i) = Some True" if "rq_lastDisplayBuffer q = Some i" for i
    using d that by (auto simp: rq_inv_def buffer_ok_def)
  have rel: "RenderBufferQueue_releaseDisplayBuffer (vr_currentDisplayBuffer r) q = q"
    if "rq_lastDisplayBuffer q = Some i" "vr_currentDisplayBuffer r \<noteq> Some i" for i
  proof (cases "vr_currentDisplayBuffer r")
    case (Some l)
    have "l < length (rq_buffers (vr_bufferQueue r))" using inv last Some by (simp add: rq_inv_def)
    then have "\<not> rb_displaying (rq_buffers q ! l)" using d that Some by (auto simp: rq_inv_def buffer_ok_def)
    then show ?thesis by (simp add: RenderBufferQueue_releaseDisplayBuffer_def Some)
  qed (simp add: RenderBufferQueue_releaseDisplayBuffer_def)
  have r': "vr_bufferQueue r' = q" "vr_currentDisplayBuffer r' = rq_lastDisplayBuffer q" "drawn = rq_lastDisplayBuffer q"
      "vr_pc r' = vr_pc r" "VideoRender_isValid r'"
    using assms(2) a d fbo rel last valid
    by (auto simp: VideoRender_draw_def has_fbo_def Let_def VideoRender_isValid_def split: option.splits if_splits)
  then have "vr_inv r'" using d by (simp add: vr_inv_def held_buffer_def)
  then show ?thesis
    using d r' by (auto simp: vr_goes_def draw_events_def current_index_def split: option.splits)
qed

lemmas vr_steps_go = begin_goes resume_goes end_goes draw_goes [THEN conjunct1]

lemma vr_step_goes: "vr_step r es r' \<Longrightarrow> vr_inv r \<Longrightarrow> vr_goes r es r'"
  by (induction rule: vr_step.induct) (auto intro: vr_steps_go)

interpretation vr: inductive_invariant vr_init vr_step vr_inv
  by unfold_locales (auto simp: vr_init_inv vr_goes_def dest: vr_step_goes)

text \<open>What the run leaves behind, from the steps.\<close>

lemma vr_run_goes:
  assumes "exec vr_step r ls r'" and "vr_inv r"
  shows "syncs (vr_bufferQueue r') = syncs (vr_bufferQueue r) + mset (created_syncs (concat ls))
     \<and> sorted_wrt (<) (current_index (vr_bufferQueue r) # drawn_frames (concat ls))
     \<and> current_index (vr_bufferQueue r') = last (current_index (vr_bufferQueue r) # drawn_frames (concat ls))"
  using assms
proof (induction rule: exec.induct)
  case (exec_step r es r' ls r'')
  have g: "vr_goes r es r'" using exec_step vr_step_goes by blast
  then have "vr_inv r'" by (simp add: vr_goes_def)
  then show ?case using exec_step.IH g by (auto simp: vr_goes_def)
qed simp

text \<open>The sync objects of a run are all different, since each was new.\<close>

lemma created_fresh:
  assumes "exec vr_step r ls r'" and "vr_inv r"
  shows "distinct (created_syncs (concat ls)) \<and> set (created_syncs (concat ls)) \<inter> set_mset (syncs (vr_bufferQueue r)) = {}"
  using assms
proof (induction rule: exec.induct)
  case (exec_step r es r' ls r'')
  have g: "vr_goes r es r'" using exec_step vr_step_goes by blast
  have "distinct (created_syncs es) \<and> set (created_syncs es) \<inter> set_mset (syncs (vr_bufferQueue r)) = {}"
    using exec_step.hyps(1)
    by (induction rule: vr_step.induct)
      (auto simp: end_events_def draw_events_def render_fence_def split: option.splits if_splits prod.splits)
  then show ?case using exec_step.IH g by (auto simp: vr_goes_def)
qed simp

subsection \<open>A run\<close>

text \<open>
  Frame 1 is rendered and its fence is not signalled when frame 2 comes: the buffer is taken again.  The rendering of
  frame 2 fails, then the fence of frame 1 is signalled and the screen is drawn.
\<close>

definition sample_video_frame :: ApiFrame where
  "sample_video_frame = Some ((sample_frame 0)\<lparr>fr_duration := Fin (1 / 25)\<rparr>)"

definition sample_run :: "nat \<Rightarrow> VideoRender" where
  "sample_run n =
     (let r0 = snd (VideoRender_initialize True sample_video_frame (\<lambda>_. True) [True, True, True, True] True VideoRender_new);
          r1 = snd (render_begin (\<lambda>_. GL_TIMEOUT_EXPIRED) 0 0 sample_video_frame r0);
          r2 = snd (render_end 20 True (Some 7) r1);
          r3 = snd (render_begin (\<lambda>_. GL_TIMEOUT_EXPIRED) 40 40 sample_video_frame r2);
          r4 = snd (render_end 60 False None r3);
          r5 = snd (VideoRender_draw (\<lambda>_. GL_ALREADY_SIGNALED) 70 r4)
      in [r0, r1, r2, r3, r4, r5] ! n)"

lemma sample_run_init: "vr_init (sample_run 0)"
proof -
  have "VideoRender_initialize True sample_video_frame (\<lambda>_. True) [True, True, True, True] True VideoRender_new = (Ret (), sample_run 0)"
      "VideoRender_isValid (sample_run 0)"
    by code_simp+
  then show ?thesis unfolding vr_init_def by blast
qed

lemma sample_run_steps:
  "exec vr_step (sample_run 0) [[], [SyncCreated 7, RenderDone 1], [], [RenderFailed 2], [Drawn 2]] (sample_run 5)"
proof -
  have "vr_step (sample_run 0) [] (sample_run 1)"
    by (rule vr_begin [of _ "\<lambda>_. GL_TIMEOUT_EXPIRED" 0 0 sample_video_frame]) code_simp+
  moreover have "vr_step (sample_run 1) [SyncCreated 7, RenderDone 1] (sample_run 2)"
  proof -
    have "end_events True (Some 7) (sample_run 1) = [SyncCreated 7, RenderDone 1]" "render_end 20 True (Some 7) (sample_run 1) = (Ret (), sample_run 2)"
        "syncs (vr_bufferQueue (sample_run 1)) = {#}"
      by code_simp+
    then show ?thesis using vr_end [of 20 True "Some 7" "sample_run 1" "sample_run 2"] by simp
  qed
  moreover have "vr_step (sample_run 2) [] (sample_run 3)"
    by (rule vr_begin [of _ "\<lambda>_. GL_TIMEOUT_EXPIRED" 40 40 sample_video_frame]) code_simp+
  moreover have "vr_step (sample_run 3) [RenderFailed 2] (sample_run 4)"
  proof -
    have "end_events False None (sample_run 3) = [RenderFailed 2]" "render_end 60 False None (sample_run 3) = (Ret (), sample_run 4)"
      by code_simp+
    then show ?thesis using vr_end [of 60 False None "sample_run 3" "sample_run 4"] by simp
  qed
  moreover have "vr_step (sample_run 4) [Drawn 2] (sample_run 5)"
  proof -
    have "draw_events (sample_run 4) (Some 0, sample_run 5) = [Drawn 2]"
        "VideoRender_draw (\<lambda>_. GL_ALREADY_SIGNALED) 70 (sample_run 4) = (Some 0, sample_run 5)"
      by code_simp+
    then show ?thesis using vr_draw [of "\<lambda>_. GL_ALREADY_SIGNALED" 70 "sample_run 4" "Some 0" "sample_run 5"] by simp
  qed
  ultimately show ?thesis by (blast intro: exec.intros)
qed

subsection \<open>Properties\<close>

text \<open>
  C28: In every state the two threads of the player can reach, the buffers keep their roles apart: the buffers in use for
  rendering are exactly the one the rendering thread holds, the buffers being shown are exactly the one \<open>draw\<close> last chose, that one
  is rendered, is not the one held and has its frame buffer object, and none is left waiting for release.  So what \<open>draw\<close> draws
  is never a buffer that is being rendered into.
\<close>
theorem VideoRender_exclusive:
  assumes "vr_init r0" and "exec vr_step r0 ls r" and "i < length (rq_buffers (vr_bufferQueue r))"
    and "b = rq_buffers (vr_bufferQueue r) ! i" and "VideoRender_draw st t r = (drawn, r')"
  shows "rb_inUse b = (held_buffer r = Some i) \<and> rb_displaying b = (vr_currentDisplayBuffer r = Some i)
     \<and> \<not> (rb_inUse b \<and> rb_displaying b) \<and> (rb_displaying b \<longrightarrow> rb_ready b) \<and> \<not> rb_pendingRelease b \<and> has_fbo i r
     \<and> drawn = vr_currentDisplayBuffer r' \<and> (drawn = None \<or> held_buffer r' \<noteq> drawn)"
proof -
  have inv: "vr_inv r" by (rule vr.reachable_inv [OF assms(1,2)])
  note d = draw_goes [OF inv assms(5)]
  have "drawn = vr_currentDisplayBuffer r'" using d by (simp add: vr_goes_def vr_inv_def)
  moreover have "drawn = None \<or> held_buffer r' \<noteq> drawn" using d by (auto simp: vr_goes_def vr_inv_def rq_inv_def buffer_ok_def)
  ultimately show ?thesis using inv assms(3,4) by (auto simp: vr_inv_def rq_inv_def buffer_ok_def has_fbo_def)
qed

theorem VideoRender_exclusive_witness:
  "rb_displaying (rq_buffers (vr_bufferQueue (sample_run 5)) ! 0) = (vr_currentDisplayBuffer (sample_run 5) = Some 0)
   \<and> rb_displaying (rq_buffers (vr_bufferQueue (sample_run 5)) ! 0)"
proof -
  obtain drawn r' where d: "VideoRender_draw (\<lambda>_. GL_TIMEOUT_EXPIRED) 80 (sample_run 5) = (drawn, r')" by fastforce
  have "0 < length (rq_buffers (vr_bufferQueue (sample_run 5)))" "vr_currentDisplayBuffer (sample_run 5) = Some 0" by code_simp+
  then show ?thesis
    using VideoRender_exclusive [OF sample_run_init sample_run_steps _ refl d, of 0] by simp
qed

text \<open>
  C29: Whatever the rendering thread and the drawing thread do in turns, the frames appear on the screen in the order
  in which their rendering began, each at most once: frames are skipped, but an older frame never follows a newer one.
\<close>
theorem VideoRender_frames_in_order:
  assumes "vr_init r0" and "exec vr_step r0 ls r"
  shows "sorted_wrt (<) (drawn_frames (concat ls)) \<and> (\<forall>n \<in> set (drawn_frames (concat ls)). 0 \<le> n)"
proof -
  note i = vr_init_inv [OF assms(1)]
  show ?thesis using vr_run_goes [OF assms(2)] i by auto
qed

theorem VideoRender_frames_in_order_witness:
  "sorted_wrt (<) (drawn_frames (concat [[], [SyncCreated 7, RenderDone 1], [], [RenderFailed 2], [Drawn 2]]))"
  using VideoRender_frames_in_order [OF sample_run_init sample_run_steps] by simp

text \<open>
  C30: Every fence that was created is, at any moment, either deleted once or held by exactly one buffer: no fence is leaked
  and none is deleted twice, whatever the order of rendering, failures and drawing, and destroying the renderer deletes those that are left.
\<close>
theorem VideoRender_syncs:
  assumes "vr_init r0" and "exec vr_step r0 ls r"
  shows "mset (rq_deletedSyncs (vr_bufferQueue r)) + mset (concat (map sync_of (rq_buffers (vr_bufferQueue r))))
           = mset (created_syncs (concat ls))
     \<and> distinct (rq_deletedSyncs (vr_bufferQueue r))
     \<and> mset (rq_deletedSyncs (vr_bufferQueue (VideoRender_destroy r))) = mset (created_syncs (concat ls))"
proof -
  note i = vr_init_inv [OF assms(1)]
  have "syncs (RenderBufferQueue_releaseDisplayBuffer (vr_currentDisplayBuffer r) (vr_bufferQueue r)) = syncs (vr_bufferQueue r)"
    using vr.reachable_inv [OF assms] by (intro release_syncs) (auto simp: vr_inv_def rq_inv_def)
  then have d: "mset (rq_deletedSyncs (vr_bufferQueue (VideoRender_destroy r))) = syncs (vr_bufferQueue r)"
    by (simp add: VideoRender_destroy_def cleanup_syncs)
  have m: "syncs (vr_bufferQueue r) = mset (created_syncs (concat ls))" using vr_run_goes [OF assms(2)] i by simp
  have "distinct (rq_deletedSyncs (vr_bufferQueue r) @ concat (map sync_of (rq_buffers (vr_bufferQueue r))))"
    using created_fresh [OF assms(2)] i m by (metis mset_append mset_eq_imp_distinct_iff syncs_def)
  then show ?thesis using m d by (simp add: syncs_def)
qed

theorem VideoRender_syncs_witness:
  "rq_deletedSyncs (vr_bufferQueue (sample_run 5)) = [7] \<and> distinct (rq_deletedSyncs (vr_bufferQueue (sample_run 5)))"
proof -
  have "rq_deletedSyncs (vr_bufferQueue (sample_run 5)) = [7]" by code_simp
  then show ?thesis using VideoRender_syncs [OF sample_run_init sample_run_steps] by simp
qed

text \<open>
  A frame whose rendering failed can be drawn.  A buffer whose fence is not signalled counts as free, so the next frame
  takes it and leaves the old fence in it; when the rendering of that frame fails the fence stays, and once it is signalled the buffer
  is ready under the number of the failed frame and \<open>draw\<close> shows it, while frame 1, which was rendered, never appears and is not counted as dropped.
\<close>
theorem VideoRender_failed_frame_shown:
  "\<exists>r0 ls r. vr_init r0 \<and> exec vr_step r0 ls r \<and> concat ls = [SyncCreated 7, RenderDone 1, RenderFailed 2, Drawn 2]
     \<and> rq_droppedFrameCount (vr_bufferQueue r) = 0"
proof -
  have "rq_droppedFrameCount (vr_bufferQueue (sample_run 5)) = 0" by code_simp
  then show ?thesis using sample_run_init sample_run_steps by fastforce
qed

end
