(* ===== verification/AudioRenders.thy ===== *)
theory AudioRenders
  imports ApiFrames "HOL-Library.Signed_Division"
begin

text \<open>
  Class \<open>AudioRender\<close> of the Qt player (\<open>src/examples/qt_gui/src/VideoPlayer/VideoRender/AudioRender.cpp\<close>): the format of the audio output, its
  life, and the samples that are written to it with the volume applied.

  \<open>ar_audioOutput\<close> and \<open>ar_audioDevice\<close> tell whether the pointers are not null, \<open>ar_calls\<close> records the calls of the audio output.  What the
  device supports and how much it takes are arguments, as is the scaling of floating-point samples.  The codec and the byte order of
  the format are always PCM and little endian.
\<close>

datatype SampleType = QAF_Unknown | QAF_SignedInt | QAF_UnSignedInt | QAF_Float

record QAudioFormat =
  qf_sampleRate :: int
  qf_channelCount :: int
  qf_sampleSize :: int
  qf_sampleType :: SampleType

datatype output_call = Output_start | Output_stop | Output_suspend | Output_resume | Output_setVolume double
  | Output_setBufferSize int | Output_setNotifyInterval int

record AudioRender =
  ar_audioOutput :: bool
  ar_audioDevice :: bool
  ar_audioFormat :: QAudioFormat
  ar_initialized :: bool
  ar_playing :: bool
  ar_volume :: double
  ar_sampleRate :: int
  ar_channels :: int
  ar_sampleSize :: int
  ar_totalFramesRendered :: int
  ar_totalBytesRendered :: int
  ar_droppedFrames :: int
  ar_calls :: "output_call list"

record AudioStatistics =
  as_totalFramesRendered :: int
  as_totalBytesRendered :: int
  as_availableBytes :: int
  as_droppedFrames :: int

definition AudioRender_new :: AudioRender where
  "AudioRender_new =
     \<lparr>ar_audioOutput = False, ar_audioDevice = False,
      ar_audioFormat = \<lparr>qf_sampleRate = -1, qf_channelCount = -1, qf_sampleSize = -1, qf_sampleType = QAF_Unknown\<rparr>,
      ar_initialized = False, ar_playing = False, ar_volume = Fin 1, ar_sampleRate = 44100, ar_channels = 2, ar_sampleSize = 16,
      ar_totalFramesRendered = 0, ar_totalBytesRendered = 0, ar_droppedFrames = 0, ar_calls = []\<rparr>"

definition output_call_made :: "output_call \<Rightarrow> AudioRender \<Rightarrow> AudioRender" where
  "output_call_made c r = r\<lparr>ar_calls := ar_calls r @ [c]\<rparr>"

subsection \<open>Qt's comparisons\<close>

definition qMin :: "double \<Rightarrow> double \<Rightarrow> double" where "qMin a b = (if d_lt a b then a else b)"
definition qMax :: "double \<Rightarrow> double \<Rightarrow> double" where "qMax a b = (if d_lt a b then b else a)"
definition qBound :: "double \<Rightarrow> double \<Rightarrow> double \<Rightarrow> double" where "qBound lo v hi = qMax lo (qMin hi v)"
definition qBound_int :: "int \<Rightarrow> int \<Rightarrow> int \<Rightarrow> int" where "qBound_int lo v hi = max lo (min hi v)"

definition qFuzzyCompare :: "double \<Rightarrow> double \<Rightarrow> bool" where
  "qFuzzyCompare p q \<longleftrightarrow> d_le (d_mul (d_abs (d_sub p q)) (Fin (10 ^ 12))) (qMin (d_abs p) (d_abs q))"

subsection \<open>The format and the output\<close>

definition sample_layout :: "AudioSampleFormat \<Rightarrow> int \<times> SampleType" where
  "sample_layout fmt =
     (case fmt of
        SF_kFmtU8 \<Rightarrow> (8, QAF_UnSignedInt) | SF_kFmtU8P \<Rightarrow> (8, QAF_UnSignedInt)
      | SF_kFmtS16 \<Rightarrow> (16, QAF_SignedInt) | SF_kFmtS16P \<Rightarrow> (16, QAF_SignedInt)
      | SF_kFmtS32 \<Rightarrow> (32, QAF_SignedInt) | SF_kFmtS32P \<Rightarrow> (32, QAF_SignedInt)
      | SF_kFmtFlt \<Rightarrow> (32, QAF_Float) | SF_kFmtFltP \<Rightarrow> (32, QAF_Float)
      | SF_kFmtDbl \<Rightarrow> (64, QAF_Float) | SF_kFmtDblP \<Rightarrow> (64, QAF_Float)
      | _ \<Rightarrow> (16, QAF_SignedInt))"

definition AudioRender_initAudioFormat :: "ApiFrame \<Rightarrow> AudioRender \<Rightarrow> AudioRender" where
  "AudioRender_initAudioFormat frame r =
     (let rate = ApiFrame_sampleRate frame; ch = ApiFrame_channels frame; layout = sample_layout (ApiFrame_sampleFormat frame)
      in r\<lparr>ar_sampleRate := rate, ar_channels := ch, ar_sampleSize := fst layout,
           ar_audioFormat := \<lparr>qf_sampleRate = max rate 1, qf_channelCount = max ch 1, qf_sampleSize = fst layout, qf_sampleType = snd layout\<rparr>\<rparr>)"

text \<open>Products of type \<open>int\<close>: \<open>None\<close> when one overflows.\<close>

definition int_mul :: "int \<Rightarrow> int \<Rightarrow> int option" where
  "int_mul a b = (if - (2 ^ 31) \<le> a * b \<and> a * b < 2 ^ 31 then Some (a * b) else None)"

definition bytes_per_second :: "QAudioFormat \<Rightarrow> int option" where
  "bytes_per_second fmt =
     (case int_mul (qf_sampleRate fmt) (qf_channelCount fmt) of
        None \<Rightarrow> None | Some n \<Rightarrow> int_mul n (qf_sampleSize fmt sdiv 8))"

definition ms_bytes :: "int \<Rightarrow> int \<Rightarrow> int option" where
  "ms_bytes bytesPerSecond ms = map_option (\<lambda>n. n sdiv 1000) (int_mul bytesPerSecond ms)"

text \<open>The buffer of 50 ms within the bounds of 20 and 100 ms; the log message divides by the bytes per second.\<close>

definition buffer_size :: "int \<Rightarrow> int option" where
  "buffer_size bytesPerSecond =
     (case (ms_bytes bytesPerSecond 50, ms_bytes bytesPerSecond 20, ms_bytes bytesPerSecond 100) of
        (Some n, Some lo, Some hi) \<Rightarrow>
          let bufferSize = qBound_int lo n hi
          in if bytesPerSecond = 0 \<or> int_mul bufferSize 1000 = None then None else Some bufferSize
      | _ \<Rightarrow> None)"

definition AudioRender_initAudioOutput ::
    "(QAudioFormat \<Rightarrow> bool) \<Rightarrow> (QAudioFormat \<Rightarrow> QAudioFormat) \<Rightarrow> AudioRender \<Rightarrow> bool outcome \<times> AudioRender" where
  "AudioRender_initAudioOutput isFormatSupported nearestFormat r =
     (let fmt = (if isFormatSupported (ar_audioFormat r) then ar_audioFormat r else nearestFormat (ar_audioFormat r));
          r1 = r\<lparr>ar_audioFormat := fmt, ar_audioOutput := True\<rparr>
      in case bytes_per_second fmt of
           None \<Rightarrow> (UB, r1)
         | Some bytesPerSecond \<Rightarrow>
             (case buffer_size bytesPerSecond of
                None \<Rightarrow> (UB, r1)
              | Some bufferSize \<Rightarrow>
                  (Ret True, output_call_made (Output_setNotifyInterval (max 10 (50 div 2)))
                               (output_call_made (Output_setBufferSize bufferSize) r1))))"

definition AudioRender_initialize ::
    "(QAudioFormat \<Rightarrow> bool) \<Rightarrow> (QAudioFormat \<Rightarrow> QAudioFormat) \<Rightarrow> ApiFrame \<Rightarrow> AudioRender \<Rightarrow> unit outcome \<times> AudioRender" where
  "AudioRender_initialize isFormatSupported nearestFormat frame r =
     (if ar_initialized r \<or> \<not> ApiFrame_isValid frame then (Ret (), r)
      else case AudioRender_initAudioOutput isFormatSupported nearestFormat (AudioRender_initAudioFormat frame r) of
             (Ret ok, r1) \<Rightarrow> (Ret (), if ok then r1\<lparr>ar_initialized := True\<rparr> else r1)
           | (Wait, r1) \<Rightarrow> (Wait, r1)
           | (UB, r1) \<Rightarrow> (UB, r1))"

subsection \<open>Playing\<close>

definition AudioRender_isValid :: "AudioRender \<Rightarrow> bool" where
  "AudioRender_isValid r \<longleftrightarrow> ar_initialized r \<and> ar_audioOutput r"

text \<open>\<open>device\<close>: whether the start of the output gives a device.\<close>

definition AudioRender_start :: "bool \<Rightarrow> AudioRender \<Rightarrow> AudioRender" where
  "AudioRender_start device r =
     (if \<not> AudioRender_isValid r \<or> ar_playing r then r
      else if ar_audioOutput r
      then let r1 = (output_call_made Output_start r)\<lparr>ar_audioDevice := device\<rparr>
           in if \<not> device then r1 else r1\<lparr>ar_playing := True\<rparr>
      else r)"

definition AudioRender_stop :: "AudioRender \<Rightarrow> AudioRender" where
  "AudioRender_stop r =
     (if \<not> ar_playing r then r
      else let r1 = r\<lparr>ar_playing := False\<rparr>
           in if ar_audioOutput r then (output_call_made Output_stop r1)\<lparr>ar_audioDevice := False\<rparr> else r1)"

definition AudioRender_pause :: "AudioRender \<Rightarrow> AudioRender" where
  "AudioRender_pause r = (if \<not> ar_playing r then r else if ar_audioOutput r then output_call_made Output_suspend r else r)"

definition AudioRender_resume :: "AudioRender \<Rightarrow> AudioRender" where
  "AudioRender_resume r = (if \<not> ar_playing r then r else if ar_audioOutput r then output_call_made Output_resume r else r)"

definition AudioRender_setVolume :: "double \<Rightarrow> AudioRender \<Rightarrow> AudioRender" where
  "AudioRender_setVolume volume r =
     (let r1 = r\<lparr>ar_volume := qBound (Fin 0) volume (Fin 1)\<rparr>
      in if ar_audioOutput r then output_call_made (Output_setVolume (ar_volume r1)) r1 else r1)"

text \<open>\<open>idle\<close>: the new state is the idle one.\<close>

definition AudioRender_handleStateChanged :: "bool \<Rightarrow> AudioRender \<Rightarrow> AudioRender outcome" where
  "AudioRender_handleStateChanged idle r =
     (if idle \<and> ar_playing r then if ar_audioOutput r then Ret (output_call_made Output_resume r) else UB else Ret r)"

definition AudioRender_destroy :: "AudioRender \<Rightarrow> AudioRender" where
  "AudioRender_destroy r =
     (let r1 = AudioRender_stop r
      in if ar_audioOutput r1 then (output_call_made Output_stop r1)\<lparr>ar_audioOutput := False\<rparr> else r1)"

definition AudioRender_getStatistics :: "AudioRender \<Rightarrow> AudioStatistics" where
  "AudioRender_getStatistics r =
     \<lparr>as_totalFramesRendered = ar_totalFramesRendered r, as_totalBytesRendered = ar_totalBytesRendered r, as_availableBytes = 0,
      as_droppedFrames = ar_droppedFrames r\<rparr>"

subsection \<open>Samples\<close>

fun le_value :: "byte list \<Rightarrow> int" where
  "le_value [] = 0"
| "le_value (b # bs) = uint b + 256 * le_value bs"

primrec le_bytes :: "nat \<Rightarrow> int \<Rightarrow> byte list" where
  "le_bytes 0 n = []"
| "le_bytes (Suc k) n = word_of_int n # le_bytes k (n div 256)"

text \<open>A sample of \<open>k\<close> bytes, signed.\<close>

definition signed_value :: "nat \<Rightarrow> byte list \<Rightarrow> int" where
  "signed_value k bs = signed_take_bit (8 * k - 1) (le_value bs)"

text \<open>The loop over the samples of \<open>k\<close> bytes; what is left after the last whole sample stays as it is.\<close>

primrec each_sample :: "nat \<Rightarrow> nat \<Rightarrow> (byte list \<Rightarrow> byte list option) \<Rightarrow> byte list \<Rightarrow> byte list option" where
  "each_sample k 0 f bs = Some bs"
| "each_sample k (Suc n) f bs =
     (case f (take k bs) of
        None \<Rightarrow> None
      | Some b \<Rightarrow> map_option (\<lambda>rest. b @ rest) (each_sample k n f (drop k bs)))"

text \<open>The product of a sample and the volume, converted to a signed integer of \<open>bits\<close> bits.\<close>

definition scale_int :: "nat \<Rightarrow> int \<Rightarrow> double \<Rightarrow> int \<Rightarrow> int option" where
  "scale_int bits offset volume s =
     (case d_add (d_mul (Fin (of_int s)) volume) (Fin (of_int offset)) of
        Fin x \<Rightarrow> if - (2 ^ (bits - 1)) \<le> trunc_to_int x \<and> trunc_to_int x < 2 ^ (bits - 1) then Some (trunc_to_int x) else None
      | _ \<Rightarrow> None)"

definition AudioRender_applyVolume ::
    "(double \<Rightarrow> byte list \<Rightarrow> byte list) \<Rightarrow> (double \<Rightarrow> byte list \<Rightarrow> byte list) \<Rightarrow> double \<Rightarrow> AudioRender \<Rightarrow> byte list \<Rightarrow> byte list option" where
  "AudioRender_applyVolume scaleFloat scaleDouble volume r bs =
     (if qFuzzyCompare volume (Fin 1) \<or> bs = [] then Some bs
      else let size = ar_sampleSize r
           in if size = 8
              then each_sample 1 (length bs) (\<lambda>b. map_option (\<lambda>v. le_bytes 1 (qBound_int 0 v 255)) (scale_int 32 128 volume (le_value b - 128))) bs
              else if size = 16
              then each_sample 2 (length bs div 2)
                     (\<lambda>b. map_option (\<lambda>v. le_bytes 2 (qBound_int (- 32768) v 32767)) (scale_int 32 0 volume (signed_value 2 b))) bs
              else if size = 32
              then if qf_sampleType (ar_audioFormat r) = QAF_SignedInt
                   then each_sample 4 (length bs div 4)
                          (\<lambda>b. map_option (\<lambda>v. le_bytes 4 (qBound_int (- (2 ^ 31)) v (2 ^ 31 - 1))) (scale_int 64 0 volume (signed_value 4 b))) bs
                   else each_sample 4 (length bs div 4) (\<lambda>b. Some (scaleFloat volume b)) bs
              else if size = 64 then each_sample 8 (length bs div 8) (\<lambda>b. Some (scaleDouble volume b)) bs
              else Some bs)"

text \<open>The bytes are copied from the first plane: a plane that is shorter than the size of the audio data is read beyond its end.\<close>

definition AudioRender_convertAudioData :: "frame_queries \<Rightarrow> ApiFrame \<Rightarrow> byte list outcome" where
  "AudioRender_convertAudioData qs frame =
     (case ApiFrame_data 0 frame of
        Ret (Some audioData) \<Rightarrow>
          let dataSize = ApiFrame_getAudioBufferSize qs frame
          in if dataSize \<le> 0 then Ret []
             else if nat dataSize \<le> length audioData then Ret (take (nat dataSize) audioData) else UB
      | Ret None \<Rightarrow> Ret []
      | Wait \<Rightarrow> Wait
      | UB \<Rightarrow> UB)"

text \<open>\<open>written\<close>: the result of writing to the device.  The result is what is given to it.\<close>

definition AudioRender_render ::
    "(double \<Rightarrow> byte list \<Rightarrow> byte list) \<Rightarrow> (double \<Rightarrow> byte list \<Rightarrow> byte list) \<Rightarrow> frame_queries \<Rightarrow> (byte list \<Rightarrow> int) \<Rightarrow> ApiFrame
     \<Rightarrow> AudioRender \<Rightarrow> byte list outcome \<times> AudioRender" where
  "AudioRender_render scaleFloat scaleDouble qs written frame r =
     (if \<not> ApiFrame_isValid frame \<or> \<not> AudioRender_isValid r \<or> \<not> ar_audioDevice r then (Ret [], r)
      else case AudioRender_convertAudioData qs frame of
             Ret audioData \<Rightarrow>
               if audioData = [] then (Ret [], r)
               else (case AudioRender_applyVolume scaleFloat scaleDouble (ar_volume r) r audioData of
                       None \<Rightarrow> (UB, r)
                     | Some bs \<Rightarrow>
                         let bytesWritten = written bs;
                             r1 = (if bytesWritten > 0
                                   then r\<lparr>ar_totalFramesRendered := ar_totalFramesRendered r + 1,
                                          ar_totalBytesRendered := ar_totalBytesRendered r + bytesWritten\<rparr> else r);
                             r2 = (if bytesWritten < int (length bs) then r1\<lparr>ar_droppedFrames := ar_droppedFrames r1 + 1\<rparr> else r1)
                         in (Ret bs, r2))
           | Wait \<Rightarrow> (Wait, r)
           | UB \<Rightarrow> (UB, r))"

subsection \<open>Little-endian samples\<close>

lemma le_bytes_length [simp]: "length (le_bytes k n) = k"
  by (induction k arbitrary: n) simp_all

lemma le_value_le_bytes: "le_value (le_bytes k n) = n mod 2 ^ (8 * k)"
proof (induction k arbitrary: n)
  case (Suc k)
  have "uint (word_of_int n :: byte) = n mod 256" by (simp add: uint_word_of_int)
  then have "le_value (le_bytes (Suc k) n) = n mod 256 + 256 * (n div 256 mod 2 ^ (8 * k))" using Suc by simp
  also have "\<dots> = n mod (256 * 2 ^ (8 * k))" by (simp add: zmod_zmult2_eq)
  finally show ?case by (simp add: power_add)
qed simp

text \<open>A number that fits is read back.\<close>

lemma signed_value_le_bytes:
  assumes "0 < k" and "- (2 ^ (8 * k - 1)) \<le> n" and "n < 2 ^ (8 * k - 1)"
  shows "signed_value k (le_bytes k n) = n"
proof -
  have "signed_value k (le_bytes k n) = signed_take_bit (8 * k - 1) (take_bit (8 * k) n)"
    by (simp add: signed_value_def le_value_le_bytes take_bit_eq_mod)
  also have "\<dots> = signed_take_bit (8 * k - 1) n" using assms(1) by (auto simp: signed_take_bit_take_bit)
  also have "\<dots> = n" using assms(2,3) by (rule signed_take_bit_int_eq_self)
  finally show ?thesis .
qed

lemma each_sample_result:
  assumes "\<And>b. length b = k \<Longrightarrow> \<exists>b'. f b = Some b' \<and> length b' = k" and "k * n \<le> length bs"
  shows "\<exists>bs'. each_sample k n f bs = Some bs' \<and> length bs' = length bs
     \<and> (\<forall>i < n. f (take k (drop (k * i) bs)) = Some (take k (drop (k * i) bs')))"
  using assms(2)
proof (induction n arbitrary: bs)
  case (Suc n)
  have "length (take k bs) = k" using Suc.prems by simp
  then obtain b where b: "f (take k bs) = Some b" "length b = k" using assms(1) by blast
  obtain rest where r: "each_sample k n f (drop k bs) = Some rest" "length rest = length (drop k bs)"
      "\<forall>i < n. f (take k (drop (k * i) (drop k bs))) = Some (take k (drop (k * i) rest))"
    using Suc.IH [of "drop k bs"] Suc.prems by fastforce
  have "f (take k (drop (k * i) bs)) = Some (take k (drop (k * i) (b @ rest)))" if "i < Suc n" for i
  proof (cases i)
    case 0
    then show ?thesis using b by simp
  next
    case (Suc j)
    then show ?thesis using r(3) that b(2) by (auto simp: add.commute)
  qed
  then show ?case using b r Suc.prems by auto
qed simp

subsection \<open>The volume\<close>

lemma qBound_unit: "\<exists>v. qBound (Fin 0) volume (Fin 1) = Fin v \<and> 0 \<le> v \<and> v \<le> 1"
  by (cases volume) (auto simp: qBound_def qMin_def qMax_def)

lemma trunc_between: "of_int a \<le> x \<Longrightarrow> x \<le> of_int b \<Longrightarrow> a \<le> trunc_to_int x \<and> trunc_to_int x \<le> b"
  unfolding trunc_to_int_def by (auto simp: le_floor_iff floor_le_iff ceiling_le_iff le_ceiling_iff)

text \<open>A volume between 0 and 1 makes no sample larger and does not overflow.\<close>

lemma volume_between:
  assumes "0 \<le> v" and "v \<le> (1 :: real)"
  shows "of_int (min 0 s) \<le> of_int s * v \<and> of_int s * v \<le> of_int (max 0 s)"
proof (cases "0 \<le> s")
  case True
  then show ?thesis using assms by (auto simp: mult_left_le)
next
  case False
  then show ?thesis using assms mult_left_mono_neg [of v 1 "of_int s"] by (auto simp: mult_nonpos_nonneg)
qed

lemma scale_int_attenuates:
  assumes "0 \<le> v" and "v \<le> 1" and "- (2 ^ (bits - 1)) \<le> s" and "s < 2 ^ (bits - 1)"
  shows "\<exists>t. scale_int bits 0 (Fin v) s = Some t \<and> t = trunc_to_int (of_int s * v) \<and> min 0 s \<le> t \<and> t \<le> max 0 s"
proof -
  have t: "min 0 s \<le> trunc_to_int (of_int s * v) \<and> trunc_to_int (of_int s * v) \<le> max 0 s"
    using volume_between [OF assms(1,2)] by (intro trunc_between) auto
  moreover have "- (2 ^ (bits - 1)) \<le> min 0 s" "max 0 s < 2 ^ (bits - 1)" using assms(3,4) by simp_all
  ultimately show ?thesis by (auto simp: scale_int_def)
qed

lemma scale_int_byte:
  assumes "0 \<le> v" and "v \<le> 1" and "- 128 \<le> s" and "s < 128"
  shows "\<exists>t. scale_int 32 128 (Fin v) s = Some t \<and> 0 \<le> t \<and> t \<le> 255"
proof -
  have "of_int (- 128) \<le> of_int s * v" "of_int s * v \<le> of_int 127"
    using volume_between [OF assms(1,2), of s] assms(3,4) by auto
  then have "0 \<le> trunc_to_int (of_int s * v + 128) \<and> trunc_to_int (of_int s * v + 128) \<le> 255"
    by (intro trunc_between) auto
  then show ?thesis by (auto simp: scale_int_def)
qed

lemma signed_value_range:
  assumes "0 < k"
  shows "- (2 ^ (8 * k - 1)) \<le> signed_value k bs" and "signed_value k bs < 2 ^ (8 * k - 1)"
  by (simp_all add: signed_value_def signed_take_bit_int_greater_eq_minus_exp signed_take_bit_int_less_exp)

text \<open>
  The volume on samples of 16 bits: the length stays, every sample is the old one times the volume without its fraction, and none gets larger.
\<close>

theorem AudioRender_volume16:
  assumes "0 \<le> v" and "v \<le> 1" and "ar_sampleSize r = 16" and "\<not> qFuzzyCompare (Fin v) (Fin 1)"
  shows "\<exists>bs'. AudioRender_applyVolume scaleFloat scaleDouble (Fin v) r bs = Some bs' \<and> length bs' = length bs
     \<and> (\<forall>i < length bs div 2. let s = signed_value 2 (take 2 (drop (2 * i) bs)); s' = signed_value 2 (take 2 (drop (2 * i) bs'))
          in s' = trunc_to_int (of_int s * v) \<and> min 0 s \<le> s' \<and> s' \<le> max 0 s)"
proof -
  let ?f = "\<lambda>b. map_option (\<lambda>t. le_bytes 2 (qBound_int (- 32768) t 32767)) (scale_int 32 0 (Fin v) (signed_value 2 b))"
  have f: "\<exists>b'. ?f b = Some b' \<and> length b' = 2 \<and> signed_value 2 b' = trunc_to_int (of_int (signed_value 2 b) * v)
      \<and> min 0 (signed_value 2 b) \<le> signed_value 2 b' \<and> signed_value 2 b' \<le> max 0 (signed_value 2 b)" for b
  proof -
    have r: "- 32768 \<le> signed_value 2 b" "signed_value 2 b < 32768" using signed_value_range [of 2 b] by simp_all
    then obtain t where t: "scale_int 32 0 (Fin v) (signed_value 2 b) = Some t" "t = trunc_to_int (of_int (signed_value 2 b) * v)"
        "min 0 (signed_value 2 b) \<le> t" "t \<le> max 0 (signed_value 2 b)"
      using scale_int_attenuates [OF assms(1,2), of 32 "signed_value 2 b"] by auto
    have "- 32768 \<le> t" "t < 32768" using t(3,4) r by simp_all
    then have "signed_value 2 (le_bytes 2 t) = t" "qBound_int (- 32768) t 32767 = t"
      using signed_value_le_bytes [of 2 t] by (auto simp: qBound_int_def)
    then show ?thesis using t by simp
  qed
  have total: "\<exists>b'. ?f b = Some b' \<and> length b' = 2" for b using f [of b] by blast
  obtain bs' where bs': "each_sample 2 (length bs div 2) ?f bs = Some bs'" "length bs' = length bs"
      "\<forall>i < length bs div 2. ?f (take 2 (drop (2 * i) bs)) = Some (take 2 (drop (2 * i) bs'))"
    using each_sample_result [of 2 ?f "length bs div 2" bs] total by auto
  have "let s = signed_value 2 (take 2 (drop (2 * i) bs)); s' = signed_value 2 (take 2 (drop (2 * i) bs'))
      in s' = trunc_to_int (of_int s * v) \<and> min 0 s \<le> s' \<and> s' \<le> max 0 s" if "i < length bs div 2" for i
    using bs'(3) that f [of "take 2 (drop (2 * i) bs)"] unfolding Let_def by (metis option.inject)
  then show ?thesis using bs'(1,2) assms(3,4) by (cases "bs = []") (auto simp: AudioRender_applyVolume_def)
qed

text \<open>Whatever the format, a volume between 0 and 1 is applied without overflow and keeps the number of bytes.\<close>

lemma applyVolume_defined:
  assumes "0 \<le> v" and "v \<le> 1" and "\<And>v b. length (scaleFloat v b) = length b" and "\<And>v b. length (scaleDouble v b) = length b"
  shows "\<exists>bs'. AudioRender_applyVolume scaleFloat scaleDouble (Fin v) r bs = Some bs' \<and> length bs' = length bs"
proof -
  have ints: "\<exists>b'. map_option (\<lambda>t. le_bytes k (g t)) (scale_int bits 0 (Fin v) (signed_value k b)) = Some b' \<and> length b' = k"
    if k: "8 * k \<le> bits" "0 < k" for k bits g b
  proof -
    have "(2 :: int) ^ (8 * k - 1) \<le> 2 ^ (bits - 1)" using k by (intro power_increasing) auto
    then have "- (2 ^ (bits - 1)) \<le> signed_value k b" "signed_value k b < 2 ^ (bits - 1)"
      using signed_value_range [OF k(2), of b] by linarith+
    then obtain t where "scale_int bits 0 (Fin v) (signed_value k b) = Some t"
      using scale_int_attenuates [OF assms(1,2)] by blast
    then show ?thesis by simp
  qed
  have bytes: "\<exists>b'. map_option (\<lambda>t. le_bytes 1 (g t)) (scale_int 32 128 (Fin v) (le_value b - 128)) = Some b' \<and> length b' = 1"
    if one: "length b = 1" for g b
  proof -
    obtain x where "b = [x]" using one by (cases b) auto
    then have "- 128 \<le> le_value b - 128" "le_value b - 128 < 128" using uint_bounded [of x] by simp_all
    then obtain t where "scale_int 32 128 (Fin v) (le_value b - 128) = Some t"
      using scale_int_byte [OF assms(1,2)] by blast
    then show ?thesis by simp
  qed
  have each: "\<exists>bs'. each_sample k (length bs div k) f bs = Some bs' \<and> length bs' = length bs"
    if "\<And>b. length b = k \<Longrightarrow> \<exists>b'. f b = Some b' \<and> length b' = k" for k f
    using each_sample_result [of k f "length bs div k" bs] that by auto
  note e1 = each [of 1, OF bytes, simplified]
  show ?thesis
    unfolding AudioRender_applyVolume_def Let_def
    using e1 each [of 2, OF ints] each [of 4, OF ints] each [of 4 "\<lambda>b. Some (scaleFloat (Fin v) b)"]
      each [of 8 "\<lambda>b. Some (scaleDouble (Fin v) b)"] assms(3,4)
    by auto
qed

subsection \<open>The buffer of the output\<close>

text \<open>The sizes are defined up to \<open>2 ^ 31 / 100\<close> bytes per second, about 21 million.\<close>

lemma buffer_size_defined:
  assumes "0 < n"
  shows "buffer_size n = (if n * 100 < 2 ^ 31 then Some (n * 50 div 1000) else None)"
proof -
  have d: "n * m sdiv 1000 = n * m div 1000" if "0 \<le> m" for m
    using assms that by (cases "m = 0") (auto simp: signed_divide_int_def)
  show ?thesis
    using assms d [of 50] d [of 20] d [of 100]
    by (auto simp: buffer_size_def ms_bytes_def int_mul_def qBound_int_def Let_def)
qed

subsection \<open>The life of the output\<close>

text \<open>There is a device exactly while the renderer plays, and it plays only with an output; the volume is between 0 and 1.\<close>

definition ar_inv :: "AudioRender \<Rightarrow> bool" where
  "ar_inv r \<longleftrightarrow>
     ar_audioDevice r = ar_playing r \<and> (ar_playing r \<longrightarrow> ar_audioOutput r \<and> ar_initialized r)
     \<and> (case ar_volume r of Fin v \<Rightarrow> 0 \<le> v \<and> v \<le> 1 | _ \<Rightarrow> False)"

lemma ar_inv_new: "ar_inv AudioRender_new"
  by (simp add: ar_inv_def AudioRender_new_def)

lemma ar_inv_calls:
  assumes "ar_inv r"
  shows "ar_inv (AudioRender_start device r)" "ar_inv (AudioRender_stop r)" "ar_inv (AudioRender_pause r)" "ar_inv (AudioRender_resume r)"
    "ar_inv (AudioRender_setVolume volume r)" "\<exists>r'. AudioRender_handleStateChanged idle r = Ret r' \<and> ar_inv r'"
  using assms qBound_unit [of volume]
  by (auto simp: ar_inv_def AudioRender_start_def AudioRender_stop_def AudioRender_pause_def AudioRender_resume_def AudioRender_setVolume_def
      AudioRender_handleStateChanged_def AudioRender_isValid_def output_call_made_def Let_def split: double.splits)

lemma ar_inv_initialize:
  assumes "ar_inv r" and "AudioRender_initialize isFormatSupported nearestFormat frame r = (res, r')"
  shows "ar_inv r'"
  using assms
  by (auto simp: ar_inv_def AudioRender_initialize_def AudioRender_initAudioOutput_def AudioRender_initAudioFormat_def output_call_made_def Let_def
      split: if_splits option.splits)

text \<open>
  A frame whose first plane holds all the audio data is rendered without undefined behaviour, and as many bytes go to the device as
  the frame has; nothing is written when the renderer does not play.
\<close>

theorem AudioRender_render_defined:
  assumes "ar_inv r" and "AudioRender_convertAudioData qs frame = Ret audioData"
    and "\<And>v b. length (scaleFloat v b) = length b" and "\<And>v b. length (scaleDouble v b) = length b"
  shows "\<exists>bs r'. AudioRender_render scaleFloat scaleDouble qs written frame r = (Ret bs, r') \<and> ar_inv r'
     \<and> (if ApiFrame_isValid frame \<and> ar_playing r then length bs = length audioData else bs = [] \<and> r' = r)"
proof -
  obtain v where v: "ar_volume r = Fin v" "0 \<le> v" "v \<le> 1" using assms(1) by (auto simp: ar_inv_def split: double.splits)
  obtain bs where "AudioRender_applyVolume scaleFloat scaleDouble (Fin v) r audioData = Some bs" "length bs = length audioData"
    using applyVolume_defined [OF v(2,3), of scaleFloat scaleDouble] assms(3,4) by blast
  then show ?thesis
    using assms(1,2) v by (auto simp: AudioRender_render_def AudioRender_isValid_def ar_inv_def Let_def)
qed

end
