(* ===== verification/StreamManagers.thy ===== *)
theory StreamManagers
  imports Doubles "HOL-Library.AList"
begin

text \<open>
  The stream management of the Qt player (\<open>src/examples/qt_gui/src/VideoPlayer/\<close>): \<open>StreamDecoderWorker\<close>, the task queue of one
  decoder and the players that share it, and \<open>StreamManager\<close>, which finds or creates the decoder of a stream.

  The workers live in \<open>sm_workers\<close> by address.  The map by key holds plain pointers, so a call through one to a worker that was
  deleted is \<open>UB\<close>; the map by player holds guarded pointers, which read as null then.  A pointer to a player is \<open>None\<close> when it is null.
  The signals of a worker to its decoder are recorded in \<open>sw_signals\<close>, the tasks it was given in \<open>sw_done\<close>.  What the decoder does
  with a task, the configuration and the hardware contexts are not represented.
\<close>

datatype OpenMode = OM_kExclusive | OM_kReuse

datatype PlayerState = PS_Start | PS_Playing | PS_Pause | PS_Resume | PS_Stop

datatype Task = Task_kPause | Task_kResume | Task_kClose

datatype decoder_signal =
  OpenAsync string | NeedToStartRecoding string | NeedToStopRecording | NeedToSeek double | NeedToSpeed double

text \<open>\<open>sw_decoder\<close>: the guarded pointer to the decoder is not null; \<open>sw_running\<close>: the thread of the worker has started.\<close>

record StreamDecoderWorker =
  sw_key :: string
  sw_decoder :: bool
  sw_tasks :: "Task list"
  sw_once :: bool
  sw_refPlayers :: "nat list"
  sw_isRecording :: bool
  sw_decoderPreparingToClose :: bool
  sw_running :: bool
  sw_signals :: "decoder_signal list"
  sw_done :: "Task list"

record StreamManager =
  sm_workers :: "nat \<Rightarrow> StreamDecoderWorker option"
  sm_next :: nat
  sm_connected :: "nat \<Rightarrow> bool"
  sm_mapDecoderByWidget :: "nat option \<Rightarrow> nat option"
  sm_mapDecoderByKey :: "string \<Rightarrow> nat option"

subsection \<open>The worker of a decoder\<close>

definition StreamDecoderWorker_new :: "string \<Rightarrow> StreamDecoderWorker" where
  "StreamDecoderWorker_new key =
     \<lparr>sw_key = key, sw_decoder = True, sw_tasks = [], sw_once = False, sw_refPlayers = [], sw_isRecording = False,
      sw_decoderPreparingToClose = False, sw_running = False, sw_signals = [], sw_done = []\<rparr>"

definition StreamDecoderWorker_shouldExecuteTask :: "(nat \<Rightarrow> PlayerState) \<Rightarrow> Task \<Rightarrow> StreamDecoderWorker \<Rightarrow> bool" where
  "StreamDecoderWorker_shouldExecuteTask playerState task w \<longleftrightarrow>
     (if sw_refPlayers w = [] then True
      else case task of
             Task_kPause \<Rightarrow> list_all (\<lambda>p. \<not> (playerState p = PS_Playing \<or> playerState p = PS_Resume)) (sw_refPlayers w)
           | Task_kResume \<Rightarrow> True
           | Task_kClose \<Rightarrow> sw_refPlayers w = [])"

definition StreamDecoderWorker_appendTask :: "(nat \<Rightarrow> PlayerState) \<Rightarrow> Task \<Rightarrow> StreamDecoderWorker \<Rightarrow> StreamDecoderWorker" where
  "StreamDecoderWorker_appendTask playerState task w =
     (if \<not> StreamDecoderWorker_shouldExecuteTask playerState task w then w
      else if sw_tasks w \<noteq> [] \<and> hd (sw_tasks w) = Task_kClose then w
      else let w1 = w\<lparr>sw_tasks := [task]\<rparr>
           in if task = Task_kClose then w1\<lparr>sw_decoderPreparingToClose := True\<rparr> else w1)"

definition StreamDecoderWorker_open :: "(nat \<Rightarrow> PlayerState) \<Rightarrow> string \<Rightarrow> StreamDecoderWorker \<Rightarrow> StreamDecoderWorker" where
  "StreamDecoderWorker_open playerState url w =
     (if \<not> sw_once w then w\<lparr>sw_once := True, sw_signals := sw_signals w @ [OpenAsync url]\<rparr>
      else StreamDecoderWorker_appendTask playerState Task_kResume w)"

definition StreamDecoderWorker_registerPlayer :: "nat option \<Rightarrow> StreamDecoderWorker \<Rightarrow> StreamDecoderWorker" where
  "StreamDecoderWorker_registerPlayer player w =
     (case player of
        None \<Rightarrow> w
      | Some p \<Rightarrow> if p \<in> set (sw_refPlayers w) \<or> \<not> sw_decoder w then w else w\<lparr>sw_refPlayers := sw_refPlayers w @ [p]\<rparr>)"

definition StreamDecoderWorker_unRegisterPlayer :: "nat option \<Rightarrow> StreamDecoderWorker \<Rightarrow> StreamDecoderWorker" where
  "StreamDecoderWorker_unRegisterPlayer player w =
     (case player of
        None \<Rightarrow> w
      | Some p \<Rightarrow> if p \<notin> set (sw_refPlayers w) \<or> \<not> sw_decoder w then w else w\<lparr>sw_refPlayers := remove1 p (sw_refPlayers w)\<rparr>)"

definition StreamDecoderWorker_setRecordingStatus :: "bool \<Rightarrow> StreamDecoderWorker \<Rightarrow> StreamDecoderWorker" where
  "StreamDecoderWorker_setRecordingStatus status w = w\<lparr>sw_isRecording := status\<rparr>"

text \<open>One turn of the loop of \<open>run\<close>: it waits while there is no task.\<close>

definition StreamDecoderWorker_run :: "StreamDecoderWorker \<Rightarrow> Task outcome \<times> StreamDecoderWorker" where
  "StreamDecoderWorker_run w =
     (case sw_tasks w of
        [] \<Rightarrow> (Wait, w)
      | t # ts \<Rightarrow> if sw_running w then (Ret t, w\<lparr>sw_tasks := ts, sw_done := sw_done w @ [t]\<rparr>) else (Wait, w))"

definition emit_signal :: "decoder_signal \<Rightarrow> StreamDecoderWorker \<Rightarrow> StreamDecoderWorker" where
  "emit_signal s w = w\<lparr>sw_signals := sw_signals w @ [s]\<rparr>"

subsection \<open>The manager\<close>

definition StreamManager_new :: StreamManager where
  "StreamManager_new =
     \<lparr>sm_workers = \<lambda>_. None, sm_next = 0, sm_connected = \<lambda>_. False, sm_mapDecoderByWidget = \<lambda>_. None, sm_mapDecoderByKey = \<lambda>_. None\<rparr>"

definition set_worker :: "nat \<Rightarrow> StreamDecoderWorker \<Rightarrow> StreamManager \<Rightarrow> StreamManager" where
  "set_worker i w sm = sm\<lparr>sm_workers := (sm_workers sm)(i := Some w)\<rparr>"

text \<open>A call through a pointer to a worker.\<close>

definition with_worker :: "nat \<Rightarrow> (StreamDecoderWorker \<Rightarrow> 'a outcome \<times> StreamManager) \<Rightarrow> StreamManager \<Rightarrow> 'a outcome \<times> StreamManager" where
  "with_worker i k sm = (case sm_workers sm i of None \<Rightarrow> (UB, sm) | Some w \<Rightarrow> k w)"

definition StreamManager_streamDecoderByPlayer :: "nat option \<Rightarrow> StreamManager \<Rightarrow> nat option" where
  "StreamManager_streamDecoderByPlayer player sm =
     (case sm_mapDecoderByWidget sm player of None \<Rightarrow> None | Some i \<Rightarrow> if sm_workers sm i = None then None else Some i)"

text \<open>A new worker, its entry in the map and the connection of its signal \<open>aboutToDelete\<close>.\<close>

definition new_worker :: "string \<Rightarrow> StreamManager \<Rightarrow> nat \<times> StreamManager" where
  "new_worker key sm =
     (let i = sm_next sm
      in (i, (set_worker i (StreamDecoderWorker_new key) sm)
               \<lparr>sm_next := i + 1, sm_connected := (sm_connected sm)(i := True),
                sm_mapDecoderByKey := (sm_mapDecoderByKey sm)(key := Some i)\<rparr>))"

text \<open>\<open>uuid\<close>: the result of \<open>QUuid::createUuid\<close>.\<close>

definition StreamManager_getOrCreateDecoder ::
    "string \<Rightarrow> string \<Rightarrow> OpenMode \<Rightarrow> StreamManager \<Rightarrow> (nat \<times> string) outcome \<times> StreamManager" where
  "StreamManager_getOrCreateDecoder uuid url openMode sm =
     (case openMode of
        OM_kExclusive \<Rightarrow> (case new_worker uuid sm of (i, sm1) \<Rightarrow> (Ret (i, uuid), sm1))
      | OM_kReuse \<Rightarrow>
          (case sm_mapDecoderByKey sm url of
             None \<Rightarrow> (case new_worker url sm of (i, sm1) \<Rightarrow> (Ret (i, url), sm1))
           | Some i \<Rightarrow>
               with_worker i (\<lambda>w.
                 if sw_decoderPreparingToClose w
                 then case new_worker url (sm\<lparr>sm_connected := (sm_connected sm)(i := False)\<rparr>) of (j, sm1) \<Rightarrow> (Ret (j, url), sm1)
                 else (Ret (i, url), sm)) sm))"

definition StreamManager_openStream ::
    "(nat \<Rightarrow> PlayerState) \<Rightarrow> string \<Rightarrow> nat option \<Rightarrow> string \<Rightarrow> OpenMode \<Rightarrow> StreamManager \<Rightarrow> string outcome \<times> StreamManager" where
  "StreamManager_openStream playerState uuid player url openMode sm =
     (case StreamManager_getOrCreateDecoder uuid url openMode sm of
        (Ret (i, key), sm1) \<Rightarrow>
          let sm2 = sm1\<lparr>sm_mapDecoderByWidget := (sm_mapDecoderByWidget sm1)(player := Some i)\<rparr>
          in with_worker i (\<lambda>w.
               (Ret key, set_worker i (StreamDecoderWorker_open playerState url (StreamDecoderWorker_registerPlayer player w)) sm2)) sm2
      | (Wait, sm1) \<Rightarrow> (Wait, sm1)
      | (UB, sm1) \<Rightarrow> (UB, sm1))"

definition StreamManager_closeStream :: "(nat \<Rightarrow> PlayerState) \<Rightarrow> nat option \<Rightarrow> StreamManager \<Rightarrow> bool outcome \<times> StreamManager" where
  "StreamManager_closeStream playerState player sm =
     (case StreamManager_streamDecoderByPlayer player sm of
        None \<Rightarrow> (Ret False, sm)
      | Some i \<Rightarrow>
          with_worker i (\<lambda>w.
            let sm1 = sm\<lparr>sm_mapDecoderByWidget := (sm_mapDecoderByWidget sm)(player := None)\<rparr>
            in (Ret True, set_worker i
                  (StreamDecoderWorker_appendTask playerState Task_kClose (StreamDecoderWorker_unRegisterPlayer player w)) sm1)) sm)"

definition StreamManager_closeSupplementaryStream ::
    "(nat \<Rightarrow> PlayerState) \<Rightarrow> string \<Rightarrow> nat option \<Rightarrow> StreamManager \<Rightarrow> bool outcome \<times> StreamManager" where
  "StreamManager_closeSupplementaryStream playerState key player sm =
     (case sm_mapDecoderByKey sm key of
        None \<Rightarrow> (Ret False, sm)
      | Some i \<Rightarrow>
          with_worker i (\<lambda>w.
            (Ret True, set_worker i
               (StreamDecoderWorker_appendTask playerState Task_kClose (StreamDecoderWorker_unRegisterPlayer player w)) sm)) sm)"

text \<open>The operations that only pass something on to the worker of the player.\<close>

definition to_worker ::
    "nat option \<Rightarrow> (StreamDecoderWorker \<Rightarrow> bool \<times> StreamDecoderWorker) \<Rightarrow> StreamManager \<Rightarrow> bool outcome \<times> StreamManager" where
  "to_worker player f sm =
     (case StreamManager_streamDecoderByPlayer player sm of
        None \<Rightarrow> (Ret False, sm)
      | Some i \<Rightarrow> with_worker i (\<lambda>w. case f w of (r, w') \<Rightarrow> (Ret r, set_worker i w' sm)) sm)"

definition StreamManager_pause :: "(nat \<Rightarrow> PlayerState) \<Rightarrow> nat option \<Rightarrow> StreamManager \<Rightarrow> bool outcome \<times> StreamManager" where
  "StreamManager_pause playerState player = to_worker player (\<lambda>w. (True, StreamDecoderWorker_appendTask playerState Task_kPause w))"

definition StreamManager_resume :: "(nat \<Rightarrow> PlayerState) \<Rightarrow> nat option \<Rightarrow> StreamManager \<Rightarrow> bool outcome \<times> StreamManager" where
  "StreamManager_resume playerState player = to_worker player (\<lambda>w. (True, StreamDecoderWorker_appendTask playerState Task_kResume w))"

definition StreamManager_startRecoding :: "nat option \<Rightarrow> string \<Rightarrow> StreamManager \<Rightarrow> bool outcome \<times> StreamManager" where
  "StreamManager_startRecoding player recodDir =
     to_worker player (\<lambda>w. if sw_isRecording w then (False, w) else (True, emit_signal (NeedToStartRecoding recodDir) w))"

definition StreamManager_stopRecoding :: "nat option \<Rightarrow> StreamManager \<Rightarrow> bool outcome \<times> StreamManager" where
  "StreamManager_stopRecoding player =
     to_worker player (\<lambda>w. if \<not> sw_isRecording w then (False, w) else (True, emit_signal NeedToStopRecording w))"

definition StreamManager_isRecoding :: "nat option \<Rightarrow> StreamManager \<Rightarrow> bool outcome \<times> StreamManager" where
  "StreamManager_isRecoding player = to_worker player (\<lambda>w. (sw_isRecording w, w))"

definition StreamManager_seek :: "nat option \<Rightarrow> double \<Rightarrow> StreamManager \<Rightarrow> bool outcome \<times> StreamManager" where
  "StreamManager_seek player pts = to_worker player (\<lambda>w. (True, emit_signal (NeedToSeek pts) w))"

definition StreamManager_setSpeed :: "nat option \<Rightarrow> double \<Rightarrow> StreamManager \<Rightarrow> bool outcome \<times> StreamManager" where
  "StreamManager_setSpeed player speed = to_worker player (\<lambda>w. (True, emit_signal (NeedToSpeed speed) w))"

text \<open>A player that has a worker is taken from it first.\<close>

definition leave_worker :: "(nat \<Rightarrow> PlayerState) \<Rightarrow> nat option \<Rightarrow> StreamManager \<Rightarrow> StreamManager" where
  "leave_worker playerState player sm =
     (case StreamManager_streamDecoderByPlayer player sm of
        None \<Rightarrow> sm
      | Some i \<Rightarrow>
          (case sm_workers sm i of
             None \<Rightarrow> sm
           | Some w \<Rightarrow>
               (set_worker i (StreamDecoderWorker_unRegisterPlayer player (StreamDecoderWorker_appendTask playerState Task_kPause w)) sm)
                 \<lparr>sm_mapDecoderByWidget := (sm_mapDecoderByWidget sm)(player := None)\<rparr>))"

definition StreamManager_switchStream ::
    "(nat \<Rightarrow> PlayerState) \<Rightarrow> string \<Rightarrow> nat option \<Rightarrow> StreamManager \<Rightarrow> bool outcome \<times> StreamManager" where
  "StreamManager_switchStream playerState key player sm =
     (if player = None then (Ret False, sm)
      else case sm_mapDecoderByKey sm key of
             None \<Rightarrow> (Ret False, sm)
           | Some i \<Rightarrow>
               let sm1 = leave_worker playerState player sm;
                   sm2 = sm1\<lparr>sm_mapDecoderByWidget := (sm_mapDecoderByWidget sm1)(player := Some i)\<rparr>
               in with_worker i (\<lambda>w.
                    (Ret True, set_worker i
                       (StreamDecoderWorker_appendTask playerState Task_kResume (StreamDecoderWorker_registerPlayer player w)) sm2)) sm2)"

definition StreamManager_createStream ::
    "(nat \<Rightarrow> PlayerState) \<Rightarrow> string \<Rightarrow> string \<Rightarrow> OpenMode \<Rightarrow> StreamManager \<Rightarrow> string outcome \<times> StreamManager" where
  "StreamManager_createStream playerState uuid url openMode sm =
     (case StreamManager_getOrCreateDecoder uuid url openMode sm of
        (Ret (i, key), sm1) \<Rightarrow>
          with_worker i (\<lambda>w.
            (Ret key, set_worker i
               (StreamDecoderWorker_appendTask playerState Task_kPause (StreamDecoderWorker_open playerState url w)) sm1)) sm1
      | (Wait, sm1) \<Rightarrow> (Wait, sm1)
      | (UB, sm1) \<Rightarrow> (UB, sm1))"

definition StreamManager_isStreamExist :: "string \<Rightarrow> StreamManager \<Rightarrow> bool" where
  "StreamManager_isStreamExist key sm \<longleftrightarrow> sm_mapDecoderByKey sm key \<noteq> None"

definition StreamManager_onWorkerAboutToDelete :: "string \<Rightarrow> StreamManager \<Rightarrow> StreamManager" where
  "StreamManager_onWorkerAboutToDelete key sm = sm\<lparr>sm_mapDecoderByKey := (sm_mapDecoderByKey sm)(key := None)\<rparr>"

text \<open>The slot of a worker for \<open>aboutToDelete\<close> of its decoder: the decoder is deleted, its thread ends, the manager is told.\<close>

definition worker_aboutToDelete :: "nat \<Rightarrow> StreamDecoderWorker \<Rightarrow> StreamManager \<Rightarrow> StreamManager" where
  "worker_aboutToDelete i w sm =
     (let sm1 = set_worker i (w\<lparr>sw_decoder := False\<rparr>) sm
      in if sm_connected sm i then StreamManager_onWorkerAboutToDelete (sw_key w) sm1 else sm1)"

text \<open>The worker itself is deleted when the thread of the decoder has ended.\<close>

definition worker_deleted :: "nat \<Rightarrow> StreamManager \<Rightarrow> StreamManager" where
  "worker_deleted i sm = sm\<lparr>sm_workers := (sm_workers sm)(i := None)\<rparr>"

definition StreamManager_destroy :: "StreamManager \<Rightarrow> StreamManager" where
  "StreamManager_destroy sm =
     sm\<lparr>sm_workers := (\<lambda>i. if i \<in> ran (sm_mapDecoderByKey sm) then None else sm_workers sm i), sm_mapDecoderByKey := (\<lambda>_. None),
        sm_mapDecoderByWidget := (\<lambda>_. None)\<rparr>"

subsection \<open>The task queue\<close>

text \<open>What a worker keeps: at most one task waits, and the decoder is only closed when it was announced.\<close>

definition worker_ok :: "StreamDecoderWorker \<Rightarrow> bool" where
  "worker_ok w \<longleftrightarrow>
     length (sw_tasks w) \<le> 1 \<and> (Task_kClose \<in> set (sw_tasks w) \<or> Task_kClose \<in> set (sw_done w) \<longrightarrow> sw_decoderPreparingToClose w)
     \<and> (\<not> sw_decoder w \<longrightarrow> sw_decoderPreparingToClose w) \<and> distinct (sw_refPlayers w)"

text \<open>What every operation of the worker does to it.\<close>

definition evolves :: "StreamDecoderWorker \<Rightarrow> StreamDecoderWorker \<Rightarrow> bool" where
  "evolves w w' \<longleftrightarrow>
     sw_key w' = sw_key w \<and> sw_decoder w' = sw_decoder w \<and> (sw_decoderPreparingToClose w \<longrightarrow> sw_decoderPreparingToClose w')
     \<and> (worker_ok w \<longrightarrow> worker_ok w')"

named_theorems evolves

lemma evolves_refl [evolves]: "evolves w w"
  by (simp add: evolves_def)

lemma evolves_trans: "evolves w w' \<Longrightarrow> evolves w' w'' \<Longrightarrow> evolves w w''"
  by (auto simp: evolves_def)

lemma appendTask_evolves [evolves]: "evolves w (StreamDecoderWorker_appendTask st t w)"
  by (auto simp: evolves_def worker_ok_def StreamDecoderWorker_appendTask_def Let_def)

lemma registerPlayer_evolves [evolves]: "evolves w (StreamDecoderWorker_registerPlayer p w)"
  by (auto simp: evolves_def worker_ok_def StreamDecoderWorker_registerPlayer_def split: option.splits)

lemma unRegisterPlayer_evolves [evolves]: "evolves w (StreamDecoderWorker_unRegisterPlayer p w)"
  by (auto simp: evolves_def worker_ok_def StreamDecoderWorker_unRegisterPlayer_def split: option.splits)

lemma emit_signal_evolves [evolves]: "evolves w (emit_signal s w)"
  by (simp add: evolves_def worker_ok_def emit_signal_def)

lemma open_evolves [evolves]: "evolves w (StreamDecoderWorker_open st url w)"
  using appendTask_evolves [of w st Task_kResume]
  by (auto simp: StreamDecoderWorker_open_def) (simp add: evolves_def worker_ok_def)

lemma run_evolves: "StreamDecoderWorker_run w = (r, w') \<Longrightarrow> evolves w w'"
  by (auto simp: evolves_def worker_ok_def StreamDecoderWorker_run_def split: list.splits if_splits)

subsection \<open>The maps and the workers\<close>

text \<open>
  The entries of the map by key are living workers under their own keys that will tell the manager when they go, and a living
  worker whose decoder lives is the entry of its key or is about to be closed.
\<close>

definition entry_ok :: "StreamManager \<Rightarrow> string \<Rightarrow> nat \<Rightarrow> bool" where
  "entry_ok sm k i \<longleftrightarrow>
     (case sm_workers sm i of None \<Rightarrow> False | Some w \<Rightarrow> sw_key w = k \<and> sw_decoder w \<and> sm_connected sm i)"

definition alive_ok :: "StreamManager \<Rightarrow> nat \<Rightarrow> StreamDecoderWorker \<Rightarrow> bool" where
  "alive_ok sm i w \<longleftrightarrow>
     i < sm_next sm \<and> worker_ok w \<and> (sw_decoder w \<and> sm_connected sm i \<longrightarrow> sm_mapDecoderByKey sm (sw_key w) = Some i)
     \<and> (sm_connected sm i \<or> sw_decoderPreparingToClose w)"

definition sm_inv :: "StreamManager \<Rightarrow> bool" where
  "sm_inv sm \<longleftrightarrow>
     (\<forall>k i. sm_mapDecoderByKey sm k = Some i \<longrightarrow> entry_ok sm k i) \<and> (\<forall>i w. sm_workers sm i = Some w \<longrightarrow> alive_ok sm i w)"

lemma sm_invI:
  assumes "\<And>k i. sm_mapDecoderByKey sm k = Some i \<Longrightarrow> entry_ok sm k i" and "\<And>i w. sm_workers sm i = Some w \<Longrightarrow> alive_ok sm i w"
  shows "sm_inv sm"
  using assms by (simp add: sm_inv_def)

lemma sm_inv_alive: "sm_inv sm \<Longrightarrow> sm_workers sm i = Some w \<Longrightarrow> alive_ok sm i w"
  by (simp add: sm_inv_def)

lemma sm_inv_entry:
  assumes "sm_inv sm" and "sm_mapDecoderByKey sm k = Some i"
  obtains w where "sm_workers sm i = Some w" "sw_key w = k" "sw_decoder w" "sm_connected sm i"
  using assms by (fastforce simp: sm_inv_def entry_ok_def split: option.splits)

lemma sm_inv_widget [simp]: "sm_inv (sm\<lparr>sm_mapDecoderByWidget := m\<rparr>) = sm_inv sm"
  by (simp add: sm_inv_def entry_ok_def alive_ok_def split: option.splits)

lemma sm_inv_new: "sm_inv StreamManager_new"
  by (simp add: sm_inv_def StreamManager_new_def)

lemma set_worker_fields [simp]:
  "sm_mapDecoderByWidget (set_worker i w sm) = sm_mapDecoderByWidget sm" "sm_mapDecoderByKey (set_worker i w sm) = sm_mapDecoderByKey sm"
  "sm_connected (set_worker i w sm) = sm_connected sm" "sm_next (set_worker i w sm) = sm_next sm"
  "sm_workers (set_worker i w sm) = (sm_workers sm)(i := Some w)"
  by (simp_all add: set_worker_def)

lemma set_worker_inv:
  assumes inv: "sm_inv sm" and w: "sm_workers sm i = Some w" and ev: "evolves w w'"
  shows "sm_inv (set_worker i w' sm)"
proof (rule sm_invI)
  fix k j assume "sm_mapDecoderByKey (set_worker i w' sm) k = Some j"
  then obtain v where "sm_workers sm j = Some v" "sw_key v = k" "sw_decoder v" "sm_connected sm j"
    using sm_inv_entry [OF inv] by auto
  then show "entry_ok (set_worker i w' sm) k j" using w ev by (auto simp: entry_ok_def evolves_def)
next
  fix j v assume "sm_workers (set_worker i w' sm) j = Some v"
  then show "alive_ok (set_worker i w' sm) j v"
    using sm_inv_alive [OF inv] w ev by (auto simp: alive_ok_def evolves_def split: if_splits)
qed

lemma new_worker_ok: "worker_ok (StreamDecoderWorker_new key)"
  by (simp add: worker_ok_def StreamDecoderWorker_new_def)

text \<open>A worker is created under a key that is free or whose worker is about to be closed and is disconnected.\<close>

lemma new_worker_inv:
  assumes "sm_inv sm"
    and "(sm_mapDecoderByKey sm key = None \<and> c = sm_connected sm)
         \<or> (\<exists>j w. sm_mapDecoderByKey sm key = Some j \<and> sm_workers sm j = Some w \<and> sw_decoderPreparingToClose w
              \<and> c = (sm_connected sm)(j := False))"
    and "new_worker key (sm\<lparr>sm_connected := c\<rparr>) = (i, sm')"
  shows "sm_inv sm' \<and> i = sm_next sm \<and> sm_workers sm' i = Some (StreamDecoderWorker_new key)
     \<and> sm_mapDecoderByWidget sm' = sm_mapDecoderByWidget sm"
proof -
  have sm': "sm' = (set_worker (sm_next sm) (StreamDecoderWorker_new key) sm)
      \<lparr>sm_next := sm_next sm + 1, sm_connected := c(sm_next sm := True), sm_mapDecoderByKey := (sm_mapDecoderByKey sm)(key := Some (sm_next sm))\<rparr>"
      and i: "i = sm_next sm"
    using assms(3) by (auto simp: new_worker_def Let_def set_worker_def)
  have w: "sw_key (StreamDecoderWorker_new key) = key" "sw_decoder (StreamDecoderWorker_new key)" by (simp_all add: StreamDecoderWorker_new_def)
  have new: "sm_workers sm (sm_next sm) = None" using sm_inv_alive [OF assms(1), of "sm_next sm"] by (cases "sm_workers sm (sm_next sm)") (auto simp: alive_ok_def)
  have "sm_inv sm'"
  proof (rule sm_invI)
    fix k j assume a: "sm_mapDecoderByKey sm' k = Some j"
    show "entry_ok sm' k j"
    proof (cases "k = key")
      case True
      then show ?thesis using a w by (simp add: entry_ok_def sm')
    next
      case False
      then have k: "sm_mapDecoderByKey sm k = Some j" using a by (simp add: sm')
      obtain v where v: "sm_workers sm j = Some v" "sw_key v = k" "sw_decoder v" "sm_connected sm j"
        by (rule sm_inv_entry [OF assms(1) k])
      have "c j"
      proof (rule ccontr)
        assume "\<not> c j"
        then have "sm_mapDecoderByKey sm key = Some j" using assms(2) v(4) by (auto split: if_splits)
        then show False using sm_inv_entry [OF assms(1)] v(1,2) False by (metis option.inject)
      qed
      then show ?thesis using v new by (auto simp: entry_ok_def sm')
    qed
  next
    fix j v assume "sm_workers sm' j = Some v"
    then show "alive_ok sm' j v"
      using w new new_worker_ok [of key] assms(2) sm_inv_alive [OF assms(1), of j v] 
      by (auto simp: alive_ok_def sm' split: if_splits)
  qed
  then show ?thesis by (simp add: sm' i)
qed

text \<open>The calls succeed, keep the invariant, and never go through a pointer to a deleted worker.\<close>

definition sm_safe :: "'a outcome \<times> StreamManager \<Rightarrow> bool" where
  "sm_safe res \<longleftrightarrow> (\<exists>a. fst res = Ret a) \<and> sm_inv (snd res)"

lemma sm_safe_Ret [simp]: "sm_safe (Ret a, sm) = sm_inv sm"
  by (simp add: sm_safe_def)

lemma getOrCreateDecoder_ok:
  assumes inv: "sm_inv sm" and fresh: "sm_mapDecoderByKey sm uuid = None"
    and "StreamManager_getOrCreateDecoder uuid url mode sm = (r, sm')"
  shows "\<exists>i key w. r = Ret (i, key) \<and> sm_inv sm' \<and> sm_workers sm' i = Some w \<and> sw_key w = key \<and> sw_decoder w
     \<and> \<not> sw_decoderPreparingToClose w \<and> sm_mapDecoderByKey sm' key = Some i \<and> (\<forall>p. sm_mapDecoderByWidget sm' p = sm_mapDecoderByWidget sm p)"
proof -
  have new: ?thesis
    if n: "new_worker key (sm\<lparr>sm_connected := c\<rparr>) = (i, sm')" "r = Ret (i, key)"
      "(sm_mapDecoderByKey sm key = None \<and> c = sm_connected sm)
         \<or> (\<exists>j w. sm_mapDecoderByKey sm key = Some j \<and> sm_workers sm j = Some w \<and> sw_decoderPreparingToClose w
              \<and> c = (sm_connected sm)(j := False))" for key c i
    using new_worker_inv [OF inv n(3,1)] n(1,2) by (auto simp: StreamDecoderWorker_new_def new_worker_def Let_def)
  show ?thesis
  proof (cases "mode = OM_kExclusive \<or> sm_mapDecoderByKey sm url = None")
    case True
    let ?key = "if mode = OM_kExclusive then uuid else url"
    obtain i where "new_worker ?key (sm\<lparr>sm_connected := sm_connected sm\<rparr>) = (i, sm')" "r = Ret (i, ?key)"
      using assms(3) True by (auto simp: StreamManager_getOrCreateDecoder_def split: OpenMode.splits prod.splits)
    then show ?thesis using new [of ?key "sm_connected sm" i] True fresh by auto
  next
    case False
    then obtain j where j: "sm_mapDecoderByKey sm url = Some j" "mode = OM_kReuse" by (cases mode) auto
    obtain w where w: "sm_workers sm j = Some w" "sw_key w = url" "sw_decoder w" "sm_connected sm j"
      by (rule sm_inv_entry [OF inv j(1)])
    show ?thesis
    proof (cases "sw_decoderPreparingToClose w")
      case True
      then obtain i where "new_worker url (sm\<lparr>sm_connected := (sm_connected sm)(j := False)\<rparr>) = (i, sm')" "r = Ret (i, url)"
        using assms(3) j w by (auto simp: StreamManager_getOrCreateDecoder_def with_worker_def split: prod.splits)
      then show ?thesis using new [of url "(sm_connected sm)(j := False)" i] True j w by auto
    next
      case False
      then have "r = Ret (j, url)" "sm' = sm"
        using assms(3) j w by (auto simp: StreamManager_getOrCreateDecoder_def with_worker_def)
      then show ?thesis using False j w inv by auto
    qed
  qed
qed

lemma openStream_safe:
  assumes "sm_inv sm" and "sm_mapDecoderByKey sm uuid = None"
  shows "sm_safe (StreamManager_openStream st uuid p url mode sm)"
proof -
  obtain r sm1 where g: "StreamManager_getOrCreateDecoder uuid url mode sm = (r, sm1)" by fastforce
  then obtain i key w where r: "r = Ret (i, key)" "sm_inv sm1" "sm_workers sm1 i = Some w"
    using getOrCreateDecoder_ok [OF assms g] by blast
  have "evolves w (StreamDecoderWorker_open st url (StreamDecoderWorker_registerPlayer p w))"
    by (rule evolves_trans [OF registerPlayer_evolves open_evolves])
  then show ?thesis
    using r g set_worker_inv [of "sm1\<lparr>sm_mapDecoderByWidget := (sm_mapDecoderByWidget sm1)(p := Some i)\<rparr>" i w]
    by (simp add: StreamManager_openStream_def with_worker_def)
qed

lemma createStream_safe:
  assumes "sm_inv sm" and "sm_mapDecoderByKey sm uuid = None"
  shows "sm_safe (StreamManager_createStream st uuid url mode sm)"
proof -
  obtain r sm1 where g: "StreamManager_getOrCreateDecoder uuid url mode sm = (r, sm1)" by fastforce
  then obtain i key w where r: "r = Ret (i, key)" "sm_inv sm1" "sm_workers sm1 i = Some w"
    using getOrCreateDecoder_ok [OF assms g] by blast
  have "evolves w (StreamDecoderWorker_appendTask st Task_kPause (StreamDecoderWorker_open st url w))"
    by (rule evolves_trans [OF open_evolves appendTask_evolves])
  then show ?thesis using r g set_worker_inv by (simp add: StreamManager_createStream_def with_worker_def)
qed

lemma close_evolves: "evolves w (StreamDecoderWorker_appendTask st t (StreamDecoderWorker_unRegisterPlayer p w))"
  by (rule evolves_trans [OF unRegisterPlayer_evolves appendTask_evolves])

lemma closeStream_safe: "sm_inv sm \<Longrightarrow> sm_safe (StreamManager_closeStream st p sm)"
  using set_worker_inv [OF _ _ close_evolves]
  by (auto simp: StreamManager_closeStream_def StreamManager_streamDecoderByPlayer_def with_worker_def Let_def split: option.splits)

lemma closeSupplementaryStream_safe: "sm_inv sm \<Longrightarrow> sm_safe (StreamManager_closeSupplementaryStream st key p sm)"
  using set_worker_inv [OF _ _ close_evolves]
  by (auto simp: StreamManager_closeSupplementaryStream_def with_worker_def split: option.splits elim: sm_inv_entry)

lemma to_worker_safe: "sm_inv sm \<Longrightarrow> (\<And>w. evolves w (snd (f w))) \<Longrightarrow> sm_safe (to_worker p f sm)"
  using set_worker_inv
  by (fastforce simp: to_worker_def StreamManager_streamDecoderByPlayer_def with_worker_def split: option.splits prod.splits)

lemma leave_worker_inv:
  assumes "sm_inv sm"
  shows "sm_inv (leave_worker st p sm) \<and> sm_mapDecoderByKey (leave_worker st p sm) = sm_mapDecoderByKey sm"
proof -
  have "evolves w (StreamDecoderWorker_unRegisterPlayer p (StreamDecoderWorker_appendTask st Task_kPause w))" for w
    by (rule evolves_trans [OF appendTask_evolves unRegisterPlayer_evolves])
  then show ?thesis using assms set_worker_inv [OF assms] by (auto simp: leave_worker_def split: option.splits)
qed

lemma switchStream_safe:
  assumes "sm_inv sm"
  shows "sm_safe (StreamManager_switchStream st key p sm)"
proof (cases "p = None \<or> sm_mapDecoderByKey sm key = None")
  case True
  then show ?thesis using assms by (auto simp: StreamManager_switchStream_def)
next
  case False
  then obtain i where i: "sm_mapDecoderByKey sm key = Some i" by auto
  let ?sm1 = "leave_worker st p sm"
  note l = leave_worker_inv [OF assms, of st p]
  obtain w where w: "sm_workers ?sm1 i = Some w" using sm_inv_entry [of ?sm1 key i] l i by metis
  have "evolves w (StreamDecoderWorker_appendTask st Task_kResume (StreamDecoderWorker_registerPlayer p w))"
    by (rule evolves_trans [OF registerPlayer_evolves appendTask_evolves])
  then show ?thesis
    using assms False i l w set_worker_inv [of "?sm1\<lparr>sm_mapDecoderByWidget := (sm_mapDecoderByWidget ?sm1)(p := Some i)\<rparr>" i w]
    by (simp add: StreamManager_switchStream_def with_worker_def Let_def)
qed

lemma worker_aboutToDelete_inv:
  assumes "sm_inv sm" and w: "sm_workers sm i = Some w" "sw_decoderPreparingToClose w" "sw_decoder w"
  shows "sm_inv (worker_aboutToDelete i w sm)"
proof (rule sm_invI)
  let ?sm = "worker_aboutToDelete i w sm"
  fix k j assume a: "sm_mapDecoderByKey ?sm k = Some j"
  then have k: "sm_mapDecoderByKey sm k = Some j" "sm_connected sm i \<longrightarrow> k \<noteq> sw_key w"
    by (auto simp: worker_aboutToDelete_def StreamManager_onWorkerAboutToDelete_def Let_def split: if_splits)
  obtain v where "sm_workers sm j = Some v" "sw_key v = k" "sw_decoder v" "sm_connected sm j"
    by (rule sm_inv_entry [OF assms(1) k(1)])
  then show "entry_ok ?sm k j"
    using k w by (auto simp: entry_ok_def worker_aboutToDelete_def StreamManager_onWorkerAboutToDelete_def Let_def)
next
  let ?sm = "worker_aboutToDelete i w sm"
  fix j v assume a: "sm_workers ?sm j = Some v"
  then show "alive_ok ?sm j v"
    using sm_inv_alive [OF assms(1), of j] sm_inv_alive [OF assms(1) w(1)] w
    by (auto simp: alive_ok_def worker_ok_def worker_aboutToDelete_def StreamManager_onWorkerAboutToDelete_def Let_def split: if_splits)
qed

lemma worker_deleted_inv:
  assumes "sm_inv sm" and "sm_workers sm i = Some w" "\<not> sw_decoder w"
  shows "sm_inv (worker_deleted i sm)"
proof (rule sm_invI)
  fix k j assume "sm_mapDecoderByKey (worker_deleted i sm) k = Some j"
  then obtain v where "sm_workers sm j = Some v" "sw_key v = k" "sw_decoder v" "sm_connected sm j"
    using sm_inv_entry [OF assms(1), of k j] by (auto simp: worker_deleted_def)
  then show "entry_ok (worker_deleted i sm) k j" using assms by (auto simp: entry_ok_def worker_deleted_def)
next
  fix j v assume "sm_workers (worker_deleted i sm) j = Some v"
  then show "alive_ok (worker_deleted i sm) j v"
    using sm_inv_alive [OF assms(1), of j v] by (auto simp: alive_ok_def worker_deleted_def split: if_splits)
qed

end
