(* ===== verification/RtspStreamPlayers.thy ===== *)
theory RtspStreamPlayers
  imports StreamManagers Transition_Systems
begin

text \<open>
  Class \<open>RtspStreamPlayer\<close> of the Qt player (\<open>src/examples/qt_gui/src/VideoPlayer/RtspStreamPlayer.cpp\<close>) over the stream manager: several
  players open, switch and close streams while the workers run their tasks and are deleted.

  A player is a number; its \<open>VideoPlayerImpl\<close> is never null.  The hash from the stream address to the key of its decoder is an association
  list, whose order stands for the unspecified order of iteration.  The state of the player is that of its \<open>VideoPlayerImpl\<close>;
  texts, images and the drawing are not represented.
\<close>

record RtspStreamPlayer =
  rp_playerState :: PlayerState
  rp_streamUrl :: string
  rp_deviceId :: string
  rp_channelId :: string
  rp_openMode :: OpenMode
  rp_urlToDecoderKey :: "(string \<times> string) list"

record player_world =
  pw_manager :: StreamManager
  pw_player :: "nat \<Rightarrow> RtspStreamPlayer"

definition RtspStreamPlayer_new :: RtspStreamPlayer where
  "RtspStreamPlayer_new =
     \<lparr>rp_playerState = PS_Stop, rp_streamUrl = [], rp_deviceId = [], rp_channelId = [], rp_openMode = OM_kExclusive, rp_urlToDecoderKey = []\<rparr>"

definition pw_init :: player_world where
  "pw_init = \<lparr>pw_manager = StreamManager_new, pw_player = \<lambda>_. RtspStreamPlayer_new\<rparr>"

definition player_states :: "player_world \<Rightarrow> nat \<Rightarrow> PlayerState" where
  "player_states W p = rp_playerState (pw_player W p)"

definition upd_player :: "nat \<Rightarrow> (RtspStreamPlayer \<Rightarrow> RtspStreamPlayer) \<Rightarrow> player_world \<Rightarrow> player_world" where
  "upd_player p f W = W\<lparr>pw_player := (pw_player W)(p := f (pw_player W p))\<rparr>"

definition setPlayerState :: "PlayerState \<Rightarrow> nat \<Rightarrow> player_world \<Rightarrow> player_world" where
  "setPlayerState st p = upd_player p (\<lambda>r. r\<lparr>rp_playerState := st\<rparr>)"

text \<open>A call of the manager, and one call after another.\<close>

definition call_manager :: "(StreamManager \<Rightarrow> 'a outcome \<times> StreamManager) \<Rightarrow> player_world \<Rightarrow> 'a outcome \<times> player_world" where
  "call_manager f W = (case f (pw_manager W) of (r, sm) \<Rightarrow> (r, W\<lparr>pw_manager := sm\<rparr>))"

definition then_call :: "'a outcome \<times> player_world \<Rightarrow> ('a \<Rightarrow> player_world \<Rightarrow> 'b outcome \<times> player_world) \<Rightarrow> 'b outcome \<times> player_world" where
  "then_call res k = (case res of (Ret a, W) \<Rightarrow> k a W | (Wait, W) \<Rightarrow> (Wait, W) | (UB, W) \<Rightarrow> (UB, W))"

definition hash_value :: "(string \<times> string) list \<Rightarrow> string \<Rightarrow> string" where
  "hash_value m k = (case map_of m k of None \<Rightarrow> [] | Some v \<Rightarrow> v)"

text \<open>The loop of \<open>closeStream\<close> goes over the values of the hash, which are the keys of the decoders.\<close>

fun close_supplementary :: "string list \<Rightarrow> nat \<Rightarrow> player_world \<Rightarrow> unit outcome \<times> player_world" where
  "close_supplementary [] p W = (Ret (), W)"
| "close_supplementary (url # urls) p W =
     (let r = pw_player W p
      in if url = rp_streamUrl r \<or> rp_streamUrl r = [] then close_supplementary urls p W
         else then_call (call_manager (StreamManager_closeSupplementaryStream (player_states W) (hash_value (rp_urlToDecoderKey r) url) (Some p)) W)
                (\<lambda>_. close_supplementary urls p))"

definition RtspStreamPlayer_closeStream :: "nat \<Rightarrow> player_world \<Rightarrow> unit outcome \<times> player_world" where
  "RtspStreamPlayer_closeStream p W =
     then_call (call_manager (StreamManager_closeStream (player_states W) (Some p)) W)
       (\<lambda>_. close_supplementary (map snd (rp_urlToDecoderKey (pw_player W p))) p)"

definition RtspStreamPlayer_close :: "nat \<Rightarrow> player_world \<Rightarrow> unit outcome \<times> player_world" where
  "RtspStreamPlayer_close p W =
     then_call (RtspStreamPlayer_closeStream p (setPlayerState PS_Stop p W))
       (\<lambda>_ W1. (Ret (), upd_player p (\<lambda>r. r\<lparr>rp_streamUrl := [], rp_deviceId := [], rp_channelId := [], rp_openMode := OM_kExclusive,
                                            rp_urlToDecoderKey := []\<rparr>) W1))"

definition RtspStreamPlayer_open ::
    "string \<Rightarrow> string \<Rightarrow> string \<Rightarrow> string \<Rightarrow> OpenMode \<Rightarrow> nat \<Rightarrow> player_world \<Rightarrow> unit outcome \<times> player_world" where
  "RtspStreamPlayer_open uuid url deviceId channelId openMode p W =
     then_call (if player_states W p \<noteq> PS_Stop then RtspStreamPlayer_close p W else (Ret (), W))
       (\<lambda>_ W1. let W2 = setPlayerState PS_Start p W1
               in then_call (call_manager (StreamManager_openStream (player_states W2) uuid (Some p) url openMode) W2)
                    (\<lambda>decoderKey W3. (Ret (), upd_player p (\<lambda>r. r\<lparr>rp_deviceId := deviceId, rp_channelId := channelId, rp_streamUrl := url,
                       rp_openMode := openMode, rp_urlToDecoderKey := AList.update url decoderKey (rp_urlToDecoderKey r)\<rparr>) W3)))"

definition RtspStreamPlayer_pause :: "nat \<Rightarrow> player_world \<Rightarrow> unit outcome \<times> player_world" where
  "RtspStreamPlayer_pause p W =
     (if player_states W p \<notin> {PS_Start, PS_Playing, PS_Resume} then (Ret (), W)
      else let W1 = setPlayerState PS_Pause p W
           in then_call (call_manager (StreamManager_pause (player_states W1) (Some p)) W1) (\<lambda>_ W2. (Ret (), W2)))"

definition RtspStreamPlayer_resume :: "nat \<Rightarrow> player_world \<Rightarrow> unit outcome \<times> player_world" where
  "RtspStreamPlayer_resume p W =
     (if player_states W p \<noteq> PS_Pause then (Ret (), W)
      else let W1 = setPlayerState PS_Resume p W
           in then_call (call_manager (StreamManager_resume (player_states W1) (Some p)) W1) (\<lambda>_ W2. (Ret (), W2)))"

definition RtspStreamPlayer_startRecoding :: "string \<Rightarrow> nat \<Rightarrow> player_world \<Rightarrow> unit outcome \<times> player_world" where
  "RtspStreamPlayer_startRecoding recoderPath p W =
     then_call (call_manager (StreamManager_startRecoding (Some p) recoderPath) W) (\<lambda>_ W2. (Ret (), W2))"

definition RtspStreamPlayer_stopRecoding :: "nat \<Rightarrow> player_world \<Rightarrow> unit outcome \<times> player_world" where
  "RtspStreamPlayer_stopRecoding p W = then_call (call_manager (StreamManager_stopRecoding (Some p)) W) (\<lambda>_ W2. (Ret (), W2))"

definition RtspStreamPlayer_isRecording :: "nat \<Rightarrow> player_world \<Rightarrow> bool outcome \<times> player_world" where
  "RtspStreamPlayer_isRecording p W = call_manager (StreamManager_isRecoding (Some p)) W"

definition RtspStreamPlayer_seek :: "double \<Rightarrow> nat \<Rightarrow> player_world \<Rightarrow> bool outcome \<times> player_world" where
  "RtspStreamPlayer_seek pts p W = call_manager (StreamManager_seek (Some p) pts) W"

definition RtspStreamPlayer_setSpeed :: "double \<Rightarrow> nat \<Rightarrow> player_world \<Rightarrow> bool outcome \<times> player_world" where
  "RtspStreamPlayer_setSpeed speed p W = call_manager (StreamManager_setSpeed (Some p) speed) W"

definition RtspStreamPlayer_switchStream :: "string \<Rightarrow> string \<Rightarrow> nat \<Rightarrow> player_world \<Rightarrow> bool outcome \<times> player_world" where
  "RtspStreamPlayer_switchStream uuid url p W =
     (let r = pw_player W p; old = hash_value (rp_urlToDecoderKey r) url
      in if rp_deviceId r = [] then (Ret False, W)
         else if url = rp_streamUrl r then (Ret True, W)
         else then_call
                (if \<not> StreamManager_isStreamExist old (pw_manager W)
                 then then_call (call_manager (StreamManager_createStream (player_states W) uuid url (rp_openMode r)) W)
                        (\<lambda>key W1. (Ret (), upd_player p (\<lambda>r. r\<lparr>rp_urlToDecoderKey := AList.update url key (rp_urlToDecoderKey r)\<rparr>) W1))
                 else (Ret (), W))
                (\<lambda>_ W1. let W2 = setPlayerState PS_Stop p W1
                        in then_call (call_manager (StreamManager_switchStream (player_states W2)
                                       (hash_value (rp_urlToDecoderKey (pw_player W2 p)) url) (Some p)) W2)
                             (\<lambda>_ W3. (Ret True, upd_player p (\<lambda>r. r\<lparr>rp_streamUrl := url\<rparr>) (setPlayerState PS_Start p W3)))))"

text \<open>A frame from the decoder: the state of the player and whether the frame is passed on to be rendered.\<close>

definition VideoPlayerImpl_videoFrameReady :: "bool \<Rightarrow> nat \<Rightarrow> player_world \<Rightarrow> bool outcome \<times> player_world" where
  "VideoPlayerImpl_videoFrameReady valid p W =
     (if player_states W p = PS_Stop \<or> player_states W p = PS_Pause then (Ret False, W)
      else let W1 = (if (player_states W p = PS_Start \<or> player_states W p = PS_Resume) \<and> valid then setPlayerState PS_Playing p W else W)
           in (Ret (player_states W1 p = PS_Playing \<and> valid), W1))"

subsection \<open>Players and workers together\<close>

datatype player_call =
    CallOpen string string string string OpenMode | CallClose | CallPause | CallResume | CallStartRecoding string | CallStopRecoding
  | CallSeek double | CallSetSpeed double | CallSwitchStream string string | FrameReady bool

definition drop_result :: "'a outcome \<times> player_world \<Rightarrow> unit outcome \<times> player_world" where
  "drop_result res = then_call res (\<lambda>_ W. (Ret (), W))"

fun do_call :: "player_call \<Rightarrow> nat \<Rightarrow> player_world \<Rightarrow> unit outcome \<times> player_world" where
  "do_call (CallOpen uuid url deviceId channelId mode) p W = RtspStreamPlayer_open uuid url deviceId channelId mode p W"
| "do_call CallClose p W = RtspStreamPlayer_close p W"
| "do_call CallPause p W = RtspStreamPlayer_pause p W"
| "do_call CallResume p W = RtspStreamPlayer_resume p W"
| "do_call (CallStartRecoding path) p W = RtspStreamPlayer_startRecoding path p W"
| "do_call CallStopRecoding p W = RtspStreamPlayer_stopRecoding p W"
| "do_call (CallSeek pts) p W = drop_result (RtspStreamPlayer_seek pts p W)"
| "do_call (CallSetSpeed speed) p W = drop_result (RtspStreamPlayer_setSpeed speed p W)"
| "do_call (CallSwitchStream uuid url) p W = drop_result (RtspStreamPlayer_switchStream uuid url p W)"
| "do_call (FrameReady valid) p W = drop_result (VideoPlayerImpl_videoFrameReady valid p W)"

text \<open>A new identifier is not in use.\<close>

fun uuid_fresh :: "player_call \<Rightarrow> player_world \<Rightarrow> bool" where
  "uuid_fresh (CallOpen uuid _ _ _ _) W = (sm_mapDecoderByKey (pw_manager W) uuid = None)"
| "uuid_fresh (CallSwitchStream uuid _) W = (sm_mapDecoderByKey (pw_manager W) uuid = None)"
| "uuid_fresh _ W = True"

text \<open>The turns of the workers: the thread starts when the stream was opened, it takes a task, the decoder that was told to close is
  gone, the worker is deleted.\<close>

datatype worker_turn = WT_Start nat | WT_Task nat Task | WT_Recording nat bool | WT_AboutToDelete nat | WT_Deleted nat

datatype pw_label = Called nat player_call | Turn worker_turn

inductive pw_step :: "player_world \<Rightarrow> pw_label \<Rightarrow> player_world \<Rightarrow> bool" where
  pw_call: "uuid_fresh c W \<Longrightarrow> do_call c p W = (Ret (), W') \<Longrightarrow> pw_step W (Called p c) W'"
| pw_start: "sm_workers (pw_manager W) i = Some w \<Longrightarrow> sw_once w
    \<Longrightarrow> pw_step W (Turn (WT_Start i)) (W\<lparr>pw_manager := set_worker i (w\<lparr>sw_running := True\<rparr>) (pw_manager W)\<rparr>)"
| pw_task: "sm_workers (pw_manager W) i = Some w \<Longrightarrow> StreamDecoderWorker_run w = (Ret t, w')
    \<Longrightarrow> pw_step W (Turn (WT_Task i t)) (W\<lparr>pw_manager := set_worker i w' (pw_manager W)\<rparr>)"
| pw_recording: "sm_workers (pw_manager W) i = Some w
    \<Longrightarrow> pw_step W (Turn (WT_Recording i s))
          (W\<lparr>pw_manager := set_worker i (StreamDecoderWorker_setRecordingStatus s w) (pw_manager W)\<rparr>)"
| pw_about: "sm_workers (pw_manager W) i = Some w \<Longrightarrow> Task_kClose \<in> set (sw_done w) \<Longrightarrow> sw_decoder w
    \<Longrightarrow> pw_step W (Turn (WT_AboutToDelete i)) (W\<lparr>pw_manager := worker_aboutToDelete i w (pw_manager W)\<rparr>)"
| pw_deleted: "sm_workers (pw_manager W) i = Some w \<Longrightarrow> \<not> sw_decoder w
    \<Longrightarrow> pw_step W (Turn (WT_Deleted i)) (W\<lparr>pw_manager := worker_deleted i (pw_manager W)\<rparr>)"

definition pw_inv :: "player_world \<Rightarrow> bool" where
  "pw_inv W \<longleftrightarrow> sm_inv (pw_manager W)"

text \<open>A call that returns and keeps the invariant.\<close>

definition pw_safe :: "'a outcome \<times> player_world \<Rightarrow> bool" where
  "pw_safe res \<longleftrightarrow> (\<exists>a. fst res = Ret a) \<and> pw_inv (snd res)"

lemma pw_safe_Ret [simp]: "pw_safe (Ret a, W) = pw_inv W"
  by (simp add: pw_safe_def)

lemma pw_inv_upd [simp]: "pw_inv (upd_player p f W) = pw_inv W" "pw_inv (setPlayerState st p W) = pw_inv W"
    "pw_manager (upd_player p f W) = pw_manager W" "pw_manager (setPlayerState st p W) = pw_manager W"
  by (simp_all add: pw_inv_def upd_player_def setPlayerState_def)

lemma then_call_safe:
  assumes "pw_safe res" and "\<And>a W. res = (Ret a, W) \<Longrightarrow> pw_inv W \<Longrightarrow> pw_safe (k a W)"
  shows "pw_safe (then_call res k)"
  using assms by (cases res; cases "fst res") (auto simp: then_call_def pw_safe_def)

lemma call_manager_safe: "sm_safe (f (pw_manager W)) \<Longrightarrow> pw_safe (call_manager f W)"
  by (auto simp: call_manager_def sm_safe_def pw_safe_def pw_inv_def split: prod.splits)

lemma drop_result_safe: "pw_safe res \<Longrightarrow> pw_safe (drop_result res)"
  by (simp add: drop_result_def then_call_safe)

lemma close_supplementary_safe: "pw_inv W \<Longrightarrow> pw_safe (close_supplementary urls p W)"
proof (induction urls arbitrary: W)
  case (Cons url urls)
  then show ?case
    by (auto simp: Let_def pw_inv_def intro!: then_call_safe call_manager_safe closeSupplementaryStream_safe)
qed simp

lemma close_safe:
  assumes "pw_inv W"
  shows "pw_safe (RtspStreamPlayer_close p W)"
proof -
  have "pw_safe (RtspStreamPlayer_closeStream p V)" if "pw_inv V" for V
    using that unfolding RtspStreamPlayer_closeStream_def
    by (intro then_call_safe call_manager_safe closeStream_safe close_supplementary_safe) (simp_all add: pw_inv_def)
  then show ?thesis
    using assms unfolding RtspStreamPlayer_close_def by (intro then_call_safe) simp_all
qed

text \<open>Closing leaves the keys of the manager alone.\<close>

lemma closing_keeps_keys:
  "sm_mapDecoderByKey (snd (StreamManager_closeStream st p sm)) = sm_mapDecoderByKey sm"
  "sm_mapDecoderByKey (snd (StreamManager_closeSupplementaryStream st key p sm)) = sm_mapDecoderByKey sm"
  by (auto simp: StreamManager_closeStream_def StreamManager_closeSupplementaryStream_def with_worker_def Let_def split: option.splits)

lemma close_supplementary_keys:
  "sm_mapDecoderByKey (pw_manager (snd (close_supplementary urls p W))) = sm_mapDecoderByKey (pw_manager W)"
proof (induction urls arbitrary: W)
  case (Cons url urls)
  show ?case using closing_keeps_keys(2)
    by (auto simp: Let_def Cons then_call_def call_manager_def split: prod.splits outcome.splits) (metis snd_conv)+
qed simp

lemma close_keys: "sm_mapDecoderByKey (pw_manager (snd (RtspStreamPlayer_close p W))) = sm_mapDecoderByKey (pw_manager W)"
proof -
  have "sm_mapDecoderByKey (pw_manager (snd (RtspStreamPlayer_closeStream p V))) = sm_mapDecoderByKey (pw_manager V)" for V
    using closing_keeps_keys(1) close_supplementary_keys
    by (auto simp: RtspStreamPlayer_closeStream_def then_call_def call_manager_def split: prod.splits outcome.splits) (metis snd_conv)+
  from this [of "setPlayerState PS_Stop p W"] show ?thesis
    by (auto simp: RtspStreamPlayer_close_def then_call_def split: prod.splits outcome.splits)
qed

lemma open_safe:
  assumes "pw_inv W" and "sm_mapDecoderByKey (pw_manager W) uuid = None"
  shows "pw_safe (RtspStreamPlayer_open uuid url deviceId channelId mode p W)"
  unfolding RtspStreamPlayer_open_def
proof (rule then_call_safe)
  show "pw_safe (if player_states W p \<noteq> PS_Stop then RtspStreamPlayer_close p W else (Ret (), W))"
    using assms(1) close_safe by simp
next
  fix a W1
  assume "(if player_states W p \<noteq> PS_Stop then RtspStreamPlayer_close p W else (Ret (), W)) = (Ret a, W1)" and "pw_inv W1"
  moreover from this(1) have "sm_mapDecoderByKey (pw_manager W1) uuid = None"
    using assms(2) close_keys [of p W] by (auto split: if_splits)
  ultimately show "pw_safe (let W2 = setPlayerState PS_Start p W1
      in then_call (call_manager (StreamManager_openStream (player_states W2) uuid (Some p) url mode) W2)
           (\<lambda>decoderKey W3. (Ret (), upd_player p (\<lambda>r. r\<lparr>rp_deviceId := deviceId, rp_channelId := channelId, rp_streamUrl := url,
              rp_openMode := mode, rp_urlToDecoderKey := AList.update url decoderKey (rp_urlToDecoderKey r)\<rparr>) W3)))"
    unfolding Let_def by (intro then_call_safe call_manager_safe openStream_safe) (simp_all add: pw_inv_def)
qed

lemma switchStream_player_safe:
  assumes "pw_inv W" and "sm_mapDecoderByKey (pw_manager W) uuid = None"
  shows "pw_safe (RtspStreamPlayer_switchStream uuid url p W)"
  using assms unfolding RtspStreamPlayer_switchStream_def Let_def
  by (auto intro!: then_call_safe call_manager_safe switchStream_safe createStream_safe simp: pw_inv_def)

lemma to_worker_calls_safe:
  assumes "sm_inv sm"
  shows "sm_safe (StreamManager_pause st p sm)" "sm_safe (StreamManager_resume st p sm)" "sm_safe (StreamManager_startRecoding p path sm)"
    "sm_safe (StreamManager_stopRecoding p sm)" "sm_safe (StreamManager_isRecoding p sm)" "sm_safe (StreamManager_seek p d sm)"
    "sm_safe (StreamManager_setSpeed p d sm)"
  unfolding StreamManager_pause_def StreamManager_resume_def StreamManager_startRecoding_def StreamManager_stopRecoding_def
    StreamManager_isRecoding_def StreamManager_seek_def StreamManager_setSpeed_def
  by (intro to_worker_safe [OF assms]; auto intro: evolves)+

lemma do_call_safe:
  assumes "pw_inv W" and "uuid_fresh c W"
  shows "pw_safe (do_call c p W)"
proof -
  note w = to_worker_calls_safe [OF assms(1) [unfolded pw_inv_def]]
  show ?thesis
    using assms w
    by (cases c)
      (auto simp: open_safe close_safe switchStream_player_safe RtspStreamPlayer_pause_def RtspStreamPlayer_resume_def
        RtspStreamPlayer_startRecoding_def RtspStreamPlayer_stopRecoding_def RtspStreamPlayer_seek_def RtspStreamPlayer_setSpeed_def
        VideoPlayerImpl_videoFrameReady_def Let_def intro!: drop_result_safe then_call_safe call_manager_safe)
qed

lemma turn_evolves:
  "evolves w (w\<lparr>sw_running := b\<rparr>)" "evolves w (StreamDecoderWorker_setRecordingStatus s w)"
  by (simp_all add: evolves_def worker_ok_def StreamDecoderWorker_setRecordingStatus_def)

lemma pw_step_inv: "pw_step W l W' \<Longrightarrow> pw_inv W \<Longrightarrow> pw_inv W'"
proof (induction rule: pw_step.induct)
  case (pw_call c W p W')
  then show ?case using do_call_safe [of W c p] by (simp add: pw_safe_def)
next
  case (pw_about W i w)
  then have "sw_decoderPreparingToClose w" using sm_inv_alive [of "pw_manager W" i w] by (auto simp: pw_inv_def alive_ok_def worker_ok_def)
  then show ?case using pw_about worker_aboutToDelete_inv by (simp add: pw_inv_def)
qed (auto simp: pw_inv_def intro: set_worker_inv run_evolves turn_evolves worker_deleted_inv)

interpretation pw: inductive_invariant "\<lambda>W. W = pw_init" pw_step pw_inv
  by unfold_locales (auto simp: pw_inv_def pw_init_def sm_inv_new dest: pw_step_inv)

subsection \<open>Runs\<close>

definition run_calls :: "(nat \<times> player_call) list \<Rightarrow> player_world \<Rightarrow> player_world" where
  "run_calls cs W = fold (\<lambda>(p, c) V. snd (do_call c p V)) cs W"

fun calls_fresh :: "(nat \<times> player_call) list \<Rightarrow> player_world \<Rightarrow> bool" where
  "calls_fresh [] W = True"
| "calls_fresh ((p, c) # cs) W = (uuid_fresh c W \<and> calls_fresh cs (snd (do_call c p W)))"

lemma run_calls_exec:
  "calls_fresh cs W \<Longrightarrow> pw_inv W \<Longrightarrow> exec pw_step W (map (\<lambda>(p, c). Called p c) cs) (run_calls cs W)"
proof (induction cs arbitrary: W)
  case Nil
  then show ?case by (simp add: run_calls_def exec_refl)
next
  case (Cons a cs)
  obtain p c where a: "a = (p, c)" by fastforce
  have s: "pw_safe (do_call c p W)" using Cons.prems a by (intro do_call_safe) simp_all
  then have "pw_step W (Called p c) (snd (do_call c p W))"
    using Cons.prems a by (intro pw_call) (auto simp: pw_safe_def prod_eq_iff)
  then show ?case using Cons s a by (auto simp: run_calls_def pw_safe_def intro: exec_step)
qed

lemmas run_calls_init = run_calls_exec [of _ pw_init, OF _ pw.init_inv [OF refl]]

text \<open>A player opens a stream for itself and switches to another one.\<close>

definition leak_calls :: "(nat \<times> player_call) list" where
  "leak_calls = [(0, CallOpen ''k1'' ''a'' ''d'' [] OM_kExclusive), (0, CallSwitchStream ''k2'' ''b'')]"

text \<open>Player 0 switches from stream a to b and back, player 1 opens b and closes it, player 0 switches to b again.\<close>

definition switch_calls :: "(nat \<times> player_call) list" where
  "switch_calls =
     [(0, CallOpen ''k'' ''a'' ''d'' [] OM_kReuse), (0, CallSwitchStream ''k'' ''b''), (0, CallSwitchStream ''k'' ''a''),
      (1, CallOpen ''k'' ''b'' ''d'' [] OM_kReuse), (1, CallClose), (0, CallSwitchStream ''k'' ''b'')]"

text \<open>What evaluates a run of calls.\<close>

lemmas call_defs =
  RtspStreamPlayer_open_def RtspStreamPlayer_close_def RtspStreamPlayer_closeStream_def RtspStreamPlayer_switchStream_def
  then_call_def call_manager_def setPlayerState_def upd_player_def player_states_def pw_init_def RtspStreamPlayer_new_def StreamManager_new_def
  StreamManager_openStream_def StreamManager_getOrCreateDecoder_def new_worker_def with_worker_def set_worker_def StreamDecoderWorker_new_def
  StreamDecoderWorker_registerPlayer_def StreamDecoderWorker_unRegisterPlayer_def StreamDecoderWorker_open_def StreamDecoderWorker_appendTask_def
  StreamDecoderWorker_shouldExecuteTask_def StreamManager_createStream_def StreamManager_switchStream_def leave_worker_def
  StreamManager_streamDecoderByPlayer_def StreamManager_isStreamExist_def hash_value_def StreamManager_closeStream_def
  StreamManager_closeSupplementaryStream_def drop_result_def Let_def run_calls_def leak_calls_def switch_calls_def

lemma calls_are_fresh: "calls_fresh leak_calls pw_init" "calls_fresh switch_calls pw_init"
  by (simp_all add: call_defs)

text \<open>The worker of stream b starts, closes its decoder and is deleted.\<close>

lemma worker_goes:
  assumes "sm_workers (pw_manager W) i = Some w" and "sw_once w" and "sw_decoder w" and "sw_tasks w = [Task_kClose]"
  shows "\<exists>ls W'. exec pw_step W ls W' \<and> pw_player W' = pw_player W
     \<and> sm_mapDecoderByWidget (pw_manager W') = sm_mapDecoderByWidget (pw_manager W) \<and> sm_workers (pw_manager W') i = None"
proof -
  let ?w1 = "w\<lparr>sw_running := True\<rparr>"
  let ?w2 = "?w1\<lparr>sw_tasks := [], sw_done := sw_done w @ [Task_kClose]\<rparr>"
  let ?W1 = "W\<lparr>pw_manager := set_worker i ?w1 (pw_manager W)\<rparr>"
  let ?W2 = "?W1\<lparr>pw_manager := set_worker i ?w2 (pw_manager ?W1)\<rparr>"
  let ?W3 = "?W2\<lparr>pw_manager := worker_aboutToDelete i ?w2 (pw_manager ?W2)\<rparr>"
  let ?W4 = "?W3\<lparr>pw_manager := worker_deleted i (pw_manager ?W3)\<rparr>"
  have w3: "sm_workers (pw_manager ?W3) i = Some (?w2\<lparr>sw_decoder := False\<rparr>)"
      and m3: "sm_mapDecoderByWidget (pw_manager ?W3) = sm_mapDecoderByWidget (pw_manager W)"
    by (simp_all add: worker_aboutToDelete_def StreamManager_onWorkerAboutToDelete_def Let_def)
  have "pw_step W (Turn (WT_Start i)) ?W1" using assms by (intro pw_start) simp_all
  moreover have "pw_step ?W1 (Turn (WT_Task i Task_kClose)) ?W2"
    using assms by (intro pw_task [of _ _ ?w1]) (simp_all add: StreamDecoderWorker_run_def)
  moreover have "pw_step ?W2 (Turn (WT_AboutToDelete i)) ?W3" using assms by (intro pw_about) simp_all
  moreover have "pw_step ?W3 (Turn (WT_Deleted i)) ?W4" using w3 by (intro pw_deleted [OF w3]) simp
  ultimately have "exec pw_step W [Turn (WT_Start i), Turn (WT_Task i Task_kClose), Turn (WT_AboutToDelete i), Turn (WT_Deleted i)] ?W4"
    by (rule exec_step [OF _ exec_step [OF _ exec_step [OF _ exec_step [OF _ exec_refl]]]])
  moreover have "pw_player ?W4 = pw_player W" "sm_mapDecoderByWidget (pw_manager ?W4) = sm_mapDecoderByWidget (pw_manager W)"
      "sm_workers (pw_manager ?W4) i = None"
    using m3 by (simp_all add: worker_deleted_def)
  ultimately show ?thesis by blast
qed

subsection \<open>Properties\<close>

text \<open>
  C31: Whatever several players open, switch, pause and close while the workers take their turns and are deleted, the next call of any player returns:
  no call goes through a pointer to a deleted worker.  Every entry of the map by key is then a living worker
  with that key, a worker has at most one task waiting, it is closed only after it was announced, and every living worker is still in the map or is about to be closed.
\<close>
theorem RtspStreamPlayer_calls_safe:
  assumes "exec pw_step pw_init ls W" and "uuid_fresh c W"
  shows "\<exists>W' sm. do_call c p W = (Ret (), W') \<and> sm = pw_manager W'
     \<and> (\<forall>k i. sm_mapDecoderByKey sm k = Some i \<longrightarrow> (\<exists>w. sm_workers sm i = Some w \<and> sw_key w = k \<and> sw_decoder w))
     \<and> (\<forall>i w. sm_workers sm i = Some w \<longrightarrow>
          length (sw_tasks w) \<le> 1 \<and> (Task_kClose \<in> set (sw_done w) \<longrightarrow> sw_decoderPreparingToClose w)
          \<and> (sm_mapDecoderByKey sm (sw_key w) = Some i \<or> sw_decoderPreparingToClose w))"
proof -
  have "pw_inv W" by (rule pw.reachable_inv [OF refl assms(1)])
  then obtain W' where W': "do_call c p W = (Ret (), W')" "sm_inv (pw_manager W')"
    using do_call_safe [OF _ assms(2), of p] by (cases "do_call c p W") (auto simp: pw_safe_def pw_inv_def)
  have "\<exists>w. sm_workers (pw_manager W') i = Some w \<and> sw_key w = k \<and> sw_decoder w" if "sm_mapDecoderByKey (pw_manager W') k = Some i" for k i
    using sm_inv_entry [OF W'(2) that] by metis
  moreover have "length (sw_tasks w) \<le> 1 \<and> (Task_kClose \<in> set (sw_done w) \<longrightarrow> sw_decoderPreparingToClose w)
      \<and> (sm_mapDecoderByKey (pw_manager W') (sw_key w) = Some i \<or> sw_decoderPreparingToClose w)"
    if "sm_workers (pw_manager W') i = Some w" for i w
    using sm_inv_alive [OF W'(2) that] by (auto simp: alive_ok_def worker_ok_def)
  ultimately show ?thesis using W'(1) by blast
qed

theorem RtspStreamPlayer_calls_safe_witness:
  "\<exists>W'. do_call CallClose 0 (run_calls leak_calls pw_init) = (Ret (), W')"
  using RtspStreamPlayer_calls_safe [OF run_calls_init [OF calls_are_fresh(1)], of CallClose 0] by auto

text \<open>
  C32: Requests to a worker whose players stay the same are coalesced: of the tasks that may be executed only the last one is kept, except that
  a request to close stays once it is queued, whatever is requested after it.  Here \<open>requests\<close> are the requests made, one after another, between
  two turns of the worker thread.
\<close>
theorem StreamDecoderWorker_latest_task:
  "let ts = filter (\<lambda>t. StreamDecoderWorker_shouldExecuteTask st t w) requests;
       w' = fold (StreamDecoderWorker_appendTask st) requests (w\<lparr>sw_tasks := []\<rparr>)
   in sw_tasks w' = (if Task_kClose \<in> set ts then [Task_kClose] else if ts = [] then [] else [last ts])
      \<and> sw_decoderPreparingToClose w' = (sw_decoderPreparingToClose w \<or> Task_kClose \<in> set ts)
      \<and> (Task_kClose \<in> set ts \<longleftrightarrow> Task_kClose \<in> set requests \<and> sw_refPlayers w = [])"
proof -
  have should: "StreamDecoderWorker_shouldExecuteTask st t v = StreamDecoderWorker_shouldExecuteTask st t w"
    if "sw_refPlayers v = sw_refPlayers w" for t v
    using that by (simp add: StreamDecoderWorker_shouldExecuteTask_def split: Task.split)
  have "let ts = filter (\<lambda>t. StreamDecoderWorker_shouldExecuteTask st t w) requests; v' = fold (StreamDecoderWorker_appendTask st) requests v
      in sw_refPlayers v' = sw_refPlayers w
        \<and> sw_tasks v' = (if sw_tasks v = [Task_kClose] \<or> Task_kClose \<in> set ts then [Task_kClose] else if ts = [] then sw_tasks v else [last ts])
        \<and> sw_decoderPreparingToClose v' = (sw_decoderPreparingToClose v \<or> sw_tasks v \<noteq> [Task_kClose] \<and> Task_kClose \<in> set ts)"
    if "sw_refPlayers v = sw_refPlayers w" "length (sw_tasks v) \<le> 1" for v
    using that
  proof (induction requests arbitrary: v)
    case (Cons t requests)
    let ?v = "StreamDecoderWorker_appendTask st t v" and ?s = "StreamDecoderWorker_shouldExecuteTask st t w"
    have "(sw_tasks v \<noteq> [] \<and> hd (sw_tasks v) = Task_kClose) = (sw_tasks v = [Task_kClose])"
      using Cons.prems(2) by (cases "sw_tasks v") auto
    then have v: "sw_refPlayers ?v = sw_refPlayers w" "length (sw_tasks ?v) \<le> 1"
        "sw_tasks ?v = (if ?s \<and> sw_tasks v \<noteq> [Task_kClose] then [t] else sw_tasks v)"
        "sw_decoderPreparingToClose ?v = (sw_decoderPreparingToClose v \<or> ?s \<and> sw_tasks v \<noteq> [Task_kClose] \<and> t = Task_kClose)"
      using Cons.prems should [of v t] by (auto simp: StreamDecoderWorker_appendTask_def Let_def)
    show ?case using Cons.IH [OF v(1,2)] v by (auto simp: Let_def filter_empty_conv)
  qed simp
  moreover have "StreamDecoderWorker_shouldExecuteTask st Task_kClose w = (sw_refPlayers w = [])"
    by (simp add: StreamDecoderWorker_shouldExecuteTask_def)
  ultimately show ?thesis by (simp add: Let_def)
qed

text \<open>
  C33: A player that opened its stream for itself forgets the decoders it switched between: when the keys of its decoders are not stream addresses,
  as the identifiers of exclusive decoders are, \<open>close\<close> looks the keys up as if they were addresses, finds none of them and
  leaves every worker but the current one as it was, neither closed nor announced, while the player loses their keys.
\<close>
theorem RtspStreamPlayer_close_leaks:
  assumes "exec pw_step pw_init ls W" and "m = rp_urlToDecoderKey (pw_player W p)" and "\<forall>v \<in> set (map snd m). map_of m v = None"
    and "sm_mapDecoderByKey (pw_manager W) [] = None" and "StreamManager_streamDecoderByPlayer (Some p) (pw_manager W) \<noteq> Some i"
  shows "\<exists>W'. RtspStreamPlayer_close p W = (Ret (), W') \<and> sm_workers (pw_manager W') i = sm_workers (pw_manager W) i
     \<and> rp_urlToDecoderKey (pw_player W' p) = []"
proof -
  have no_call: "close_supplementary urls p V = (Ret (), V)"
    if "\<forall>v \<in> set urls. hash_value (rp_urlToDecoderKey (pw_player V p)) v = []" "sm_mapDecoderByKey (pw_manager V) [] = None" for urls V
    using that by (induction urls)
      (auto simp: Let_def then_call_def call_manager_def StreamManager_closeSupplementaryStream_def)
  let ?W1 = "setPlayerState PS_Stop p W"
  obtain r sm where c: "StreamManager_closeStream (player_states ?W1) (Some p) (pw_manager W) = (r, sm)" by fastforce
  have "pw_inv W" by (rule pw.reachable_inv [OF refl assms(1)])
  then obtain b where r: "r = Ret b"
    using closeStream_safe [of "pw_manager W" "player_states ?W1" "Some p"] c by (auto simp: pw_inv_def sm_safe_def)
  have sm: "sm_mapDecoderByKey sm [] = None" "sm_workers sm i = sm_workers (pw_manager W) i"
    using c assms(4,5) by (auto simp: StreamManager_closeStream_def with_worker_def Let_def split: option.splits)
  have p: "rp_urlToDecoderKey (pw_player ?W1 p) = m" using assms(2) by (simp add: setPlayerState_def upd_player_def)
  have "close_supplementary (map snd m) p (?W1\<lparr>pw_manager := sm\<rparr>) = (Ret (), ?W1\<lparr>pw_manager := sm\<rparr>)"
    using p sm(1) assms(3) by (intro no_call) (auto simp: hash_value_def)
  then have "RtspStreamPlayer_closeStream p ?W1 = (Ret (), ?W1\<lparr>pw_manager := sm\<rparr>)"
    using c r p by (simp add: RtspStreamPlayer_closeStream_def then_call_def call_manager_def)
  then show ?thesis using sm by (auto simp: RtspStreamPlayer_close_def then_call_def upd_player_def)
qed

theorem RtspStreamPlayer_close_leaks_witness:
  "\<exists>W' w. RtspStreamPlayer_close 0 (run_calls leak_calls pw_init) = (Ret (), W')
     \<and> sm_workers (pw_manager W') 0 = Some w \<and> \<not> sw_decoderPreparingToClose w \<and> sw_refPlayers w = []"
proof -
  let ?W = "run_calls leak_calls pw_init"
  have h: "\<forall>v \<in> set (map snd (rp_urlToDecoderKey (pw_player ?W 0))). map_of (rp_urlToDecoderKey (pw_player ?W 0)) v = None"
      "sm_mapDecoderByKey (pw_manager ?W) [] = None" "StreamManager_streamDecoderByPlayer (Some 0) (pw_manager ?W) \<noteq> Some 0"
    by (simp_all add: call_defs)
  have w: "\<exists>w. sm_workers (pw_manager ?W) 0 = Some w \<and> \<not> sw_decoderPreparingToClose w \<and> sw_refPlayers w = []"
    by (simp add: call_defs)
  show ?thesis
    using RtspStreamPlayer_close_leaks [OF run_calls_init [OF calls_are_fresh(1)] refl h] w by auto
qed

text \<open>
  \<open>switchStream\<close> can attach a player to a worker that is about to be closed: the worker of a stream whose last player has left is
  still found by its key, the request to resume is refused because the close is queued, and the worker goes away.  The player is then
  in the state \<open>Start\<close> with that stream as its current one, and has no decoder.
\<close>
theorem RtspStreamPlayer_switch_to_closing:
  "\<exists>ls W. exec pw_step pw_init ls W \<and> rp_playerState (pw_player W 0) = PS_Start \<and> rp_streamUrl (pw_player W 0) = ''b''
     \<and> StreamManager_streamDecoderByPlayer (Some 0) (pw_manager W) = None"
proof -
  let ?W = "run_calls switch_calls pw_init"
  have w: "\<exists>w. sm_workers (pw_manager ?W) 1 = Some w \<and> sw_once w \<and> sw_decoder w \<and> sw_tasks w = [Task_kClose]"
      and p: "rp_playerState (pw_player ?W 0) = PS_Start" "rp_streamUrl (pw_player ?W 0) = ''b''"
        "sm_mapDecoderByWidget (pw_manager ?W) (Some 0) = Some 1"
    by (simp_all add: call_defs)
  obtain ls W' where g: "exec pw_step ?W ls W'" "pw_player W' = pw_player ?W"
      "sm_mapDecoderByWidget (pw_manager W') = sm_mapDecoderByWidget (pw_manager ?W)" "sm_workers (pw_manager W') 1 = None"
    using w worker_goes [of ?W 1] by blast
  then have "StreamManager_streamDecoderByPlayer (Some 0) (pw_manager W') = None"
    using p by (simp add: StreamManager_streamDecoderByPlayer_def)
  moreover have "exec pw_step pw_init (map (\<lambda>(p, c). Called p c) switch_calls @ ls) W'"
    by (rule exec_append [OF run_calls_init [OF calls_are_fresh(2)] g(1)])
  ultimately show ?thesis using g(2) p(1,2) by metis
qed

end
