(* ===== verification/Spec2Isabelle.thy ===== *)
theory Spec2Isabelle
  imports ControllerPlays Reconnections AsyncOpens PauseHandshakes Recorders Loggers ApiControllers VaapiHelpers VideoRenders AudioRenders RtspStreamPlayers
begin

text \<open>
  \<^bold>\<open>DecoderSDK.\<close>  A model of the media decoding library under \<open>src/src/\<close> and of the parts of its Qt player under \<open>src/examples/qt_gui/\<close> that keep
  state of their own, and the theorems about them.

  \<^bold>\<open>The program.\<close>  A \<open>DecoderController\<close> owns a \<open>Demuxer\<close>, a \<open>VideoDecoder\<close>, an \<open>AudioDecoder\<close>, a
  \<open>StreamSyncManager\<close> and an \<open>EventDispatcher\<close>.  The demuxer's thread reads packets from FFmpeg, stamps them with the
  serial number of their \<open>PacketQueue\<close> and pushes them; it serves seeks by flushing the queues, which raises the serial
  number, loops files, reports read errors, counts the pre-buffer and hands packets to the \<open>RealTimeStreamRecorder\<close>.  The thread of
  each decoder takes packets of the current serial number, feeds the codec, converts and paces the frames and writes them into a
  \<open>FrameQueue\<close>, from which the user reads.  The controller opens, closes, starts, pauses and seeks all of them under one mutex,
  opens asynchronously, and reconnects in a thread of its own after a read error.  The public classes hold a pointer to the internal
  ones; a public queue is a handle that shares the ownership of the internal queue.

  The Qt player puts a worker with a task queue on top of each controller: the \<open>StreamManager\<close> finds or creates the worker
  of a stream, several \<open>RtspStreamPlayer\<close>s can share it.  A \<open>VideoRender\<close> renders frames into the buffers of a \<open>RenderBufferQueue\<close> in one
  thread, and another thread draws them.

  \<^bold>\<open>Theories\<close>, in the order of their imports, with the code they model.

    \<^item> \<open>Prelude\<close>: rounding, clamping, words and lists; the result type \<open>outcome\<close> (\<open>Ret\<close> a value, \<open>Wait\<close> while a call or a
      turn cannot go on, \<open>UB\<close> undefined behaviour of the C++ code).
    \<^item> \<open>Doubles\<close>: \<open>double\<close> as an exact number, an infinity or NaN; results are not rounded.  \<open>MediaFormats\<close>:
      \<open>utils/common_utils\<close> and the enumerations of \<open>common_define.h\<close>.
    \<^item> \<open>Queue_Interface\<close>: the contract of a bounded first-in first-out queue (locale), which both queues are
      interpretations of.  \<open>Packets\<close>, \<open>PacketQueues\<close>, \<open>Frames\<close>, \<open>FrameQueues\<close>: \<open>base/\<close>.
    \<^item> \<open>Clocks\<close>, \<open>StreamSync\<close>: \<open>stream_sync/\<close>.  \<open>EventDispatchers\<close>: \<open>event_system/\<close>.  \<open>Recorders\<close>: \<open>recorder/\<close>.
      \<open>Loggers\<close>: \<open>logger/\<close>.
    \<^item> \<open>Transition_Systems\<close>: executions, invariants and counters of step relations (locales).  \<open>Demuxers\<close>:
      \<open>demuxer/demuxer.cpp\<close>; \<open>DemuxTurns\<close>: properties every turn of its thread keeps (locale \<open>turn_invariant\<close>).
    \<^item> \<open>DecoderBases\<close>, \<open>DecodeLoops\<close>, \<open>HardwareAccels\<close>, \<open>NalBitstream\<close>, \<open>VideoDecoders\<close>, \<open>AudioDecoders\<close>:
      \<open>decoder/\<close>; the locale \<open>decoder_class\<close> is the contract of the hardware set-up that a derived class overrides, interpreted
      for the two classes.  \<open>PauseHandshakes\<close>: the flags and the condition variable between the callers and the
      worker threads, at the granularity of single loads, stores and notifications.
    \<^item> \<open>DecoderControllers\<close>: \<open>decoder_controller.cpp\<close>.  \<open>ControllerProperties\<close>: its invariant with all threads;
      \<open>Reconnections\<close>, \<open>ControllerPlays\<close>, \<open>AsyncOpens\<close>: the reconnecting thread, playing, the asynchronous open.
    \<^item> \<open>ApiFrames\<close>, \<open>ApiControllers\<close>: \<open>api/\<close>, with a heap of queues and their numbers of owners, and \<open>base/version.cpp\<close>.
      \<open>VaapiHelpers\<close>: \<open>vaapi/\<close>.
    \<^item> \<open>RenderBufferQueues\<close>, \<open>VideoRenders\<close>: \<open>VideoRender/RenderBufferQueue\<close> and \<open>VideoRender/VideoRender\<close> of the player; \<open>AudioRenders\<close>: \<open>VideoRender/AudioRender\<close>;
      \<open>StreamManagers\<close>: \<open>StreamDecodeWorker\<close> (the worker) and \<open>StreamManager\<close>; \<open>RtspStreamPlayers\<close>: \<open>RtspStreamPlayer\<close>.

  \<^bold>\<open>State and operations.\<close>  A class is a record with one field per data member (the prefix names the class: \<open>pq_\<close>, \<open>fq_\<close>,
  \<open>dm_\<close>, \<open>db_\<close>, \<open>co_\<close>, \<open>rq_\<close>, \<open>vr_\<close>, \<open>sw_\<close>, \<open>sm_\<close>), a method \<open>C::m\<close> a definition \<open>C_m\<close> that returns its result and the new state; the
  records of the derived decoders extend the one of \<open>DecoderBase\<close>.  Errors, early returns and missing objects are
  branches; a null pointer that is read, an index out of range and a conversion that does not fit are \<open>UB\<close>.
  Integers whose wrap-around can matter are words of their width, others are \<open>int\<close>.  Calls of FFmpeg, of the
  operating system and readings of the clock are arguments (records of results, such as \<open>open_calls\<close>, \<open>io_calls\<close>,
  \<open>codec_calls\<close>), and what a theorem needs of them is a named premise (\<open>open_calls_ok\<close>, \<open>audio_calls_ok\<close>,
  \<open>conversion_calls_ok\<close>).  Events are returned or recorded in the order in which they are triggered.

  A thread is a program counter with a definition per turn; a turn ends where the code waits or where another thread can
  make a difference, and step relations interleave the turns with the other threads.  A call that blocks is \<open>Wait\<close> and is
  made again.  Loops inside a call are structural or have a termination proof, except the recording loop, whose turns are
  iterated by a count; no result depends on fuel.

  \<^bold>\<open>What is proved.\<close>
    \<^item> Queues: no undefined behaviour, first in first out, totals, no lost wake-up, the two-phase write.
    \<^item> Demuxer: packets carry the serial number of their queue, a seek empties the queues, the limits of loops and of read
      errors.
    \<^item> Decoders: the life cycle never reads a null codec context; nothing before a key frame reaches the codec and no frame
      before a seek target the frame queue; output formats and sample arrangement; pacing follows the frame intervals; which
      hardware device is chosen.
    \<^item> Bitstream: parsing SEI messages is safe and inverts the encoding, the SPS repair is local and idempotent.
    \<^item> Clocks, recorder, dispatcher: the reading of a clock, the delay of a frame, sane time stamps, the order of events.
    \<^item> Logger: which files a clean-up keeps, where a message goes, when a shut-down reads a null logger.
    \<^item> Handshakes: stopping a video decoder terminates; stopping a paused demuxer or audio decoder can hang.
    \<^item> Controller: no call but a seek is undefined in any reachable state; reconnection is bounded, gives up and succeeds;
      an asynchronous open reports once; and where the code fails: a pre-buffer that is never left, a seek on a stale decoder, a
      speed only the clocks take.
    \<^item> Public classes: no sequence of handles reads a queue that is gone, and none is kept alive without an owner; a handle
      taken before there is a decoder blocks.  VA-API: what stays open when a display cannot be created, the format tables
      invert each other, what a saved surface contains.
    \<^item> Render buffers: the buffer that is drawn is never the one rendered into, frames are drawn in order, every
      fence is deleted once; and a frame whose rendering failed can be shown.  Audio output: a device only while playing, the volume makes no
      sample larger and does not overflow.
    \<^item> Streams of the player: no call reaches a deleted worker, requests are coalesced, every worker can be found until it is
      closed; and where the code fails: decoders that are never closed, a player attached to a worker that is going away.

  \<^bold>\<open>Not modelled.\<close>  Failure of memory allocation and exceptions of the standard library; rounding of doubles; sharing of
  sample buffers between frames; unsynchronised access to shared pointers.  The formatting of
  log messages and version texts.  Of the Qt player: the widgets, shaders and textures and the class \<open>StreamDecoder\<close>, whose state is inside
  Qt, OpenGL and the drivers, and what the workers do with their tasks; the other examples call the public classes in a fixed order.
  The vendored libraries.
\<close>

end
